(* ===== verification/Prelude.thy ===== *)
theory Prelude
  imports Main "HOL-Library.Multiset" "HOL-Library.Char_ord" "HOL-Library.List_Lexorder"
begin

text \<open>
  Shared vocabulary of the development: JavaScript values as the validators of
  \<^verbatim>\<open>src/src/domain\<close> see them, thrown errors as the left side of a sum, the checks
  that every policy module repeats (exact key sets, canonical UUIDs, safe integers, bounded text),
  and comparators with the stable \<^verbatim>\<open>Array.prototype.sort\<close>.

  Conventions. A string is a list of characters U+0000 to U+00FF, one per UTF-16 code unit: on
  these strings \<^verbatim>\<open>Array.from(s).length\<close> is \<^verbatim>\<open>s.length\<close> and NFC normalisation is the identity.
  A number is an integer (both zeros are 0) or one of the values that
  \<^verbatim>\<open>Number.isSafeInteger\<close> rejects for another reason. Integers are unbounded here; the code
  tests every input with \<^verbatim>\<open>Number.isSafeInteger\<close>, and rounding to a double is monotone and keeps
  the bounds \<open>2^53 - 1\<close> and \<open>2^53\<close> apart, so each of its safety tests has the same answer.
  Freezing an object has no effect on values and is left out.
\<close>

section \<open>Results and their collections of facts\<close>

named_theorems result_iffs "how a sequence of checks succeeds"
named_theorems check_iffs "what a successful check says of its argument"

definition bindE :: "'e + 'a \<Rightarrow> ('a \<Rightarrow> 'e + 'b) \<Rightarrow> 'e + 'b" where
  "bindE m f = (case m of Inl e \<Rightarrow> Inl e | Inr x \<Rightarrow> f x)"

text \<open>Evaluation runs a check before it looks at the rest of a sequence.\<close>

declare bindE_def [code_unfold]

lemma bindE_simps [simp]:
  "bindE (Inl e) f = Inl e"
  "bindE (Inr x) f = f x"
  by (simp_all add: bindE_def)

lemma bindE_cong [fundef_cong]:
  "m = m' \<Longrightarrow> (\<And>x. m' = Inr x \<Longrightarrow> f x = f' x) \<Longrightarrow> bindE m f = bindE m' f'"
  by (cases m') simp_all

lemma bindE_Inr_iff [result_iffs]:
  "bindE m f = Inr y \<longleftrightarrow> (\<exists>x. m = Inr x \<and> f x = Inr y)"
  by (cases m) simp_all

lemma bindE_Inl_iff:
  "bindE m f = Inl e \<longleftrightarrow> m = Inl e \<or> (\<exists>x. m = Inr x \<and> f x = Inl e)"
  by (cases m) simp_all

lemma if_Inl_eq_Inr [result_iffs]:
  "(if b then Inl e else m) = Inr y \<longleftrightarrow> \<not> b \<and> m = Inr y"
  by simp

lemma case_option_Inr [result_iffs]:
  "(case m of None \<Rightarrow> Inl e | Some x \<Rightarrow> f x) = Inr y \<longleftrightarrow> (\<exists>x. m = Some x \<and> f x = Inr y)"
  "(case m of None \<Rightarrow> k | Some x \<Rightarrow> Inl (g x)) = Inr y \<longleftrightarrow> m = None \<and> k = Inr y"
  by (cases m; simp)+

text \<open>\<^verbatim>\<open>array.map(f)\<close> with an \<open>f\<close> that may throw: the first error in list order wins.\<close>

fun mapE :: "('a \<Rightarrow> 'e + 'b) \<Rightarrow> 'a list \<Rightarrow> 'e + 'b list" where
  "mapE f [] = Inr []"
| "mapE f (x # xs) = bindE (f x) (\<lambda>y. bindE (mapE f xs) (\<lambda>ys. Inr (y # ys)))"

lemma mapE_cong [fundef_cong]:
  "xs = ys \<Longrightarrow> (\<And>x. x \<in> set ys \<Longrightarrow> f x = g x) \<Longrightarrow> mapE f xs = mapE g ys"
proof (induction ys arbitrary: xs)
  case Nil
  then show ?case by simp
next
  case (Cons y ys)
  from Cons.prems(2) have "mapE f ys = mapE g ys" by (intro Cons.IH) auto
  with Cons.prems show ?case by simp
qed

lemma mapE_Inr_iff [result_iffs]:
  "mapE f xs = Inr ys \<longleftrightarrow> list_all2 (\<lambda>x y. f x = Inr y) xs ys"
proof (induction xs arbitrary: ys)
  case Nil
  then show ?case by auto
next
  case (Cons x xs)
  then show ?case by (cases ys) (auto simp: bindE_Inr_iff)
qed

lemma mapE_Inr_length: "mapE f xs = Inr ys \<Longrightarrow> length ys = length xs"
  by (auto simp: mapE_Inr_iff dest: list_all2_lengthD)

lemma mapE_Inr_all:
  "mapE f xs = Inr ys \<Longrightarrow> (\<And>x y. f x = Inr y \<Longrightarrow> P y) \<Longrightarrow> y \<in> set ys \<Longrightarrow> P y"
  by (auto simp: mapE_Inr_iff list_all2_conv_all_nth in_set_conv_nth)

lemma mapE_map_Inr: "(\<And>x. x \<in> set xs \<Longrightarrow> f (g x) = Inr (h x)) \<Longrightarrow> mapE f (map g xs) = Inr (map h xs)"
  by (induction xs) simp_all

lemma mapE_all_Inr: "(\<And>x. x \<in> set xs \<Longrightarrow> f x = Inr (h x)) \<Longrightarrow> mapE f xs = Inr (map h xs)"
  using mapE_map_Inr [of xs f id h] by simp


text \<open>A \<^verbatim>\<open>for\<close> loop over an array whose body may throw, with the loop's variables as state.\<close>

fun foldE :: "('s \<Rightarrow> 'a \<Rightarrow> 'e + 's) \<Rightarrow> 's \<Rightarrow> 'a list \<Rightarrow> 'e + 's" where
  "foldE f s [] = Inr s"
| "foldE f s (x # xs) = bindE (f s x) (\<lambda>t. foldE f t xs)"

lemma foldE_cong [fundef_cong]:
  "s = t \<Longrightarrow> xs = ys \<Longrightarrow> (\<And>u x. x \<in> set ys \<Longrightarrow> f u x = g u x) \<Longrightarrow> foldE f s xs = foldE g t ys"
proof (induction ys arbitrary: xs s t)
  case Nil
  then show ?case by simp
next
  case (Cons y ys)
  have "foldE f u ys = foldE g u ys" for u by (rule Cons.IH) (use Cons.prems(3) in auto)
  with Cons.prems show ?case by simp
qed

lemma foldE_append: "foldE f s (xs @ ys) = bindE (foldE f s xs) (\<lambda>t. foldE f t ys)"
proof (induction xs arbitrary: s)
  case (Cons x xs)
  then show ?case by (cases "f s x") simp_all
qed simp

lemma foldE_invariant:
  "foldE f s xs = Inr t \<Longrightarrow> I s \<Longrightarrow> (\<And>u x v. x \<in> set xs \<Longrightarrow> I u \<Longrightarrow> f u x = Inr v \<Longrightarrow> I v) \<Longrightarrow> I t"
proof (induction xs arbitrary: s)
  case (Cons x xs)
  then obtain u where u: "f s x = Inr u" "foldE f u xs = Inr t" by (auto simp: bindE_Inr_iff)
  then have "I u" using Cons.prems by auto
  with Cons u show ?case by auto
qed simp

lemma foldE_Inl: "foldE f s xs = Inl e \<Longrightarrow> \<exists>u x. x \<in> set xs \<and> f u x = Inl e"
proof (induction xs arbitrary: s)
  case (Cons x xs)
  then show ?case by (cases "f s x") (auto, blast)
qed simp

lemma foldE_map_Inr: "(\<And>s x. x \<in> set xs \<Longrightarrow> f s (g x) = Inr (h s x)) \<Longrightarrow> foldE f s (map g xs) = Inr (foldl h s xs)"
  by (induction xs arbitrary: s) simp_all


section \<open>JavaScript values\<close>

text \<open>
  \<open>JOther\<close> is any number that is not an integer (a fraction, NaN or an infinity), \<open>JOpaque\<close> a
  function, symbol or bigint. An object is the list of its own enumerable string keys.
\<close>

datatype jsval =
    JUndef
  | JNull
  | JBool bool
  | JInt int
  | JOther
  | JOpaque
  | JStr string
  | JArr "jsval list"
  | JObj "(string \<times> jsval) list"

definition fld :: "jsval \<Rightarrow> string \<Rightarrow> jsval" where
  "fld v k = (case v of
     JObj ps \<Rightarrow> (case map_of ps k of None \<Rightarrow> JUndef | Some w \<Rightarrow> w)
   | _ \<Rightarrow> JUndef)"

definition has_own :: "jsval \<Rightarrow> string \<Rightarrow> bool" where
  "has_own v k = (case v of JObj ps \<Rightarrow> k \<in> fst ` set ps | _ \<Rightarrow> False)"

lemma fld_JObj_simps [simp]:
  "fld (JObj []) k = JUndef"
  "fld (JObj ((k', w) # ps)) k = (if k' = k then w else fld (JObj ps) k)"
  by (simp_all add: fld_def)

lemma has_own_simps [simp]:
  "has_own (JObj []) k \<longleftrightarrow> False"
  "has_own (JObj ((k', w) # ps)) k \<longleftrightarrow> k' = k \<or> has_own (JObj ps) k"
  by (auto simp: has_own_def)

text \<open>
  The key test every validator starts with: an object (not null, not an array) whose sorted keys
  are the sorted expected keys.
\<close>

definition exact_object :: "'e \<Rightarrow> string list \<Rightarrow> jsval \<Rightarrow> 'e + unit" where
  "exact_object e ks v = (case v of
     JObj ps \<Rightarrow> if sort (map fst ps) = sort ks then Inr () else Inl e
   | _ \<Rightarrow> Inl e)"

lemma sort_eq_iff_mset: "sort xs = sort ys \<longleftrightarrow> mset xs = mset ys"
  by (metis mset_sort properties_for_sort sorted_sort)

lemma exact_object_iff [check_iffs]:
  "exact_object e ks v = Inr u \<longleftrightarrow> (\<exists>ps. v = JObj ps \<and> mset (map fst ps) = mset ks)"
  by (cases v) (auto simp: exact_object_def sort_eq_iff_mset)

lemma exact_object_Inl_iff:
  "exact_object e ks v = Inl e' \<longleftrightarrow> e' = e \<and> \<not> (\<exists>ps. v = JObj ps \<and> mset (map fst ps) = mset ks)"
  by (cases v) (auto simp: exact_object_def sort_eq_iff_mset)

text \<open>Evaluation compares the keys without sorting them.\<close>

fun same_keys :: "string list \<Rightarrow> string list \<Rightarrow> bool" where
  "same_keys [] ys \<longleftrightarrow> ys = []"
| "same_keys (x # xs) ys \<longleftrightarrow> (if x \<in> set ys then same_keys xs (remove1 x ys) else False)"

lemma same_keys_iff: "same_keys xs ys \<longleftrightarrow> mset xs = mset ys"
proof (induction xs arbitrary: ys)
  case (Cons x xs)
  show ?case
  proof (cases "x \<in> set ys")
    case True
    then have ys: "mset ys = add_mset x (mset (remove1 x ys))" by simp
    show ?thesis unfolding ys mset.simps
      by (simp only: same_keys.simps True if_True Cons.IH add_mset_add_mset_same_iff)
  next
    case False
    then have "mset (x # xs) \<noteq> mset ys" by (metis list.set_intros(1) set_mset_mset)
    with False show ?thesis by simp
  qed
qed auto

lemma exact_object_code [code]:
  "exact_object e ks v = (case v of
     JObj ps \<Rightarrow> if same_keys (map fst ps) ks then Inr () else Inl e
   | _ \<Rightarrow> Inl e)"
  by (cases v) (simp_all add: exact_object_def same_keys_iff sort_eq_iff_mset)

lemma exact_object_JObj:
  "mset (map fst ps) = mset ks \<Longrightarrow> exact_object e ks (JObj ps) = Inr ()"
  by (simp add: exact_object_iff)

lemma exact_object_same_keys [simp]:
  "map fst ps = ks \<Longrightarrow> exact_object e ks (JObj ps) = Inr ()"
  by (auto intro: exact_object_JObj)

fun items :: "jsval \<Rightarrow> jsval list option" where
  "items (JArr vs) = Some vs"
| "items _ = None"

lemma items_Some_iff [check_iffs]: "items v = Some vs \<longleftrightarrow> v = JArr vs"
  by (cases v) auto

lemma case_items_Inr [result_iffs]:
  "(case items v of None \<Rightarrow> Inl e | Some vs \<Rightarrow> f vs) = Inr y \<longleftrightarrow> (\<exists>vs. v = JArr vs \<and> f vs = Inr y)"
  by (cases v) auto


section \<open>Safe integers\<close>

definition max_safe :: int where
  "max_safe = 9007199254740991"

definition max_timestamp :: int where
  "max_timestamp = 8640000000000000"

definition safe :: "int \<Rightarrow> bool" where
  "safe n \<longleftrightarrow> - max_safe \<le> n \<and> n \<le> max_safe"

text \<open>\<open>safe_between e lo hi\<close>: a safe integer of the given range, or the error.\<close>

definition safe_from :: "'e \<Rightarrow> int \<Rightarrow> jsval \<Rightarrow> 'e + int" where
  "safe_from e lo v = (case v of
     JInt n \<Rightarrow> if safe n \<and> lo \<le> n then Inr n else Inl e
   | _ \<Rightarrow> Inl e)"

definition safe_between :: "'e \<Rightarrow> int \<Rightarrow> int \<Rightarrow> jsval \<Rightarrow> 'e + int" where
  "safe_between e lo hi v = (case v of
     JInt n \<Rightarrow> if safe n \<and> lo \<le> n \<and> n \<le> hi then Inr n else Inl e
   | _ \<Rightarrow> Inl e)"

lemma safe_from_iff [check_iffs]:
  "safe_from e lo v = Inr n \<longleftrightarrow> v = JInt n \<and> safe n \<and> lo \<le> n"
  by (cases v) (auto simp: safe_from_def)

lemma safe_between_iff [check_iffs]:
  "safe_between e lo hi v = Inr n \<longleftrightarrow> v = JInt n \<and> safe n \<and> lo \<le> n \<and> n \<le> hi"
  by (cases v) (auto simp: safe_between_def)

lemma safe_from_Inl: "safe_from e lo v = Inl e' \<Longrightarrow> e' = e"
  by (cases v) (auto simp: safe_from_def split: if_splits)

lemma safe_between_Inl: "safe_between e lo hi v = Inl e' \<Longrightarrow> e' = e"
  by (cases v) (auto simp: safe_between_def split: if_splits)

definition nullable :: "(jsval \<Rightarrow> 'e + 'a) \<Rightarrow> jsval \<Rightarrow> 'e + 'a option" where
  "nullable f v = (if v = JNull then Inr None else bindE (f v) (\<lambda>x. Inr (Some x)))"

lemma nullable_iff:
  "nullable f v = Inr r \<longleftrightarrow>
     (v = JNull \<and> r = None) \<or> (v \<noteq> JNull \<and> (\<exists>x. f v = Inr x \<and> r = Some x))"
  by (auto simp: nullable_def bindE_Inr_iff)


section \<open>Text\<close>

definition hex_char :: "char \<Rightarrow> bool" where
  "hex_char c \<longleftrightarrow> c \<in> set ''0123456789abcdef''"

lemma hex_char_code [code]:
  "hex_char (Char b0 b1 b2 b3 b4 b5 b6 b7) \<longleftrightarrow>
     (if b7 \<or> \<not> b5 then False
      else if b6 then \<not> b4 \<and> \<not> b3 \<and> (b0 \<or> b1 \<or> b2) \<and> \<not> (b0 \<and> b1 \<and> b2)
      else b4 \<and> (\<not> b3 \<or> (\<not> b2 \<and> \<not> b1)))"
  by (cases b0; cases b1; cases b2; cases b3; cases b4; cases b5; cases b6; cases b7)
    (simp_all add: hex_char_def)

definition dash_char :: "char \<Rightarrow> bool" where
  "dash_char c \<longleftrightarrow> c = CHR ''-''"

definition version_char :: "char \<Rightarrow> bool" where
  "version_char c \<longleftrightarrow> c \<in> set ''12345''"

definition variant_char :: "char \<Rightarrow> bool" where
  "variant_char c \<longleftrightarrow> c \<in> set ''89ab''"

definition uuid_pattern :: "(char \<Rightarrow> bool) list" where
  "uuid_pattern =
     replicate 8 hex_char @ [dash_char] @ replicate 4 hex_char @ [dash_char] @
     [version_char] @ replicate 3 hex_char @ [dash_char] @
     [variant_char] @ replicate 3 hex_char @ [dash_char] @ replicate 12 hex_char"

definition is_uuid :: "string \<Rightarrow> bool" where
  "is_uuid s \<longleftrightarrow> list_all2 (\<lambda>p c. p c) uuid_pattern s"

definition stable_id :: "'e \<Rightarrow> jsval \<Rightarrow> 'e + string" where
  "stable_id e v = (case v of JStr s \<Rightarrow> if is_uuid s then Inr s else Inl e | _ \<Rightarrow> Inl e)"

lemma stable_id_iff [check_iffs]:
  "stable_id e v = Inr s \<longleftrightarrow> v = JStr s \<and> is_uuid s"
  by (cases v) (auto simp: stable_id_def)

lemma stable_id_JStr [simp]: "is_uuid s \<Longrightarrow> stable_id e (JStr s) = Inr s"
  by (simp add: stable_id_iff)

lemma list_all2_JStr_iff [check_iffs]:
  "list_all2 (\<lambda>v s. v = JStr s \<and> P s) vs ss \<longleftrightarrow> vs = map JStr ss \<and> list_all P ss"
  by (auto simp: list_all2_conv_all_nth list_all_length intro!: nth_equalityI)

lemma stable_id_Inl: "stable_id e v = Inl e' \<Longrightarrow> e' = e"
  by (cases v) (auto simp: stable_id_def split: if_splits)

lemma is_uuid_length: "is_uuid s \<Longrightarrow> length s = 36"
  by (drule list_all2_lengthD [OF iffD1 [OF is_uuid_def]]) (simp add: uuid_pattern_def)

definition js_space :: "char \<Rightarrow> bool" where
  "js_space c \<longleftrightarrow> (of_char c :: nat) \<in> {9, 10, 11, 12, 13, 32, 160}"

definition trim :: "string \<Rightarrow> string" where
  "trim s = rev (dropWhile js_space (rev (dropWhile js_space s)))"

definition control_char :: "char \<Rightarrow> bool" where
  "control_char c \<longleftrightarrow> (of_char c :: nat) \<le> 31 \<or> (127 \<le> (of_char c :: nat) \<and> (of_char c :: nat) \<le> 159)"

definition is_bounded_text :: "nat \<Rightarrow> string \<Rightarrow> bool" where
  "is_bounded_text maximum s \<longleftrightarrow>
     1 \<le> length s \<and> length s \<le> maximum \<and> trim s = s \<and> \<not> list_ex control_char s"

definition bounded_text :: "'e \<Rightarrow> nat \<Rightarrow> jsval \<Rightarrow> 'e + string" where
  "bounded_text e maximum v = (case v of
     JStr s \<Rightarrow> if is_bounded_text maximum s then Inr s else Inl e
   | _ \<Rightarrow> Inl e)"

lemma bounded_text_iff [check_iffs]:
  "bounded_text e m v = Inr s \<longleftrightarrow> v = JStr s \<and> is_bounded_text m s"
  by (cases v) (auto simp: bounded_text_def)

fun jstr_or_null :: "string option \<Rightarrow> jsval" where
  "jstr_or_null None = JNull"
| "jstr_or_null (Some s) = JStr s"

fun jint_or_null :: "int option \<Rightarrow> jsval" where
  "jint_or_null None = JNull"
| "jint_or_null (Some n) = JInt n"

lemma nullable_bounded_text_iff [check_iffs]:
  "nullable (bounded_text e m) v = Inr r \<longleftrightarrow> v = jstr_or_null r \<and> pred_option (is_bounded_text m) r"
  by (cases r) (auto simp: nullable_iff bounded_text_iff)

lemma nullable_stable_id_iff [check_iffs]:
  "nullable (stable_id e) v = Inr r \<longleftrightarrow> v = jstr_or_null r \<and> pred_option is_uuid r"
  by (cases r) (auto simp: nullable_iff stable_id_iff)

lemma nullable_safe_from_iff [check_iffs]:
  "nullable (safe_from e lo) v = Inr r \<longleftrightarrow> v = jint_or_null r \<and> pred_option (\<lambda>n. safe n \<and> lo \<le> n) r"
  by (cases r) (auto simp: nullable_iff safe_from_iff)

lemma nullable_safe_between_iff [check_iffs]:
  "nullable (safe_between e lo hi) v = Inr r \<longleftrightarrow>
     v = jint_or_null r \<and> pred_option (\<lambda>n. safe n \<and> lo \<le> n \<and> n \<le> hi) r"
  by (cases r) (auto simp: nullable_iff safe_between_iff)

definition one_of :: "'e \<Rightarrow> string list \<Rightarrow> jsval \<Rightarrow> 'e + string" where
  "one_of e ss v = (case v of JStr s \<Rightarrow> if s \<in> set ss then Inr s else Inl e | _ \<Rightarrow> Inl e)"

lemma one_of_iff [check_iffs]: "one_of e ss v = Inr s \<longleftrightarrow> v = JStr s \<and> s \<in> set ss"
  by (cases v) (auto simp: one_of_def)

text \<open>Identifiers for the witnesses: canonical UUIDs that differ in their eighth character.\<close>

definition sample_id :: "char \<Rightarrow> string" where
  "sample_id c = ''0000000'' @ c # ''-0000-4000-8000-000000000000''"

lemma sample_id_inj [simp]: "sample_id c = sample_id d \<longleftrightarrow> c = d"
  by (simp add: sample_id_def)

lemma is_uuid_sample_id [simp]: "hex_char c \<Longrightarrow> is_uuid (sample_id c)"
  by (simp add: is_uuid_def uuid_pattern_def sample_id_def numeral_eq_Suc
      dash_char_def version_char_def variant_char_def) (simp add: hex_char_def)

section \<open>Loading rows with unique keys\<close>

text \<open>
  The contract of the loops that fill a \<^verbatim>\<open>Map\<close> or \<^verbatim>\<open>Set\<close> from an array and throw at a
  malformed entry or a repeated key: \<open>ok\<close> is the shape of an entry, \<open>enc\<close> the row it
  becomes.
\<close>

locale unique_loader =
  fixes add :: "'r list \<Rightarrow> jsval \<Rightarrow> 'e + 'r list" and ok :: "jsval \<Rightarrow> bool"
    and enc :: "jsval \<Rightarrow> 'r" and key :: "'r \<Rightarrow> 'k"
  assumes add_iff: "add rows v = Inr rows' \<longleftrightarrow>
    ok v \<and> key (enc v) \<notin> key ` set rows \<and> rows' = rows @ [enc v]"
begin

lemma load_from_iff:
  "foldE add rows vs = Inr rows' \<longleftrightarrow> list_all ok vs \<and> distinct (map (key \<circ> enc) vs) \<and>
     (\<forall>v \<in> set vs. key (enc v) \<notin> key ` set rows) \<and> rows' = rows @ map enc vs"
proof (induction vs arbitrary: rows)
  case Nil
  then show ?case by auto
next
  case (Cons v vs)
  have "foldE add rows (v # vs) = Inr rows' \<longleftrightarrow>
      ok v \<and> key (enc v) \<notin> key ` set rows \<and> foldE add (rows @ [enc v]) vs = Inr rows'"
    by (auto simp: bindE_Inr_iff add_iff)
  then show ?case unfolding Cons.IH by (auto simp: comp_def image_iff)
qed

lemma load_iff:
  "foldE add [] vs = Inr rows \<longleftrightarrow> list_all ok vs \<and> distinct (map (key \<circ> enc) vs) \<and> rows = map enc vs"
  by (simp add: load_from_iff)

lemma load_outcome:
  assumes "\<And>rows v e'. add rows v = Inl e' \<Longrightarrow> e' = e"
  shows "foldE add [] vs = (if list_all ok vs \<and> distinct (map (key \<circ> enc) vs) then Inr (map enc vs) else Inl e)"
proof (cases "foldE add [] vs")
  case (Inl e')
  then obtain u v where "add u v = Inl e'" using foldE_Inl [of add "[]" vs e'] by blast
  then have "e' = e" by (rule assms)
  with Inl load_iff [of vs "map enc vs"] show ?thesis by auto
next
  case (Inr rows)
  then show ?thesis using load_iff by auto
qed

end

end
