(* ===== verification/Validation.thy ===== *)
theory Validation
  imports Prelude
begin

text \<open>
  What the command validators share. A validator reads a JavaScript object and returns a command
  record or the first error. The locale \<open>validator\<close> is their contract: the accepted objects
  are exactly the encodings of well-formed commands, in any order of the keys. Decimal numerals,
  the JSON text of flat objects and the rounding of a total to an average annual value, which
  several modules write out for themselves, stand here too.
\<close>

section \<open>Objects up to the order of their keys\<close>

definition same_object :: "jsval \<Rightarrow> (string \<times> jsval) list \<Rightarrow> bool" where
  "same_object v fs \<longleftrightarrow> (\<exists>ps. v = JObj ps \<and> mset ps = mset fs)"

lemma same_object_JObj [simp]: "same_object (JObj fs) fs"
  by (simp add: same_object_def)

lemma mset_eq_if_keys:
  assumes "mset (map fst ps) = mset (map fst fs)" and "distinct (map fst fs)"
    and "\<And>k w. (k, w) \<in> set fs \<Longrightarrow> map_of ps k = Some w"
  shows "mset ps = mset fs"
proof -
  have dist: "distinct (map fst ps)"
    using assms(1,2) by (metis mset_eq_imp_distinct_iff)
  have sub: "set fs \<subseteq> set ps" using assms(3) by (auto dest: map_of_SomeD)
  have "card (set ps) = card (set fs)"
    using dist assms(1,2) by (metis distinct_card distinct_map mset_eq_length length_map)
  then have "set ps = set fs" using sub by (metis List.finite_set card_subset_eq)
  then show ?thesis
    using dist assms(2) by (metis distinct_map set_eq_iff_mset_eq_distinct)
qed

lemma same_object_iff:
  assumes d: "distinct (map fst fs)"
  shows "same_object v fs \<longleftrightarrow>
    (\<exists>ps. v = JObj ps \<and> mset (map fst ps) = mset (map fst fs)) \<and>
    list_all (\<lambda>(k, w). has_own v k \<and> fld v k = w) fs"
proof
  assume "same_object v fs"
  then obtain ps where ps: "v = JObj ps" "mset ps = mset fs" by (auto simp: same_object_def)
  then have keys: "mset (map fst ps) = mset (map fst fs)" by simp
  then have "distinct (map fst ps)" using d by (metis mset_eq_imp_distinct_iff)
  moreover have "set ps = set fs" using ps(2) by (metis set_mset_mset)
  ultimately have "map_of ps k = Some w" if "(k, w) \<in> set fs" for k w
    using that by simp
  then have "list_all (\<lambda>(k, w). has_own v k \<and> fld v k = w) fs"
    using \<open>set ps = set fs\<close> by (force simp: list_all_iff fld_def has_own_def ps(1))
  with keys ps(1) show "(\<exists>ps. v = JObj ps \<and> mset (map fst ps) = mset (map fst fs)) \<and>
    list_all (\<lambda>(k, w). has_own v k \<and> fld v k = w) fs" by auto
next
  assume "(\<exists>ps. v = JObj ps \<and> mset (map fst ps) = mset (map fst fs)) \<and>
    list_all (\<lambda>(k, w). has_own v k \<and> fld v k = w) fs"
  then obtain ps where ps: "v = JObj ps" "mset (map fst ps) = mset (map fst fs)"
    and all: "list_all (\<lambda>(k, w). has_own v k \<and> fld v k = w) fs" by auto
  have "map_of ps k = Some w" if "(k, w) \<in> set fs" for k w
  proof -
    have "has_own v k" "fld v k = w" using all that by (auto simp: list_all_iff)
    then show ?thesis
      using ps(1) by (cases "map_of ps k") (auto simp: has_own_def fld_def map_of_eq_None_iff)
  qed
  then have "mset ps = mset fs" using ps(2) d by (intro mset_eq_if_keys) auto
  with ps(1) show "same_object v fs" by (auto simp: same_object_def)
qed

lemma has_own_if_keys:
  "mset (map fst ps) = mset ks \<Longrightarrow> has_own (JObj ps) k \<longleftrightarrow> k \<in> set ks"
  using mset_eq_setD [of "map fst ps" ks] by (simp add: has_own_def)

text \<open>
  The form in which the component proofs use it: after the exact-key test, an object is an
  encoding as soon as the fields agree.
\<close>

lemma same_object_fields:
  assumes "distinct (map fst fs)"
  shows "same_object v fs \<longleftrightarrow>
    exact_object e (map fst fs) v = Inr () \<and> list_all (\<lambda>(k, w). fld v k = w) fs"
proof -
  have "list_all (\<lambda>(k, w). has_own v k \<and> fld v k = w) fs \<longleftrightarrow> list_all (\<lambda>(k, w). fld v k = w) fs"
    if "v = JObj ps" "mset (map fst ps) = mset (map fst fs)" for ps
    using has_own_if_keys [OF that(2)] that(1) by (force simp: list_all_iff)
  then show ?thesis
    unfolding same_object_iff [OF assms] exact_object_iff by auto
qed

section \<open>The contract of a validator\<close>

locale validator =
  fixes parse :: "jsval \<Rightarrow> 'e + 'c"
    and encode :: "'c \<Rightarrow> (string \<times> jsval) list"
    and wf :: "'c \<Rightarrow> bool"
  assumes accepts_iff: "parse v = Inr c \<longleftrightarrow> wf c \<and> same_object v (encode c)"
begin

lemma parse_encode: "wf c \<Longrightarrow> parse (JObj (encode c)) = Inr c"
  by (simp add: accepts_iff)

lemma parse_wf: "parse v = Inr c \<Longrightarrow> wf c"
  by (simp add: accepts_iff)

lemma key_order_irrelevant:
  "mset ps = mset qs \<Longrightarrow> parse (JObj ps) = Inr c \<longleftrightarrow> parse (JObj qs) = Inr c"
  by (auto simp: accepts_iff same_object_def)

lemma encode_inj:
  assumes "wf c" "wf d" "mset (encode c) = mset (encode d)"
  shows "c = d"
proof -
  have "parse (JObj (encode d)) = Inr c"
    using key_order_irrelevant [OF assms(3)] parse_encode [OF assms(1)] by blast
  then show ?thesis using parse_encode [OF assms(2)] by simp
qed

lemma mapE_parse_wf: "mapE parse vs = Inr cs \<Longrightarrow> list_all wf cs"
  by (auto simp: list_all_iff intro: mapE_Inr_all parse_wf)

lemma mapE_parse_encode:
  "list_all wf cs \<Longrightarrow> mapE parse (map (\<lambda>c. JObj (encode c)) cs) = Inr cs"
  using mapE_map_Inr [of cs parse "\<lambda>c. JObj (encode c)" id]
  by (simp add: list_all_iff parse_encode)

end

text \<open>How a component shows that its parser and encoder form a validator.\<close>

lemma validatorI:
  assumes keys: "\<And>c. map fst (encode c) = ks" and dist: "distinct ks"
    and iff: "\<And>v c. parse v = Inr c \<longleftrightarrow>
      ok c \<and> exact_object e ks v = Inr () \<and> list_all (\<lambda>(k, w). fld v k = w) (encode c)"
  shows "validator parse encode ok"
proof
  fix v c
  have "distinct (map fst (encode c))" using keys dist by simp
  from same_object_fields [OF this, of v e] show "parse v = Inr c \<longleftrightarrow> ok c \<and> same_object v (encode c)"
    by (simp add: iff keys)
qed

section \<open>Numerals and JSON text\<close>

fun digit_char :: "nat \<Rightarrow> char" where
  "digit_char n = char_of (48 + n)"

fun nat_text :: "nat \<Rightarrow> string" where
  "nat_text n = (if n < 10 then [digit_char n] else nat_text (n div 10) @ [digit_char (n mod 10)])"

declare nat_text.simps [simp del]

definition int_text :: "int \<Rightarrow> string" where
  "int_text n = (if n < 0 then CHR ''-'' # nat_text (nat (- n)) else nat_text (nat n))"

definition digit_value :: "char \<Rightarrow> nat" where
  "digit_value c = of_char c - 48"

definition text_nat :: "string \<Rightarrow> nat" where
  "text_nat s = foldl (\<lambda>a c. 10 * a + digit_value c) 0 s"

lemma digit_value_digit_char: "n < 10 \<Longrightarrow> digit_value (digit_char n) = n"
  by (simp add: digit_value_def of_char_of)

lemma text_nat_nat_text [simp]: "text_nat (nat_text n) = n"
proof (induction n rule: nat_text.induct)
  case (1 n)
  show ?case
  proof (cases "n < 10")
    case True
    then show ?thesis
      by (simp add: nat_text.simps [of n] text_nat_def digit_value_digit_char del: digit_char.simps)
  next
    case False
    then have "text_nat (nat_text (n div 10)) = n div 10" using 1 by simp
    then have "text_nat (nat_text n) = 10 * (n div 10) + digit_value (digit_char (n mod 10))"
      using False by (simp add: nat_text.simps [of n] text_nat_def del: digit_char.simps)
    also have "digit_value (digit_char (n mod 10)) = n mod 10"
      by (rule digit_value_digit_char) simp
    finally show ?thesis by simp
  qed
qed

lemma nat_text_inj [simp]: "nat_text m = nat_text n \<longleftrightarrow> m = n"
  by (metis text_nat_nat_text)

lemma int_text_inj_nonneg: "0 \<le> m \<Longrightarrow> 0 \<le> n \<Longrightarrow> int_text m = int_text n \<longleftrightarrow> m = n"
  by (auto simp: int_text_def)

definition hex_digit_upper :: "nat \<Rightarrow> char" where
  "hex_digit_upper n = ''0123456789abcdef'' ! n"

definition json_char :: "char \<Rightarrow> string" where
  "json_char c = (let n = of_char c :: nat in
     if c = CHR 0x22 then [CHR 0x5C, CHR 0x22]
     else if c = CHR 0x5C then [CHR 0x5C, CHR 0x5C]
     else if n = 8 then [CHR 0x5C, CHR ''b'']
     else if n = 9 then [CHR 0x5C, CHR ''t'']
     else if n = 10 then [CHR 0x5C, CHR ''n'']
     else if n = 12 then [CHR 0x5C, CHR ''f'']
     else if n = 13 then [CHR 0x5C, CHR ''r'']
     else if n < 32 then CHR 0x5C # ''u00'' @ [hex_digit_upper (n div 16), hex_digit_upper (n mod 16)]
     else [c])"

text \<open>Most characters are written as they are: evaluation looks at three bits.\<close>

definition json_control :: "char \<Rightarrow> string" where
  "json_control c = json_char c"

lemma json_control_code [code]:
  "json_control c = (let n = of_char c :: nat in
     if n = 8 then [CHR 0x5C, CHR ''b'']
     else if n = 9 then [CHR 0x5C, CHR ''t'']
     else if n = 10 then [CHR 0x5C, CHR ''n'']
     else if n = 12 then [CHR 0x5C, CHR ''f'']
     else if n = 13 then [CHR 0x5C, CHR ''r'']
     else if n < 32 then CHR 0x5C # ''u00'' @ [hex_digit_upper (n div 16), hex_digit_upper (n mod 16)]
     else if c = CHR 0x22 \<or> c = CHR 0x5C then [CHR 0x5C, c] else [c])"
  by (auto simp: json_control_def json_char_def Let_def)

lemma json_char_code [code]:
  "json_char (Char b0 b1 b2 b3 b4 b5 b6 b7) =
     (if b5 \<and> (b3 \<or> b4 \<or> b6) then [Char b0 b1 b2 b3 b4 b5 b6 b7]
      else json_control (Char b0 b1 b2 b3 b4 b5 b6 b7))"
  by (cases b0; cases b1; cases b2; cases b3; cases b4; cases b5; cases b6; cases b7)
    (simp_all add: json_control_def json_char_def of_char_Char)

definition json_string :: "string \<Rightarrow> string" where
  "json_string s = CHR 0x22 # concat (map json_char s) @ [CHR 0x22]"

text \<open>\<^verbatim>\<open>JSON.stringify\<close> of a scalar and of an object of scalars.\<close>

fun json_scalar :: "jsval \<Rightarrow> string" where
  "json_scalar (JBool b) = (if b then ''true'' else ''false'')"
| "json_scalar (JInt n) = int_text n"
| "json_scalar (JStr s) = json_string s"
| "json_scalar _ = ''null''"

fun join :: "string \<Rightarrow> string list \<Rightarrow> string" where
  "join sep [] = []"
| "join sep [s] = s"
| "join sep (s # t # ss) = s @ sep @ join sep (t # ss)"

definition json_object :: "(string \<times> jsval) list \<Rightarrow> string" where
  "json_object ps =
     ''{'' @ join '','' (map (\<lambda>(k, w). json_string k @ '':'' @ json_scalar w) ps) @ ''}''"

section \<open>Rounding a total to an average annual value\<close>

text \<open>
  \<^verbatim>\<open>Math.floor(total / term) + (remainder * 2 >= term ? 1 : 0)\<close>, written out in five of the
  modules: the quotient rounded half up.
\<close>

definition rounded_aav :: "int \<Rightarrow> int \<Rightarrow> int" where
  "rounded_aav tot y = tot div y + (if y \<le> (tot mod y) * 2 then 1 else 0)"

lemma rounded_aav_split:
  assumes "0 < y"
  obtains q r where "tot = y * q + r" "0 \<le> r" "r < y"
    and "rounded_aav tot y = q + (if y \<le> r * 2 then 1 else 0)"
proof
  show "tot = y * (tot div y) + tot mod y" by simp
qed (use assms in \<open>simp_all add: rounded_aav_def\<close>)

lemma rounded_aav_error:
  assumes "0 < y"
  shows "\<bar>2 * (y * rounded_aav tot y - tot)\<bar> \<le> y"
proof -
  obtain q r where "tot = y * q + r" "0 \<le> r" "r < y"
    and "rounded_aav tot y = q + (if y \<le> r * 2 then 1 else 0)"
    using assms by (rule rounded_aav_split)
  then show ?thesis by (simp add: algebra_simps)
qed

lemma rounded_aav_exact: "0 < y \<Longrightarrow> rounded_aav (aav * y) y = aav"
  by (simp add: rounded_aav_def)

text \<open>The average is at least \<open>a\<close> exactly when the doubled total reaches \<open>(2 a - 1) y\<close>.\<close>

lemma le_rounded_aav_iff:
  assumes y: "0 < y"
  shows "a \<le> rounded_aav tot y \<longleftrightarrow> (2 * a - 1) * y \<le> 2 * tot"
proof -
  obtain q r where tot: "tot = y * q + r" "0 \<le> r" "r < y"
    and avg: "rounded_aav tot y = q + (if y \<le> r * 2 then 1 else 0)"
    using y by (rule rounded_aav_split)
  have dbl: "(2 * a - 1) * y = 2 * (a * y) - y" "(q + 2) * y = q * y + 2 * y"
      "tot = q * y + r"
    using tot(1) by (simp_all add: algebra_simps)
  consider "a \<le> q" | "a = q + 1" | "q + 2 \<le> a" by linarith
  then show ?thesis
  proof cases
    case 1
    then have "a * y \<le> q * y" using y by (intro mult_right_mono) auto
    then have "(2 * a - 1) * y \<le> 2 * tot" using tot(2,3) y dbl by linarith
    with 1 show ?thesis by (simp add: avg)
  next
    case 2
    have "(2 * a - 1) * y \<le> 2 * tot \<longleftrightarrow> y \<le> r * 2"
      unfolding 2 tot(1) by (simp add: algebra_simps)
    with 2 show ?thesis by (simp add: avg)
  next
    case 3
    then have "(q + 2) * y \<le> a * y" using y by (intro mult_right_mono) auto
    then have "\<not> (2 * a - 1) * y \<le> 2 * tot" using tot(2,3) y dbl by linarith
    with 3 show ?thesis by (simp add: avg)
  qed
qed

lemma rounded_aav_mono:
  assumes "0 < y" and "tot \<le> tot'"
  shows "rounded_aav tot y \<le> rounded_aav tot' y"
proof -
  have "(2 * rounded_aav tot y - 1) * y \<le> 2 * tot"
    using le_rounded_aav_iff [OF assms(1), of "rounded_aav tot y" tot] by simp
  then show ?thesis using le_rounded_aav_iff [OF assms(1)] assms(2) by simp
qed

end
