(* ===== verification/ContractPolicy.thy ===== *)
theory ContractPolicy
  imports Validation
begin

text \<open>
  \<^verbatim>\<open>src/src/domain/contracts/contractPolicy.js\<close>: the value of a normal contract, the schedule of
  its seasons and the rows that are inserted when a normal contract or a fantasy entry-level
  contract is created. The lemmas show the shape of the created rows and bound the difference
  between the yearly amounts and the negotiated total.
\<close>

section \<open>Errors and field checks\<close>

datatype contract_code =
    ContractInputInvalid
  | ContractStableIdInvalid
  | ContractTotalValueInvalid
  | ContractTermInvalid
  | ContractPrecisionInvalid
  | ContractSeasonScheduleInvalid
  | ContractSourceInvalid
  | ContractTimestampInvalid

definition contract_exactObject :: "string list \<Rightarrow> jsval \<Rightarrow> contract_code + unit" where
  "contract_exactObject = exact_object ContractInputInvalid"

definition contract_stableId :: "jsval \<Rightarrow> contract_code + string" where
  "contract_stableId = stable_id ContractStableIdInvalid"

definition contract_optionalStableId :: "jsval \<Rightarrow> contract_code + string option" where
  "contract_optionalStableId = nullable contract_stableId"

definition contract_safeTimestamp :: "jsval \<Rightarrow> contract_code + int" where
  "contract_safeTimestamp = safe_from ContractTimestampInvalid 0"

definition contract_optionalTimestamp :: "jsval \<Rightarrow> contract_code + int option" where
  "contract_optionalTimestamp = nullable contract_safeTimestamp"

definition contract_sourceType :: "jsval \<Rightarrow> contract_code + string" where
  "contract_sourceType = bounded_text ContractSourceInvalid 100"

definition contractTerm :: "jsval \<Rightarrow> contract_code + int" where
  "contractTerm = safe_between ContractTermInvalid 1 3"

lemmas contract_field_defs =
  contract_exactObject_def contract_stableId_def contract_optionalStableId_def
  contract_safeTimestamp_def contract_optionalTimestamp_def contract_sourceType_def
  contractTerm_def

section \<open>The value of a contract\<close>

definition calculateRoundedAavCents :: "jsval \<Rightarrow> jsval \<Rightarrow> contract_code + int" where
  "calculateRoundedAavCents originalTotalValueCents termYears =
     bindE (contractTerm termYears) (\<lambda>y.
     bindE (safe_from ContractTotalValueInvalid 1 originalTotalValueCents) (\<lambda>tot.
     Inr (rounded_aav tot y)))"

record contract_value =
  cv_originalTotalValueCents :: int
  cv_termYears :: int
  cv_aavCents :: int

definition normalContractValue :: "jsval \<Rightarrow> jsval \<Rightarrow> contract_code + contract_value" where
  "normalContractValue originalTotalValueCents termYears =
     bindE (contractTerm termYears) (\<lambda>y.
     bindE (safe_from ContractTotalValueInvalid (y * 100) originalTotalValueCents) (\<lambda>tot.
     if 1 < y \<and> tot mod 100 \<noteq> 0 \<and> tot mod (y * 25) \<noteq> 0 then Inl ContractPrecisionInvalid
     else
     bindE (calculateRoundedAavCents (JInt tot) (JInt y)) (\<lambda>aav.
     Inr \<lparr>cv_originalTotalValueCents = tot, cv_termYears = y, cv_aavCents = aav\<rparr>)))"

definition validateSchedule :: "jsval \<Rightarrow> int \<Rightarrow> string \<Rightarrow> contract_code + string list" where
  "validateSchedule ids termYears startSeasonId =
     (case items ids of
        None \<Rightarrow> Inl ContractSeasonScheduleInvalid
      | Some vs \<Rightarrow>
          if int (length vs) \<noteq> termYears then Inl ContractSeasonScheduleInvalid
          else
          bindE (mapE contract_stableId vs) (\<lambda>seasonIds.
          if take 1 seasonIds \<noteq> [startSeasonId] \<or> \<not> distinct seasonIds
          then Inl ContractSeasonScheduleInvalid
          else Inr seasonIds))"

section \<open>Lookups\<close>

definition validateContractLookup :: "jsval \<Rightarrow> contract_code + (string \<times> string)" where
  "validateContractLookup input =
     bindE (contract_exactObject [''leagueId'', ''playerId''] input) (\<lambda>_.
     bindE (contract_stableId (fld input ''leagueId'')) (\<lambda>leagueId.
     bindE (contract_stableId (fld input ''playerId'')) (\<lambda>playerId.
     Inr (leagueId, playerId))))"

definition validateContractYearLookup :: "jsval \<Rightarrow> contract_code + (string \<times> string)" where
  "validateContractYearLookup input =
     bindE (contract_exactObject [''leagueId'', ''contractId''] input) (\<lambda>_.
     bindE (contract_stableId (fld input ''leagueId'')) (\<lambda>leagueId.
     bindE (contract_stableId (fld input ''contractId'')) (\<lambda>contractId.
     Inr (leagueId, contractId))))"

section \<open>Rows\<close>

record contract_row =
  c_id :: string
  c_league_id :: string
  c_player_id :: string
  c_current_team_id :: string
  c_contract_type :: string
  c_original_total_value_cents :: int
  c_original_term_years :: int
  c_aav_cents :: int
  c_start_season_id :: string
  c_status :: string
  c_acquisition_source_type :: string
  c_acquisition_source_id :: "string option"
  c_auction_buyout_lock_expires_at_ms :: "int option"
  c_created_at_ms :: int
  c_updated_at_ms :: int
  c_version :: int

record contract_year_row =
  cy_id :: string
  cy_league_id :: string
  cy_contract_id :: string
  cy_season_id :: string
  cy_year_number :: int
  cy_aav_cents :: int
  cy_status :: string
  cy_rollover_at_ms :: "int option"
  cy_created_at_ms :: int

record contract_event_row =
  ce_id :: string
  ce_league_id :: string
  ce_contract_id :: string
  ce_player_id :: string
  ce_team_id :: string
  ce_actor_user_id :: "string option"
  ce_event_type :: string
  ce_source_type :: string
  ce_source_id :: "string option"
  ce_metadata_json :: string
  ce_reason :: "string option"
  ce_occurred_at_ms :: int

record contract_aggregate =
  ca_contract :: contract_row
  ca_years :: "contract_year_row list"
  ca_event :: contract_event_row

text \<open>\<^verbatim>\<open>seasonIds.map((seasonId, index) => ...)\<close>: the first year is current, the others future.\<close>

definition contract_year_rows ::
  "string list \<Rightarrow> string list \<Rightarrow> string \<Rightarrow> string \<Rightarrow> int \<Rightarrow> int \<Rightarrow> contract_year_row list" where
  "contract_year_rows contractYearIds seasonIds leagueId contractId aav occurredAtMs =
     map (\<lambda>(index, yearId, seasonId).
       \<lparr>cy_id = yearId,
        cy_league_id = leagueId,
        cy_contract_id = contractId,
        cy_season_id = seasonId,
        cy_year_number = int index + 1,
        cy_aav_cents = aav,
        cy_status = (if index = 0 then ''current'' else ''future''),
        cy_rollover_at_ms = None,
        cy_created_at_ms = occurredAtMs\<rparr>)
       (enumerate 0 (zip contractYearIds seasonIds))"

definition contract_metadata :: "string \<Rightarrow> int \<Rightarrow> int \<Rightarrow> int \<Rightarrow> string \<Rightarrow> string" where
  "contract_metadata contractType tot y aav startSeasonId =
     json_object [(''contractType'', JStr contractType),
       (''originalTotalValueCents'', JInt tot),
       (''originalTermYears'', JInt y),
       (''aavCents'', JInt aav),
       (''startSeasonId'', JStr startSeasonId)]"

definition validateYearIds :: "jsval \<Rightarrow> int \<Rightarrow> contract_code + string list" where
  "validateYearIds ids y =
     (case items ids of
        None \<Rightarrow> Inl ContractSeasonScheduleInvalid
      | Some vs \<Rightarrow>
          if int (length vs) \<noteq> y then Inl ContractSeasonScheduleInvalid
          else
          bindE (mapE contract_stableId vs) (\<lambda>contractYearIds.
          if \<not> distinct contractYearIds then Inl ContractSeasonScheduleInvalid
          else Inr contractYearIds))"

section \<open>Creating a normal contract\<close>

definition normal_contract_keys :: "string list" where
  "normal_contract_keys =
     [''contractId'', ''contractYearIds'', ''contractEventId'', ''leagueId'', ''playerId'',
      ''teamId'', ''originalTotalValueCents'', ''termYears'', ''startSeasonId'', ''seasonIds'',
      ''acquisitionSourceType'', ''acquisitionSourceId'', ''auctionBuyoutLockExpiresAtMs'',
      ''actorUserId'', ''occurredAtMs'']"

definition createNormalContractAggregate :: "jsval \<Rightarrow> contract_code + contract_aggregate" where
  "createNormalContractAggregate input =
     bindE (contract_exactObject normal_contract_keys input) (\<lambda>_.
     bindE (contract_stableId (fld input ''contractId'')) (\<lambda>contractId.
     bindE (contract_stableId (fld input ''contractEventId'')) (\<lambda>contractEventId.
     bindE (contract_stableId (fld input ''leagueId'')) (\<lambda>leagueId.
     bindE (contract_stableId (fld input ''playerId'')) (\<lambda>playerId.
     bindE (contract_stableId (fld input ''teamId'')) (\<lambda>teamId.
     bindE (contract_stableId (fld input ''startSeasonId'')) (\<lambda>startSeasonId.
     bindE (normalContractValue (fld input ''originalTotalValueCents'') (fld input ''termYears'')) (\<lambda>val.
     bindE (validateSchedule (fld input ''seasonIds'') (cv_termYears val) startSeasonId) (\<lambda>seasonIds.
     bindE (validateYearIds (fld input ''contractYearIds'') (cv_termYears val)) (\<lambda>contractYearIds.
     bindE (contract_sourceType (fld input ''acquisitionSourceType'')) (\<lambda>acquisitionSourceType.
     bindE (contract_optionalStableId (fld input ''acquisitionSourceId'')) (\<lambda>acquisitionSourceId.
     bindE (contract_optionalTimestamp (fld input ''auctionBuyoutLockExpiresAtMs'')) (\<lambda>lockExpiresAtMs.
     bindE (contract_optionalStableId (fld input ''actorUserId'')) (\<lambda>actorUserId.
     bindE (contract_safeTimestamp (fld input ''occurredAtMs'')) (\<lambda>occurredAtMs.
     Inr \<lparr>ca_contract =
            \<lparr>c_id = contractId,
             c_league_id = leagueId,
             c_player_id = playerId,
             c_current_team_id = teamId,
             c_contract_type = ''normal'',
             c_original_total_value_cents = cv_originalTotalValueCents val,
             c_original_term_years = cv_termYears val,
             c_aav_cents = cv_aavCents val,
             c_start_season_id = startSeasonId,
             c_status = ''active'',
             c_acquisition_source_type = acquisitionSourceType,
             c_acquisition_source_id = acquisitionSourceId,
             c_auction_buyout_lock_expires_at_ms = lockExpiresAtMs,
             c_created_at_ms = occurredAtMs,
             c_updated_at_ms = occurredAtMs,
             c_version = 1\<rparr>,
          ca_years = contract_year_rows contractYearIds seasonIds leagueId contractId
            (cv_aavCents val) occurredAtMs,
          ca_event =
            \<lparr>ce_id = contractEventId,
             ce_league_id = leagueId,
             ce_contract_id = contractId,
             ce_player_id = playerId,
             ce_team_id = teamId,
             ce_actor_user_id = actorUserId,
             ce_event_type = ''contract_created'',
             ce_source_type = acquisitionSourceType,
             ce_source_id = acquisitionSourceId,
             ce_metadata_json = contract_metadata ''normal'' (cv_originalTotalValueCents val)
               (cv_termYears val) (cv_aavCents val) startSeasonId,
             ce_reason = None,
             ce_occurred_at_ms = occurredAtMs\<rparr>\<rparr>)))))))))))))))"

section \<open>Creating a fantasy entry-level contract\<close>

definition fantasy_elc_keys :: "string list" where
  "fantasy_elc_keys =
     [''contractId'', ''contractYearIds'', ''contractEventId'', ''leagueId'', ''playerId'',
      ''teamId'', ''startSeasonId'', ''seasonIds'', ''acquisitionSourceId'', ''actorUserId'',
      ''occurredAtMs'']"

definition createFantasyElcAggregate :: "jsval \<Rightarrow> contract_code + contract_aggregate" where
  "createFantasyElcAggregate input =
     bindE (contract_exactObject fantasy_elc_keys input) (\<lambda>_.
     bindE (contract_stableId (fld input ''contractId'')) (\<lambda>contractId.
     bindE (contract_stableId (fld input ''contractEventId'')) (\<lambda>contractEventId.
     bindE (contract_stableId (fld input ''leagueId'')) (\<lambda>leagueId.
     bindE (contract_stableId (fld input ''playerId'')) (\<lambda>playerId.
     bindE (contract_stableId (fld input ''teamId'')) (\<lambda>teamId.
     bindE (contract_stableId (fld input ''startSeasonId'')) (\<lambda>startSeasonId.
     bindE (validateSchedule (fld input ''seasonIds'') 3 startSeasonId) (\<lambda>seasonIds.
     bindE (validateYearIds (fld input ''contractYearIds'') 3) (\<lambda>contractYearIds.
     bindE (contract_stableId (fld input ''acquisitionSourceId'')) (\<lambda>acquisitionSourceId.
     bindE (contract_stableId (fld input ''actorUserId'')) (\<lambda>actorUserId.
     bindE (contract_safeTimestamp (fld input ''occurredAtMs'')) (\<lambda>occurredAtMs.
     Inr \<lparr>ca_contract =
            \<lparr>c_id = contractId,
             c_league_id = leagueId,
             c_player_id = playerId,
             c_current_team_id = teamId,
             c_contract_type = ''fantasy_elc'',
             c_original_total_value_cents = 300,
             c_original_term_years = 3,
             c_aav_cents = 100,
             c_start_season_id = startSeasonId,
             c_status = ''active'',
             c_acquisition_source_type = ''fantasy_elc'',
             c_acquisition_source_id = Some acquisitionSourceId,
             c_auction_buyout_lock_expires_at_ms = None,
             c_created_at_ms = occurredAtMs,
             c_updated_at_ms = occurredAtMs,
             c_version = 1\<rparr>,
          ca_years = contract_year_rows contractYearIds seasonIds leagueId contractId
            100 occurredAtMs,
          ca_event =
            \<lparr>ce_id = contractEventId,
             ce_league_id = leagueId,
             ce_contract_id = contractId,
             ce_player_id = playerId,
             ce_team_id = teamId,
             ce_actor_user_id = Some actorUserId,
             ce_event_type = ''fantasy_elc_created'',
             ce_source_type = ''fantasy_elc'',
             ce_source_id = Some acquisitionSourceId,
             ce_metadata_json = contract_metadata ''fantasy_elc'' 300 3 100 startSeasonId,
             ce_reason = None,
             ce_occurred_at_ms = occurredAtMs\<rparr>\<rparr>))))))))))))"

section \<open>The schedule of a contract\<close>

text \<open>
  What the other components rely on: one row per season, the first current and the others future,
  numbered from 1, each with the same average annual value, ids and seasons pairwise distinct.
\<close>

definition contract_years_ok :: "contract_row \<Rightarrow> contract_year_row list \<Rightarrow> bool" where
  "contract_years_ok c ys \<longleftrightarrow>
     int (length ys) = c_original_term_years c \<and>
     map cy_year_number ys = map (\<lambda>i. int i + 1) [0..<length ys] \<and>
     map cy_status ys = ''current'' # replicate (length ys - 1) ''future'' \<and>
     distinct (map cy_id ys) \<and> distinct (map cy_season_id ys) \<and>
     cy_season_id (hd ys) = c_start_season_id c \<and>
     list_all (\<lambda>y. cy_aav_cents y = c_aav_cents c \<and> cy_contract_id y = c_id c \<and>
       cy_league_id y = c_league_id c) ys"

lemma contract_year_rows_maps:
  assumes "length ids = length seasons"
  shows "map cy_id (contract_year_rows ids seasons l c a t) = ids"
    and "map cy_season_id (contract_year_rows ids seasons l c a t) = seasons"
    and "map cy_year_number (contract_year_rows ids seasons l c a t) =
      map (\<lambda>i. int i + 1) [0..<length ids]"
    and "map cy_aav_cents (contract_year_rows ids seasons l c a t) = replicate (length ids) a"
    and "length (contract_year_rows ids seasons l c a t) = length ids"
  using assms
  by (auto simp: contract_year_rows_def nth_enumerate_eq intro!: nth_equalityI)

lemma contract_year_rows_status:
  assumes "length ids = length seasons" and "ids \<noteq> []"
  shows "map cy_status (contract_year_rows ids seasons l c a t) =
    ''current'' # replicate (length ids - 1) ''future''"
proof (rule nth_equalityI)
  fix i assume "i < length (map cy_status (contract_year_rows ids seasons l c a t))"
  then show "map cy_status (contract_year_rows ids seasons l c a t) ! i =
    (''current'' # replicate (length ids - 1) ''future'') ! i"
    using assms by (cases i) (auto simp: contract_year_rows_def nth_enumerate_eq)
qed (use assms in \<open>cases ids; simp add: contract_year_rows_maps\<close>)

lemma contract_year_rows_all:
  "list_all (\<lambda>y. cy_aav_cents y = a \<and> cy_contract_id y = c \<and> cy_league_id y = l)
     (contract_year_rows ids seasons l c a t)"
  by (auto simp: contract_year_rows_def list_all_iff)

lemma validateSchedule_Inr:
  "validateSchedule ids y start = Inr seasons \<Longrightarrow>
     int (length seasons) = y \<and> distinct seasons \<and> take 1 seasons = [start] \<and>
     list_all is_uuid seasons"
  by (auto simp: validateSchedule_def result_iffs check_iffs contract_field_defs
      list_all2_conv_all_nth list_all_length split: option.splits)

lemma validateYearIds_Inr:
  "validateYearIds ids y = Inr yids \<Longrightarrow>
     int (length yids) = y \<and> distinct yids \<and> list_all is_uuid yids"
  by (auto simp: validateYearIds_def result_iffs check_iffs contract_field_defs
      list_all2_conv_all_nth list_all_length split: option.splits)

lemma contract_years_okI:
  assumes "validateSchedule sv y start = Inr seasons" and "validateYearIds iv y = Inr ids"
    and "c_original_term_years c = y" "c_start_season_id c = start" "c_aav_cents c = a"
    and "1 \<le> y" and [symmetric, simp]: "c_league_id c = l" "c_id c = k"
  shows "contract_years_ok c (contract_year_rows ids seasons l k a t)"
proof -
  have s: "int (length seasons) = y" "distinct seasons" "take 1 seasons = [start]"
    using validateSchedule_Inr [OF assms(1)] by auto
  have i: "int (length ids) = y" "distinct ids"
    using validateYearIds_Inr [OF assms(2)] by auto
  from s(1) i(1) have len: "length ids = length seasons" by simp
  from i(1) assms(6) have ne: "ids \<noteq> []" by auto
  have "hd (map cy_season_id (contract_year_rows ids seasons (c_league_id c) (c_id c) a t)) = start"
    using s(3) len by (simp add: contract_year_rows_maps) (cases seasons; simp)
  then have hd: "cy_season_id (hd (contract_year_rows ids seasons (c_league_id c) (c_id c) a t)) = start"
    using ne len contract_year_rows_maps(5) [OF len]
    by (metis hd_map length_0_conv)
  show ?thesis
    unfolding contract_years_ok_def
    using contract_year_rows_maps [OF len] contract_year_rows_status [OF len ne] i s hd assms(3-5)
      contract_year_rows_all [of a "c_id c" "c_league_id c"]
    by simp
qed

section \<open>Properties\<close>

lemma normalContractValue_Inr:
  "normalContractValue tv yv = Inr cv \<longleftrightarrow>
     (\<exists>tot y. tv = JInt tot \<and> yv = JInt y \<and> 1 \<le> y \<and> y \<le> 3 \<and> safe tot \<and> y * 100 \<le> tot \<and>
       (y = 1 \<or> tot mod 100 = 0 \<or> tot mod (y * 25) = 0) \<and>
       cv = \<lparr>cv_originalTotalValueCents = tot, cv_termYears = y, cv_aavCents = rounded_aav tot y\<rparr>)"
proof -
  have "safe y" if "1 \<le> y" "y \<le> 3" for y :: int
    using that by (simp add: safe_def max_safe_def)
  then show ?thesis
    by (auto simp: normalContractValue_def calculateRoundedAavCents_def contractTerm_def
        result_iffs check_iffs)
qed

lemma createNormal_value:
  assumes "createNormalContractAggregate v = Inr agg"
  shows "\<exists>y tot. c_original_term_years (ca_contract agg) = y \<and> 1 \<le> y \<and> y \<le> 3 \<and>
    c_original_total_value_cents (ca_contract agg) = tot \<and> y * 100 \<le> tot \<and>
    (y = 1 \<or> tot mod 100 = 0 \<or> tot mod (y * 25) = 0) \<and>
    c_aav_cents (ca_contract agg) = rounded_aav tot y"
  using assms
  by (auto simp: createNormalContractAggregate_def result_iffs normalContractValue_Inr)

lemma createNormal_years:
  assumes "createNormalContractAggregate v = Inr agg"
  shows "contract_years_ok (ca_contract agg) (ca_years agg)"
  using assms
  by (auto simp: createNormalContractAggregate_def result_iffs normalContractValue_Inr
      intro!: contract_years_okI)

lemma sum_list_year_aav:
  assumes "contract_years_ok c ys"
  shows "sum_list (map cy_aav_cents ys) = c_original_term_years c * c_aav_cents c"
proof -
  have "map cy_aav_cents ys = map (\<lambda>_. c_aav_cents c) ys"
    using assms by (simp add: contract_years_ok_def list_all_iff)
  then have "sum_list (map cy_aav_cents ys) = int (length ys) * c_aav_cents c"
    by (simp only: sum_list_triv of_nat_id)
  then show ?thesis using assms by (simp add: contract_years_ok_def)
qed

text \<open>
  C21. A normal contract that is created has one year row per year of its term (1 to 3), the first
  current and the rest future, with distinct ids and seasons starting at the start season and the
  same average annual value; the yearly amounts add up to the negotiated total within half a cent
  per year, and exactly when the total is a multiple of 25 cents per year.
\<close>

theorem normal_contract_schedule:
  assumes "createNormalContractAggregate v = Inr agg"
  defines "c \<equiv> ca_contract agg" and "ys \<equiv> ca_years agg"
  shows "contract_years_ok c ys \<and> length ys \<in> {1, 2, 3} \<and>
    \<bar>2 * (sum_list (map cy_aav_cents ys) - c_original_total_value_cents c)\<bar> \<le> int (length ys) \<and>
    (c_original_total_value_cents c mod (25 * int (length ys)) = 0 \<longrightarrow>
      sum_list (map cy_aav_cents ys) = c_original_total_value_cents c)"
proof -
  have ok: "contract_years_ok c ys" unfolding c_def ys_def using assms(1) by (rule createNormal_years)
  obtain y tot where y: "c_original_term_years c = y" "1 \<le> y" "y \<le> 3"
    and tot: "c_original_total_value_cents c = tot" and aav: "c_aav_cents c = rounded_aav tot y"
    unfolding c_def using createNormal_value [OF assms(1)] by auto
  have len: "int (length ys) = y" using ok y(1) by (simp add: contract_years_ok_def)
  have sum: "sum_list (map cy_aav_cents ys) = y * rounded_aav tot y"
    using sum_list_year_aav [OF ok] y(1) aav by simp
  have "\<bar>2 * (y * rounded_aav tot y - tot)\<bar> \<le> y" using y(2) by (intro rounded_aav_error) simp
  moreover have "y * rounded_aav tot y = tot" if "tot mod (25 * y) = 0"
  proof -
    from that obtain k where "tot = 25 * y * k" by (auto simp: dvd_eq_mod_eq_0 [symmetric] dvd_def)
    then have "tot = (25 * k) * y" by simp
    then show ?thesis using y(2) rounded_aav_exact [of y "25 * k"] by simp
  qed
  moreover have "length ys \<in> {1, 2, 3}" using len y by auto
  ultimately show ?thesis using ok len sum tot by simp
qed

definition sample_normal_contract :: jsval where
  "sample_normal_contract = JObj
     [(''contractId'', JStr (sample_id CHR ''1'')),
      (''contractYearIds'', JArr [JStr (sample_id CHR ''2''), JStr (sample_id CHR ''3'')]),
      (''contractEventId'', JStr (sample_id CHR ''4'')),
      (''leagueId'', JStr (sample_id CHR ''5'')),
      (''playerId'', JStr (sample_id CHR ''6'')),
      (''teamId'', JStr (sample_id CHR ''7'')),
      (''originalTotalValueCents'', JInt 300),
      (''termYears'', JInt 2),
      (''startSeasonId'', JStr (sample_id CHR ''8'')),
      (''seasonIds'', JArr [JStr (sample_id CHR ''8''), JStr (sample_id CHR ''9'')]),
      (''acquisitionSourceType'', JStr ''auction_resolution''),
      (''acquisitionSourceId'', JNull),
      (''auctionBuyoutLockExpiresAtMs'', JInt 1000),
      (''actorUserId'', JNull),
      (''occurredAtMs'', JInt 5)]"

lemma sample_normal_contract_accepted:
  "\<exists>agg. createNormalContractAggregate sample_normal_contract = Inr agg"
  by (simp add: createNormalContractAggregate_def sample_normal_contract_def normal_contract_keys_def
      contract_field_defs validateSchedule_def validateYearIds_def normalContractValue_def
      calculateRoundedAavCents_def safe_between_def safe_from_def safe_def max_safe_def
      nullable_def bounded_text_def is_bounded_text_def trim_def js_space_def control_char_def
      hex_char_def)

theorem normal_contract_schedule_witness:
  "\<exists>agg. createNormalContractAggregate sample_normal_contract = Inr agg \<and>
     contract_years_ok (ca_contract agg) (ca_years agg)"
  using sample_normal_contract_accepted normal_contract_schedule by blast

end
