(* ===== verification/RetentionPolicy.thy ===== *)
theory RetentionPolicy
  imports ContractPolicy
begin

text \<open>
  \<^verbatim>\<open>src/src/domain/contracts/retentionPolicy.js\<close>: the command that creates a retained-salary
  obligation, its checks against the contract, the ceiling of half the average annual value and
  the three slots of a team, and the rows that result.
\<close>

section \<open>Errors and field checks\<close>

datatype retention_code =
    RetentionInputInvalid
  | RetentionStableIdInvalid
  | RetentionAmountInvalid
  | RetentionContractInvalid
  | RetentionTeamInvalid
  | RetentionScheduleInvalid
  | RetentionCeilingExceeded
  | RetentionSlotLimitExceeded
  | RetentionTeamContractDuplicate
  | RetentionAuthorityInvalid
  | RetentionTimestampInvalid

definition retention_exactObject :: "string list \<Rightarrow> jsval \<Rightarrow> retention_code + unit" where
  "retention_exactObject = exact_object RetentionInputInvalid"

definition retention_stableId :: "jsval \<Rightarrow> retention_code + string" where
  "retention_stableId = stable_id RetentionStableIdInvalid"

definition retention_safeNonnegative :: "jsval \<Rightarrow> retention_code \<Rightarrow> retention_code + int" where
  "retention_safeNonnegative v code = safe_from code 0 v"

definition retention_safePositive :: "jsval \<Rightarrow> retention_code \<Rightarrow> retention_code + int" where
  "retention_safePositive v code = safe_from code 1 v"

lemmas retention_field_defs =
  retention_exactObject_def retention_stableId_def retention_safeNonnegative_def
  retention_safePositive_def

definition calculateRetentionCeilingCents :: "jsval \<Rightarrow> retention_code + int" where
  "calculateRetentionCeilingCents contractAavCents =
     bindE (retention_safePositive contractAavCents RetentionContractInvalid) (\<lambda>a. Inr (a div 2))"

section \<open>The command\<close>

record retention_command =
  rc_retentionId :: string
  rc_retentionYearIds :: "string list"
  rc_leagueId :: string
  rc_contractId :: string
  rc_playerId :: string
  rc_originatingTeamId :: string
  rc_responsibleTeamId :: string
  rc_retainedAavCents :: int
  rc_creationTradeId :: string
  rc_activityId :: string
  rc_actorUserId :: string
  rc_actorAuthority :: string
  rc_occurredAtMs :: int

definition retention_command_keys :: "string list" where
  "retention_command_keys =
     [''retentionId'', ''retentionYearIds'', ''leagueId'', ''contractId'', ''playerId'',
      ''originatingTeamId'', ''responsibleTeamId'', ''retainedAavCents'', ''creationTradeId'',
      ''activityId'', ''actorUserId'', ''actorAuthority'', ''occurredAtMs'']"

definition validateRetentionCommand :: "jsval \<Rightarrow> retention_code + retention_command" where
  "validateRetentionCommand input =
     bindE (retention_exactObject retention_command_keys input) (\<lambda>_.
     case items (fld input ''retentionYearIds'') of
       None \<Rightarrow> Inl RetentionScheduleInvalid
     | Some yearVals \<Rightarrow>
     bindE (mapE retention_stableId yearVals) (\<lambda>retentionYearIds.
     if \<not> distinct retentionYearIds then Inl RetentionScheduleInvalid
     else
     bindE (one_of RetentionAuthorityInvalid [''manager'', ''commissioner'']
             (fld input ''actorAuthority'')) (\<lambda>actorAuthority.
     bindE (retention_stableId (fld input ''retentionId'')) (\<lambda>retentionId.
     bindE (retention_stableId (fld input ''leagueId'')) (\<lambda>leagueId.
     bindE (retention_stableId (fld input ''contractId'')) (\<lambda>contractId.
     bindE (retention_stableId (fld input ''playerId'')) (\<lambda>playerId.
     bindE (retention_stableId (fld input ''originatingTeamId'')) (\<lambda>originatingTeamId.
     bindE (retention_stableId (fld input ''responsibleTeamId'')) (\<lambda>responsibleTeamId.
     bindE (retention_safePositive (fld input ''retainedAavCents'') RetentionAmountInvalid) (\<lambda>retainedAavCents.
     bindE (retention_stableId (fld input ''creationTradeId'')) (\<lambda>creationTradeId.
     bindE (retention_stableId (fld input ''activityId'')) (\<lambda>activityId.
     bindE (retention_stableId (fld input ''actorUserId'')) (\<lambda>actorUserId.
     bindE (retention_safeNonnegative (fld input ''occurredAtMs'') RetentionTimestampInvalid) (\<lambda>occurredAtMs.
     Inr \<lparr>rc_retentionId = retentionId,
          rc_retentionYearIds = retentionYearIds,
          rc_leagueId = leagueId,
          rc_contractId = contractId,
          rc_playerId = playerId,
          rc_originatingTeamId = originatingTeamId,
          rc_responsibleTeamId = responsibleTeamId,
          rc_retainedAavCents = retainedAavCents,
          rc_creationTradeId = creationTradeId,
          rc_activityId = activityId,
          rc_actorUserId = actorUserId,
          rc_actorAuthority = actorAuthority,
          rc_occurredAtMs = occurredAtMs\<rparr>))))))))))))))"

text \<open>The command as the object that the repository hands on.\<close>

definition retention_command_fields :: "retention_command \<Rightarrow> (string \<times> jsval) list" where
  "retention_command_fields c =
     [(''retentionId'', JStr (rc_retentionId c)),
      (''retentionYearIds'', JArr (map JStr (rc_retentionYearIds c))),
      (''leagueId'', JStr (rc_leagueId c)),
      (''contractId'', JStr (rc_contractId c)),
      (''playerId'', JStr (rc_playerId c)),
      (''originatingTeamId'', JStr (rc_originatingTeamId c)),
      (''responsibleTeamId'', JStr (rc_responsibleTeamId c)),
      (''retainedAavCents'', JInt (rc_retainedAavCents c)),
      (''creationTradeId'', JStr (rc_creationTradeId c)),
      (''activityId'', JStr (rc_activityId c)),
      (''actorUserId'', JStr (rc_actorUserId c)),
      (''actorAuthority'', JStr (rc_actorAuthority c)),
      (''occurredAtMs'', JInt (rc_occurredAtMs c))]"

definition retention_command_wf :: "retention_command \<Rightarrow> bool" where
  "retention_command_wf c \<longleftrightarrow>
     is_uuid (rc_retentionId c) \<and> list_all is_uuid (rc_retentionYearIds c) \<and>
     distinct (rc_retentionYearIds c) \<and> is_uuid (rc_leagueId c) \<and> is_uuid (rc_contractId c) \<and>
     is_uuid (rc_playerId c) \<and> is_uuid (rc_originatingTeamId c) \<and>
     is_uuid (rc_responsibleTeamId c) \<and> safe (rc_retainedAavCents c) \<and>
     1 \<le> rc_retainedAavCents c \<and> is_uuid (rc_creationTradeId c) \<and> is_uuid (rc_activityId c) \<and>
     is_uuid (rc_actorUserId c) \<and> rc_actorAuthority c \<in> {''manager'', ''commissioner''} \<and>
     safe (rc_occurredAtMs c) \<and> 0 \<le> rc_occurredAtMs c"

interpretation retention_validator:
  validator validateRetentionCommand retention_command_fields retention_command_wf
proof (rule validatorI [where ks = retention_command_keys and e = RetentionInputInvalid])
  fix v c
  show "validateRetentionCommand v = Inr c \<longleftrightarrow>
      retention_command_wf c \<and>
      exact_object RetentionInputInvalid retention_command_keys v = Inr () \<and>
      list_all (\<lambda>(k, w). fld v k = w) (retention_command_fields c)"
    unfolding validateRetentionCommand_def retention_field_defs result_iffs check_iffs
    by (cases c, simp add: retention_command_wf_def retention_command_fields_def) auto
qed (simp_all add: retention_command_keys_def retention_command_fields_def)

section \<open>Lookups\<close>

definition validateRetentionTeamLookup :: "jsval \<Rightarrow> retention_code + (string \<times> string)" where
  "validateRetentionTeamLookup input =
     bindE (retention_exactObject [''leagueId'', ''responsibleTeamId''] input) (\<lambda>_.
     bindE (retention_stableId (fld input ''leagueId'')) (\<lambda>leagueId.
     bindE (retention_stableId (fld input ''responsibleTeamId'')) (\<lambda>responsibleTeamId.
     Inr (leagueId, responsibleTeamId))))"

definition validateRetentionYearLookup :: "jsval \<Rightarrow> retention_code + (string \<times> string)" where
  "validateRetentionYearLookup input =
     bindE (retention_exactObject [''leagueId'', ''retentionId''] input) (\<lambda>_.
     bindE (retention_stableId (fld input ''leagueId'')) (\<lambda>leagueId.
     bindE (retention_stableId (fld input ''retentionId'')) (\<lambda>retentionId.
     Inr (leagueId, retentionId))))"

section \<open>The obligation\<close>

record remaining_year =
  ry_seasonId :: string
  ry_status :: string

definition remainingYear :: "jsval \<Rightarrow> retention_code + remaining_year" where
  "remainingYear v =
     bindE (retention_exactObject [''seasonId'', ''status''] v) (\<lambda>_.
     bindE (one_of RetentionScheduleInvalid [''current'', ''future''] (fld v ''status'')) (\<lambda>status.
     bindE (retention_stableId (fld v ''seasonId'')) (\<lambda>seasonId.
     Inr \<lparr>ry_seasonId = seasonId, ry_status = status\<rparr>)))"

record retention_row =
  ro_id :: string
  ro_league_id :: string
  ro_contract_id :: string
  ro_player_id :: string
  ro_originating_team_id :: string
  ro_responsible_team_id :: string
  ro_retained_aav_cents :: int
  ro_creation_trade_id :: string
  ro_status :: string
  ro_created_at_ms :: int
  ro_updated_at_ms :: int
  ro_version :: int

record retention_year_row =
  roy_id :: string
  roy_league_id :: string
  roy_retention_obligation_id :: string
  roy_season_id :: string
  roy_retained_aav_cents :: int
  roy_status :: string
  roy_created_at_ms :: int

record retention_aggregate =
  ra_obligation :: retention_row
  ra_years :: "retention_year_row list"
  ra_retentionCeilingCents :: int
  ra_cumulativeRetainedAavCents :: int

definition retention_aggregate_keys :: "string list" where
  "retention_aggregate_keys =
     [''command'', ''contractAavCents'', ''contractPlayerId'', ''contractCurrentTeamId'',
      ''contractStatus'', ''remainingContractYears'', ''existingRetainedAavCents'',
      ''responsibleTeamActiveRetentionCount'', ''responsibleTeamAlreadyRetainsContract'']"

text \<open>The schedule test: one to three years, one id each, the first current, the others future.\<close>

definition retention_schedule_ok :: "retention_command \<Rightarrow> remaining_year list \<Rightarrow> bool" where
  "retention_schedule_ok c ys \<longleftrightarrow>
     1 \<le> length ys \<and> length ys \<le> 3 \<and>
     length (rc_retentionYearIds c) = length ys \<and>
     distinct (map ry_seasonId ys) \<and>
     ry_status (hd ys) = ''current'' \<and>
     list_all (\<lambda>y. ry_status y = ''future'') (tl ys)"

definition retention_obligation_row :: "retention_command \<Rightarrow> retention_row" where
  "retention_obligation_row c =
     \<lparr>ro_id = rc_retentionId c,
      ro_league_id = rc_leagueId c,
      ro_contract_id = rc_contractId c,
      ro_player_id = rc_playerId c,
      ro_originating_team_id = rc_originatingTeamId c,
      ro_responsible_team_id = rc_responsibleTeamId c,
      ro_retained_aav_cents = rc_retainedAavCents c,
      ro_creation_trade_id = rc_creationTradeId c,
      ro_status = ''active'',
      ro_created_at_ms = rc_occurredAtMs c,
      ro_updated_at_ms = rc_occurredAtMs c,
      ro_version = 1\<rparr>"

definition retention_year_rows :: "retention_command \<Rightarrow> remaining_year list \<Rightarrow> retention_year_row list" where
  "retention_year_rows c ys =
     map (\<lambda>(yearId, y).
       \<lparr>roy_id = yearId,
        roy_league_id = rc_leagueId c,
        roy_retention_obligation_id = rc_retentionId c,
        roy_season_id = ry_seasonId y,
        roy_retained_aav_cents = rc_retainedAavCents c,
        roy_status = ry_status y,
        roy_created_at_ms = rc_occurredAtMs c\<rparr>)
       (zip (rc_retentionYearIds c) ys)"

definition createRetentionAggregate :: "jsval \<Rightarrow> retention_code + retention_aggregate" where
  "createRetentionAggregate input =
     bindE (retention_exactObject retention_aggregate_keys input) (\<lambda>_.
     bindE (validateRetentionCommand (fld input ''command'')) (\<lambda>command.
     bindE (retention_safePositive (fld input ''contractAavCents'') RetentionContractInvalid) (\<lambda>contractAavCents.
     if fld input ''contractStatus'' \<noteq> JStr ''active'' then Inl RetentionTeamInvalid
     else
     bindE (retention_stableId (fld input ''contractPlayerId'')) (\<lambda>contractPlayerId.
     if contractPlayerId \<noteq> rc_playerId command then Inl RetentionTeamInvalid
     else
     bindE (retention_stableId (fld input ''contractCurrentTeamId'')) (\<lambda>contractCurrentTeamId.
     if contractCurrentTeamId \<noteq> rc_originatingTeamId command \<or>
        rc_originatingTeamId command \<noteq> rc_responsibleTeamId command
     then Inl RetentionTeamInvalid
     else
     case items (fld input ''remainingContractYears'') of
       None \<Rightarrow> Inl RetentionScheduleInvalid
     | Some yearVals \<Rightarrow>
     bindE (mapE remainingYear yearVals) (\<lambda>remainingYears.
     if \<not> retention_schedule_ok command remainingYears then Inl RetentionScheduleInvalid
     else
     bindE (retention_safeNonnegative (fld input ''existingRetainedAavCents'') RetentionAmountInvalid) (\<lambda>existing.
     bindE (calculateRetentionCeilingCents (JInt contractAavCents)) (\<lambda>ceiling.
     if ceiling < existing + rc_retainedAavCents command then Inl RetentionCeilingExceeded
     else
     bindE (retention_safeNonnegative (fld input ''responsibleTeamActiveRetentionCount'')
             RetentionSlotLimitExceeded) (\<lambda>activeSlots.
     if 3 \<le> activeSlots then Inl RetentionSlotLimitExceeded
     else if fld input ''responsibleTeamAlreadyRetainsContract'' \<noteq> JBool False
     then Inl RetentionTeamContractDuplicate
     else
     Inr \<lparr>ra_obligation = retention_obligation_row command,
          ra_years = retention_year_rows command remainingYears,
          ra_retentionCeilingCents = ceiling,
          ra_cumulativeRetainedAavCents = existing + rc_retainedAavCents command\<rparr>)))))))))"

text \<open>What an accepted aggregate says of its input.\<close>

lemma createRetentionAggregate_Inr:
  assumes "createRetentionAggregate input = Inr agg"
  obtains c aav existing slots ys where
    "validateRetentionCommand (fld input ''command'') = Inr c" "retention_command_wf c"
    "fld input ''contractAavCents'' = JInt aav" "1 \<le> aav"
    "fld input ''contractStatus'' = JStr ''active''"
    "fld input ''contractPlayerId'' = JStr (rc_playerId c)"
    "fld input ''contractCurrentTeamId'' = JStr (rc_originatingTeamId c)"
    "rc_originatingTeamId c = rc_responsibleTeamId c"
    "fld input ''existingRetainedAavCents'' = JInt existing" "0 \<le> existing"
    "existing + rc_retainedAavCents c \<le> aav div 2"
    "fld input ''responsibleTeamActiveRetentionCount'' = JInt slots" "0 \<le> slots" "slots < 3"
    "fld input ''responsibleTeamAlreadyRetainsContract'' = JBool False"
    "retention_schedule_ok c ys"
    "agg = \<lparr>ra_obligation = retention_obligation_row c, ra_years = retention_year_rows c ys,
       ra_retentionCeilingCents = aav div 2,
       ra_cumulativeRetainedAavCents = existing + rc_retainedAavCents c\<rparr>"
proof -
  note wf = retention_validator.parse_wf
  have "\<exists>c aav existing slots ys.
    validateRetentionCommand (fld input ''command'') = Inr c \<and> retention_command_wf c \<and>
    fld input ''contractAavCents'' = JInt aav \<and> 1 \<le> aav \<and>
    fld input ''contractStatus'' = JStr ''active'' \<and>
    fld input ''contractPlayerId'' = JStr (rc_playerId c) \<and>
    fld input ''contractCurrentTeamId'' = JStr (rc_originatingTeamId c) \<and>
    rc_originatingTeamId c = rc_responsibleTeamId c \<and>
    fld input ''existingRetainedAavCents'' = JInt existing \<and> 0 \<le> existing \<and>
    existing + rc_retainedAavCents c \<le> aav div 2 \<and>
    fld input ''responsibleTeamActiveRetentionCount'' = JInt slots \<and> 0 \<le> slots \<and> slots < 3 \<and>
    fld input ''responsibleTeamAlreadyRetainsContract'' = JBool False \<and>
    retention_schedule_ok c ys \<and>
    agg = \<lparr>ra_obligation = retention_obligation_row c, ra_years = retention_year_rows c ys,
       ra_retentionCeilingCents = aav div 2,
       ra_cumulativeRetainedAavCents = existing + rc_retainedAavCents c\<rparr>"
    using assms
    unfolding createRetentionAggregate_def retention_field_defs calculateRetentionCeilingCents_def
      result_iffs check_iffs
    by (auto simp: not_less dest: wf)
  then show thesis using that by blast
qed

end
