(* ===== verification/RecordRepository.thy ===== *)
theory RecordRepository
  imports Validation
begin

text \<open>
  \<^verbatim>\<open>src/src/infrastructure/persistence/sqlite/createSqliteRecordRepository.js\<close>: the record
  repository behind every stateful component. A table is the list of its rows in insertion order;
  the catalog entry gives the key column, the league scope and the version column as functions on
  the row type. The tables are STRICT, so a row is a record with typed columns, and the exact-field
  tests on JavaScript objects are part of the row type; the test that integers are safe is
  \<open>rd_safe\<close>. What SQLite enforces beside the primary key (checks, foreign keys, triggers) is the
  parameter \<open>rd_accepts\<close> of the table: no lemma assumes anything of it.
\<close>

datatype repo_error =
    RepoArgumentInvalid
  | RepoCatalogInvalid
  | RepoSchemaIncompatible
  | RepoScopeRequired
  | RepoRecordNotFound
  | RepoVersionConflict
  | RepoConstraint
  | RepoTransactionAsync
  | RepoOperationFailed

datatype repo_scope = GlobalScope | RequiredLeague | OptionalLeague

text \<open>The option \<^verbatim>\<open>leagueId\<close> of an operation: absent, null or a string.\<close>

datatype league_arg = NoLeague | NullLeague | League string

record 'r repo_def =
  rd_scope :: repo_scope
  rd_key :: "'r \<Rightarrow> string"
  rd_keyed_by_league :: bool
  rd_league :: "'r \<Rightarrow> string option"
  rd_version :: "'r \<Rightarrow> int"
  rd_set_version :: "'r \<Rightarrow> int \<Rightarrow> 'r"
  rd_safe :: "'r \<Rightarrow> bool"
  rd_accepts :: "'r list \<Rightarrow> bool"

text \<open>A row of the shared table \<^verbatim>\<open>idempotency_requests\<close>.\<close>

record request_row =
  rq_id :: string
  rq_league_id :: string
  rq_actor_user_id :: string
  rq_operation :: string
  rq_client_key :: string
  rq_request_hash :: string
  rq_status :: string
  rq_result_type :: "string option"
  rq_result_id :: "string option"
  rq_created_at_ms :: int
  rq_completed_at_ms :: "int option"
  rq_expires_at_ms :: int

section \<open>Operations\<close>

definition assertKey :: "string \<Rightarrow> repo_error + string" where
  "assertKey key = (if trim key = [] then Inl RepoArgumentInvalid else Inr key)"

definition assertLeagueScope :: "repo_scope \<Rightarrow> league_arg \<Rightarrow> repo_error + league_arg" where
  "assertLeagueScope scope l =
     (case scope of
        GlobalScope \<Rightarrow> if l \<noteq> NoLeague then Inl RepoArgumentInvalid else Inr NoLeague
      | _ \<Rightarrow> (case l of
          NoLeague \<Rightarrow> Inl RepoScopeRequired
        | NullLeague \<Rightarrow> if scope = OptionalLeague then Inr NullLeague else Inl RepoScopeRequired
        | League s \<Rightarrow> if trim s = [] then Inl RepoScopeRequired else Inr (League s)))"

fun in_scope :: "league_arg \<Rightarrow> string option \<Rightarrow> bool" where
  "in_scope NoLeague _ = True"
| "in_scope NullLeague l = (l = None)"
| "in_scope (League s) l = (l = Some s)"

definition repo_findByKey :: "'r repo_def \<Rightarrow> 'r list \<Rightarrow> string \<Rightarrow> league_arg \<Rightarrow> repo_error + 'r option" where
  "repo_findByKey d rows key l =
     bindE (assertKey key) (\<lambda>k.
     bindE (assertLeagueScope (rd_scope d) l) (\<lambda>scope.
     if rd_keyed_by_league d \<and> scope \<noteq> NoLeague \<and> scope \<noteq> NullLeague \<and> scope \<noteq> League k
     then Inr None
     else Inr (find (\<lambda>r. rd_key d r = k \<and> in_scope scope (rd_league d r)) rows)))"

definition repo_requireByKey :: "'r repo_def \<Rightarrow> 'r list \<Rightarrow> string \<Rightarrow> league_arg \<Rightarrow> repo_error + 'r" where
  "repo_requireByKey d rows key l =
     bindE (repo_findByKey d rows key l) (\<lambda>found.
     case found of None \<Rightarrow> Inl RepoRecordNotFound | Some r \<Rightarrow> Inr r)"

definition repo_listByLeague :: "'r repo_def \<Rightarrow> 'r list \<Rightarrow> league_arg \<Rightarrow> repo_error + 'r list" where
  "repo_listByLeague d rows l =
     bindE (assertLeagueScope (rd_scope d) l) (\<lambda>scope.
     Inr (sort_key (rd_key d) (filter (\<lambda>r. in_scope scope (rd_league d r)) rows)))"

text \<open>The scope option that \<^verbatim>\<open>insertRecord\<close> builds from the record's own league column.\<close>

definition record_scope :: "'r repo_def \<Rightarrow> 'r \<Rightarrow> league_arg" where
  "record_scope d r =
     (if rd_scope d = GlobalScope then NoLeague
      else (case rd_league d r of None \<Rightarrow> NullLeague | Some s \<Rightarrow> League s))"

definition repo_validateRecord :: "'r repo_def \<Rightarrow> 'r \<Rightarrow> repo_error + unit" where
  "repo_validateRecord d r =
     (if \<not> rd_safe d r then Inl RepoArgumentInvalid
      else
      bindE (assertKey (rd_key d r)) (\<lambda>_.
      if rd_scope d = GlobalScope then Inr ()
      else bindE (assertLeagueScope (rd_scope d) (record_scope d r)) (\<lambda>_. Inr ())))"

definition repo_insert :: "'r repo_def \<Rightarrow> 'r list \<Rightarrow> 'r \<Rightarrow> repo_error + ('r list \<times> 'r)" where
  "repo_insert d rows r =
     bindE (repo_validateRecord d r) (\<lambda>_.
     if rd_key d r \<in> rd_key d ` set rows \<or> \<not> rd_accepts d (rows @ [r]) then Inl RepoConstraint
     else
     bindE (repo_requireByKey d (rows @ [r]) (rd_key d r) (record_scope d r)) (\<lambda>saved.
     Inr (rows @ [r], saved)))"

text \<open>
  The changes of a versioned update are a function on the row that leaves the key, the league and
  the version alone (the code refuses to change them), with \<open>safeChanges\<close> for the test that its
  new values are strings, null or safe integers; the statement itself raises the version.
\<close>

definition repo_updateVersioned ::
  "'r repo_def \<Rightarrow> 'r list \<Rightarrow> string \<Rightarrow> league_arg \<Rightarrow> int \<Rightarrow> bool \<Rightarrow> ('r \<Rightarrow> 'r) \<Rightarrow>
     repo_error + ('r list \<times> 'r)" where
  "repo_updateVersioned d rows key l expectedVersion safeChanges changes =
     bindE (assertKey key) (\<lambda>k.
     bindE (assertLeagueScope (rd_scope d) l) (\<lambda>scope.
     if \<not> safe expectedVersion \<or> expectedVersion < 1 \<or> \<not> safeChanges then Inl RepoArgumentInvalid
     else
     let hit = (\<lambda>r. rd_key d r = k \<and> in_scope scope (rd_league d r) \<and> rd_version d r = expectedVersion);
         step = (\<lambda>r. rd_set_version d (changes r) (rd_version d r + 1));
         rows' = map (\<lambda>r. if hit r then step r else r) rows
     in if length (filter hit rows) \<noteq> 1 then
          bindE (repo_findByKey d rows k l) (\<lambda>found.
          Inl (if found = None then RepoRecordNotFound else RepoVersionConflict))
        else if \<not> rd_accepts d rows' then Inl RepoConstraint
        else bindE (repo_requireByKey d rows' k l) (\<lambda>saved. Inr (rows', saved))))"

section \<open>Laws\<close>

definition keys_unique :: "'r repo_def \<Rightarrow> 'r list \<Rightarrow> bool" where
  "keys_unique d rows \<longleftrightarrow> distinct (map (rd_key d) rows)"

text \<open>An accepted insertion appends the record, and the primary keys stay distinct.\<close>

lemma repo_insert_Inr:
  "repo_insert d rows r = Inr (rows', saved) \<Longrightarrow>
     rows' = rows @ [r] \<and> rd_key d r \<notin> rd_key d ` set rows \<and> rd_safe d r"
  by (auto simp: repo_insert_def repo_validateRecord_def result_iffs)

lemma repo_insert_unique:
  "keys_unique d rows \<Longrightarrow> repo_insert d rows r = Inr (rows', saved) \<Longrightarrow> keys_unique d rows'"
  by (auto simp: keys_unique_def dest!: repo_insert_Inr)

lemma find_append_fresh:
  "\<forall>x \<in> set xs. \<not> P x \<Longrightarrow> P y \<Longrightarrow> find P (xs @ [y]) = Some y"
  by (induction xs) auto

lemma repo_requireByKey_Inr:
  "repo_requireByKey d rows key l = Inr r \<Longrightarrow> r \<in> set rows \<and> rd_key d r = key"
  by (auto simp: repo_requireByKey_def repo_findByKey_def result_iffs find_Some_iff assertKey_def
      split: option.splits if_splits)

lemma repo_insert_saved:
  assumes "repo_insert d rows r = Inr (rows', saved)"
  shows "saved = r"
proof -
  have fresh: "rd_key d r \<notin> rd_key d ` set rows" using repo_insert_Inr [OF assms] by auto
  have "repo_requireByKey d (rows @ [r]) (rd_key d r) (record_scope d r) = Inr saved"
    using assms by (auto simp: repo_insert_def result_iffs)
  from repo_requireByKey_Inr [OF this] fresh show ?thesis by (auto simp: image_iff)
qed

locale versioned_table =
  fixes d :: "'r repo_def"
  assumes key_set_version: "rd_key d (rd_set_version d r n) = rd_key d r"
    and version_set_version: "rd_version d (rd_set_version d r n) = n"
begin

text \<open>
  An accepted update replaces exactly the row that has the key and the expected version, and
  raises that row's version by one.
\<close>

lemma update_row:
  assumes upd: "repo_updateVersioned d rows key l v ok changes = Inr (rows', saved)"
    and uniq: "keys_unique d rows" and keep: "\<And>r. rd_key d (changes r) = rd_key d r"
  shows "\<exists>xs r ys. rows = xs @ r # ys \<and> rd_key d r = key \<and> rd_version d r = v \<and>
    saved = rd_set_version d (changes r) (v + 1) \<and> rows' = xs @ saved # ys"
proof -
  define scope where "scope = l"
  let ?hit = "\<lambda>sc r. rd_key d r = key \<and> in_scope sc (rd_league d r) \<and> rd_version d r = v"
  let ?step = "\<lambda>r. rd_set_version d (changes r) (rd_version d r + 1)"
  obtain sc where one: "length (filter (?hit sc) rows) = 1"
    and rows': "rows' = map (\<lambda>r. if ?hit sc r then ?step r else r) rows"
    and req: "repo_requireByKey d rows' key l = Inr saved"
    using upd
    by (auto simp: repo_updateVersioned_def result_iffs assertKey_def Let_def split: if_splits)
  from one obtain r where "filter (?hit sc) rows = [r]" by (auto simp: length_Suc_conv)
  then have "r \<in> set (filter (?hit sc) rows)" by simp
  then have "r \<in> set rows" "?hit sc r" by simp_all
  then obtain xs ys where split: "rows = xs @ r # ys" by (meson split_list)
  have others: "rd_key d x \<noteq> key" if "x \<in> set (xs @ ys)" for x
    using uniq \<open>?hit sc r\<close> that unfolding keys_unique_def split by (auto simp: image_iff)
  have map_id: "map (\<lambda>x. if ?hit sc x then ?step x else x) zs = zs"
    if "\<And>x. x \<in> set zs \<Longrightarrow> rd_key d x \<noteq> key" for zs
    using that by (intro map_idI) auto
  have new: "rows' = xs @ ?step r # ys"
    using \<open>?hit sc r\<close> others map_id [of xs] map_id [of ys] unfolding rows' split by auto
  have "saved \<in> set rows'" "rd_key d saved = key" using repo_requireByKey_Inr [OF req] by auto
  then have "saved = ?step r" using others new by auto
  with split new \<open>?hit sc r\<close> show ?thesis by auto
qed

lemma update_unique:
  assumes "repo_updateVersioned d rows key l v ok changes = Inr (rows', saved)"
    and "keys_unique d rows" and keep: "\<And>r. rd_key d (changes r) = rd_key d r"
  shows "keys_unique d rows'"
proof -
  obtain xs r ys where "rows = xs @ r # ys" "rd_key d r = key"
    "saved = rd_set_version d (changes r) (v + 1)" "rows' = xs @ saved # ys"
    using update_row [OF assms] by blast
  then show ?thesis using assms(2) by (simp add: keys_unique_def key_set_version keep)
qed

text \<open>A second update that expects the same version is refused.\<close>

lemma stale_update_refused:
  assumes upd: "repo_updateVersioned d rows key l v ok changes = Inr (rows', saved)"
    and uniq: "keys_unique d rows" and keep: "\<And>r. rd_key d (changes r) = rd_key d r"
  shows "repo_updateVersioned d rows' key l v ok' changes' = Inr res \<Longrightarrow> False"
proof -
  obtain xs r ys where *: "rows = xs @ r # ys" "rd_key d r = key"
    "saved = rd_set_version d (changes r) (v + 1)" "rows' = xs @ saved # ys"
    using update_row [OF upd uniq keep] by blast
  have others: "rd_key d x \<noteq> key" if "x \<in> set (xs @ ys)" for x
    using uniq *(2) that unfolding keys_unique_def *(1) by (auto simp: image_iff)
  moreover have "rd_version d saved \<noteq> v" by (simp add: *(3) version_set_version)
  ultimately have "\<not> (rd_key d x = key \<and> rd_version d x = v)" if "x \<in> set rows'" for x
    using that unfolding *(4) by auto
  then have "filter (\<lambda>x. rd_key d x = key \<and> in_scope sc (rd_league d x) \<and> rd_version d x = v) rows' = []" for sc
    by (auto simp: filter_empty_conv)
  then show "repo_updateVersioned d rows' key l v ok' changes' = Inr res \<Longrightarrow> False"
    by (auto simp: repo_updateVersioned_def result_iffs assertKey_def Let_def bindE_def
        split: if_splits sum.splits)
qed

end

end
