(* ===== verification/RetentionRepository.thy ===== *)
theory RetentionRepository
  imports RetentionPolicy RecordRepository
begin

text \<open>
  \<^verbatim>\<open>src/src/infrastructure/persistence/sqlite/SqliteRetentionRepository.js\<close>: the transaction that
  creates a retained-salary obligation, on the tables it reads and writes. The SQL queries are the
  list functions they denote. The transaction is atomic: an error returns no new state. The
  Candidate Card synchronizer that the repository is constructed with is the parameter
  \<open>synchronize\<close> (it may throw); its own tables are not part of this state.
\<close>

section \<open>State\<close>

record activity_row =
  act_id :: string
  act_league_id :: string
  act_season_id :: string
  act_event_type :: string
  act_actor_user_id :: string
  act_actor_authority :: string
  act_team_id :: string
  act_player_id :: string
  act_related_type :: string
  act_related_id :: string
  act_display_summary :: string
  act_reason :: "string option"
  act_metadata_json :: string
  act_occurred_at_ms :: int

record retention_store =
  rs_contracts :: "contract_row list"
  rs_contract_years :: "contract_year_row list"
  rs_obligations :: "retention_row list"
  rs_years :: "retention_year_row list"
  rs_activity :: "activity_row list"

datatype retention_failure =
    RetentionPolicyFailure retention_code
  | RetentionRepoFailure repo_error

definition policyE :: "retention_code + 'a \<Rightarrow> retention_failure + 'a" where
  "policyE m = (case m of Inl e \<Rightarrow> Inl (RetentionPolicyFailure e) | Inr x \<Rightarrow> Inr x)"

definition repoE :: "repo_error + 'a \<Rightarrow> retention_failure + 'a" where
  "repoE m = (case m of Inl e \<Rightarrow> Inl (RetentionRepoFailure e) | Inr x \<Rightarrow> Inr x)"

lemma policyE_Inr [result_iffs]: "policyE m = Inr x \<longleftrightarrow> m = Inr x"
  by (cases m) (simp_all add: policyE_def)

lemma repoE_Inr [result_iffs]: "repoE m = Inr x \<longleftrightarrow> m = Inr x"
  by (cases m) (simp_all add: repoE_def)

section \<open>Queries\<close>

definition findContracts :: "retention_store \<Rightarrow> retention_command \<Rightarrow> contract_row list" where
  "findContracts st c = take 2 (filter (\<lambda>r.
     c_id r = rc_contractId c \<and> c_league_id r = rc_leagueId c) (rs_contracts st))"

definition remainingYears :: "retention_store \<Rightarrow> retention_command \<Rightarrow> remaining_year list" where
  "remainingYears st c =
     map (\<lambda>y. \<lparr>ry_seasonId = cy_season_id y, ry_status = cy_status y\<rparr>)
       (sort_key cy_year_number (filter (\<lambda>y.
         cy_contract_id y = rc_contractId c \<and> cy_league_id y = rc_leagueId c \<and>
         cy_status y \<in> {''current'', ''future''}) (rs_contract_years st)))"

definition active_on_contract :: "retention_store \<Rightarrow> string \<Rightarrow> string \<Rightarrow> retention_row list" where
  "active_on_contract st contractId leagueId = filter (\<lambda>r.
     ro_contract_id r = contractId \<and> ro_league_id r = leagueId \<and> ro_status r = ''active'')
     (rs_obligations st)"

definition active_of_team :: "retention_store \<Rightarrow> string \<Rightarrow> string \<Rightarrow> retention_row list" where
  "active_of_team st teamId leagueId = filter (\<lambda>r.
     ro_responsible_team_id r = teamId \<and> ro_league_id r = leagueId \<and> ro_status r = ''active'')
     (rs_obligations st)"

definition cumulativeRetained :: "retention_store \<Rightarrow> retention_command \<Rightarrow> int" where
  "cumulativeRetained st c =
     sum_list (map ro_retained_aav_cents (active_on_contract st (rc_contractId c) (rc_leagueId c)))"

definition teamSlots :: "retention_store \<Rightarrow> retention_command \<Rightarrow> int" where
  "teamSlots st c = int (length (active_of_team st (rc_responsibleTeamId c) (rc_leagueId c)))"

definition duplicateCount :: "retention_store \<Rightarrow> retention_command \<Rightarrow> int" where
  "duplicateCount st c = int (length (filter (\<lambda>r. ro_responsible_team_id r = rc_responsibleTeamId c)
     (active_on_contract st (rc_contractId c) (rc_leagueId c))))"

section \<open>The transaction\<close>

text \<open>The object that the transaction hands to the policy.\<close>

definition aggregate_input :: "retention_store \<Rightarrow> retention_command \<Rightarrow> contract_row \<Rightarrow> jsval" where
  "aggregate_input st c contract = JObj
     [(''command'', JObj (retention_command_fields c)),
      (''contractAavCents'', JInt (c_aav_cents contract)),
      (''contractPlayerId'', JStr (c_player_id contract)),
      (''contractCurrentTeamId'', JStr (c_current_team_id contract)),
      (''contractStatus'', JStr (c_status contract)),
      (''remainingContractYears'', JArr (map (\<lambda>y. JObj
         [(''seasonId'', JStr (ry_seasonId y)), (''status'', JStr (ry_status y))])
         (remainingYears st c))),
      (''existingRetainedAavCents'', JInt (cumulativeRetained st c)),
      (''responsibleTeamActiveRetentionCount'', JInt (teamSlots st c)),
      (''responsibleTeamAlreadyRetainsContract'', JBool (duplicateCount st c \<noteq> 0))]"

definition activity_for :: "retention_store \<Rightarrow> retention_command \<Rightarrow> retention_aggregate \<Rightarrow> activity_row" where
  "activity_for st c agg =
     \<lparr>act_id = rc_activityId c,
      act_league_id = rc_leagueId c,
      act_season_id = ry_seasonId (hd (remainingYears st c)),
      act_event_type = ''retained_salary_created'',
      act_actor_user_id = rc_actorUserId c,
      act_actor_authority = rc_actorAuthority c,
      act_team_id = rc_responsibleTeamId c,
      act_player_id = rc_playerId c,
      act_related_type = ''retention_obligation'',
      act_related_id = rc_retentionId c,
      act_display_summary = ''Retained-salary obligation created.'',
      act_reason = None,
      act_metadata_json = json_object
        [(''contractId'', JStr (rc_contractId c)),
         (''retainedAavCents'', JInt (rc_retainedAavCents c)),
         (''retentionCeilingCents'', JInt (ra_retentionCeilingCents agg)),
         (''cumulativeRetainedAavCents'', JInt (ra_cumulativeRetainedAavCents agg)),
         (''remainingYears'', JInt (int (length (ra_years agg))))],
      act_occurred_at_ms = rc_occurredAtMs c\<rparr>"

record retention_tables =
  rt_obligations :: "retention_row repo_def"
  rt_years :: "retention_year_row repo_def"
  rt_activity :: "activity_row repo_def"

fun insert_all :: "'r repo_def \<Rightarrow> 'r list \<Rightarrow> 'r list \<Rightarrow> repo_error + 'r list" where
  "insert_all d rows [] = Inr rows"
| "insert_all d rows (r # rs) = bindE (repo_insert d rows r) (\<lambda>(rows', _). insert_all d rows' rs)"

definition retention_createTransaction ::
  "retention_tables \<Rightarrow> (retention_store \<Rightarrow> retention_command \<Rightarrow> repo_error option) \<Rightarrow>
   retention_store \<Rightarrow> retention_command \<Rightarrow> retention_failure + (retention_store \<times> retention_aggregate)"
where
  "retention_createTransaction tables synchronize st command =
     (let contracts = findContracts st command in
      if 1 < length contracts then Inl (RetentionRepoFailure RepoSchemaIncompatible)
      else case contracts of
        [] \<Rightarrow> Inl (RetentionRepoFailure RepoRecordNotFound)
      | contract # _ \<Rightarrow>
      bindE (policyE (createRetentionAggregate (aggregate_input st command contract))) (\<lambda>agg.
      bindE (repoE (repo_insert (rt_obligations tables) (rs_obligations st) (ra_obligation agg))) (\<lambda>(obligations, _).
      bindE (repoE (insert_all (rt_years tables) (rs_years st) (ra_years agg))) (\<lambda>years.
      bindE (repoE (repo_insert (rt_activity tables) (rs_activity st) (activity_for st command agg))) (\<lambda>(acts, _).
      let st' = st\<lparr>rs_obligations := obligations, rs_years := years, rs_activity := acts\<rparr> in
      case synchronize st' command of
        Some e \<Rightarrow> Inl (RetentionRepoFailure e)
      | None \<Rightarrow> Inr (st', agg))))))"

definition retention_create ::
  "retention_tables \<Rightarrow> (retention_store \<Rightarrow> retention_command \<Rightarrow> repo_error option) \<Rightarrow>
   retention_store \<Rightarrow> jsval \<Rightarrow> retention_failure + (retention_store \<times> retention_aggregate)"
where
  "retention_create tables synchronize st input =
     bindE (policyE (validateRetentionCommand input)) (\<lambda>command.
     retention_createTransaction tables synchronize st command)"

definition listActiveByResponsibleTeam ::
  "retention_store \<Rightarrow> jsval \<Rightarrow> retention_failure + retention_row list" where
  "listActiveByResponsibleTeam st input =
     bindE (policyE (validateRetentionTeamLookup input)) (\<lambda>(leagueId, teamId).
     Inr (sort_key ro_created_at_ms (sort_key ro_id (active_of_team st teamId leagueId))))"

definition listRetentionYears ::
  "retention_store \<Rightarrow> jsval \<Rightarrow> retention_failure + retention_year_row list" where
  "listRetentionYears st input =
     bindE (policyE (validateRetentionYearLookup input)) (\<lambda>(leagueId, retentionId).
     Inr (sort_key (\<lambda>y. if roy_status y = ''current'' then 0 else 1 :: nat)
       (sort_key roy_season_id (filter (\<lambda>y.
         roy_league_id y = leagueId \<and> roy_retention_obligation_id y = retentionId) (rs_years st)))))"

section \<open>The catalog entries of the tables\<close>

definition retention_obligations_table :: "(retention_row list \<Rightarrow> bool) \<Rightarrow> retention_row repo_def" where
  "retention_obligations_table accepts =
     \<lparr>rd_scope = RequiredLeague, rd_key = ro_id, rd_keyed_by_league = False,
      rd_league = (\<lambda>r. Some (ro_league_id r)), rd_version = ro_version,
      rd_set_version = (\<lambda>r n. r\<lparr>ro_version := n\<rparr>),
      rd_safe = (\<lambda>r. safe (ro_retained_aav_cents r) \<and> safe (ro_created_at_ms r) \<and>
        safe (ro_updated_at_ms r) \<and> safe (ro_version r)),
      rd_accepts = accepts\<rparr>"

text \<open>The other two tables have no version column; theirs is constant.\<close>

definition retention_years_table :: "(retention_year_row list \<Rightarrow> bool) \<Rightarrow> retention_year_row repo_def" where
  "retention_years_table accepts =
     \<lparr>rd_scope = RequiredLeague, rd_key = roy_id, rd_keyed_by_league = False,
      rd_league = (\<lambda>r. Some (roy_league_id r)), rd_version = (\<lambda>_. 1),
      rd_set_version = (\<lambda>r _. r),
      rd_safe = (\<lambda>r. safe (roy_retained_aav_cents r) \<and> safe (roy_created_at_ms r)),
      rd_accepts = accepts\<rparr>"

definition league_activity_table :: "(activity_row list \<Rightarrow> bool) \<Rightarrow> activity_row repo_def" where
  "league_activity_table accepts =
     \<lparr>rd_scope = RequiredLeague, rd_key = act_id, rd_keyed_by_league = False,
      rd_league = (\<lambda>r. Some (act_league_id r)), rd_version = (\<lambda>_. 1),
      rd_set_version = (\<lambda>r _. r),
      rd_safe = (\<lambda>r. safe (act_occurred_at_ms r)),
      rd_accepts = accepts\<rparr>"

interpretation retention_obligations: versioned_table "retention_obligations_table accepts"
  by unfold_locales (simp_all add: retention_obligations_table_def)

section \<open>The ledger invariant\<close>

text \<open>
  For every contract row, the active retained amounts stay within half of its average annual
  value and no team retains it twice; no team holds more than three active retentions; every
  active obligation is on a contract of its league.
\<close>

definition retention_ledger_ok :: "retention_store \<Rightarrow> bool" where
  "retention_ledger_ok st \<longleftrightarrow>
     (\<forall>c \<in> set (rs_contracts st).
        sum_list (map ro_retained_aav_cents (active_on_contract st (c_id c) (c_league_id c)))
          \<le> c_aav_cents c div 2 \<and>
        distinct (map ro_responsible_team_id (active_on_contract st (c_id c) (c_league_id c)))) \<and>
     (\<forall>t l. length (active_of_team st t l) \<le> 3) \<and>
     list_all (\<lambda>r. 1 \<le> ro_retained_aav_cents r) (rs_obligations st)"

inductive retention_reachable ::
  "retention_tables \<Rightarrow> (retention_store \<Rightarrow> retention_command \<Rightarrow> repo_error option) \<Rightarrow>
   retention_store \<Rightarrow> retention_store \<Rightarrow> bool"
  for tables synchronize start where
  start: "retention_reachable tables synchronize start start"
| create: "retention_reachable tables synchronize start st \<Longrightarrow>
    retention_create tables synchronize st input = Inr (st', agg) \<Longrightarrow>
    retention_reachable tables synchronize start st'"

lemma retention_createTransaction_Inr:
  assumes "retention_createTransaction tables synchronize st c = Inr (st', agg)"
  obtains contract where
    "findContracts st c = [contract]" "contract \<in> set (rs_contracts st)"
    "c_id contract = rc_contractId c" "c_league_id contract = rc_leagueId c"
    "createRetentionAggregate (aggregate_input st c contract) = Inr agg"
    "rs_obligations st' = rs_obligations st @ [ra_obligation agg]"
    "rs_contracts st' = rs_contracts st"
proof -
  from assms obtain contract where fc: "findContracts st c = [contract]"
    and rest: "createRetentionAggregate (aggregate_input st c contract) = Inr agg"
      "rs_obligations st' = rs_obligations st @ [ra_obligation agg]"
      "rs_contracts st' = rs_contracts st"
    by (auto simp: retention_createTransaction_def result_iffs Let_def Suc_le_eq
        split: if_splits list.splits prod.splits option.splits dest!: repo_insert_Inr)
  have "contract \<in> set (findContracts st c)" using fc by simp
  then have "contract \<in> set (filter (\<lambda>r. c_id r = rc_contractId c \<and> c_league_id r = rc_leagueId c)
      (rs_contracts st))"
    unfolding findContracts_def by (rule in_set_takeD)
  with fc rest show thesis by (intro that) auto
qed

lemma take_2_single: "take 2 xs = [x] \<Longrightarrow> xs = [x]"
  by (cases xs; cases "tl xs") (auto simp: numeral_2_eq_2)

lemma retention_create_Inr:
  assumes "retention_create tables synchronize st input = Inr (st', agg)"
  obtains c contract ys where
    "retention_command_wf c"
    "filter (\<lambda>r. c_id r = rc_contractId c \<and> c_league_id r = rc_leagueId c) (rs_contracts st) = [contract]"
    "rs_obligations st' = rs_obligations st @ [retention_obligation_row c]"
    "rs_contracts st' = rs_contracts st"
    "cumulativeRetained st c + rc_retainedAavCents c \<le> c_aav_cents contract div 2"
    "teamSlots st c < 3" "duplicateCount st c = 0"
    "rc_originatingTeamId c = rc_responsibleTeamId c" "c_status contract = ''active''"
    "c_current_team_id contract = rc_responsibleTeamId c" "c_player_id contract = rc_playerId c"
    "retention_schedule_ok c ys" "ra_years agg = retention_year_rows c ys"
proof -
  from assms obtain c where parsed: "validateRetentionCommand input = Inr c"
    and tr: "retention_createTransaction tables synchronize st c = Inr (st', agg)"
    by (auto simp: retention_create_def result_iffs)
  have wf: "retention_command_wf c" using parsed by (rule retention_validator.parse_wf)
  obtain contract where fc: "findContracts st c = [contract]"
    and agg: "createRetentionAggregate (aggregate_input st c contract) = Inr agg"
    and ob: "rs_obligations st' = rs_obligations st @ [ra_obligation agg]"
    and ct: "rs_contracts st' = rs_contracts st"
    using tr by (rule retention_createTransaction_Inr)
  have one: "filter (\<lambda>r. c_id r = rc_contractId c \<and> c_league_id r = rc_leagueId c) (rs_contracts st) = [contract]"
    using fc unfolding findContracts_def by (rule take_2_single)
  show thesis
  proof (rule createRetentionAggregate_Inr [OF agg], goal_cases)
    case (1 c' aav existing slots ys)
    from 1(1) retention_validator.parse_encode [OF wf] have "c' = c"
      by (simp add: aggregate_input_def)
    then show thesis
      using 1 wf one ob ct by (intro that) (auto simp: aggregate_input_def)
  qed
qed

lemma active_on_contract_append:
  "rs_obligations st' = rs_obligations st @ [r] \<Longrightarrow>
   active_on_contract st' k l = active_on_contract st k l @
     (if ro_contract_id r = k \<and> ro_league_id r = l \<and> ro_status r = ''active'' then [r] else [])"
  by (simp add: active_on_contract_def)

lemma active_of_team_append:
  "rs_obligations st' = rs_obligations st @ [r] \<Longrightarrow>
   active_of_team st' t l = active_of_team st t l @
     (if ro_responsible_team_id r = t \<and> ro_league_id r = l \<and> ro_status r = ''active'' then [r] else [])"
  by (simp add: active_of_team_def)

lemma retention_create_ledger_ok:
  assumes create: "retention_create tables synchronize st input = Inr (st', agg)"
    and ok: "retention_ledger_ok st"
  shows "retention_ledger_ok st'"
proof (rule retention_create_Inr [OF create], goal_cases)
  case (1 c contract ys)
  let ?r = "retention_obligation_row c"
  have row: "ro_contract_id ?r = rc_contractId c" "ro_league_id ?r = rc_leagueId c"
    "ro_status ?r = ''active''" "ro_responsible_team_id ?r = rc_responsibleTeamId c"
    "ro_retained_aav_cents ?r = rc_retainedAavCents c"
    by (simp_all add: retention_obligation_row_def)
  have no_dup: "rc_responsibleTeamId c \<notin>
      ro_responsible_team_id ` set (active_on_contract st (rc_contractId c) (rc_leagueId c))"
    using 1(7) by (auto simp: duplicateCount_def filter_empty_conv)
  have only: "k = contract" if "k \<in> set (rs_contracts st)" "c_id k = rc_contractId c"
    "c_league_id k = rc_leagueId c" for k
  proof -
    have "k \<in> set (filter (\<lambda>r. c_id r = rc_contractId c \<and> c_league_id r = rc_leagueId c) (rs_contracts st))"
      using that by simp
    then show ?thesis by (simp add: 1(2))
  qed
  have "sum_list (map ro_retained_aav_cents (active_on_contract st' (c_id k) (c_league_id k)))
      \<le> c_aav_cents k div 2 \<and>
    distinct (map ro_responsible_team_id (active_on_contract st' (c_id k) (c_league_id k)))"
    if k: "k \<in> set (rs_contracts st)" for k
  proof (cases "c_id k = rc_contractId c \<and> c_league_id k = rc_leagueId c")
    case True
    with k only have "k = contract" by blast
    moreover have "distinct (map ro_responsible_team_id (active_on_contract st (c_id k) (c_league_id k)))"
      using ok k by (simp add: retention_ledger_ok_def)
    ultimately show ?thesis
      using True 1(5) no_dup
      by (simp add: active_on_contract_append [OF 1(3)] row cumulativeRetained_def)
  next
    case False
    with ok k show ?thesis
      by (auto simp: active_on_contract_append [OF 1(3)] row retention_ledger_ok_def)
  qed
  moreover have "length (active_of_team st' t l) \<le> 3" for t l
    using ok 1(6) by (auto simp: active_of_team_append [OF 1(3)] row teamSlots_def retention_ledger_ok_def)
  moreover have "list_all (\<lambda>r. 1 \<le> ro_retained_aav_cents r) (rs_obligations st')"
    using ok 1(1) by (simp add: 1(3) row retention_ledger_ok_def retention_command_wf_def)
  ultimately show ?case by (simp add: retention_ledger_ok_def 1(4))
qed

section \<open>Properties\<close>

text \<open>
  C5. Whatever commands are submitted, in any order: in every state that the repository reaches from
  a sound ledger by successful creations, the active retentions of a contract stay within half of its
  average annual value, no team retains a contract twice and no team holds more than three.
\<close>

theorem retention_ledger_invariant:
  assumes "retention_reachable tables synchronize start st" and "retention_ledger_ok start"
  shows "retention_ledger_ok st"
  using assms(1)
proof (induction rule: retention_reachable.induct)
  case start
  show ?case by (rule assms(2))
next
  case (create st input st' agg)
  then show ?case by (blast intro: retention_create_ledger_ok)
qed

definition sample_contract :: contract_row where
  "sample_contract =
     \<lparr>c_id = sample_id CHR ''1'', c_league_id = sample_id CHR ''2'', c_player_id = sample_id CHR ''3'',
      c_current_team_id = sample_id CHR ''4'', c_contract_type = ''normal'',
      c_original_total_value_cents = 1000, c_original_term_years = 2, c_aav_cents = 500,
      c_start_season_id = sample_id CHR ''5'', c_status = ''active'',
      c_acquisition_source_type = ''auction_resolution'', c_acquisition_source_id = None,
      c_auction_buyout_lock_expires_at_ms = None, c_created_at_ms = 0, c_updated_at_ms = 0,
      c_version = 1\<rparr>"

definition sample_contract_year :: contract_year_row where
  "sample_contract_year =
     \<lparr>cy_id = sample_id CHR ''6'', cy_league_id = sample_id CHR ''2'', cy_contract_id = sample_id CHR ''1'',
      cy_season_id = sample_id CHR ''5'', cy_year_number = 1, cy_aav_cents = 500,
      cy_status = ''current'', cy_rollover_at_ms = None, cy_created_at_ms = 0\<rparr>"

definition sample_retention_store :: retention_store where
  "sample_retention_store =
     \<lparr>rs_contracts = [sample_contract], rs_contract_years = [sample_contract_year],
      rs_obligations = [], rs_years = [], rs_activity = []\<rparr>"

definition sample_retention :: retention_command where
  "sample_retention =
     \<lparr>rc_retentionId = sample_id CHR ''7'', rc_retentionYearIds = [sample_id CHR ''8''],
      rc_leagueId = sample_id CHR ''2'', rc_contractId = sample_id CHR ''1'',
      rc_playerId = sample_id CHR ''3'', rc_originatingTeamId = sample_id CHR ''4'',
      rc_responsibleTeamId = sample_id CHR ''4'', rc_retainedAavCents = 200,
      rc_creationTradeId = sample_id CHR ''9'', rc_activityId = sample_id CHR ''a'',
      rc_actorUserId = sample_id CHR ''b'', rc_actorAuthority = ''manager'',
      rc_occurredAtMs = 7\<rparr>"

definition sample_retention_tables :: retention_tables where
  "sample_retention_tables =
     \<lparr>rt_obligations = retention_obligations_table (\<lambda>_. True),
      rt_years = retention_years_table (\<lambda>_. True),
      rt_activity = league_activity_table (\<lambda>_. True)\<rparr>"

lemma sample_contract_fields [simp]:
  "c_aav_cents sample_contract = 500" "c_player_id sample_contract = sample_id CHR ''3''"
  "c_current_team_id sample_contract = sample_id CHR ''4''" "c_status sample_contract = ''active''"
  by (simp_all add: sample_contract_def)

lemma sample_retention_fields [simp]:
  "rc_playerId sample_retention = sample_id CHR ''3''"
  "rc_originatingTeamId sample_retention = sample_id CHR ''4''"
  "rc_responsibleTeamId sample_retention = sample_id CHR ''4''"
  "rc_retainedAavCents sample_retention = 200"
  "rc_retentionYearIds sample_retention = [sample_id CHR ''8'']"
  "rc_retentionId sample_retention = sample_id CHR ''7''"
  "rc_leagueId sample_retention = sample_id CHR ''2''"
  "rc_activityId sample_retention = sample_id CHR ''a''"
  "rc_occurredAtMs sample_retention = 7"
  by (simp_all add: sample_retention_def)

lemma sample_retention_wf: "retention_command_wf sample_retention"
  by (simp add: retention_command_wf_def sample_retention_def safe_def max_safe_def hex_char_def)

lemmas sample_retention_eval =
  sample_contract_def sample_contract_year_def sample_retention_store_def
  sample_retention_tables_def retention_obligations_table_def retention_years_table_def
  league_activity_table_def

lemma trim_sample_id [simp]: "trim (sample_id c) = [] \<longleftrightarrow> False"
  by (simp add: trim_def sample_id_def js_space_def)

lemma sample_retention_created:
  "\<exists>st' agg. retention_create sample_retention_tables (\<lambda>_ _. None) sample_retention_store
     (JObj (retention_command_fields sample_retention)) = Inr (st', agg) \<and>
     ra_cumulativeRetainedAavCents agg = 200"
proof -
  have parsed: "validateRetentionCommand (JObj (retention_command_fields sample_retention)) =
      Inr sample_retention"
    by (rule retention_validator.parse_encode [OF sample_retention_wf])
  have found: "findContracts sample_retention_store sample_retention = [sample_contract]"
    "remainingYears sample_retention_store sample_retention =
       [\<lparr>ry_seasonId = sample_id CHR ''5'', ry_status = ''current''\<rparr>]"
    "cumulativeRetained sample_retention_store sample_retention = 0"
    "teamSlots sample_retention_store sample_retention = 0"
    "duplicateCount sample_retention_store sample_retention = 0"
    by (simp_all add: findContracts_def remainingYears_def cumulativeRetained_def teamSlots_def
        duplicateCount_def active_on_contract_def active_of_team_def sample_retention_eval
        sample_retention_def)
  have agg: "createRetentionAggregate (aggregate_input sample_retention_store sample_retention sample_contract) =
      Inr \<lparr>ra_obligation = retention_obligation_row sample_retention,
        ra_years = retention_year_rows sample_retention
          [\<lparr>ry_seasonId = sample_id CHR ''5'', ry_status = ''current''\<rparr>],
        ra_retentionCeilingCents = 250, ra_cumulativeRetainedAavCents = 200\<rparr>"
    by (simp add: createRetentionAggregate_def aggregate_input_def retention_aggregate_keys_def
        retention_field_defs found parsed safe_from_def safe_def max_safe_def remainingYear_def
        one_of_def hex_char_def retention_schedule_ok_def calculateRetentionCeilingCents_def)
  have tables: "rs_obligations sample_retention_store = []" "rs_years sample_retention_store = []"
    "rs_activity sample_retention_store = []"
    by (simp_all add: sample_retention_store_def)
  show ?thesis
    by (simp add: retention_create_def parsed retention_createTransaction_def found agg tables
        policyE_def repoE_def repo_insert_def repo_validateRecord_def assertKey_def record_scope_def
        assertLeagueScope_def repo_requireByKey_def repo_findByKey_def sample_retention_tables_def
        retention_obligations_table_def retention_years_table_def league_activity_table_def
        retention_obligation_row_def retention_year_rows_def activity_for_def safe_def max_safe_def)
qed

theorem retention_ledger_invariant_witness:
  "\<exists>st agg. retention_reachable sample_retention_tables (\<lambda>_ _. None) sample_retention_store st \<and>
     retention_create sample_retention_tables (\<lambda>_ _. None) sample_retention_store
       (JObj (retention_command_fields sample_retention)) = Inr (st, agg) \<and>
     retention_ledger_ok st"
proof -
  obtain st agg where created: "retention_create sample_retention_tables (\<lambda>_ _. None)
      sample_retention_store (JObj (retention_command_fields sample_retention)) = Inr (st, agg)"
    using sample_retention_created by blast
  then have "retention_reachable sample_retention_tables (\<lambda>_ _. None) sample_retention_store st"
    by (rule retention_reachable.create [OF retention_reachable.start])
  moreover have "retention_ledger_ok sample_retention_store"
    by (simp add: retention_ledger_ok_def sample_retention_eval active_on_contract_def
        active_of_team_def)
  ultimately show ?thesis using created retention_ledger_invariant by blast
qed

end
