(* ===== verification/BuyoutPolicy.thy ===== *)
theory BuyoutPolicy
  imports ContractPolicy
begin

text \<open>
  \<^verbatim>\<open>src/src/domain/contracts/buyoutPolicy.js\<close> and \<^verbatim>\<open>rapidAuctionBuyoutLockPolicy.js\<close>: the
  penalty of a buyout, the buyout command, the lock after an auction and its exemption for rapid
  auctions, and the obligation with its yearly rows. The contract, the ownership and the auction
  evidence are database rows (\<open>None\<close> where the code tests for a missing object); the remaining
  years are validated objects, as in the code.
\<close>

section \<open>Errors and field checks\<close>

datatype buyout_code =
    BuyoutInputInvalid
  | BuyoutStableIdInvalid
  | BuyoutVersionInvalid
  | BuyoutAuthorityInvalid
  | BuyoutConfirmationRequired
  | BuyoutReasonInvalid
  | BuyoutTimestampInvalid
  | BuyoutContractInvalid
  | BuyoutOwnershipInvalid
  | BuyoutScopeMismatch
  | BuyoutVersionConflict
  | BuyoutLockActive int
  | BuyoutScheduleInvalid
  | BuyoutPendingTradeExists

definition buyout_exactObject :: "string list \<Rightarrow> jsval \<Rightarrow> buyout_code + unit" where
  "buyout_exactObject = exact_object BuyoutInputInvalid"

definition buyout_stableId :: "jsval \<Rightarrow> buyout_code + string" where
  "buyout_stableId = stable_id BuyoutStableIdInvalid"

definition buyout_safeNonnegative :: "jsval \<Rightarrow> buyout_code \<Rightarrow> buyout_code + int" where
  "buyout_safeNonnegative v code = safe_from code 0 v"

definition buyout_positiveVersion :: "jsval \<Rightarrow> buyout_code + int" where
  "buyout_positiveVersion = safe_from BuyoutVersionInvalid 1"

definition buyout_optionalReason :: "jsval \<Rightarrow> buyout_code + string option" where
  "buyout_optionalReason = nullable (bounded_text BuyoutReasonInvalid 500)"

lemmas buyout_field_defs =
  buyout_exactObject_def buyout_stableId_def buyout_safeNonnegative_def
  buyout_positiveVersion_def buyout_optionalReason_def

section \<open>The penalty\<close>

definition calculateBuyoutPenaltyCents :: "int \<Rightarrow> buyout_code + int" where
  "calculateBuyoutPenaltyCents contractAavCents =
     (if \<not> safe contractAavCents \<or> contractAavCents < 1 then Inl BuyoutContractInvalid
      else
      let wholeDollars = contractAavCents div 100 in
      Inr ((wholeDollars + (if 0 < contractAavCents mod 100 then 1 else 0)) * 25))"

definition isSupportedPersistedBuyoutPenalty :: "int \<Rightarrow> int \<Rightarrow> buyout_code + bool" where
  "isSupportedPersistedBuyoutPenalty contractAavCents penaltyCents =
     bindE (calculateBuyoutPenaltyCents contractAavCents) (\<lambda>currentPenalty.
     let legacyPenalty = contractAavCents div 4 + (if 2 \<le> contractAavCents mod 4 then 1 else 0) in
     Inr (safe penaltyCents \<and> 0 < penaltyCents \<and>
       (penaltyCents = currentPenalty \<or> penaltyCents = legacyPenalty)))"

lemma penalty_quarter_up:
  assumes "calculateBuyoutPenaltyCents aav = Inr p"
  shows "p mod 25 = 0 \<and> aav \<le> 4 * p \<and> 4 * (p - 25) < aav \<and> 25 \<le> p"
proof -
  define q r where "q = aav div 100" and "r = aav mod 100"
  have aav: "aav = 100 * q + r" "0 \<le> r" "r < 100" by (simp_all add: q_def r_def)
  have "p = (q + (if 0 < r then 1 else 0)) * 25" "1 \<le> aav"
    using assms by (simp_all add: calculateBuyoutPenaltyCents_def Let_def q_def r_def split: if_splits)
  with aav show ?thesis by (cases "0 < r") auto
qed

section \<open>The command\<close>

record buyout_command =
  bo_buyoutId :: string
  bo_buyoutYearIds :: "string list"
  bo_contractEventId :: string
  bo_ownershipEventId :: string
  bo_activityId :: string
  bo_leagueId :: string
  bo_seasonId :: string
  bo_teamId :: string
  bo_playerId :: string
  bo_contractId :: string
  bo_ownershipId :: string
  bo_expectedContractVersion :: int
  bo_expectedOwnershipVersion :: int
  bo_actorUserId :: string
  bo_actorAuthority :: string
  bo_confirmed :: bool
  bo_reason :: "string option"
  bo_occurredAtMs :: int

definition buyout_command_keys :: "string list" where
  "buyout_command_keys =
     [''buyoutId'', ''buyoutYearIds'', ''contractEventId'', ''ownershipEventId'', ''activityId'',
      ''leagueId'', ''seasonId'', ''teamId'', ''playerId'', ''contractId'', ''ownershipId'',
      ''expectedContractVersion'', ''expectedOwnershipVersion'', ''actorUserId'',
      ''actorAuthority'', ''confirmed'', ''reason'', ''occurredAtMs'']"

definition validateBuyoutCommand :: "jsval \<Rightarrow> buyout_code + buyout_command" where
  "validateBuyoutCommand input =
     bindE (buyout_exactObject buyout_command_keys input) (\<lambda>_.
     case items (fld input ''buyoutYearIds'') of
       None \<Rightarrow> Inl BuyoutScheduleInvalid
     | Some yearVals \<Rightarrow>
     bindE (mapE buyout_stableId yearVals) (\<lambda>buyoutYearIds.
     if \<not> distinct buyoutYearIds then Inl BuyoutScheduleInvalid
     else
     bindE (one_of BuyoutAuthorityInvalid [''manager'', ''commissioner'']
             (fld input ''actorAuthority'')) (\<lambda>actorAuthority.
     if fld input ''confirmed'' \<noteq> JBool True then Inl BuyoutConfirmationRequired
     else
     bindE (buyout_stableId (fld input ''buyoutId'')) (\<lambda>buyoutId.
     bindE (buyout_stableId (fld input ''contractEventId'')) (\<lambda>contractEventId.
     bindE (buyout_stableId (fld input ''ownershipEventId'')) (\<lambda>ownershipEventId.
     bindE (buyout_stableId (fld input ''activityId'')) (\<lambda>activityId.
     bindE (buyout_stableId (fld input ''leagueId'')) (\<lambda>leagueId.
     bindE (buyout_stableId (fld input ''seasonId'')) (\<lambda>seasonId.
     bindE (buyout_stableId (fld input ''teamId'')) (\<lambda>teamId.
     bindE (buyout_stableId (fld input ''playerId'')) (\<lambda>playerId.
     bindE (buyout_stableId (fld input ''contractId'')) (\<lambda>contractId.
     bindE (buyout_stableId (fld input ''ownershipId'')) (\<lambda>ownershipId.
     bindE (buyout_positiveVersion (fld input ''expectedContractVersion'')) (\<lambda>expectedContractVersion.
     bindE (buyout_positiveVersion (fld input ''expectedOwnershipVersion'')) (\<lambda>expectedOwnershipVersion.
     bindE (buyout_stableId (fld input ''actorUserId'')) (\<lambda>actorUserId.
     bindE (buyout_optionalReason (fld input ''reason'')) (\<lambda>reason.
     bindE (buyout_safeNonnegative (fld input ''occurredAtMs'') BuyoutTimestampInvalid) (\<lambda>occurredAtMs.
     Inr \<lparr>bo_buyoutId = buyoutId,
          bo_buyoutYearIds = buyoutYearIds,
          bo_contractEventId = contractEventId,
          bo_ownershipEventId = ownershipEventId,
          bo_activityId = activityId,
          bo_leagueId = leagueId,
          bo_seasonId = seasonId,
          bo_teamId = teamId,
          bo_playerId = playerId,
          bo_contractId = contractId,
          bo_ownershipId = ownershipId,
          bo_expectedContractVersion = expectedContractVersion,
          bo_expectedOwnershipVersion = expectedOwnershipVersion,
          bo_actorUserId = actorUserId,
          bo_actorAuthority = actorAuthority,
          bo_confirmed = True,
          bo_reason = reason,
          bo_occurredAtMs = occurredAtMs\<rparr>))))))))))))))))))"

definition buyout_command_fields :: "buyout_command \<Rightarrow> (string \<times> jsval) list" where
  "buyout_command_fields c =
     [(''buyoutId'', JStr (bo_buyoutId c)),
      (''buyoutYearIds'', JArr (map JStr (bo_buyoutYearIds c))),
      (''contractEventId'', JStr (bo_contractEventId c)),
      (''ownershipEventId'', JStr (bo_ownershipEventId c)),
      (''activityId'', JStr (bo_activityId c)),
      (''leagueId'', JStr (bo_leagueId c)),
      (''seasonId'', JStr (bo_seasonId c)),
      (''teamId'', JStr (bo_teamId c)),
      (''playerId'', JStr (bo_playerId c)),
      (''contractId'', JStr (bo_contractId c)),
      (''ownershipId'', JStr (bo_ownershipId c)),
      (''expectedContractVersion'', JInt (bo_expectedContractVersion c)),
      (''expectedOwnershipVersion'', JInt (bo_expectedOwnershipVersion c)),
      (''actorUserId'', JStr (bo_actorUserId c)),
      (''actorAuthority'', JStr (bo_actorAuthority c)),
      (''confirmed'', JBool (bo_confirmed c)),
      (''reason'', jstr_or_null (bo_reason c)),
      (''occurredAtMs'', JInt (bo_occurredAtMs c))]"

definition buyout_command_wf :: "buyout_command \<Rightarrow> bool" where
  "buyout_command_wf c \<longleftrightarrow>
     is_uuid (bo_buyoutId c) \<and> list_all is_uuid (bo_buyoutYearIds c) \<and>
     distinct (bo_buyoutYearIds c) \<and> is_uuid (bo_contractEventId c) \<and>
     is_uuid (bo_ownershipEventId c) \<and> is_uuid (bo_activityId c) \<and> is_uuid (bo_leagueId c) \<and>
     is_uuid (bo_seasonId c) \<and> is_uuid (bo_teamId c) \<and> is_uuid (bo_playerId c) \<and>
     is_uuid (bo_contractId c) \<and> is_uuid (bo_ownershipId c) \<and>
     safe (bo_expectedContractVersion c) \<and> 1 \<le> bo_expectedContractVersion c \<and>
     safe (bo_expectedOwnershipVersion c) \<and> 1 \<le> bo_expectedOwnershipVersion c \<and>
     is_uuid (bo_actorUserId c) \<and> bo_actorAuthority c \<in> {''manager'', ''commissioner''} \<and>
     bo_confirmed c \<and> pred_option (is_bounded_text 500) (bo_reason c) \<and>
     safe (bo_occurredAtMs c) \<and> 0 \<le> bo_occurredAtMs c"

interpretation buyout_validator:
  validator validateBuyoutCommand buyout_command_fields buyout_command_wf
proof (rule validatorI [where ks = buyout_command_keys and e = BuyoutInputInvalid])
  fix v c
  show "validateBuyoutCommand v = Inr c \<longleftrightarrow>
      buyout_command_wf c \<and> exact_object BuyoutInputInvalid buyout_command_keys v = Inr () \<and>
      list_all (\<lambda>(k, w). fld v k = w) (buyout_command_fields c)"
    unfolding validateBuyoutCommand_def buyout_field_defs result_iffs check_iffs
    by (cases c, simp add: buyout_command_wf_def buyout_command_fields_def) auto
qed (simp_all add: buyout_command_keys_def buyout_command_fields_def)

section \<open>The lock after an auction\<close>

record player_ownership_row =
  po_id :: string
  po_league_id :: string
  po_season_id :: string
  po_player_id :: string
  po_team_id :: string
  po_ownership_kind :: string
  po_roster_category :: string
  po_position_group :: string
  po_slot_number :: "int option"
  po_acquired_transaction_type :: string
  po_acquired_transaction_id :: "string option"
  po_created_at_ms :: int
  po_updated_at_ms :: int
  po_version :: int

record auction_acquisition =
  aq_resolutionId :: string
  aq_contractId :: string
  aq_leagueId :: string
  aq_seasonId :: string
  aq_playerId :: string
  aq_status :: string
  aq_outcomeCode :: string
  aq_sourceKind :: string
  aq_fadId :: string

definition isRapidAuctionBuyoutLockExempt ::
    "contract_row \<Rightarrow> auction_acquisition option \<Rightarrow> bool" where
  "isRapidAuctionBuyoutLockExempt contract acquisition =
     (case acquisition of
        None \<Rightarrow> False
      | Some a \<Rightarrow>
          c_acquisition_source_type contract = ''auction_resolution'' \<and>
          Some (aq_resolutionId a) = c_acquisition_source_id contract \<and>
          aq_contractId a = c_id contract \<and>
          aq_leagueId a = c_league_id contract \<and>
          aq_seasonId a = c_start_season_id contract \<and>
          aq_playerId a = c_player_id contract \<and>
          aq_status a = ''resolved'' \<and>
          aq_outcomeCode a = ''winner'' \<and>
          length (aq_fadId a) = 36 \<and>
          aq_sourceKind a \<in> {''fad_open_rapid'', ''fad_restricted''})"

text \<open>The lock timestamp that still holds at the given time, if any.\<close>

definition active_buyout_lock ::
    "contract_row \<Rightarrow> auction_acquisition option \<Rightarrow> int \<Rightarrow> int option" where
  "active_buyout_lock contract acquisition now =
     (case c_auction_buyout_lock_expires_at_ms contract of
        None \<Rightarrow> None
      | Some t \<Rightarrow>
          if now < t \<and> \<not> isRapidAuctionBuyoutLockExempt contract acquisition then Some t else None)"

section \<open>The obligation\<close>

record buyout_remaining_year =
  by_contractYearId :: string
  by_seasonId :: string
  by_status :: string

definition buyoutYear :: "jsval \<Rightarrow> buyout_code + buyout_remaining_year" where
  "buyoutYear v =
     bindE (buyout_exactObject [''contractYearId'', ''seasonId'', ''status''] v) (\<lambda>_.
     bindE (one_of BuyoutScheduleInvalid [''current'', ''future''] (fld v ''status'')) (\<lambda>status.
     bindE (buyout_stableId (fld v ''contractYearId'')) (\<lambda>contractYearId.
     bindE (buyout_stableId (fld v ''seasonId'')) (\<lambda>seasonId.
     Inr \<lparr>by_contractYearId = contractYearId, by_seasonId = seasonId, by_status = status\<rparr>))))"

record buyout_obligation_row =
  bob_id :: string
  bob_league_id :: string
  bob_contract_id :: string
  bob_player_id :: string
  bob_originating_team_id :: string
  bob_responsible_team_id :: string
  bob_annual_penalty_basis_cents :: int
  bob_buyout_transaction_id :: string
  bob_status :: string
  bob_created_at_ms :: int
  bob_updated_at_ms :: int
  bob_version :: int

record buyout_year_row =
  byr_id :: string
  byr_league_id :: string
  byr_buyout_obligation_id :: string
  byr_season_id :: string
  byr_penalty_cents :: int
  byr_status :: string
  byr_created_at_ms :: int

record buyout_aggregate =
  ba_obligation :: buyout_obligation_row
  ba_years :: "buyout_year_row list"
  ba_annualPenaltyCents :: int
  ba_totalScheduledPenaltyCents :: int
  ba_remainingYears :: "buyout_remaining_year list"

definition buyout_year_rows ::
    "buyout_command \<Rightarrow> int \<Rightarrow> buyout_remaining_year list \<Rightarrow> buyout_year_row list" where
  "buyout_year_rows command penalty years =
     map (\<lambda>(yearId, year).
       \<lparr>byr_id = yearId,
        byr_league_id = bo_leagueId command,
        byr_buyout_obligation_id = bo_buyoutId command,
        byr_season_id = by_seasonId year,
        byr_penalty_cents = penalty,
        byr_status = by_status year,
        byr_created_at_ms = bo_occurredAtMs command\<rparr>)
       (zip (bo_buyoutYearIds command) years)"

definition remaining_years_ok :: "buyout_command \<Rightarrow> buyout_remaining_year list \<Rightarrow> bool" where
  "remaining_years_ok command years \<longleftrightarrow>
     1 \<le> length years \<and> length years \<le> 3 \<and>
     length (bo_buyoutYearIds command) = length years \<and>
     by_status (hd years) = ''current'' \<and>
     list_all (\<lambda>y. by_status y = ''future'') (tl years) \<and>
     distinct (map by_seasonId years)"

definition createBuyoutAggregate ::
    "jsval \<Rightarrow> contract_row option \<Rightarrow> player_ownership_row option \<Rightarrow> jsval \<Rightarrow>
     auction_acquisition option \<Rightarrow> buyout_code + buyout_aggregate" where
  "createBuyoutAggregate commandInput contractInput ownershipInput remainingContractYears
       auctionAcquisition =
     bindE (validateBuyoutCommand commandInput) (\<lambda>command.
     case contractInput of None \<Rightarrow> Inl BuyoutContractInvalid | Some contract \<Rightarrow>
     if c_id contract \<noteq> bo_contractId command \<or> c_league_id contract \<noteq> bo_leagueId command \<or>
        c_player_id contract \<noteq> bo_playerId command \<or>
        c_current_team_id contract \<noteq> bo_teamId command
     then Inl BuyoutScopeMismatch
     else if c_status contract \<noteq> ''active'' then Inl BuyoutContractInvalid
     else if c_version contract \<noteq> bo_expectedContractVersion command
     then Inl BuyoutVersionConflict
     else (case active_buyout_lock contract auctionAcquisition (bo_occurredAtMs command) of
       Some t \<Rightarrow> Inl (BuyoutLockActive t)
     | None \<Rightarrow>
     (case ownershipInput of None \<Rightarrow> Inl BuyoutOwnershipInvalid | Some ownership \<Rightarrow>
     if po_id ownership \<noteq> bo_ownershipId command \<or>
        po_league_id ownership \<noteq> bo_leagueId command \<or>
        po_season_id ownership \<noteq> bo_seasonId command \<or>
        po_team_id ownership \<noteq> bo_teamId command \<or>
        po_player_id ownership \<noteq> bo_playerId command
     then Inl BuyoutScopeMismatch
     else if (po_ownership_kind ownership \<noteq> ''Rostered'' \<and>
          \<not> (po_ownership_kind ownership = ''Prospect Right'' \<and>
             po_roster_category ownership = ''Prospect'')) \<or>
        (po_roster_category ownership = ''Prospect'' \<and> c_contract_type contract \<noteq> ''fantasy_elc'') \<or>
        po_roster_category ownership \<notin> {''Active'', ''Bench'', ''Injured Reserve'', ''Prospect''}
     then Inl BuyoutOwnershipInvalid
     else if po_version ownership \<noteq> bo_expectedOwnershipVersion command
     then Inl BuyoutVersionConflict
     else (case items remainingContractYears of None \<Rightarrow> Inl BuyoutScheduleInvalid | Some yearVals \<Rightarrow>
     bindE (mapE buyoutYear yearVals) (\<lambda>remainingYears.
     if \<not> remaining_years_ok command remainingYears then Inl BuyoutScheduleInvalid
     else
     bindE (calculateBuyoutPenaltyCents (c_aav_cents contract)) (\<lambda>annualPenaltyCents.
     if annualPenaltyCents < 1 then Inl BuyoutContractInvalid
     else
     let years = buyout_year_rows command annualPenaltyCents remainingYears in
     Inr \<lparr>ba_obligation =
            \<lparr>bob_id = bo_buyoutId command,
             bob_league_id = bo_leagueId command,
             bob_contract_id = bo_contractId command,
             bob_player_id = bo_playerId command,
             bob_originating_team_id = bo_teamId command,
             bob_responsible_team_id = bo_teamId command,
             bob_annual_penalty_basis_cents = annualPenaltyCents,
             bob_buyout_transaction_id = bo_activityId command,
             bob_status = ''active'',
             bob_created_at_ms = bo_occurredAtMs command,
             bob_updated_at_ms = bo_occurredAtMs command,
             bob_version = 1\<rparr>,
          ba_years = years,
          ba_annualPenaltyCents = annualPenaltyCents,
          ba_totalScheduledPenaltyCents = annualPenaltyCents * int (length years),
          ba_remainingYears = remainingYears\<rparr>))))))"

section \<open>Properties\<close>

lemma buyout_year_rows_maps:
  assumes "length (bo_buyoutYearIds c) = length years"
  shows "map byr_id (buyout_year_rows c p years) = bo_buyoutYearIds c"
    and "map byr_season_id (buyout_year_rows c p years) = map by_seasonId years"
    and "map byr_status (buyout_year_rows c p years) = map by_status years"
    and "map byr_penalty_cents (buyout_year_rows c p years) = replicate (length years) p"
  using assms by (auto simp: buyout_year_rows_def intro!: nth_equalityI)

lemma remaining_years_status:
  assumes "remaining_years_ok c years"
  shows "map by_status years = ''current'' # replicate (length years - 1) ''future''"
  using assms by (cases years) (auto simp: remaining_years_ok_def list_all_iff
    intro!: nth_equalityI)

lemma createBuyoutAggregate_Inr:
  assumes "createBuyoutAggregate cmd co ow rem aq = Inr agg"
  shows "\<exists>command contract ownership p years.
    validateBuyoutCommand cmd = Inr command \<and> co = Some contract \<and> ow = Some ownership \<and>
    active_buyout_lock contract aq (bo_occurredAtMs command) = None \<and>
    c_status contract = ''active'' \<and> c_version contract = bo_expectedContractVersion command \<and>
    po_version ownership = bo_expectedOwnershipVersion command \<and>
    c_current_team_id contract = bo_teamId command \<and> po_team_id ownership = bo_teamId command \<and>
    calculateBuyoutPenaltyCents (c_aav_cents contract) = Inr p \<and>
    remaining_years_ok command years \<and> ba_remainingYears agg = years \<and>
    ba_annualPenaltyCents agg = p \<and> ba_years agg = buyout_year_rows command p years \<and>
    ba_totalScheduledPenaltyCents agg = p * int (length (ba_years agg))"
  using assms
  by (auto simp: createBuyoutAggregate_def result_iffs Let_def)


definition sample_buyout_command :: buyout_command where
  "sample_buyout_command =
     \<lparr>bo_buyoutId = sample_id CHR ''1'',
      bo_buyoutYearIds = [sample_id CHR ''2'', sample_id CHR ''3''],
      bo_contractEventId = sample_id CHR ''4'',
      bo_ownershipEventId = sample_id CHR ''5'',
      bo_activityId = sample_id CHR ''6'',
      bo_leagueId = sample_id CHR ''7'',
      bo_seasonId = sample_id CHR ''8'',
      bo_teamId = sample_id CHR ''9'',
      bo_playerId = sample_id CHR ''a'',
      bo_contractId = sample_id CHR ''b'',
      bo_ownershipId = sample_id CHR ''c'',
      bo_expectedContractVersion = 1,
      bo_expectedOwnershipVersion = 2,
      bo_actorUserId = sample_id CHR ''d'',
      bo_actorAuthority = ''manager'',
      bo_confirmed = True,
      bo_reason = None,
      bo_occurredAtMs = 50\<rparr>"

definition sample_bought_contract :: contract_row where
  "sample_bought_contract =
     \<lparr>c_id = sample_id CHR ''b'',
      c_league_id = sample_id CHR ''7'',
      c_player_id = sample_id CHR ''a'',
      c_current_team_id = sample_id CHR ''9'',
      c_contract_type = ''normal'',
      c_original_total_value_cents = 450,
      c_original_term_years = 2,
      c_aav_cents = 225,
      c_start_season_id = sample_id CHR ''8'',
      c_status = ''active'',
      c_acquisition_source_type = ''auction_resolution'',
      c_acquisition_source_id = None,
      c_auction_buyout_lock_expires_at_ms = Some 50,
      c_created_at_ms = 0,
      c_updated_at_ms = 0,
      c_version = 1\<rparr>"

definition sample_ownership :: player_ownership_row where
  "sample_ownership =
     \<lparr>po_id = sample_id CHR ''c'',
      po_league_id = sample_id CHR ''7'',
      po_season_id = sample_id CHR ''8'',
      po_player_id = sample_id CHR ''a'',
      po_team_id = sample_id CHR ''9'',
      po_ownership_kind = ''Rostered'',
      po_roster_category = ''Active'',
      po_position_group = ''F'',
      po_slot_number = Some 3,
      po_acquired_transaction_type = ''auction_resolution'',
      po_acquired_transaction_id = None,
      po_created_at_ms = 0,
      po_updated_at_ms = 0,
      po_version = 2\<rparr>"

definition sample_remaining_years :: jsval where
  "sample_remaining_years = JArr
     [JObj [(''contractYearId'', JStr (sample_id CHR ''e'')), (''seasonId'', JStr (sample_id CHR ''8'')),
            (''status'', JStr ''current'')],
      JObj [(''contractYearId'', JStr (sample_id CHR ''f'')), (''seasonId'', JStr (sample_id CHR ''0'')),
            (''status'', JStr ''future'')]]"

lemma sample_buyout_command_parses:
  "validateBuyoutCommand (JObj (buyout_command_fields sample_buyout_command)) = Inr sample_buyout_command"
  by (rule buyout_validator.parse_encode)
    (simp add: buyout_command_wf_def sample_buyout_command_def safe_def max_safe_def hex_char_def)

lemma sample_remaining_years_parse:
  "items sample_remaining_years = Some vs \<Longrightarrow> mapE buyoutYear vs = Inr
     [\<lparr>by_contractYearId = sample_id CHR ''e'', by_seasonId = sample_id CHR ''8'', by_status = ''current''\<rparr>,
      \<lparr>by_contractYearId = sample_id CHR ''f'', by_seasonId = sample_id CHR ''0'', by_status = ''future''\<rparr>]"
  by (auto simp: sample_remaining_years_def buyoutYear_def buyout_field_defs one_of_def hex_char_def)

lemma sample_buyout_accepted:
  "\<exists>agg. createBuyoutAggregate (JObj (buyout_command_fields sample_buyout_command))
     (Some sample_bought_contract) (Some sample_ownership) sample_remaining_years None = Inr agg"
proof -
  obtain vs where vs: "items sample_remaining_years = Some vs" by (simp add: sample_remaining_years_def)
  show ?thesis
    by (simp add: createBuyoutAggregate_def sample_buyout_command_parses vs
        sample_remaining_years_parse [OF vs])
      (simp add: vs sample_remaining_years_parse [OF vs] sample_buyout_command_def sample_bought_contract_def sample_ownership_def
        active_buyout_lock_def remaining_years_ok_def calculateBuyoutPenaltyCents_def
        safe_def max_safe_def Let_def)
qed


end
