(* ===== verification/SeasonPlanner.thy ===== *)
theory SeasonPlanner
  imports Validation
begin

text \<open>
  \<^verbatim>\<open>src/src/domain/contracts/contractSeasonPlanner.js\<close>: which seasons a contract of one to
  three years runs through. Seasons that exist as planned ones are reused, missing ones are created
  from their start year. The two \<^verbatim>\<open>Map\<close> objects by key and by label are lookups in the list
  of existing seasons, where the last entry of a key counts.
\<close>

section \<open>Codes and checks\<close>

datatype planner_code =
    PlannerInputInvalid
  | PlannerStableIdInvalid
  | PlannerSeasonInvalid
  | PlannerSeasonConflict
  | PlannerTermInvalid
  | PlannerTimestampInvalid

definition planner_stableId :: "jsval \<Rightarrow> planner_code + string" where
  "planner_stableId = stable_id PlannerStableIdInvalid"

definition planner_safeTimestamp :: "jsval \<Rightarrow> planner_code + int" where
  "planner_safeTimestamp = safe_between PlannerTimestampInvalid 0 max_timestamp"

definition displayLabel :: "jsval \<Rightarrow> planner_code + string" where
  "displayLabel = bounded_text PlannerSeasonInvalid 100"

definition is_digit :: "char \<Rightarrow> bool" where
  "is_digit c \<longleftrightarrow> 48 \<le> (of_char c :: nat) \<and> (of_char c :: nat) \<le> 57"

text \<open>The key and the year it starts with.\<close>

definition canonicalSeasonKey :: "jsval \<Rightarrow> planner_code + (string \<times> int)" where
  "canonicalSeasonKey v = (case v of
     JStr s \<Rightarrow>
       if length s \<noteq> 8 \<or> \<not> list_all is_digit s then Inl PlannerSeasonInvalid
       else
       let startYear = text_nat (take 4 s); endYear = text_nat (drop 4 s) in
       if endYear \<noteq> startYear + 1 then Inl PlannerSeasonInvalid
       else Inr (s, int startYear)
   | _ \<Rightarrow> Inl PlannerSeasonInvalid)"

definition padStart :: "nat \<Rightarrow> string \<Rightarrow> string" where
  "padStart n s = replicate (n - length s) CHR ''0'' @ s"

definition canonicalSeasonIdentity :: "int \<Rightarrow> planner_code + (string \<times> string)" where
  "canonicalSeasonIdentity startYear =
     (let endYear = startYear + 1 in
      if \<not> safe startYear \<or> startYear < 0 \<or> 9999 < startYear \<or> 9999 < endYear
      then Inl PlannerSeasonInvalid
      else Inr (padStart 4 (int_text startYear) @ padStart 4 (int_text endYear),
                padStart 4 (int_text startYear) @ ''-'' @ padStart 2 (int_text (endYear mod 100))))"

record planner_season =
  ps_id :: string
  ps_leagueId :: string
  ps_label :: string
  ps_nhlSeasonKey :: string
  ps_startYear :: int
  ps_status :: string

definition season_keys :: "string list" where
  "season_keys = [''id'', ''leagueId'', ''label'', ''nhlSeasonKey'', ''status'']"

definition season_statuses :: "string list" where
  "season_statuses = [''planned'', ''active'', ''completed'', ''cancelled'']"

definition normalizeSeason :: "string \<Rightarrow> jsval \<Rightarrow> planner_code + planner_season" where
  "normalizeSeason expectedLeagueId input =
     bindE (exact_object PlannerInputInvalid season_keys input) (\<lambda>_.
     bindE (planner_stableId (fld input ''leagueId'')) (\<lambda>leagueId.
     if leagueId \<noteq> expectedLeagueId then Inl PlannerSeasonConflict
     else
     bindE (one_of PlannerSeasonInvalid season_statuses (fld input ''status'')) (\<lambda>status.
     bindE (canonicalSeasonKey (fld input ''nhlSeasonKey'')) (\<lambda>(key, startYear).
     bindE (planner_stableId (fld input ''id'')) (\<lambda>sid.
     bindE (displayLabel (fld input ''label'')) (\<lambda>label.
     Inr \<lparr>ps_id = sid, ps_leagueId = leagueId, ps_label = label, ps_nhlSeasonKey = key,
          ps_startYear = startYear, ps_status = status\<rparr>))))))"

section \<open>The plan\<close>

definition assertUniqueExistingSeasons :: "planner_season list \<Rightarrow> planner_code + unit" where
  "assertUniqueExistingSeasons existing =
     (if distinct (map ps_id existing) \<and> distinct (map ps_nhlSeasonKey existing) \<and>
         distinct (map ps_label existing)
      then Inr () else Inl PlannerSeasonConflict)"

definition assertTargetSeason :: "planner_season \<Rightarrow> planner_season list \<Rightarrow> planner_code + unit" where
  "assertTargetSeason targetSeason existing =
     (if ps_status targetSeason \<noteq> ''active'' then Inl PlannerSeasonInvalid
      else case find (\<lambda>s. ps_id s = ps_id targetSeason) existing of
        None \<Rightarrow> Inl PlannerSeasonConflict
      | Some persistedTarget \<Rightarrow>
          if ps_leagueId persistedTarget \<noteq> ps_leagueId targetSeason \<or>
             ps_label persistedTarget \<noteq> ps_label targetSeason \<or>
             ps_nhlSeasonKey persistedTarget \<noteq> ps_nhlSeasonKey targetSeason \<or>
             ps_status persistedTarget \<noteq> ps_status targetSeason \<or>
             length (filter (\<lambda>s. ps_status s = ''active'') existing) \<noteq> 1
          then Inl PlannerSeasonConflict
          else Inr ())"

record season_row =
  sr_id :: string
  sr_leagueId :: string
  sr_label :: string
  sr_nhlSeasonKey :: string
  sr_status :: string
  sr_regularSeasonStartsAtMs :: "int option"
  sr_regularSeasonEndsAtMs :: "int option"
  sr_fantasyPlayoffsStartAtMs :: "int option"
  sr_fantasyPlayoffsEndAtMs :: "int option"
  sr_freeAgentDraftCompletedAtMs :: "int option"
  sr_createdAtMs :: int
  sr_updatedAtMs :: int
  sr_version :: int

definition planned_season_row :: "string \<Rightarrow> int \<Rightarrow> string \<Rightarrow> string \<times> string \<Rightarrow> season_row" where
  "planned_season_row leagueId nowMs newId identity =
     \<lparr>sr_id = newId, sr_leagueId = leagueId, sr_label = snd identity,
      sr_nhlSeasonKey = fst identity, sr_status = ''planned'',
      sr_regularSeasonStartsAtMs = None, sr_regularSeasonEndsAtMs = None,
      sr_fantasyPlayoffsStartAtMs = None, sr_fantasyPlayoffsEndAtMs = None,
      sr_freeAgentDraftCompletedAtMs = None,
      sr_createdAtMs = nowMs, sr_updatedAtMs = nowMs, sr_version = 1\<rparr>"

definition map_get :: "(planner_season \<Rightarrow> string) \<Rightarrow> planner_season list \<Rightarrow> string \<Rightarrow> planner_season option" where
  "map_get key existing k = find (\<lambda>s. key s = k) (rev existing)"

text \<open>The existing season of an identity: \<open>None\<close> when it has to be created.\<close>

definition match_season :: "planner_season list \<Rightarrow> string \<times> string \<Rightarrow> planner_code + planner_season option" where
  "match_season existing identity =
     (let keyMatch = map_get ps_nhlSeasonKey existing (fst identity);
          labelMatch = map_get ps_label existing (snd identity);
          matched = (case keyMatch of None \<Rightarrow> labelMatch | Some s \<Rightarrow> Some s) in
      if (\<exists>k l. keyMatch = Some k \<and> labelMatch = Some l \<and> ps_id k \<noteq> ps_id l)
      then Inl PlannerSeasonConflict
      else case matched of
        None \<Rightarrow> Inr None
      | Some s \<Rightarrow>
          if ps_nhlSeasonKey s \<noteq> fst identity \<or> ps_label s \<noteq> snd identity \<or>
             ps_status s \<noteq> ''planned''
          then Inl PlannerSeasonConflict
          else Inr (Some s))"

text \<open>One round of the loop over the later years, with the identifiers not used so far.\<close>

fun plan_years :: "string \<Rightarrow> int \<Rightarrow> planner_season list \<Rightarrow> int list \<Rightarrow> string list \<Rightarrow>
    planner_code + (string list \<times> season_row list)" where
  "plan_years leagueId nowMs existing [] generatedIds = Inr ([], [])"
| "plan_years leagueId nowMs existing (year # years) generatedIds =
     bindE (canonicalSeasonIdentity year) (\<lambda>identity.
     bindE (match_season existing identity) (\<lambda>matched.
     case matched of
       Some s \<Rightarrow>
         bindE (plan_years leagueId nowMs existing years generatedIds) (\<lambda>(seasonIds, created).
         Inr (ps_id s # seasonIds, created))
     | None \<Rightarrow>
         bindE (plan_years leagueId nowMs existing years (tl generatedIds)) (\<lambda>(seasonIds, created).
         Inr (hd generatedIds # seasonIds,
              planned_season_row leagueId nowMs (hd generatedIds) identity # created))))"

record season_plan =
  sp_seasonIds :: "string list"
  sp_seasonsToCreate :: "season_row list"

definition plan_keys :: "string list" where
  "plan_keys =
     [''leagueId'', ''targetSeason'', ''existingSeasons'', ''futureSeasonIds'', ''termYears'', ''nowMs'']"

definition planContractSeasons :: "jsval \<Rightarrow> planner_code + season_plan" where
  "planContractSeasons input =
     bindE (exact_object PlannerInputInvalid plan_keys input) (\<lambda>_.
     bindE (planner_stableId (fld input ''leagueId'')) (\<lambda>leagueId.
     bindE (safe_between PlannerTermInvalid 1 3 (fld input ''termYears'')) (\<lambda>termYears.
     bindE (planner_safeTimestamp (fld input ''nowMs'')) (\<lambda>nowMs.
     case items (fld input ''existingSeasons'') of None \<Rightarrow> Inl PlannerInputInvalid | Some existingVals \<Rightarrow>
     case items (fld input ''futureSeasonIds'') of None \<Rightarrow> Inl PlannerInputInvalid | Some futureVals \<Rightarrow>
     if length futureVals \<noteq> 2 then Inl PlannerInputInvalid
     else
     bindE (normalizeSeason leagueId (fld input ''targetSeason'')) (\<lambda>targetSeason.
     bindE (mapE (normalizeSeason leagueId) existingVals) (\<lambda>existing.
     bindE (assertUniqueExistingSeasons existing) (\<lambda>_.
     bindE (assertTargetSeason targetSeason existing) (\<lambda>_.
     bindE (mapE planner_stableId futureVals) (\<lambda>generatedIds.
     if \<not> distinct generatedIds \<or> list_ex (\<lambda>i. i \<in> ps_id ` set existing) generatedIds
     then Inl PlannerSeasonConflict
     else
     bindE (plan_years leagueId nowMs existing
             (map (\<lambda>offset. ps_startYear targetSeason + offset) [1..termYears - 1]) generatedIds)
       (\<lambda>(seasonIds, created).
     Inr \<lparr>sp_seasonIds = ps_id targetSeason # seasonIds, sp_seasonsToCreate = created\<rparr>))))))))))"

section \<open>Numerals of a fixed width\<close>

lemma nat_text_length: "n < 10 ^ k \<Longrightarrow> 0 < k \<Longrightarrow> length (nat_text n) \<le> k"
proof (induction k arbitrary: n)
  case 0
  then show ?case by simp
next
  case (Suc k)
  show ?case
  proof (cases "n < 10")
    case True
    then show ?thesis by (simp add: nat_text.simps [of n])
  next
    case False
    then have "0 < k" using Suc.prems(1) by (cases k) auto
    moreover have "n div 10 < 10 ^ k" using Suc.prems(1) by (simp add: less_mult_imp_div_less)
    ultimately have "length (nat_text (n div 10)) \<le> k" by (intro Suc.IH)
    with False show ?thesis by (simp add: nat_text.simps [of n])
  qed
qed

lemma nat_text_nonempty: "nat_text n \<noteq> []"
  by (subst nat_text.simps) simp

lemma is_digit_digit_char: "n < 10 \<Longrightarrow> is_digit (digit_char n)"
  by (simp add: is_digit_def of_char_of)

lemma nat_text_digits: "list_all is_digit (nat_text n)"
proof (induction n rule: nat_text.induct)
  case (1 n)
  then show ?case
    by (subst nat_text.simps) (auto simp: is_digit_digit_char simp del: digit_char.simps)
qed

lemma is_digit_zero: "is_digit CHR ''0''"
  by (simp add: is_digit_def)

lemma padStart_facts:
  "length s \<le> n \<Longrightarrow> length (padStart n s) = n"
  "list_all is_digit s \<Longrightarrow> list_all is_digit (padStart n s)"
  by (auto simp: padStart_def list_all_iff is_digit_zero)

lemma text_nat_replicate_zero: "text_nat (replicate k CHR ''0'' @ s) = text_nat s"
  by (induction k) (simp_all add: text_nat_def digit_value_def)

lemma text_nat_padStart [simp]: "text_nat (padStart n s) = text_nat s"
  by (simp add: padStart_def text_nat_replicate_zero)

text \<open>The text of a year: four digits that read back as the year.\<close>

definition year_text :: "int \<Rightarrow> string" where
  "year_text y = padStart 4 (int_text y)"

lemma year_text_facts:
  assumes "0 \<le> y" "y \<le> 9999"
  shows "length (year_text y) = 4" "list_all is_digit (year_text y)" "int (text_nat (year_text y)) = y"
proof -
  have "length (nat_text (nat y)) \<le> 4" using assms by (intro nat_text_length) auto
  with assms show "length (year_text y) = 4" "list_all is_digit (year_text y)"
      "int (text_nat (year_text y)) = y"
    by (simp_all add: year_text_def int_text_def padStart_facts nat_text_digits)
qed

lemma digit_not_space: "is_digit c \<Longrightarrow> \<not> js_space c \<and> \<not> control_char c"
  by (auto simp: is_digit_def js_space_def control_char_def)

lemma trim_id: "s \<noteq> [] \<Longrightarrow> \<not> js_space (hd s) \<Longrightarrow> \<not> js_space (last s) \<Longrightarrow> trim s = s"
proof -
  assume s: "s \<noteq> []" "\<not> js_space (hd s)" "\<not> js_space (last s)"
  then have "dropWhile js_space s = s" by (cases s) auto
  moreover have "dropWhile js_space (rev s) = rev s" using s by (cases s rule: rev_cases) auto
  ultimately show ?thesis by (simp add: trim_def)
qed

lemma canonicalSeasonIdentity_iff:
  "canonicalSeasonIdentity y = Inr ident \<longleftrightarrow> 0 \<le> y \<and> y \<le> 9998 \<and>
     ident = (year_text y @ year_text (y + 1),
              year_text y @ ''-'' @ padStart 2 (int_text ((y + 1) mod 100)))"
  by (auto simp: canonicalSeasonIdentity_def Let_def year_text_def safe_def max_safe_def)

lemma identity_year:
  assumes "canonicalSeasonIdentity y = Inr ident"
  shows "int (text_nat (take 4 (fst ident))) = y" "int (text_nat (take 4 (snd ident))) = y"
    "canonicalSeasonKey (JStr (fst ident)) = Inr (fst ident, y)" "is_bounded_text 100 (snd ident)"
proof -
  have y: "0 \<le> y" "y \<le> 9998" and ident: "fst ident = year_text y @ year_text (y + 1)"
      "snd ident = year_text y @ ''-'' @ padStart 2 (int_text ((y + 1) mod 100))"
    using assms by (auto simp: canonicalSeasonIdentity_iff)
  note f = year_text_facts [of y] year_text_facts [of "y + 1"]
  show "int (text_nat (take 4 (fst ident))) = y" "int (text_nat (take 4 (snd ident))) = y"
    using y f by (simp_all add: ident)
  have "text_nat (year_text y) = nat y" "text_nat (year_text (y + 1)) = nat (y + 1)"
    using y f by linarith+
  then show "canonicalSeasonKey (JStr (fst ident)) = Inr (fst ident, y)"
    using y f by (simp add: canonicalSeasonKey_def ident Let_def nat_add_distrib)
  define d where "d = padStart 2 (int_text ((y + 1) mod 100))"
  have "length (nat_text (nat ((y + 1) mod 100))) \<le> 2"
    by (rule nat_text_length) (simp_all add: nat_less_iff)
  then have d: "length d = 2" "list_all is_digit d"
    by (simp_all add: d_def int_text_def padStart_facts nat_text_digits)
  have yt: "length (year_text y) = 4" "list_all is_digit (year_text y)" using y f by simp_all
  then have "year_text y \<noteq> []" "d \<noteq> []" using d by auto
  then have hd_last: "hd (snd ident) \<in> set (year_text y)" "last (snd ident) \<in> set d"
    unfolding ident d_def [symmetric] by simp_all
  have "trim (snd ident) = snd ident"
    using hd_last yt(2) d(2) digit_not_space by (intro trim_id) (auto simp: list_all_iff ident)
  moreover have "\<not> list_ex control_char (snd ident)"
    unfolding ident d_def [symmetric] using yt(2) d(2) digit_not_space
    by (auto simp: list_all_iff list_ex_iff control_char_def)
  ultimately show "is_bounded_text 100 (snd ident)"
    using yt(1) d(1) by (simp add: is_bounded_text_def ident flip: d_def)
qed

section \<open>Normalised seasons\<close>

definition season_object :: "planner_season \<Rightarrow> (string \<times> jsval) list" where
  "season_object s =
     [(''id'', JStr (ps_id s)), (''leagueId'', JStr (ps_leagueId s)), (''label'', JStr (ps_label s)),
      (''nhlSeasonKey'', JStr (ps_nhlSeasonKey s)), (''status'', JStr (ps_status s))]"

definition season_wf :: "string \<Rightarrow> planner_season \<Rightarrow> bool" where
  "season_wf leagueId s \<longleftrightarrow>
     is_uuid (ps_id s) \<and> is_uuid leagueId \<and> ps_leagueId s = leagueId \<and>
     is_bounded_text 100 (ps_label s) \<and>
     canonicalSeasonKey (JStr (ps_nhlSeasonKey s)) = Inr (ps_nhlSeasonKey s, ps_startYear s) \<and>
     ps_status s \<in> set season_statuses"

lemma canonicalSeasonKey_Inr:
  "canonicalSeasonKey v = Inr (k, y) \<longleftrightarrow> v = JStr k \<and> canonicalSeasonKey (JStr k) = Inr (k, y)"
  by (cases v) (auto simp: canonicalSeasonKey_def Let_def split: if_splits)

lemma normalizeSeason_iff:
  "normalizeSeason leagueId v = Inr s \<longleftrightarrow>
     season_wf leagueId s \<and> exact_object PlannerInputInvalid season_keys v = Inr () \<and>
     list_all (\<lambda>(k, w). fld v k = w) (season_object s)"
proof -
  have "normalizeSeason leagueId v = Inr s \<longleftrightarrow>
      exact_object PlannerInputInvalid season_keys v = Inr () \<and>
      fld v ''leagueId'' = JStr leagueId \<and> is_uuid leagueId \<and>
      (\<exists>status key startYear sid label.
         fld v ''status'' = JStr status \<and> status \<in> set season_statuses \<and>
         fld v ''nhlSeasonKey'' = JStr key \<and> canonicalSeasonKey (JStr key) = Inr (key, startYear) \<and>
         fld v ''id'' = JStr sid \<and> is_uuid sid \<and>
         fld v ''label'' = JStr label \<and> is_bounded_text 100 label \<and>
         s = \<lparr>ps_id = sid, ps_leagueId = leagueId, ps_label = label, ps_nhlSeasonKey = key,
              ps_startYear = startYear, ps_status = status\<rparr>)"
    unfolding normalizeSeason_def planner_stableId_def displayLabel_def
    by (auto simp: result_iffs check_iffs canonicalSeasonKey_Inr [of "fld v ''nhlSeasonKey''"] split: prod.splits)
  then show ?thesis
    by (cases s) (auto simp: season_wf_def season_object_def)
qed

interpretation seasons: validator "normalizeSeason leagueId" season_object "season_wf leagueId"
  by (rule validatorI [where ks = season_keys and e = PlannerInputInvalid])
    (simp_all add: normalizeSeason_iff season_object_def season_keys_def)

lemma season_wf_year:
  "season_wf leagueId s \<Longrightarrow> ps_startYear s = int (text_nat (take 4 (ps_nhlSeasonKey s)))"
  by (auto simp: season_wf_def canonicalSeasonKey_def Let_def split: if_splits)

section \<open>Looking up an identity\<close>

definition seasons_unique :: "planner_season list \<Rightarrow> bool" where
  "seasons_unique es \<longleftrightarrow>
     distinct (map ps_id es) \<and> distinct (map ps_nhlSeasonKey es) \<and> distinct (map ps_label es)"

lemma map_get_SomeD: "map_get key es k = Some s \<Longrightarrow> s \<in> set es \<and> key s = k"
proof -
  assume "map_get key es k = Some s"
  then obtain i where "i < length es" "key (rev es ! i) = k" "s = rev es ! i"
    by (auto simp: map_get_def find_Some_iff)
  then show ?thesis by (metis length_rev nth_mem set_rev)
qed

lemma map_get_Some_iff:
  assumes "distinct (map key es)"
  shows "map_get key es k = Some s \<longleftrightarrow> s \<in> set es \<and> key s = k"
proof
  assume s: "s \<in> set es \<and> key s = k"
  then obtain r where r: "map_get key es k = Some r"
    unfolding map_get_def by (cases "find (\<lambda>s. key s = k) (rev es)") (auto simp: find_None_iff)
  then have "r \<in> set es" "key r = k" using map_get_SomeD by blast+
  with s assms have "r = s" by (auto simp: distinct_map dest: inj_onD)
  with r show "map_get key es k = Some s" by simp
qed (rule map_get_SomeD)

lemma map_get_None_iff: "map_get key es k = None \<longleftrightarrow> k \<notin> key ` set es"
  by (auto simp: map_get_def find_None_iff)

lemma match_season_Some_iff:
  assumes "seasons_unique es"
  shows "match_season es ident = Inr (Some s) \<longleftrightarrow>
    s \<in> set es \<and> ps_nhlSeasonKey s = fst ident \<and> ps_label s = snd ident \<and> ps_status s = ''planned''"
proof
  assume m: "match_season es ident = Inr (Some s)"
  then have "map_get ps_nhlSeasonKey es (fst ident) = Some s \<or> map_get ps_label es (snd ident) = Some s"
    by (auto simp: match_season_def Let_def split: option.splits if_splits)
  then have "s \<in> set es" using map_get_SomeD by blast
  with m show "s \<in> set es \<and> ps_nhlSeasonKey s = fst ident \<and> ps_label s = snd ident \<and>
      ps_status s = ''planned''"
    by (auto simp: match_season_def Let_def split: option.splits if_splits)
next
  assume s: "s \<in> set es \<and> ps_nhlSeasonKey s = fst ident \<and> ps_label s = snd ident \<and>
    ps_status s = ''planned''"
  then have "map_get ps_nhlSeasonKey es (fst ident) = Some s" "map_get ps_label es (snd ident) = Some s"
    using assms by (simp_all add: seasons_unique_def map_get_Some_iff)
  with s show "match_season es ident = Inr (Some s)" by (simp add: match_season_def)
qed

lemma match_season_None:
  "match_season es ident = Inr None \<Longrightarrow>
     fst ident \<notin> ps_nhlSeasonKey ` set es \<and> snd ident \<notin> ps_label ` set es"
  by (auto simp: match_season_def Let_def map_get_None_iff [symmetric] split: option.splits if_splits)

section \<open>The loop\<close>

definition row_season :: "season_row \<Rightarrow> planner_season" where
  "row_season r =
     \<lparr>ps_id = sr_id r, ps_leagueId = sr_leagueId r, ps_label = sr_label r,
      ps_nhlSeasonKey = sr_nhlSeasonKey r,
      ps_startYear = int (text_nat (take 4 (sr_nhlSeasonKey r))), ps_status = sr_status r\<rparr>"

definition planned_year :: "int \<Rightarrow> planner_season \<Rightarrow> bool" where
  "planned_year y s \<longleftrightarrow>
     canonicalSeasonIdentity y = Inr (ps_nhlSeasonKey s, ps_label s) \<and> ps_status s = ''planned''"

lemma planned_year_row:
  "canonicalSeasonIdentity y = Inr ident \<Longrightarrow>
     planned_year y (row_season (planned_season_row l now i ident)) \<and>
     ps_startYear (row_season (planned_season_row l now i ident)) = y"
  by (simp add: planned_year_def row_season_def planned_season_row_def identity_year(1))

lemma plan_years_Inr:
  assumes "plan_years l now es ys gen = Inr (sids, created)"
    and "seasons_unique es" "distinct ys" "distinct gen" "length ys \<le> length gen"
  shows "list_all2 (\<lambda>y i. \<exists>s \<in> set (es @ map row_season created). ps_id s = i \<and> planned_year y s) ys sids \<and>
    (\<forall>r \<in> set created. sr_id r \<in> set gen \<and>
       (\<exists>y \<in> set ys. planned_year y (row_season r) \<and> ps_startYear (row_season r) = y) \<and>
       match_season es (sr_nhlSeasonKey r, sr_label r) = Inr None \<and>
       r = planned_season_row l now (sr_id r) (sr_nhlSeasonKey r, sr_label r)) \<and>
    distinct (map sr_id created) \<and> distinct (map (\<lambda>r. ps_startYear (row_season r)) created)"
  using assms
proof (induction ys arbitrary: gen sids created)
  case Nil
  then show ?case by simp
next
  case (Cons y ys)
  obtain ident m where ident: "canonicalSeasonIdentity y = Inr ident"
    and m: "match_season es ident = Inr m"
    using Cons.prems(1) by (auto simp: bindE_Inr_iff)
  show ?case
  proof (cases m)
    case (Some s)
    obtain sids' where sids: "sids = ps_id s # sids'"
      and rest: "plan_years l now es ys gen = Inr (sids', created)"
      using Cons.prems(1) ident m Some by (auto simp: bindE_Inr_iff split: prod.splits)
    have "s \<in> set es" "planned_year y s"
      using m Some ident match_season_Some_iff [OF Cons.prems(2), of ident s]
      by (auto simp: planned_year_def)
    with Cons.IH [OF rest] Cons.prems show ?thesis by (auto simp: sids)
  next
    case None
    obtain g gs where gen: "gen = g # gs" using Cons.prems(5) by (cases gen) auto
    define r where "r = planned_season_row l now g ident"
    obtain sids' created' where sids: "sids = g # sids'" "created = r # created'"
      and rest: "plan_years l now es ys gs = Inr (sids', created')"
      using Cons.prems(1) ident m None gen by (auto simp: bindE_Inr_iff r_def split: prod.splits)
    have "planned_year y (row_season r)" "ps_startYear (row_season r) = y"
      using planned_year_row [OF ident, of l now g] by (simp_all add: r_def)
    moreover have "sr_id r = g" "ident = (sr_nhlSeasonKey r, sr_label r)" "ps_id (row_season r) = g"
      by (simp_all add: r_def planned_season_row_def row_season_def)
    ultimately have r: "planned_year y (row_season r)" "ps_startYear (row_season r) = y" "sr_id r = g"
      "ident = (sr_nhlSeasonKey r, sr_label r)" "ps_id (row_season r) = g" by simp_all
    have IH: "list_all2 (\<lambda>y i. \<exists>s \<in> set (es @ map row_season created'). ps_id s = i \<and> planned_year y s) ys sids'"
      "\<forall>r \<in> set created'. sr_id r \<in> set gs \<and>
         (\<exists>y \<in> set ys. planned_year y (row_season r) \<and> ps_startYear (row_season r) = y) \<and>
         match_season es (sr_nhlSeasonKey r, sr_label r) = Inr None \<and>
         r = planned_season_row l now (sr_id r) (sr_nhlSeasonKey r, sr_label r)"
      "distinct (map sr_id created')" "distinct (map (\<lambda>r. ps_startYear (row_season r)) created')"
      using Cons.IH [OF rest] Cons.prems gen by auto
    have row: "r = planned_season_row l now (sr_id r) (sr_nhlSeasonKey r, sr_label r)"
      unfolding r(3) r(4) [symmetric] by (rule r_def)
    have fresh: "match_season es (sr_nhlSeasonKey r, sr_label r) = Inr None"
      using m None r(4) by simp
    have "list_all2 (\<lambda>y i. \<exists>s \<in> set (es @ map row_season created). ps_id s = i \<and> planned_year y s) ys sids'"
      using IH(1) by (rule list_all2_mono) (auto simp: sids)
    then have "list_all2 (\<lambda>y i. \<exists>s \<in> set (es @ map row_season created). ps_id s = i \<and> planned_year y s)
        (y # ys) sids"
      using r(1,5) by (auto simp: sids)
    moreover have "sr_id x \<in> set gen \<and>
       (\<exists>y' \<in> set (y # ys). planned_year y' (row_season x) \<and> ps_startYear (row_season x) = y') \<and>
       match_season es (sr_nhlSeasonKey x, sr_label x) = Inr None \<and>
       x = planned_season_row l now (sr_id x) (sr_nhlSeasonKey x, sr_label x)" if "x \<in> set created" for x
    proof (cases "x = r")
      case True
      show ?thesis unfolding True using row fresh r(1-3) gen by (metis list.set_intros(1))
    next
      case False
      then show ?thesis using IH(2) that sids(2) gen by (metis list.set_intros(2) set_ConsD)
    qed
    moreover have "g \<notin> sr_id ` set created'" using IH(2) Cons.prems(4) gen by auto
    then have "distinct (map sr_id created)" using IH(3) by (simp add: sids r(3))
    moreover have "y \<notin> (\<lambda>r. ps_startYear (row_season r)) ` set created'"
      using IH(2) Cons.prems(3) by fastforce
    then have "distinct (map (\<lambda>r. ps_startYear (row_season r)) created)"
      using IH(4) by (simp add: sids r(2))
    ultimately show ?thesis by blast
  qed
qed

lemma plan_years_existing:
  assumes "seasons_unique es"
    and "list_all2 (\<lambda>y i. \<exists>s \<in> set es. ps_id s = i \<and> planned_year y s) ys sids"
  shows "plan_years l now es ys gen = Inr (sids, [])"
  using assms(2)
proof (induction ys arbitrary: sids)
  case Nil
  then show ?case by simp
next
  case (Cons y ys)
  then obtain s sids' where s: "s \<in> set es" "sids = ps_id s # sids'" "planned_year y s"
    and rest: "list_all2 (\<lambda>y i. \<exists>s \<in> set es. ps_id s = i \<and> planned_year y s) ys sids'"
    by (auto simp: list_all2_Cons1)
  then have "match_season es (ps_nhlSeasonKey s, ps_label s) = Inr (Some s)"
    using match_season_Some_iff [OF assms(1)] by (simp add: planned_year_def)
  with s Cons.IH [OF rest] show ?case by (simp add: planned_year_def)
qed

section \<open>The plan as a whole\<close>

definition season_plan_input :: "string \<Rightarrow> planner_season \<Rightarrow> planner_season list \<Rightarrow> string list \<Rightarrow>
    int \<Rightarrow> int \<Rightarrow> jsval" where
  "season_plan_input leagueId targetSeason existing ids termYears nowMs = JObj
     [(''leagueId'', JStr leagueId),
      (''targetSeason'', JObj (season_object targetSeason)),
      (''existingSeasons'', JArr (map (\<lambda>s. JObj (season_object s)) existing)),
      (''futureSeasonIds'', JArr (map JStr ids)),
      (''termYears'', JInt termYears),
      (''nowMs'', JInt nowMs)]"

definition later_years :: "planner_season \<Rightarrow> int \<Rightarrow> int list" where
  "later_years targetSeason termYears =
     map (\<lambda>offset. ps_startYear targetSeason + offset) [1..termYears - 1]"

definition plan_request_ok :: "string \<Rightarrow> planner_season \<Rightarrow> planner_season list \<Rightarrow> string list \<Rightarrow>
    int \<Rightarrow> int \<Rightarrow> bool" where
  "plan_request_ok l t es ids termYears now \<longleftrightarrow>
     is_uuid l \<and> 1 \<le> termYears \<and> termYears \<le> 3 \<and> 0 \<le> now \<and> now \<le> max_timestamp \<and>
     length ids = 2 \<and> seasons_unique es \<and> assertTargetSeason t es = Inr () \<and>
     list_all is_uuid ids \<and> distinct ids \<and> set ids \<inter> ps_id ` set es = {}"

lemma planContractSeasons_iff:
  assumes "list_all (season_wf l) (t # es)"
  shows "planContractSeasons (season_plan_input l t es ids termYears now) = Inr plan \<longleftrightarrow>
    plan_request_ok l t es ids termYears now \<and>
    (\<exists>sids created. plan_years l now es (later_years t termYears) ids = Inr (sids, created) \<and>
       plan = \<lparr>sp_seasonIds = ps_id t # sids, sp_seasonsToCreate = created\<rparr>)"
proof -
  have t: "normalizeSeason l (JObj (season_object t)) = Inr t"
    and es: "mapE (normalizeSeason l) (map (\<lambda>s. JObj (season_object s)) es) = Inr es"
    using assms seasons.parse_encode seasons.mapE_parse_encode by auto
  have ids: "mapE planner_stableId (map JStr ids) = Inr gen \<longleftrightarrow> gen = ids \<and> list_all is_uuid ids" for gen
    by (auto simp: planner_stableId_def mapE_Inr_iff stable_id_iff list_all2_map1 list_all2_conv_all_nth
        list_all_length intro: nth_equalityI)
  have fields: "fld (season_plan_input l t es ids termYears now) ''leagueId'' = JStr l"
    "fld (season_plan_input l t es ids termYears now) ''targetSeason'' = JObj (season_object t)"
    "fld (season_plan_input l t es ids termYears now) ''existingSeasons'' =
       JArr (map (\<lambda>s. JObj (season_object s)) es)"
    "fld (season_plan_input l t es ids termYears now) ''futureSeasonIds'' = JArr (map JStr ids)"
    "fld (season_plan_input l t es ids termYears now) ''termYears'' = JInt termYears"
    "fld (season_plan_input l t es ids termYears now) ''nowMs'' = JInt now"
    "exact_object PlannerInputInvalid plan_keys (season_plan_input l t es ids termYears now) = Inr ()"
    by (simp_all add: season_plan_input_def plan_keys_def)
  have uniq: "assertUniqueExistingSeasons es = Inr u \<longleftrightarrow> seasons_unique es" for u
    by (simp add: assertUniqueExistingSeasons_def seasons_unique_def)
  have lid: "planner_stableId (JStr l) = Inr l' \<longleftrightarrow> l' = l \<and> is_uuid l" for l'
    by (auto simp: planner_stableId_def stable_id_iff)
  have years: "safe_between PlannerTermInvalid 1 3 (JInt termYears) = Inr y \<longleftrightarrow>
      y = termYears \<and> 1 \<le> termYears \<and> termYears \<le> 3" for y
    by (auto simp: safe_between_iff safe_def max_safe_def)
  have now: "planner_safeTimestamp (JInt now) = Inr n \<longleftrightarrow> n = now \<and> 0 \<le> now \<and> now \<le> max_timestamp" for n
    by (auto simp: planner_safeTimestamp_def safe_between_iff safe_def max_safe_def max_timestamp_def)
  have dis: "list_ex (\<lambda>i. i \<in> ps_id ` set es) ids \<longleftrightarrow> set ids \<inter> ps_id ` set es \<noteq> {}"
    by (auto simp: list_ex_iff)
  show ?thesis
    unfolding planContractSeasons_def fields later_years_def [symmetric]
    by (auto simp: bindE_Inr_iff t es ids lid years now uniq dis plan_request_ok_def split: prod.splits)
qed

lemma assertTargetSeason_in:
  assumes "assertTargetSeason t es = Inr ()" and "list_all (season_wf l) (t # es)"
  shows "t \<in> set es \<and> ps_status t = ''active''"
proof -
  obtain s where s: "find (\<lambda>s. ps_id s = ps_id t) es = Some s" "ps_status t = ''active''"
    "ps_leagueId s = ps_leagueId t" "ps_label s = ps_label t" "ps_nhlSeasonKey s = ps_nhlSeasonKey t"
    "ps_status s = ps_status t"
    using assms(1) by (auto simp: assertTargetSeason_def split: option.splits if_splits)
  then have "s \<in> set es" "ps_id s = ps_id t" by (auto simp: find_Some_iff)
  moreover then have "season_wf l s" "season_wf l t" using assms(2) by (auto simp: list_all_iff)
  then have "ps_startYear s = ps_startYear t" using s(5) season_wf_year by metis
  ultimately show ?thesis using s by (metis (full_types) old.unit.exhaust planner_season.equality)
qed

lemma assertTargetSeason_append:
  assumes "assertTargetSeason t es = Inr ()" and "\<forall>s \<in> set cs. ps_status s \<noteq> ''active''"
  shows "assertTargetSeason t (es @ cs) = Inr ()"
proof -
  obtain s where s: "find (\<lambda>s. ps_id s = ps_id t) es = Some s"
    using assms(1) by (auto simp: assertTargetSeason_def split: option.splits if_splits)
  then have "find (\<lambda>s. ps_id s = ps_id t) (es @ cs) = Some s"
    by (auto simp: find_Some_iff nth_append)
  moreover have "filter (\<lambda>s. ps_status s = ''active'') cs = []"
    using assms(2) by (simp add: filter_empty_conv)
  ultimately show ?thesis using assms(1) s by (simp add: assertTargetSeason_def split: if_splits)
qed

lemma later_years_facts:
  "distinct (later_years t n)" "length (later_years t n) = nat (n - 1)"
  "k < nat (n - 1) \<Longrightarrow> later_years t n ! k = ps_startYear t + int (Suc k)"
  by (auto simp: later_years_def distinct_map inj_on_def)

text \<open>What an accepted plan is: the facts that both properties rest on.\<close>

definition seasons_after :: "planner_season list \<Rightarrow> season_plan \<Rightarrow> planner_season list" where
  "seasons_after es plan = es @ map row_season (sp_seasonsToCreate plan)"

lemma created_season_wf:
  assumes "planned_year y (row_season r)" "ps_startYear (row_season r) = y" "is_uuid (sr_id r)"
    "is_uuid l" "sr_leagueId r = l"
  shows "season_wf l (row_season r)"
proof -
  note f = identity_year [of y "(sr_nhlSeasonKey r, sr_label r)"]
  show ?thesis
    using assms f by (simp add: season_wf_def planned_year_def season_statuses_def row_season_def)
qed

lemma distinct_map_append:
  assumes "distinct (map f es)" "distinct (map g cs)" "map f (map h cs) = map g cs"
    and "\<And>c. c \<in> set cs \<Longrightarrow> g c \<notin> f ` set es"
  shows "distinct (map f (es @ map h cs))"
proof -
  have "f ` set es \<inter> g ` set cs = {}"
    using assms(4) unfolding disjoint_iff by (metis imageE)
  then show ?thesis unfolding map_append assms(3) using assms(1,2) by simp
qed

lemma seasons_after_unique:
  assumes "seasons_unique es"
    and created: "\<And>r. r \<in> set created \<Longrightarrow> sr_id r \<in> set ids \<and>
       planned_year (ps_startYear (row_season r)) (row_season r) \<and>
       match_season es (sr_nhlSeasonKey r, sr_label r) = Inr None"
    and "set ids \<inter> ps_id ` set es = {}"
    and dist: "distinct (map sr_id created)" "distinct (map (\<lambda>r. ps_startYear (row_season r)) created)"
  shows "seasons_unique (es @ map row_season created)"
proof -
  have fresh: "sr_nhlSeasonKey r \<notin> ps_nhlSeasonKey ` set es \<and> sr_label r \<notin> ps_label ` set es"
    if "r \<in> set created" for r
    using match_season_None created [OF that] by fastforce
  have fresh_id: "sr_id r \<notin> ps_id ` set es" if "r \<in> set created" for r
    using created [OF that] assms(3) by blast
  have year: "ps_startYear (row_season r) = int (text_nat (take 4 (sr_label r)))" if "r \<in> set created" for r
    using created [OF that] identity_year(2) by (force simp: planned_year_def row_season_def)
  have "distinct (map sr_nhlSeasonKey created)"
    using dist(2) by (auto simp: distinct_map inj_on_def row_season_def)
  moreover have "distinct (map sr_label created)"
    using dist(2) year by (auto simp: distinct_map inj_on_def)
  moreover have maps: "map ps_id (map row_season created) = map sr_id created"
    "map ps_nhlSeasonKey (map row_season created) = map sr_nhlSeasonKey created"
    "map ps_label (map row_season created) = map sr_label created"
    by (simp_all add: row_season_def)
  moreover have "distinct (map ps_id (es @ map row_season created))"
    using assms(1) dist(1) maps(1) fresh_id unfolding seasons_unique_def by (blast intro: distinct_map_append)
  moreover have "distinct (map ps_nhlSeasonKey (es @ map row_season created))"
    using assms(1) calculation(1) maps(2) fresh unfolding seasons_unique_def
    by (blast intro: distinct_map_append)
  moreover have "distinct (map ps_label (es @ map row_season created))"
    using assms(1) calculation(2) maps(3) fresh unfolding seasons_unique_def
    by (blast intro: distinct_map_append)
  ultimately show ?thesis unfolding seasons_unique_def by blast
qed

lemma plan_facts:
  assumes wf: "list_all (season_wf l) (t # es)"
    and plan: "planContractSeasons (season_plan_input l t es ids termYears now) = Inr plan"
  shows "plan_request_ok l t es ids termYears now"
    and "seasons_unique (seasons_after es plan)" and "list_all (season_wf l) (seasons_after es plan)"
    and "\<forall>r \<in> set (sp_seasonsToCreate plan). sr_id r \<in> set ids \<and> sr_status r = ''planned'' \<and>
           r = planned_season_row l now (sr_id r) (sr_nhlSeasonKey r, sr_label r)"
    and "\<exists>sids. sp_seasonIds plan = ps_id t # sids \<and>
           list_all2 (\<lambda>y i. \<exists>s \<in> set (seasons_after es plan). ps_id s = i \<and> planned_year y s)
             (later_years t termYears) sids"
proof -
  obtain sids created where ok: "plan_request_ok l t es ids termYears now"
    and years: "plan_years l now es (later_years t termYears) ids = Inr (sids, created)"
    and plan_eq: "plan = \<lparr>sp_seasonIds = ps_id t # sids, sp_seasonsToCreate = created\<rparr>"
    using plan planContractSeasons_iff [OF wf] by blast
  have len: "length (later_years t termYears) \<le> length ids"
    using ok unfolding plan_request_ok_def later_years_facts(2) by linarith
  have "seasons_unique es" "distinct ids" using ok by (simp_all add: plan_request_ok_def)
  note p = plan_years_Inr [OF years this(1) later_years_facts(1) this(2) len]
  have row: "sr_id r \<in> set ids \<and> planned_year (ps_startYear (row_season r)) (row_season r) \<and>
      match_season es (sr_nhlSeasonKey r, sr_label r) = Inr None \<and> sr_status r = ''planned'' \<and>
      sr_leagueId r = l \<and> r = planned_season_row l now (sr_id r) (sr_nhlSeasonKey r, sr_label r)"
    if "r \<in> set created" for r
  proof -
    have r: "r = planned_season_row l now (sr_id r) (sr_nhlSeasonKey r, sr_label r)" using p that by blast
    have "sr_status r = ''planned''" "sr_leagueId r = l"
      by (subst r, simp add: planned_season_row_def)+
    with r p that show ?thesis by blast
  qed
  have "seasons_unique (es @ map row_season created)"
    by (rule seasons_after_unique [where ids = ids])
      (use ok row p in \<open>simp_all add: plan_request_ok_def\<close>)
  then show "seasons_unique (seasons_after es plan)" by (simp add: seasons_after_def plan_eq)
  have "season_wf l (row_season r)" if "r \<in> set created" for r
    using row [OF that] ok
    by (intro created_season_wf [where y = "ps_startYear (row_season r)"])
      (auto simp: plan_request_ok_def list_all_iff)
  then show "list_all (season_wf l) (seasons_after es plan)"
    using wf by (auto simp: seasons_after_def plan_eq list_all_iff)
  show "plan_request_ok l t es ids termYears now" by (rule ok)
  show "\<forall>r \<in> set (sp_seasonsToCreate plan). sr_id r \<in> set ids \<and> sr_status r = ''planned'' \<and>
      r = planned_season_row l now (sr_id r) (sr_nhlSeasonKey r, sr_label r)"
    using row by (simp add: plan_eq)
  show "\<exists>sids. sp_seasonIds plan = ps_id t # sids \<and>
      list_all2 (\<lambda>y i. \<exists>s \<in> set (seasons_after es plan). ps_id s = i \<and> planned_year y s)
        (later_years t termYears) sids"
    using p by (simp add: plan_eq seasons_after_def)
qed

text \<open>
  C24. A contract season plan names one season per year of the term, all different: the target
  season first, and then the planned season of each following year. Every season it creates takes
  one of the offered identifiers and is missing before; afterwards all identifiers, keys and labels
  are still distinct and every season is well formed.
\<close>

theorem contract_season_plan:
  assumes "list_all (season_wf l) (t # es)"
    and "planContractSeasons (season_plan_input l t es ids termYears now) = Inr plan"
  shows "length (sp_seasonIds plan) = nat termYears \<and> distinct (sp_seasonIds plan) \<and>
    hd (sp_seasonIds plan) = ps_id t \<and>
    (\<forall>k < nat termYears. \<exists>s \<in> set (seasons_after es plan). ps_id s = sp_seasonIds plan ! k \<and>
       ps_startYear s = ps_startYear t + int k \<and> ps_status s = (if k = 0 then ''active'' else ''planned'')) \<and>
    (\<forall>r \<in> set (sp_seasonsToCreate plan). sr_id r \<in> set ids) \<and>
    seasons_unique (seasons_after es plan) \<and> list_all (season_wf l) (seasons_after es plan)"
proof -
  note p = plan_facts [OF assms]
  have t: "t \<in> set (seasons_after es plan)" "ps_status t = ''active''"
    using assertTargetSeason_in [OF _ assms(1)] p(1) by (auto simp: plan_request_ok_def seasons_after_def)
  have n: "1 \<le> termYears" using p(1) by (simp add: plan_request_ok_def)
  obtain sids where sids: "sp_seasonIds plan = ps_id t # sids"
    and all: "list_all2 (\<lambda>y i. \<exists>s \<in> set (seasons_after es plan). ps_id s = i \<and> planned_year y s)
      (later_years t termYears) sids"
    using p(5) by blast
  have len: "length sids = nat (termYears - 1)"
    using list_all2_lengthD [OF all] by (simp add: later_years_facts)
  have each: "\<exists>s \<in> set (seasons_after es plan). ps_id s = sp_seasonIds plan ! k \<and>
       ps_startYear s = ps_startYear t + int k \<and> ps_status s = (if k = 0 then ''active'' else ''planned'')"
    if "k < nat termYears" for k
  proof (cases k)
    case 0
    then show ?thesis using t sids by auto
  next
    case (Suc j)
    then have j: "j < nat (termYears - 1)" using that by linarith
    then obtain s where s: "s \<in> set (seasons_after es plan)" "ps_id s = sids ! j"
      "planned_year (later_years t termYears ! j) s"
      using list_all2_nthD2 [OF all, of j] len by auto
    moreover have "ps_startYear s = later_years t termYears ! j"
      using s(1,3) p(3) season_wf_year identity_year(1) [of "later_years t termYears ! j"]
      by (fastforce simp: planned_year_def list_all_iff)
    ultimately show ?thesis
      using Suc sids later_years_facts(3) [OF j, of t] by (auto simp: planned_year_def)
  qed
  have n_sids: "length (sp_seasonIds plan) = nat termYears" using len n sids by simp
  have "distinct (sp_seasonIds plan)"
    unfolding distinct_conv_nth
  proof (intro allI impI)
    fix i j assume ij: "i < length (sp_seasonIds plan)" "j < length (sp_seasonIds plan)" "i \<noteq> j"
    obtain r s where "r \<in> set (seasons_after es plan)" "ps_id r = sp_seasonIds plan ! i"
      "ps_startYear r = ps_startYear t + int i"
      and "s \<in> set (seasons_after es plan)" "ps_id s = sp_seasonIds plan ! j"
      "ps_startYear s = ps_startYear t + int j"
      using each ij n_sids by metis
    moreover have "inj_on ps_id (set (seasons_after es plan))"
      using p(2) by (simp add: seasons_unique_def distinct_map)
    ultimately show "sp_seasonIds plan ! i \<noteq> sp_seasonIds plan ! j"
      using ij(3) by (metis add_left_cancel inj_on_eq_iff of_nat_eq_iff)
  qed
  with each n_sids p sids show ?thesis by auto
qed

text \<open>
  C25. Planning is idempotent: once the created seasons are stored, planning the same term for the
  same target season, at any time and with any unused identifiers, names the same seasons and
  creates none.
\<close>

theorem season_plan_idempotent:
  assumes "list_all (season_wf l) (t # es)"
    and "planContractSeasons (season_plan_input l t es ids termYears now) = Inr plan"
    and "length ids' = 2" "distinct ids'" "list_all is_uuid ids'"
    and "set ids' \<inter> ps_id ` set (seasons_after es plan) = {}" "0 \<le> now'" "now' \<le> max_timestamp"
  shows "planContractSeasons (season_plan_input l t (seasons_after es plan) ids' termYears now') =
    Inr \<lparr>sp_seasonIds = sp_seasonIds plan, sp_seasonsToCreate = []\<rparr>"
proof -
  note p = plan_facts [OF assms(1,2)]
  obtain sids where sids: "sp_seasonIds plan = ps_id t # sids"
    and all: "list_all2 (\<lambda>y i. \<exists>s \<in> set (seasons_after es plan). ps_id s = i \<and> planned_year y s)
      (later_years t termYears) sids"
    using p(5) by blast
  have "assertTargetSeason t es = Inr ()" using p(1) by (simp add: plan_request_ok_def)
  then have "assertTargetSeason t (seasons_after es plan) = Inr ()"
    unfolding seasons_after_def
    by (rule assertTargetSeason_append) (use p(4) in \<open>auto simp: row_season_def\<close>)
  then have "plan_request_ok l t (seasons_after es plan) ids' termYears now'"
    using p(1,2) assms(3-8) by (simp add: plan_request_ok_def)
  moreover have "list_all (season_wf l) (t # seasons_after es plan)"
    using assms(1) p(3) by simp
  moreover have "plan_years l now' (seasons_after es plan) (later_years t termYears) ids' = Inr (sids, [])"
    by (rule plan_years_existing [OF p(2) all])
  ultimately show ?thesis by (subst planContractSeasons_iff) (simp_all add: sids)
qed

text \<open>A three-year contract in a league whose target season is its only one.\<close>

definition sample_target :: planner_season where
  "sample_target = \<lparr>ps_id = sample_id CHR ''1'', ps_leagueId = sample_id CHR ''a'',
     ps_label = ''2025-26'', ps_nhlSeasonKey = ''20252026'', ps_startYear = 2025, ps_status = ''active''\<rparr>"

lemma sample_target_wf: "season_wf (sample_id CHR ''a'') sample_target"
  by (simp add: season_wf_def sample_target_def canonicalSeasonKey_def is_digit_def text_nat_def
      digit_value_def season_statuses_def is_bounded_text_def trim_def js_space_def control_char_def
      hex_char_def)

lemma sample_plan:
  "\<exists>plan. planContractSeasons (season_plan_input (sample_id CHR ''a'') sample_target [sample_target]
     [sample_id CHR ''2'', sample_id CHR ''3''] 3 100) = Inr plan \<and>
     ps_id ` set (seasons_after [sample_target] plan) \<subseteq> {sample_id CHR ''1'', sample_id CHR ''2'', sample_id CHR ''3''}"
proof -
  have wf: "list_all (season_wf (sample_id CHR ''a'')) [sample_target, sample_target]"
    using sample_target_wf by simp
  have ok: "plan_request_ok (sample_id CHR ''a'') sample_target [sample_target]
      [sample_id CHR ''2'', sample_id CHR ''3''] 3 100"
    by (simp add: plan_request_ok_def seasons_unique_def assertTargetSeason_def sample_target_def
        hex_char_def max_timestamp_def)
  have idents: "canonicalSeasonIdentity 2026 = Inr (''20262027'', ''2026-27'')"
    "canonicalSeasonIdentity 2027 = Inr (''20272028'', ''2027-28'')"
    by (simp_all add: canonicalSeasonIdentity_def safe_def max_safe_def int_text_def nat_text.simps padStart_def
        char_of_def bit_0)
  have years: "later_years sample_target 3 = [2026, 2027]"
    by (simp add: later_years_def sample_target_def upto.simps)
  have "\<exists>sids created. plan_years (sample_id CHR ''a'') 100 [sample_target] [2026, 2027]
      [sample_id CHR ''2'', sample_id CHR ''3''] = Inr (sids, created) \<and>
      sr_id ` set created = {sample_id CHR ''2'', sample_id CHR ''3''}"
    by (simp add: idents match_season_def map_get_def sample_target_def planned_season_row_def)
  then show ?thesis
    using planContractSeasons_iff [OF wf] ok years
    by (fastforce simp: seasons_after_def row_season_def sample_target_def)
qed

theorem contract_season_plan_witness:
  "\<exists>plan. planContractSeasons (season_plan_input (sample_id CHR ''a'') sample_target [sample_target]
     [sample_id CHR ''2'', sample_id CHR ''3''] 3 100) = Inr plan \<and> length (sp_seasonIds plan) = 3"
proof -
  have wf: "list_all (season_wf (sample_id CHR ''a'')) [sample_target, sample_target]"
    using sample_target_wf by simp
  from sample_plan contract_season_plan [OF wf] show ?thesis by fastforce
qed

theorem season_plan_idempotent_witness:
  "\<exists>plan. planContractSeasons (season_plan_input (sample_id CHR ''a'') sample_target
     (seasons_after [sample_target] plan) [sample_id CHR ''4'', sample_id CHR ''5''] 3 200) =
     Inr \<lparr>sp_seasonIds = sp_seasonIds plan, sp_seasonsToCreate = []\<rparr>"
proof -
  have wf: "list_all (season_wf (sample_id CHR ''a'')) [sample_target, sample_target]"
    using sample_target_wf by simp
  obtain plan where plan: "planContractSeasons (season_plan_input (sample_id CHR ''a'') sample_target
      [sample_target] [sample_id CHR ''2'', sample_id CHR ''3''] 3 100) = Inr plan"
    and "ps_id ` set (seasons_after [sample_target] plan) \<subseteq> {sample_id CHR ''1'', sample_id CHR ''2'', sample_id CHR ''3''}"
    using sample_plan by blast
  then have "set [sample_id CHR ''4'', sample_id CHR ''5''] \<inter> ps_id ` set (seasons_after [sample_target] plan) = {}"
    by auto
  from season_plan_idempotent [OF wf plan _ _ _ this, of 200] show ?thesis
    by (auto simp: hex_char_def max_timestamp_def)
qed

end
