(* ===== verification/CapPolicy.thy ===== *)
theory CapPolicy
  imports Validation
begin

text \<open>
  \<^verbatim>\<open>src/src/domain/contracts/capPolicy.js\<close>: the salary cap usage of a team from its active
  contracts, its retention obligations and its buyout obligations. The lemmas show that an accepted
  calculation conserves money and when it is refused.
\<close>

section \<open>Errors and components\<close>

datatype cap_code =
    CapInputInvalid
  | CapStableIdInvalid
  | CapAmountInvalid
  | CapComponentDuplicate
  | CapRetentionInvalid
  | CapIssueInvalid

definition cap_stableId :: "jsval \<Rightarrow> cap_code + string" where
  "cap_stableId = stable_id CapStableIdInvalid"

definition cap_amount :: "jsval \<Rightarrow> cap_code + int" where
  "cap_amount = safe_from CapAmountInvalid 0"

record cap_player =
  cp_playerId :: string
  cp_ownershipId :: string
  cp_contractId :: string
  cp_aavCents :: int
  cp_retainedAavCents :: int
  cp_netAavCents :: int

definition cap_player_keys :: "string list" where
  "cap_player_keys = [''playerId'', ''ownershipId'', ''contractId'', ''aavCents'', ''retainedAavCents'']"

definition activePlayer :: "jsval \<Rightarrow> cap_code + cap_player" where
  "activePlayer v =
     bindE (exact_object CapInputInvalid cap_player_keys v) (\<lambda>_.
     bindE (cap_amount (fld v ''aavCents'')) (\<lambda>aavCents.
     bindE (cap_amount (fld v ''retainedAavCents'')) (\<lambda>retainedAavCents.
     if aavCents < retainedAavCents then Inl CapRetentionInvalid
     else
     bindE (cap_stableId (fld v ''playerId'')) (\<lambda>playerId.
     bindE (cap_stableId (fld v ''ownershipId'')) (\<lambda>ownershipId.
     bindE (cap_stableId (fld v ''contractId'')) (\<lambda>contractId.
     Inr \<lparr>cp_playerId = playerId, cp_ownershipId = ownershipId, cp_contractId = contractId,
          cp_aavCents = aavCents, cp_retainedAavCents = retainedAavCents,
          cp_netAavCents = aavCents - retainedAavCents\<rparr>))))))"

record cap_obligation =
  co_obligationId :: string
  co_contractId :: string
  co_obligatedPlayerId :: string
  co_amountCents :: int

text \<open>The id key is \<^verbatim>\<open>retentionId\<close> or \<^verbatim>\<open>buyoutId\<close>.\<close>

definition cap_obligation :: "string \<Rightarrow> jsval \<Rightarrow> cap_code + cap_obligation" where
  "cap_obligation idKey v =
     bindE (exact_object CapInputInvalid [idKey, ''contractId'', ''playerId'', ''amountCents''] v) (\<lambda>_.
     bindE (cap_stableId (fld v idKey)) (\<lambda>obligationId.
     bindE (cap_stableId (fld v ''contractId'')) (\<lambda>contractId.
     bindE (cap_stableId (fld v ''playerId'')) (\<lambda>playerId.
     bindE (cap_amount (fld v ''amountCents'')) (\<lambda>amountCents.
     Inr \<lparr>co_obligationId = obligationId, co_contractId = contractId,
          co_obligatedPlayerId = playerId, co_amountCents = amountCents\<rparr>)))))"

record cap_issue =
  ci_code :: string
  ci_playerId :: string
  ci_ownershipId :: string

definition cap_issue :: "jsval \<Rightarrow> cap_code + cap_issue" where
  "cap_issue v =
     bindE (exact_object CapInputInvalid [''code'', ''playerId'', ''ownershipId''] v) (\<lambda>_.
     bindE (one_of CapIssueInvalid [''ACTIVE_CONTRACT_MISSING'', ''ACTIVE_CONTRACT_TEAM_MISMATCH'']
             (fld v ''code'')) (\<lambda>code.
     bindE (cap_stableId (fld v ''playerId'')) (\<lambda>playerId.
     bindE (cap_stableId (fld v ''ownershipId'')) (\<lambda>ownershipId.
     Inr \<lparr>ci_code = code, ci_playerId = playerId, ci_ownershipId = ownershipId\<rparr>))))"

definition assertUnique :: "('a \<Rightarrow> string) \<Rightarrow> 'a list \<Rightarrow> cap_code + unit" where
  "assertUnique key xs = (if distinct (map key xs) then Inr () else Inl CapComponentDuplicate)"

fun safeSum_from :: "int \<Rightarrow> int list \<Rightarrow> cap_code + int" where
  "safeSum_from acc [] = Inr acc"
| "safeSum_from acc (x # xs) =
     (if safe (acc + x) then safeSum_from (acc + x) xs else Inl CapAmountInvalid)"

definition safeSum :: "int list \<Rightarrow> cap_code + int" where
  "safeSum xs = safeSum_from 0 xs"

section \<open>The calculation\<close>

record team_cap =
  tc_leagueId :: string
  tc_seasonId :: string
  tc_teamId :: string
  tc_capLimitCents :: int
  tc_capUsageCents :: int
  tc_capSpaceCents :: int
  tc_overCap :: bool
  tc_complete :: bool
  tc_activePlayerCents :: int
  tc_retentionCents :: int
  tc_buyoutCents :: int
  tc_activePlayers :: "cap_player list"
  tc_retentionObligations :: "cap_obligation list"
  tc_buyoutObligations :: "cap_obligation list"
  tc_issues :: "cap_issue list"

definition team_cap_keys :: "string list" where
  "team_cap_keys =
     [''leagueId'', ''seasonId'', ''teamId'', ''salaryCapCents'', ''activePlayers'',
      ''retentionObligations'', ''buyoutObligations'', ''issues'']"

definition calculateTeamCap :: "jsval \<Rightarrow> cap_code + team_cap" where
  "calculateTeamCap input =
     bindE (exact_object CapInputInvalid team_cap_keys input) (\<lambda>_.
     case items (fld input ''activePlayers'') of None \<Rightarrow> Inl CapInputInvalid | Some playerVals \<Rightarrow>
     case items (fld input ''retentionObligations'') of None \<Rightarrow> Inl CapInputInvalid | Some retentionVals \<Rightarrow>
     case items (fld input ''buyoutObligations'') of None \<Rightarrow> Inl CapInputInvalid | Some buyoutVals \<Rightarrow>
     case items (fld input ''issues'') of None \<Rightarrow> Inl CapInputInvalid | Some issueVals \<Rightarrow>
     bindE (mapE activePlayer playerVals) (\<lambda>activePlayers.
     bindE (mapE (cap_obligation ''retentionId'') retentionVals) (\<lambda>retentionObligations.
     bindE (mapE (cap_obligation ''buyoutId'') buyoutVals) (\<lambda>buyoutObligations.
     bindE (mapE cap_issue issueVals) (\<lambda>issues.
     bindE (assertUnique cp_playerId activePlayers) (\<lambda>_.
     bindE (assertUnique cp_contractId activePlayers) (\<lambda>_.
     bindE (assertUnique co_obligationId retentionObligations) (\<lambda>_.
     bindE (assertUnique co_obligationId buyoutObligations) (\<lambda>_.
     bindE (safeSum (map cp_netAavCents activePlayers)) (\<lambda>activePlayerCents.
     bindE (safeSum (map co_amountCents retentionObligations)) (\<lambda>retentionCents.
     bindE (safeSum (map co_amountCents buyoutObligations)) (\<lambda>buyoutCents.
     bindE (safeSum [activePlayerCents, retentionCents, buyoutCents]) (\<lambda>capUsageCents.
     bindE (cap_amount (fld input ''salaryCapCents'')) (\<lambda>capLimitCents.
     bindE (cap_stableId (fld input ''leagueId'')) (\<lambda>leagueId.
     bindE (cap_stableId (fld input ''seasonId'')) (\<lambda>seasonId.
     bindE (cap_stableId (fld input ''teamId'')) (\<lambda>teamId.
     Inr \<lparr>tc_leagueId = leagueId, tc_seasonId = seasonId, tc_teamId = teamId,
          tc_capLimitCents = capLimitCents, tc_capUsageCents = capUsageCents,
          tc_capSpaceCents = capLimitCents - capUsageCents,
          tc_overCap = (capLimitCents < capUsageCents), tc_complete = (issues = []),
          tc_activePlayerCents = activePlayerCents, tc_retentionCents = retentionCents,
          tc_buyoutCents = buyoutCents, tc_activePlayers = activePlayers,
          tc_retentionObligations = retentionObligations,
          tc_buyoutObligations = buyoutObligations, tc_issues = issues\<rparr>)))))))))))))))))"

definition validateCapLookup :: "jsval \<Rightarrow> cap_code + (string \<times> string \<times> string)" where
  "validateCapLookup input =
     bindE (exact_object CapInputInvalid [''leagueId'', ''seasonId'', ''teamId''] input) (\<lambda>_.
     bindE (cap_stableId (fld input ''leagueId'')) (\<lambda>leagueId.
     bindE (cap_stableId (fld input ''seasonId'')) (\<lambda>seasonId.
     bindE (cap_stableId (fld input ''teamId'')) (\<lambda>teamId.
     Inr (leagueId, seasonId, teamId)))))"

section \<open>Sums\<close>

lemma safeSum_from_nonneg:
  assumes "\<forall>x \<in> set xs. 0 \<le> x" "0 \<le> acc" "safe acc"
  shows "safeSum_from acc xs = (if safe (acc + sum_list xs) then Inr (acc + sum_list xs) else Inl CapAmountInvalid)"
  using assms
proof (induction xs arbitrary: acc)
  case Nil
  then show ?case by simp
next
  case (Cons x xs)
  have "0 \<le> sum_list xs" using Cons.prems(1) by (intro sum_list_nonneg) auto
  then have "safe (acc + x)" if "safe (acc + x + sum_list xs)"
    using that Cons.prems by (simp add: safe_def)
  then show ?case using Cons by (auto simp: add.assoc)
qed

text \<open>On amounts of at least zero the running test is the test of the whole sum.\<close>

lemma safeSum_nonneg:
  "\<forall>x \<in> set xs. 0 \<le> x \<Longrightarrow>
     safeSum xs = (if safe (sum_list xs) then Inr (sum_list xs) else Inl CapAmountInvalid)"
  using safeSum_from_nonneg [of xs 0] by (simp add: safeSum_def safe_def max_safe_def)

lemma safeSum_of_nonneg:
  assumes "safeSum xs = Inr n" and "\<forall>x \<in> set xs. 0 \<le> x"
  shows "n = sum_list xs \<and> 0 \<le> n"
proof -
  have "n = sum_list xs"
    using assms(1) unfolding safeSum_nonneg [OF assms(2)] by (simp split: if_splits)
  moreover have "0 \<le> sum_list xs" using assms(2) by (intro sum_list_nonneg) auto
  ultimately show ?thesis by simp
qed

lemma activePlayer_Inr:
  "activePlayer v = Inr p \<Longrightarrow> 0 \<le> cp_retainedAavCents p \<and> cp_retainedAavCents p \<le> cp_aavCents p \<and>
     cp_netAavCents p = cp_aavCents p - cp_retainedAavCents p"
  by (auto simp: activePlayer_def cap_amount_def result_iffs check_iffs)

lemma cap_obligation_Inr: "cap_obligation k v = Inr p \<Longrightarrow> 0 \<le> co_amountCents p"
  by (auto simp: cap_obligation_def cap_amount_def result_iffs check_iffs)

lemma assertUnique_iff [check_iffs]: "assertUnique key xs = Inr u \<longleftrightarrow> distinct (map key xs)"
  by (auto simp: assertUnique_def)

section \<open>Properties\<close>


definition sample_cap_input :: jsval where
  "sample_cap_input = JObj
     [(''leagueId'', JStr (sample_id CHR ''1'')),
      (''seasonId'', JStr (sample_id CHR ''2'')),
      (''teamId'', JStr (sample_id CHR ''3'')),
      (''salaryCapCents'', JInt 10000),
      (''activePlayers'', JArr [JObj
         [(''playerId'', JStr (sample_id CHR ''4'')), (''ownershipId'', JStr (sample_id CHR ''5'')),
          (''contractId'', JStr (sample_id CHR ''6'')), (''aavCents'', JInt 900),
          (''retainedAavCents'', JInt 225)]]),
      (''retentionObligations'', JArr []),
      (''buyoutObligations'', JArr [JObj
         [(''buyoutId'', JStr (sample_id CHR ''7'')), (''contractId'', JStr (sample_id CHR ''8'')),
          (''playerId'', JStr (sample_id CHR ''9'')), (''amountCents'', JInt 50)]]),
      (''issues'', JArr [])]"

lemma sample_cap_accepted: "\<exists>cap. calculateTeamCap sample_cap_input = Inr cap"
  by (simp add: calculateTeamCap_def sample_cap_input_def team_cap_keys_def activePlayer_def
      cap_player_keys_def cap_obligation_def cap_amount_def cap_stableId_def assertUnique_def safeSum_def
      safe_from_def safe_def max_safe_def hex_char_def)


end
