(* ===== verification/Ordering.thy ===== *)
theory Ordering
  imports Prelude
begin

text \<open>
  Comparators as the code writes them, sums of sign tests joined with \<^verbatim>\<open>||\<close>, and
  \<^verbatim>\<open>Array.prototype.sort\<close>, which is stable. The locale \<open>comparator\<close> is the contract that
  ECMAScript asks of a comparison function (a consistent one); \<open>keyed_comparator\<close> adds that a tie
  identifies the key, which makes the sorted array a function of the set of rows.
\<close>

section \<open>Comparators\<close>

definition cmp_or :: "int \<Rightarrow> int \<Rightarrow> int" where
  "cmp_or a b = (if a \<noteq> 0 then a else b)"

text \<open>
  \<^verbatim>\<open>localeCompare\<close> on identifiers: canonical UUIDs have their hyphens at the same places and
  use only digits and lower-case letters, which every collation orders as the code units do.
\<close>

definition locale_compare :: "string \<Rightarrow> string \<Rightarrow> int" where
  "locale_compare s t = (if s < t then -1 else if s = t then 0 else 1)"

lemma locale_compare_0 [simp]: "locale_compare s t = 0 \<longleftrightarrow> s = t"
  by (auto simp: locale_compare_def)

lemma cmp_or_0 [simp]: "cmp_or a b = 0 \<longleftrightarrow> a = 0 \<and> b = 0"
  by (simp add: cmp_or_def)

fun js_insert :: "('a \<Rightarrow> 'a \<Rightarrow> int) \<Rightarrow> 'a \<Rightarrow> 'a list \<Rightarrow> 'a list" where
  "js_insert cmp x [] = [x]"
| "js_insert cmp x (y # ys) =
     (if cmp x y \<le> 0 then x # y # ys else y # js_insert cmp x ys)"

definition js_sort :: "('a \<Rightarrow> 'a \<Rightarrow> int) \<Rightarrow> 'a list \<Rightarrow> 'a list" where
  "js_sort cmp xs = foldr (js_insert cmp) xs []"

lemma js_sort_simps [simp]:
  "js_sort cmp [] = []"
  "js_sort cmp (x # xs) = js_insert cmp x (js_sort cmp xs)"
  by (simp_all add: js_sort_def)

lemma mset_js_insert [simp]: "mset (js_insert cmp x xs) = add_mset x (mset xs)"
  by (induction xs) auto

lemma mset_js_sort [simp]: "mset (js_sort cmp xs) = mset xs"
  by (induction xs) auto

lemma set_js_sort [simp]: "set (js_sort cmp xs) = set xs"
  by (metis mset_js_sort set_mset_mset)

lemma length_js_sort [simp]: "length (js_sort cmp xs) = length xs"
  by (metis mset_js_sort size_mset)

lemma js_sort_eq_Nil [simp]: "js_sort cmp xs = [] \<longleftrightarrow> xs = []"
  by (metis length_0_conv length_js_sort)

lemma distinct_map_js_sort [simp]: "distinct (map f (js_sort cmp xs)) \<longleftrightarrow> distinct (map f xs)"
  by (metis distinct_map mset_eq_imp_distinct_iff mset_js_sort set_js_sort)

locale comparator =
  fixes cmp :: "'a \<Rightarrow> 'a \<Rightarrow> int"
  assumes cmp_sym: "cmp x y \<le> 0 \<longleftrightarrow> 0 \<le> cmp y x"
    and cmp_trans: "cmp x y \<le> 0 \<Longrightarrow> cmp y z \<le> 0 \<Longrightarrow> cmp x z \<le> 0"
begin

lemma cmp_refl: "cmp x x \<le> 0"
  using cmp_sym [of x x] by linarith

lemma cmp_zero_sym: "cmp x y = 0 \<longleftrightarrow> cmp y x = 0"
  by (metis cmp_sym dual_order.antisym order_refl)

lemma sorted_js_insert:
  assumes "sorted_wrt (\<lambda>x y. cmp x y \<le> 0) xs"
  shows "sorted_wrt (\<lambda>x y. cmp x y \<le> 0) (js_insert cmp x xs)"
  using assms
proof (induction xs)
  case Nil
  then show ?case by simp
next
  case (Cons y ys)
  have in_tail: "set (js_insert cmp x ys) = insert x (set ys)"
    by (metis mset_js_insert set_mset_add_mset_insert set_mset_mset)
  show ?case
  proof (cases "cmp x y \<le> 0")
    case True
    with Cons.prems show ?thesis by (auto intro: cmp_trans)
  next
    case False
    then have "cmp y x \<le> 0" using cmp_sym [of y x] by linarith
    with False Cons show ?thesis by (auto simp: in_tail)
  qed
qed

lemma sorted_js_sort: "sorted_wrt (\<lambda>x y. cmp x y \<le> 0) (js_sort cmp xs)"
  by (induction xs) (simp_all add: sorted_js_insert)

lemma sorted_head_least:
  "sorted_wrt (\<lambda>x y. cmp x y \<le> 0) (y # ys) \<Longrightarrow> x \<in> set (y # ys) \<Longrightarrow> cmp y x \<le> 0"
  using cmp_refl by auto

text \<open>The first element of the sorted array comes before every other.\<close>

lemma js_sort_head_least:
  assumes "js_sort cmp xs = y # ys" and "x \<in> set xs"
  shows "cmp y x \<le> 0"
proof -
  have "sorted_wrt (\<lambda>x y. cmp x y \<le> 0) (y # ys)" using sorted_js_sort [of xs] assms(1) by simp
  moreover have "x \<in> set (y # ys)" using assms by (metis set_js_sort)
  ultimately show ?thesis by (rule sorted_head_least)
qed

end

locale keyed_comparator = comparator +
  fixes key :: "'a \<Rightarrow> 'k"
  assumes cmp_tie_key: "cmp x y = 0 \<Longrightarrow> key x = key y"
begin

lemma strictly_sorted_unique:
  assumes "sorted_wrt (\<lambda>x y. cmp x y \<le> 0) xs" "sorted_wrt (\<lambda>x y. cmp x y \<le> 0) ys"
    and "mset xs = mset ys" and "distinct (map key xs)"
  shows "xs = ys"
  using assms
proof (induction xs arbitrary: ys)
  case Nil
  then show ?case by simp
next
  case (Cons x xs)
  obtain y ys' where ys: "ys = y # ys'"
    using Cons.prems(3) by (cases ys) auto
  have sets: "set (x # xs) = set (y # ys')"
    using Cons.prems(3) unfolding ys by (metis set_mset_mset)
  have "cmp x y \<le> 0" by (rule sorted_head_least [OF Cons.prems(1)]) (simp only: sets list.set_intros)
  moreover have "cmp y x \<le> 0"
    by (rule sorted_head_least [OF Cons.prems(2) [unfolded ys]]) (simp only: sets [symmetric] list.set_intros)
  ultimately have "cmp x y = 0" using cmp_sym [of y x] by linarith
  then have "key x = key y" by (rule cmp_tie_key)
  then have "x = y" using Cons.prems(4) sets by auto
  with Cons ys show ?case by auto
qed

text \<open>Two arrays with the same rows sort to the same array.\<close>

lemma js_sort_perm:
  assumes "mset xs = mset ys" and "distinct (map key xs)"
  shows "js_sort cmp xs = js_sort cmp ys"
  by (rule strictly_sorted_unique) (use assms in \<open>simp_all add: sorted_js_sort\<close>)

text \<open>The second element is strictly behind the first.\<close>

lemma js_sort_head_strict:
  assumes "js_sort cmp xs = y # ys" and "distinct (map key xs)" and "z \<in> set ys"
  shows "cmp y z < 0"
proof -
  have "distinct (map key (y # ys))" using assms(1,2) by (metis distinct_map_js_sort)
  with assms(3) have "key y \<noteq> key z" by auto
  then have "cmp y z \<noteq> 0" using cmp_tie_key by blast
  moreover have "cmp y z \<le> 0" using sorted_js_sort [of xs] assms(1,3) by simp
  ultimately show ?thesis by simp
qed

end

section \<open>Building comparators\<close>

lemma comparator_diff: "comparator (\<lambda>x y. (f x :: int) - f y)"
  by unfold_locales auto

lemma comparator_diff_rev: "comparator (\<lambda>x y. (f y :: int) - f x)"
  by unfold_locales auto

lemma comparator_locale: "comparator (\<lambda>x y. locale_compare (f x) (f y))"
  by unfold_locales (auto simp: locale_compare_def split: if_splits)

lemma comparator_or:
  assumes c: "comparator c" and d: "comparator d"
  shows "comparator (\<lambda>x y. cmp_or (c x y) (d x y))"
proof
  note c_sym = comparator.cmp_sym [OF c] and c_trans = comparator.cmp_trans [OF c]
  fix x y z
  show "cmp_or (c x y) (d x y) \<le> 0 \<longleftrightarrow> 0 \<le> cmp_or (c y x) (d y x)"
    using c_sym [of x y] comparator.cmp_zero_sym [OF c, of x y] comparator.cmp_sym [OF d, of x y]
    by (auto simp: cmp_or_def)
  assume xy: "cmp_or (c x y) (d x y) \<le> 0" and yz: "cmp_or (c y z) (d y z) \<le> 0"
  have le: "c x y \<le> 0" "c y z \<le> 0" using xy yz by (auto simp: cmp_or_def split: if_splits)
  then have xz: "c x z \<le> 0" by (rule c_trans)
  show "cmp_or (c x z) (d x z) \<le> 0"
  proof (cases "c x z = 0")
    case True
    then have "c z x \<le> 0" using comparator.cmp_zero_sym [OF c, of x z] by simp
    then have "c z y \<le> 0" "c y x \<le> 0" using le c_trans by blast+
    then have "c y z = 0" "c x y = 0" using le c_sym [of z y] c_sym [of y x] by auto
    with xy yz have "d x y \<le> 0" "d y z \<le> 0" by (simp_all add: cmp_or_def)
    then have "d x z \<le> 0" by (rule comparator.cmp_trans [OF d])
    with True show ?thesis by (simp add: cmp_or_def)
  qed (use xz in \<open>simp add: cmp_or_def\<close>)
qed

lemmas comparator_intros =
  comparator_or comparator_diff comparator_diff_rev comparator_locale

lemma keyed_comparatorI:
  "comparator cmp \<Longrightarrow> (\<And>x y. cmp x y = 0 \<Longrightarrow> key x = key y) \<Longrightarrow> keyed_comparator cmp key"
  by (simp add: keyed_comparator_def keyed_comparator_axioms_def)

text \<open>Sorting only compares members of the list.\<close>

lemma js_insert_cong:
  "(\<And>y. y \<in> set ys \<Longrightarrow> c x y = d x y) \<Longrightarrow> js_insert c x ys = js_insert d x ys"
  by (induction ys) auto

lemma js_sort_cong:
  "(\<And>x y. x \<in> set xs \<Longrightarrow> y \<in> set xs \<Longrightarrow> c x y = d x y) \<Longrightarrow> js_sort c xs = js_sort d xs"
  by (induction xs) (auto intro!: js_insert_cong)

section \<open>Collation\<close>

text \<open>
  What the code relies on where it sorts names with \<^verbatim>\<open>localeCompare\<close>: the runtime's collation
  is a consistent comparison function that orders canonical identifiers as their code units do.
\<close>

locale collation = comparator collate for collate :: "string \<Rightarrow> string \<Rightarrow> int" +
  assumes collate_uuid: "is_uuid s \<Longrightarrow> is_uuid t \<Longrightarrow> collate s t = locale_compare s t"
begin

lemma comparator_collate: "comparator (\<lambda>x y. collate (f x) (f y))"
  by unfold_locales (rule cmp_sym, rule cmp_trans)

text \<open>Rows with distinct canonical identifiers, compared by identifier last, sort to one array.\<close>

lemma sort_by_id_perm:
  assumes c: "comparator c" and ids: "\<And>x. x \<in> set xs \<Longrightarrow> is_uuid (key x)"
    and perm: "mset xs = mset ys" and distinct_keys: "distinct (map key xs)"
  shows "js_sort (\<lambda>x y. cmp_or (c x y) (collate (key x) (key y))) xs =
    js_sort (\<lambda>x y. cmp_or (c x y) (collate (key x) (key y))) ys"
proof -
  define d where "d = (\<lambda>x y. cmp_or (c x y) (locale_compare (key x) (key y)))"
  have same: "js_sort (\<lambda>x y. cmp_or (c x y) (collate (key x) (key y))) zs = js_sort d zs"
    if "\<And>x. x \<in> set zs \<Longrightarrow> is_uuid (key x)" for zs
    unfolding d_def by (rule js_sort_cong) (simp only: collate_uuid that)
  have "keyed_comparator d key"
  proof (rule keyed_comparatorI)
    show "comparator d" unfolding d_def by (intro comparator_or c comparator_locale)
    show "key x = key y" if "d x y = 0" for x y using that by (simp add: d_def)
  qed
  then have "js_sort d xs = js_sort d ys" by (rule keyed_comparator.js_sort_perm) (fact perm distinct_keys)+
  moreover have "set xs = set ys" using perm by (metis set_mset_mset)
  ultimately show ?thesis using same [of xs] same [of ys] ids by simp
qed

end

interpretation code_units: collation locale_compare
  by unfold_locales (auto simp: locale_compare_def split: if_splits)

end
