(* ===== verification/CandidateAllocation.thy ===== *)
theory CandidateAllocation
  imports Validation Ordering
begin

text \<open>
  \<^verbatim>\<open>src/src/domain/freeAgentDraft/candidateAllocationPolicy.js\<close>: the Free Agent Draft decides
  each player's Candidate offers by the highest average annual value, then the longest term; an
  exact tie goes to a restricted auction between the tied teams. The lemmas show that the decision
  partitions the offers, that the award goes to the best offer, that a tie holds exactly the best
  offers, and that the order of the submitted offers has no influence.
\<close>

section \<open>Errors and contracts\<close>

datatype allocation_code =
    AllocationInputInvalid
  | AllocationOfferInvalid
  | AllocationFloorInvalid
  | AllocationBidInvalid

type_synonym allocation_error = "allocation_code \<times> string"

definition fad_restricted_joining_minimum :: "int \<Rightarrow> int" where
  "fad_restricted_joining_minimum y = (if y = 1 then 150 else if y = 2 then 300 else 500)"

record contract_reasons =
  cr_code :: allocation_code
  cr_field :: string
  cr_total :: string
  cr_term :: string
  cr_precision :: string
  cr_aav :: string

record candidate_contract =
  cc_totalValueCents :: int
  cc_termYears :: int
  cc_aavCents :: int

text \<open>The checks of \<^verbatim>\<open>canonicalContract\<close> after the exact-key test, on the three fields.\<close>

definition contract_fields :: "contract_reasons \<Rightarrow> jsval \<Rightarrow> jsval \<Rightarrow> jsval \<Rightarrow>
    allocation_error + candidate_contract" where
  "contract_fields r totalValueCents termYears aavCents =
     bindE (safe_between (cr_code r, cr_term r) 1 3 termYears) (\<lambda>y.
     bindE (safe_from (cr_code r, cr_total r) (y * 100) totalValueCents) (\<lambda>tot.
     bindE (safe_between (cr_code r, cr_aav r) (rounded_aav tot y) (rounded_aav tot y) aavCents) (\<lambda>aav.
     let aavFirstContract = (aav mod 25 = 0 \<and> tot = aav * y);
         legacyContract = (y = 1 \<or> tot mod 100 = 0) in
     if \<not> aavFirstContract \<and> \<not> legacyContract then Inl (cr_code r, cr_precision r)
     else Inr \<lparr>cc_totalValueCents = tot, cc_termYears = y, cc_aavCents = rounded_aav tot y\<rparr>)))"

definition canonicalContract :: "contract_reasons \<Rightarrow> jsval \<Rightarrow>
    allocation_error + candidate_contract" where
  "canonicalContract r v =
     bindE (exact_object (cr_code r, cr_field r) [''totalValueCents'', ''termYears'', ''aavCents''] v) (\<lambda>_.
     contract_fields r (fld v ''totalValueCents'') (fld v ''termYears'') (fld v ''aavCents''))"

definition candidate_contract_ok :: "candidate_contract \<Rightarrow> bool" where
  "candidate_contract_ok c \<longleftrightarrow>
     1 \<le> cc_termYears c \<and> cc_termYears c \<le> 3 \<and> cc_termYears c * 100 \<le> cc_totalValueCents c \<and>
     safe (cc_totalValueCents c) \<and> safe (cc_aavCents c) \<and>
     cc_aavCents c = rounded_aav (cc_totalValueCents c) (cc_termYears c) \<and>
     ((cc_aavCents c mod 25 = 0 \<and> cc_totalValueCents c = cc_aavCents c * cc_termYears c) \<or>
      cc_termYears c = 1 \<or> cc_totalValueCents c mod 100 = 0)"

lemma contract_fields_iff [check_iffs]:
  "contract_fields r t y a = Inr c \<longleftrightarrow>
     t = JInt (cc_totalValueCents c) \<and> y = JInt (cc_termYears c) \<and> a = JInt (cc_aavCents c) \<and>
     candidate_contract_ok c"
  by (cases c) (auto simp: contract_fields_def candidate_contract_ok_def result_iffs check_iffs
      Let_def safe_def max_safe_def)

text \<open>
  Equal averages over equal terms mean equal totals: the restricted floor is the same contract for
  every tied team, whether its total is a multiple of the average or a legacy whole-dollar total.
\<close>

lemma contract_near_average:
  "candidate_contract_ok c \<Longrightarrow>
     \<bar>2 * (cc_termYears c * cc_aavCents c - cc_totalValueCents c)\<bar> \<le> cc_termYears c"
  using rounded_aav_error [of "cc_termYears c" "cc_totalValueCents c"]
  by (simp add: candidate_contract_ok_def)

lemma contract_quarter_dollars:
  assumes "candidate_contract_ok c" and "cc_termYears c \<noteq> 1"
  shows "25 dvd cc_totalValueCents c"
proof -
  have "25 dvd t" if "100 dvd t" for t :: int
    using that by (rule dvd_trans [rotated]) simp
  then show ?thesis
    using assms unfolding candidate_contract_ok_def by (metis dvd_eq_mod_eq_0 dvd_mult2)
qed

lemma same_average_same_total:
  assumes ok: "candidate_contract_ok c" "candidate_contract_ok d"
    and same: "cc_termYears c = cc_termYears d" "cc_aavCents c = cc_aavCents d"
  shows "cc_totalValueCents c = cc_totalValueCents d"
proof (cases "cc_termYears c = 1")
  case True
  with ok same show ?thesis by (simp add: candidate_contract_ok_def rounded_aav_def)
next
  case False
  have "25 dvd cc_totalValueCents c - cc_totalValueCents d"
    using ok False same by (intro dvd_diff contract_quarter_dollars) simp_all
  then obtain k where k: "cc_totalValueCents c - cc_totalValueCents d = 25 * k" by (elim dvdE)
  have "cc_termYears c \<le> 3" using ok(1) by (simp add: candidate_contract_ok_def)
  with contract_near_average [OF ok(1)] contract_near_average [OF ok(2)] same
  have "\<bar>cc_totalValueCents c - cc_totalValueCents d\<bar> \<le> 3" by (simp add: abs_le_iff)
  with k have "k = 0" by (simp add: abs_le_iff)
  with k show ?thesis by simp
qed

lemma candidate_contract_ex:
  "(\<exists>c. P c) \<longleftrightarrow> (\<exists>t y a. P \<lparr>cc_totalValueCents = t, cc_termYears = y, cc_aavCents = a\<rparr>)"
  by (metis candidate_contract.cases)

section \<open>Offers\<close>

record candidate_offer =
  co_offerId :: string
  co_cardSnapshotId :: string
  co_teamId :: string
  co_playerId :: string
  co_rowKind :: string
  co_totalValueCents :: int
  co_termYears :: int
  co_aavCents :: int
  co_eligibilityStatus :: string
  co_cardAllocationEligibility :: string
  co_cardCompletenessCode :: string

definition candidate_offer_keys :: "string list" where
  "candidate_offer_keys =
     [''offerId'', ''cardSnapshotId'', ''teamId'', ''playerId'', ''rowKind'', ''totalValueCents'',
      ''termYears'', ''aavCents'', ''eligibilityStatus'', ''cardAllocationEligibility'',
      ''cardCompletenessCode'']"

definition offer_reasons :: contract_reasons where
  "offer_reasons =
     \<lparr>cr_code = AllocationOfferInvalid,
      cr_field = ''offer_contract_fields_invalid'',
      cr_total = ''offer_total_value_invalid'',
      cr_term = ''offer_term_invalid'',
      cr_precision = ''offer_precision_invalid'',
      cr_aav = ''offer_aav_mismatch''\<rparr>"

abbreviation offer_fail :: "string \<Rightarrow> allocation_error" where
  "offer_fail reason \<equiv> (AllocationOfferInvalid, reason)"

definition canonicalOffer :: "string \<Rightarrow> jsval \<Rightarrow> allocation_error + candidate_offer" where
  "canonicalOffer playerId v =
     bindE (exact_object (offer_fail ''offer_fields_invalid'') candidate_offer_keys v) (\<lambda>_.
     bindE (stable_id (offer_fail ''offer_id_invalid'') (fld v ''offerId'')) (\<lambda>offerId.
     bindE (stable_id (offer_fail ''offer_player_id_invalid'') (fld v ''playerId'')) (\<lambda>canonicalPlayerId.
     if canonicalPlayerId \<noteq> playerId then Inl (offer_fail ''offer_player_scope_invalid'')
     else
     bindE (one_of (offer_fail ''offer_row_kind_invalid'') [''slot'', ''conflict'']
             (fld v ''rowKind'')) (\<lambda>rowKind.
     bindE (one_of (offer_fail ''offer_eligibility_status_invalid'') [''valid'', ''warning'', ''invalid'']
             (fld v ''eligibilityStatus'')) (\<lambda>eligibilityStatus.
     bindE (one_of (offer_fail ''card_allocation_eligibility_invalid'')
             [''eligible'', ''excluded_structural_conflict'', ''excluded_over_cap'']
             (fld v ''cardAllocationEligibility'')) (\<lambda>cardAllocationEligibility.
     bindE (one_of (offer_fail ''card_completeness_code_invalid'')
             [''complete'', ''incomplete'', ''conflicted'']
             (fld v ''cardCompletenessCode'')) (\<lambda>cardCompletenessCode.
     bindE (contract_fields offer_reasons (fld v ''totalValueCents'') (fld v ''termYears'')
             (fld v ''aavCents'')) (\<lambda>contract.
     bindE (stable_id (offer_fail ''card_snapshot_id_invalid'') (fld v ''cardSnapshotId'')) (\<lambda>cardSnapshotId.
     bindE (stable_id (offer_fail ''offer_team_id_invalid'') (fld v ''teamId'')) (\<lambda>teamId.
     Inr \<lparr>co_offerId = offerId,
          co_cardSnapshotId = cardSnapshotId,
          co_teamId = teamId,
          co_playerId = canonicalPlayerId,
          co_rowKind = rowKind,
          co_totalValueCents = cc_totalValueCents contract,
          co_termYears = cc_termYears contract,
          co_aavCents = cc_aavCents contract,
          co_eligibilityStatus = eligibilityStatus,
          co_cardAllocationEligibility = cardAllocationEligibility,
          co_cardCompletenessCode = cardCompletenessCode\<rparr>))))))))))"

definition offer_contract :: "candidate_offer \<Rightarrow> candidate_contract" where
  "offer_contract o1 =
     \<lparr>cc_totalValueCents = co_totalValueCents o1, cc_termYears = co_termYears o1,
      cc_aavCents = co_aavCents o1\<rparr>"

definition candidate_offer_fields :: "candidate_offer \<Rightarrow> (string \<times> jsval) list" where
  "candidate_offer_fields o1 =
     [(''offerId'', JStr (co_offerId o1)),
      (''cardSnapshotId'', JStr (co_cardSnapshotId o1)),
      (''teamId'', JStr (co_teamId o1)),
      (''playerId'', JStr (co_playerId o1)),
      (''rowKind'', JStr (co_rowKind o1)),
      (''totalValueCents'', JInt (co_totalValueCents o1)),
      (''termYears'', JInt (co_termYears o1)),
      (''aavCents'', JInt (co_aavCents o1)),
      (''eligibilityStatus'', JStr (co_eligibilityStatus o1)),
      (''cardAllocationEligibility'', JStr (co_cardAllocationEligibility o1)),
      (''cardCompletenessCode'', JStr (co_cardCompletenessCode o1))]"

definition candidate_offer_wf :: "string \<Rightarrow> candidate_offer \<Rightarrow> bool" where
  "candidate_offer_wf playerId o1 \<longleftrightarrow>
     is_uuid (co_offerId o1) \<and> is_uuid (co_cardSnapshotId o1) \<and> is_uuid (co_teamId o1) \<and>
     is_uuid (co_playerId o1) \<and> co_playerId o1 = playerId \<and>
     co_rowKind o1 \<in> {''slot'', ''conflict''} \<and>
     co_eligibilityStatus o1 \<in> {''valid'', ''warning'', ''invalid''} \<and>
     co_cardAllocationEligibility o1 \<in>
       {''eligible'', ''excluded_structural_conflict'', ''excluded_over_cap''} \<and>
     co_cardCompletenessCode o1 \<in> {''complete'', ''incomplete'', ''conflicted''} \<and>
     candidate_contract_ok (offer_contract o1)"

interpretation offer_validator:
  validator "canonicalOffer playerId" candidate_offer_fields "candidate_offer_wf playerId"
proof (rule validatorI [where ks = candidate_offer_keys and e = "offer_fail ''offer_fields_invalid''"])
  fix v c
  show "canonicalOffer playerId v = Inr c \<longleftrightarrow>
      candidate_offer_wf playerId c \<and>
      exact_object (offer_fail ''offer_fields_invalid'') candidate_offer_keys v = Inr () \<and>
      list_all (\<lambda>(k, w). fld v k = w) (candidate_offer_fields c)"
    unfolding canonicalOffer_def result_iffs check_iffs
    by (cases c, simp add: candidate_offer_wf_def candidate_offer_fields_def offer_contract_def
        candidate_contract_ex)
      auto
qed (simp_all add: candidate_offer_keys_def candidate_offer_fields_def)

section \<open>Ranking and exclusion\<close>

record safe_offer =
  so_offerId :: string
  so_cardSnapshotId :: string
  so_teamId :: string
  so_playerId :: string
  so_totalValueCents :: int
  so_termYears :: int
  so_aavCents :: int
  so_eligibilityStatus :: string
  so_cardCompletenessCode :: string

definition safeOfferProjection :: "candidate_offer \<Rightarrow> safe_offer" where
  "safeOfferProjection offer =
     \<lparr>so_offerId = co_offerId offer,
      so_cardSnapshotId = co_cardSnapshotId offer,
      so_teamId = co_teamId offer,
      so_playerId = co_playerId offer,
      so_totalValueCents = co_totalValueCents offer,
      so_termYears = co_termYears offer,
      so_aavCents = co_aavCents offer,
      so_eligibilityStatus = co_eligibilityStatus offer,
      so_cardCompletenessCode = co_cardCompletenessCode offer\<rparr>"

definition rankOffers :: "candidate_offer \<Rightarrow> candidate_offer \<Rightarrow> int" where
  "rankOffers left right =
     cmp_or (co_aavCents right - co_aavCents left)
    (cmp_or (co_termYears right - co_termYears left)
    (cmp_or (locale_compare (co_teamId left) (co_teamId right))
            (locale_compare (co_offerId left) (co_offerId right))))"

record excluded_offer =
  xo_offerId :: string
  xo_teamId :: string
  xo_reasonCode :: string

definition excludedOffer :: "candidate_offer \<Rightarrow> excluded_offer option" where
  "excludedOffer offer =
     (let exclude = (\<lambda>reason. Some \<lparr>xo_offerId = co_offerId offer, xo_teamId = co_teamId offer,
            xo_reasonCode = reason\<rparr>) in
     if co_cardAllocationEligibility offer = ''excluded_structural_conflict''
     then exclude ''candidate_card_structural_conflict''
     else if co_cardAllocationEligibility offer = ''excluded_over_cap''
     then exclude ''candidate_card_over_cap''
     else if co_rowKind offer = ''conflict'' then exclude ''candidate_offer_invalid''
     else if co_eligibilityStatus offer = ''invalid'' then exclude ''candidate_offer_invalid''
     else None)"

definition compareExcluded :: "excluded_offer \<Rightarrow> excluded_offer \<Rightarrow> int" where
  "compareExcluded left right =
     cmp_or (locale_compare (xo_offerId left) (xo_offerId right))
            (locale_compare (xo_reasonCode left) (xo_reasonCode right))"

interpretation ranked_offers: keyed_comparator rankOffers co_offerId
  unfolding rankOffers_def [abs_def] by (rule keyed_comparatorI) (intro comparator_intros, simp)

interpretation excluded_offers: keyed_comparator compareExcluded xo_offerId
  unfolding compareExcluded_def [abs_def] by (rule keyed_comparatorI) (intro comparator_intros, simp)

section \<open>The restricted tie\<close>

record restricted_minimum =
  rm_sourceSnapshotEntryId :: string
  rm_teamId :: string
  rm_minimumTotalValueCents :: int
  rm_minimumTermYears :: int
  rm_minimumAavCents :: int
  rm_isActiveBid :: bool
  rm_isLeader :: bool
  rm_managerEditCount :: int
  rm_cooldownAnchorAtMs :: "int option"
  rm_canWinWithoutStrictImprovement :: bool

definition minimum_reasons :: contract_reasons where
  "minimum_reasons =
     \<lparr>cr_code = AllocationFloorInvalid,
      cr_field = ''candidate_minimum_contract_fields_invalid'',
      cr_total = ''candidate_minimum_total_invalid'',
      cr_term = ''candidate_minimum_term_invalid'',
      cr_precision = ''candidate_minimum_precision_invalid'',
      cr_aav = ''candidate_minimum_aav_mismatch''\<rparr>"

definition createRestrictedCandidateMinimum :: "jsval \<Rightarrow> allocation_error + restricted_minimum" where
  "createRestrictedCandidateMinimum input =
     bindE (exact_object (AllocationFloorInvalid, ''candidate_minimum_fields_invalid'')
             [''sourceSnapshotEntryId'', ''teamId'', ''totalValueCents'', ''termYears'', ''aavCents''] input) (\<lambda>_.
     bindE (contract_fields minimum_reasons (fld input ''totalValueCents'') (fld input ''termYears'')
             (fld input ''aavCents'')) (\<lambda>contract.
     bindE (stable_id (AllocationFloorInvalid, ''candidate_minimum_source_invalid'')
             (fld input ''sourceSnapshotEntryId'')) (\<lambda>sourceSnapshotEntryId.
     bindE (stable_id (AllocationFloorInvalid, ''candidate_minimum_team_invalid'')
             (fld input ''teamId'')) (\<lambda>teamId.
     Inr \<lparr>rm_sourceSnapshotEntryId = sourceSnapshotEntryId,
          rm_teamId = teamId,
          rm_minimumTotalValueCents = cc_totalValueCents contract,
          rm_minimumTermYears = cc_termYears contract,
          rm_minimumAavCents = cc_aavCents contract,
          rm_isActiveBid = False,
          rm_isLeader = False,
          rm_managerEditCount = 0,
          rm_cooldownAnchorAtMs = None,
          rm_canWinWithoutStrictImprovement = False\<rparr>))))"

definition minimumFromOffer :: "candidate_offer \<Rightarrow> allocation_error + restricted_minimum" where
  "minimumFromOffer offer = createRestrictedCandidateMinimum (JObj
     [(''sourceSnapshotEntryId'', JStr (co_offerId offer)),
      (''teamId'', JStr (co_teamId offer)),
      (''totalValueCents'', JInt (co_totalValueCents offer)),
      (''termYears'', JInt (co_termYears offer)),
      (''aavCents'', JInt (co_aavCents offer))])"

definition compareParticipants :: "restricted_minimum \<Rightarrow> restricted_minimum \<Rightarrow> int" where
  "compareParticipants left right =
     cmp_or (locale_compare (rm_teamId left) (rm_teamId right))
            (locale_compare (rm_sourceSnapshotEntryId left) (rm_sourceSnapshotEntryId right))"

interpretation participants: keyed_comparator compareParticipants rm_sourceSnapshotEntryId
  unfolding compareParticipants_def [abs_def] by (rule keyed_comparatorI) (intro comparator_intros, simp)

record restricted_tie =
  rt_floor :: candidate_contract
  rt_participantCount :: nat
  rt_participants :: "restricted_minimum list"

section \<open>The decision\<close>

record candidate_allocation =
  al_playerId :: string
  al_eligibleOfferCount :: nat
  al_excludedOfferCount :: nat
  al_eligibleOffers :: "safe_offer list"
  al_excludedOffers :: "excluded_offer list"
  al_outcome :: string
  al_decisionCode :: string
  al_winner :: "safe_offer option"
  al_restrictedTie :: "restricted_tie option"

fun check_offer_ids :: "string set \<Rightarrow> string set \<Rightarrow> candidate_offer list \<Rightarrow> allocation_error + unit" where
  "check_offer_ids offerIds teamIds [] = Inr ()"
| "check_offer_ids offerIds teamIds (offer # offers) =
     (if co_offerId offer \<in> offerIds then Inl (offer_fail ''offer_id_duplicate'')
      else if co_teamId offer \<in> teamIds then Inl (offer_fail ''offer_team_duplicate'')
      else check_offer_ids (insert (co_offerId offer) offerIds) (insert (co_teamId offer) teamIds) offers)"

definition decide_offers :: "string \<Rightarrow> candidate_offer list \<Rightarrow> allocation_error + candidate_allocation" where
  "decide_offers playerId offers =
     (let excludedOffers = js_sort compareExcluded (List.map_filter excludedOffer offers);
          eligibleOffers = js_sort rankOffers (filter (\<lambda>o1. excludedOffer o1 = None) offers);
          base = (\<lambda>outcome decisionCode winner tie.
            \<lparr>al_playerId = playerId,
             al_eligibleOfferCount = length eligibleOffers,
             al_excludedOfferCount = length excludedOffers,
             al_eligibleOffers = map safeOfferProjection eligibleOffers,
             al_excludedOffers = excludedOffers,
             al_outcome = outcome,
             al_decisionCode = decisionCode,
             al_winner = winner,
             al_restrictedTie = tie\<rparr>);
          award = (\<lambda>code best.
            Inr (base ''automatic_award'' code (Some (safeOfferProjection best)) None)) in
     (case eligibleOffers of
        [] \<Rightarrow> Inr (base ''no_valid_offer'' ''no_valid_offer'' None None)
      | [best] \<Rightarrow> award ''sole_valid_offer'' best
      | best # second # _ \<Rightarrow>
          if co_aavCents second < co_aavCents best then award ''highest_aav'' best
          else if co_termYears second < co_termYears best then award ''highest_equal_aav_term'' best
          else
          let tiedOffers = filter (\<lambda>o1. co_aavCents o1 = co_aavCents best \<and>
                co_termYears o1 = co_termYears best) eligibleOffers in
          if length tiedOffers < 2 then Inl (offer_fail ''top_offer_ranking_ambiguous'')
          else
          bindE (mapE minimumFromOffer tiedOffers) (\<lambda>minimums.
          let participants = js_sort compareParticipants minimums in
          Inr (base ''restricted_auction'' ''exact_total_and_term_tie'' None
            (Some \<lparr>rt_floor = offer_contract best, rt_participantCount = length participants,
                   rt_participants = participants\<rparr>)))))"

definition decideCandidateAllocation :: "jsval \<Rightarrow> allocation_error + candidate_allocation" where
  "decideCandidateAllocation input =
     bindE (exact_object (AllocationInputInvalid, ''allocation_fields_invalid'')
             [''playerId'', ''offers''] input) (\<lambda>_.
     bindE (stable_id (AllocationInputInvalid, ''player_id_invalid'') (fld input ''playerId'')) (\<lambda>playerId.
     case items (fld input ''offers'') of
       None \<Rightarrow> Inl (AllocationInputInvalid, ''offers_invalid'')
     | Some vs \<Rightarrow>
     bindE (mapE (canonicalOffer playerId) vs) (\<lambda>offers.
     bindE (check_offer_ids {} {} offers) (\<lambda>_.
     decide_offers playerId offers))))"

section \<open>Improving on a minimum and the fallback floor\<close>

definition floor_reasons :: contract_reasons where
  "floor_reasons =
     \<lparr>cr_code = AllocationFloorInvalid, cr_field = ''floor_fields_invalid'',
      cr_total = ''floor_total_invalid'', cr_term = ''floor_term_invalid'',
      cr_precision = ''floor_precision_invalid'', cr_aav = ''floor_aav_mismatch''\<rparr>"

definition canonicalFloor :: "jsval \<Rightarrow> allocation_error + candidate_contract" where
  "canonicalFloor = canonicalContract floor_reasons"

definition bid_reasons :: contract_reasons where
  "bid_reasons =
     \<lparr>cr_code = AllocationBidInvalid, cr_field = ''bid_fields_invalid'',
      cr_total = ''bid_total_invalid'', cr_term = ''bid_term_invalid'',
      cr_precision = ''bid_precision_invalid'', cr_aav = ''bid_aav_mismatch''\<rparr>"

definition canonicalBid :: "jsval \<Rightarrow> allocation_error + candidate_contract" where
  "canonicalBid = canonicalContract bid_reasons"

definition contract_object :: "candidate_contract \<Rightarrow> jsval" where
  "contract_object c = JObj
     [(''totalValueCents'', JInt (cc_totalValueCents c)), (''termYears'', JInt (cc_termYears c)),
      (''aavCents'', JInt (cc_aavCents c))]"

definition compareAavFirstLongestTermSecond :: "jsval \<Rightarrow> jsval \<Rightarrow> allocation_error + int" where
  "compareAavFirstLongestTermSecond left right =
     bindE (canonicalBid left) (\<lambda>canonicalLeft.
     bindE (canonicalFloor right) (\<lambda>canonicalRight.
     Inr (if cc_aavCents canonicalLeft \<noteq> cc_aavCents canonicalRight
          then if cc_aavCents canonicalLeft > cc_aavCents canonicalRight then 1 else - 1
          else if cc_termYears canonicalLeft \<noteq> cc_termYears canonicalRight
          then if cc_termYears canonicalLeft > cc_termYears canonicalRight then 1 else - 1
          else 0)))"

record restricted_improvement =
  ri_eligible :: bool
  ri_comparison :: int
  ri_isStrictImprovement :: bool
  ri_meetsOrdinaryJoiningMinimum :: bool
  ri_reasonCodes :: "string list"
  ri_candidateMinimum :: candidate_contract
  ri_submittedBid :: candidate_contract

definition evaluateRestrictedCandidateImprovement :: "jsval \<Rightarrow> allocation_error + restricted_improvement" where
  "evaluateRestrictedCandidateImprovement input =
     bindE (exact_object (AllocationInputInvalid, ''restricted_improvement_fields_invalid'')
             [''candidateMinimum'', ''submittedBid''] input) (\<lambda>_.
     bindE (canonicalFloor (fld input ''candidateMinimum'')) (\<lambda>candidateMinimum.
     bindE (canonicalBid (fld input ''submittedBid'')) (\<lambda>submittedBid.
     bindE (compareAavFirstLongestTermSecond (contract_object submittedBid)
             (contract_object candidateMinimum)) (\<lambda>comparison.
     let isStrictImprovement = (0 < comparison);
         meetsOrdinaryJoiningMinimum =
           (fad_restricted_joining_minimum (cc_termYears submittedBid) \<le> cc_totalValueCents submittedBid) in
     Inr \<lparr>ri_eligible = isStrictImprovement \<and> meetsOrdinaryJoiningMinimum,
          ri_comparison = comparison,
          ri_isStrictImprovement = isStrictImprovement,
          ri_meetsOrdinaryJoiningMinimum = meetsOrdinaryJoiningMinimum,
          ri_reasonCodes =
            (if isStrictImprovement then [] else [''restricted_candidate_minimum_not_improved'']) @
            (if meetsOrdinaryJoiningMinimum then [] else [''ordinary_joining_minimum_not_met'']),
          ri_candidateMinimum = candidateMinimum,
          ri_submittedBid = submittedBid\<rparr>))))"

record fallback_floor_bid =
  ff_eligible :: bool
  ff_comparison :: int
  ff_meetsFloor :: bool
  ff_reasonCodes :: "string list"
  ff_floor :: candidate_contract
  ff_submittedBid :: candidate_contract

definition evaluateFallbackFloorBid :: "jsval \<Rightarrow> allocation_error + fallback_floor_bid" where
  "evaluateFallbackFloorBid input =
     bindE (exact_object (AllocationInputInvalid, ''fallback_floor_fields_invalid'')
             [''floor'', ''submittedBid''] input) (\<lambda>_.
     bindE (canonicalFloor (fld input ''floor'')) (\<lambda>floor.
     bindE (canonicalBid (fld input ''submittedBid'')) (\<lambda>submittedBid.
     bindE (compareAavFirstLongestTermSecond (contract_object submittedBid)
             (contract_object floor)) (\<lambda>comparison.
     let meetsFloor = (0 \<le> comparison) in
     Inr \<lparr>ff_eligible = meetsFloor,
          ff_comparison = comparison,
          ff_meetsFloor = meetsFloor,
          ff_reasonCodes = (if meetsFloor then [] else [''fallback_floor_not_met'']),
          ff_floor = floor,
          ff_submittedBid = submittedBid\<rparr>))))"

section \<open>What the ranking means\<close>

text \<open>The published rule: the higher average annual value, then the longer term.\<close>

definition offer_better :: "candidate_offer \<Rightarrow> candidate_offer \<Rightarrow> bool" where
  "offer_better o1 o2 \<longleftrightarrow>
     co_aavCents o2 < co_aavCents o1 \<or>
     (co_aavCents o2 = co_aavCents o1 \<and> co_termYears o2 < co_termYears o1)"

definition eligible_offers :: "candidate_offer list \<Rightarrow> candidate_offer list" where
  "eligible_offers offers = filter (\<lambda>o1. excludedOffer o1 = None) offers"

lemma rankOffers_le_better: "rankOffers o1 o2 \<le> 0 \<Longrightarrow> \<not> offer_better o2 o1"
  by (auto simp: rankOffers_def offer_better_def cmp_or_def split: if_splits)

lemma offer_better_trans: "\<not> offer_better o1 o2 \<Longrightarrow> offer_better o3 o2 \<Longrightarrow> offer_better o3 o1"
  by (auto simp: offer_better_def)

lemma offer_better_irrefl [simp]: "\<not> offer_better o1 o1"
  by (simp add: offer_better_def)

text \<open>The ranked offers: nothing beats the first, and whatever the second loses to beats the rest.\<close>

lemma ranked_best:
  assumes "js_sort rankOffers xs = best # rest" and "o1 \<in> set xs"
  shows "\<not> offer_better o1 best"
  using assms by (intro rankOffers_le_better ranked_offers.js_sort_head_least)

lemma ranked_second:
  assumes "js_sort rankOffers xs = best # second # rest" and "offer_better best second"
    and "o1 \<in> set (second # rest)"
  shows "offer_better best o1"
proof -
  have "sorted_wrt (\<lambda>x y. rankOffers x y \<le> 0) (best # second # rest)"
    using ranked_offers.sorted_js_sort [of xs] assms(1) by simp
  then have "sorted_wrt (\<lambda>x y. rankOffers x y \<le> 0) (second # rest)" by simp
  then have "rankOffers second o1 \<le> 0" using assms(3) by (rule ranked_offers.sorted_head_least)
  then have "\<not> offer_better o1 second" by (rule rankOffers_le_better)
  then show ?thesis using assms(2) by (rule offer_better_trans)
qed

definition minimum_of :: "candidate_offer \<Rightarrow> restricted_minimum" where
  "minimum_of offer =
     \<lparr>rm_sourceSnapshotEntryId = co_offerId offer,
      rm_teamId = co_teamId offer,
      rm_minimumTotalValueCents = co_totalValueCents offer,
      rm_minimumTermYears = co_termYears offer,
      rm_minimumAavCents = co_aavCents offer,
      rm_isActiveBid = False,
      rm_isLeader = False,
      rm_managerEditCount = 0,
      rm_cooldownAnchorAtMs = None,
      rm_canWinWithoutStrictImprovement = False\<rparr>"

lemma minimumFromOffer_wf:
  assumes "candidate_offer_wf playerId o1"
  shows "minimumFromOffer o1 = Inr (minimum_of o1)"
proof -
  have "contract_fields minimum_reasons (JInt (co_totalValueCents o1)) (JInt (co_termYears o1))
      (JInt (co_aavCents o1)) = Inr (offer_contract o1)"
    using assms by (simp add: contract_fields_iff candidate_offer_wf_def) (simp add: offer_contract_def)
  then show ?thesis
    using assms by (simp add: minimumFromOffer_def createRestrictedCandidateMinimum_def minimum_of_def
        candidate_offer_wf_def offer_contract_def)
qed

lemma equal_offers_same_contract:
  assumes "candidate_offer_wf p o1" "candidate_offer_wf p o2"
    and "co_aavCents o1 = co_aavCents o2" "co_termYears o1 = co_termYears o2"
  shows "offer_contract o1 = offer_contract o2"
  using assms same_average_same_total [of "offer_contract o1" "offer_contract o2"]
  by (simp add: candidate_offer_wf_def offer_contract_def)

lemma check_offer_ids_iff [check_iffs]:
  "check_offer_ids A B offers = Inr u \<longleftrightarrow>
     distinct (map co_offerId offers) \<and> distinct (map co_teamId offers) \<and>
     co_offerId ` set offers \<inter> A = {} \<and> co_teamId ` set offers \<inter> B = {}"
  by (induction offers arbitrary: A B) auto

section \<open>The outcome of a decision\<close>

text \<open>
  What each outcome says of the ranked eligible offers \<open>es\<close>.
\<close>

definition allocation_outcome :: "candidate_offer list \<Rightarrow> candidate_allocation \<Rightarrow> bool" where
  "allocation_outcome es al \<longleftrightarrow>
     (es = [] \<and> al_outcome al = ''no_valid_offer'' \<and> al_winner al = None \<and> al_restrictedTie al = None) \<or>
     (\<exists>best \<in> set es. (\<forall>o1 \<in> set es. o1 \<noteq> best \<longrightarrow> offer_better best o1) \<and>
        al_outcome al = ''automatic_award'' \<and>
        al_winner al = Some (safeOfferProjection best) \<and> al_restrictedTie al = None) \<or>
     (\<exists>best \<in> set es. (\<forall>o1 \<in> set es. \<not> offer_better o1 best) \<and>
        al_outcome al = ''restricted_auction'' \<and> al_winner al = None \<and>
        (let tied = filter (\<lambda>o1. \<not> offer_better best o1) es;
             ps = js_sort compareParticipants (map minimum_of tied) in
         2 \<le> length tied \<and>
         al_restrictedTie al = Some \<lparr>rt_floor = offer_contract best, rt_participantCount = length ps,
           rt_participants = ps\<rparr>))"

lemma tied_filter:
  assumes "\<forall>o1 \<in> set es. \<not> offer_better o1 best"
  shows "filter (\<lambda>o1. co_aavCents o1 = co_aavCents best \<and> co_termYears o1 = co_termYears best) es =
    filter (\<lambda>o1. \<not> offer_better best o1) es"
  using assms by (auto simp: offer_better_def intro!: filter_cong)

lemma decide_offers_total:
  assumes wf: "list_all (candidate_offer_wf playerId) offers" and dist: "distinct (map co_offerId offers)"
  defines "es \<equiv> js_sort rankOffers (eligible_offers offers)"
  shows "\<exists>al. decide_offers playerId offers = Inr al \<and> allocation_outcome es al \<and>
    al_eligibleOffers al = map safeOfferProjection es \<and>
    al_excludedOffers al = js_sort compareExcluded (List.map_filter excludedOffer offers) \<and>
    al_eligibleOfferCount al = length es \<and>
    al_excludedOfferCount al = length (al_excludedOffers al)"
proof -
  have es: "js_sort rankOffers (filter (\<lambda>o1. excludedOffer o1 = None) offers) = es"
    by (simp add: es_def eligible_offers_def)
  have set_es: "set es = set (eligible_offers offers)" by (simp add: es_def)
  have dist_es: "distinct (map co_offerId es)"
    using dist by (simp add: es_def eligible_offers_def distinct_map_filter)
  note dec = decide_offers_def [of playerId offers, unfolded es Let_def]
  consider "es = []" | best where "es = [best]" | best second rest where "es = best # second # rest"
    by (cases es rule: remdups_adj.cases) auto
  then show ?thesis
  proof cases
    case 1
    then show ?thesis by (simp add: dec allocation_outcome_def)
  next
    case (2 best)
    then show ?thesis by (simp add: dec allocation_outcome_def)
  next
    case (3 best second rest)
    have top: "\<not> offer_better o1 best" if "o1 \<in> set es" for o1
      using that by (intro ranked_best [OF 3 [unfolded es_def]]) (simp only: set_es)
    show ?thesis
    proof (cases "offer_better best second")
      case True
      have all: "\<forall>o1 \<in> set es. o1 \<noteq> best \<longrightarrow> offer_better best o1"
        using ranked_second [OF 3 [unfolded es_def] True] 3 by auto
      have "co_aavCents second < co_aavCents best \<or> co_termYears second < co_termYears best"
        using True by (auto simp: offer_better_def)
      with all 3 show ?thesis
        by (auto simp: dec allocation_outcome_def)
    next
      case False
      with top [of second] 3 have same: "co_aavCents second = co_aavCents best"
        "co_termYears second = co_termYears best" by (auto simp: offer_better_def)
      define tied where "tied = filter (\<lambda>o1. \<not> offer_better best o1) es"
      have tied: "filter (\<lambda>o1. co_aavCents o1 = co_aavCents best \<and> co_termYears o1 = co_termYears best) es = tied"
        unfolding tied_def using top by (intro tied_filter) auto
      have two: "2 \<le> length tied" using False by (simp add: tied_def 3)
      have "set tied \<subseteq> set offers"
        by (auto simp: tied_def set_es eligible_offers_def)
      then have mins: "mapE minimumFromOffer tied = Inr (map minimum_of tied)"
        using wf by (intro mapE_all_Inr minimumFromOffer_wf) (auto simp: list_all_iff)
      define ps where "ps = js_sort compareParticipants (map minimum_of tied)"
      obtain al where al: "decide_offers playerId offers = Inr al"
          "al_outcome al = ''restricted_auction''" "al_winner al = None"
          "al_restrictedTie al = Some \<lparr>rt_floor = offer_contract best, rt_participantCount = length ps,
            rt_participants = ps\<rparr>"
        and rest: "al_eligibleOffers al = map safeOfferProjection es"
          "al_excludedOffers al = js_sort compareExcluded (List.map_filter excludedOffer offers)"
          "al_eligibleOfferCount al = length es"
          "al_excludedOfferCount al = length (al_excludedOffers al)"
        using same two mins by (simp add: dec 3 tied [unfolded 3] ps_def del: filter.simps)
      have "best \<in> set es" "\<forall>o1 \<in> set es. \<not> offer_better o1 best" using 3 top by auto
      then have "allocation_outcome es al"
        unfolding allocation_outcome_def Let_def
        using two al by (intro disjI2 bexI [of _ best] conjI) (simp_all add: tied_def ps_def)
      with al(1) rest show ?thesis by blast
    qed
  qed
qed

text \<open>The input of a decision as the service assembles it.\<close>

definition allocation_input :: "string \<Rightarrow> candidate_offer list \<Rightarrow> jsval" where
  "allocation_input playerId offers = JObj
     [(''playerId'', JStr playerId),
      (''offers'', JArr (map (\<lambda>o1. JObj (candidate_offer_fields o1)) offers))]"

definition allocation_input_ok :: "string \<Rightarrow> candidate_offer list \<Rightarrow> bool" where
  "allocation_input_ok playerId offers \<longleftrightarrow>
     is_uuid playerId \<and> list_all (candidate_offer_wf playerId) offers \<and>
     distinct (map co_offerId offers) \<and> distinct (map co_teamId offers)"

lemma decideCandidateAllocation_input:
  assumes "allocation_input_ok playerId offers"
  shows "decideCandidateAllocation (allocation_input playerId offers) = decide_offers playerId offers"
proof -
  have "check_offer_ids {} {} offers = Inr ()"
    using assms by (simp add: check_offer_ids_iff allocation_input_ok_def)
  then show ?thesis
    using assms offer_validator.mapE_parse_encode [of playerId offers]
    by (simp add: decideCandidateAllocation_def allocation_input_def allocation_input_ok_def)
qed

lemma decideCandidateAllocation_Inr:
  assumes "decideCandidateAllocation input = Inr al"
  shows "\<exists>playerId offers. allocation_input_ok playerId offers \<and>
    fld input ''playerId'' = JStr playerId \<and>
    (\<exists>vs. fld input ''offers'' = JArr vs \<and>
       list_all2 (\<lambda>v o1. canonicalOffer playerId v = Inr o1) vs offers) \<and>
    decide_offers playerId offers = Inr al"
proof -
  obtain playerId vs offers where *: "fld input ''playerId'' = JStr playerId" "is_uuid playerId"
    "fld input ''offers'' = JArr vs" "mapE (canonicalOffer playerId) vs = Inr offers"
    "check_offer_ids {} {} offers = Inr ()" "decide_offers playerId offers = Inr al"
    using assms by (auto simp: decideCandidateAllocation_def bindE_Inr_iff case_items_Inr stable_id_iff)
  have "list_all (candidate_offer_wf playerId) offers"
    using *(4) by (rule offer_validator.mapE_parse_wf)
  then have "allocation_input_ok playerId offers"
    using *(2,5) by (simp add: allocation_input_ok_def check_offer_ids_iff)
  then show ?thesis using * by (auto simp: mapE_Inr_iff)
qed

section \<open>Properties\<close>

text \<open>Offers that no other offer beats, and offers that beat every other one.\<close>

definition unbeaten :: "candidate_offer list \<Rightarrow> candidate_offer \<Rightarrow> bool" where
  "unbeaten es o1 \<longleftrightarrow> o1 \<in> set es \<and> (\<forall>o2 \<in> set es. \<not> offer_better o2 o1)"

definition beats_all :: "candidate_offer list \<Rightarrow> candidate_offer \<Rightarrow> bool" where
  "beats_all es o1 \<longleftrightarrow> o1 \<in> set es \<and> (\<forall>o2 \<in> set es. o2 \<noteq> o1 \<longrightarrow> offer_better o1 o2)"

lemma offer_better_asym: "offer_better o1 o2 \<Longrightarrow> \<not> offer_better o2 o1"
  by (auto simp: offer_better_def)

lemma beats_all_unique: "beats_all es o1 \<Longrightarrow> beats_all es o2 \<Longrightarrow> o1 = o2"
  using offer_better_asym unfolding beats_all_def by metis

lemma tied_unbeaten:
  assumes "unbeaten es best"
  shows "set (filter (\<lambda>o1. \<not> offer_better best o1) es) = {o1. unbeaten es o1}"
  using assms offer_better_trans offer_better_asym unfolding unbeaten_def set_filter by blast

lemma tie_no_champion:
  assumes "distinct es" and best: "unbeaten es best"
    and two: "2 \<le> length (filter (\<lambda>o1. \<not> offer_better best o1) es)"
  shows "\<not> beats_all es o1"
proof
  assume champ: "beats_all es o1"
  then have "best = o1" using best unfolding beats_all_def unbeaten_def by blast
  with champ have "set (filter (\<lambda>o1. \<not> offer_better best o1) es) \<subseteq> {best}"
    unfolding beats_all_def by auto
  then have "card (set (filter (\<lambda>o1. \<not> offer_better best o1) es)) \<le> 1"
    using card_mono [of "{best}"] by fastforce
  with two distinct_card [OF distinct_filter [OF assms(1)], of "\<lambda>o1. \<not> offer_better best o1"]
  show False by linarith
qed

text \<open>The outcome in these words.\<close>

lemma allocation_outcome_words:
  assumes "allocation_outcome es al" and "distinct es"
  shows "al_winner al = Some w \<longleftrightarrow> (\<exists>best. beats_all es best \<and> w = safeOfferProjection best)"
    and "al_restrictedTie al = None \<longleftrightarrow> es = [] \<or> (\<exists>best. beats_all es best)"
    and "al_restrictedTie al = Some t \<Longrightarrow> 2 \<le> rt_participantCount t \<and>
      rt_participantCount t = length (rt_participants t) \<and>
      set (rt_participants t) = minimum_of ` {o1. unbeaten es o1} \<and>
      (\<exists>best. unbeaten es best \<and> rt_floor t = offer_contract best)"
proof -
  consider (none) "es = []" "al_winner al = None" "al_restrictedTie al = None"
    | (award) best where "beats_all es best" "al_winner al = Some (safeOfferProjection best)"
        "al_restrictedTie al = None"
    | (tie) best where "unbeaten es best" "al_winner al = None"
        "2 \<le> length (filter (\<lambda>o1. \<not> offer_better best o1) es)"
        "al_restrictedTie al = Some \<lparr>rt_floor = offer_contract best,
           rt_participantCount = length (filter (\<lambda>o1. \<not> offer_better best o1) es),
           rt_participants = js_sort compareParticipants
             (map minimum_of (filter (\<lambda>o1. \<not> offer_better best o1) es))\<rparr>"
    using assms(1) unfolding allocation_outcome_def beats_all_def unbeaten_def Let_def by auto
  then have "(al_winner al = Some w \<longleftrightarrow> (\<exists>best. beats_all es best \<and> w = safeOfferProjection best)) \<and>
      (al_restrictedTie al = None \<longleftrightarrow> es = [] \<or> (\<exists>best. beats_all es best)) \<and>
      (al_restrictedTie al = Some t \<longrightarrow> 2 \<le> rt_participantCount t \<and>
        rt_participantCount t = length (rt_participants t) \<and>
        set (rt_participants t) = minimum_of ` {o1. unbeaten es o1} \<and>
        (\<exists>best. unbeaten es best \<and> rt_floor t = offer_contract best))"
  proof cases
    case none
    then show ?thesis by (simp add: beats_all_def)
  next
    case award
    then show ?thesis using beats_all_unique by auto
  next
    case (tie best)
    have "es \<noteq> []" using tie(1) by (auto simp: unbeaten_def)
    moreover have "\<not> beats_all es o1" for o1 using assms(2) tie(1,3) by (rule tie_no_champion)
    ultimately show ?thesis using tie tied_unbeaten [OF tie(1)] by auto
  qed
  then show "al_winner al = Some w \<longleftrightarrow> (\<exists>best. beats_all es best \<and> w = safeOfferProjection best)"
    and "al_restrictedTie al = None \<longleftrightarrow> es = [] \<or> (\<exists>best. beats_all es best)"
    and "al_restrictedTie al = Some t \<Longrightarrow> 2 \<le> rt_participantCount t \<and>
      rt_participantCount t = length (rt_participants t) \<and>
      set (rt_participants t) = minimum_of ` {o1. unbeaten es o1} \<and>
      (\<exists>best. unbeaten es best \<and> rt_floor t = offer_contract best)"
    by blast+
qed

lemma unbeaten_sorted [simp]: "unbeaten (js_sort cmp es) = unbeaten es"
  by (simp add: unbeaten_def fun_eq_iff)

lemma beats_all_sorted [simp]: "beats_all (js_sort cmp es) = beats_all es"
  by (simp add: beats_all_def fun_eq_iff)

lemma length_excluded:
  "length (List.map_filter excludedOffer offers) + length (eligible_offers offers) = length offers"
  by (induction offers) (auto simp: List.map_filter_simps eligible_offers_def split: option.splits)

lemma decide_allocation_ok:
  assumes "allocation_input_ok playerId offers"
  obtains al where "decideCandidateAllocation (allocation_input playerId offers) = Inr al"
    and "allocation_outcome (js_sort rankOffers (eligible_offers offers)) al"
    and "distinct (js_sort rankOffers (eligible_offers offers))"
    and "al_eligibleOffers al = map safeOfferProjection (js_sort rankOffers (eligible_offers offers))"
    and "al_eligibleOfferCount al + al_excludedOfferCount al = length offers"
proof -
  have ok: "list_all (candidate_offer_wf playerId) offers" "distinct (map co_offerId offers)"
    using assms by (simp_all add: allocation_input_ok_def)
  have "distinct (map co_offerId (js_sort rankOffers (eligible_offers offers)))"
    using ok(2) by (simp add: eligible_offers_def distinct_map_filter)
  then have "distinct (js_sort rankOffers (eligible_offers offers))" by (simp only: distinct_map)
  with decide_offers_total [OF ok] decideCandidateAllocation_input [OF assms] length_excluded [of offers]
  show thesis by (auto intro!: that)
qed

section \<open>Properties\<close>

text \<open>
  C13. The Free Agent Draft allocation of a player always reaches a decision on well-formed offers
  (distinct offers of distinct teams). Every offer is counted as eligible or excluded, and an offer
  wins if and only if it is eligible and beats every other eligible offer: a higher average annual
  value, or the same and a longer term.
\<close>

theorem candidate_award:
  assumes "allocation_input_ok playerId offers"
  shows "\<exists>al. decideCandidateAllocation (allocation_input playerId offers) = Inr al \<and>
    al_eligibleOfferCount al + al_excludedOfferCount al = length offers \<and>
    mset (al_eligibleOffers al) = image_mset safeOfferProjection (mset (eligible_offers offers)) \<and>
    (\<forall>w. al_winner al = Some w \<longleftrightarrow>
      (\<exists>best. beats_all (eligible_offers offers) best \<and> w = safeOfferProjection best))"
  using assms
proof (rule decide_allocation_ok)
  fix al assume al: "decideCandidateAllocation (allocation_input playerId offers) = Inr al"
    "allocation_outcome (js_sort rankOffers (eligible_offers offers)) al"
    "distinct (js_sort rankOffers (eligible_offers offers))"
    "al_eligibleOffers al = map safeOfferProjection (js_sort rankOffers (eligible_offers offers))"
    "al_eligibleOfferCount al + al_excludedOfferCount al = length offers"
  from allocation_outcome_words(1) [OF al(2,3)] al show ?thesis by simp
qed

text \<open>
  C16. A restricted auction is decided exactly when eligible offers exist and none beats all the
  others. Its participants are then exactly the teams of the unbeaten offers, at least two, each
  bound to the total, term and average of its own offer, and these are the same for all of them:
  the floor of the auction.
\<close>

theorem candidate_restricted_tie:
  assumes "allocation_input_ok playerId offers"
  defines "es \<equiv> eligible_offers offers"
  shows "\<exists>al. decideCandidateAllocation (allocation_input playerId offers) = Inr al \<and>
    (al_restrictedTie al = None \<longleftrightarrow> es = [] \<or> (\<exists>best. beats_all es best)) \<and>
    (\<forall>t. al_restrictedTie al = Some t \<longrightarrow>
      2 \<le> rt_participantCount t \<and> rt_participantCount t = length (rt_participants t) \<and>
      set (rt_participants t) = minimum_of ` {o1. unbeaten es o1} \<and>
      (\<forall>o1. unbeaten es o1 \<longrightarrow> offer_contract o1 = rt_floor t))"
  using assms(1)
proof (rule decide_allocation_ok)
  fix al assume al: "decideCandidateAllocation (allocation_input playerId offers) = Inr al"
    "allocation_outcome (js_sort rankOffers (eligible_offers offers)) al"
    "distinct (js_sort rankOffers (eligible_offers offers))"
  have same: "offer_contract o1 = offer_contract o2" if "unbeaten es o1" "unbeaten es o2" for o1 o2
  proof (rule equal_offers_same_contract)
    show "candidate_offer_wf playerId o1" "candidate_offer_wf playerId o2"
      using assms(1) that by (auto simp: allocation_input_ok_def unbeaten_def es_def eligible_offers_def list_all_iff)
    show "co_aavCents o1 = co_aavCents o2" "co_termYears o1 = co_termYears o2"
      using that unfolding unbeaten_def offer_better_def by (meson linorder_neqE)+
  qed
  from allocation_outcome_words(2,3) [OF al(2,3)] al(1) same
  show ?thesis unfolding unbeaten_sorted beats_all_sorted js_sort_eq_Nil es_def [symmetric] by metis
qed

text \<open>
  C22. The allocation does not depend on the order in which the offers are submitted: permuted
  offers give the same decision, with the same ranking and the same participants.
\<close>

theorem candidate_order_independent:
  assumes "allocation_input_ok playerId offers" and "mset offers' = mset offers"
  shows "decideCandidateAllocation (allocation_input playerId offers') =
    decideCandidateAllocation (allocation_input playerId offers)"
proof -
  have "set offers' = set offers" using assms(2) by (metis set_mset_mset)
  moreover have "mset (map f offers') = mset (map f offers)" for f :: "candidate_offer \<Rightarrow> string"
    using assms(2) by simp
  then have "distinct (map f offers') = distinct (map f offers)" for f :: "candidate_offer \<Rightarrow> string"
    by (metis mset_eq_imp_distinct_iff)
  ultimately have ok: "allocation_input_ok playerId offers'"
    using assms(1) by (simp add: allocation_input_ok_def list_all_iff)
  have elig: "js_sort rankOffers (filter (\<lambda>o1. excludedOffer o1 = None) offers') =
      js_sort rankOffers (filter (\<lambda>o1. excludedOffer o1 = None) offers)"
    using assms(2) ok by (intro ranked_offers.js_sort_perm)
      (simp_all add: allocation_input_ok_def distinct_map_filter)
  have ids: "map xo_offerId (List.map_filter excludedOffer xs) =
      map co_offerId (filter (\<lambda>o1. excludedOffer o1 \<noteq> None) xs)" for xs
    by (induction xs) (auto simp: List.map_filter_simps excludedOffer_def Let_def)
  have excl: "js_sort compareExcluded (List.map_filter excludedOffer offers') =
      js_sort compareExcluded (List.map_filter excludedOffer offers)"
  proof (rule excluded_offers.js_sort_perm)
    show "mset (List.map_filter excludedOffer offers') = mset (List.map_filter excludedOffer offers)"
      using assms(2) by (simp add: List.map_filter_def)
    show "distinct (map xo_offerId (List.map_filter excludedOffer offers'))"
      unfolding ids using ok by (simp add: allocation_input_ok_def distinct_map_filter)
  qed
  show ?thesis
    unfolding decideCandidateAllocation_input [OF ok] decideCandidateAllocation_input [OF assms(1)]
      decide_offers_def elig excl ..
qed

text \<open>A concrete decision: three offers for one player.\<close>

definition sample_offer :: "char \<Rightarrow> int \<Rightarrow> int \<Rightarrow> candidate_offer" where
  "sample_offer c aav y =
     \<lparr>co_offerId = sample_id c,
      co_cardSnapshotId = sample_id CHR ''0'',
      co_teamId = sample_id c,
      co_playerId = sample_id CHR ''f'',
      co_rowKind = ''slot'',
      co_totalValueCents = aav * y,
      co_termYears = y,
      co_aavCents = aav,
      co_eligibilityStatus = ''valid'',
      co_cardAllocationEligibility = ''eligible'',
      co_cardCompletenessCode = ''complete''\<rparr>"

lemma sample_offer_simps [simp]:
  "co_offerId (sample_offer c a y) = sample_id c"
  "co_teamId (sample_offer c a y) = sample_id c"
  "excludedOffer (sample_offer c a y) = None"
  "offer_better (sample_offer c a y) (sample_offer d b z) \<longleftrightarrow> b < a \<or> (b = a \<and> z < y)"
  by (auto simp: sample_offer_def excludedOffer_def offer_better_def)

lemma sample_offer_eq [simp]: "sample_offer c a y = sample_offer d b z \<longleftrightarrow> c = d \<and> a = b \<and> y = z"
  by (auto simp: sample_offer_def)

lemma sample_offer_wf:
  "hex_char c \<Longrightarrow> 1 \<le> y \<Longrightarrow> y \<le> 3 \<Longrightarrow> 100 \<le> aav \<Longrightarrow> aav \<le> 1000 \<Longrightarrow> aav mod 25 = 0 \<Longrightarrow>
     candidate_offer_wf (sample_id CHR ''f'') (sample_offer c aav y)"
proof -
  assume *: "hex_char c" "1 \<le> y" "y \<le> 3" "100 \<le> aav" "aav \<le> 1000" "aav mod 25 = 0"
  have "aav * y \<le> 1000 * 3" using * by (intro mult_mono) simp_all
  moreover have lo: "100 * y \<le> aav * y" using * by (intro mult_right_mono) simp_all
  ultimately have "safe (aav * y)" using *(2) unfolding safe_def max_safe_def by linarith
  moreover have "safe aav" using * by (simp add: safe_def max_safe_def)
  ultimately show ?thesis
    using * lo by (simp add: candidate_offer_wf_def sample_offer_def offer_contract_def
        candidate_contract_ok_def rounded_aav_exact hex_char_def)
qed

abbreviation sample_three :: "int \<Rightarrow> candidate_offer list" where
  "sample_three y \<equiv>
     [sample_offer CHR ''1'' 150 2, sample_offer CHR ''2'' 200 y, sample_offer CHR ''3'' 200 1]"

lemma sample_three_ok: "y \<in> {1, 2} \<Longrightarrow> allocation_input_ok (sample_id CHR ''f'') (sample_three y)"
  using sample_offer_wf by (auto simp: allocation_input_ok_def hex_char_def)

lemma sample_three_eligible: "eligible_offers (sample_three y) = sample_three y"
  by (simp add: eligible_offers_def)

theorem candidate_award_witness:
  "\<exists>al. decideCandidateAllocation (allocation_input (sample_id CHR ''f'') (sample_three 2)) = Inr al \<and>
     al_winner al = Some (safeOfferProjection (sample_offer CHR ''2'' 200 2))"
proof -
  have "beats_all (sample_three 2) (sample_offer CHR ''2'' 200 2)" by (simp add: beats_all_def)
  with candidate_award [OF sample_three_ok [of 2]] show ?thesis
    unfolding sample_three_eligible by auto
qed

theorem candidate_restricted_tie_witness:
  "\<exists>al t. decideCandidateAllocation (allocation_input (sample_id CHR ''f'') (sample_three 1)) = Inr al \<and>
     al_restrictedTie al = Some t \<and>
     minimum_of (sample_offer CHR ''2'' 200 1) \<in> set (rt_participants t) \<and>
     rt_floor t = offer_contract (sample_offer CHR ''3'' 200 1)"
proof -
  have no: "\<not> beats_all (sample_three 1) best" for best
  proof
    assume "beats_all (sample_three 1) best"
    then have "best \<in> set (sample_three 1)"
      and all: "\<And>o2. o2 \<in> set (sample_three 1) \<Longrightarrow> o2 \<noteq> best \<Longrightarrow> offer_better best o2"
      unfolding beats_all_def by blast+
    then consider "best = sample_offer CHR ''1'' 150 2" | "best = sample_offer CHR ''2'' 200 1"
      | "best = sample_offer CHR ''3'' 200 1" by auto
    then show False
      using all [of "sample_offer CHR ''2'' 200 1"] all [of "sample_offer CHR ''3'' 200 1"] by cases simp_all
  qed
  have ok: "allocation_input_ok (sample_id CHR ''f'') (sample_three 1)" by (rule sample_three_ok) simp
  have un: "unbeaten (sample_three 1) (sample_offer CHR ''2'' 200 1)"
    "unbeaten (sample_three 1) (sample_offer CHR ''3'' 200 1)" by (simp_all add: unbeaten_def)
  obtain al where al: "decideCandidateAllocation (allocation_input (sample_id CHR ''f'') (sample_three 1)) = Inr al"
    and ex: "al_restrictedTie al = None \<longleftrightarrow> sample_three 1 = [] \<or> (\<exists>best. beats_all (sample_three 1) best)"
    and tie: "\<forall>t. al_restrictedTie al = Some t \<longrightarrow>
      2 \<le> rt_participantCount t \<and> rt_participantCount t = length (rt_participants t) \<and>
      set (rt_participants t) = minimum_of ` {o1. unbeaten (sample_three 1) o1} \<and>
      (\<forall>o1. unbeaten (sample_three 1) o1 \<longrightarrow> offer_contract o1 = rt_floor t)"
    using candidate_restricted_tie [OF ok, unfolded sample_three_eligible] by (elim exE conjE)
  obtain t where t: "al_restrictedTie al = Some t" using ex no by auto
  have "set (rt_participants t) = minimum_of ` {o1. unbeaten (sample_three 1) o1}"
    and floor: "\<forall>o1. unbeaten (sample_three 1) o1 \<longrightarrow> offer_contract o1 = rt_floor t"
    using tie [THEN spec, THEN mp, OF t] by - (elim conjE, assumption)+
  then have "minimum_of (sample_offer CHR ''2'' 200 1) \<in> set (rt_participants t)"
    using un(1) by (simp only: mem_Collect_eq imageI)
  with al t floor un(2) show ?thesis by metis
qed

theorem candidate_order_independent_witness:
  "decideCandidateAllocation (allocation_input (sample_id CHR ''f'') (rev (sample_three 1))) =
   decideCandidateAllocation (allocation_input (sample_id CHR ''f'') (sample_three 1))"
  by (rule candidate_order_independent [OF sample_three_ok]) (simp_all add: add_mset_commute)

text \<open>
  In a restricted auction a bid improves on the Candidate minimum exactly when its average is
  higher, or equal with a longer term; it is eligible when moreover its total reaches the ordinary
  joining minimum of its term, and the reason codes are empty exactly for eligible bids. A fallback
  bid is eligible exactly when the floor does not beat it.
\<close>

theorem restricted_bid_rules:
  assumes "candidate_contract_ok m" and "candidate_contract_ok b"
  defines "better \<equiv> (\<lambda>c d. cc_aavCents d < cc_aavCents c \<or>
      (cc_aavCents d = cc_aavCents c \<and> cc_termYears d < cc_termYears c))"
  shows "\<exists>r f.
    evaluateRestrictedCandidateImprovement (JObj [(''candidateMinimum'', contract_object m),
      (''submittedBid'', contract_object b)]) = Inr r \<and>
    evaluateFallbackFloorBid (JObj [(''floor'', contract_object m),
      (''submittedBid'', contract_object b)]) = Inr f \<and>
    (ri_eligible r \<longleftrightarrow> better b m \<and>
       fad_restricted_joining_minimum (cc_termYears b) \<le> cc_totalValueCents b) \<and>
    (ri_reasonCodes r = [] \<longleftrightarrow> ri_eligible r) \<and>
    (ff_eligible f \<longleftrightarrow> \<not> better m b) \<and> (ff_reasonCodes f = [] \<longleftrightarrow> ff_eligible f)"
proof -
  have canon: "canonicalContract rs (contract_object c) = Inr c" if "candidate_contract_ok c" for rs c
    using that by (simp add: canonicalContract_def contract_object_def contract_fields_iff)
  show ?thesis
    using assms(1,2)
    by (auto simp: evaluateRestrictedCandidateImprovement_def evaluateFallbackFloorBid_def
        compareAavFirstLongestTermSecond_def canonicalFloor_def canonicalBid_def canon Let_def better_def)
qed

theorem restricted_bid_rules_witness:
  "\<exists>r. evaluateRestrictedCandidateImprovement (JObj
       [(''candidateMinimum'', contract_object (offer_contract (sample_offer CHR ''2'' 200 1))),
        (''submittedBid'', contract_object (offer_contract (sample_offer CHR ''2'' 200 2)))]) = Inr r \<and>
     ri_eligible r"
proof -
  have ok: "candidate_contract_ok (offer_contract (sample_offer CHR ''2'' 200 y))" if "y \<in> {1, 2}" for y
    using sample_offer_wf [of "CHR ''2''" y 200] that
    by (auto simp: candidate_offer_wf_def hex_char_def)
  have "fad_restricted_joining_minimum 2 \<le> 400" by (simp add: fad_restricted_joining_minimum_def)
  with restricted_bid_rules [OF ok [of 1] ok [of 2]] show ?thesis
    by (auto simp: offer_contract_def sample_offer_def)
qed

end
