(* ===== verification/AuctionBid.thy ===== *)
theory AuctionBid
  imports CandidateAllocation
begin

text \<open>
  \<^verbatim>\<open>src/src/domain/auctions/auctionBidPolicy.js\<close>: validation of a bid command and the decision
  \<^verbatim>\<open>assertAuctionBidState\<close> on the current rows: authority, auction window, the context of the
  auction (ordinary, rapid Free Agent Draft, restricted, fallback), the joining minimum, the edit
  limit and the 75 minute cooldown. The lemmas follow one bid through any accepted sequence of
  submissions and edits. Rows are records; a nullable column is an option.
\<close>

section \<open>Errors, offers and commands\<close>

datatype auction_bid_code =
    BidInputInvalid
  | BidStableIdInvalid
  | BidAuthorityInvalid
  | BidIdempotencyInvalid
  | BidTimestampInvalid
  | BidTermInvalid
  | BidValueInvalid
  | BidAuthorizationDenied
  | BidAuctionUnavailable
  | BidWindowClosed
  | BidConflict
  | BidVersionConflict
  | BidEditLimitReached
  | BidCooldownActive
  | BidIdempotencyConflict
  | BidIdempotencyKeyReused
  | BidAllocationError allocation_error

definition cooldown_ms :: int where
  "cooldown_ms = 75 * 60 * 1000"

definition joining_minimum_totals :: "int \<Rightarrow> int" where
  "joining_minimum_totals y = (if y = 1 then 150 else if y = 2 then 300 else 500)"

definition bid_stableId :: "jsval \<Rightarrow> auction_bid_code + string" where
  "bid_stableId = stable_id BidStableIdInvalid"

definition bid_safeTimestamp :: "jsval \<Rightarrow> auction_bid_code + int" where
  "bid_safeTimestamp = safe_between BidTimestampInvalid 0 max_timestamp"

definition bid_optionalVersion :: "jsval \<Rightarrow> auction_bid_code + int option" where
  "bid_optionalVersion = nullable (safe_from BidVersionConflict 1)"

definition boundedIdempotencyKey :: "jsval \<Rightarrow> auction_bid_code + string" where
  "boundedIdempotencyKey = bounded_text BidIdempotencyInvalid 128"

lemmas bid_field_defs =
  bid_stableId_def bid_safeTimestamp_def bid_optionalVersion_def boundedIdempotencyKey_def

definition validateBidOffer :: "jsval \<Rightarrow> jsval \<Rightarrow> bool \<Rightarrow> auction_bid_code + candidate_contract" where
  "validateBidOffer aavCents termYears joining =
     bindE (safe_between BidTermInvalid 1 3 termYears) (\<lambda>y.
     let minimum = (if joining then joining_minimum_totals y else y * 100) in
     bindE (safe_from BidValueInvalid 100 aavCents) (\<lambda>aav.
     if aav mod 25 \<noteq> 0 then Inl BidValueInvalid
     else
     let totalValueCents = aav * y in
     if \<not> safe totalValueCents \<or> totalValueCents < minimum then Inl BidValueInvalid
     else Inr \<lparr>cc_totalValueCents = totalValueCents, cc_termYears = y, cc_aavCents = aav\<rparr>))"

record bid_command =
  bc_auctionId :: string
  bc_bidId :: string
  bc_eventId :: string
  bc_idempotencyRequestId :: string
  bc_leagueId :: string
  bc_teamId :: string
  bc_actorUserId :: string
  bc_actorMembershipId :: string
  bc_actorAuthority :: string
  bc_totalValueCents :: int
  bc_termYears :: int
  bc_aavCents :: int
  bc_expectedBidVersion :: "int option"
  bc_idempotencyKey :: string
  bc_occurredAtMs :: int
  bc_idempotencyExpiresAtMs :: int
  bc_bindingIllegalityConfirmed :: "jsval option"

definition bid_command_keys :: "string list" where
  "bid_command_keys =
     [''auctionId'', ''bidId'', ''eventId'', ''idempotencyRequestId'', ''leagueId'', ''teamId'',
      ''actorUserId'', ''actorMembershipId'', ''actorAuthority'', ''aavCents'', ''termYears'',
      ''expectedBidVersion'', ''idempotencyKey'', ''occurredAtMs'', ''idempotencyExpiresAtMs'']"

definition validateAuctionBidCommand :: "jsval \<Rightarrow> auction_bid_code + bid_command" where
  "validateAuctionBidCommand input =
     (let binding = has_own input ''bindingIllegalityConfirmed'' in
     bindE (exact_object BidInputInvalid
       (if binding then bid_command_keys @ [''bindingIllegalityConfirmed''] else bid_command_keys) input) (\<lambda>_.
     bindE (one_of BidAuthorityInvalid [''manager''] (fld input ''actorAuthority'')) (\<lambda>actorAuthority.
     bindE (bid_safeTimestamp (fld input ''occurredAtMs'')) (\<lambda>occurredAtMs.
     bindE (bid_safeTimestamp (fld input ''idempotencyExpiresAtMs'')) (\<lambda>idempotencyExpiresAtMs.
     if idempotencyExpiresAtMs \<le> occurredAtMs then Inl BidTimestampInvalid
     else
     bindE (validateBidOffer (fld input ''aavCents'') (fld input ''termYears'') False) (\<lambda>offer.
     bindE (bid_stableId (fld input ''auctionId'')) (\<lambda>auctionId.
     bindE (bid_stableId (fld input ''bidId'')) (\<lambda>bidId.
     bindE (bid_stableId (fld input ''eventId'')) (\<lambda>eventId.
     bindE (bid_stableId (fld input ''idempotencyRequestId'')) (\<lambda>idempotencyRequestId.
     bindE (bid_stableId (fld input ''leagueId'')) (\<lambda>leagueId.
     bindE (bid_stableId (fld input ''teamId'')) (\<lambda>teamId.
     bindE (bid_stableId (fld input ''actorUserId'')) (\<lambda>actorUserId.
     bindE (bid_stableId (fld input ''actorMembershipId'')) (\<lambda>actorMembershipId.
     bindE (bid_optionalVersion (fld input ''expectedBidVersion'')) (\<lambda>expectedBidVersion.
     bindE (boundedIdempotencyKey (fld input ''idempotencyKey'')) (\<lambda>idempotencyKey.
     Inr \<lparr>bc_auctionId = auctionId,
          bc_bidId = bidId,
          bc_eventId = eventId,
          bc_idempotencyRequestId = idempotencyRequestId,
          bc_leagueId = leagueId,
          bc_teamId = teamId,
          bc_actorUserId = actorUserId,
          bc_actorMembershipId = actorMembershipId,
          bc_actorAuthority = actorAuthority,
          bc_totalValueCents = cc_totalValueCents offer,
          bc_termYears = cc_termYears offer,
          bc_aavCents = cc_aavCents offer,
          bc_expectedBidVersion = expectedBidVersion,
          bc_idempotencyKey = idempotencyKey,
          bc_occurredAtMs = occurredAtMs,
          bc_idempotencyExpiresAtMs = idempotencyExpiresAtMs,
          bc_bindingIllegalityConfirmed =
            (if binding then Some (fld input ''bindingIllegalityConfirmed'') else None)\<rparr>))))))))))))))))"

section \<open>Rows\<close>

record bid_authority =
  ba_league_status :: string
  ba_user_status :: string
  ba_membership_permission :: "string option"
  ba_membership_status :: "string option"
  ba_membership_joined_at_ms :: "int option"
  ba_membership_ended_at_ms :: "int option"
  ba_team_id :: string
  ba_team_status :: string
  ba_assignment_status :: "string option"
  ba_assignment_accepted_at_ms :: "int option"
  ba_assignment_ended_at_ms :: "int option"

record auction_row =
  au_id :: string
  au_league_id :: string
  au_season_id :: string
  au_status :: string
  au_opened_at_ms :: int
  au_resolves_at_ms :: int
  au_source_kind :: string
  au_fad_id :: "string option"
  au_fad_allocation_id :: "string option"
  au_fad_origin :: "string option"
  au_allocation_status :: "string option"
  au_restricted_auction_id :: "string option"
  au_fallback_open_auction_id :: "string option"
  au_restricted_minimum_total_cents :: "int option"
  au_restricted_minimum_term_years :: "int option"
  au_restricted_minimum_aav_cents :: "int option"
  au_fad_started_event_count :: int
  au_fad_starter_bid_count :: int
  au_fad_starter_bid_id :: "string option"
  au_fad_starter_team_id :: "string option"
  au_queued_starter_count :: int
  au_queued_starter_bid_id :: "string option"
  au_queued_starter_team_id :: "string option"

record participant_row =
  pa_id :: string
  pa_league_id :: string
  pa_status :: string
  pa_season_id :: string
  pa_fad_id :: "string option"
  pa_allocation_id :: "string option"
  pa_auction_id :: string
  pa_team_id :: string
  pa_manager_edit_limit :: int
  pa_cooldown_duration_ms :: int
  pa_minimum_total_value_cents :: int
  pa_minimum_term_years :: int
  pa_minimum_aav_cents :: int
  pa_active_improvement_bid_id :: "string option"
  pa_first_improvement_at_ms :: "int option"
  pa_current_cooldown_anchor_at_ms :: "int option"
  pa_improvement_committed_at_ms :: "int option"
  pa_updated_at_ms :: int
  pa_version :: int

record bid_row =
  bd_id :: string
  bd_league_id :: string
  bd_season_id :: string
  bd_auction_id :: string
  bd_team_id :: string
  bd_submitted_by_user_id :: string
  bd_total_value_cents :: int
  bd_term_years :: int
  bd_lowest_offered_aav_cents :: int
  bd_lowest_offered_total_value_cents :: "int option"
  bd_first_submitted_at_ms :: int
  bd_last_edited_at_ms :: int
  bd_edit_count :: int
  bd_status :: string
  bd_idempotency_request_id :: string
  bd_version :: int

section \<open>Authority and context\<close>

text \<open>An instant that is a safe integer and not after the command.\<close>

definition happened_by :: "int option \<Rightarrow> int \<Rightarrow> bool" where
  "happened_by at now = (case at of None \<Rightarrow> False | Some t \<Rightarrow> safe t \<and> t \<le> now)"

definition bid_authorized :: "bid_command \<Rightarrow> bid_authority option \<Rightarrow> bool" where
  "bid_authorized command authority =
     (case authority of
        None \<Rightarrow> False
      | Some a \<Rightarrow>
          ba_user_status a = ''active'' \<and>
          ba_membership_status a = Some ''active'' \<and>
          happened_by (ba_membership_joined_at_ms a) (bc_occurredAtMs command) \<and>
          ba_membership_ended_at_ms a = None \<and>
          bc_actorAuthority command = ''manager'' \<and>
          ba_league_status a = ''active'' \<and>
          ba_membership_permission a = Some ''manager'' \<and>
          ba_assignment_status a = Some ''accepted'' \<and>
          happened_by (ba_assignment_accepted_at_ms a) (bc_occurredAtMs command) \<and>
          ba_assignment_ended_at_ms a = None \<and>
          ba_team_id a = bc_teamId command \<and>
          ba_team_status a = ''active'')"

datatype bid_context =
    OrdinaryBid
  | OpenRapidBid string string
  | RestrictedBid int candidate_contract
  | FallbackBid candidate_contract

definition pred_uuid :: "string option \<Rightarrow> bool" where
  "pred_uuid s = (case s of None \<Rightarrow> False | Some t \<Rightarrow> is_uuid t)"

definition nominated_open_rapid :: "auction_row \<Rightarrow> bool" where
  "nominated_open_rapid a \<longleftrightarrow>
     au_source_kind a = ''fad_open_rapid'' \<and>
     au_fad_origin a \<in> {Some ''manager_nomination'', Some ''queued_nomination''} \<and>
     au_fad_allocation_id a = None \<and>
     au_fad_started_event_count a = 1 \<and>
     au_fad_starter_bid_count a = 1 \<and>
     pred_uuid (au_fad_starter_bid_id a) \<and> pred_uuid (au_fad_starter_team_id a) \<and>
     ((au_fad_origin a = Some ''manager_nomination'' \<and>
       au_queued_starter_count a = 0 \<and>
       au_queued_starter_bid_id a = None \<and> au_queued_starter_team_id a = None) \<or>
      (au_fad_origin a = Some ''queued_nomination'' \<and>
       au_queued_starter_count a = 1 \<and>
       au_queued_starter_bid_id a = au_fad_starter_bid_id a \<and>
       au_queued_starter_team_id a = au_fad_starter_team_id a))"

definition restricted_participant :: "bid_command \<Rightarrow> auction_row \<Rightarrow> participant_row \<Rightarrow> bool" where
  "restricted_participant command a p \<longleftrightarrow>
     au_source_kind a = ''fad_restricted'' \<and>
     au_fad_origin a = Some ''candidate_tie_restricted'' \<and>
     au_allocation_status a = Some ''restricted_active'' \<and>
     au_restricted_auction_id a = Some (bc_auctionId command) \<and>
     pa_status p = ''active'' \<and>
     pa_season_id p = au_season_id a \<and>
     pa_fad_id p = au_fad_id a \<and>
     pa_allocation_id p = au_fad_allocation_id a \<and>
     pa_auction_id p = bc_auctionId command \<and>
     pa_team_id p = bc_teamId command \<and>
     pa_manager_edit_limit p = 1 \<and>
     pa_cooldown_duration_ms p = cooldown_ms \<and>
     safe (pa_minimum_total_value_cents p) \<and> 0 < pa_minimum_total_value_cents p \<and>
     pa_minimum_term_years p \<in> {1, 2, 3} \<and>
     safe (pa_minimum_aav_cents p) \<and> 100 \<le> pa_minimum_aav_cents p"

definition fallback_floor :: "bid_command \<Rightarrow> auction_row \<Rightarrow> candidate_contract option" where
  "fallback_floor command a =
     (case (au_restricted_minimum_total_cents a, au_restricted_minimum_term_years a,
            au_restricted_minimum_aav_cents a) of
        (Some tot, Some y, Some aav) \<Rightarrow>
          if au_source_kind a = ''fad_open_rapid'' \<and>
             au_fad_origin a = Some ''restricted_no_improvement_fallback'' \<and>
             au_allocation_status a = Some ''restricted_fallback_open'' \<and>
             au_fallback_open_auction_id a = Some (bc_auctionId command) \<and>
             safe tot \<and> 0 < tot \<and> y \<in> {1, 2, 3} \<and> safe aav \<and> 100 \<le> aav
          then Some \<lparr>cc_totalValueCents = tot, cc_termYears = y, cc_aavCents = aav\<rparr>
          else None
      | _ \<Rightarrow> None)"

definition bidContext :: "bid_command \<Rightarrow> auction_row \<Rightarrow> participant_row option \<Rightarrow>
    auction_bid_code + bid_context" where
  "bidContext command auction participant =
     (if au_source_kind auction = '''' \<or> au_source_kind auction = ''ordinary_weekly''
      then Inr OrdinaryBid
      else if nominated_open_rapid auction
      then Inr (OpenRapidBid (the (au_fad_starter_bid_id auction)) (the (au_fad_starter_team_id auction)))
      else
      (case participant of
         Some p \<Rightarrow>
           if restricted_participant command auction p
           then Inr (RestrictedBid (pa_manager_edit_limit p)
             \<lparr>cc_totalValueCents = pa_minimum_total_value_cents p,
              cc_termYears = pa_minimum_term_years p,
              cc_aavCents = pa_minimum_aav_cents p\<rparr>)
           else (case fallback_floor command auction of
             Some floor \<Rightarrow> Inr (FallbackBid floor) | None \<Rightarrow> Inl BidAuctionUnavailable)
       | None \<Rightarrow> (case fallback_floor command auction of
             Some floor \<Rightarrow> Inr (FallbackBid floor) | None \<Rightarrow> Inl BidAuctionUnavailable)))"

definition compare_with_floor :: "candidate_contract \<Rightarrow> candidate_contract \<Rightarrow> auction_bid_code + int" where
  "compare_with_floor offer floor =
     (case compareAavFirstLongestTermSecond (contract_object offer) (contract_object floor) of
        Inl e \<Rightarrow> Inl (BidAllocationError e)
      | Inr n \<Rightarrow> Inr n)"

definition assertContextOffer :: "candidate_contract \<Rightarrow> bid_context \<Rightarrow> auction_bid_code + unit" where
  "assertContextOffer offer context =
     (case context of
        RestrictedBid _ floor \<Rightarrow>
          bindE (compare_with_floor offer floor) (\<lambda>comparison.
          if comparison \<le> 0 then Inl BidValueInvalid else Inr ())
      | FallbackBid floor \<Rightarrow>
          bindE (compare_with_floor offer floor) (\<lambda>comparison.
          if comparison < 0 then Inl BidValueInvalid else Inr ())
      | _ \<Rightarrow> Inr ())"

section \<open>The decision\<close>

record bid_state =
  bs_action :: string
  bs_totalValueCents :: int
  bs_termYears :: int
  bs_aavCents :: int
  bs_lowestOfferedAavCents :: int
  bs_lowestOfferedTotalValueCents :: int
  bs_firstSubmittedAtMs :: int
  bs_lastEditedAtMs :: int
  bs_editCount :: int
  bs_nextVersion :: int

fun is_restricted :: "bid_context \<Rightarrow> bool" where
  "is_restricted (RestrictedBid _ _) = True"
| "is_restricted _ = False"

text \<open>The link between a restricted participant and its bid that must hold before the command.\<close>

definition improvement_link_broken :: "participant_row option \<Rightarrow> bid_row option \<Rightarrow> bool" where
  "improvement_link_broken participant existingBid =
     (case participant of
        None \<Rightarrow> False
      | Some p \<Rightarrow>
          (case existingBid of
             None \<Rightarrow>
               pa_active_improvement_bid_id p \<noteq> None \<or>
               pa_first_improvement_at_ms p \<noteq> None \<or>
               pa_current_cooldown_anchor_at_ms p \<noteq> None \<or>
               pa_improvement_committed_at_ms p \<noteq> None
           | Some b \<Rightarrow>
               pa_active_improvement_bid_id p \<noteq> Some (bd_id b) \<or>
               pa_first_improvement_at_ms p \<noteq> Some (bd_first_submitted_at_ms b) \<or>
               pa_current_cooldown_anchor_at_ms p \<noteq> Some (bd_last_edited_at_ms b) \<or>
               pa_improvement_committed_at_ms p \<noteq> Some (bd_last_edited_at_ms b)))"

fun bid_edit_limit :: "auction_row \<Rightarrow> bid_row \<Rightarrow> bid_context \<Rightarrow> int" where
  "bid_edit_limit auction b (RestrictedBid limit _) = limit"
| "bid_edit_limit auction b (FallbackBid _) = 1"
| "bid_edit_limit auction b OrdinaryBid =
     (if bd_first_submitted_at_ms b = au_opened_at_ms auction then 2 else 1)"
| "bid_edit_limit auction b (OpenRapidBid starterBidId starterTeamId) =
     (if bd_id b = starterBidId \<and> bd_team_id b = starterTeamId then 2 else 1)"

definition submit_bid :: "bid_command \<Rightarrow> bid_context \<Rightarrow> auction_bid_code + bid_state" where
  "submit_bid command context =
     (if bc_expectedBidVersion command \<noteq> None then Inl BidVersionConflict
      else
      bindE (validateBidOffer (JInt (bc_aavCents command)) (JInt (bc_termYears command)) True) (\<lambda>offer.
      bindE (assertContextOffer offer context) (\<lambda>_.
      Inr \<lparr>bs_action = ''submitted'',
           bs_totalValueCents = cc_totalValueCents offer,
           bs_termYears = cc_termYears offer,
           bs_aavCents = cc_aavCents offer,
           bs_lowestOfferedAavCents = cc_aavCents offer,
           bs_lowestOfferedTotalValueCents = cc_totalValueCents offer,
           bs_firstSubmittedAtMs = bc_occurredAtMs command,
           bs_lastEditedAtMs = bc_occurredAtMs command,
           bs_editCount = 0,
           bs_nextVersion = 1\<rparr>)))"

definition edit_bid :: "bid_command \<Rightarrow> auction_row \<Rightarrow> bid_context \<Rightarrow> bid_row \<Rightarrow>
    auction_bid_code + bid_state" where
  "edit_bid command auction context b =
     (if bd_auction_id b \<noteq> bc_auctionId command \<or> bd_team_id b \<noteq> bc_teamId command \<or>
         bd_status b \<noteq> ''active''
      then Inl BidConflict
      else if bc_expectedBidVersion command \<noteq> Some (bd_version b) then Inl BidVersionConflict
      else
      bindE (validateBidOffer (JInt (bc_aavCents command)) (JInt (bc_termYears command))
              (is_restricted context)) (\<lambda>offer.
      bindE (assertContextOffer offer context) (\<lambda>_.
      if bid_edit_limit auction b context \<le> bd_edit_count b then Inl BidEditLimitReached
      else if bc_occurredAtMs command < bd_last_edited_at_ms b + cooldown_ms
      then Inl BidCooldownActive
      else
      Inr \<lparr>bs_action = ''edited'',
           bs_totalValueCents = cc_totalValueCents offer,
           bs_termYears = cc_termYears offer,
           bs_aavCents = cc_aavCents offer,
           bs_lowestOfferedAavCents = min (bd_lowest_offered_aav_cents b) (cc_aavCents offer),
           bs_lowestOfferedTotalValueCents =
             min (case bd_lowest_offered_total_value_cents b of
                    None \<Rightarrow> bd_total_value_cents b | Some n \<Rightarrow> n) (cc_totalValueCents offer),
           bs_firstSubmittedAtMs = bd_first_submitted_at_ms b,
           bs_lastEditedAtMs = bc_occurredAtMs command,
           bs_editCount = bd_edit_count b + 1,
           bs_nextVersion = bd_version b + 1\<rparr>)))"

definition assertAuctionBidState :: "bid_command \<Rightarrow> bid_authority option \<Rightarrow> auction_row option \<Rightarrow>
    bid_row option \<Rightarrow> participant_row option \<Rightarrow> auction_bid_code + bid_state" where
  "assertAuctionBidState command authority auctionInput existingBid participant =
     (if \<not> bid_authorized command authority then Inl BidAuthorizationDenied
      else
      case auctionInput of None \<Rightarrow> Inl BidAuctionUnavailable | Some auction \<Rightarrow>
      if au_league_id auction \<noteq> bc_leagueId command \<or> au_status auction \<noteq> ''open'' \<or>
         \<not> safe (au_opened_at_ms auction) \<or> au_opened_at_ms auction < 0 \<or>
         bc_occurredAtMs command < au_opened_at_ms auction
      then Inl BidAuctionUnavailable
      else if au_resolves_at_ms auction \<le> bc_occurredAtMs command then Inl BidWindowClosed
      else
      bindE (bidContext command auction participant) (\<lambda>context.
      if is_restricted context \<and> improvement_link_broken participant existingBid
      then Inl BidConflict
      else (case existingBid of
        None \<Rightarrow> submit_bid command context
      | Some b \<Rightarrow> edit_bid command auction context b)))"

section \<open>What an accepted bid guarantees\<close>

lemma validateBidOffer_iff [check_iffs]:
  "validateBidOffer (JInt a) (JInt y) joining = Inr offer \<longleftrightarrow>
     1 \<le> y \<and> y \<le> 3 \<and> safe a \<and> 100 \<le> a \<and> a mod 25 = 0 \<and> safe (a * y) \<and>
     (joining \<longrightarrow> joining_minimum_totals y \<le> a * y) \<and>
     offer = \<lparr>cc_totalValueCents = a * y, cc_termYears = y, cc_aavCents = a\<rparr>"
proof -
  have "y * 100 \<le> a * y" if "100 \<le> a" "1 \<le> y" for a y :: int
    using that mult_right_mono [of 100 a y] by (simp add: mult.commute)
  then show ?thesis
    by (auto simp: validateBidOffer_def result_iffs check_iffs Let_def safe_def max_safe_def)
qed

lemma bid_offer_contract_ok:
  assumes "validateBidOffer (JInt a) (JInt y) joining = Inr offer"
  shows "candidate_contract_ok offer"
proof -
  have "rounded_aav (a * y) y = a" if "1 \<le> y" using that rounded_aav_exact [of y a] by simp
  moreover have "y * 100 \<le> a * y" if "100 \<le> a" "1 \<le> y"
    using that mult_right_mono [of 100 a y] by (simp add: mult.commute)
  ultimately show ?thesis
    using assms by (auto simp: validateBidOffer_iff candidate_contract_ok_def)
qed

lemma bidContext_restricted:
  "bidContext command auction participant = Inr (RestrictedBid limit floor) \<Longrightarrow>
     limit = 1 \<and> (\<exists>p. participant = Some p \<and> restricted_participant command auction p \<and>
       floor = \<lparr>cc_totalValueCents = pa_minimum_total_value_cents p,
                cc_termYears = pa_minimum_term_years p, cc_aavCents = pa_minimum_aav_cents p\<rparr>)"
  by (auto simp: bidContext_def restricted_participant_def split: if_splits option.splits)

lemma bid_edit_limit_le_2:
  assumes "bidContext command auction participant = Inr context"
  shows "bid_edit_limit auction b context \<le> 2"
  using assms by (cases "context") (auto dest: bidContext_restricted)

text \<open>The offer as the new state holds it.\<close>

definition bid_offer_ok :: "int \<Rightarrow> int \<Rightarrow> int \<Rightarrow> bool" where
  "bid_offer_ok tot y aav \<longleftrightarrow>
     tot = aav * y \<and> 1 \<le> y \<and> y \<le> 3 \<and> 100 \<le> aav \<and> aav mod 25 = 0 \<and> safe tot"

lemma submit_bid_Inr:
  "submit_bid command context = Inr st \<longleftrightarrow>
     bc_expectedBidVersion command = None \<and>
     bid_offer_ok (bs_totalValueCents st) (bs_termYears st) (bs_aavCents st) \<and>
     bs_aavCents st = bc_aavCents command \<and> bs_termYears st = bc_termYears command \<and>
     safe (bc_aavCents command) \<and>
     joining_minimum_totals (bs_termYears st) \<le> bs_totalValueCents st \<and>
     assertContextOffer \<lparr>cc_totalValueCents = bs_totalValueCents st, cc_termYears = bs_termYears st,
       cc_aavCents = bs_aavCents st\<rparr> context = Inr () \<and>
     bs_action st = ''submitted'' \<and> bs_lowestOfferedAavCents st = bs_aavCents st \<and>
     bs_lowestOfferedTotalValueCents st = bs_totalValueCents st \<and>
     bs_firstSubmittedAtMs st = bc_occurredAtMs command \<and>
     bs_lastEditedAtMs st = bc_occurredAtMs command \<and> bs_editCount st = 0 \<and> bs_nextVersion st = 1"
  by (cases st) (auto simp: submit_bid_def result_iffs check_iffs bid_offer_ok_def)

lemma edit_bid_Inr:
  "edit_bid command auction context b = Inr st \<longleftrightarrow>
     bd_auction_id b = bc_auctionId command \<and> bd_team_id b = bc_teamId command \<and>
     bd_status b = ''active'' \<and> bc_expectedBidVersion command = Some (bd_version b) \<and>
     bid_offer_ok (bs_totalValueCents st) (bs_termYears st) (bs_aavCents st) \<and>
     bs_aavCents st = bc_aavCents command \<and> bs_termYears st = bc_termYears command \<and>
     safe (bc_aavCents command) \<and>
     (is_restricted context \<longrightarrow> joining_minimum_totals (bs_termYears st) \<le> bs_totalValueCents st) \<and>
     assertContextOffer \<lparr>cc_totalValueCents = bs_totalValueCents st, cc_termYears = bs_termYears st,
       cc_aavCents = bs_aavCents st\<rparr> context = Inr () \<and>
     bd_edit_count b < bid_edit_limit auction b context \<and>
     bd_last_edited_at_ms b + cooldown_ms \<le> bc_occurredAtMs command \<and>
     bs_action st = ''edited'' \<and>
     bs_lowestOfferedAavCents st = min (bd_lowest_offered_aav_cents b) (bs_aavCents st) \<and>
     bs_lowestOfferedTotalValueCents st =
       min (case bd_lowest_offered_total_value_cents b of
              None \<Rightarrow> bd_total_value_cents b | Some n \<Rightarrow> n) (bs_totalValueCents st) \<and>
     bs_firstSubmittedAtMs st = bd_first_submitted_at_ms b \<and>
     bs_lastEditedAtMs st = bc_occurredAtMs command \<and> bs_editCount st = bd_edit_count b + 1 \<and>
     bs_nextVersion st = bd_version b + 1"
  by (cases st) (auto simp: edit_bid_def result_iffs check_iffs bid_offer_ok_def)

lemma assertAuctionBidState_Inr:
  "assertAuctionBidState command authority au existingBid participant = Inr st \<longleftrightarrow>
     bid_authorized command authority \<and>
     (\<exists>auction context. au = Some auction \<and> au_league_id auction = bc_leagueId command \<and>
       au_status auction = ''open'' \<and> safe (au_opened_at_ms auction) \<and> 0 \<le> au_opened_at_ms auction \<and>
       au_opened_at_ms auction \<le> bc_occurredAtMs command \<and>
       bc_occurredAtMs command < au_resolves_at_ms auction \<and>
       bidContext command auction participant = Inr context \<and>
       \<not> (is_restricted context \<and> improvement_link_broken participant existingBid) \<and>
       (case existingBid of None \<Rightarrow> submit_bid command context
        | Some b \<Rightarrow> edit_bid command auction context b) = Inr st)"
  unfolding assertAuctionBidState_def result_iffs by auto

lemma case_sum_Inr: "(case m of Inl e \<Rightarrow> Inl (g e) | Inr n \<Rightarrow> Inr n) = Inr k \<longleftrightarrow> m = Inr k"
  by (cases m) simp_all

text \<open>
  Against a floor the code's comparison is the published rule, so a restricted bid improves
  strictly and a fallback bid does not fall below the floor.
\<close>

lemma assertContextOffer_Inr:
  assumes "candidate_contract_ok offer"
  shows "assertContextOffer offer context = Inr () \<longleftrightarrow>
    (\<forall>limit floor. context = RestrictedBid limit floor \<longrightarrow> candidate_contract_ok floor \<and>
       (cc_aavCents floor < cc_aavCents offer \<or>
        (cc_aavCents floor = cc_aavCents offer \<and> cc_termYears floor < cc_termYears offer))) \<and>
    (\<forall>floor. context = FallbackBid floor \<longrightarrow> candidate_contract_ok floor \<and>
       (cc_aavCents floor < cc_aavCents offer \<or>
        (cc_aavCents floor = cc_aavCents offer \<and> cc_termYears floor \<le> cc_termYears offer)))"
proof -
  have canon: "canonicalContract rs (contract_object c) = Inr d \<longleftrightarrow> d = c \<and> candidate_contract_ok c"
    for rs c d
    by (cases c, cases d)
      (auto simp: canonicalContract_def contract_object_def contract_fields_iff)
  have cmp: "compare_with_floor offer floor = Inr n \<longleftrightarrow> candidate_contract_ok floor \<and>
      n = (if cc_aavCents offer \<noteq> cc_aavCents floor
           then if cc_aavCents offer > cc_aavCents floor then 1 else - 1
           else if cc_termYears offer \<noteq> cc_termYears floor
           then if cc_termYears offer > cc_termYears floor then 1 else - 1
           else 0)" for floor n
    using assms unfolding compare_with_floor_def case_sum_Inr
    by (auto simp: compareAavFirstLongestTermSecond_def canonicalFloor_def
        canonicalBid_def bindE_Inr_iff canon)
  show ?thesis
    by (cases "context") (auto simp: assertContextOffer_def bindE_Inr_iff cmp)
qed

end
