(* ===== verification/AuctionBidRepository.thy ===== *)
theory AuctionBidRepository
  imports AuctionBid RecordRepository
begin

text \<open>
  \<^verbatim>\<open>src/src/infrastructure/persistence/sqlite/SqliteAuctionBidRepository.js\<close>: the transaction
  behind \<^verbatim>\<open>putBid\<close>, on the tables it writes (bids, idempotency requests, auction events and
  restricted participants). A failed transaction leaves the store unchanged, so the operation
  returns the new store only on success. The auctions, the authority rows and the nomination queue
  are written by other components and are arguments; SHA-256 of the request payload is the
  parameter \<open>sha\<close>, of which nothing is assumed. The metadata column holds the JSON text of a
  fixed object and is kept as that object. The constraints that a statement here could violate are
  the keys (checked in the model) and checks, foreign keys and triggers (\<open>be_accepts\<close>).
\<close>

section \<open>Rows and the store\<close>

record bid_snapshot =
  sn_totalValueCents :: int
  sn_termYears :: int
  sn_aavCents :: "int option"
  sn_lowestOfferedAavCents :: int
  sn_lowestOfferedTotalValueCents :: "int option"
  sn_editCount :: int
  sn_version :: int

record bid_metadata =
  bm_actorAuthority :: string
  bm_actorMembershipId :: string
  bm_before :: "bid_snapshot option"
  bm_after :: bid_snapshot

record bid_event =
  be_id :: string
  be_league_id :: string
  be_season_id :: string
  be_auction_id :: string
  be_bid_id :: string
  be_team_id :: string
  be_actor_user_id :: string
  be_event_type :: string
  be_metadata :: bid_metadata
  be_occurred_at_ms :: int

record bid_store =
  st_bids :: "bid_row list"
  st_requests :: "request_row list"
  st_events :: "bid_event list"
  st_participants :: "participant_row list"

record bid_env =
  en_auctions :: "auction_row list"
  en_authority :: "string \<Rightarrow> string \<Rightarrow> string \<Rightarrow> string \<Rightarrow> bid_authority list"
  en_queued :: "bid_event \<Rightarrow> int option"
  en_accepts :: "bid_store \<Rightarrow> bool"

datatype put_error = PutPolicy auction_bid_code | PutRepo repo_error

record put_result =
  pr_replayed :: bool
  pr_action :: string
  pr_auctionId :: string
  pr_leagueId :: string
  pr_seasonId :: string
  pr_auctionStatus :: string
  pr_openedAtMs :: int
  pr_bidClosesAtMs :: int
  pr_bidId :: string
  pr_teamId :: string
  pr_totalValueCents :: int
  pr_termYears :: int
  pr_aavCents :: int
  pr_firstSubmittedAtMs :: int
  pr_lastEditedAtMs :: int
  pr_editCount :: int
  pr_bidStatus :: string
  pr_version :: int

section \<open>Contexts and the request hash\<close>

definition isFadContext :: "auction_row option \<Rightarrow> bool" where
  "isFadContext auction =
     (case auction of None \<Rightarrow> False
      | Some a \<Rightarrow> au_source_kind a \<in> {''fad_open_rapid'', ''fad_restricted''})"

definition isNominatedOpenRapidBidContext :: "auction_row \<Rightarrow> bool" where
  "isNominatedOpenRapidBidContext a \<longleftrightarrow>
     au_source_kind a = ''fad_open_rapid'' \<and>
     au_fad_origin a \<in> {Some ''manager_nomination'', Some ''queued_nomination''} \<and>
     au_fad_allocation_id a = None \<and>
     au_fad_started_event_count a = 1 \<and> au_fad_starter_bid_count a = 1 \<and>
     au_fad_starter_bid_id a \<notin> {None, Some ''''} \<and> au_fad_starter_team_id a \<notin> {None, Some ''''} \<and>
     (if au_fad_origin a = Some ''manager_nomination''
      then au_queued_starter_count a = 0 \<and>
           au_queued_starter_bid_id a = None \<and> au_queued_starter_team_id a = None
      else au_queued_starter_count a = 1 \<and>
           au_queued_starter_bid_id a = au_fad_starter_bid_id a \<and>
           au_queued_starter_team_id a = au_fad_starter_team_id a)"

definition isSupportedFadBidContext :: "auction_row option \<Rightarrow> bool" where
  "isSupportedFadBidContext auction =
     (case auction of None \<Rightarrow> False | Some a \<Rightarrow>
        isNominatedOpenRapidBidContext a \<or>
        (au_source_kind a = ''fad_restricted'' \<and>
         au_fad_origin a = Some ''candidate_tie_restricted'' \<and>
         au_allocation_status a = Some ''restricted_active'' \<and>
         au_restricted_auction_id a = Some (au_id a)) \<or>
        (au_source_kind a = ''fad_open_rapid'' \<and>
         au_fad_origin a = Some ''restricted_no_improvement_fallback'' \<and>
         au_allocation_status a = Some ''restricted_fallback_open'' \<and>
         au_fallback_open_auction_id a = Some (au_id a)))"

definition isReplayableFadBidContext :: "auction_row \<Rightarrow> bool" where
  "isReplayableFadBidContext a \<longleftrightarrow>
     isNominatedOpenRapidBidContext a \<or>
     (au_source_kind a = ''fad_restricted'' \<and>
      au_fad_origin a = Some ''candidate_tie_restricted'' \<and>
      au_fad_allocation_id a \<noteq> None \<and>
      au_restricted_auction_id a = Some (au_id a)) \<or>
     (au_source_kind a = ''fad_open_rapid'' \<and>
      au_fad_origin a = Some ''restricted_no_improvement_fallback'' \<and>
      au_fad_allocation_id a \<noteq> None \<and>
      au_fallback_open_auction_id a = Some (au_id a))"

definition serverRecordedBinding :: "bid_command \<Rightarrow> auction_row option \<Rightarrow> put_error + bid_command" where
  "serverRecordedBinding command auction =
     (if \<not> isFadContext auction then Inr command
      else if bc_bindingIllegalityConfirmed command \<noteq> None \<and>
              bc_bindingIllegalityConfirmed command \<noteq> Some (JBool True)
      then Inl (PutPolicy BidInputInvalid)
      else Inr (command\<lparr>bc_bindingIllegalityConfirmed := Some (JBool True)\<rparr>))"

definition createRequestHash :: "(string \<Rightarrow> string) \<Rightarrow> bid_command \<Rightarrow> string" where
  "createRequestHash sha command = sha (json_object
     [(''leagueId'', JStr (bc_leagueId command)),
      (''auctionId'', JStr (bc_auctionId command)),
      (''teamId'', JStr (bc_teamId command)),
      (''actorUserId'', JStr (bc_actorUserId command)),
      (''actorMembershipId'', JStr (bc_actorMembershipId command)),
      (''actorAuthority'', JStr (bc_actorAuthority command)),
      (''aavCents'', JInt (bc_aavCents command)),
      (''termYears'', JInt (bc_termYears command)),
      (''expectedBidVersion'', jint_or_null (bc_expectedBidVersion command))])"

section \<open>Queries\<close>

definition put_operation :: string where
  "put_operation = ''auction.bid.put''"

text \<open>A prepared \<^verbatim>\<open>SELECT ... LIMIT 2\<close> whose answer must be unique.\<close>

definition unique_row :: "'r list \<Rightarrow> put_error + 'r option" where
  "unique_row rows =
     (case rows of [] \<Rightarrow> Inr None | [r] \<Rightarrow> Inr (Some r) | _ \<Rightarrow> Inl (PutRepo RepoSchemaIncompatible))"

definition findIdempotency :: "bid_store \<Rightarrow> bid_command \<Rightarrow> request_row list" where
  "findIdempotency s c = filter (\<lambda>r. rq_league_id r = bc_leagueId c \<and>
     rq_actor_user_id r = bc_actorUserId c \<and> rq_operation r = put_operation \<and>
     rq_client_key r = bc_idempotencyKey c) (st_requests s)"

definition findAuction :: "bid_env \<Rightarrow> bid_command \<Rightarrow> auction_row list" where
  "findAuction env c = filter (\<lambda>a. au_league_id a = bc_leagueId c \<and> au_id a = bc_auctionId c)
     (en_auctions env)"

definition findParticipant :: "bid_store \<Rightarrow> bid_command \<Rightarrow> participant_row list" where
  "findParticipant s c = filter (\<lambda>p. pa_league_id p = bc_leagueId c \<and>
     pa_auction_id p = bc_auctionId c \<and> pa_team_id p = bc_teamId c) (st_participants s)"

definition findCurrentTeamBid :: "bid_store \<Rightarrow> bid_command \<Rightarrow> bid_row list" where
  "findCurrentTeamBid s c = filter (\<lambda>b. bd_league_id b = bc_leagueId c \<and>
     bd_auction_id b = bc_auctionId c \<and> bd_team_id b = bc_teamId c \<and> bd_status b = ''active'')
     (st_bids s)"

definition requireCurrentAuthority :: "bid_env \<Rightarrow> bid_command \<Rightarrow> put_error + bid_authority" where
  "requireCurrentAuthority env command =
     bindE (unique_row (en_authority env (bc_leagueId command) (bc_teamId command)
             (bc_actorUserId command) (bc_actorMembershipId command))) (\<lambda>authority.
     case authority of
       None \<Rightarrow> Inl (PutPolicy BidAuthorizationDenied)
     | Some a \<Rightarrow> if bid_authorized command (Some a) then Inr a
                 else Inl (PutPolicy BidAuthorizationDenied))"

section \<open>Replay\<close>

definition min_occurred :: "bid_event list \<Rightarrow> int option" where
  "min_occurred es = (if es = [] then None else Some (Min (be_occurred_at_ms ` set es)))"

text \<open>The subquery \<^verbatim>\<open>COALESCE\<close> for the first submission of the bid of an event.\<close>

definition event_first_submitted :: "bid_env \<Rightarrow> bid_store \<Rightarrow> bid_event \<Rightarrow> int option" where
  "event_first_submitted env s e =
     (let of_type = (\<lambda>kind. min_occurred (filter (\<lambda>f. be_league_id f = be_league_id e \<and>
            be_season_id f = be_season_id e \<and> be_auction_id f = be_auction_id e \<and>
            be_bid_id f = be_bid_id e \<and> be_team_id f = be_team_id e \<and> be_event_type f = kind)
            (st_events s))) in
     case en_queued env e of
       Some t \<Rightarrow> Some t
     | None \<Rightarrow> (case of_type ''bid_submitted'' of Some t \<Rightarrow> Some t | None \<Rightarrow> of_type ''auction_started''))"

definition findReplayEvents :: "bid_store \<Rightarrow> bid_command \<Rightarrow> request_row \<Rightarrow> bid_event list" where
  "findReplayEvents s command idempotency = sort_key be_id (filter (\<lambda>e.
     be_league_id e = bc_leagueId command \<and>
     Some (be_bid_id e) = rq_result_id idempotency \<and>
     be_actor_user_id e = bc_actorUserId command \<and>
     be_occurred_at_ms e = rq_created_at_ms idempotency \<and>
     be_event_type e \<in> {''bid_submitted'', ''bid_edited''}) (st_events s))"

text \<open>\<open>Some\<close> first submission when the event is the one the retried command wrote.\<close>

definition replayMetadata :: "bid_env \<Rightarrow> bid_store \<Rightarrow> bid_event \<Rightarrow> bid_command \<Rightarrow> request_row \<Rightarrow>
    auction_row \<Rightarrow> int option" where
  "replayMetadata env s e command idempotency auction =
     (let m = be_metadata e; after = bm_after m;
          submitted = (bc_expectedBidVersion command = None) in
     case event_first_submitted env s e of None \<Rightarrow> None | Some first \<Rightarrow>
     if be_auction_id e \<noteq> bc_auctionId command \<or>
        be_season_id e \<noteq> au_season_id auction \<or>
        be_team_id e \<noteq> bc_teamId command \<or>
        be_event_type e \<noteq> (if submitted then ''bid_submitted'' else ''bid_edited'') \<or>
        bm_actorAuthority m \<noteq> bc_actorAuthority command \<or>
        bm_actorMembershipId m \<noteq> bc_actorMembershipId command \<or>
        sn_totalValueCents after \<noteq> bc_totalValueCents command \<or>
        sn_termYears after \<noteq> bc_termYears command \<or>
        sn_aavCents after \<noteq> Some (rounded_aav (bc_totalValueCents command) (bc_termYears command)) \<or>
        sn_version after \<noteq> (case bc_expectedBidVersion command of None \<Rightarrow> 0 | Some v \<Rightarrow> v) + 1 \<or>
        \<not> safe (sn_lowestOfferedAavCents after) \<or> \<not> safe (sn_editCount after) \<or>
        (submitted \<and> bm_before m \<noteq> None) \<or>
        (\<not> submitted \<and> map_option sn_version (bm_before m) \<noteq> bc_expectedBidVersion command) \<or>
        \<not> safe first \<or> rq_created_at_ms idempotency < first \<or>
        rq_completed_at_ms idempotency \<noteq> Some (rq_created_at_ms idempotency) \<or>
        (isFadContext (Some auction) \<and> bc_bindingIllegalityConfirmed command \<noteq> Some (JBool True))
     then None
     else Some first)"

definition replayResult :: "bid_env \<Rightarrow> bid_store \<Rightarrow> bid_command \<Rightarrow> request_row \<Rightarrow> auction_row \<Rightarrow>
    put_error + put_result" where
  "replayResult env s command idempotency auction =
     (case List.map_filter (\<lambda>e. map_option (Pair e) (replayMetadata env s e command idempotency auction))
             (findReplayEvents s command idempotency) of
        [(e, first)] \<Rightarrow>
          let after = bm_after (be_metadata e) in
          Inr \<lparr>pr_replayed = True,
               pr_action = (if bc_expectedBidVersion command = None then ''submitted'' else ''edited''),
               pr_auctionId = au_id auction,
               pr_leagueId = au_league_id auction,
               pr_seasonId = au_season_id auction,
               pr_auctionStatus = ''open'',
               pr_openedAtMs = au_opened_at_ms auction,
               pr_bidClosesAtMs = au_resolves_at_ms auction,
               pr_bidId = the (rq_result_id idempotency),
               pr_teamId = be_team_id e,
               pr_totalValueCents = sn_totalValueCents after,
               pr_termYears = sn_termYears after,
               pr_aavCents = the (sn_aavCents after),
               pr_firstSubmittedAtMs = first,
               pr_lastEditedAtMs = rq_created_at_ms idempotency,
               pr_editCount = sn_editCount after,
               pr_bidStatus = ''active'',
               pr_version = sn_version after\<rparr>
      | _ \<Rightarrow> Inl (PutRepo RepoSchemaIncompatible))"

section \<open>The statements that write\<close>

definition started_request :: "(string \<Rightarrow> string) \<Rightarrow> bid_command \<Rightarrow> request_row" where
  "started_request sha c =
     \<lparr>rq_id = bc_idempotencyRequestId c,
      rq_league_id = bc_leagueId c,
      rq_actor_user_id = bc_actorUserId c,
      rq_operation = put_operation,
      rq_client_key = bc_idempotencyKey c,
      rq_request_hash = createRequestHash sha c,
      rq_status = ''started'',
      rq_result_type = None,
      rq_result_id = None,
      rq_created_at_ms = bc_occurredAtMs c,
      rq_completed_at_ms = None,
      rq_expires_at_ms = bc_idempotencyExpiresAtMs c\<rparr>"

definition new_bid :: "bid_command \<Rightarrow> auction_row \<Rightarrow> bid_state \<Rightarrow> bid_row" where
  "new_bid c auction st =
     \<lparr>bd_id = bc_bidId c,
      bd_league_id = bc_leagueId c,
      bd_season_id = au_season_id auction,
      bd_auction_id = bc_auctionId c,
      bd_team_id = bc_teamId c,
      bd_submitted_by_user_id = bc_actorUserId c,
      bd_total_value_cents = bs_totalValueCents st,
      bd_term_years = bs_termYears st,
      bd_lowest_offered_aav_cents = bs_lowestOfferedAavCents st,
      bd_lowest_offered_total_value_cents = Some (bs_lowestOfferedTotalValueCents st),
      bd_first_submitted_at_ms = bs_firstSubmittedAtMs st,
      bd_last_edited_at_ms = bs_lastEditedAtMs st,
      bd_edit_count = bs_editCount st,
      bd_status = ''active'',
      bd_idempotency_request_id = bc_idempotencyRequestId c,
      bd_version = bs_nextVersion st\<rparr>"

definition edited_bid :: "bid_command \<Rightarrow> bid_state \<Rightarrow> bid_row \<Rightarrow> bid_row" where
  "edited_bid c st b = b
     \<lparr>bd_total_value_cents := bs_totalValueCents st,
      bd_term_years := bs_termYears st,
      bd_lowest_offered_aav_cents := bs_lowestOfferedAavCents st,
      bd_lowest_offered_total_value_cents := Some (bs_lowestOfferedTotalValueCents st),
      bd_last_edited_at_ms := bs_lastEditedAtMs st,
      bd_edit_count := bs_editCount st,
      bd_idempotency_request_id := bc_idempotencyRequestId c,
      bd_version := bs_nextVersion st\<rparr>"

definition update_matches :: "bid_command \<Rightarrow> string \<Rightarrow> bid_row \<Rightarrow> bool" where
  "update_matches c effectiveBidId b \<longleftrightarrow>
     bd_league_id b = bc_leagueId c \<and> bd_auction_id b = bc_auctionId c \<and>
     bd_id b = effectiveBidId \<and> bd_team_id b = bc_teamId c \<and> bd_status b = ''active'' \<and>
     Some (bd_version b) = bc_expectedBidVersion c"

definition write_bid :: "bid_command \<Rightarrow> auction_row \<Rightarrow> bid_state \<Rightarrow> bid_row option \<Rightarrow> bid_row list \<Rightarrow>
    put_error + bid_row list" where
  "write_bid c auction st existingBid bids =
     (case existingBid of
        Some b \<Rightarrow>
          if length (filter (update_matches c (bd_id b)) bids) \<noteq> 1
          then Inl (PutPolicy BidVersionConflict)
          else Inr (map (\<lambda>r. if update_matches c (bd_id b) r then edited_bid c st r else r) bids)
      | None \<Rightarrow>
          if bc_bidId c \<in> bd_id ` set bids \<or>
             (\<exists>r \<in> set bids. bd_league_id r = bc_leagueId c \<and> bd_auction_id r = bc_auctionId c \<and>
                bd_team_id r = bc_teamId c \<and> bd_status r = ''active'')
          then Inl (PutRepo RepoConstraint)
          else Inr (bids @ [new_bid c auction st]))"

definition participant_matches :: "bid_command \<Rightarrow> auction_row \<Rightarrow> bid_state \<Rightarrow> string \<Rightarrow> int option \<Rightarrow>
    participant_row option \<Rightarrow> participant_row \<Rightarrow> bool" where
  "participant_matches c auction st effectiveBidId previousAnchor found p \<longleftrightarrow>
     (case found of None \<Rightarrow> False | Some q \<Rightarrow> pa_id p = pa_id q \<and> pa_version p = pa_version q) \<and>
     pa_league_id p = bc_leagueId c \<and> pa_season_id p = au_season_id auction \<and>
     pa_fad_id p = au_fad_id auction \<and> pa_fad_id p \<noteq> None \<and>
     pa_allocation_id p = au_fad_allocation_id auction \<and> pa_allocation_id p \<noteq> None \<and>
     pa_auction_id p = bc_auctionId c \<and> pa_team_id p = bc_teamId c \<and> pa_status p = ''active'' \<and>
     ((bs_action st = ''submitted'' \<and>
       pa_active_improvement_bid_id p = None \<and> pa_first_improvement_at_ms p = None \<and>
       pa_current_cooldown_anchor_at_ms p = None \<and> pa_improvement_committed_at_ms p = None) \<or>
      (bs_action st = ''edited'' \<and>
       pa_active_improvement_bid_id p = Some effectiveBidId \<and>
       pa_first_improvement_at_ms p = Some (bs_firstSubmittedAtMs st) \<and>
       previousAnchor \<noteq> None \<and>
       pa_current_cooldown_anchor_at_ms p = previousAnchor \<and>
       pa_improvement_committed_at_ms p = previousAnchor))"

definition linked_participant :: "bid_state \<Rightarrow> string \<Rightarrow> participant_row \<Rightarrow> participant_row" where
  "linked_participant st effectiveBidId p = p
     \<lparr>pa_active_improvement_bid_id := Some effectiveBidId,
      pa_first_improvement_at_ms := (case pa_first_improvement_at_ms p of
        None \<Rightarrow> Some (bs_firstSubmittedAtMs st) | Some t \<Rightarrow> Some t),
      pa_current_cooldown_anchor_at_ms := Some (bs_lastEditedAtMs st),
      pa_improvement_committed_at_ms := Some (bs_lastEditedAtMs st),
      pa_updated_at_ms := bs_lastEditedAtMs st,
      pa_version := pa_version p + 1\<rparr>"

text \<open>
  \<^verbatim>\<open>updateParticipant\<close> and the check of the linked row; skipped outside a restricted auction.
\<close>

definition write_participant :: "bid_command \<Rightarrow> auction_row \<Rightarrow> bid_state \<Rightarrow> string \<Rightarrow> int option \<Rightarrow>
    participant_row option \<Rightarrow> participant_row list \<Rightarrow> put_error + participant_row list" where
  "write_participant c auction st effectiveBidId previousAnchor found ps =
     (if au_source_kind auction \<noteq> ''fad_restricted'' then Inr ps
      else
      let sel = participant_matches c auction st effectiveBidId previousAnchor found in
      if length (filter sel ps) \<noteq> 1 then Inl (PutPolicy BidVersionConflict)
      else
      let ps' = map (\<lambda>p. if sel p then linked_participant st effectiveBidId p else p) ps in
      case found of None \<Rightarrow> Inl (PutRepo RepoVersionConflict) | Some q \<Rightarrow>
      bindE (unique_row (filter (\<lambda>p. pa_league_id p = bc_leagueId c \<and> pa_id p = pa_id q) ps')) (\<lambda>linked.
      case linked of None \<Rightarrow> Inl (PutRepo RepoVersionConflict) | Some p \<Rightarrow>
      if pa_status p \<noteq> ''active'' \<or> pa_active_improvement_bid_id p \<noteq> Some effectiveBidId \<or>
         pa_first_improvement_at_ms p \<noteq> Some (bs_firstSubmittedAtMs st) \<or>
         pa_current_cooldown_anchor_at_ms p \<noteq> Some (bs_lastEditedAtMs st) \<or>
         pa_improvement_committed_at_ms p \<noteq> Some (bs_lastEditedAtMs st) \<or>
         pa_version p \<noteq> pa_version q + 1
      then Inl (PutRepo RepoVersionConflict)
      else Inr ps'))"

definition bid_event_row :: "bid_command \<Rightarrow> auction_row \<Rightarrow> bid_state \<Rightarrow> string \<Rightarrow> bid_row option \<Rightarrow>
    bid_event" where
  "bid_event_row c auction st effectiveBidId existingBid =
     \<lparr>be_id = bc_eventId c,
      be_league_id = bc_leagueId c,
      be_season_id = au_season_id auction,
      be_auction_id = bc_auctionId c,
      be_bid_id = effectiveBidId,
      be_team_id = bc_teamId c,
      be_actor_user_id = bc_actorUserId c,
      be_event_type = (if bs_action st = ''submitted'' then ''bid_submitted'' else ''bid_edited''),
      be_metadata =
        \<lparr>bm_actorAuthority = bc_actorAuthority c,
         bm_actorMembershipId = bc_actorMembershipId c,
         bm_before = map_option (\<lambda>b.
           \<lparr>sn_totalValueCents = bd_total_value_cents b,
            sn_termYears = bd_term_years b,
            sn_aavCents = None,
            sn_lowestOfferedAavCents = bd_lowest_offered_aav_cents b,
            sn_lowestOfferedTotalValueCents = bd_lowest_offered_total_value_cents b,
            sn_editCount = bd_edit_count b,
            sn_version = bd_version b\<rparr>) existingBid,
         bm_after =
           \<lparr>sn_totalValueCents = bs_totalValueCents st,
            sn_termYears = bs_termYears st,
            sn_aavCents = Some (bs_aavCents st),
            sn_lowestOfferedAavCents = bs_lowestOfferedAavCents st,
            sn_lowestOfferedTotalValueCents = Some (bs_lowestOfferedTotalValueCents st),
            sn_editCount = bs_editCount st,
            sn_version = bs_nextVersion st\<rparr>\<rparr>,
      be_occurred_at_ms = bc_occurredAtMs c\<rparr>"

definition safeWriteResult :: "auction_row \<Rightarrow> bid_row \<Rightarrow> string \<Rightarrow> put_result" where
  "safeWriteResult auction b action =
     \<lparr>pr_replayed = False,
      pr_action = action,
      pr_auctionId = au_id auction,
      pr_leagueId = au_league_id auction,
      pr_seasonId = au_season_id auction,
      pr_auctionStatus = au_status auction,
      pr_openedAtMs = au_opened_at_ms auction,
      pr_bidClosesAtMs = au_resolves_at_ms auction,
      pr_bidId = bd_id b,
      pr_teamId = bd_team_id b,
      pr_totalValueCents = bd_total_value_cents b,
      pr_termYears = bd_term_years b,
      pr_aavCents = rounded_aav (bd_total_value_cents b) (bd_term_years b),
      pr_firstSubmittedAtMs = bd_first_submitted_at_ms b,
      pr_lastEditedAtMs = bd_last_edited_at_ms b,
      pr_editCount = bd_edit_count b,
      pr_bidStatus = bd_status b,
      pr_version = bd_version b\<rparr>"

definition completed_request :: "bid_command \<Rightarrow> string \<Rightarrow> request_row \<Rightarrow> request_row" where
  "completed_request c effectiveBidId r = r
     \<lparr>rq_status := ''completed'', rq_result_type := Some ''auction_bid'',
      rq_result_id := Some effectiveBidId, rq_completed_at_ms := Some (bc_occurredAtMs c)\<rparr>"

section \<open>The transaction\<close>

definition write_accepted_bid :: "(string \<Rightarrow> string) \<Rightarrow> bid_env \<Rightarrow> bid_store \<Rightarrow> bid_command \<Rightarrow>
    auction_row \<Rightarrow> participant_row option \<Rightarrow> bid_row option \<Rightarrow> bid_state \<Rightarrow>
    put_error + (bid_store \<times> put_result)" where
  "write_accepted_bid sha env s c auction participant existingBid st =
     (let effectiveBidId = (case existingBid of Some b \<Rightarrow> bd_id b | None \<Rightarrow> bc_bidId c);
          previousAnchor = map_option bd_last_edited_at_ms existingBid;
          event = bid_event_row c auction st effectiveBidId existingBid in
     if bc_idempotencyRequestId c \<in> rq_id ` set (st_requests s) then Inl (PutRepo RepoConstraint)
     else
     bindE (write_bid c auction st existingBid (st_bids s)) (\<lambda>bids.
     bindE (write_participant c auction st effectiveBidId previousAnchor participant
             (st_participants s)) (\<lambda>participants.
     if be_id event \<in> be_id ` set (st_events s) then Inl (PutRepo RepoConstraint)
     else
     bindE (unique_row (filter (\<lambda>b. bd_league_id b = bc_leagueId c \<and> bd_id b = effectiveBidId) bids)) (\<lambda>row.
     case row of None \<Rightarrow> Inl (PutRepo RepoSchemaIncompatible) | Some b \<Rightarrow>
     let s' = \<lparr>st_bids = bids,
               st_requests = st_requests s @ [completed_request c effectiveBidId (started_request sha c)],
               st_events = st_events s @ [event],
               st_participants = participants\<rparr> in
     if \<not> en_accepts env s' then Inl (PutRepo RepoConstraint)
     else Inr (s', safeWriteResult auction b (bs_action st))))))"

definition from_policy :: "auction_bid_code + 'a \<Rightarrow> put_error + 'a" where
  "from_policy m = (case m of Inl e \<Rightarrow> Inl (PutPolicy e) | Inr x \<Rightarrow> Inr x)"

definition putTransaction :: "(string \<Rightarrow> string) \<Rightarrow> bid_env \<Rightarrow> bid_store \<Rightarrow> bid_command \<Rightarrow>
    put_error + (bid_store \<times> put_result)" where
  "putTransaction sha env s inputCommand =
     bindE (unique_row (findAuction env inputCommand)) (\<lambda>auctionRow.
     bindE (serverRecordedBinding inputCommand auctionRow) (\<lambda>command.
     bindE (unique_row (findIdempotency s command)) (\<lambda>request.
     case request of
       Some idempotency \<Rightarrow>
         if rq_request_hash idempotency \<noteq> createRequestHash sha command
         then Inl (PutPolicy BidIdempotencyKeyReused)
         else if rq_status idempotency \<noteq> ''completed'' \<or> rq_result_id idempotency \<in> {None, Some ''''}
         then Inl (PutPolicy BidIdempotencyConflict)
         else if rq_result_type idempotency \<noteq> Some ''auction_bid'' \<or> auctionRow = None
         then Inl (PutPolicy BidIdempotencyConflict)
         else
         let auction = the auctionRow in
         if isFadContext auctionRow \<and> \<not> isReplayableFadBidContext auction
         then Inl (PutPolicy BidAuctionUnavailable)
         else
         bindE (requireCurrentAuthority env command) (\<lambda>_.
         bindE (replayResult env s command idempotency auction) (\<lambda>r. Inr (s, r)))
     | None \<Rightarrow>
         if (\<exists>a. auctionRow = Some a \<and> au_source_kind a = ''ordinary_weekly'') \<and>
            bc_bindingIllegalityConfirmed command \<noteq> None
         then Inl (PutPolicy BidInputInvalid)
         else if isFadContext auctionRow \<and> \<not> isSupportedFadBidContext auctionRow
         then Inl (PutPolicy BidAuctionUnavailable)
         else if isSupportedFadBidContext auctionRow \<and>
            bc_bindingIllegalityConfirmed command \<noteq> Some (JBool True)
         then Inl (PutPolicy BidInputInvalid)
         else
         bindE (unique_row (findParticipant s command)) (\<lambda>participant.
         bindE (requireCurrentAuthority env command) (\<lambda>authority.
         bindE (unique_row (findCurrentTeamBid s command)) (\<lambda>existingBid.
         bindE (from_policy (assertAuctionBidState command (Some authority) auctionRow existingBid
                 participant)) (\<lambda>st.
         write_accepted_bid sha env s command (the auctionRow) participant existingBid st)))))))"

definition putBid :: "(string \<Rightarrow> string) \<Rightarrow> bid_env \<Rightarrow> bid_store \<Rightarrow> jsval \<Rightarrow>
    put_error + (bid_store \<times> put_result)" where
  "putBid sha env s input =
     bindE (from_policy (validateAuctionBidCommand input)) (\<lambda>command.
     putTransaction sha env s command)"

section \<open>What a successful put did\<close>

lemma unique_row_Inr [check_iffs]:
  "unique_row rows = Inr found \<longleftrightarrow> (rows = [] \<and> found = None) \<or> (\<exists>r. rows = [r] \<and> found = Some r)"
  by (auto simp: unique_row_def split: list.splits)

lemma from_policy_Inr [check_iffs]: "from_policy m = Inr x \<longleftrightarrow> m = Inr x"
  by (cases m) (simp_all add: from_policy_def)

lemma serverRecordedBinding_Inr:
  "serverRecordedBinding c a = Inr c' \<Longrightarrow> c' = c \<or> c' = c\<lparr>bc_bindingIllegalityConfirmed := Some (JBool True)\<rparr>"
  by (auto simp: serverRecordedBinding_def split: if_splits)

text \<open>The two ways in which the transaction succeeds: a replay, or an accepted write.\<close>

definition accepted_write :: "(string \<Rightarrow> string) \<Rightarrow> bid_env \<Rightarrow> bid_store \<Rightarrow> bid_command \<Rightarrow> auction_row \<Rightarrow>
    participant_row option \<Rightarrow> bid_row option \<Rightarrow> bid_state \<Rightarrow> bid_store \<times> put_result \<Rightarrow> bool" where
  "accepted_write sha env s c auction participant existingBid st result \<longleftrightarrow>
     0 \<le> bc_occurredAtMs c \<and> bc_occurredAtMs c \<le> max_timestamp \<and> bc_bidId c \<noteq> [] \<and>
     findAuction env c = [auction] \<and> findIdempotency s c = [] \<and>
     (findCurrentTeamBid s c = (case existingBid of None \<Rightarrow> [] | Some b \<Rightarrow> [b])) \<and>
     (\<exists>authority. assertAuctionBidState c (Some authority) (Some auction) existingBid participant = Inr st) \<and>
     write_accepted_bid sha env s c auction participant existingBid st = Inr result"

lemma putTransaction_cases:
  assumes put: "putTransaction sha env s input = Inr (s', r)"
    and time: "0 \<le> bc_occurredAtMs input" "bc_occurredAtMs input \<le> max_timestamp" "bc_bidId input \<noteq> []"
  obtains (replay) "s' = s" "pr_replayed r"
  | (written) c auction participant existingBid st where
      "accepted_write sha env s c auction participant existingBid st (s', r)"
      "serverRecordedBinding input (Some auction) = Inr c"
proof -
  obtain auctionRow c request where
    au: "unique_row (findAuction env input) = Inr auctionRow"
    and c: "serverRecordedBinding input auctionRow = Inr c"
    and rq: "unique_row (findIdempotency s c) = Inr request"
    using put unfolding putTransaction_def bindE_Inr_iff by blast
  note put = put [unfolded putTransaction_def, unfolded au c rq bindE_simps]
  show thesis
  proof (cases request)
    case (Some idempotency)
    then have "s' = s" "pr_replayed r"
      using put by (auto simp: Let_def bindE_Inr_iff replayResult_def split: if_splits list.splits prod.splits)
    then show thesis by (rule replay)
  next
    case None
    obtain participant authority existingBid st where
      pa: "unique_row (findParticipant s c) = Inr participant"
      and ex: "unique_row (findCurrentTeamBid s c) = Inr existingBid"
      and st: "assertAuctionBidState c (Some authority) auctionRow existingBid participant = Inr st"
      and w: "write_accepted_bid sha env s c (the auctionRow) participant existingBid st = Inr (s', r)"
      using put None by (auto simp: bindE_Inr_iff from_policy_Inr split: if_splits)
    obtain auction where a: "auctionRow = Some auction"
      using st unfolding assertAuctionBidState_Inr by blast
    have "findAuction env c = findAuction env input" "bc_occurredAtMs c = bc_occurredAtMs input"
      "bc_bidId c = bc_bidId input"
      using serverRecordedBinding_Inr [OF c] by (auto simp: findAuction_def)
    then have "accepted_write sha env s c auction participant existingBid st (s', r)"
      using au a rq None ex st w time by (auto simp: accepted_write_def unique_row_Inr)
    then show thesis using c unfolding a by (rule written)
  qed
qed

lemma write_accepted_bid_Inr:
  assumes "write_accepted_bid sha env s c auction participant existingBid st = Inr (s', r)"
  defines "effective \<equiv> (case existingBid of Some b \<Rightarrow> bd_id b | None \<Rightarrow> bc_bidId c)"
  shows "write_bid c auction st existingBid (st_bids s) = Inr (st_bids s') \<and>
    bc_idempotencyRequestId c \<notin> rq_id ` set (st_requests s) \<and>
    st_requests s' = st_requests s @ [completed_request c effective (started_request sha c)] \<and>
    st_events s' = st_events s @ [bid_event_row c auction st effective existingBid] \<and>
    bc_eventId c \<notin> be_id ` set (st_events s) \<and>
    (\<exists>b \<in> set (st_bids s'). bd_id b = effective \<and> r = safeWriteResult auction b (bs_action st))"
proof -
  obtain bids participants row where
    w: "bc_idempotencyRequestId c \<notin> rq_id ` set (st_requests s)"
    "write_bid c auction st existingBid (st_bids s) = Inr bids"
    "be_id (bid_event_row c auction st effective existingBid) \<notin> be_id ` set (st_events s)"
    "unique_row (filter (\<lambda>b. bd_league_id b = bc_leagueId c \<and> bd_id b = effective) bids) = Inr (Some row)"
    "s' = \<lparr>st_bids = bids,
       st_requests = st_requests s @ [completed_request c effective (started_request sha c)],
       st_events = st_events s @ [bid_event_row c auction st effective existingBid],
       st_participants = participants\<rparr>"
    "r = safeWriteResult auction row (bs_action st)"
    using assms(1) unfolding write_accepted_bid_def effective_def [symmetric] Let_def
    by (auto simp: bindE_Inr_iff case_option_Inr split: if_splits)
  have "row \<in> set (filter (\<lambda>b. bd_league_id b = bc_leagueId c \<and> bd_id b = effective) bids)"
    using w(4) by (auto simp: unique_row_Inr)
  then have "row \<in> set bids" "bd_id row = effective" by simp_all
  with w show ?thesis by (auto simp: bid_event_row_def)
qed

section \<open>The audit trail of the bids\<close>

abbreviation event_after :: "bid_event \<Rightarrow> bid_snapshot" where
  "event_after e \<equiv> bm_after (be_metadata e)"

definition bid_log :: "bid_store \<Rightarrow> bid_row \<Rightarrow> bid_event list" where
  "bid_log s b = filter (\<lambda>e. be_bid_id e = bd_id b) (st_events s)"

text \<open>
  The log of a bid: versions 1, 2, ... in order, consecutive events at least a cooldown apart, the
  first at the submission, the last the current state of the row; never more than two edits.
\<close>

definition bid_log_ok :: "bid_event list \<Rightarrow> bid_row \<Rightarrow> bool" where
  "bid_log_ok es b \<longleftrightarrow>
     es \<noteq> [] \<and> int (length es) = bd_version b \<and> bd_version b = bd_edit_count b + 1 \<and>
     bd_edit_count b \<le> 2 \<and> bd_status b = ''active'' \<and> 100 \<le> bd_lowest_offered_aav_cents b \<and>
     list_all (\<lambda>e. be_league_id e = bd_league_id b \<and> be_season_id e = bd_season_id b \<and>
       be_auction_id e = bd_auction_id b \<and> be_team_id e = bd_team_id b \<and>
       0 \<le> be_occurred_at_ms e \<and> be_occurred_at_ms e \<le> max_timestamp) es \<and>
     be_event_type (hd es) = ''bid_submitted'' \<and>
     map (\<lambda>e. sn_version (event_after e)) es = map (\<lambda>i. int i + 1) [0..<length es] \<and>
     sorted_wrt (\<lambda>e f. be_occurred_at_ms e + cooldown_ms \<le> be_occurred_at_ms f) es \<and>
     be_occurred_at_ms (hd es) = bd_first_submitted_at_ms b \<and>
     be_occurred_at_ms (last es) = bd_last_edited_at_ms b \<and>
     sn_totalValueCents (event_after (last es)) = bd_total_value_cents b \<and>
     sn_termYears (event_after (last es)) = bd_term_years b \<and>
     sn_lowestOfferedAavCents (event_after (last es)) = bd_lowest_offered_aav_cents b \<and>
     sn_editCount (event_after (last es)) = bd_edit_count b \<and>
     list_all (\<lambda>e. bid_offer_ok (sn_totalValueCents (event_after e)) (sn_termYears (event_after e))
       (the (sn_aavCents (event_after e))) \<and>
       bd_lowest_offered_aav_cents b \<le> the (sn_aavCents (event_after e)) \<and>
       (\<exists>low. bd_lowest_offered_total_value_cents b = Some low \<and> low \<le> sn_totalValueCents (event_after e))) es \<and>
     joining_minimum_totals (sn_termYears (event_after (hd es))) \<le> sn_totalValueCents (event_after (hd es))"

text \<open>The season of an auction never changes; \<open>season\<close> gives it by league and auction.\<close>

definition bid_store_ok :: "(string \<Rightarrow> string \<Rightarrow> string) \<Rightarrow> bid_store \<Rightarrow> bool" where
  "bid_store_ok season s \<longleftrightarrow>
     (\<forall>b \<in> set (st_bids s). bd_season_id b = season (bd_league_id b) (bd_auction_id b) \<and> bd_id b \<noteq> []) \<and>
     distinct (map bd_id (st_bids s)) \<and>
     distinct (map (\<lambda>b. (bd_league_id b, bd_auction_id b, bd_team_id b)) (st_bids s)) \<and>
     (\<forall>b \<in> set (st_bids s). bid_log_ok (bid_log s b) b) \<and>
     (\<forall>e \<in> set (st_events s). be_bid_id e \<in> bd_id ` set (st_bids s)) \<and>
     distinct (map be_id (st_events s)) \<and>
     distinct (map rq_id (st_requests s)) \<and>
     distinct (map (\<lambda>r. (rq_league_id r, rq_actor_user_id r, rq_client_key r)) (st_requests s)) \<and>
     length (st_requests s) = length (st_events s) \<and>
     list_all (\<lambda>r. rq_operation r = put_operation) (st_requests s)"

lemma bid_log_submit:
  assumes "submit_bid c k = Inr st" and "0 \<le> bc_occurredAtMs c" "bc_occurredAtMs c \<le> max_timestamp"
  shows "bid_log_ok [bid_event_row c auction st i None] (new_bid c auction st)"
proof -
  note st = assms(1) [unfolded submit_bid_Inr]
  then have "100 \<le> bs_aavCents st" by (simp add: bid_offer_ok_def)
  with st assms(2,3) show ?thesis
    by (elim conjE) (simp add: bid_log_ok_def bid_event_row_def new_bid_def)
qed

lemma sorted_wrt_spaced_last:
  assumes "sorted_wrt (\<lambda>e f. be_occurred_at_ms e + cooldown_ms \<le> be_occurred_at_ms f) es" "e \<in> set es"
  shows "be_occurred_at_ms e \<le> be_occurred_at_ms (last es)"
  using assms
proof (induction es)
  case Nil
  then show ?case by simp
next
  case (Cons a es)
  have "0 \<le> cooldown_ms" by (simp add: cooldown_ms_def)
  moreover have "be_occurred_at_ms a + cooldown_ms \<le> be_occurred_at_ms (last es)" if "es \<noteq> []"
    using Cons.prems(1) that by simp
  ultimately have "es \<noteq> [] \<Longrightarrow> be_occurred_at_ms a \<le> be_occurred_at_ms (last es)" by fastforce
  then show ?case using Cons by (cases "es = []") auto
qed

lemma bid_log_edit:
  assumes log: "bid_log_ok es b" and edit: "edit_bid c auction k b = Inr st"
    and limit: "bid_edit_limit auction b k \<le> 2"
    and time: "0 \<le> bc_occurredAtMs c" "bc_occurredAtMs c \<le> max_timestamp"
    and scope: "bd_league_id b = bc_leagueId c" "bd_season_id b = au_season_id auction"
  shows "bid_log_ok (es @ [bid_event_row c auction st i (Some b)]) (edited_bid c st b)"
proof -
  define e where "e = bid_event_row c auction st i (Some b)"
  have e: "be_occurred_at_ms e = bc_occurredAtMs c" "sn_version (event_after e) = bs_nextVersion st"
    "sn_totalValueCents (event_after e) = bs_totalValueCents st"
    "sn_termYears (event_after e) = bs_termYears st" "sn_aavCents (event_after e) = Some (bs_aavCents st)"
    "sn_lowestOfferedAavCents (event_after e) = bs_lowestOfferedAavCents st"
    "sn_editCount (event_after e) = bs_editCount st"
    "be_league_id e = bc_leagueId c" "be_season_id e = au_season_id auction"
    "be_auction_id e = bc_auctionId c" "be_team_id e = bc_teamId c"
    by (simp_all add: e_def bid_event_row_def)
  have b: "es \<noteq> []" "int (length es) = bd_version b" "bd_version b = bd_edit_count b + 1"
    and last: "be_occurred_at_ms (last es) = bd_last_edited_at_ms b"
    and spaced: "sorted_wrt (\<lambda>e f. be_occurred_at_ms e + cooldown_ms \<le> be_occurred_at_ms f) es"
    and offers: "list_all (\<lambda>e. bid_offer_ok (sn_totalValueCents (event_after e)) (sn_termYears (event_after e))
       (the (sn_aavCents (event_after e))) \<and>
       bd_lowest_offered_aav_cents b \<le> the (sn_aavCents (event_after e)) \<and>
       (\<exists>low. bd_lowest_offered_total_value_cents b = Some low \<and> low \<le> sn_totalValueCents (event_after e))) es"
    using log by (simp_all add: bid_log_ok_def)
  note st = edit [unfolded edit_bid_Inr]
  have least: "100 \<le> bs_lowestOfferedAavCents st"
    using st log by (simp add: bid_offer_ok_def bid_log_ok_def)
  have "be_occurred_at_ms f + cooldown_ms \<le> be_occurred_at_ms e" if "f \<in> set es" for f
    using sorted_wrt_spaced_last [OF spaced that] last st e by simp
  then have sorted: "sorted_wrt (\<lambda>e f. be_occurred_at_ms e + cooldown_ms \<le> be_occurred_at_ms f) (es @ [e])"
    using spaced by (simp add: sorted_wrt_append)
  have vers: "bs_nextVersion st = int (length es) + 1" using st b by simp
  obtain low where low: "bd_lowest_offered_total_value_cents b = Some low"
    using offers b(1) by (cases es) auto
  have ed: "bd_version (edited_bid c st b) = bs_nextVersion st"
    "bd_edit_count (edited_bid c st b) = bs_editCount st"
    "bd_status (edited_bid c st b) = bd_status b"
    "bd_first_submitted_at_ms (edited_bid c st b) = bd_first_submitted_at_ms b"
    "bd_last_edited_at_ms (edited_bid c st b) = bs_lastEditedAtMs st"
    "bd_total_value_cents (edited_bid c st b) = bs_totalValueCents st"
    "bd_term_years (edited_bid c st b) = bs_termYears st"
    "bd_lowest_offered_aav_cents (edited_bid c st b) = bs_lowestOfferedAavCents st"
    "bd_lowest_offered_total_value_cents (edited_bid c st b) = Some (bs_lowestOfferedTotalValueCents st)"
    "bd_league_id (edited_bid c st b) = bd_league_id b" "bd_season_id (edited_bid c st b) = bd_season_id b"
    "bd_auction_id (edited_bid c st b) = bd_auction_id b" "bd_team_id (edited_bid c st b) = bd_team_id b"
    by (simp_all add: edited_bid_def)
  have "list_all (\<lambda>e. bid_offer_ok (sn_totalValueCents (event_after e)) (sn_termYears (event_after e))
       (the (sn_aavCents (event_after e))) \<and>
       bs_lowestOfferedAavCents st \<le> the (sn_aavCents (event_after e)) \<and>
       bs_lowestOfferedTotalValueCents st \<le> sn_totalValueCents (event_after e)) (es @ [e])"
    using offers st low e by (auto simp: list_all_iff)
  then have "bid_log_ok (es @ [e]) (edited_bid c st b)"
    using log st limit b e sorted vers time scope least unfolding bid_log_ok_def ed by simp
  then show ?thesis by (simp only: e_def)
qed

lemma bid_log_append:
  "st_events s' = st_events s @ [e] \<Longrightarrow>
     bid_log s' b = (if be_bid_id e = bd_id b then bid_log s b @ [e] else bid_log s b)"
  by (simp add: bid_log_def)

section \<open>Every accepted bid keeps the store in order\<close>

definition seasons_fixed :: "(string \<Rightarrow> string \<Rightarrow> string) \<Rightarrow> bid_env \<Rightarrow> bool" where
  "seasons_fixed season env \<longleftrightarrow>
     list_all (\<lambda>a. au_season_id a = season (au_league_id a) (au_id a)) (en_auctions env)"

lemma findAuction_season:
  assumes "findAuction env c = [auction]" and "seasons_fixed season env"
  shows "au_season_id auction = season (bc_leagueId c) (bc_auctionId c) \<and>
    au_league_id auction = bc_leagueId c \<and> au_id auction = bc_auctionId c"
proof -
  have "auction \<in> set (findAuction env c)" using assms(1) by simp
  then have "auction \<in> set (en_auctions env)" "au_league_id auction = bc_leagueId c"
    "au_id auction = bc_auctionId c" by (simp_all add: findAuction_def)
  with assms(2) show ?thesis by (auto simp: seasons_fixed_def list_all_iff)
qed

lemma find_current_bid:
  assumes "findCurrentTeamBid s c = [b]"
  shows "b \<in> set (st_bids s) \<and> bd_league_id b = bc_leagueId c \<and> bd_auction_id b = bc_auctionId c \<and>
    bd_team_id b = bc_teamId c \<and> bd_status b = ''active''"
  using arg_cong [OF assms, of set] unfolding findCurrentTeamBid_def set_filter by auto

lemma write_bid_edit:
  assumes "write_bid c auction st (Some b) bids = Inr bids'"
    and "distinct (map bd_id bids)" "b \<in> set bids" "update_matches c (bd_id b) b"
  shows "bids' = map (\<lambda>r. if bd_id r = bd_id b then edited_bid c st r else r) bids"
proof -
  have "update_matches c (bd_id b) r \<longleftrightarrow> bd_id r = bd_id b" if "r \<in> set bids" for r
  proof
    assume "bd_id r = bd_id b"
    then have "r = b" using assms(2,3) that by (auto simp: distinct_map inj_on_def)
    with assms(4) show "update_matches c (bd_id b) r" by simp
  qed (simp add: update_matches_def)
  then show ?thesis using assms(1) by (auto simp: write_bid_def split: if_splits)
qed

lemma edited_bid_simps [simp]:
  "bd_id (edited_bid c st b) = bd_id b" "bd_league_id (edited_bid c st b) = bd_league_id b"
  "bd_auction_id (edited_bid c st b) = bd_auction_id b" "bd_team_id (edited_bid c st b) = bd_team_id b"
  by (simp_all add: edited_bid_def)

lemma map_if_edited:
  assumes "\<And>r. f (edited_bid c st r) = f r"
  shows "map f (map (\<lambda>r. if P r then edited_bid c st r else r) bids) = map f bids"
  using assms by simp

text \<open>The bids after a write, and the logs that go with them.\<close>

lemma written_bids:
  assumes ok: "bid_store_ok season s" and seasons: "seasons_fixed season env"
    and w: "accepted_write sha env s c auction participant existingBid st (s', r)"
  shows "(\<forall>b \<in> set (st_bids s'). bd_season_id b = season (bd_league_id b) (bd_auction_id b) \<and> bd_id b \<noteq> []) \<and>
    distinct (map bd_id (st_bids s')) \<and>
    distinct (map (\<lambda>b. (bd_league_id b, bd_auction_id b, bd_team_id b)) (st_bids s')) \<and>
    (\<forall>b \<in> set (st_bids s'). bid_log_ok (bid_log s' b) b) \<and>
    (\<forall>e \<in> set (st_events s'). be_bid_id e \<in> bd_id ` set (st_bids s'))"
proof -
  obtain authority where
    time: "0 \<le> bc_occurredAtMs c" "bc_occurredAtMs c \<le> max_timestamp" and nonempty: "bc_bidId c \<noteq> []"
    and found: "findAuction env c = [auction]"
    and current: "findCurrentTeamBid s c = (case existingBid of None \<Rightarrow> [] | Some b \<Rightarrow> [b])"
    and st: "assertAuctionBidState c (Some authority) (Some auction) existingBid participant = Inr st"
    and wrote: "write_accepted_bid sha env s c auction participant existingBid st = Inr (s', r)"
    using w unfolding accepted_write_def by blast
  obtain k where ctx: "bidContext c auction participant = Inr k"
    and dec: "(case existingBid of None \<Rightarrow> submit_bid c k | Some b \<Rightarrow> edit_bid c auction k b) = Inr st"
    using st unfolding assertAuctionBidState_Inr by blast
  note wr = write_accepted_bid_Inr [OF wrote]
  note au = findAuction_season [OF found seasons]
  have seas: "\<forall>b \<in> set (st_bids s). bd_season_id b = season (bd_league_id b) (bd_auction_id b) \<and> bd_id b \<noteq> []"
    using ok by (simp add: bid_store_ok_def)
  have old: "distinct (map bd_id (st_bids s))"
    "distinct (map (\<lambda>b. (bd_league_id b, bd_auction_id b, bd_team_id b)) (st_bids s))"
    "\<forall>b \<in> set (st_bids s). bid_log_ok (bid_log s b) b"
    "\<forall>e \<in> set (st_events s). be_bid_id e \<in> bd_id ` set (st_bids s)"
    using ok by (simp_all add: bid_store_ok_def)
  show ?thesis
  proof (cases existingBid)
    case None
    have ev: "st_events s' = st_events s @ [bid_event_row c auction st (bc_bidId c) None]"
      using wr None by simp
    have bids: "st_bids s' = st_bids s @ [new_bid c auction st]" "bc_bidId c \<notin> bd_id ` set (st_bids s)"
      and free: "\<forall>r \<in> set (st_bids s). bd_league_id r = bc_leagueId c \<and> bd_auction_id r = bc_auctionId c \<longrightarrow>
        bd_team_id r = bc_teamId c \<longrightarrow> bd_status r \<noteq> ''active''"
      using wr None by (auto simp: write_bid_def split: if_splits)
    have id: "bd_id (new_bid c auction st) = bc_bidId c" "bd_league_id (new_bid c auction st) = bc_leagueId c"
      "bd_auction_id (new_bid c auction st) = bc_auctionId c" "bd_team_id (new_bid c auction st) = bc_teamId c"
      "bd_season_id (new_bid c auction st) = au_season_id auction"
      by (simp_all add: new_bid_def)
    have event_id: "be_bid_id (bid_event_row c auction st (bc_bidId c) None) = bc_bidId c"
      by (simp add: bid_event_row_def)
    have active: "bd_status b = ''active''" if "b \<in> set (st_bids s)" for b
      using old(3) that by (auto simp: bid_log_ok_def)
    have "bid_log s (new_bid c auction st) = []"
      using old(4) bids(2) unfolding bid_log_def filter_empty_conv id(1) by metis
    then have "bid_log_ok (bid_log s' (new_bid c auction st)) (new_bid c auction st)"
      using bid_log_submit dec None time by (simp add: bid_log_append [OF ev] event_id id)
    moreover have "bid_log s' b = bid_log s b" if "b \<in> set (st_bids s)" for b
      using that bids(2) by (auto simp: bid_log_append [OF ev] event_id)
    ultimately show ?thesis
      using old bids free active id event_id ev seas au nonempty by auto
  next
    case (Some b)
    have b: "b \<in> set (st_bids s)" "bd_league_id b = bc_leagueId c" "bd_auction_id b = bc_auctionId c"
      "bd_team_id b = bc_teamId c" "bd_status b = ''active''"
      using find_current_bid current Some by auto
    have edit: "edit_bid c auction k b = Inr st" using dec Some by simp
    have "update_matches c (bd_id b) b"
      using b edit [unfolded edit_bid_Inr] by (simp add: update_matches_def)
    then have bids: "st_bids s' = map (\<lambda>r. if bd_id r = bd_id b then edited_bid c st r else r) (st_bids s)"
      using wr Some old(1) b(1) by (intro write_bid_edit) auto
    have ev: "st_events s' = st_events s @ [bid_event_row c auction st (bd_id b) (Some b)]"
      using wr Some by simp
    have event_id: "be_bid_id (bid_event_row c auction st (bd_id b) (Some b)) = bd_id b"
      by (simp add: bid_event_row_def)
    have keys: "map bd_id (st_bids s') = map bd_id (st_bids s)"
      "map (\<lambda>b. (bd_league_id b, bd_auction_id b, bd_team_id b)) (st_bids s') =
       map (\<lambda>b. (bd_league_id b, bd_auction_id b, bd_team_id b)) (st_bids s)"
      unfolding bids by (rule map_if_edited; simp)+
    have logs: "bid_log_ok (bid_log s' r) r" if r: "r \<in> set (st_bids s')" for r
    proof -
      obtain q where q: "q \<in> set (st_bids s)" "r = (if bd_id q = bd_id b then edited_bid c st q else q)"
        using r unfolding bids by auto
      show ?thesis
      proof (cases "bd_id q = bd_id b")
        case True
        then have "q = b" using old(1) q(1) b(1) by (auto simp: distinct_map inj_on_def)
        with q(2) have r: "r = edited_bid c st b" by simp
        have "bid_log s (edited_bid c st b) = bid_log s b" by (simp add: bid_log_def)
        then show ?thesis
          unfolding r using bid_log_edit [OF _ edit bid_edit_limit_le_2 [OF ctx] time] old(3) b(1-3) seas au
          by (simp add: bid_log_append [OF ev] event_id)
      next
        case False
        with q old(3) show ?thesis by (simp add: bid_log_append [OF ev] event_id)
      qed
    qed
    have ids: "bd_id ` set (st_bids s') = bd_id ` set (st_bids s)" using keys(1) by (metis set_map)
    have "be_bid_id e \<in> bd_id ` set (st_bids s')" if "e \<in> set (st_events s')" for e
      using that old(4) b(1) event_id unfolding ids ev by auto
    moreover have "bd_season_id r = season (bd_league_id r) (bd_auction_id r) \<and> bd_id r \<noteq> []" if "r \<in> set (st_bids s')" for r
      using that seas unfolding bids by (auto simp: edited_bid_def)
    ultimately show ?thesis using old(1,2) keys logs by simp
  qed
qed

lemma accepted_write_ok:
  assumes ok: "bid_store_ok season s" and seasons: "seasons_fixed season env"
    and w: "accepted_write sha env s c auction participant existingBid st (s', r)"
  shows "bid_store_ok season s'"
proof -
  have wrote: "write_accepted_bid sha env s c auction participant existingBid st = Inr (s', r)"
    and fresh: "findIdempotency s c = []"
    using w by (simp_all add: accepted_write_def)
  note wr = write_accepted_bid_Inr [OF wrote]
  have "(bc_leagueId c, bc_actorUserId c, bc_idempotencyKey c) \<notin>
      (\<lambda>r. (rq_league_id r, rq_actor_user_id r, rq_client_key r)) ` set (st_requests s)"
    using fresh ok by (auto simp: findIdempotency_def filter_empty_conv bid_store_ok_def list_all_iff)
  moreover have "be_id (bid_event_row c auction st i o1) = bc_eventId c" for i o1
    by (simp add: bid_event_row_def)
  ultimately show ?thesis
    using wr ok written_bids [OF ok seasons w] unfolding bid_store_ok_def
    by (simp add: completed_request_def started_request_def)
qed

text \<open>Stores that any sequence of accepted or replayed puts reaches, in any environments.\<close>

inductive put_reachable :: "(string \<Rightarrow> string) \<Rightarrow> (string \<Rightarrow> string \<Rightarrow> string) \<Rightarrow> bid_store \<Rightarrow> bool"
  for sha season where
  initial: "put_reachable sha season \<lparr>st_bids = [], st_requests = [], st_events = [], st_participants = ps\<rparr>"
| put: "put_reachable sha season s \<Longrightarrow> seasons_fixed season env \<Longrightarrow>
    putBid sha env s input = Inr (s', r) \<Longrightarrow> put_reachable sha season s'"

lemma validated_bid_time:
  "validateAuctionBidCommand input = Inr c \<Longrightarrow>
     0 \<le> bc_occurredAtMs c \<and> bc_occurredAtMs c \<le> max_timestamp \<and> bc_bidId c \<noteq> [] \<and>
     bc_totalValueCents c = bc_aavCents c * bc_termYears c"
  by (auto simp: validateAuctionBidCommand_def bindE_Inr_iff if_Inl_eq_Inr Let_def
      bid_safeTimestamp_def safe_between_iff bid_stableId_def stable_id_iff validateBidOffer_def
      safe_from_iff dest: is_uuid_length)

lemma putBid_cases:
  assumes "putBid sha env s input = Inr (s', r)"
  obtains (replay) "s' = s" "pr_replayed r"
  | (written) c0 c auction participant existingBid st where
      "validateAuctionBidCommand input = Inr c0" "serverRecordedBinding c0 (Some auction) = Inr c"
      "accepted_write sha env s c auction participant existingBid st (s', r)"
proof -
  obtain c where c: "validateAuctionBidCommand input = Inr c"
    and put: "putTransaction sha env s c = Inr (s', r)"
    using assms by (auto simp: putBid_def bindE_Inr_iff from_policy_Inr)
  from put validated_bid_time [OF c] show thesis
    using replay written [OF c] by (blast elim: putTransaction_cases)
qed

lemma putBid_ok:
  assumes "bid_store_ok season s" "seasons_fixed season env" and "putBid sha env s input = Inr (s', r)"
  shows "bid_store_ok season s'"
  using assms(3) by (cases rule: putBid_cases) (use assms in \<open>auto intro: accepted_write_ok\<close>)

lemma put_reachable_ok: "put_reachable sha season s \<Longrightarrow> bid_store_ok season s"
proof (induction rule: put_reachable.induct)
  case initial
  then show ?case by (simp add: bid_store_ok_def)
next
  case put
  then show ?case by (blast intro: putBid_ok)
qed

end
