(* ===== verification/AuctionBidReplay.thy ===== *)
theory AuctionBidReplay
  imports AuctionBidRepository
begin

text \<open>
  Retries of a bid. A client that did not see the answer of \<^verbatim>\<open>putBid\<close> sends the command again
  with the same idempotency key; ids and time stamps are new. The theory shows that the retry, at
  any later time, answers from the event log exactly what the first call answered and writes
  nothing.
\<close>

section \<open>Later stores\<close>

inductive put_later :: "(string \<Rightarrow> string) \<Rightarrow> (string \<Rightarrow> string \<Rightarrow> string) \<Rightarrow> bid_store \<Rightarrow> bid_store \<Rightarrow> bool"
  for sha season s where
  same: "put_later sha season s s"
| put: "put_later sha season s s1 \<Longrightarrow> seasons_fixed season env \<Longrightarrow>
    putBid sha env s1 input = Inr (s2, r) \<Longrightarrow> put_later sha season s s2"

lemma putBid_appends:
  assumes "putBid sha env s input = Inr (s', r)"
  shows "(\<exists>es. st_events s' = st_events s @ es) \<and> (\<exists>rs. st_requests s' = st_requests s @ rs)"
  using assms
proof (cases rule: putBid_cases)
  case replay
  then show ?thesis by simp
next
  case (written c0 c auction participant existingBid st)
  then show ?thesis
    using write_accepted_bid_Inr by (fastforce simp: accepted_write_def)
qed

lemma put_later_appends:
  assumes "put_later sha season s s2" and "bid_store_ok season s"
  shows "bid_store_ok season s2 \<and> (\<exists>es. st_events s2 = st_events s @ es) \<and>
    (\<exists>rs. st_requests s2 = st_requests s @ rs)"
  using assms
proof (induction rule: put_later.induct)
  case same
  then show ?case by simp
next
  case (put s1 env input s2 r)
  from putBid_appends [OF put.hyps(3)] obtain es rs where
    "st_events s2 = st_events s1 @ es" "st_requests s2 = st_requests s1 @ rs" by blast
  then show ?case using put.IH [OF put.prems] putBid_ok [OF _ put.hyps(2,3)] by auto
qed

section \<open>One event per instant in the log of a bid\<close>

lemma filter_eq_singleton:
  assumes "distinct xs" "e \<in> set xs" "P e" and "\<And>x. x \<in> set xs \<Longrightarrow> P x \<Longrightarrow> x = e"
  shows "filter P xs = [e]"
proof -
  obtain ys zs where xs: "xs = ys @ e # zs" using split_list [OF assms(2)] by blast
  have "\<forall>x \<in> set ys. \<not> P x" "\<forall>x \<in> set zs. \<not> P x" using assms(1,4) unfolding xs by auto
  then show ?thesis using assms(3) by (simp add: xs filter_empty_conv)
qed

lemma spaced_inj:
  assumes "sorted_wrt (\<lambda>e f. be_occurred_at_ms e + cooldown_ms \<le> be_occurred_at_ms f) es"
    and "x \<in> set es" "y \<in> set es" "be_occurred_at_ms x = be_occurred_at_ms y"
  shows "x = y"
proof -
  have pos: "0 < cooldown_ms" by (simp add: cooldown_ms_def)
  obtain i j where ij: "i < length es" "x = es ! i" "j < length es" "y = es ! j"
    using assms(2,3) by (auto simp: in_set_conv_nth)
  have "\<not> i < j" "\<not> j < i"
    using sorted_wrt_nth_less [OF assms(1), of i j] sorted_wrt_nth_less [OF assms(1), of j i]
      ij assms(4) pos by auto
  then have "i = j" by simp
  with ij show ?thesis by simp
qed

lemma spaced_head_least:
  assumes "sorted_wrt (\<lambda>e f. be_occurred_at_ms e + cooldown_ms \<le> be_occurred_at_ms f) es"
    and "x \<in> set es"
  shows "be_occurred_at_ms (hd es) \<le> be_occurred_at_ms x"
proof -
  have "0 \<le> cooldown_ms" by (simp add: cooldown_ms_def)
  then show ?thesis using assms by (cases es) fastforce+
qed

lemma bid_log_facts:
  assumes "bid_store_ok season s" and "b \<in> set (st_bids s)"
  shows "bid_log_ok (bid_log s b) b"
  using assms by (simp add: bid_store_ok_def)

text \<open>The events that a retry looks up are the single event of the original command.\<close>

lemma replay_events_single:
  assumes ok: "bid_store_ok season s" and e: "e \<in> set (st_events s)"
    and type: "be_event_type e \<in> {''bid_submitted'', ''bid_edited''}"
    and match: "be_league_id e = bc_leagueId c" "Some (be_bid_id e) = rq_result_id rq"
      "be_actor_user_id e = bc_actorUserId c" "be_occurred_at_ms e = rq_created_at_ms rq"
  shows "findReplayEvents s c rq = [e]"
proof -
  obtain b where b: "b \<in> set (st_bids s)" "bd_id b = be_bid_id e"
    using ok e by (auto simp: bid_store_ok_def)
  have spaced: "sorted_wrt (\<lambda>e f. be_occurred_at_ms e + cooldown_ms \<le> be_occurred_at_ms f) (bid_log s b)"
    using bid_log_facts [OF ok b(1)] by (simp add: bid_log_ok_def)
  have only: "x = e" if "x \<in> set (st_events s)" "Some (be_bid_id x) = rq_result_id rq"
    "be_occurred_at_ms x = rq_created_at_ms rq" for x
  proof (rule spaced_inj [OF spaced])
    have "be_bid_id x = be_bid_id e" using that(2) match(2) by (metis option.inject)
    then show "x \<in> set (bid_log s b)" using that(1) b(2) by (simp add: bid_log_def)
    show "e \<in> set (bid_log s b)" using e b(2) by (simp add: bid_log_def)
    show "be_occurred_at_ms x = be_occurred_at_ms e" using that(3) match(4) by simp
  qed
  have "distinct (st_events s)" using ok by (simp add: bid_store_ok_def distinct_map)
  then have "filter (\<lambda>e. be_league_id e = bc_leagueId c \<and> Some (be_bid_id e) = rq_result_id rq \<and>
      be_actor_user_id e = bc_actorUserId c \<and> be_occurred_at_ms e = rq_created_at_ms rq \<and>
      be_event_type e \<in> {''bid_submitted'', ''bid_edited''}) (st_events s) = [e]"
    using e
  proof (rule filter_eq_singleton)
    show "x = e" if "x \<in> set (st_events s)" and "be_league_id x = bc_leagueId c \<and>
      Some (be_bid_id x) = rq_result_id rq \<and> be_actor_user_id x = bc_actorUserId c \<and>
      be_occurred_at_ms x = rq_created_at_ms rq \<and>
      be_event_type x \<in> {''bid_submitted'', ''bid_edited''}" for x
      using that by (intro only) (elim conjE, assumption)+
  qed (use type match in blast)
  then show ?thesis unfolding findReplayEvents_def by simp
qed

lemma event_first_submitted_log:
  assumes ok: "bid_store_ok season s" and b: "b \<in> set (st_bids s)" and e: "e \<in> set (bid_log s b)"
    and queue: "en_queued env e = None"
  shows "event_first_submitted env s e = Some (bd_first_submitted_at_ms b)"
proof -
  define f where "f = filter (\<lambda>f. be_league_id f = be_league_id e \<and> be_season_id f = be_season_id e \<and>
    be_auction_id f = be_auction_id e \<and> be_bid_id f = be_bid_id e \<and> be_team_id f = be_team_id e \<and>
    be_event_type f = ''bid_submitted'') (st_events s)"
  note log = bid_log_facts [OF ok b]
  have spaced: "sorted_wrt (\<lambda>e f. be_occurred_at_ms e + cooldown_ms \<le> be_occurred_at_ms f) (bid_log s b)"
    and ne: "bid_log s b \<noteq> []"
    and hd: "be_occurred_at_ms (hd (bid_log s b)) = bd_first_submitted_at_ms b"
      "be_event_type (hd (bid_log s b)) = ''bid_submitted''"
    and scope: "\<forall>e \<in> set (bid_log s b). be_league_id e = bd_league_id b \<and> be_season_id e = bd_season_id b \<and>
       be_auction_id e = bd_auction_id b \<and> be_team_id e = bd_team_id b"
    using log by (simp_all add: bid_log_ok_def list_all_iff)
  have id: "be_bid_id x = bd_id b" if "x \<in> set (bid_log s b)" for x using that by (simp add: bid_log_def)
  have "hd (bid_log s b) \<in> set (bid_log s b)" using ne by simp
  moreover from this have "hd (bid_log s b) \<in> set f"
    using scope e id [of e] hd(2) unfolding f_def by (auto simp: bid_log_def)
  moreover have "set f \<subseteq> set (bid_log s b)" using id [OF e] by (auto simp: f_def bid_log_def)
  ultimately have "Min (be_occurred_at_ms ` set f) = be_occurred_at_ms (hd (bid_log s b))" "f \<noteq> []"
    using spaced_head_least [OF spaced] by (auto intro!: Min_eqI)
  with hd(1) have "Min (be_occurred_at_ms ` set f) = bd_first_submitted_at_ms b" "f \<noteq> []" by simp_all
  then show ?thesis
    using queue by (simp add: event_first_submitted_def f_def [symmetric] min_occurred_def)
qed

section \<open>The event and the request that an accepted write leaves behind\<close>

definition same_payload :: "bid_command \<Rightarrow> bid_command \<Rightarrow> bool" where
  "same_payload c d \<longleftrightarrow>
     bc_auctionId c = bc_auctionId d \<and> bc_leagueId c = bc_leagueId d \<and> bc_teamId c = bc_teamId d \<and>
     bc_actorUserId c = bc_actorUserId d \<and> bc_actorMembershipId c = bc_actorMembershipId d \<and>
     bc_actorAuthority c = bc_actorAuthority d \<and> bc_aavCents c = bc_aavCents d \<and>
     bc_totalValueCents c = bc_totalValueCents d \<and> bc_termYears c = bc_termYears d \<and>
     bc_expectedBidVersion c = bc_expectedBidVersion d \<and> bc_idempotencyKey c = bc_idempotencyKey d"

lemma same_payload_hash: "same_payload c d \<Longrightarrow> createRequestHash sha c = createRequestHash sha d"
  by (simp add: same_payload_def createRequestHash_def)

text \<open>The event of an accepted write in the words that \<^verbatim>\<open>replayMetadata\<close> tests.\<close>

lemma bid_event_row_simps [simp]:
  "be_id (bid_event_row c au st i b) = bc_eventId c"
  "be_league_id (bid_event_row c au st i b) = bc_leagueId c"
  "be_season_id (bid_event_row c au st i b) = au_season_id au"
  "be_auction_id (bid_event_row c au st i b) = bc_auctionId c"
  "be_bid_id (bid_event_row c au st i b) = i"
  "be_team_id (bid_event_row c au st i b) = bc_teamId c"
  "be_actor_user_id (bid_event_row c au st i b) = bc_actorUserId c"
  "be_occurred_at_ms (bid_event_row c au st i b) = bc_occurredAtMs c"
  "be_event_type (bid_event_row c au st i b) =
     (if bs_action st = ''submitted'' then ''bid_submitted'' else ''bid_edited'')"
  "bm_actorAuthority (be_metadata (bid_event_row c au st i b)) = bc_actorAuthority c"
  "bm_actorMembershipId (be_metadata (bid_event_row c au st i b)) = bc_actorMembershipId c"
  "map_option sn_version (bm_before (be_metadata (bid_event_row c au st i b))) = map_option bd_version b"
  "bm_before (be_metadata (bid_event_row c au st i b)) = None \<longleftrightarrow> b = None"
  "sn_totalValueCents (event_after (bid_event_row c au st i b)) = bs_totalValueCents st"
  "sn_termYears (event_after (bid_event_row c au st i b)) = bs_termYears st"
  "sn_aavCents (event_after (bid_event_row c au st i b)) = Some (bs_aavCents st)"
  "sn_lowestOfferedAavCents (event_after (bid_event_row c au st i b)) = bs_lowestOfferedAavCents st"
  "sn_editCount (event_after (bid_event_row c au st i b)) = bs_editCount st"
  "sn_version (event_after (bid_event_row c au st i b)) = bs_nextVersion st"
  by (simp_all add: bid_event_row_def option.map_comp comp_def)

text \<open>What the accepted state says of the command.\<close>

lemma assertAuctionBidState_command:
  assumes "assertAuctionBidState c authority au existingBid participant = Inr st"
  shows "bs_aavCents st = bc_aavCents c \<and> bs_termYears st = bc_termYears c \<and>
    bs_totalValueCents st = bc_aavCents c * bc_termYears c \<and> 1 \<le> bc_termYears c \<and>
    rounded_aav (bc_aavCents c * bc_termYears c) (bc_termYears c) = bc_aavCents c \<and>
    safe (bc_aavCents c) \<and> bs_lowestOfferedAavCents st \<le> bc_aavCents c \<and>
    bs_nextVersion st = (case bc_expectedBidVersion c of None \<Rightarrow> 0 | Some v \<Rightarrow> v) + 1 \<and>
    map_option bd_version existingBid = bc_expectedBidVersion c \<and>
    bs_action st = (if bc_expectedBidVersion c = None then ''submitted'' else ''edited'')"
proof -
  obtain auction k where
    dec: "(case existingBid of None \<Rightarrow> submit_bid c k | Some b \<Rightarrow> edit_bid c auction k b) = Inr st"
    using assms unfolding assertAuctionBidState_Inr by blast
  have "rounded_aav (bc_aavCents c * bc_termYears c) (bc_termYears c) = bc_aavCents c"
    if "1 \<le> bc_termYears c" using that rounded_aav_exact by simp
  then show ?thesis
    using dec by (cases existingBid) (auto simp: submit_bid_Inr edit_bid_Inr bid_offer_ok_def)
qed

lemma payload_after_binding:
  assumes "serverRecordedBinding c (Some auction) = Inr c'"
  shows "same_payload c' c \<and> bc_occurredAtMs c' = bc_occurredAtMs c \<and>
    (isFadContext (Some auction) \<longrightarrow> bc_bindingIllegalityConfirmed c' = Some (JBool True))"
  using assms by (auto simp: serverRecordedBinding_def same_payload_def split: if_splits)

lemma requests_of_key:
  assumes ok: "bid_store_ok season s" and rq: "rq \<in> set (st_requests s)"
    and key: "rq_league_id rq = bc_leagueId c" "rq_actor_user_id rq = bc_actorUserId c"
      "rq_client_key rq = bc_idempotencyKey c"
  shows "findIdempotency s c = [rq]"
  unfolding findIdempotency_def
proof (rule filter_eq_singleton)
  have keys: "distinct (map (\<lambda>r. (rq_league_id r, rq_actor_user_id r, rq_client_key r)) (st_requests s))"
    and ops: "list_all (\<lambda>r. rq_operation r = put_operation) (st_requests s)"
    using ok by (simp_all add: bid_store_ok_def)
  show "distinct (st_requests s)" using keys by (simp add: distinct_map)
  show "rq \<in> set (st_requests s)" by (rule rq)
  show "rq_league_id rq = bc_leagueId c \<and> rq_actor_user_id rq = bc_actorUserId c \<and>
      rq_operation rq = put_operation \<and> rq_client_key rq = bc_idempotencyKey c"
    using key ops rq by (simp add: list_all_iff)
  show "x = rq" if "x \<in> set (st_requests s)"
    "rq_league_id x = bc_leagueId c \<and> rq_actor_user_id x = bc_actorUserId c \<and>
      rq_operation x = put_operation \<and> rq_client_key x = bc_idempotencyKey c" for x
    using inj_onD [of "\<lambda>r. (rq_league_id r, rq_actor_user_id r, rq_client_key r)" "set (st_requests s)" x rq]
      keys rq that key by (simp add: distinct_map)
qed

text \<open>The auction as the retry finds it: the same window, and still replayable if it was a draft auction.\<close>

definition same_auction :: "auction_row \<Rightarrow> auction_row \<Rightarrow> bool" where
  "same_auction a b \<longleftrightarrow>
     au_id a = au_id b \<and> au_league_id a = au_league_id b \<and> au_season_id a = au_season_id b \<and>
     au_opened_at_ms a = au_opened_at_ms b \<and> au_resolves_at_ms a = au_resolves_at_ms b \<and>
     au_source_kind a = au_source_kind b \<and>
     (isFadContext (Some b) \<longrightarrow> isReplayableFadBidContext b)"

text \<open>What is found later of an accepted write: its event, its row and its completed request.\<close>

lemma accepted_write_later:
  assumes ok: "bid_store_ok season s" and seasons: "seasons_fixed season env"
    and w: "accepted_write sha env s c auction participant existingBid st (s1, r1)"
    and later: "put_later sha season s1 s2"
  obtains e b rq where
    "bid_store_ok season s2" "e \<in> set (st_events s2)"
    "e = bid_event_row c auction st (bd_id b) existingBid"
    "b \<in> set (st_bids s1)" "r1 = safeWriteResult auction b (bs_action st)"
    "bd_total_value_cents b = bs_totalValueCents st" "bd_term_years b = bs_termYears st"
    "bd_last_edited_at_ms b = bc_occurredAtMs c" "bd_version b = bs_nextVersion st"
    "bd_edit_count b = bs_editCount st" "bd_status b = ''active''" "bd_team_id b = bc_teamId c"
    "100 \<le> bs_lowestOfferedAavCents st" "0 \<le> bs_editCount st" "bs_editCount st \<le> 2"
    "0 \<le> bd_first_submitted_at_ms b" "bd_first_submitted_at_ms b \<le> bc_occurredAtMs c"
    "bc_occurredAtMs c \<le> max_timestamp" "bd_id b \<noteq> []"
    "event_first_submitted env2 s2 e = Some (bd_first_submitted_at_ms b) \<or> en_queued env2 e \<noteq> None"
    "rq \<in> set (st_requests s2)" "rq = completed_request c (bd_id b) (started_request sha c)"
proof -
  have wrote: "write_accepted_bid sha env s c auction participant existingBid st = Inr (s1, r1)"
    and time: "bc_occurredAtMs c \<le> max_timestamp"
    using w by (simp_all add: accepted_write_def)
  obtain eff where
    ev: "st_events s1 = st_events s @ [bid_event_row c auction st eff existingBid]"
    and rq: "st_requests s1 = st_requests s @ [completed_request c eff (started_request sha c)]"
    and row: "\<exists>b \<in> set (st_bids s1). bd_id b = eff \<and> r1 = safeWriteResult auction b (bs_action st)"
    using write_accepted_bid_Inr [OF wrote] by blast
  obtain b where b: "b \<in> set (st_bids s1)" "bd_id b = eff" "r1 = safeWriteResult auction b (bs_action st)"
    using row by blast
  define e where "e = bid_event_row c auction st eff existingBid"
  have ok1: "bid_store_ok season s1" using ok seasons w by (rule accepted_write_ok)
  have log1: "bid_log s1 b = bid_log s b @ [e]" by (simp add: bid_log_append [OF ev] e_def b(2))
  note logok = bid_log_facts [OF ok1 b(1), unfolded bid_log_ok_def]
  have last: "last (bid_log s1 b) = e" by (simp add: log1)
  have head: "hd (bid_log s1 b) \<in> set (bid_log s1 b)" by (rule hd_in_set) (simp add: log1)
  obtain es rs where s2: "bid_store_ok season s2" "st_events s2 = st_events s1 @ es"
    "st_requests s2 = st_requests s1 @ rs"
    using put_later_appends [OF later ok1] by blast
  have e2: "e \<in> set (st_events s2)" by (simp add: s2(2) ev e_def)
  obtain b2 where b2: "b2 \<in> set (st_bids s2)" "bd_id b2 = eff"
    using s2(1) e2 by (auto simp: bid_store_ok_def e_def)
  have log2: "bid_log s2 b2 = bid_log s1 b @ filter (\<lambda>e. be_bid_id e = eff) es"
    by (simp add: bid_log_def s2(2) b(2) b2(2))
  then have "hd (bid_log s2 b2) = hd (bid_log s1 b)" using log1 by (simp add: hd_append)
  then have first: "bd_first_submitted_at_ms b2 = bd_first_submitted_at_ms b"
    using logok bid_log_facts [OF s2(1) b2(1), unfolded bid_log_ok_def] by metis
  have "e \<in> set (bid_log s2 b2)" by (simp add: log2 log1)
  then have fs: "event_first_submitted env2 s2 e = Some (bd_first_submitted_at_ms b) \<or> en_queued env2 e \<noteq> None"
    using event_first_submitted_log [OF s2(1) b2(1), of e env2] first by (cases "en_queued env2 e") simp_all
  have vers: "map (\<lambda>e. sn_version (event_after e)) (bid_log s1 b) =
      map (\<lambda>i. int i + 1) [0..<length (bid_log s1 b)]"
    and len: "int (length (bid_log s1 b)) = bd_version b"
    using logok by blast+
  have "sn_version (event_after (last (bid_log s1 b))) = bd_version b"
    using arg_cong [OF vers, of last] len by (simp add: log1 last_map)
  then have v: "bd_version b = bs_nextVersion st" by (simp add: last e_def)
  have ev_last: "be_occurred_at_ms e = bd_last_edited_at_ms b"
    "sn_totalValueCents (event_after e) = bd_total_value_cents b"
    "sn_termYears (event_after e) = bd_term_years b"
    "sn_lowestOfferedAavCents (event_after e) = bd_lowest_offered_aav_cents b"
    "sn_editCount (event_after e) = bd_edit_count b"
    using logok unfolding last by blast+
  have eb: "be_occurred_at_ms e = bc_occurredAtMs c" "sn_totalValueCents (event_after e) = bs_totalValueCents st"
    "sn_termYears (event_after e) = bs_termYears st"
    "sn_lowestOfferedAavCents (event_after e) = bs_lowestOfferedAavCents st"
    "sn_editCount (event_after e) = bs_editCount st" "be_team_id e = bc_teamId c"
    by (simp_all add: e_def)
  have team: "bd_team_id b = bc_teamId c"
    using logok eb(6) by (simp add: log1)
  have count: "bd_version b = bd_edit_count b + 1" "bd_edit_count b \<le> 2" "1 \<le> bd_version b"
    "100 \<le> bd_lowest_offered_aav_cents b" "bd_status b = ''active''"
    using logok len by (simp_all add: log1)
  have spaced: "sorted_wrt (\<lambda>e f. be_occurred_at_ms e + cooldown_ms \<le> be_occurred_at_ms f) (bid_log s1 b)"
    and hd: "be_occurred_at_ms (hd (bid_log s1 b)) = bd_first_submitted_at_ms b"
    and pos: "\<forall>e \<in> set (bid_log s1 b). 0 \<le> be_occurred_at_ms e"
    using logok by (simp_all add: list_all_iff)
  have "0 \<le> bd_first_submitted_at_ms b" using pos head hd by metis
  moreover have "bd_first_submitted_at_ms b \<le> bc_occurredAtMs c"
    using spaced_head_least [OF spaced, of e] hd eb(1) by (simp add: log1)
  moreover have "bd_id b \<noteq> []" using ok1 b(1) by (simp add: bid_store_ok_def)
  moreover have "completed_request c eff (started_request sha c) \<in> set (st_requests s2)"
    by (simp add: s2(3) rq)
  ultimately show thesis
    using s2(1) e2 b ev_last eb team count v time fs
    by (intro that [of e b "completed_request c eff (started_request sha c)"]) (simp_all add: e_def)
qed

section \<open>The retry\<close>

lemma safeWriteResult_replayed:
  "(safeWriteResult auction b act)\<lparr>pr_replayed := True\<rparr> =
     \<lparr>pr_replayed = True, pr_action = act, pr_auctionId = au_id auction,
      pr_leagueId = au_league_id auction, pr_seasonId = au_season_id auction,
      pr_auctionStatus = au_status auction, pr_openedAtMs = au_opened_at_ms auction,
      pr_bidClosesAtMs = au_resolves_at_ms auction, pr_bidId = bd_id b, pr_teamId = bd_team_id b,
      pr_totalValueCents = bd_total_value_cents b, pr_termYears = bd_term_years b,
      pr_aavCents = rounded_aav (bd_total_value_cents b) (bd_term_years b),
      pr_firstSubmittedAtMs = bd_first_submitted_at_ms b, pr_lastEditedAtMs = bd_last_edited_at_ms b,
      pr_editCount = bd_edit_count b, pr_bidStatus = bd_status b, pr_version = bd_version b\<rparr>"
  by (simp add: safeWriteResult_def)

lemma accepted_write_replays:
  assumes ok: "bid_store_ok season s" and seasons: "seasons_fixed season env"
    and w: "accepted_write sha env s c auction participant existingBid st (s1, r1)"
    and later: "put_later sha season s1 s2" and total: "bc_totalValueCents c = bc_aavCents c * bc_termYears c"
    and retry: "same_payload d c" and au: "same_auction auction auction2"
    and binding: "isFadContext (Some auction2) \<longrightarrow> bc_bindingIllegalityConfirmed d = Some (JBool True)"
    and queue: "\<And>e. en_queued env2 e = None"
  shows "\<exists>rq. findIdempotency s2 d = [rq] \<and> rq_request_hash rq = createRequestHash sha d \<and>
    rq_status rq = ''completed'' \<and> (\<exists>i. rq_result_id rq = Some i \<and> i \<noteq> []) \<and>
    rq_result_type rq = Some ''auction_bid'' \<and>
    replayResult env2 s2 d rq auction2 = Inr (r1\<lparr>pr_replayed := True\<rparr>)"
proof -
  obtain e b rq where
    ok2: "bid_store_ok season s2" and e2: "e \<in> set (st_events s2)"
    and e: "e = bid_event_row c auction st (bd_id b) existingBid"
    and b: "b \<in> set (st_bids s1)" and r1: "r1 = safeWriteResult auction b (bs_action st)"
    and row: "bd_total_value_cents b = bs_totalValueCents st" "bd_term_years b = bs_termYears st"
    "bd_last_edited_at_ms b = bc_occurredAtMs c" "bd_version b = bs_nextVersion st"
    "bd_edit_count b = bs_editCount st" "bd_status b = ''active''" "bd_team_id b = bc_teamId c"
    and low: "100 \<le> bs_lowestOfferedAavCents st" and count: "0 \<le> bs_editCount st" "bs_editCount st \<le> 2"
    and first: "0 \<le> bd_first_submitted_at_ms b" "bd_first_submitted_at_ms b \<le> bc_occurredAtMs c"
    and time: "bc_occurredAtMs c \<le> max_timestamp" and id: "bd_id b \<noteq> []"
    and submitted: "event_first_submitted env2 s2 e = Some (bd_first_submitted_at_ms b) \<or> en_queued env2 e \<noteq> None"
    and rq2: "rq \<in> set (st_requests s2)" and rq: "rq = completed_request c (bd_id b) (started_request sha c)"
    using accepted_write_later [OF ok seasons w later, of env2] by metis
  obtain authority where
    st: "assertAuctionBidState c authority (Some auction) existingBid participant = Inr st"
    and found: "findAuction env c = [auction]"
    using w unfolding accepted_write_def by blast
  note cmd = assertAuctionBidState_command [OF st]
  have opened: "au_status auction = ''open''" using st unfolding assertAuctionBidState_Inr by auto
  have aid: "au_league_id auction = bc_leagueId c" "au_id auction = bc_auctionId c"
    using findAuction_season [OF found seasons] by auto
  note pay = retry [unfolded same_payload_def]
  have rqf: "rq_league_id rq = bc_leagueId c" "rq_actor_user_id rq = bc_actorUserId c"
    "rq_client_key rq = bc_idempotencyKey c" "rq_request_hash rq = createRequestHash sha c"
    "rq_status rq = ''completed''" "rq_result_type rq = Some ''auction_bid''"
    "rq_result_id rq = Some (bd_id b)" "rq_created_at_ms rq = bc_occurredAtMs c"
    "rq_completed_at_ms rq = Some (bc_occurredAtMs c)"
    by (simp_all add: rq completed_request_def started_request_def)
  have idem: "findIdempotency s2 d = [rq]"
    using requests_of_key [OF ok2 rq2, of d] rqf pay by simp
  have events: "findReplayEvents s2 d rq = [e]"
    using pay rqf by (intro replay_events_single [OF ok2 e2]) (simp_all add: e)
  have small: "safe (bs_lowestOfferedAavCents st)" "safe (bs_editCount st)" "safe (bd_first_submitted_at_ms b)"
    using cmd low count first time by (auto simp: safe_def max_safe_def max_timestamp_def)
  have season: "au_season_id auction2 = au_season_id auction" using au by (simp add: same_auction_def)
  have fst: "event_first_submitted env2 s2 e = Some (bd_first_submitted_at_ms b)"
    using submitted queue by simp
  have tot: "bc_totalValueCents d = bc_aavCents c * bc_termYears c" using total pay by simp
  have "replayMetadata env2 s2 e d rq auction2 = Some (bd_first_submitted_at_ms b)"
    using cmd small first(2) binding season
    unfolding replayMetadata_def fst rqf Let_def
    by (simp add: e pay total) (auto simp: pay)
  then have "replayResult env2 s2 d rq auction2 = Inr (r1\<lparr>pr_replayed := True\<rparr>)"
    using cmd au row opened pay unfolding r1 safeWriteResult_replayed
    by (simp add: replayResult_def events List.map_filter_simps rqf Let_def same_auction_def) (simp add: e)
  with idem rqf id same_payload_hash [OF retry] show ?thesis by auto
qed

section \<open>Properties\<close>

lemma authority_after_binding:
  assumes "serverRecordedBinding d au = Inr d'"
  shows "requireCurrentAuthority env d' = requireCurrentAuthority env d"
proof -
  have "bid_authorized (d\<lparr>bc_bindingIllegalityConfirmed := k\<rparr>) x = bid_authorized d x" for k x
    by (cases x) (simp_all add: bid_authorized_def)
  then show ?thesis using serverRecordedBinding_Inr [OF assms]
    by (auto simp: requireCurrentAuthority_def cong: option.case_cong)
qed

lemma binding_recorded_again:
  assumes "serverRecordedBinding c (Some auction) = Inr c'"
    and "bc_bindingIllegalityConfirmed d = bc_bindingIllegalityConfirmed c" and "same_auction auction auction2"
  obtains d' where "serverRecordedBinding d (Some auction2) = Inr d'"
  using assms by (auto simp: serverRecordedBinding_def same_auction_def isFadContext_def split: if_splits)



text \<open>A concrete ordinary auction: one team submits its bid and retries a minute later.\<close>

definition sample_bid_input :: "char \<Rightarrow> int \<Rightarrow> jsval" where
  "sample_bid_input i now = JObj
     [(''auctionId'', JStr (sample_id CHR ''1'')),
      (''bidId'', JStr (sample_id i)),
      (''eventId'', JStr (sample_id i)),
      (''idempotencyRequestId'', JStr (sample_id i)),
      (''leagueId'', JStr (sample_id CHR ''2'')),
      (''teamId'', JStr (sample_id CHR ''3'')),
      (''actorUserId'', JStr (sample_id CHR ''4'')),
      (''actorMembershipId'', JStr (sample_id CHR ''5'')),
      (''actorAuthority'', JStr ''manager''),
      (''aavCents'', JInt 175),
      (''termYears'', JInt 2),
      (''expectedBidVersion'', JNull),
      (''idempotencyKey'', JStr ''k''),
      (''occurredAtMs'', JInt now),
      (''idempotencyExpiresAtMs'', JInt 900000)]"

definition sample_bid_command :: "char \<Rightarrow> int \<Rightarrow> bid_command" where
  "sample_bid_command i now =
     \<lparr>bc_auctionId = sample_id CHR ''1'', bc_bidId = sample_id i, bc_eventId = sample_id i,
      bc_idempotencyRequestId = sample_id i, bc_leagueId = sample_id CHR ''2'',
      bc_teamId = sample_id CHR ''3'', bc_actorUserId = sample_id CHR ''4'',
      bc_actorMembershipId = sample_id CHR ''5'', bc_actorAuthority = ''manager'',
      bc_totalValueCents = 350, bc_termYears = 2, bc_aavCents = 175, bc_expectedBidVersion = None,
      bc_idempotencyKey = ''k'', bc_occurredAtMs = now, bc_idempotencyExpiresAtMs = 900000,
      bc_bindingIllegalityConfirmed = None\<rparr>"

lemma sample_bid_validates:
  assumes "hex_char i" "0 \<le> now" "now \<le> 80000"
  shows "validateAuctionBidCommand (sample_bid_input i now) = Inr (sample_bid_command i now)"
proof -
  have "bid_safeTimestamp (JInt n) = Inr n" if "0 \<le> n" "n \<le> 900000" for n
    using that by (simp add: bid_safeTimestamp_def safe_between_iff safe_def max_safe_def max_timestamp_def)
  moreover have "validateBidOffer (JInt 175) (JInt 2) False =
      Inr \<lparr>cc_totalValueCents = 350, cc_termYears = 2, cc_aavCents = 175\<rparr>"
    by (simp add: validateBidOffer_iff safe_def max_safe_def)
  moreover have "boundedIdempotencyKey (JStr ''k'') = Inr ''k''"
    by (simp add: boundedIdempotencyKey_def bounded_text_iff is_bounded_text_def trim_def js_space_def
        control_char_def)
  moreover have "hex_char c" if "c \<in> set ''12345''" for c using that by (auto simp: hex_char_def)
  ultimately show ?thesis
    using assms
    by (simp add: validateAuctionBidCommand_def sample_bid_input_def sample_bid_command_def
        bid_command_keys_def bid_stableId_def one_of_def bid_optionalVersion_def nullable_def)
qed

definition sample_auction :: auction_row where
  "sample_auction =
     \<lparr>au_id = sample_id CHR ''1'', au_league_id = sample_id CHR ''2'', au_season_id = sample_id CHR ''6'',
      au_status = ''open'', au_opened_at_ms = 10, au_resolves_at_ms = 500000,
      au_source_kind = ''ordinary_weekly'', au_fad_id = None, au_fad_allocation_id = None,
      au_fad_origin = None, au_allocation_status = None, au_restricted_auction_id = None,
      au_fallback_open_auction_id = None, au_restricted_minimum_total_cents = None,
      au_restricted_minimum_term_years = None, au_restricted_minimum_aav_cents = None,
      au_fad_started_event_count = 0, au_fad_starter_bid_count = 0, au_fad_starter_bid_id = None,
      au_fad_starter_team_id = None, au_queued_starter_count = 0, au_queued_starter_bid_id = None,
      au_queued_starter_team_id = None\<rparr>"

definition sample_bid_authority :: bid_authority where
  "sample_bid_authority =
     \<lparr>ba_league_status = ''active'', ba_user_status = ''active'', ba_membership_permission = Some ''manager'',
      ba_membership_status = Some ''active'', ba_membership_joined_at_ms = Some 1,
      ba_membership_ended_at_ms = None, ba_team_id = sample_id CHR ''3'', ba_team_status = ''active'',
      ba_assignment_status = Some ''accepted'', ba_assignment_accepted_at_ms = Some 2,
      ba_assignment_ended_at_ms = None\<rparr>"

definition sample_bid_env :: bid_env where
  "sample_bid_env =
     \<lparr>en_auctions = [sample_auction], en_authority = (\<lambda>_ _ _ _. [sample_bid_authority]),
      en_queued = (\<lambda>_. None), en_accepts = (\<lambda>_. True)\<rparr>"

abbreviation empty_bid_store :: bid_store where
  "empty_bid_store \<equiv> \<lparr>st_bids = [], st_requests = [], st_events = [], st_participants = []\<rparr>"

lemma sample_bid_queries:
  "findAuction sample_bid_env (sample_bid_command i now) = [sample_auction]"
  "findIdempotency empty_bid_store c = []" "findParticipant empty_bid_store c = []"
  "findCurrentTeamBid empty_bid_store c = []"
  "serverRecordedBinding c (Some sample_auction) = Inr c"
  "en_queued sample_bid_env e = None" "isFadContext (Some sample_auction) = False"
  by (simp_all add: findAuction_def sample_bid_env_def sample_auction_def sample_bid_command_def
      findIdempotency_def findParticipant_def findCurrentTeamBid_def serverRecordedBinding_def isFadContext_def)

lemma sample_bid_authorized:
  assumes "10 \<le> now"
  shows "bid_authorized (sample_bid_command i now) (Some sample_bid_authority)"
    and "requireCurrentAuthority sample_bid_env (sample_bid_command i now) = Inr sample_bid_authority"
proof -
  show *: "bid_authorized (sample_bid_command i now) (Some sample_bid_authority)"
    using assms by (simp add: bid_authorized_def sample_bid_command_def sample_bid_authority_def
        happened_by_def safe_def max_safe_def)
  show "requireCurrentAuthority sample_bid_env (sample_bid_command i now) = Inr sample_bid_authority"
    using * by (simp add: requireCurrentAuthority_def sample_bid_env_def unique_row_def)
qed

lemma sample_bid_submitted:
  "\<exists>s1 r1. putBid sha sample_bid_env empty_bid_store (sample_bid_input CHR ''7'' 20) = Inr (s1, r1) \<and>
     \<not> pr_replayed r1"
proof -
  have valid: "validateAuctionBidCommand (sample_bid_input CHR ''7'' 20) = Inr (sample_bid_command CHR ''7'' 20)"
    by (rule sample_bid_validates) (simp_all add: hex_char_def)
  have ctx: "bidContext c sample_auction p = Inr OrdinaryBid" for c p
    by (simp add: bidContext_def sample_auction_def)
  have "\<exists>st. submit_bid (sample_bid_command CHR ''7'' 20) OrdinaryBid = Inr st"
    by (simp add: submit_bid_def sample_bid_command_def validateBidOffer_def safe_between_def safe_from_def
        safe_def max_safe_def joining_minimum_totals_def assertContextOffer_def)
  then obtain st where "submit_bid (sample_bid_command CHR ''7'' 20) OrdinaryBid = Inr st" by blast
  then have st: "assertAuctionBidState (sample_bid_command CHR ''7'' 20) (Some sample_bid_authority)
      (Some sample_auction) None None = Inr st"
    unfolding assertAuctionBidState_Inr
    using sample_bid_authorized(1) [of 20 "CHR ''7''"] ctx
    by (simp add: sample_auction_def sample_bid_command_def safe_def max_safe_def)
  have ordinary: "au_source_kind sample_auction = ''ordinary_weekly''"
    "isSupportedFadBidContext (Some sample_auction) = False"
    "bc_bindingIllegalityConfirmed (sample_bid_command CHR ''7'' 20) = None"
    by (simp_all add: sample_auction_def isSupportedFadBidContext_def isNominatedOpenRapidBidContext_def
        sample_bid_command_def)
  have "\<exists>s1 r1. write_accepted_bid sha sample_bid_env empty_bid_store (sample_bid_command CHR ''7'' 20)
      sample_auction None None st = Inr (s1, r1)"
    by (simp add: write_accepted_bid_def write_bid_def write_participant_def ordinary unique_row_def
        new_bid_def Let_def sample_bid_env_def)
  then obtain s1 r1 where w: "write_accepted_bid sha sample_bid_env empty_bid_store
      (sample_bid_command CHR ''7'' 20) sample_auction None None st = Inr (s1, r1)" by blast
  then have "\<not> pr_replayed r1" using write_accepted_bid_Inr [OF w] by (auto simp: safeWriteResult_def)
  moreover have "putBid sha sample_bid_env empty_bid_store (sample_bid_input CHR ''7'' 20) = Inr (s1, r1)"
    by (simp add: putBid_def valid from_policy_def putTransaction_def sample_bid_queries unique_row_def
        ordinary sample_bid_authorized st w)
  ultimately show ?thesis by blast
qed

lemma sample_reachable: "put_reachable sha season empty_bid_store"
  by (rule put_reachable.initial)

abbreviation sample_season :: "string \<Rightarrow> string \<Rightarrow> string" where
  "sample_season \<equiv> (\<lambda>_ _. sample_id CHR ''6'')"

lemma sample_seasons: "seasons_fixed sample_season sample_bid_env"
  by (simp add: seasons_fixed_def sample_bid_env_def sample_auction_def)


text \<open>The store after a submission is reachable.\<close>

lemma sample_store_reachable:
  "\<exists>s1 r1. putBid sha sample_bid_env empty_bid_store (sample_bid_input CHR ''7'' 20) = Inr (s1, r1) \<and>
     put_reachable sha sample_season s1 \<and> length (st_bids s1) = 1"
proof -
  obtain s1 r1 where put: "putBid sha sample_bid_env empty_bid_store (sample_bid_input CHR ''7'' 20) = Inr (s1, r1)"
    "\<not> pr_replayed r1" using sample_bid_submitted [of sha] by blast
  have "put_reachable sha sample_season s1"
    using sample_reachable sample_seasons put(1) by (rule put_reachable.put)
  moreover have "length (st_bids s1) = 1"
    using put(1)
  proof (cases rule: putBid_cases)
    case (written c0 c auction participant existingBid st)
    then have w: "findCurrentTeamBid empty_bid_store c = (case existingBid of None \<Rightarrow> [] | Some b \<Rightarrow> [b])"
      "write_accepted_bid sha sample_bid_env empty_bid_store c auction participant existingBid st = Inr (s1, r1)"
      by (simp_all add: accepted_write_def)
    then show ?thesis
      using write_accepted_bid_Inr [OF w(2)]
      by (cases existingBid) (auto simp: findCurrentTeamBid_def write_bid_def dest!: arg_cong [of _ _ length])
  qed (use put(2) in simp)
  ultimately show ?thesis using put(1) by blast
qed


end
