(* ===== verification/AuctionResolution.thy ===== *)
theory AuctionResolution
  imports Validation Ordering
begin

text \<open>
  \<^verbatim>\<open>src/src/domain/auctions/auctionResolutionPolicy.js\<close> and
  \<^verbatim>\<open>actualWinningOfferPolicy.js\<close>: which bid wins an auction and what it pays. Bids and history
  events are JavaScript values as the repository passes them (without symbols, functions and
  bigints, on which the arithmetic of the code would throw). The price is the lowest offer that the
  winner really made and that still beats the runner-up.
\<close>

section \<open>Errors and field checks\<close>

datatype resolution_code =
    ResInputInvalid
  | ResAuctionInvalid
  | ResBidInvalid
  | ResBidScopeInvalid
  | ResBidDuplicate
  | ResBidInactive
  | ResTeamInactive
  | ResAuthorityInvalid
  | ResValueInvalid
  | ResLowestAavInvalid
  | ResLowestTotalInvalid

fun resolution_code_text :: "resolution_code \<Rightarrow> string" where
  "resolution_code_text ResInputInvalid = ''AUCTION_RESOLUTION_INPUT_INVALID''"
| "resolution_code_text ResAuctionInvalid = ''AUCTION_RESOLUTION_AUCTION_INVALID''"
| "resolution_code_text ResBidInvalid = ''AUCTION_RESOLUTION_BID_INVALID''"
| "resolution_code_text ResBidScopeInvalid = ''AUCTION_RESOLUTION_BID_SCOPE_INVALID''"
| "resolution_code_text ResBidDuplicate = ''AUCTION_RESOLUTION_BID_DUPLICATE''"
| "resolution_code_text ResBidInactive = ''AUCTION_RESOLUTION_BID_INACTIVE''"
| "resolution_code_text ResTeamInactive = ''AUCTION_RESOLUTION_TEAM_INACTIVE''"
| "resolution_code_text ResAuthorityInvalid = ''AUCTION_RESOLUTION_AUTHORITY_INVALID''"
| "resolution_code_text ResValueInvalid = ''AUCTION_RESOLUTION_VALUE_INVALID''"
| "resolution_code_text ResLowestAavInvalid = ''AUCTION_RESOLUTION_LOWEST_AAV_INVALID''"
| "resolution_code_text ResLowestTotalInvalid = ''AUCTION_RESOLUTION_LOWEST_TOTAL_INVALID''"

text \<open>A policy error, or the \<^verbatim>\<open>TypeError\<close> of the pricing when no offer qualifies.\<close>

datatype resolution_failure = ResolutionError resolution_code | NoActualWinningOffer

text \<open>This module compares the sorted keys joined with a bar.\<close>

definition res_exactObject :: "string list \<Rightarrow> resolution_code \<Rightarrow> jsval \<Rightarrow> resolution_code + unit" where
  "res_exactObject ks code v = (case v of
     JObj ps \<Rightarrow> if join ''|'' (sort (map fst ps)) = join ''|'' (sort ks) then Inr () else Inl code
   | _ \<Rightarrow> Inl code)"

lemma res_exactObject_same_keys [simp]:
  "map fst ps = ks \<Longrightarrow> res_exactObject ks code (JObj ps) = Inr ()"
  by (simp add: res_exactObject_def)

definition res_safeTimestamp :: "resolution_code \<Rightarrow> jsval \<Rightarrow> resolution_code + int" where
  "res_safeTimestamp code = safe_between code 0 max_timestamp"

definition res_boolean :: "resolution_code \<Rightarrow> jsval \<Rightarrow> resolution_code + bool" where
  "res_boolean code v = (case v of JBool b \<Rightarrow> Inr b | _ \<Rightarrow> Inl code)"

lemma res_boolean_iff [check_iffs]: "res_boolean code v = Inr b \<longleftrightarrow> v = JBool b"
  by (cases v) (auto simp: res_boolean_def)

definition res_string :: "resolution_code \<Rightarrow> jsval \<Rightarrow> resolution_code + string" where
  "res_string code v = (case v of JStr s \<Rightarrow> Inr s | _ \<Rightarrow> Inl code)"

lemma res_string_iff [check_iffs]: "res_string code v = Inr s \<longleftrightarrow> v = JStr s"
  by (cases v) (auto simp: res_string_def)

section \<open>Values\<close>

record res_offer =
  ro_totalValueCents :: int
  ro_termYears :: int
  ro_aavCents :: int

definition res_calculateAavCents :: "jsval \<Rightarrow> jsval \<Rightarrow> resolution_code + int" where
  "res_calculateAavCents totalValueCents termYears =
     bindE (safe_from ResValueInvalid 1 totalValueCents) (\<lambda>tot.
     bindE (safe_between ResValueInvalid 1 3 termYears) (\<lambda>y.
     Inr (rounded_aav tot y)))"

definition validateSubmittedValue :: "jsval \<Rightarrow> jsval \<Rightarrow> resolution_code + res_offer" where
  "validateSubmittedValue totalValueCents termYears =
     bindE (safe_between ResValueInvalid 1 3 termYears) (\<lambda>y.
     bindE (safe_from ResValueInvalid (y * 100) totalValueCents) (\<lambda>tot.
     let isLegacyOffer = (y = 1 \<or> tot mod 100 = 0);
         isAavFirstOffer = (tot mod y = 0 \<and> (tot div y) mod 25 = 0) in
     if \<not> isLegacyOffer \<and> \<not> isAavFirstOffer then Inl ResValueInvalid
     else
     bindE (res_calculateAavCents (JInt tot) (JInt y)) (\<lambda>aav.
     Inr \<lparr>ro_totalValueCents = tot, ro_termYears = y, ro_aavCents = aav\<rparr>)))"

definition minimumAuctionTotalCents :: "int \<Rightarrow> jsval \<Rightarrow> resolution_code + int" where
  "minimumAuctionTotalCents termYears isStartingBid =
     (if termYears \<notin> {1, 2, 3} then Inl ResValueInvalid
      else
      bindE (res_boolean ResValueInvalid isStartingBid) (\<lambda>starting.
      Inr (if starting then termYears * 100
           else if termYears = 1 then 150 else if termYears = 2 then 300 else 500)))"

definition smallestValidTotalCents :: "jsval \<Rightarrow> jsval \<Rightarrow> resolution_code + int" where
  "smallestValidTotalCents requiredAavCents termYears =
     bindE (safe_from ResValueInvalid 1 requiredAavCents) (\<lambda>required.
     bindE (safe_between ResValueInvalid 1 3 termYears) (\<lambda>y.
     let rawNumerator = (2 * required - 1) * y;
         total0 = (rawNumerator + 1) div 2;
         minimum = y * 100;
         total1 = (if total0 < minimum then minimum else total0);
         total2 = (if 1 < y then ((total1 + 99) div 100) * 100 else total1) in
     if max_safe < total2 then Inl ResValueInvalid else Inr total2))"

section \<open>The auction and its bids\<close>

record res_auction =
  ra_id :: string
  ra_leagueId :: string
  ra_playerId :: string
  ra_status :: string
  ra_resolvesAtMs :: int
  ra_playoffsStartAtMs :: "int option"
  ra_playerOwned :: bool
  ra_nowMs :: int

definition res_auction_keys :: "string list" where
  "res_auction_keys =
     [''id'', ''leagueId'', ''playerId'', ''status'', ''resolvesAtMs'', ''playoffsStartAtMs'',
      ''playerOwned'', ''nowMs'']"

definition canonicalAuction :: "jsval \<Rightarrow> resolution_code + res_auction" where
  "canonicalAuction input =
     bindE (res_exactObject res_auction_keys ResAuctionInvalid input) (\<lambda>_.
     bindE (res_string ResAuctionInvalid (fld input ''status'')) (\<lambda>status.
     bindE (res_boolean ResAuctionInvalid (fld input ''playerOwned'')) (\<lambda>playerOwned.
     bindE (stable_id ResAuctionInvalid (fld input ''id'')) (\<lambda>aid.
     bindE (stable_id ResAuctionInvalid (fld input ''leagueId'')) (\<lambda>leagueId.
     bindE (stable_id ResAuctionInvalid (fld input ''playerId'')) (\<lambda>playerId.
     bindE (res_safeTimestamp ResAuctionInvalid (fld input ''resolvesAtMs'')) (\<lambda>resolvesAtMs.
     bindE (nullable (res_safeTimestamp ResAuctionInvalid) (fld input ''playoffsStartAtMs'')) (\<lambda>playoffsStartAtMs.
     bindE (res_safeTimestamp ResAuctionInvalid (fld input ''nowMs'')) (\<lambda>nowMs.
     Inr \<lparr>ra_id = aid, ra_leagueId = leagueId, ra_playerId = playerId, ra_status = status,
          ra_resolvesAtMs = resolvesAtMs, ra_playoffsStartAtMs = playoffsStartAtMs,
          ra_playerOwned = playerOwned, ra_nowMs = nowMs\<rparr>)))))))))"

record res_bid =
  rb_id :: string
  rb_leagueId :: string
  rb_auctionId :: string
  rb_teamId :: string
  rb_totalValueCents :: int
  rb_termYears :: int
  rb_aavCents :: int
  rb_lowestOfferedAavCents :: int
  rb_lowestOfferedTotalValueCents :: int
  rb_firstSubmittedAtMs :: int

record skipped_bid =
  sk_bidId :: "string option"
  sk_reasonCode :: resolution_code

definition res_bid_keys :: "string list" where
  "res_bid_keys =
     [''id'', ''leagueId'', ''auctionId'', ''teamId'', ''status'', ''teamStatus'', ''totalValueCents'',
      ''termYears'', ''lowestOfferedAavCents'', ''lowestOfferedTotalValueCents'',
      ''firstSubmittedAtMs'', ''isStartingBid'', ''authorityValid'']"

text \<open>The body of the \<^verbatim>\<open>try\<close> block after the bid id is known.\<close>

definition inspect_fields :: "res_auction \<Rightarrow> string \<Rightarrow> jsval \<Rightarrow> resolution_code + res_bid" where
  "inspect_fields auction bidId input =
     bindE (stable_id ResBidInvalid (fld input ''leagueId'')) (\<lambda>leagueId.
     bindE (stable_id ResBidInvalid (fld input ''auctionId'')) (\<lambda>auctionId.
     bindE (stable_id ResBidInvalid (fld input ''teamId'')) (\<lambda>teamId.
     if leagueId \<noteq> ra_leagueId auction \<or> auctionId \<noteq> ra_id auction then Inl ResBidScopeInvalid
     else if fld input ''status'' \<noteq> JStr ''active'' then Inl ResBidInactive
     else if fld input ''teamStatus'' \<noteq> JStr ''active'' then Inl ResTeamInactive
     else if fld input ''authorityValid'' \<noteq> JBool True then Inl ResAuthorityInvalid
     else
     bindE (validateSubmittedValue (fld input ''totalValueCents'') (fld input ''termYears'')) (\<lambda>offer.
     bindE (minimumAuctionTotalCents (ro_termYears offer) (fld input ''isStartingBid'')) (\<lambda>minimum.
     if ro_totalValueCents offer < minimum then Inl ResValueInvalid
     else
     bindE (safe_between ResLowestAavInvalid 1 (ro_aavCents offer)
             (fld input ''lowestOfferedAavCents'')) (\<lambda>lowestAav.
     bindE (safe_between ResLowestTotalInvalid 1 (ro_totalValueCents offer)
             (fld input ''lowestOfferedTotalValueCents'')) (\<lambda>lowestTotal.
     bindE (res_safeTimestamp ResBidInvalid (fld input ''firstSubmittedAtMs'')) (\<lambda>firstSubmittedAtMs.
     Inr \<lparr>rb_id = bidId, rb_leagueId = leagueId, rb_auctionId = auctionId, rb_teamId = teamId,
          rb_totalValueCents = ro_totalValueCents offer, rb_termYears = ro_termYears offer,
          rb_aavCents = ro_aavCents offer, rb_lowestOfferedAavCents = lowestAav,
          rb_lowestOfferedTotalValueCents = lowestTotal,
          rb_firstSubmittedAtMs = firstSubmittedAtMs\<rparr>))))))))"

definition inspectBid :: "res_auction \<Rightarrow> jsval \<Rightarrow> skipped_bid + res_bid" where
  "inspectBid auction input =
     (case bindE (res_exactObject res_bid_keys ResBidInvalid input)
             (\<lambda>_. stable_id ResBidInvalid (fld input ''id'')) of
        Inl code \<Rightarrow> Inl \<lparr>sk_bidId = None, sk_reasonCode = code\<rparr>
      | Inr bidId \<Rightarrow>
          (case inspect_fields auction bidId input of
             Inl code \<Rightarrow> Inl \<lparr>sk_bidId = Some bidId, sk_reasonCode = code\<rparr>
           | Inr bid \<Rightarrow> Inr bid))"

definition rankBids :: "res_bid \<Rightarrow> res_bid \<Rightarrow> int" where
  "rankBids left right =
     cmp_or (rb_aavCents right - rb_aavCents left)
    (cmp_or (rb_termYears right - rb_termYears left)
    (cmp_or (rb_firstSubmittedAtMs left - rb_firstSubmittedAtMs right)
            (locale_compare (rb_id left) (rb_id right))))"

interpretation ranked_bids: keyed_comparator rankBids rb_id
  unfolding rankBids_def [abs_def] by (rule keyed_comparatorI) (intro comparator_intros, simp)

definition skipped_key :: "skipped_bid \<Rightarrow> string" where
  "skipped_key k = (case sk_bidId k of None \<Rightarrow> '''' | Some i \<Rightarrow> i)"

definition compareSkipped :: "skipped_bid \<Rightarrow> skipped_bid \<Rightarrow> int" where
  "compareSkipped left right =
     cmp_or (locale_compare (skipped_key left) (skipped_key right))
            (locale_compare (resolution_code_text (sk_reasonCode left))
                            (resolution_code_text (sk_reasonCode right)))"

lemma resolution_code_text_inj [simp]: "resolution_code_text c = resolution_code_text d \<longleftrightarrow> c = d"
  by (cases c; cases d; simp)

interpretation skipped_bids: keyed_comparator compareSkipped "\<lambda>k. (skipped_key k, sk_reasonCode k)"
  unfolding compareSkipped_def [abs_def] by (rule keyed_comparatorI) (intro comparator_intros, simp)

section \<open>The actual winning offer\<close>

record priced_offer =
  po_totalValueCents :: int
  po_termYears :: int
  po_aavCents :: int
  po_occurredAtMs :: int

definition compareOffers :: "res_bid \<Rightarrow> res_bid \<Rightarrow> int" where
  "compareOffers left right =
     cmp_or (rb_aavCents right - rb_aavCents left)
    (cmp_or (rb_termYears right - rb_termYears left)
    (cmp_or (rb_firstSubmittedAtMs left - rb_firstSubmittedAtMs right)
            (locale_compare (rb_id left) (rb_id right))))"

text \<open>An instant that is a safe integer between two others.\<close>

definition time_between :: "int \<Rightarrow> int \<Rightarrow> jsval \<Rightarrow> int option" where
  "time_between lo hi v = (case v of
     JInt n \<Rightarrow> if safe n \<and> lo \<le> n \<and> n \<le> hi then Some n else None
   | _ \<Rightarrow> None)"

definition with_offer :: "res_bid \<Rightarrow> res_offer \<Rightarrow> res_bid" where
  "with_offer b r = b\<lparr>rb_totalValueCents := ro_totalValueCents r, rb_termYears := ro_termYears r,
     rb_aavCents := ro_aavCents r\<rparr>"

definition winner_events :: "res_bid \<Rightarrow> jsval list \<Rightarrow> jsval list" where
  "winner_events winner bidHistory = filter (\<lambda>event.
     fld event ''bidId'' = JStr (rb_id winner) \<and>
     (fld event ''teamId'' = JUndef \<or> fld event ''teamId'' = JStr (rb_teamId winner))) bidHistory"

definition current_offer :: "res_bid \<Rightarrow> jsval" where
  "current_offer winner = JObj
     [(''totalValueCents'', JInt (rb_totalValueCents winner)),
      (''termYears'', JInt (rb_termYears winner)),
      (''occurredAtMs'', JInt (rb_firstSubmittedAtMs winner))]"

definition offers_of :: "res_bid \<Rightarrow> int \<Rightarrow> jsval list \<Rightarrow> jsval list" where
  "offers_of winner dueAtMs bidHistory =
     (let history = winner_events winner bidHistory;
          hasCurrentOffer = list_ex (\<lambda>offer.
            fld offer ''totalValueCents'' = JInt (rb_totalValueCents winner) \<and>
            fld offer ''termYears'' = JInt (rb_termYears winner) \<and>
            time_between (rb_firstSubmittedAtMs winner) dueAtMs (fld offer ''occurredAtMs'') \<noteq> None) history in
     history @ (if hasCurrentOffer then [] else [current_offer winner]))"

definition qualify_offer :: "(jsval \<Rightarrow> jsval \<Rightarrow> 'e + res_offer) \<Rightarrow> (res_bid \<Rightarrow> bool) \<Rightarrow> res_bid \<Rightarrow>
    res_bid option \<Rightarrow> int \<Rightarrow> jsval \<Rightarrow> priced_offer option" where
  "qualify_offer validateOffer meetsFloor winner competitor dueAtMs offer =
     (case validateOffer (fld offer ''totalValueCents'') (fld offer ''termYears'') of
        Inl _ \<Rightarrow> None
      | Inr contract \<Rightarrow>
          (case time_between (rb_firstSubmittedAtMs winner) dueAtMs (fld offer ''occurredAtMs'') of
             None \<Rightarrow> None
           | Some at \<Rightarrow>
               let candidate = with_offer winner contract in
               if rb_aavCents winner < ro_aavCents contract \<or> \<not> meetsFloor candidate \<or>
                  (case competitor of None \<Rightarrow> False | Some c \<Rightarrow> 0 \<le> compareOffers candidate c)
               then None
               else Some \<lparr>po_totalValueCents = ro_totalValueCents contract,
                          po_termYears = ro_termYears contract,
                          po_aavCents = ro_aavCents contract,
                          po_occurredAtMs = at\<rparr>))"

definition comparePrices :: "priced_offer \<Rightarrow> priced_offer \<Rightarrow> int" where
  "comparePrices left right =
     cmp_or (po_aavCents left - po_aavCents right)
    (cmp_or (po_termYears left - po_termYears right)
            (po_occurredAtMs left - po_occurredAtMs right))"

definition selectActualWinningOffer :: "res_bid \<Rightarrow> res_bid option \<Rightarrow> jsval list \<Rightarrow>
    (jsval \<Rightarrow> jsval \<Rightarrow> 'e + res_offer) \<Rightarrow> int \<Rightarrow> (res_bid \<Rightarrow> bool) \<Rightarrow> priced_offer option" where
  "selectActualWinningOffer winner competitor bidHistory validateOffer dueAtMs meetsFloor =
     (case js_sort comparePrices (List.map_filter
             (qualify_offer validateOffer meetsFloor winner competitor dueAtMs)
             (offers_of winner dueAtMs bidHistory)) of
        [] \<Rightarrow> None
      | best # _ \<Rightarrow> Some best)"

interpretation offers: keyed_comparator compareOffers rb_id
  unfolding compareOffers_def [abs_def] by (rule keyed_comparatorI) (intro comparator_intros, simp)

interpretation prices: comparator comparePrices
  unfolding comparePrices_def [abs_def] by (intro comparator_intros)

section \<open>The resolution\<close>

record ranked_bid =
  rk_rank :: nat
  rk_bidId :: string
  rk_teamId :: string
  rk_totalValueCents :: int
  rk_termYears :: int
  rk_aavCents :: int
  rk_lowestOfferedAavCents :: int
  rk_lowestOfferedTotalValueCents :: int
  rk_firstSubmittedAtMs :: int

definition safeRankedBid :: "nat \<Rightarrow> res_bid \<Rightarrow> ranked_bid" where
  "safeRankedBid rank bid =
     \<lparr>rk_rank = rank, rk_bidId = rb_id bid, rk_teamId = rb_teamId bid,
      rk_totalValueCents = rb_totalValueCents bid, rk_termYears = rb_termYears bid,
      rk_aavCents = rb_aavCents bid, rk_lowestOfferedAavCents = rb_lowestOfferedAavCents bid,
      rk_lowestOfferedTotalValueCents = rb_lowestOfferedTotalValueCents bid,
      rk_firstSubmittedAtMs = rb_firstSubmittedAtMs bid\<rparr>"

record winning_bid =
  wb_pricingRule :: string
  wb_pricedOffer :: priced_offer
  wb_finalTermYears :: int
  wb_bidId :: string
  wb_teamId :: string
  wb_submittedTotalValueCents :: int
  wb_submittedTermYears :: int
  wb_submittedAavCents :: int
  wb_lowestOfferedAavCents :: int
  wb_lowestOfferedTotalValueCents :: int
  wb_highestCompetingAavCents :: "int option"
  wb_highestCompetingTotalValueCents :: "int option"
  wb_requiredWinningTotalValueCents :: int
  wb_requiredWinningAavCents :: int
  wb_finalTotalValueCents :: int
  wb_finalAavCents :: int

datatype resolution_outcome =
    NotDue string
  | CancelledSeasonClosed
  | CancelledUnavailable
  | NoWinner "skipped_bid list"
  | Winner "skipped_bid list" "ranked_bid list" winning_bid

record resolution =
  rs_auctionId :: string
  rs_leagueId :: string
  rs_dueAtMs :: int
  rs_outcome :: resolution_outcome

definition partition_bids :: "res_auction \<Rightarrow> jsval list \<Rightarrow> res_bid list \<times> skipped_bid list" where
  "partition_bids auction bids =
     (let inspected = map (inspectBid auction) bids;
          valid = List.map_filter (\<lambda>r. case r of Inl _ \<Rightarrow> None | Inr b \<Rightarrow> Some b) inspected;
          skipped = List.map_filter (\<lambda>r. case r of Inl k \<Rightarrow> Some k | Inr _ \<Rightarrow> None) inspected;
          duplicate = (\<lambda>b. 1 < count_list (map rb_id valid) (rb_id b) \<or>
                           1 < count_list (map rb_teamId valid) (rb_teamId b)) in
      (filter (\<lambda>b. \<not> duplicate b) valid,
       skipped @ map (\<lambda>b. \<lparr>sk_bidId = Some (rb_id b), sk_reasonCode = ResBidDuplicate\<rparr>)
         (filter duplicate valid)))"

definition price_winner :: "res_auction \<Rightarrow> jsval list \<Rightarrow> res_bid \<Rightarrow> res_bid option \<Rightarrow>
    resolution_failure + winning_bid" where
  "price_winner auction bidHistory winner competitor =
     (case selectActualWinningOffer winner competitor bidHistory validateSubmittedValue
             (ra_resolvesAtMs auction) (\<lambda>_. True) of
        None \<Rightarrow> Inl NoActualWinningOffer
      | Some pricedOffer \<Rightarrow>
          (case res_calculateAavCents (JInt (po_totalValueCents pricedOffer))
                  (JInt (po_termYears pricedOffer)) of
             Inl code \<Rightarrow> Inl (ResolutionError code)
           | Inr finalAavCents \<Rightarrow>
          Inr \<lparr>wb_pricingRule = ''lowest_actual_winning_offer_v1'',
               wb_pricedOffer = pricedOffer,
               wb_finalTermYears = po_termYears pricedOffer,
               wb_bidId = rb_id winner,
               wb_teamId = rb_teamId winner,
               wb_submittedTotalValueCents = rb_totalValueCents winner,
               wb_submittedTermYears = rb_termYears winner,
               wb_submittedAavCents = rb_aavCents winner,
               wb_lowestOfferedAavCents = rb_lowestOfferedAavCents winner,
               wb_lowestOfferedTotalValueCents = rb_lowestOfferedTotalValueCents winner,
               wb_highestCompetingAavCents = map_option rb_aavCents competitor,
               wb_highestCompetingTotalValueCents = map_option rb_totalValueCents competitor,
               wb_requiredWinningTotalValueCents = po_totalValueCents pricedOffer,
               wb_requiredWinningAavCents = po_aavCents pricedOffer,
               wb_finalTotalValueCents = po_totalValueCents pricedOffer,
               wb_finalAavCents = finalAavCents\<rparr>))"

definition resolve_bids :: "res_auction \<Rightarrow> jsval list \<Rightarrow> jsval list \<Rightarrow>
    resolution_failure + resolution_outcome" where
  "resolve_bids auction bids bidHistory =
     (let (eligible0, skipped) = partition_bids auction bids;
          eligible = js_sort rankBids eligible0;
          skippedBids = js_sort compareSkipped skipped in
     (case eligible of
        [] \<Rightarrow> Inr (NoWinner skippedBids)
      | winner # others \<Rightarrow>
          let rankedBids = map (\<lambda>(index, bid). safeRankedBid (index + 1) bid) (enumerate 0 eligible);
              competitor = (case others of [] \<Rightarrow> None | c # _ \<Rightarrow> Some c) in
          bindE (price_winner auction bidHistory winner competitor) (\<lambda>w.
          Inr (Winner skippedBids rankedBids w))))"

definition evaluateAuctionResolution :: "jsval \<Rightarrow> resolution_failure + resolution" where
  "evaluateAuctionResolution input =
     (let history = has_own input ''bidHistory'';
          res_error = (\<lambda>m. case m of Inl code \<Rightarrow> Inl (ResolutionError code) | Inr x \<Rightarrow> Inr x) in
     bindE (case res_exactObject ([''auction'', ''bids''] @ (if history then [''bidHistory''] else []))
             ResInputInvalid input of
              Inl code \<Rightarrow> Inl (ResolutionError code) | Inr u \<Rightarrow> Inr u) (\<lambda>_.
     case items (fld input ''bids'') of None \<Rightarrow> Inl (ResolutionError ResInputInvalid) | Some bids \<Rightarrow>
     if history \<and> items (fld input ''bidHistory'') = None then Inl (ResolutionError ResInputInvalid)
     else
     let bidHistory = (case items (fld input ''bidHistory'') of None \<Rightarrow> [] | Some es \<Rightarrow> es) in
     bindE (res_error (canonicalAuction (fld input ''auction''))) (\<lambda>auction.
     let playoffDue = (case ra_playoffsStartAtMs auction of None \<Rightarrow> False | Some t \<Rightarrow> t \<le> ra_nowMs auction);
         scheduledDue = (ra_resolvesAtMs auction \<le> ra_nowMs auction);
         dueAtMs = (if playoffDue then the (ra_playoffsStartAtMs auction) else ra_resolvesAtMs auction);
         result = (\<lambda>outcome. \<lparr>rs_auctionId = ra_id auction, rs_leagueId = ra_leagueId auction,
           rs_dueAtMs = dueAtMs, rs_outcome = outcome\<rparr>) in
     if ra_status auction \<noteq> ''open'' then Inr (result (NotDue ''auction_not_open''))
     else if \<not> playoffDue \<and> \<not> scheduledDue then Inr (result (NotDue ''before_deadline''))
     else if playoffDue then Inr (result CancelledSeasonClosed)
     else if ra_playerOwned auction then Inr (result CancelledUnavailable)
     else
     bindE (resolve_bids auction bids bidHistory) (\<lambda>outcome. Inr (result outcome)))))"

definition buildAuctionResolutionOccurrenceKey :: "jsval \<Rightarrow> jsval \<Rightarrow> resolution_code + string" where
  "buildAuctionResolutionOccurrenceKey auctionId dueAtMs =
     bindE (stable_id ResAuctionInvalid auctionId) (\<lambda>i.
     bindE (res_safeTimestamp ResAuctionInvalid dueAtMs) (\<lambda>due.
     Inr (''auction:'' @ i @ '':'' @ int_text due)))"

section \<open>Values that were really offered\<close>

definition res_offer_ok :: "res_offer \<Rightarrow> bool" where
  "res_offer_ok r \<longleftrightarrow>
     1 \<le> ro_termYears r \<and> ro_termYears r \<le> 3 \<and> safe (ro_totalValueCents r) \<and>
     ro_termYears r * 100 \<le> ro_totalValueCents r \<and>
     ro_aavCents r = rounded_aav (ro_totalValueCents r) (ro_termYears r) \<and>
     (ro_termYears r = 1 \<or> ro_totalValueCents r mod 100 = 0 \<or>
      (ro_totalValueCents r mod ro_termYears r = 0 \<and>
       (ro_totalValueCents r div ro_termYears r) mod 25 = 0))"

lemma validateSubmittedValue_iff [check_iffs]:
  "validateSubmittedValue t y = Inr r \<longleftrightarrow>
     t = JInt (ro_totalValueCents r) \<and> y = JInt (ro_termYears r) \<and> res_offer_ok r"
  by (cases r) (auto simp: validateSubmittedValue_def res_calculateAavCents_def res_offer_ok_def
      result_iffs check_iffs Let_def safe_def max_safe_def)

lemma res_calculateAavCents_offer:
  assumes "res_offer_ok r"
  shows "res_calculateAavCents (JInt (ro_totalValueCents r)) (JInt (ro_termYears r)) = Inr (ro_aavCents r)"
  using assms
  by (auto simp: res_calculateAavCents_def res_offer_ok_def safe_from_def safe_between_def
      safe_def max_safe_def)

lemma time_between_Some [check_iffs]:
  "time_between lo hi v = Some n \<longleftrightarrow> v = JInt n \<and> safe n \<and> lo \<le> n \<and> n \<le> hi"
  by (cases v) (auto simp: time_between_def)

text \<open>What the price is chosen among: offers of the winner that still beat the competitor.\<close>

definition qualifying :: "res_bid \<Rightarrow> res_bid option \<Rightarrow> int \<Rightarrow> jsval list \<Rightarrow> priced_offer \<Rightarrow> bool" where
  "qualifying winner competitor dueAtMs bidHistory p \<longleftrightarrow>
     (\<exists>offer \<in> set (offers_of winner dueAtMs bidHistory).
        fld offer ''totalValueCents'' = JInt (po_totalValueCents p) \<and>
        fld offer ''termYears'' = JInt (po_termYears p) \<and>
        fld offer ''occurredAtMs'' = JInt (po_occurredAtMs p)) \<and>
     (let r = \<lparr>ro_totalValueCents = po_totalValueCents p, ro_termYears = po_termYears p,
               ro_aavCents = po_aavCents p\<rparr> in
      res_offer_ok r \<and> safe (po_occurredAtMs p) \<and>
      rb_firstSubmittedAtMs winner \<le> po_occurredAtMs p \<and> po_occurredAtMs p \<le> dueAtMs \<and>
      po_aavCents p \<le> rb_aavCents winner \<and>
      (\<forall>c. competitor = Some c \<longrightarrow> compareOffers (with_offer winner r) c < 0))"

lemma qualify_offer_Some:
  "qualify_offer validateSubmittedValue (\<lambda>_. True) winner competitor dueAtMs offer = Some p \<longleftrightarrow>
     (let r = \<lparr>ro_totalValueCents = po_totalValueCents p, ro_termYears = po_termYears p,
               ro_aavCents = po_aavCents p\<rparr> in
      fld offer ''totalValueCents'' = JInt (po_totalValueCents p) \<and>
      fld offer ''termYears'' = JInt (po_termYears p) \<and>
      fld offer ''occurredAtMs'' = JInt (po_occurredAtMs p) \<and>
      res_offer_ok r \<and> safe (po_occurredAtMs p) \<and>
      rb_firstSubmittedAtMs winner \<le> po_occurredAtMs p \<and> po_occurredAtMs p \<le> dueAtMs \<and>
      po_aavCents p \<le> rb_aavCents winner \<and>
      (\<forall>c. competitor = Some c \<longrightarrow> compareOffers (with_offer winner r) c < 0))"
  (is "?L \<longleftrightarrow> ?R")
proof
  assume ?L
  then obtain r n where r: "validateSubmittedValue (fld offer ''totalValueCents'') (fld offer ''termYears'') = Inr r"
    and n: "time_between (rb_firstSubmittedAtMs winner) dueAtMs (fld offer ''occurredAtMs'') = Some n"
    and q: "\<not> rb_aavCents winner < ro_aavCents r"
      "\<not> (case competitor of None \<Rightarrow> False | Some c \<Rightarrow> 0 \<le> compareOffers (with_offer winner r) c)"
    and p: "p = \<lparr>po_totalValueCents = ro_totalValueCents r, po_termYears = ro_termYears r,
      po_aavCents = ro_aavCents r, po_occurredAtMs = n\<rparr>"
    by (auto simp: qualify_offer_def Let_def split: sum.splits option.splits if_splits)
  have surj: "\<lparr>ro_totalValueCents = ro_totalValueCents r, ro_termYears = ro_termYears r,
      ro_aavCents = ro_aavCents r\<rparr> = r" by (cases r) simp
  show ?R
    using r n q p by (auto simp: validateSubmittedValue_iff time_between_Some Let_def surj)
next
  assume r: ?R
  define o1 where "o1 = \<lparr>ro_totalValueCents = po_totalValueCents p, ro_termYears = po_termYears p,
      ro_aavCents = po_aavCents p\<rparr>"
  have "validateSubmittedValue (fld offer ''totalValueCents'') (fld offer ''termYears'') = Inr o1"
    using r by (simp add: validateSubmittedValue_iff Let_def o1_def)
  moreover have "time_between (rb_firstSubmittedAtMs winner) dueAtMs (fld offer ''occurredAtMs'') =
      Some (po_occurredAtMs p)" using r by (simp add: time_between_Some Let_def)
  ultimately show ?L
    using r by (cases competitor) (auto simp: qualify_offer_def Let_def o1_def)
qed

lemma map_filter_set: "set (List.map_filter f xs) = {y. \<exists>x \<in> set xs. f x = Some y}"
  by (force simp: List.map_filter_def)

lemma selectActualWinningOffer_cases:
  defines "sel \<equiv> (\<lambda>w c h d. selectActualWinningOffer w c h validateSubmittedValue d (\<lambda>_. True))"
  shows "sel w c h d = None \<longleftrightarrow> (\<forall>p. \<not> qualifying w c d h p)"
    and "sel w c h d = Some p \<Longrightarrow> qualifying w c d h p \<and>
      (\<forall>q. qualifying w c d h q \<longrightarrow> comparePrices p q \<le> 0)"
proof -
  define ps where "ps = List.map_filter (qualify_offer validateSubmittedValue (\<lambda>_. True) w c d) (offers_of w d h)"
  have q: "p \<in> set ps \<longleftrightarrow> qualifying w c d h p" for p
    unfolding ps_def map_filter_set mem_Collect_eq qualify_offer_Some qualifying_def by (auto simp: Let_def)
  have sel: "sel w c h d = (case js_sort comparePrices ps of [] \<Rightarrow> None | best # _ \<Rightarrow> Some best)"
    by (simp add: sel_def selectActualWinningOffer_def ps_def)
  show "sel w c h d = None \<longleftrightarrow> (\<forall>p. \<not> qualifying w c d h p)"
    using q by (auto simp: sel split: list.splits) (metis js_sort_eq_Nil list.set_intros(1) list.exhaust set_js_sort)
  assume "sel w c h d = Some p"
  then obtain rest where sorted: "js_sort comparePrices ps = p # rest"
    by (auto simp: sel split: list.splits)
  have "p \<in> set ps" by (metis sorted list.set_intros(1) set_js_sort)
  then show "qualifying w c d h p \<and> (\<forall>q. qualifying w c d h q \<longrightarrow> comparePrices p q \<le> 0)"
    using prices.js_sort_head_least [OF sorted] q by blast
qed

section \<open>Eligible bids\<close>

definition bid_offer :: "res_bid \<Rightarrow> res_offer" where
  "bid_offer b = \<lparr>ro_totalValueCents = rb_totalValueCents b, ro_termYears = rb_termYears b,
     ro_aavCents = rb_aavCents b\<rparr>"

lemma with_own_offer [simp]: "with_offer b (bid_offer b) = b"
  by (simp add: with_offer_def bid_offer_def)

lemma inspectBid_Inr:
  assumes "inspectBid auction v = Inr b"
  shows "fld v ''id'' = JStr (rb_id b) \<and> fld v ''teamId'' = JStr (rb_teamId b) \<and>
    res_offer_ok (bid_offer b) \<and> safe (rb_firstSubmittedAtMs b) \<and>
    fld v ''firstSubmittedAtMs'' = JInt (rb_firstSubmittedAtMs b) \<and>
    fld v ''totalValueCents'' = JInt (rb_totalValueCents b) \<and>
    fld v ''termYears'' = JInt (rb_termYears b) \<and>
    rb_lowestOfferedAavCents b \<le> rb_aavCents b"
proof -
  obtain i where i: "fld v ''id'' = JStr i" and b: "inspect_fields auction i v = Inr b"
    using assms by (auto simp: inspectBid_def bindE_Inr_iff stable_id_iff split: sum.splits)
  obtain r where r: "validateSubmittedValue (fld v ''totalValueCents'') (fld v ''termYears'') = Inr r"
    and eq: "ro_totalValueCents r = rb_totalValueCents b" "ro_termYears r = rb_termYears b"
      "ro_aavCents r = rb_aavCents b" "rb_id b = i" "fld v ''teamId'' = JStr (rb_teamId b)"
      "fld v ''firstSubmittedAtMs'' = JInt (rb_firstSubmittedAtMs b)" "safe (rb_firstSubmittedAtMs b)"
      "rb_lowestOfferedAavCents b \<le> rb_aavCents b"
    using b by (auto simp: inspect_fields_def bindE_Inr_iff if_Inl_eq_Inr stable_id_iff safe_between_iff
        res_safeTimestamp_def)
  have "bid_offer b = r" using eq(1-3) by (cases r) (simp add: bid_offer_def)
  then have "res_offer_ok (bid_offer b)" using r by (simp add: validateSubmittedValue_iff)
  moreover have "fld v ''totalValueCents'' = JInt (rb_totalValueCents b)"
    "fld v ''termYears'' = JInt (rb_termYears b)"
    using r eq(1,2) by (simp_all add: validateSubmittedValue_iff)
  ultimately show ?thesis using i eq by simp
qed

definition valid_bids :: "res_auction \<Rightarrow> jsval list \<Rightarrow> res_bid list" where
  "valid_bids auction vs =
     List.map_filter (\<lambda>r. case r of Inl _ \<Rightarrow> None | Inr b \<Rightarrow> Some b) (map (inspectBid auction) vs)"

definition eligible_bids :: "res_auction \<Rightarrow> jsval list \<Rightarrow> res_bid list" where
  "eligible_bids auction vs = fst (partition_bids auction vs)"

lemma eligible_bids_filter:
  "eligible_bids auction vs = filter (\<lambda>b. count_list (map rb_id (valid_bids auction vs)) (rb_id b) \<le> 1 \<and>
     count_list (map rb_teamId (valid_bids auction vs)) (rb_teamId b) \<le> 1) (valid_bids auction vs)"
  by (auto simp: eligible_bids_def partition_bids_def valid_bids_def Let_def not_less intro!: filter_cong)

lemma valid_bids_set: "set (valid_bids auction vs) = {b. \<exists>v \<in> set vs. inspectBid auction v = Inr b}"
proof -
  have "(case r of Inl _ \<Rightarrow> None | Inr b \<Rightarrow> Some b) = Some y \<longleftrightarrow> r = Inr y"
    for r :: "skipped_bid + res_bid" and y by (cases r) auto
  then show ?thesis unfolding valid_bids_def map_filter_set by (auto simp: image_iff) metis
qed

lemma distinct_filter_count:
  "distinct (map f (filter (\<lambda>x. count_list (map f xs) (f x) \<le> 1 \<and> P x) xs))"
proof (rule distinct_conv_nth [THEN iffD2], intro allI impI)
  let ?ys = "filter (\<lambda>x. count_list (map f xs) (f x) \<le> 1 \<and> P x) xs"
  have sub: "count_list (map f (filter Q zs)) k \<le> count_list (map f zs) k" for Q zs k
    by (induction zs) auto
  fix i j assume ij: "i < length (map f ?ys)" "j < length (map f ?ys)" "i \<noteq> j"
  show "map f ?ys ! i \<noteq> map f ?ys ! j"
  proof
    assume eq: "map f ?ys ! i = map f ?ys ! j"
    have "{i, j} \<subseteq> {l. l < length (map f ?ys) \<and> map f ?ys ! l = map f ?ys ! i}" using ij eq by auto
    moreover have "finite {l. l < length (map f ?ys) \<and> map f ?ys ! l = map f ?ys ! i}" by simp
    ultimately have "card {i, j} \<le> card {l. l < length (map f ?ys) \<and> map f ?ys ! l = map f ?ys ! i}"
      by (intro card_mono)
    also have "\<dots> = count_list (map f ?ys) (map f ?ys ! i)"
      by (simp add: count_list_eq_length_filter length_filter_conv_card eq_commute)
    also have "\<dots> \<le> count_list (map f xs) (map f ?ys ! i)" by (rule sub)
    also have "\<dots> \<le> 1"
    proof -
      have "?ys ! i \<in> set ?ys" using ij by (intro nth_mem) simp
      then show ?thesis using ij by simp
    qed
    finally show False using ij(3) by simp
  qed
qed

lemma eligible_bids_distinct:
  "distinct (map rb_id (eligible_bids auction vs))"
  "distinct (map rb_teamId (eligible_bids auction vs))"
proof -
  show "distinct (map rb_id (eligible_bids auction vs))"
    unfolding eligible_bids_filter by (rule distinct_filter_count)
  have "filter (\<lambda>b. count_list (map rb_id (valid_bids auction vs)) (rb_id b) \<le> 1 \<and>
       count_list (map rb_teamId (valid_bids auction vs)) (rb_teamId b) \<le> 1) (valid_bids auction vs) =
     filter (\<lambda>b. count_list (map rb_teamId (valid_bids auction vs)) (rb_teamId b) \<le> 1 \<and>
       count_list (map rb_id (valid_bids auction vs)) (rb_id b) \<le> 1) (valid_bids auction vs)"
    by (rule filter_cong) auto
  then show "distinct (map rb_teamId (eligible_bids auction vs))"
    unfolding eligible_bids_filter by (simp only: distinct_filter_count)
qed

text \<open>Every submitted bid is ranked or skipped.\<close>

lemma partition_bids_length:
  "length (fst (partition_bids auction vs)) + length (snd (partition_bids auction vs)) = length vs"
proof -
  define valid skipped where
    "valid = List.map_filter (\<lambda>r. case r of Inl _ \<Rightarrow> None | Inr b \<Rightarrow> Some b) (map (inspectBid auction) vs)"
    and "skipped = List.map_filter (\<lambda>r. case r of Inl k \<Rightarrow> Some k | Inr _ \<Rightarrow> None) (map (inspectBid auction) vs)"
  have "length valid + length skipped = length vs"
    unfolding valid_def skipped_def
    by (induction vs) (auto simp: List.map_filter_simps split: sum.splits)
  moreover have "length (filter (\<lambda>b. \<not> P b) valid) + length (filter P valid) = length valid" for P
    using sum_length_filter_compl [of P valid] by linarith
  moreover define dup where "dup = (\<lambda>b :: res_bid. 1 < count_list (map rb_id valid) (rb_id b) \<or>
    1 < count_list (map rb_teamId valid) (rb_teamId b))"
  have "partition_bids auction vs = (filter (\<lambda>b. \<not> dup b) valid,
      skipped @ map (\<lambda>b. \<lparr>sk_bidId = Some (rb_id b), sk_reasonCode = ResBidDuplicate\<rparr>) (filter dup valid))"
    by (simp only: partition_bids_def Let_def valid_def skipped_def dup_def)
  with calculation(1) calculation(2) [of dup] show ?thesis by simp
qed

section \<open>The winner and its price\<close>

text \<open>The published order of the bids.\<close>

definition bid_beats :: "res_bid \<Rightarrow> res_bid \<Rightarrow> bool" where
  "bid_beats b c \<longleftrightarrow>
     rb_aavCents c < rb_aavCents b \<or>
     (rb_aavCents c = rb_aavCents b \<and> (rb_termYears c < rb_termYears b \<or>
      (rb_termYears c = rb_termYears b \<and> (rb_firstSubmittedAtMs b < rb_firstSubmittedAtMs c \<or>
       (rb_firstSubmittedAtMs b = rb_firstSubmittedAtMs c \<and> rb_id b < rb_id c)))))"

lemma compareOffers_less: "compareOffers b c < 0 \<longleftrightarrow> bid_beats b c"
  by (auto simp: compareOffers_def bid_beats_def cmp_or_def locale_compare_def)

lemma rankBids_less: "rankBids b c < 0 \<longleftrightarrow> bid_beats b c"
  by (auto simp: rankBids_def bid_beats_def cmp_or_def locale_compare_def)

lemma bid_beats_trans: "bid_beats a b \<Longrightarrow> bid_beats b c \<Longrightarrow> bid_beats a c"
  by (auto simp: bid_beats_def)

text \<open>
  A payable offer of the winning bid: really made, valid, in time, not above the submitted average,
  and still ahead of every other eligible bid.
\<close>

definition payable :: "res_bid \<Rightarrow> res_bid list \<Rightarrow> int \<Rightarrow> jsval list \<Rightarrow> priced_offer \<Rightarrow> bool" where
  "payable winner eligible dueAtMs bidHistory p \<longleftrightarrow>
     qualifying winner None dueAtMs bidHistory p \<and>
     (\<forall>c \<in> set eligible. c \<noteq> winner \<longrightarrow>
        bid_beats (with_offer winner \<lparr>ro_totalValueCents = po_totalValueCents p,
          ro_termYears = po_termYears p, ro_aavCents = po_aavCents p\<rparr>) c)"

lemma ranked_first:
  assumes sorted: "js_sort rankBids xs = winner # others" and dist: "distinct (map rb_id xs)"
    and c: "c \<in> set xs" "c \<noteq> winner"
  shows "bid_beats winner c"
proof -
  have "c \<in> set others" using c sorted by (metis set_js_sort set_ConsD)
  then show ?thesis
    using ranked_bids.js_sort_head_strict [OF sorted dist] by (simp add: rankBids_less)
qed

lemma qualifying_competitor:
  assumes sorted: "js_sort rankBids xs = winner # others" and dist: "distinct (map rb_id xs)"
  defines "competitor \<equiv> (case others of [] \<Rightarrow> None | c # _ \<Rightarrow> Some c)"
  shows "qualifying winner competitor d h p \<longleftrightarrow> payable winner xs d h p"
proof (cases others)
  case Nil
  then have "set xs = {winner}" using sorted by (metis list.set set_js_sort)
  then show ?thesis by (simp add: payable_def competitor_def Nil)
next
  case (Cons c rest)
  have dist': "distinct (map rb_id (winner # c # rest))"
    using dist sorted Cons by (metis distinct_map_js_sort)
  have all: "x = c \<or> bid_beats c x" if "x \<in> set others" for x
  proof -
    have "sorted_wrt (\<lambda>x y. rankBids x y \<le> 0) (winner # c # rest)"
      using ranked_bids.sorted_js_sort [of xs] sorted Cons by simp
    then have "x = c \<or> rankBids c x \<le> 0" using that Cons by auto
    moreover have "rankBids c x = 0 \<Longrightarrow> x = c"
      using ranked_bids.cmp_tie_key [of c x] that Cons dist' by auto
    ultimately show ?thesis using rankBids_less [of c x] by fastforce
  qed
  have set: "set xs = insert winner (set others)" using sorted by (metis list.set(2) set_js_sort)
  have c: "c \<in> set xs" "c \<noteq> winner" using set Cons dist' by auto
  have "(\<forall>x \<in> set xs. x \<noteq> winner \<longrightarrow> bid_beats w x) \<longleftrightarrow> bid_beats w c" for w
    using set c all bid_beats_trans by blast
  then show ?thesis
    by (auto simp: payable_def competitor_def Cons qualifying_def Let_def compareOffers_less)
qed

lemma current_offer_qualifies:
  assumes ok: "res_offer_ok (bid_offer b)" and safe: "safe (rb_firstSubmittedAtMs b)"
    and time: "rb_firstSubmittedAtMs b \<le> d"
  shows "\<exists>p. qualifying b None d h p \<and> po_totalValueCents p = rb_totalValueCents b \<and>
    po_termYears p = rb_termYears b \<and> po_aavCents p = rb_aavCents b"
proof -
  obtain offer n where offer: "offer \<in> set (offers_of b d h)"
    "fld offer ''totalValueCents'' = JInt (rb_totalValueCents b)"
    "fld offer ''termYears'' = JInt (rb_termYears b)" "fld offer ''occurredAtMs'' = JInt n"
    "safe n" "rb_firstSubmittedAtMs b \<le> n" "n \<le> d"
  proof (cases "list_ex (\<lambda>offer.
      fld offer ''totalValueCents'' = JInt (rb_totalValueCents b) \<and>
      fld offer ''termYears'' = JInt (rb_termYears b) \<and>
      time_between (rb_firstSubmittedAtMs b) d (fld offer ''occurredAtMs'') \<noteq> None) (winner_events b h)")
    case True
    then obtain offer n where "offer \<in> set (winner_events b h)"
      "fld offer ''totalValueCents'' = JInt (rb_totalValueCents b)"
      "fld offer ''termYears'' = JInt (rb_termYears b)"
      "time_between (rb_firstSubmittedAtMs b) d (fld offer ''occurredAtMs'') = Some n"
      by (auto simp: list_ex_iff)
    then show thesis by (intro that [of offer n]) (auto simp: offers_of_def Let_def time_between_Some)
  next
    case False
    then have "current_offer b \<in> set (offers_of b d h)" by (simp add: offers_of_def Let_def)
    then show thesis using safe time
      by (intro that [of "current_offer b" "rb_firstSubmittedAtMs b"]) (auto simp: current_offer_def)
  qed
  then show ?thesis
    using ok
    by (intro exI [of _ "\<lparr>po_totalValueCents = rb_totalValueCents b, po_termYears = rb_termYears b,
        po_aavCents = rb_aavCents b, po_occurredAtMs = n\<rparr>"])
      (auto simp: qualifying_def Let_def bid_offer_def)
qed

lemma eligible_is_valid:
  "b \<in> set (eligible_bids auction vs) \<Longrightarrow> \<exists>v \<in> set vs. inspectBid auction v = Inr b"
  unfolding eligible_bids_filter using valid_bids_set by auto

lemma payable_current:
  assumes "b \<in> set (eligible_bids auction vs)" and "rb_firstSubmittedAtMs b \<le> d"
    and "\<forall>c \<in> set (eligible_bids auction vs). c \<noteq> b \<longrightarrow> bid_beats b c"
  shows "\<exists>p. payable b (eligible_bids auction vs) d h p"
proof -
  have ok: "res_offer_ok (bid_offer b)" "safe (rb_firstSubmittedAtMs b)"
    using eligible_is_valid [OF assms(1)] inspectBid_Inr by blast+
  obtain p where p: "qualifying b None d h p" "po_totalValueCents p = rb_totalValueCents b"
    "po_termYears p = rb_termYears b" "po_aavCents p = rb_aavCents b"
    using current_offer_qualifies [OF ok assms(2)] by blast
  have "\<lparr>ro_totalValueCents = po_totalValueCents p, ro_termYears = po_termYears p,
      ro_aavCents = po_aavCents p\<rparr> = bid_offer b" by (simp add: p bid_offer_def)
  then have "with_offer b \<lparr>ro_totalValueCents = po_totalValueCents p, ro_termYears = po_termYears p,
      ro_aavCents = po_aavCents p\<rparr> = b" by (simp only: with_own_offer)
  then show ?thesis using p(1) assms(3) by (auto simp: payable_def)
qed

text \<open>The three ways in which the bids of a due auction are resolved.\<close>

lemma resolve_bids_cases:
  fixes auction vs h
  defines "es \<equiv> eligible_bids auction vs"
  shows "(es = [] \<and> (\<exists>sk. resolve_bids auction vs h = Inr (NoWinner sk) \<and> length sk = length vs)) \<or>
    (\<exists>b \<in> set es. (\<forall>c \<in> set es. c \<noteq> b \<longrightarrow> bid_beats b c) \<and>
      (((\<forall>p. \<not> payable b es (ra_resolvesAtMs auction) h p) \<and>
        resolve_bids auction vs h = Inl NoActualWinningOffer) \<or>
       (\<exists>sk ranked w. resolve_bids auction vs h = Inr (Winner sk ranked w) \<and>
         length ranked + length sk = length vs \<and> length ranked = length es \<and>
         wb_bidId w = rb_id b \<and> wb_teamId w = rb_teamId b \<and>
         payable b es (ra_resolvesAtMs auction) h (wb_pricedOffer w) \<and>
         (\<forall>q. payable b es (ra_resolvesAtMs auction) h q \<longrightarrow> comparePrices (wb_pricedOffer w) q \<le> 0) \<and>
         wb_finalTotalValueCents w = po_totalValueCents (wb_pricedOffer w) \<and>
         wb_finalTermYears w = po_termYears (wb_pricedOffer w) \<and>
         wb_finalAavCents w = po_aavCents (wb_pricedOffer w))))"
proof -
  obtain es0 sk where part: "partition_bids auction vs = (es0, sk)" by (cases "partition_bids auction vs")
  have es: "es = es0" by (simp add: es_def eligible_bids_def part)
  have len: "length es + length sk = length vs"
    using partition_bids_length [of auction vs] by (simp add: part es)
  have dist: "distinct (map rb_id es)" unfolding es_def by (rule eligible_bids_distinct)
  note res = resolve_bids_def [of auction vs h, unfolded part, folded es, unfolded Let_def prod.case]
  show ?thesis
  proof (cases "js_sort rankBids es")
    case Nil
    then have "es = []" by simp
    then show ?thesis using len by (simp add: res)
  next
    case (Cons b others)
    define competitor where "competitor = (case others of [] \<Rightarrow> None | c # _ \<Rightarrow> Some c)"
    have b: "b \<in> set es" by (metis Cons list.set_intros(1) set_js_sort)
    have best: "\<forall>c \<in> set es. c \<noteq> b \<longrightarrow> bid_beats b c" using ranked_first [OF Cons dist] by blast
    have q: "qualifying b competitor d h p \<longleftrightarrow> payable b es d h p" for d p
      unfolding competitor_def by (rule qualifying_competitor [OF Cons dist])
    define sel where "sel = selectActualWinningOffer b competitor h validateSubmittedValue
      (ra_resolvesAtMs auction) (\<lambda>_. True)"
    have n: "length (js_sort rankBids es) = length es" by simp
    show ?thesis
    proof (cases sel)
      case None
      then have "\<forall>p. \<not> payable b es (ra_resolvesAtMs auction) h p"
        using selectActualWinningOffer_cases(1) [of b competitor h "ra_resolvesAtMs auction"] q
        by (simp add: sel_def)
      moreover have "resolve_bids auction vs h = Inl NoActualWinningOffer"
        using None by (simp add: res Cons price_winner_def sel_def competitor_def)
      ultimately show ?thesis using b best by blast
    next
      case (Some p)
      then have p: "payable b es (ra_resolvesAtMs auction) h p"
        "\<forall>q. payable b es (ra_resolvesAtMs auction) h q \<longrightarrow> comparePrices p q \<le> 0"
        using selectActualWinningOffer_cases(2) [of b competitor h "ra_resolvesAtMs auction" p] q
        by (simp_all add: sel_def)
      define r where "r = \<lparr>ro_totalValueCents = po_totalValueCents p, ro_termYears = po_termYears p,
        ro_aavCents = po_aavCents p\<rparr>"
      have "res_offer_ok r" using p(1) by (simp add: payable_def qualifying_def Let_def r_def)
      then have aav: "res_calculateAavCents (JInt (po_totalValueCents p)) (JInt (po_termYears p)) =
          Inr (po_aavCents p)"
        using res_calculateAavCents_offer [of r] by (simp add: r_def)
      obtain w where w: "price_winner auction h b competitor = Inr w" "wb_pricedOffer w = p"
        "wb_bidId w = rb_id b" "wb_teamId w = rb_teamId b"
        "wb_finalTotalValueCents w = po_totalValueCents p" "wb_finalTermYears w = po_termYears p"
        "wb_finalAavCents w = po_aavCents p"
        using Some aav by (simp add: price_winner_def sel_def)
      obtain ranked where "resolve_bids auction vs h = Inr (Winner (js_sort compareSkipped sk) ranked w)"
        "length ranked = length es"
        using w(1) n unfolding res Cons by (simp add: competitor_def)
      then show ?thesis using b best p w len
        by (intro disjI2 bexI [of _ b] conjI) (auto intro!: exI)
    qed
  qed
qed

section \<open>Properties\<close>

definition resolution_input :: "jsval \<Rightarrow> jsval list \<Rightarrow> jsval list \<Rightarrow> jsval" where
  "resolution_input auction bids history =
     JObj [(''auction'', auction), (''bids'', JArr bids), (''bidHistory'', JArr history)]"

lemma evaluate_input:
  assumes "canonicalAuction a = Inr auction"
  shows "evaluateAuctionResolution (resolution_input a vs h) =
    (let playoffDue = (case ra_playoffsStartAtMs auction of None \<Rightarrow> False | Some t \<Rightarrow> t \<le> ra_nowMs auction);
         dueAtMs = (if playoffDue then the (ra_playoffsStartAtMs auction) else ra_resolvesAtMs auction);
         result = (\<lambda>outcome. \<lparr>rs_auctionId = ra_id auction, rs_leagueId = ra_leagueId auction,
           rs_dueAtMs = dueAtMs, rs_outcome = outcome\<rparr>) in
     if ra_status auction \<noteq> ''open'' then Inr (result (NotDue ''auction_not_open''))
     else if \<not> playoffDue \<and> \<not> ra_resolvesAtMs auction \<le> ra_nowMs auction
     then Inr (result (NotDue ''before_deadline''))
     else if playoffDue then Inr (result CancelledSeasonClosed)
     else if ra_playerOwned auction then Inr (result CancelledUnavailable)
     else bindE (resolve_bids auction vs h) (\<lambda>outcome. Inr (result outcome)))"
  using assms by (simp add: evaluateAuctionResolution_def resolution_input_def Let_def)

text \<open>
  C3. A winner is declared only for an open auction past its deadline, before the playoffs and with
  the player unowned. It is the eligible bid that beats every other one (higher average, longer
  term, earlier submission, smaller id); eligible bids have distinct ids and teams; every submitted
  bid is ranked or skipped, none twice. The price is an offer the winner really made within its
  bid's life, valid, not above its submitted average and still ahead of all other eligible bids, and
  no such offer has a lower average, nor the same average over a shorter term.
\<close>

theorem auction_winner_and_price:
  assumes "canonicalAuction a = Inr auction"
    and "evaluateAuctionResolution (resolution_input a vs h) = Inr res"
    and "rs_outcome res = Winner skipped ranked w"
  defines "es \<equiv> eligible_bids auction vs"
  shows "ra_status auction = ''open'' \<and> ra_resolvesAtMs auction \<le> ra_nowMs auction \<and>
    (\<forall>t. ra_playoffsStartAtMs auction = Some t \<longrightarrow> ra_nowMs auction < t) \<and> \<not> ra_playerOwned auction \<and>
    distinct (map rb_id es) \<and> distinct (map rb_teamId es) \<and>
    length ranked = length es \<and> length ranked + length skipped = length vs \<and>
    (\<exists>b \<in> set es. wb_bidId w = rb_id b \<and> wb_teamId w = rb_teamId b \<and>
       (\<forall>c \<in> set es. c \<noteq> b \<longrightarrow> bid_beats b c) \<and>
       payable b es (ra_resolvesAtMs auction) h (wb_pricedOffer w) \<and>
       (\<forall>q. payable b es (ra_resolvesAtMs auction) h q \<longrightarrow>
          po_aavCents (wb_pricedOffer w) \<le> po_aavCents q \<and>
          (po_aavCents (wb_pricedOffer w) = po_aavCents q \<longrightarrow>
           po_termYears (wb_pricedOffer w) \<le> po_termYears q)) \<and>
       wb_finalTotalValueCents w = po_totalValueCents (wb_pricedOffer w) \<and>
       wb_finalTermYears w = po_termYears (wb_pricedOffer w) \<and>
       wb_finalAavCents w = po_aavCents (wb_pricedOffer w))"
proof -
  have due: "ra_status auction = ''open''" "ra_resolvesAtMs auction \<le> ra_nowMs auction"
    "\<forall>t. ra_playoffsStartAtMs auction = Some t \<longrightarrow> ra_nowMs auction < t" "\<not> ra_playerOwned auction"
    and win: "resolve_bids auction vs h = Inr (Winner skipped ranked w)"
    using assms(2,3) unfolding evaluate_input [OF assms(1)]
    by (auto simp: Let_def bindE_Inr_iff split: if_splits option.splits)
  have "po_aavCents p \<le> po_aavCents q \<and> (po_aavCents p = po_aavCents q \<longrightarrow> po_termYears p \<le> po_termYears q)"
    if "comparePrices p q \<le> 0" for p q
    using that by (auto simp: comparePrices_def cmp_or_def split: if_splits)
  then show ?thesis
    using resolve_bids_cases [of auction vs h] win due eligible_bids_distinct [of auction vs]
    unfolding es_def by auto
qed

text \<open>
  C20. Resolving a well-formed auction always gives an answer when every bid was submitted by the
  deadline: the pricing never runs out of offers (its \<^verbatim>\<open>TypeError\<close> cannot occur), because the
  submitted offer itself is payable.
\<close>

theorem auction_resolution_answers:
  assumes "canonicalAuction a = Inr auction"
    and "\<And>v b. v \<in> set vs \<Longrightarrow> inspectBid auction v = Inr b \<Longrightarrow>
      rb_firstSubmittedAtMs b \<le> ra_resolvesAtMs auction"
  shows "\<exists>res. evaluateAuctionResolution (resolution_input a vs h) = Inr res \<and>
    rs_auctionId res = ra_id auction \<and> rs_leagueId res = ra_leagueId auction"
proof -
  have "\<exists>outcome. resolve_bids auction vs h = Inr outcome"
  proof -
    have "\<exists>p. payable b (eligible_bids auction vs) (ra_resolvesAtMs auction) h p"
      if "b \<in> set (eligible_bids auction vs)"
        "\<forall>c \<in> set (eligible_bids auction vs). c \<noteq> b \<longrightarrow> bid_beats b c" for b
      using that eligible_is_valid [OF that(1)] assms(2) by (intro payable_current) auto
    with resolve_bids_cases [of auction vs h] show ?thesis by blast
  qed
  then obtain outcome where "resolve_bids auction vs h = Inr outcome" by blast
  then show ?thesis by (simp add: evaluate_input [OF assms(1)] Let_def)
qed


text \<open>A concrete auction with one bid that was raised once.\<close>

definition sample_res_auction :: jsval where
  "sample_res_auction = JObj
     [(''id'', JStr (sample_id CHR ''1'')),
      (''leagueId'', JStr (sample_id CHR ''2'')),
      (''playerId'', JStr (sample_id CHR ''3'')),
      (''status'', JStr ''open''),
      (''resolvesAtMs'', JInt 100),
      (''playoffsStartAtMs'', JNull),
      (''playerOwned'', JBool False),
      (''nowMs'', JInt 120)]"

definition sample_res_auction_row :: res_auction where
  "sample_res_auction_row =
     \<lparr>ra_id = sample_id CHR ''1'', ra_leagueId = sample_id CHR ''2'', ra_playerId = sample_id CHR ''3'',
      ra_status = ''open'', ra_resolvesAtMs = 100, ra_playoffsStartAtMs = None,
      ra_playerOwned = False, ra_nowMs = 120\<rparr>"

definition sample_res_bid :: jsval where
  "sample_res_bid = JObj
     [(''id'', JStr (sample_id CHR ''4'')),
      (''leagueId'', JStr (sample_id CHR ''2'')),
      (''auctionId'', JStr (sample_id CHR ''1'')),
      (''teamId'', JStr (sample_id CHR ''5'')),
      (''status'', JStr ''active''),
      (''teamStatus'', JStr ''active''),
      (''totalValueCents'', JInt 400),
      (''termYears'', JInt 2),
      (''lowestOfferedAavCents'', JInt 150),
      (''lowestOfferedTotalValueCents'', JInt 300),
      (''firstSubmittedAtMs'', JInt 20),
      (''isStartingBid'', JBool False),
      (''authorityValid'', JBool True)]"

definition sample_res_event :: jsval where
  "sample_res_event = JObj
     [(''bidId'', JStr (sample_id CHR ''4'')),
      (''totalValueCents'', JInt 300),
      (''termYears'', JInt 2),
      (''occurredAtMs'', JInt 20)]"

lemma sample_res_auction_canonical: "canonicalAuction sample_res_auction = Inr sample_res_auction_row"
  by (simp add: canonicalAuction_def sample_res_auction_def sample_res_auction_row_def res_auction_keys_def
      res_string_def res_boolean_def res_safeTimestamp_def safe_between_def safe_def max_safe_def
      max_timestamp_def nullable_def hex_char_def)

lemma sample_res_bid_inspected:
  "inspectBid sample_res_auction_row sample_res_bid = Inr
     \<lparr>rb_id = sample_id CHR ''4'', rb_leagueId = sample_id CHR ''2'', rb_auctionId = sample_id CHR ''1'',
      rb_teamId = sample_id CHR ''5'', rb_totalValueCents = 400, rb_termYears = 2, rb_aavCents = 200,
      rb_lowestOfferedAavCents = 150, rb_lowestOfferedTotalValueCents = 300, rb_firstSubmittedAtMs = 20\<rparr>"
proof -
  have "validateSubmittedValue (JInt 400) (JInt 2) =
      Inr \<lparr>ro_totalValueCents = 400, ro_termYears = 2, ro_aavCents = 200\<rparr>"
    by (simp add: validateSubmittedValue_iff res_offer_ok_def rounded_aav_def safe_def max_safe_def)
  then show ?thesis
    by (simp add: inspectBid_def inspect_fields_def sample_res_bid_def sample_res_auction_row_def
        res_bid_keys_def minimumAuctionTotalCents_def res_boolean_def res_safeTimestamp_def
        safe_between_def safe_def max_safe_def max_timestamp_def hex_char_def)
qed

theorem auction_resolution_answers_witness:
  "\<exists>res. evaluateAuctionResolution (resolution_input sample_res_auction [sample_res_bid] [sample_res_event]) =
     Inr res \<and> rs_auctionId res = sample_id CHR ''1''"
proof -
  have row: "ra_resolvesAtMs sample_res_auction_row = 100" "ra_id sample_res_auction_row = sample_id CHR ''1''"
    by (simp_all add: sample_res_auction_row_def)
  have "\<exists>res. evaluateAuctionResolution (resolution_input sample_res_auction [sample_res_bid] [sample_res_event]) =
      Inr res \<and> rs_auctionId res = ra_id sample_res_auction_row \<and>
      rs_leagueId res = ra_leagueId sample_res_auction_row"
  proof (rule auction_resolution_answers [OF sample_res_auction_canonical])
    fix v b assume "v \<in> set [sample_res_bid]" "inspectBid sample_res_auction_row v = Inr b"
    then show "rb_firstSubmittedAtMs b \<le> ra_resolvesAtMs sample_res_auction_row"
      unfolding row by (auto simp: sample_res_bid_inspected)
  qed
  then show ?thesis unfolding row by blast
qed

lemma sample_res_winner:
  "\<exists>res sk ranked w. evaluateAuctionResolution
     (resolution_input sample_res_auction [sample_res_bid] [sample_res_event]) = Inr res \<and>
     rs_outcome res = Winner sk ranked w"
proof -
  have es: "eligible_bids sample_res_auction_row [sample_res_bid] =
    [\<lparr>rb_id = sample_id CHR ''4'', rb_leagueId = sample_id CHR ''2'', rb_auctionId = sample_id CHR ''1'',
      rb_teamId = sample_id CHR ''5'', rb_totalValueCents = 400, rb_termYears = 2, rb_aavCents = 200,
      rb_lowestOfferedAavCents = 150, rb_lowestOfferedTotalValueCents = 300, rb_firstSubmittedAtMs = 20\<rparr>]"
    (is "_ = [?b]")
    by (simp add: eligible_bids_filter valid_bids_def sample_res_bid_inspected List.map_filter_simps)
  have "\<exists>p. payable ?b (eligible_bids sample_res_auction_row [sample_res_bid]) 100 [sample_res_event] p"
    by (rule payable_current) (simp_all add: es)
  then have "\<exists>sk ranked w. resolve_bids sample_res_auction_row [sample_res_bid] [sample_res_event] =
      Inr (Winner sk ranked w)"
    using resolve_bids_cases [of sample_res_auction_row "[sample_res_bid]" "[sample_res_event]"]
    unfolding es by (auto simp: sample_res_auction_row_def)
  then show ?thesis
    by (auto simp: evaluate_input [OF sample_res_auction_canonical] Let_def) (auto simp: sample_res_auction_row_def)
qed

theorem auction_winner_and_price_witness:
  "\<exists>res sk ranked w b. evaluateAuctionResolution
     (resolution_input sample_res_auction [sample_res_bid] [sample_res_event]) = Inr res \<and>
     rs_outcome res = Winner sk ranked w \<and>
     payable b (eligible_bids sample_res_auction_row [sample_res_bid]) 100 [sample_res_event] (wb_pricedOffer w)"
proof -
  obtain res sk ranked w where *: "evaluateAuctionResolution
      (resolution_input sample_res_auction [sample_res_bid] [sample_res_event]) = Inr res"
    "rs_outcome res = Winner sk ranked w" using sample_res_winner by blast
  have "ra_resolvesAtMs sample_res_auction_row = 100" by (simp add: sample_res_auction_row_def)
  with * auction_winner_and_price [OF sample_res_auction_canonical *] show ?thesis by auto
qed


end
