(* ===== verification/RoundRobin.thy ===== *)
theory RoundRobin
  imports Validation
begin

text \<open>
  \<^verbatim>\<open>createRoundRobin\<close> of \<^verbatim>\<open>src/src/domain/matchups/matchupSchedulePolicy.js\<close>: the circle
  method over the season's teams. The symbol \<^verbatim>\<open>BYE\<close> is \<open>None\<close>. A round is built by the loop
  over the first half of the rotating array; the array is rotated with its first entry fixed.
\<close>

section \<open>The algorithm\<close>

record matchup_pair =
  mp_homeTeamId :: string
  mp_awayTeamId :: string

record matchup_round =
  mr_pairs :: "matchup_pair list"
  mr_byeTeamId :: "string option"

definition with_bye :: "string list \<Rightarrow> string option list" where
  "with_bye teamIds = map Some teamIds @ (if length teamIds mod 2 = 1 then [None] else [])"

definition make_pair :: "nat \<Rightarrow> nat \<Rightarrow> string \<Rightarrow> string \<Rightarrow> matchup_pair" where
  "make_pair r index first second =
     (let swap = ((r + index) mod 2 = 1) in
      \<lparr>mp_homeTeamId = (if swap then second else first),
       mp_awayTeamId = (if swap then first else second)\<rparr>)"

text \<open>The inner loop: the pairs so far in order, and the team that sits out.\<close>

fun pair_loop :: "nat \<Rightarrow> string option list \<Rightarrow> nat list \<Rightarrow> matchup_pair list \<Rightarrow> string option \<Rightarrow> matchup_round" where
  "pair_loop r rotating [] pairs bye = \<lparr>mr_pairs = pairs, mr_byeTeamId = bye\<rparr>"
| "pair_loop r rotating (index # rest) pairs bye =
     (case (rotating ! index, rotating ! (length rotating - 1 - index)) of
        (None, second) \<Rightarrow> pair_loop r rotating rest pairs second
      | (Some first, None) \<Rightarrow> pair_loop r rotating rest pairs (Some first)
      | (Some first, Some second) \<Rightarrow>
          pair_loop r rotating rest (pairs @ [make_pair r index first second]) bye)"

definition create_round :: "nat \<Rightarrow> string option list \<Rightarrow> matchup_round" where
  "create_round r rotating = pair_loop r rotating [0..<(length rotating + 1) div 2] [] None"

definition rotate_rest :: "'a list \<Rightarrow> 'a list" where
  "rotate_rest xs = (case xs of [] \<Rightarrow> [] | fixed # rest \<Rightarrow> fixed # last rest # butlast rest)"

fun round_loop :: "nat \<Rightarrow> nat \<Rightarrow> string option list \<Rightarrow> matchup_round list" where
  "round_loop 0 r rotating = []"
| "round_loop (Suc remaining) r rotating =
     create_round r rotating # round_loop remaining (r + 1) (rotate_rest rotating)"

definition createRoundRobin :: "string list \<Rightarrow> matchup_round list" where
  "createRoundRobin teamIds =
     (let rotating = with_bye teamIds in round_loop (length rotating - 1) 0 rotating)"

section \<open>Rotation\<close>

definition next_slot :: "nat \<Rightarrow> nat \<Rightarrow> nat" where
  "next_slot n i = (if i = 0 then 0 else if i = n - 1 then 1 else i + 1)"

lemma length_rotate_rest [simp]: "2 \<le> length xs \<Longrightarrow> length (rotate_rest xs) = length xs"
  by (cases xs) (auto simp: rotate_rest_def)

lemma rotate_rest_nth:
  assumes "2 \<le> length xs" "i < length xs"
  shows "rotate_rest xs ! next_slot (length xs) i = xs ! i"
proof -
  obtain x ys where xs: "xs = x # ys" "ys \<noteq> []"
    using assms(1) by (auto simp: Suc_le_length_iff numeral_2_eq_2)
  consider "i = 0" | "i = length ys" | j where "i = Suc j" "j < length ys - 1"
    using assms(2) xs by (cases i) (auto simp: less_Suc_eq)
  then show ?thesis
  proof cases
    case 1
    then show ?thesis by (simp add: xs rotate_rest_def next_slot_def)
  next
    case 2
    then show ?thesis
      using xs(2) by (simp add: xs rotate_rest_def next_slot_def last_conv_nth nth_Cons' [of x])
  next
    case 3
    then show ?thesis
      by (auto simp: xs rotate_rest_def next_slot_def nth_butlast)
  qed
qed

text \<open>Where the entry \<open>p\<close> of the original array stands in round \<open>r\<close>.\<close>

definition slot :: "nat \<Rightarrow> nat \<Rightarrow> nat \<Rightarrow> nat" where
  "slot n r p = (if p = 0 then 0 else 1 + (p - 1 + r) mod (n - 1))"

lemma slot_less: "2 \<le> n \<Longrightarrow> slot n r p < n"
proof -
  assume "2 \<le> n"
  then have "(p - 1 + r) mod (n - 1) < n - 1" by (intro mod_less_divisor) simp
  then show ?thesis using \<open>2 \<le> n\<close> unfolding slot_def by (split if_split) linarith
qed

lemma slot_Suc:
  assumes "2 \<le> n"
  shows "slot n (Suc r) p = next_slot n (slot n r p)"
proof (cases "p = 0")
  case False
  let ?m = "n - 1"
  have "(p - 1 + Suc r) mod ?m =
      (if Suc ((p - 1 + r) mod ?m) = ?m then 0 else Suc ((p - 1 + r) mod ?m))"
    by (simp add: mod_Suc)
  with False assms show ?thesis by (auto simp: slot_def next_slot_def)
qed (simp add: slot_def next_slot_def)

lemma rotate_rest_power:
  assumes "2 \<le> length xs" "p < length xs"
  shows "length ((rotate_rest ^^ r) xs) = length xs \<and>
    (rotate_rest ^^ r) xs ! slot (length xs) r p = xs ! p"
proof (induction r)
  case 0
  then show ?case using assms by (auto simp: slot_def)
next
  case (Suc r)
  then have "2 \<le> length ((rotate_rest ^^ r) xs)" using assms(1) by simp
  moreover have "slot (length xs) r p < length ((rotate_rest ^^ r) xs)"
    using Suc slot_less [OF assms(1)] by simp
  ultimately show ?case
    using Suc rotate_rest_nth [of "(rotate_rest ^^ r) xs" "slot (length xs) r p"] assms(1)
    by (simp add: slot_Suc)
qed

lemma mset_rotate_rest: "2 \<le> length xs \<Longrightarrow> mset (rotate_rest xs) = mset xs"
proof -
  assume "2 \<le> length xs"
  then obtain x ys where "xs = x # ys" "ys \<noteq> []"
    by (auto simp: Suc_le_length_iff numeral_2_eq_2)
  moreover then have "mset ys = add_mset (last ys) (mset (butlast ys))"
    by (metis append_butlast_last_id mset.simps(2) mset_append union_mset_add_mset_right add.right_neutral mset.simps(1))
  ultimately show ?thesis by (simp add: rotate_rest_def)
qed

lemma mset_rotate_rest_power:
  "2 \<le> length xs \<Longrightarrow> mset ((rotate_rest ^^ r) xs) = mset xs \<and> length ((rotate_rest ^^ r) xs) = length xs"
  by (induction r) (simp_all add: mset_rotate_rest)

section \<open>When two slots meet\<close>

text \<open>
  Entries \<open>p\<close> and \<open>q\<close> face each other in round \<open>r\<close> when their slots add up to the last index.
  For an even number of entries there is exactly one such round.
\<close>

definition faces :: "nat \<Rightarrow> nat \<Rightarrow> nat \<Rightarrow> nat \<Rightarrow> bool" where
  "faces n r p q \<longleftrightarrow> slot n r p + slot n r q = n - 1"

lemma faces_sym: "faces n r p q \<longleftrightarrow> faces n r q p"
  by (simp add: faces_def add.commute)

lemma faces_fixed:
  assumes "2 \<le> n" "0 < q" "q < n" "r < n - 1"
  shows "faces n r 0 q \<longleftrightarrow> r = n - 1 - q"
proof -
  define m where "m = n - 1"
  have m: "0 < m" "q \<le> m" "r < m" using assms by (auto simp: m_def)
  have "faces n r 0 q \<longleftrightarrow> 1 + (q - 1 + r) mod m = m"
    using assms(2) by (simp add: faces_def slot_def m_def)
  also have "\<dots> \<longleftrightarrow> q - 1 + r = m - 1"
  proof (cases "q - 1 + r < m")
    case True
    then show ?thesis using m by auto
  next
    case False
    then have "(q - 1 + r) mod m = q - 1 + r - m" using m by (simp add: le_mod_geq)
    then show ?thesis using False m by auto
  qed
  also have "\<dots> \<longleftrightarrow> r = m - q" using m assms(2) by auto
  finally show ?thesis by (simp add: m_def)
qed

lemma faces_others:
  assumes "2 \<le> n" "0 < p" "0 < q" "p \<noteq> q" "p < n" "q < n"
  shows "faces n r p q \<longleftrightarrow> (int p + int q + 2 * int r) mod int (n - 1) = 0"
proof -
  define m where "m = n - 1"
  define u v where "u = (p - 1 + r) mod m" and "v = (q - 1 + r) mod m"
  have m: "0 < m" using assms(1) by (simp add: m_def)
  have uv: "u < m" "v < m" using m by (simp_all add: u_def v_def)
  have "u \<noteq> v"
  proof
    assume "u = v"
    then have "int (p - 1 + r) mod int m = int (q - 1 + r) mod int m"
      unfolding u_def v_def by (simp only: flip: zmod_int)
    then have "int m dvd int (p - 1 + r) - int (q - 1 + r)" by (rule mod_eq_dvd_iff [THEN iffD1])
    then have "int m dvd int p - int q" using assms by (simp add: of_nat_diff)
    moreover have "\<bar>int p - int q\<bar> < int m" using assms by (auto simp: m_def)
    ultimately show False using assms(4) zdvd_not_zless [of "int p - int q" "int m"]
      by (metis dvd_imp_le_int abs_of_nat diff_gt_0_iff_gt eq_iff_diff_eq_0 of_nat_eq_iff not_le)
  qed
  have sum: "(int u + int v) mod int m = (int p + int q + 2 * int r - 2) mod int m"
  proof -
    have "(int u + int v) mod int m = (int (p - 1 + r) + int (q - 1 + r)) mod int m"
      by (simp only: u_def v_def zmod_int mod_add_eq)
    also have "int (p - 1 + r) + int (q - 1 + r) = int p + int q + 2 * int r - 2"
      using assms by (simp add: of_nat_diff)
    finally show ?thesis .
  qed
  have "faces n r p q \<longleftrightarrow> int u + int v + 2 = int m"
    using assms by (auto simp: faces_def slot_def u_def v_def m_def)
  also have "\<dots> \<longleftrightarrow> (int u + int v + 2) mod int m = 0"
  proof
    assume "(int u + int v + 2) mod int m = 0"
    then obtain k where k: "int u + int v + 2 = int m * k" by (auto simp: mod_eq_0_iff_dvd)
    have "0 < int m * k" using k by linarith
    then have "0 < k" using m by (simp add: zero_less_mult_iff)
    moreover have "int m * k < int m * 2" using k uv \<open>u \<noteq> v\<close> by linarith
    then have "k < 2" using m by simp
    ultimately have "k = 1" by simp
    with k show "int u + int v + 2 = int m" by simp
  qed simp
  also have "\<dots> \<longleftrightarrow> (int p + int q + 2 * int r) mod int m = 0"
    using sum by (metis (no_types, lifting) diff_add_cancel mod_add_cong mod_add_left_eq)
  finally show ?thesis by (simp add: m_def)
qed

lemma faces_unique:
  assumes n: "2 \<le> n" "even n" and pq: "p < n" "q < n" "p \<noteq> q"
  shows "\<exists>!r. r < n - 1 \<and> faces n r p q"
proof -
  consider "p = 0" "0 < q" | "q = 0" "0 < p" | "0 < p" "0 < q" using pq(3) by auto
  then show ?thesis
  proof cases
    case 1
    have "n - 1 - q < n - 1" using 1 n by simp
    with faces_fixed [OF n(1) 1(2) pq(2)] 1 show ?thesis by auto
  next
    case 2
    have "n - 1 - p < n - 1" using 2 n by simp
    with faces_fixed [OF n(1) 2(2) pq(1)] 2 faces_sym show ?thesis by metis
  next
    case 3
    define m where "m = int (n - 1)"
    obtain h where h: "m = 2 * h - 1" "1 \<le> h"
    proof
      show "m = 2 * (int n div 2) - 1" using n by (auto simp: m_def)
      show "1 \<le> int n div 2" using n by auto
    qed
    have m: "0 < m" using h by simp
    define r where "r = (- (int p + int q) * h) mod m"
    have r: "0 \<le> r" "r < m" using m by (simp_all add: r_def)
    have ok: "(int p + int q + 2 * r) mod m = 0"
    proof -
      have "(int p + int q + 2 * r) mod m = (int p + int q + 2 * (- (int p + int q) * h)) mod m"
        unfolding r_def by (metis mod_add_right_eq mod_mult_right_eq)
      also have "int p + int q + 2 * (- (int p + int q) * h) = - (int p + int q) * m"
        unfolding h(1) by (simp add: algebra_simps)
      finally show ?thesis by simp
    qed
    have uniq: "s = r" if "0 \<le> s" "s < m" "(int p + int q + 2 * s) mod m = 0" for s
    proof -
      have "m dvd (int p + int q + 2 * s) - (int p + int q + 2 * r)"
        using that(3) ok by (intro dvd_diff) auto
      then have "m dvd 2 * (s - r)" by (simp add: algebra_simps)
      moreover have "coprime m 2" using h by (simp add: coprime_right_2_iff_odd)
      ultimately have "m dvd s - r" using coprime_dvd_mult_right_iff by blast
      then have "s mod m = r mod m" by (rule mod_eq_dvd_iff [THEN iffD2])
      then show ?thesis using that(1,2) r by simp
    qed
    note f = faces_others [OF n(1) 3 pq(3,1,2), folded m_def]
    have "nat r < n - 1 \<and> faces n (nat r) p q" using r ok f by (auto simp: m_def)
    moreover have "s = nat r" if "s < n - 1 \<and> faces n s p q" for s
      using uniq [of "int s"] that f by (auto simp: m_def)
    ultimately show ?thesis by blast
  qed
qed

section \<open>One round\<close>

definition round_teams :: "matchup_round \<Rightarrow> string multiset" where
  "round_teams R = mset (map mp_homeTeamId (mr_pairs R)) + mset (map mp_awayTeamId (mr_pairs R)) +
     (case mr_byeTeamId R of None \<Rightarrow> {#} | Some t \<Rightarrow> {#t#})"

definition round_meets :: "matchup_round \<Rightarrow> string \<Rightarrow> string \<Rightarrow> bool" where
  "round_meets R a b \<longleftrightarrow>
     (\<exists>p \<in> set (mr_pairs R). {mp_homeTeamId p, mp_awayTeamId p} = {a, b})"

definition endpoints :: "'a list \<Rightarrow> nat list \<Rightarrow> 'a multiset" where
  "endpoints xs is = mset (map (\<lambda>i. xs ! i) is) + mset (map (\<lambda>i. xs ! (length xs - 1 - i)) is)"

lemma endpoints_simps [simp]:
  "endpoints xs [] = {#}"
  "endpoints xs (i # is) = {#xs ! i, xs ! (length xs - 1 - i)#} + endpoints xs is"
  by (simp_all add: endpoints_def)

lemma endpoints_half:
  assumes "length xs = 2 * h"
  shows "endpoints xs [0..<h] = mset xs"
proof -
  have "map (\<lambda>i. xs ! i) [0..<h] = take h xs"
    using assms by (intro nth_equalityI) auto
  moreover have "map (\<lambda>i. xs ! (length xs - 1 - i)) [0..<h] = rev (drop h xs)"
    using assms by (intro nth_equalityI) (auto simp: rev_nth intro!: arg_cong [where f = "(!) xs"])
  ultimately show ?thesis
    unfolding endpoints_def by (metis append_take_drop_id mset_append mset_rev)
qed

lemma make_pair_teams:
  "{#mp_homeTeamId (make_pair r i f s), mp_awayTeamId (make_pair r i f s)#} = {#f, s#}"
  "{mp_homeTeamId (make_pair r i f s), mp_awayTeamId (make_pair r i f s)} = {f, s}"
  by (auto simp: make_pair_def Let_def)

lemma pair_loop_teams:
  assumes "count (endpoints ys is) None \<le> 1" "bye \<noteq> None \<Longrightarrow> None \<notin># endpoints ys is"
  shows "image_mset Some (round_teams (pair_loop r ys is ps bye)) =
    image_mset Some (round_teams \<lparr>mr_pairs = ps, mr_byeTeamId = bye\<rparr>) +
    filter_mset (\<lambda>x. x \<noteq> None) (endpoints ys is)"
  using assms
proof (induction "is" arbitrary: ps bye)
  case Nil
  then show ?case by simp
next
  case (Cons i "is")
  let ?j = "length ys - 1 - i"
  have rest: "count (endpoints ys is) None \<le> 1"
    using Cons.prems(1) by (auto split: if_splits)
  show ?case
  proof (cases "ys ! i")
    case None
    then obtain t where t: "ys ! ?j = Some t" "None \<notin># endpoints ys is"
      using Cons.prems(1) by (cases "ys ! ?j") (auto simp: not_in_iff)
    moreover have "bye = None" using Cons.prems(2) None by force
    ultimately show ?thesis
      using Cons.IH [OF rest, of "Some t" ps] None by (simp add: round_teams_def)
  next
    case (Some f)
    show ?thesis
    proof (cases "ys ! ?j")
      case None
      then have "None \<notin># endpoints ys is" using Cons.prems(1) Some by (auto simp: not_in_iff)
      moreover have "bye = None" using Cons.prems(2) None by force
      ultimately show ?thesis
        using Cons.IH [OF rest, of "Some f" ps] None Some by (simp add: round_teams_def)
    next
      case (Some s)
      have "None \<notin># endpoints ys is" if "bye \<noteq> None" using Cons.prems(2) [OF that] by simp
      then have "image_mset Some (round_teams (pair_loop r ys is (ps @ [make_pair r i f s]) bye)) =
          image_mset Some (round_teams \<lparr>mr_pairs = ps @ [make_pair r i f s], mr_byeTeamId = bye\<rparr>) +
          filter_mset (\<lambda>x. x \<noteq> None) (endpoints ys is)"
        by (rule Cons.IH [OF rest])
      then show ?thesis
        using \<open>ys ! i = Some f\<close> Some make_pair_teams(1) [of r i f s]
        by (simp add: round_teams_def) (metis add_mset_commute image_mset_add_mset image_mset_single)
    qed
  qed
qed

lemma pair_loop_pairs:
  "set (mr_pairs (pair_loop r ys is ps bye)) =
     set ps \<union> {make_pair r i f s | i f s. i \<in> set is \<and> ys ! i = Some f \<and> ys ! (length ys - 1 - i) = Some s}"
proof (induction "is" arbitrary: ps bye)
  case Nil
  then show ?case by simp
next
  case (Cons i "is")
  then show ?case
    by (cases "ys ! i"; cases "ys ! (length ys - 1 - i)") (auto simp: Cons.IH)
qed

lemma create_round_teams:
  assumes "even (length ys)" "count (mset ys) None \<le> 1"
  shows "image_mset Some (round_teams (create_round r ys)) = filter_mset (\<lambda>x. x \<noteq> None) (mset ys)"
proof -
  obtain h where h: "length ys = 2 * h" using assms(1) by blast
  then have "endpoints ys [0..<(length ys + 1) div 2] = mset ys" by (simp add: endpoints_half)
  moreover have "image_mset Some (round_teams \<lparr>mr_pairs = [], mr_byeTeamId = None\<rparr>) = {#}"
    by (simp add: round_teams_def)
  ultimately show ?thesis
    using pair_loop_teams [of ys "[0..<(length ys + 1) div 2]" None r "[]"] assms(2)
    unfolding create_round_def by simp
qed

lemma create_round_meets:
  assumes "even (length ys)" "a \<noteq> b"
  shows "round_meets (create_round r ys) a b \<longleftrightarrow>
    (\<exists>i j. i < length ys \<and> j < length ys \<and> i + j = length ys - 1 \<and> ys ! i = Some a \<and> ys ! j = Some b)"
proof -
  obtain h where h: "length ys = 2 * h" using assms(1) by blast
  have half: "(length ys + 1) div 2 = h" using h by simp
  have "round_meets (create_round r ys) a b \<longleftrightarrow>
      (\<exists>i f s. i < h \<and> ys ! i = Some f \<and> ys ! (length ys - 1 - i) = Some s \<and> {f, s} = {a, b})"
    unfolding round_meets_def create_round_def pair_loop_pairs half
    using make_pair_teams(2) [of r] by (auto; metis)
  also have "\<dots> \<longleftrightarrow> (\<exists>i < h. (ys ! i = Some a \<and> ys ! (length ys - 1 - i) = Some b) \<or>
      (ys ! i = Some b \<and> ys ! (length ys - 1 - i) = Some a))"
    by (auto simp: doubleton_eq_iff)
  also have "\<dots> \<longleftrightarrow> (\<exists>i j. i < length ys \<and> j < length ys \<and> i + j = length ys - 1 \<and>
      ys ! i = Some a \<and> ys ! j = Some b)" (is "?l \<longleftrightarrow> ?r")
  proof
    assume ?l
    then obtain i where i: "i < h" "(ys ! i = Some a \<and> ys ! (length ys - 1 - i) = Some b) \<or>
      (ys ! i = Some b \<and> ys ! (length ys - 1 - i) = Some a)" by blast
    moreover have "i < length ys" "length ys - 1 - i < length ys" "i + (length ys - 1 - i) = length ys - 1"
      "(length ys - 1 - i) + i = length ys - 1" using i(1) h by auto
    ultimately show ?r by blast
  next
    assume ?r
    then obtain i j where ij: "i + j = length ys - 1" "i < length ys" "j < length ys"
      "ys ! i = Some a" "ys ! j = Some b" by blast
    then have "(i < h \<and> length ys - 1 - i = j) \<or> (j < h \<and> length ys - 1 - j = i)" using h by linarith
    with ij show ?l by metis
  qed
  finally show ?thesis .
qed

section \<open>The season of rounds\<close>

lemma round_loop_nth:
  "k < n \<Longrightarrow> round_loop n r ys ! k = create_round (r + k) ((rotate_rest ^^ k) ys)"
  by (induction n arbitrary: r ys k) (auto simp: nth_Cons' funpow_swap1 less_Suc_eq_0_disj)

lemma length_round_loop [simp]: "length (round_loop n r ys) = n"
  by (induction n arbitrary: r ys) simp_all

lemma with_bye_facts:
  assumes "2 \<le> length ts"
  shows "even (length (with_bye ts))" "2 \<le> length (with_bye ts)" "count (mset (with_bye ts)) None \<le> 1"
    "filter_mset (\<lambda>x. x \<noteq> None) (mset (with_bye ts)) = image_mset Some (mset ts)"
    "p < length ts \<Longrightarrow> with_bye ts ! p = Some (ts ! p)"
    "length (with_bye ts) - 1 = (if even (length ts) then length ts - 1 else length ts)"
proof -
  have "count (mset (map Some ts)) None = 0" by (simp add: count_eq_zero_iff)
  then show "count (mset (with_bye ts)) None \<le> 1" by (simp add: with_bye_def)
  show "filter_mset (\<lambda>x. x \<noteq> None) (mset (with_bye ts)) = image_mset Some (mset ts)"
    by (auto simp: with_bye_def filter_mset_eq_conv)
  show "even (length (with_bye ts))"
    by (cases "even (length ts)") (simp_all add: with_bye_def, presburger+)
  show "length (with_bye ts) - 1 = (if even (length ts) then length ts - 1 else length ts)"
    by (cases "even (length ts)") (simp_all add: with_bye_def, presburger+)
qed (use assms in \<open>simp_all add: with_bye_def nth_append\<close>)

lemma count_le_one_nth_less:
  assumes "count (mset xs) x \<le> 1" "i < j" "j < length xs" "xs ! i = x"
  shows "xs ! j \<noteq> x"
proof
  assume j: "xs ! j = x"
  have "x \<in> set (take j xs)" using assms by (auto simp: in_set_conv_nth intro!: exI [of _ i])
  then have "1 \<le> count (mset (take j xs)) x" by (simp add: Suc_le_eq count_greater_zero_iff)
  moreover have "mset xs = mset (take j xs) + add_mset (xs ! j) (mset (drop (Suc j) xs))"
    using id_take_nth_drop [OF assms(3)] by (metis mset.simps(2) mset_append)
  ultimately show False using assms(1) j by simp
qed

lemma count_le_one_nth_eq:
  "count (mset xs) x \<le> 1 \<Longrightarrow> i < length xs \<Longrightarrow> j < length xs \<Longrightarrow> xs ! i = x \<Longrightarrow> xs ! j = x \<Longrightarrow> i = j"
  by (metis count_le_one_nth_less linorder_neqE_nat)

text \<open>
  C26. The round robin of two or more distinct teams has one round fewer than there are teams (as
  many as teams when their number is odd). In every round each team plays exactly once or has the
  bye, and the bye is used only when the number of teams is odd; over the whole round robin every
  two teams meet in exactly one round.
\<close>

theorem round_robin_complete:
  assumes "distinct ts" "2 \<le> length ts"
  shows "length (createRoundRobin ts) = (if even (length ts) then length ts - 1 else length ts) \<and>
    (\<forall>R \<in> set (createRoundRobin ts). round_teams R = mset ts \<and>
       (mr_byeTeamId R = None \<longleftrightarrow> even (length ts))) \<and>
    (\<forall>a \<in> set ts. \<forall>b \<in> set ts. a \<noteq> b \<longrightarrow>
       (\<exists>!k. k < length (createRoundRobin ts) \<and> round_meets (createRoundRobin ts ! k) a b))"
proof -
  define ys n where "ys = with_bye ts" and "n = length ys"
  note w = with_bye_facts [OF assms(2), folded ys_def n_def]
  have rounds: "createRoundRobin ts ! k = create_round k ((rotate_rest ^^ k) ys)" if "k < n - 1" for k
    using that by (simp add: createRoundRobin_def round_loop_nth flip: ys_def n_def)
  have len: "length (createRoundRobin ts) = n - 1"
    by (simp add: createRoundRobin_def Let_def flip: ys_def n_def)
  have rot: "mset ((rotate_rest ^^ k) ys) = mset ys" "length ((rotate_rest ^^ k) ys) = n" for k
    using mset_rotate_rest_power [of ys k] w(2) by (simp_all add: n_def)
  have teams: "round_teams R = mset ts" if R: "R \<in> set (createRoundRobin ts)" for R
  proof -
    obtain k where "k < n - 1" "R = create_round k ((rotate_rest ^^ k) ys)"
      using R rounds len by (metis in_set_conv_nth)
    then have "image_mset Some (round_teams R) = image_mset Some (mset ts)"
      using create_round_teams [of "(rotate_rest ^^ k) ys" k] rot [of k] w by simp
    then have "image_mset the (image_mset Some (round_teams R)) = image_mset the (image_mset Some (mset ts))"
      by simp
    then show ?thesis by (simp add: multiset.map_comp comp_def del: mset_map)
  qed
  have bye: "mr_byeTeamId R = None \<longleftrightarrow> even (length ts)" if "round_teams R = mset ts" for R
  proof -
    have "size (round_teams R) = length ts" using that by simp
    then have "length (mr_pairs R) + length (mr_pairs R) + (if mr_byeTeamId R = None then 0 else 1) = length ts"
      by (auto simp: round_teams_def split: option.splits)
    then show ?thesis by (cases "mr_byeTeamId R = None") presburger+
  qed
  have unique: "\<exists>!k. k < n - 1 \<and> round_meets (createRoundRobin ts ! k) a b"
    if ab: "a \<in> set ts" "b \<in> set ts" "a \<noteq> b" for a b
  proof -
    obtain p q where pq: "p < length ts" "ts ! p = a" "q < length ts" "ts ! q = b" "p \<noteq> q"
      using ab by (metis in_set_conv_nth)
    then have pqn: "p < n" "q < n" by (auto simp: n_def ys_def with_bye_def)
    have meets: "round_meets (createRoundRobin ts ! k) a b \<longleftrightarrow> faces n k p q" if k: "k < n - 1" for k
    proof -
      define zs where "zs = (rotate_rest ^^ k) ys"
      have zs: "length zs = n" "zs ! slot n k p = Some a" "zs ! slot n k q = Some b"
        "slot n k p < n" "slot n k q < n"
        using rotate_rest_power [of ys p k] rotate_rest_power [of ys q k] slot_less w(2,5) pq pqn
        by (simp_all add: zs_def n_def)
      have inj: "i = j" if "i < n" "j < n" "zs ! i = Some c" "zs ! j = Some c" for i j c
      proof -
        have "count (mset zs) (Some c) \<le> 1"
        proof -
          have "mset (filter (\<lambda>x. x \<noteq> None) zs) = mset (map Some ts)"
            using rot(1) [of k] w(4) by (simp add: zs_def)
          moreover have "distinct (map Some ts)" using assms(1) by (simp add: distinct_map)
          ultimately have "distinct (filter (\<lambda>x. x \<noteq> None) zs)" by (metis mset_eq_imp_distinct_iff)
          then have "count (mset (filter (\<lambda>x. x \<noteq> None) zs)) (Some c) =
              (if Some c \<in> set (filter (\<lambda>x. x \<noteq> None) zs) then 1 else 0)"
            by (simp only: distinct_count_atmost_1)
          then show ?thesis by (simp split: if_splits)
        qed
        then show "i = j" using that zs(1) by (metis count_le_one_nth_eq)
      qed
      show ?thesis
        using create_round_meets [of zs a b k] ab(3) zs w(1) inj rounds [OF k]
        by (auto simp: faces_def zs_def [symmetric]) metis
    qed
    show ?thesis using faces_unique [OF w(2,1) pqn pq(5)] meets by (metis (no_types, lifting))
  qed
  show ?thesis using len w(6) teams bye unique by auto
qed

theorem round_robin_complete_witness:
  "length (createRoundRobin [''a'', ''b'', ''c'']) = 3 \<and>
   (\<exists>!k. k < 3 \<and> round_meets (createRoundRobin [''a'', ''b'', ''c''] ! k) ''a'' ''c'')"
proof -
  have "distinct [''a'', ''b'', ''c'']" "2 \<le> length [''a'', ''b'', ''c'']" by simp_all
  note rr = round_robin_complete [OF this]
  then have "length (createRoundRobin [''a'', ''b'', ''c'']) = 3" by simp
  with rr show ?thesis by simp
qed

end
