(* ===== verification/MatchupLock.thy ===== *)
theory MatchupLock
  imports Validation Ordering
begin

text \<open>
  \<^verbatim>\<open>src/src/domain/matchups/matchupLockPolicy.js\<close> and
  \<^verbatim>\<open>matchupLegalityPolicy.js\<close>: the lineup that is frozen when a matchup week locks. The
  policy copies the active players, gives every player without a usable display slot the lowest
  free one of its position and joins each with its statistics total. The \<^verbatim>\<open>Set\<close> of used slots
  is the list of its members; \<open>collate\<close> is the runtime's \<^verbatim>\<open>localeCompare\<close>.
\<close>

section \<open>Lineup legality\<close>

datatype legality_code =
    LegalityInputInvalid | ForwardLimitExceeded | DefenceLimitExceeded | PositionInvalid
  | PlayerDuplicate | CapIncomplete | CapExceeded | HealthyPlayerOnIr

record lineup_legality =
  ll_legal :: bool
  ll_reasonCodes :: "legality_code list"
  ll_primaryReasonCode :: "legality_code option"

fun safe_nonneg :: "jsval \<Rightarrow> bool" where
  "safe_nonneg (JInt n) \<longleftrightarrow> safe n \<and> 0 \<le> n"
| "safe_nonneg _ \<longleftrightarrow> False"

fun int_of :: "jsval \<Rightarrow> int" where
  "int_of (JInt n) = n"
| "int_of _ = 0"

definition cap_reasons :: "jsval \<Rightarrow> legality_code list" where
  "cap_reasons cap =
     (if cap = JNull \<or> cap = JUndef then []
      else if fld cap ''complete'' \<noteq> JBool True \<or> \<not> safe_nonneg (fld cap ''capUsageCents'') \<or>
          \<not> safe_nonneg (fld cap ''capLimitCents'') then [CapIncomplete]
      else if int_of (fld cap ''capUsageCents'') > int_of (fld cap ''capLimitCents'') then [CapExceeded]
      else [])"

text \<open>\<^verbatim>\<open>healthy_ir_count\<close> is an SQL count: an integer, or absent.\<close>

definition healthy_on_ir :: "jsval \<Rightarrow> bool" where
  "healthy_on_ir p \<longleftrightarrow> (case fld p ''healthy_ir_count'' of JInt n \<Rightarrow> n > 0 | _ \<Rightarrow> False)"

definition valid_position :: "jsval \<Rightarrow> bool" where
  "valid_position p \<longleftrightarrow> fld p ''position_group'' \<in> {JStr ''F'', JStr ''D''}"

definition valid_player_id :: "jsval \<Rightarrow> bool" where
  "valid_player_id v \<longleftrightarrow> (case v of JStr s \<Rightarrow> s \<noteq> [] | _ \<Rightarrow> False)"

definition at_position :: "string \<Rightarrow> jsval list \<Rightarrow> jsval list" where
  "at_position pos ps = filter (\<lambda>p. fld p ''position_group'' = JStr pos) ps"

definition lineup_reasons :: "jsval list \<Rightarrow> jsval \<Rightarrow> legality_code list" where
  "lineup_reasons ps cap =
     (let ids = map (\<lambda>p. fld p ''player_id'') ps in
      cap_reasons cap @
      (if list_ex healthy_on_ir ps then [HealthyPlayerOnIr] else []) @
      (if list_ex (\<lambda>p. \<not> valid_position p) ps then [PositionInvalid] else []) @
      (if list_ex (\<lambda>v. \<not> valid_player_id v) ids \<or> length (remdups ids) \<noteq> length ids
       then [PlayerDuplicate] else []) @
      (if length (at_position ''F'' ps) > 12 then [ForwardLimitExceeded] else []) @
      (if length (at_position ''D'' ps) > 6 then [DefenceLimitExceeded] else []))"

definition evaluateMatchupLineupLegality :: "jsval \<Rightarrow> jsval \<Rightarrow> legality_code + lineup_legality" where
  "evaluateMatchupLineupLegality activePlayers cap = (case items activePlayers of
     None \<Rightarrow> Inl LegalityInputInvalid
   | Some ps \<Rightarrow> (let reasons = lineup_reasons ps cap in
       Inr \<lparr>ll_legal = (reasons = []), ll_reasonCodes = reasons,
         ll_primaryReasonCode = (case reasons of [] \<Rightarrow> None | r # _ \<Rightarrow> Some r)\<rparr>))"

section \<open>The lock\<close>

datatype lock_code = LockInputInvalid | LockSourceFuture | LockSourceStale | LockLineupInvalid

definition lock_freshness_window :: int where
  "lock_freshness_window = 6 * 60 * 60 * 1000"

abbreviation lock_safeInteger :: "jsval \<Rightarrow> lock_code + int" where
  "lock_safeInteger \<equiv> safe_from LockInputInvalid 0"

text \<open>The result's freshness is always \<^verbatim>\<open>fresh\<close>; its age is returned.\<close>

definition assertFreshBaselineSource :: "jsval \<Rightarrow> jsval \<Rightarrow> lock_code + int" where
  "assertFreshBaselineSource baselineAtMs refreshCompletedAtMs =
     bindE (lock_safeInteger baselineAtMs) (\<lambda>baseline.
     bindE (lock_safeInteger refreshCompletedAtMs) (\<lambda>completed.
     if completed > baseline then Inl LockSourceFuture
     else if baseline - completed > lock_freshness_window then Inl LockSourceStale
     else Inr (baseline - completed)))"

record active_player =
  ap_playerId :: string
  ap_positionGroup :: string
  ap_slotNumber :: jsval

definition copy_player :: "active_player list \<Rightarrow> jsval \<Rightarrow> lock_code + active_player list" where
  "copy_player players p = (case (fld p ''player_id'', fld p ''position_group'') of
     (JStr i, JStr pos) \<Rightarrow>
       if i = [] \<or> i \<in> set (map ap_playerId players) \<or> pos \<notin> {''F'', ''D''} then Inl LockLineupInvalid
       else Inr (players @ [\<lparr>ap_playerId = i, ap_positionGroup = pos, ap_slotNumber = fld p ''slot_number''\<rparr>])
   | _ \<Rightarrow> Inl LockLineupInvalid)"

text \<open>The first pass over a position: slots that stay, and the players left without one.\<close>

fun keep_slots :: "int \<Rightarrow> int list \<Rightarrow> active_player list \<Rightarrow> active_player list \<Rightarrow> int list \<times> active_player list" where
  "keep_slots maximum used unplaced [] = (used, unplaced)"
| "keep_slots maximum used unplaced (p # ps) = (case ap_slotNumber p of
     JInt n \<Rightarrow>
       if safe n \<and> 1 \<le> n \<and> n \<le> maximum \<and> n \<notin> set used
       then keep_slots maximum (n # used) unplaced ps
       else keep_slots maximum used (unplaced @ [p]) ps
   | _ \<Rightarrow> keep_slots maximum used (unplaced @ [p]) ps)"

text \<open>\<^verbatim>\<open>while (used.has(slot)) slot++\<close>: each turn leaves one member of the set behind.\<close>

function first_free :: "int list \<Rightarrow> int \<Rightarrow> int" where
  "first_free used slot = (if slot \<in> set used then first_free used (slot + 1) else slot)"
  by auto

termination
proof (relation "measure (\<lambda>(used, slot). card {s \<in> set used. slot \<le> s})")
  fix used :: "int list" and slot
  assume "slot \<in> set used"
  then have "{s \<in> set used. slot + 1 \<le> s} \<subset> {s \<in> set used. slot \<le> s}" by force
  then show "((used, slot + 1), used, slot) \<in> measure (\<lambda>(used, slot). card {s \<in> set used. slot \<le> s})"
    by (simp add: psubset_card_mono)
qed simp

declare first_free.simps [simp del]

fun place :: "int list \<Rightarrow> active_player list \<Rightarrow> (string \<times> int) list" where
  "place used [] = []"
| "place used (p # ps) =
     (let slot = first_free used 1 in (ap_playerId p, slot) # place (slot # used) ps)"

definition set_slots :: "(string \<times> int) list \<Rightarrow> active_player list \<Rightarrow> active_player list" where
  "set_slots slots players = map (\<lambda>p. case map_of slots (ap_playerId p) of
     None \<Rightarrow> p | Some s \<Rightarrow> p\<lparr>ap_slotNumber := JInt s\<rparr>) players"

definition place_group ::
  "(string \<Rightarrow> string \<Rightarrow> int) \<Rightarrow> active_player list \<Rightarrow> string \<times> int \<Rightarrow> lock_code + active_player list" where
  "place_group collate players group_limit = (case group_limit of (position, maximum) \<Rightarrow>
     (let group = js_sort (\<lambda>l r. collate (ap_playerId l) (ap_playerId r))
            (filter (\<lambda>p. ap_positionGroup p = position) players) in
      if int (length group) > maximum then Inl LockLineupInvalid
      else (case keep_slots maximum [] [] group of (used, unplaced) \<Rightarrow>
        Inr (set_slots (place used unplaced) players))))"

record player_total =
  pt_gamesPlayed :: int
  pt_goals :: int
  pt_assists :: int
  pt_fantasyPoints :: int

definition add_total :: "(string \<times> player_total) list \<Rightarrow> jsval \<Rightarrow> lock_code + (string \<times> player_total) list" where
  "add_total totals t = (case fld t ''player_id'' of
     JStr i \<Rightarrow>
       if i \<in> fst ` set totals then Inl LockInputInvalid
       else bindE (lock_safeInteger (fld t ''games_played'')) (\<lambda>gp.
            bindE (lock_safeInteger (fld t ''goals'')) (\<lambda>g.
            bindE (lock_safeInteger (fld t ''assists'')) (\<lambda>a.
            bindE (lock_safeInteger (fld t ''fantasy_points_hundredths'')) (\<lambda>fp.
            Inr (totals @ [(i, \<lparr>pt_gamesPlayed = gp, pt_goals = g, pt_assists = a, pt_fantasyPoints = fp\<rparr>)])))))
   | _ \<Rightarrow> Inl LockInputInvalid)"

record locked_player =
  lp_playerId :: string
  lp_positionGroup :: string
  lp_slotNumber :: int
  lp_baselineGamesPlayed :: int
  lp_baselineGoals :: int
  lp_baselineAssists :: int
  lp_baselineFantasyPoints :: int

definition zero_total :: player_total where
  "zero_total = \<lparr>pt_gamesPlayed = 0, pt_goals = 0, pt_assists = 0, pt_fantasyPoints = 0\<rparr>"

definition slot_key :: "active_player \<Rightarrow> int \<Rightarrow> string" where
  "slot_key p n = ap_positionGroup p @ '':'' @ int_text n"

text \<open>The sets \<^verbatim>\<open>playerIds\<close> and \<^verbatim>\<open>slots\<close> of the last pass, and the rows so far.\<close>

definition lock_player ::
  "(string \<times> player_total) list \<Rightarrow> string set \<times> string set \<times> locked_player list \<Rightarrow> active_player \<Rightarrow>
   lock_code + string set \<times> string set \<times> locked_player list" where
  "lock_player totals state p = (case state of (playerIds, slots, result) \<Rightarrow>
     (case ap_slotNumber p of
        JInt n \<Rightarrow>
          if ap_playerId p \<in> playerIds \<or> ap_positionGroup p \<notin> {''F'', ''D''} \<or> \<not> safe n \<or> n < 1
          then Inl LockLineupInvalid
          else if slot_key p n \<in> slots then Inl LockLineupInvalid
          else (let total_row = (case map_of totals (ap_playerId p) of Some t \<Rightarrow> t | None \<Rightarrow> zero_total) in
            Inr (insert (ap_playerId p) playerIds, insert (slot_key p n) slots, result @
              [\<lparr>lp_playerId = ap_playerId p, lp_positionGroup = ap_positionGroup p, lp_slotNumber = n,
                lp_baselineGamesPlayed = pt_gamesPlayed total_row, lp_baselineGoals = pt_goals total_row,
                lp_baselineAssists = pt_assists total_row,
                lp_baselineFantasyPoints = pt_fantasyPoints total_row\<rparr>]))
      | _ \<Rightarrow> Inl LockLineupInvalid))"

definition compareLocked :: "(string \<Rightarrow> string \<Rightarrow> int) \<Rightarrow> locked_player \<Rightarrow> locked_player \<Rightarrow> int" where
  "compareLocked collate l r =
     cmp_or (collate (lp_positionGroup l) (lp_positionGroup r))
    (cmp_or (lp_slotNumber l - lp_slotNumber r)
            (collate (lp_playerId l) (lp_playerId r)))"

definition buildLockedPlayerBaselines ::
  "(string \<Rightarrow> string \<Rightarrow> int) \<Rightarrow> jsval \<Rightarrow> jsval \<Rightarrow> lock_code + locked_player list" where
  "buildLockedPlayerBaselines collate activePlayers totals =
     (case (items activePlayers, items totals) of
        (Some ps, Some ts) \<Rightarrow>
          bindE (foldE copy_player [] ps) (\<lambda>players.
          bindE (foldE (place_group collate) players [(''F'', 12), (''D'', 6)]) (\<lambda>players.
          bindE (foldE add_total [] ts) (\<lambda>totals.
          bindE (foldE (lock_player totals) ({}, {}, []) players) (\<lambda>(playerIds, slots, result).
          Inr (js_sort (compareLocked collate) result)))))
      | _ \<Rightarrow> Inl LockInputInvalid)"

section \<open>Loading the lineup and the totals\<close>

definition lineup_player_ok :: "jsval \<Rightarrow> bool" where
  "lineup_player_ok p \<longleftrightarrow> valid_player_id (fld p ''player_id'') \<and> valid_position p"

fun text_of :: "jsval \<Rightarrow> string" where
  "text_of (JStr s) = s"
| "text_of _ = []"

definition active_of :: "jsval \<Rightarrow> active_player" where
  "active_of p = \<lparr>ap_playerId = text_of (fld p ''player_id''),
     ap_positionGroup = text_of (fld p ''position_group''), ap_slotNumber = fld p ''slot_number''\<rparr>"

interpretation lineup: unique_loader copy_player lineup_player_ok active_of ap_playerId
  by unfold_locales
    (auto simp: copy_player_def lineup_player_ok_def active_of_def valid_player_id_def valid_position_def
      split: jsval.splits)

definition total_ok :: "jsval \<Rightarrow> bool" where
  "total_ok t \<longleftrightarrow> (\<exists>i. fld t ''player_id'' = JStr i) \<and> safe_nonneg (fld t ''games_played'') \<and>
     safe_nonneg (fld t ''goals'') \<and> safe_nonneg (fld t ''assists'') \<and>
     safe_nonneg (fld t ''fantasy_points_hundredths'')"

definition total_of :: "jsval \<Rightarrow> string \<times> player_total" where
  "total_of t = (text_of (fld t ''player_id''), \<lparr>pt_gamesPlayed = int_of (fld t ''games_played''),
     pt_goals = int_of (fld t ''goals''), pt_assists = int_of (fld t ''assists''),
     pt_fantasyPoints = int_of (fld t ''fantasy_points_hundredths'')\<rparr>)"

lemma lock_safeInteger_iff: "lock_safeInteger v = Inr n \<longleftrightarrow> safe_nonneg v \<and> n = int_of v"
  by (cases v) (auto simp: safe_from_iff)

interpretation totals: unique_loader add_total total_ok total_of fst
proof
  fix rows rows' v
  show "add_total rows v = Inr rows' \<longleftrightarrow>
      total_ok v \<and> fst (total_of v) \<notin> fst ` set rows \<and> rows' = rows @ [total_of v]"
    by (cases "fld v ''player_id''")
      (auto simp: add_total_def total_ok_def total_of_def bindE_Inr_iff lock_safeInteger_iff)
qed

section \<open>Free slots\<close>

lemma first_free_facts:
  "first_free used slot \<notin> set used \<and> slot \<le> first_free used slot \<and>
   {slot..<first_free used slot} \<subseteq> set used"
proof (induction used slot rule: first_free.induct)
  case (1 used slot)
  show ?case
  proof (cases "slot \<in> set used")
    case True
    note IH = 1 [OF True]
    have eq: "first_free used slot = first_free used (slot + 1)"
      using True by (subst first_free.simps) simp
    have "{slot..<first_free used (slot + 1)} \<subseteq> insert slot {slot + 1..<first_free used (slot + 1)}" by auto
    with IH True show ?thesis unfolding eq by auto
  next
    case False
    then have "first_free used slot = slot" by (subst first_free.simps) simp
    with False show ?thesis by simp
  qed
qed

lemma first_free_le: "first_free used slot \<le> slot + int (card (set used \<inter> {slot..}))"
proof -
  have "{slot..<first_free used slot} \<subseteq> set used \<inter> {slot..}" using first_free_facts by auto
  then have "card {slot..<first_free used slot} \<le> card (set used \<inter> {slot..})"
    by (intro card_mono) auto
  then show ?thesis using first_free_facts [of used slot] by auto
qed

text \<open>
  C33. The search for a display slot ends: it returns the least number from its start that is not
  in use, after at most one step for each slot in use.
\<close>

theorem lock_slot_search:
  "first_free used slot \<notin> set used \<and> slot \<le> first_free used slot \<and>
   {slot..<first_free used slot} \<subseteq> set used \<and> first_free used slot \<le> slot + int (length used)"
proof -
  have "card (set used \<inter> {slot..}) \<le> card (set used)" by (intro card_mono) auto
  also have "\<dots> \<le> length used" by (rule card_length)
  finally show ?thesis using first_free_facts [of used slot] first_free_le [of used slot] by linarith
qed

lemma first_free_within:
  assumes "distinct used" "set used \<subseteq> {1..m}" "int (length used) < m"
  shows "first_free used 1 \<in> {1..m}"
proof -
  have "set used \<inter> {1..} = set used" using assms(2) by auto
  then have "first_free used 1 \<le> 1 + int (length used)"
    using first_free_le [of used 1] assms(1) by (simp add: distinct_card)
  then show ?thesis using first_free_facts [of used 1] assms(3) by simp
qed

section \<open>One position\<close>

lemma keep_slots_facts:
  assumes "keep_slots m used0 un0 ps = (used, un)" "distinct used0" "set used0 \<subseteq> {1..m}"
  shows "\<exists>kept new. used = new @ used0 \<and> mset (map ap_slotNumber kept) = mset (map JInt new) \<and>
    mset (un0 @ ps) = mset (kept @ un) \<and> distinct used \<and> set used \<subseteq> {1..m} \<and> set un0 \<subseteq> set un"
  using assms
proof (induction ps arbitrary: used0 un0)
  case Nil
  then show ?case by (intro exI [of _ "[]"]) simp
next
  case (Cons p ps)
  show ?case
  proof (cases "\<exists>n. ap_slotNumber p = JInt n \<and> safe n \<and> 1 \<le> n \<and> n \<le> m \<and> n \<notin> set used0")
    case True
    then obtain n where n: "ap_slotNumber p = JInt n" "safe n" "1 \<le> n" "n \<le> m" "n \<notin> set used0" by blast
    then have "keep_slots m (n # used0) un0 ps = (used, un)" using Cons.prems(1) by simp
    with Cons.IH [of "n # used0" un0] n Cons.prems(2,3) obtain kept new where
      "used = new @ n # used0" "mset (map ap_slotNumber kept) = mset (map JInt new)"
      "mset (un0 @ ps) = mset (kept @ un)" "distinct used" "set used \<subseteq> {1..m}" "set un0 \<subseteq> set un"
      by auto
    with n show ?thesis
      by (intro exI [of _ "p # kept"] exI [of _ "new @ [n]"]) auto
  next
    case False
    then have "keep_slots m used0 (un0 @ [p]) ps = (used, un)"
      using Cons.prems(1) by (auto split: jsval.splits if_splits)
    with Cons.IH [of used0 "un0 @ [p]"] Cons.prems(2,3) obtain kept new where
      "used = new @ used0" "mset (map ap_slotNumber kept) = mset (map JInt new)"
      "mset (un0 @ p # ps) = mset (kept @ un)" "distinct used" "set used \<subseteq> {1..m}" "set un0 \<subseteq> set un"
      by auto
    then show ?thesis by blast
  qed
qed

text \<open>A player with a usable slot that no one else asks for is not left over.\<close>

lemma keep_slots_others:
  "keep_slots m used0 un0 ps = (used, un) \<Longrightarrow> p \<notin> set ps \<Longrightarrow> p \<notin> set un0 \<Longrightarrow> p \<notin> set un"
  by (induction m used0 un0 ps rule: keep_slots.induct) (auto split: jsval.splits if_splits)

lemma keep_slots_keeps:
  assumes "keep_slots m used0 un0 ps = (used, un)" "p \<in> set ps" "p \<notin> set un0"
    and "ap_slotNumber p = JInt n" "safe n" "1 \<le> n" "n \<le> m" "n \<notin> set used0"
    and "distinct ps" "JInt n \<notin> ap_slotNumber ` (set ps - {p})"
  shows "p \<notin> set un"
  using assms
proof (induction ps arbitrary: used0 un0)
  case Nil
  from Nil.prems(2) show ?case by simp
next
  case (Cons q ps)
  show ?case
  proof (cases "q = p")
    case True
    then have "keep_slots m (n # used0) un0 ps = (used, un)" using Cons.prems(1,4-8) by simp
    moreover have "p \<notin> set ps" using Cons.prems(9) True by simp
    ultimately show ?thesis using Cons.prems(3) by (rule keep_slots_others)
  next
    case False
    then have p: "p \<in> set ps" using Cons.prems(2) by simp
    have other: "JInt n \<notin> ap_slotNumber ` (set ps - {p})"
      using Cons.prems(10) by (rule contra_subsetD [rotated]) auto
    show ?thesis
    proof (cases "\<exists>k. ap_slotNumber q = JInt k \<and> safe k \<and> 1 \<le> k \<and> k \<le> m \<and> k \<notin> set used0")
      case True
      then obtain k where k: "ap_slotNumber q = JInt k" "safe k" "1 \<le> k" "k \<le> m" "k \<notin> set used0" by blast
      then have "k \<noteq> n" using Cons.prems(10) False by (metis DiffI image_eqI list.set_intros(1) singletonD)
      moreover have "keep_slots m (k # used0) un0 ps = (used, un)" using Cons.prems(1) k by simp
      ultimately show ?thesis using Cons.prems(3-9) other p by (intro Cons.IH [of "k # used0" un0]) simp_all
    next
      case no: False
      then have "keep_slots m used0 (un0 @ [q]) ps = (used, un)"
        using Cons.prems(1) by (auto split: jsval.splits if_splits)
      then show ?thesis using Cons.prems(3-9) other p False by (intro Cons.IH [of used0 "un0 @ [q]"]) simp_all
    qed
  qed
qed

lemma place_facts:
  assumes "distinct used" "set used \<subseteq> {1..m}" "int (length used + length un) \<le> m"
  shows "map fst (place used un) = map ap_playerId un \<and> distinct (map snd (place used un) @ used) \<and>
    set (map snd (place used un)) \<subseteq> {1..m}"
  using assms
proof (induction un arbitrary: used)
  case Nil
  then show ?case by simp
next
  case (Cons p un)
  let ?s = "first_free used 1"
  have s: "?s \<in> {1..m}" "?s \<notin> set used"
    using first_free_within [OF Cons.prems(1,2)] Cons.prems(3) first_free_facts by auto
  then have "map fst (place (?s # used) un) = map ap_playerId un \<and>
      distinct (map snd (place (?s # used) un) @ ?s # used) \<and> set (map snd (place (?s # used) un)) \<subseteq> {1..m}"
    using Cons.prems by (intro Cons.IH) auto
  with s show ?case by (auto simp: Let_def)
qed

definition set_slot :: "(string \<times> int) list \<Rightarrow> active_player \<Rightarrow> active_player" where
  "set_slot slots p = (case map_of slots (ap_playerId p) of
     None \<Rightarrow> p | Some s \<Rightarrow> p\<lparr>ap_slotNumber := JInt s\<rparr>)"

lemma set_slot_fields [simp]:
  "ap_playerId (set_slot slots p) = ap_playerId p"
  "ap_positionGroup (set_slot slots p) = ap_positionGroup p"
  by (simp_all add: set_slot_def split: option.splits)

lemma set_slot_unlisted: "ap_playerId p \<notin> fst ` set slots \<Longrightarrow> set_slot slots p = p"
  by (simp add: set_slot_def map_of_eq_None_iff [symmetric])

lemma set_slot_listed:
  "map fst slots = map ap_playerId un \<Longrightarrow> distinct (map ap_playerId un) \<Longrightarrow>
   map (ap_slotNumber \<circ> set_slot slots) un = map (JInt \<circ> snd) slots"
proof (rule nth_equalityI)
  assume a: "map fst slots = map ap_playerId un" "distinct (map ap_playerId un)"
  then have len: "length slots = length un" by (metis length_map)
  then show "length (map (ap_slotNumber \<circ> set_slot slots) un) = length (map (JInt \<circ> snd) slots)" by simp
  fix i assume "i < length (map (ap_slotNumber \<circ> set_slot slots) un)"
  then have i: "i < length un" "i < length slots" using len by simp_all
  then have "ap_playerId (un ! i) = fst (slots ! i)" using a(1) by (metis nth_map)
  then have "map_of slots (ap_playerId (un ! i)) = Some (snd (slots ! i))"
    using a i(2) by (simp add: map_of_eq_Some_iff)
  with i show "map (ap_slotNumber \<circ> set_slot slots) un ! i = map (JInt \<circ> snd) slots ! i"
    by (simp add: set_slot_def)
qed

definition players_at :: "string \<Rightarrow> active_player list \<Rightarrow> active_player list" where
  "players_at position players = filter (\<lambda>p. ap_positionGroup p = position) players"

definition slots_placed :: "string \<Rightarrow> int \<Rightarrow> active_player list \<Rightarrow> bool" where
  "slots_placed position m players \<longleftrightarrow> (\<exists>ns. distinct ns \<and> set ns \<subseteq> {1..m} \<and>
     mset (map ap_slotNumber (players_at position players)) = mset (map JInt ns))"

lemma set_slots_set_slot: "set_slots slots players = map (set_slot slots) players"
  by (simp add: set_slots_def set_slot_def)

lemma players_at_set_slot [simp]:
  "players_at position (map (set_slot slots) players) = map (set_slot slots) (players_at position players)"
  by (induction players) (simp_all add: players_at_def)

lemma place_group_facts:
  assumes "place_group collate players (position, m) = Inr players'" "distinct (map ap_playerId players)"
  shows "\<exists>slots. players' = map (set_slot slots) players \<and>
    fst ` set slots \<subseteq> ap_playerId ` set (players_at position players) \<and> slots_placed position m players' \<and>
    (\<forall>p n. p \<in> set (players_at position players) \<and> ap_slotNumber p = JInt n \<and> safe n \<and> 1 \<le> n \<and> n \<le> m \<and>
      JInt n \<notin> ap_slotNumber ` (set (players_at position players) - {p}) \<longrightarrow> set_slot slots p = p)"
proof -
  define group where "group = js_sort (\<lambda>l r. collate (ap_playerId l) (ap_playerId r)) (players_at position players)"
  have g: "mset group = mset (players_at position players)" "set group = set (players_at position players)"
    by (simp_all add: group_def)
  have ids: "distinct (map ap_playerId group)"
    unfolding group_def distinct_map_js_sort using assms(2) by (simp add: players_at_def distinct_map_filter)
  obtain used un where keep: "keep_slots m [] [] group = (used, un)" by fastforce
  have fits: "int (length group) \<le> m" and players': "players' = map (set_slot (place used un)) players"
    using assms(1) keep unfolding place_group_def
    by (auto simp: Let_def set_slots_set_slot group_def players_at_def split: if_splits)
  from keep_slots_facts [OF keep] obtain kept new where k: "used = new"
    "mset (map ap_slotNumber kept) = mset (map JInt new)" "mset group = mset (kept @ un)"
    "distinct used" "set used \<subseteq> {1..m}" by auto
  have "length kept = length used" using k(1,2) by (metis length_map size_mset)
  then have "int (length used + length un) \<le> m" using fits k(3) by (metis length_append size_mset)
  note p = place_facts [OF k(4,5) this]
  have all_ids: "distinct (map ap_playerId (kept @ un))" using ids k(3) by (metis mset_eq_imp_distinct_iff mset_map)
  have listed: "fst ` set (place used un) = ap_playerId ` set un" using p by (metis set_map)
  have fixed: "set_slot (place used un) q = q" if "q \<in> set group" "q \<notin> set un" for q
  proof (rule set_slot_unlisted)
    have "set group = set (kept @ un)" using k(3) by (metis set_mset_mset)
    then have "q \<in> set kept" using that by simp
    then show "ap_playerId q \<notin> fst ` set (place used un)" unfolding listed using all_ids by auto
  qed
  have "map (set_slot (place used un)) kept = kept"
    using all_ids listed by (intro map_idI set_slot_unlisted) auto
  then have "mset (map (ap_slotNumber \<circ> set_slot (place used un)) (kept @ un)) =
      mset (map JInt new) + mset (map (JInt \<circ> snd) (place used un))"
    using k(2) set_slot_listed [of "place used un" un] p all_ids
    by (metis (no_types, lifting) distinct_append map_append map_map mset_append)
  moreover have "mset (map ap_slotNumber (players_at position players')) =
      mset (map (ap_slotNumber \<circ> set_slot (place used un)) (kept @ un))"
    unfolding players' using g(1) k(3) by (metis (no_types, lifting) map_map mset_map players_at_set_slot)
  ultimately have "mset (map ap_slotNumber (players_at position players')) =
      mset (map JInt (map snd (place used un) @ used))"
    using k(1) by (simp add: add.commute)
  then have placed: "slots_placed position m players'" unfolding slots_placed_def
    using p k(5) by (intro exI [of _ "map snd (place used un) @ used"]) simp
  have kept_slot: "set_slot (place used un) q = q"
    if "q \<in> set (players_at position players)" "ap_slotNumber q = JInt n" "safe n" "1 \<le> n" "n \<le> m"
      "JInt n \<notin> ap_slotNumber ` (set (players_at position players) - {q})" for q n
  proof (rule fixed)
    show "q \<in> set group" using that(1) g(2) by simp
    show "q \<notin> set un"
    proof (rule keep_slots_keeps [OF keep _ _ that(2-5)])
      show "q \<in> set group" using that(1) g(2) by simp
      show "distinct group" using ids by (simp only: distinct_map)
      show "JInt n \<notin> ap_slotNumber ` (set group - {q})" unfolding g(2) by (rule that(6))
    qed simp_all
  qed
  have "set un \<subseteq> set (players_at position players)"
    using k(3) g by (metis Un_upper2 set_append set_mset_mset)
  then have "fst ` set (place used un) \<subseteq> ap_playerId ` set (players_at position players)"
    unfolding listed by (rule image_mono)
  then show ?thesis
    using players' placed kept_slot by (intro exI [of _ "place used un"] conjI allI impI) simp_all
qed

lemma place_group_iff:
  "(\<exists>players'. place_group collate players (position, m) = Inr players') \<longleftrightarrow>
     int (length (players_at position players)) \<le> m"
  "place_group collate players (position, m) = Inl e \<Longrightarrow> e = LockLineupInvalid"
  by (auto simp: place_group_def Let_def players_at_def split: prod.splits if_splits)

text \<open>Both positions one after the other.\<close>

definition both_groups :: "(string \<times> int) list" where
  "both_groups = [(''F'', 12), (''D'', 6)]"

definition slot_limit :: "string \<Rightarrow> int" where
  "slot_limit position = (if position = ''F'' then 12 else 6)"

lemma set_slot_other_position:
  assumes "distinct (map ap_playerId players)" "fst ` set slots \<subseteq> ap_playerId ` set (players_at position players)"
    and "p \<in> set players" "ap_positionGroup p \<noteq> position"
  shows "set_slot slots p = p"
proof (rule set_slot_unlisted)
  show "ap_playerId p \<notin> fst ` set slots"
  proof
    assume "ap_playerId p \<in> fst ` set slots"
    then obtain q where q: "q \<in> set (players_at position players)" "ap_playerId p = ap_playerId q"
      using assms(2) by blast
    then have "q \<in> set players" "ap_positionGroup q = position" by (auto simp: players_at_def)
    moreover have "p = q" using assms(1,3) q(2) \<open>q \<in> set players\<close> by (auto simp: distinct_map dest: inj_onD)
    ultimately show False using assms(4) by simp
  qed
qed

definition keeps_slot :: "active_player list \<Rightarrow> active_player \<Rightarrow> bool" where
  "keeps_slot players p \<longleftrightarrow> (\<exists>n. ap_slotNumber p = JInt n \<and> safe n \<and> 1 \<le> n \<and> n \<le> slot_limit (ap_positionGroup p) \<and>
     JInt n \<notin> ap_slotNumber ` (set (players_at (ap_positionGroup p) players) - {p}))"

lemma place_both_facts:
  assumes "foldE (place_group collate) players both_groups = Inr placed"
    and "distinct (map ap_playerId players)" "\<forall>p \<in> set players. ap_positionGroup p \<in> {''F'', ''D''}"
  shows "\<exists>f. placed = map f players \<and> (\<forall>p. ap_playerId (f p) = ap_playerId p \<and> ap_positionGroup (f p) = ap_positionGroup p) \<and>
    (\<forall>p \<in> set players. keeps_slot players p \<longrightarrow> f p = p) \<and>
    slots_placed ''F'' 12 placed \<and> slots_placed ''D'' 6 placed"
proof -
  obtain mid where mid: "place_group collate players (''F'', 12) = Inr mid"
    "place_group collate mid (''D'', 6) = Inr placed"
    using assms(1) by (auto simp: both_groups_def bindE_Inr_iff)
  from place_group_facts [OF mid(1) assms(2)] obtain fs where f: "mid = map (set_slot fs) players"
    "fst ` set fs \<subseteq> ap_playerId ` set (players_at ''F'' players)" "slots_placed ''F'' 12 mid"
    "\<And>p n. p \<in> set (players_at ''F'' players) \<Longrightarrow> ap_slotNumber p = JInt n \<Longrightarrow> safe n \<Longrightarrow> 1 \<le> n \<Longrightarrow> n \<le> 12 \<Longrightarrow>
      JInt n \<notin> ap_slotNumber ` (set (players_at ''F'' players) - {p}) \<Longrightarrow> set_slot fs p = p" by blast
  have mid_ids: "distinct (map ap_playerId mid)" using assms(2) by (simp add: f(1) comp_def)
  have same_d: "players_at ''D'' mid = players_at ''D'' players"
    unfolding f(1) players_at_set_slot
    by (rule map_idI, rule set_slot_other_position [OF assms(2) f(2)]) (auto simp: players_at_def)
  from place_group_facts [OF mid(2) mid_ids] obtain ds where d: "placed = map (set_slot ds) mid"
    "fst ` set ds \<subseteq> ap_playerId ` set (players_at ''D'' players)" "slots_placed ''D'' 6 placed"
    "\<And>p n. p \<in> set (players_at ''D'' players) \<Longrightarrow> ap_slotNumber p = JInt n \<Longrightarrow> safe n \<Longrightarrow> 1 \<le> n \<Longrightarrow> n \<le> 6 \<Longrightarrow>
      JInt n \<notin> ap_slotNumber ` (set (players_at ''D'' players) - {p}) \<Longrightarrow> set_slot ds p = p"
    unfolding same_d by blast
  have "players_at ''F'' placed = players_at ''F'' mid"
    unfolding d(1) players_at_set_slot
    by (rule map_idI, rule set_slot_other_position [OF mid_ids, of ds "''D''"])
      (use d(2) same_d in \<open>auto simp: players_at_def\<close>)
  then have "slots_placed ''F'' 12 placed" using f(3) by (simp add: slots_placed_def)
  moreover have "set_slot ds (set_slot fs p) = p" if p: "p \<in> set players" "keeps_slot players p" for p
  proof (cases "ap_positionGroup p = ''F''")
    case True
    then have "p \<in> set (players_at ''F'' players)" using p(1) by (simp add: players_at_def)
    then have "set_slot fs p = p" using p(2) f(4) True by (auto simp: keeps_slot_def slot_limit_def)
    moreover have "set_slot ds p = p"
      by (rule set_slot_other_position [OF assms(2) d(2) p(1)]) (simp add: True)
    ultimately show ?thesis by simp
  next
    case False
    then have pos: "ap_positionGroup p = ''D''" using p(1) assms(3) by auto
    then have "p \<in> set (players_at ''D'' players)" using p(1) by (simp add: players_at_def)
    then have "set_slot ds p = p" using p(2) d(4) pos by (auto simp: keeps_slot_def slot_limit_def)
    moreover have "set_slot fs p = p"
      by (rule set_slot_other_position [OF assms(2) f(2) p(1)]) (simp add: pos)
    ultimately show ?thesis by simp
  qed
  ultimately show ?thesis
    using d(1,3) f(1) by (intro exI [of _ "set_slot ds \<circ> set_slot fs"]) simp
qed

section \<open>The rows of the lock\<close>

definition slot_text :: "active_player \<Rightarrow> string" where
  "slot_text p = slot_key p (int_of (ap_slotNumber p))"

definition slotted :: "active_player \<Rightarrow> bool" where
  "slotted p \<longleftrightarrow> ap_positionGroup p \<in> {''F'', ''D''} \<and>
     (\<exists>n. ap_slotNumber p = JInt n \<and> 1 \<le> n \<and> n \<le> slot_limit (ap_positionGroup p))"

definition baseline_of :: "(string \<times> player_total) list \<Rightarrow> string \<Rightarrow> player_total" where
  "baseline_of totals i = (case map_of totals i of Some t \<Rightarrow> t | None \<Rightarrow> zero_total)"

definition locked_row :: "(string \<times> player_total) list \<Rightarrow> active_player \<Rightarrow> locked_player" where
  "locked_row totals p = (let t = baseline_of totals (ap_playerId p) in
     \<lparr>lp_playerId = ap_playerId p, lp_positionGroup = ap_positionGroup p,
      lp_slotNumber = int_of (ap_slotNumber p), lp_baselineGamesPlayed = pt_gamesPlayed t,
      lp_baselineGoals = pt_goals t, lp_baselineAssists = pt_assists t,
      lp_baselineFantasyPoints = pt_fantasyPoints t\<rparr>)"

lemma slot_limit_le: "slot_limit position \<le> 12"
  by (simp add: slot_limit_def)

lemma lock_player_slotted:
  assumes "slotted p" "ap_playerId p \<notin> I" "slot_text p \<notin> S"
  shows "lock_player totals (I, S, res) p =
    Inr (insert (ap_playerId p) I, insert (slot_text p) S, res @ [locked_row totals p])"
proof -
  obtain n where n: "ap_slotNumber p = JInt n" "1 \<le> n" "n \<le> 12"
    using assms(1) slot_limit_le by (auto simp: slotted_def intro: order_trans)
  then have "safe n" by (simp add: safe_def max_safe_def)
  with n assms show ?thesis
    by (simp add: lock_player_def slotted_def slot_text_def locked_row_def baseline_of_def Let_def)
qed

lemma lock_players_slotted:
  assumes "list_all slotted ps" "distinct (map ap_playerId ps)" "distinct (map slot_text ps)"
    and "I \<inter> ap_playerId ` set ps = {}" "S \<inter> slot_text ` set ps = {}"
  shows "foldE (lock_player totals) (I, S, res) ps =
    Inr (I \<union> ap_playerId ` set ps, S \<union> slot_text ` set ps, res @ map (locked_row totals) ps)"
  using assms
proof (induction ps arbitrary: I S res)
  case Nil
  then show ?case by simp
next
  case (Cons p ps)
  have "foldE (lock_player totals) (insert (ap_playerId p) I, insert (slot_text p) S, res @ [locked_row totals p]) ps =
      Inr (insert (ap_playerId p) I \<union> ap_playerId ` set ps, insert (slot_text p) S \<union> slot_text ` set ps,
        (res @ [locked_row totals p]) @ map (locked_row totals) ps)"
    by (rule Cons.IH) (use Cons.prems in auto)
  with Cons.prems lock_player_slotted [of p I S totals res] show ?case by auto
qed

lemma slots_placed_slotted:
  assumes "slots_placed position (slot_limit position) players" "position \<in> {''F'', ''D''}"
  shows "list_all slotted (players_at position players)"
    and "distinct (map ap_slotNumber (players_at position players))"
proof -
  obtain ns where ns: "distinct ns" "set ns \<subseteq> {1..slot_limit position}"
    "mset (map ap_slotNumber (players_at position players)) = mset (map JInt ns)"
    using assms(1) by (auto simp: slots_placed_def)
  have set_ns: "set (map ap_slotNumber (players_at position players)) = set (map JInt ns)"
    using ns(3) by (metis set_mset_mset)
  have "slotted p" if p: "p \<in> set (players_at position players)" for p
  proof -
    have "ap_slotNumber p \<in> set (map JInt ns)" using p unfolding set_ns [symmetric] by simp
    then obtain n where "n \<in> set ns" "ap_slotNumber p = JInt n" by auto
    moreover have "ap_positionGroup p = position" using p by (simp add: players_at_def)
    ultimately show ?thesis using ns(2) assms(2) by (auto simp: slotted_def)
  qed
  then show "list_all slotted (players_at position players)" by (simp add: list_all_iff)
  have "distinct (map JInt ns)" using ns(1) by (simp add: distinct_map inj_on_def)
  then show "distinct (map ap_slotNumber (players_at position players))"
    using ns(3) by (metis mset_eq_imp_distinct_iff)
qed

lemma placed_slotted:
  assumes "slots_placed ''F'' 12 players" "slots_placed ''D'' 6 players"
    and "distinct (map ap_playerId players)" "\<forall>p \<in> set players. ap_positionGroup p \<in> {''F'', ''D''}"
  shows "list_all slotted players" "distinct (map slot_text players)"
    "distinct (map (\<lambda>p. (ap_positionGroup p, ap_slotNumber p)) players)"
proof -
  have at: "slots_placed (ap_positionGroup p) (slot_limit (ap_positionGroup p)) players" if "p \<in> set players" for p
    using that assms(1,2,4) by (auto simp: slot_limit_def)
  have mem: "p \<in> set (players_at (ap_positionGroup p) players)" if "p \<in> set players" for p
    using that by (simp add: players_at_def)
  show all: "list_all slotted players"
    unfolding list_all_iff using slots_placed_slotted(1) [OF at] mem assms(4) by (fastforce simp: list_all_iff)
  have distinct: "distinct players" using assms(3) by (simp add: distinct_map)
  have inj: "p = q" if "p \<in> set players" "q \<in> set players" "ap_positionGroup p = ap_positionGroup q"
    "ap_slotNumber p = ap_slotNumber q" for p q
  proof -
    have "distinct (map ap_slotNumber (players_at (ap_positionGroup p) players))"
      using slots_placed_slotted(2) [OF at] that(1) assms(4) by blast
    then show ?thesis using mem that by (metis distinct_map inj_onD)
  qed
  then show "distinct (map (\<lambda>p. (ap_positionGroup p, ap_slotNumber p)) players)"
    using distinct by (auto simp: distinct_map inj_on_def)
  have "p = q" if pq: "p \<in> set players" "q \<in> set players" "slot_text p = slot_text q" for p q
  proof -
    have "slotted p" "slotted q" using all pq by (simp_all add: list_all_iff)
    then obtain m n where mn: "ap_slotNumber p = JInt m" "ap_slotNumber q = JInt n" "1 \<le> m" "1 \<le> n"
      and pos: "ap_positionGroup p \<in> {''F'', ''D''}" "ap_positionGroup q \<in> {''F'', ''D''}"
      by (auto simp: slotted_def)
    with pq(3) have "ap_positionGroup p = ap_positionGroup q" "int_text m = int_text n"
      by (auto simp: slot_text_def slot_key_def)
    with mn pq inj show ?thesis by (simp add: int_text_inj_nonneg)
  qed
  then show "distinct (map slot_text players)" using distinct by (auto simp: distinct_map inj_on_def)
qed

definition lineup_ok :: "jsval list \<Rightarrow> bool" where
  "lineup_ok ps \<longleftrightarrow> list_all lineup_player_ok ps \<and> distinct (map (\<lambda>p. fld p ''player_id'') ps) \<and>
     length (at_position ''F'' ps) \<le> 12 \<and> length (at_position ''D'' ps) \<le> 6"

definition totals_ok :: "jsval list \<Rightarrow> bool" where
  "totals_ok ts \<longleftrightarrow> list_all total_ok ts \<and> distinct (map (\<lambda>t. fld t ''player_id'') ts)"

lemma distinct_text_of:
  "(\<And>v. v \<in> set vs \<Longrightarrow> \<exists>s. f v = JStr s) \<Longrightarrow> distinct (map (\<lambda>v. text_of (f v)) vs) \<longleftrightarrow> distinct (map f vs)"
  by (auto simp: distinct_map inj_on_def) (metis text_of.simps(1))+

lemma players_at_active:
  "list_all lineup_player_ok ps \<Longrightarrow>
   length (players_at position (map active_of ps)) = length (at_position position ps)"
  by (induction ps)
    (auto simp: players_at_def at_position_def active_of_def lineup_player_ok_def valid_position_def)

lemma place_both_iff:
  assumes "distinct (map ap_playerId players)"
  shows "(\<exists>placed. foldE (place_group collate) players both_groups = Inr placed) \<longleftrightarrow>
    length (players_at ''F'' players) \<le> 12 \<and> length (players_at ''D'' players) \<le> 6"
proof -
  have "length (players_at ''D'' mid) = length (players_at ''D'' players)"
    if mid: "place_group collate players (''F'', 12) = Inr mid" for mid
    using place_group_facts [OF mid assms] by auto
  then show ?thesis
    using place_group_iff(1) [of collate players "''F''" 12] place_group_iff(1) [of collate _ "''D''" 6]
    unfolding both_groups_def by (auto simp: bindE_Inr_iff) metis
qed

section \<open>What the lock promises\<close>

lemma active_of_fields:
  "list_all lineup_player_ok ps \<Longrightarrow> \<forall>p \<in> set (map active_of ps). ap_positionGroup p \<in> {''F'', ''D''}"
  by (auto simp: list_all_iff active_of_def lineup_player_ok_def valid_position_def)

lemma lock_rows:
  assumes ok: "list_all lineup_player_ok ps" and ids: "distinct (map (ap_playerId \<circ> active_of) ps)"
    and placed: "foldE (place_group collate) (map active_of ps) both_groups = Inr placed"
  shows "foldE (lock_player totals) ({}, {}, []) placed =
    Inr (ap_playerId ` set placed, slot_text ` set placed, map (locked_row totals) placed)"
proof -
  have d: "distinct (map ap_playerId (map active_of ps))" using ids by simp
  from place_both_facts [OF placed d active_of_fields [OF ok]] obtain f where
    f: "placed = map f (map active_of ps)"
    "\<And>p. ap_playerId (f p) = ap_playerId p \<and> ap_positionGroup (f p) = ap_positionGroup p"
    and sp: "slots_placed ''F'' 12 placed" "slots_placed ''D'' 6 placed" by blast
  have "distinct (map ap_playerId placed)" using ids f by (simp add: comp_def)
  moreover have "\<forall>p \<in> set placed. ap_positionGroup p \<in> {''F'', ''D''}"
    using active_of_fields [OF ok] f by auto
  ultimately show ?thesis
    using placed_slotted [OF sp] lock_players_slotted [of placed "{}" "{}" totals "[]"] by simp
qed

lemma lineup_ids:
  assumes "list_all lineup_player_ok ps"
  shows "distinct (map (ap_playerId \<circ> active_of) ps) \<longleftrightarrow> distinct (map (\<lambda>p. fld p ''player_id'') ps)"
proof -
  have "\<exists>s. fld p ''player_id'' = JStr s" if "p \<in> set ps" for p
    using that assms by (cases "fld p ''player_id''")
      (auto simp: list_all_iff lineup_player_ok_def valid_player_id_def)
  note distinct_text_of [OF this]
  then show ?thesis by (simp add: comp_def active_of_def)
qed

lemma total_ids:
  assumes "list_all total_ok ts"
  shows "distinct (map (fst \<circ> total_of) ts) \<longleftrightarrow> distinct (map (\<lambda>t. fld t ''player_id'') ts)"
proof -
  have "\<exists>s. fld t ''player_id'' = JStr s" if "t \<in> set ts" for t
    using that assms by (auto simp: list_all_iff total_ok_def)
  note distinct_text_of [OF this]
  then show ?thesis by (simp add: comp_def total_of_def)
qed

lemma lineup_ok_iff:
  "lineup_ok ps \<longleftrightarrow> list_all lineup_player_ok ps \<and> distinct (map (ap_playerId \<circ> active_of) ps) \<and>
     (\<exists>placed. foldE (place_group collate) (map active_of ps) both_groups = Inr placed)"
  using lineup_ids [of ps] players_at_active [of ps] place_both_iff [of "map active_of ps" collate]
  unfolding lineup_ok_def by (auto simp: comp_def)

lemma copy_player_Inl: "copy_player players p = Inl e \<Longrightarrow> e = LockLineupInvalid"
  by (auto simp: copy_player_def split: jsval.splits if_splits)

lemma add_total_Inl: "add_total totals t = Inl e \<Longrightarrow> e = LockInputInvalid"
  by (auto simp: add_total_def bindE_Inl_iff dest: safe_from_Inl split: jsval.splits if_splits)

lemma lock_answers:
  "if \<not> lineup_ok ps then buildLockedPlayerBaselines collate (JArr ps) (JArr ts) = Inl LockLineupInvalid
   else if \<not> totals_ok ts then buildLockedPlayerBaselines collate (JArr ps) (JArr ts) = Inl LockInputInvalid
   else (\<exists>rows. buildLockedPlayerBaselines collate (JArr ps) (JArr ts) = Inr rows)"
proof -
  let ?place = "foldE (place_group collate) (map active_of ps) both_groups"
  note copy = lineup.load_outcome [where vs = ps, OF copy_player_Inl]
  have place: "?place = Inl e \<Longrightarrow> e = LockLineupInvalid" for e
    using foldE_Inl [of "place_group collate" "map active_of ps" both_groups e] place_group_iff(2) by fastforce
  have totals: "foldE add_total [] ts =
      (if totals_ok ts then Inr (map total_of ts) else Inl LockInputInvalid)"
    using totals.load_outcome [where vs = ts, OF add_total_Inl] total_ids [of ts] by (auto simp: totals_ok_def)
  show ?thesis
  proof (cases "lineup_ok ps")
    case True
    then obtain placed where "list_all lineup_player_ok ps" "distinct (map (ap_playerId \<circ> active_of) ps)"
      "?place = Inr placed" unfolding lineup_ok_iff [of ps collate] by blast
    then show ?thesis
      using True by (simp add: buildLockedPlayerBaselines_def copy totals lock_rows both_groups_def [symmetric])
  next
    case False
    then have "\<not> (\<exists>placed. ?place = Inr placed)"
      if "list_all lineup_player_ok ps" "distinct (map (ap_playerId \<circ> active_of) ps)"
      using that unfolding lineup_ok_iff [of ps collate] by blast
    then show ?thesis
      using False place by (cases ?place) (auto simp: buildLockedPlayerBaselines_def copy both_groups_def [symmetric])
  qed
qed

lemma lock_outcome_ids:
  assumes "buildLockedPlayerBaselines collate (JArr ps) (JArr ts) = Inr rows"
  shows "distinct (map (ap_playerId \<circ> active_of) ps)"
  using lock_answers [of ps collate ts] assms unfolding lineup_ok_iff [of ps collate] by (auto split: if_splits)

text \<open>
  C31. On two arrays the lock answers in exactly one of three ways: the lineup is rejected when a
  player is malformed or repeated or a position is over its limit, otherwise the totals are when
  one is malformed or repeated, and otherwise the lock succeeds. The slot checks of the last pass
  never fail.
\<close>

theorem lock_outcome:
  "if \<not> lineup_ok ps then buildLockedPlayerBaselines collate (JArr ps) (JArr ts) = Inl LockLineupInvalid
   else if \<not> totals_ok ts then buildLockedPlayerBaselines collate (JArr ps) (JArr ts) = Inl LockInputInvalid
   else (\<exists>rows. buildLockedPlayerBaselines collate (JArr ps) (JArr ts) = Inr rows)"
  by (rule lock_answers)

lemma locked_rows:
  assumes "buildLockedPlayerBaselines collate (JArr ps) (JArr ts) = Inr rows"
  shows "mset (map (\<lambda>r. (lp_playerId r, lp_positionGroup r)) rows) =
      mset (map (\<lambda>p. (ap_playerId p, ap_positionGroup p)) (map active_of ps)) \<and>
    distinct (map (\<lambda>r. (lp_positionGroup r, lp_slotNumber r)) rows) \<and>
    (\<forall>r \<in> set rows. 1 \<le> lp_slotNumber r \<and> lp_slotNumber r \<le> slot_limit (lp_positionGroup r) \<and>
      (lp_baselineGamesPlayed r, lp_baselineGoals r, lp_baselineAssists r, lp_baselineFantasyPoints r) =
        (let t = baseline_of (map total_of ts) (lp_playerId r) in
         (pt_gamesPlayed t, pt_goals t, pt_assists t, pt_fantasyPoints t))) \<and>
    (\<forall>p \<in> set (map active_of ps). keeps_slot (map active_of ps) p \<longrightarrow>
      (\<exists>r \<in> set rows. lp_playerId r = ap_playerId p \<and> ap_slotNumber p = JInt (lp_slotNumber r)))"
proof -
  obtain placed where ok: "list_all lineup_player_ok ps" "distinct (map (ap_playerId \<circ> active_of) ps)"
    and placed: "foldE (place_group collate) (map active_of ps) both_groups = Inr placed"
    and "totals_ok ts"
    using lock_answers [of ps collate ts] assms unfolding lineup_ok_iff [of ps collate]
    by (auto split: if_splits)
  then have "foldE add_total [] ts = Inr (map total_of ts)"
    using totals.load_iff total_ids by (auto simp: totals_ok_def)
  then have rows: "rows = js_sort (compareLocked collate) (map (locked_row (map total_of ts)) placed)"
    using assms lineup.load_iff [of ps "map active_of ps"] ok placed lock_rows [OF ok placed]
    by (simp add: buildLockedPlayerBaselines_def both_groups_def [symmetric])
  have d: "distinct (map ap_playerId (map active_of ps))" using ok(2) by simp
  from place_both_facts [OF placed d active_of_fields [OF ok(1)]] obtain f where
    f: "placed = map f (map active_of ps)"
    "\<And>p. ap_playerId (f p) = ap_playerId p" "\<And>p. ap_positionGroup (f p) = ap_positionGroup p"
    "\<And>p. p \<in> set (map active_of ps) \<Longrightarrow> keeps_slot (map active_of ps) p \<Longrightarrow> f p = p"
    and sp: "slots_placed ''F'' 12 placed" "slots_placed ''D'' 6 placed" by blast
  have ids: "distinct (map ap_playerId placed)" using d f(2) by (simp add: f(1) comp_def)
  have positions: "\<forall>p \<in> set placed. ap_positionGroup p \<in> {''F'', ''D''}"
    using active_of_fields [OF ok(1)] f by auto
  note s = placed_slotted [OF sp ids positions]
  have set_rows: "set rows = locked_row (map total_of ts) ` set placed" unfolding rows by simp
  have row: "1 \<le> lp_slotNumber r \<and> lp_slotNumber r \<le> slot_limit (lp_positionGroup r) \<and>
      (lp_baselineGamesPlayed r, lp_baselineGoals r, lp_baselineAssists r, lp_baselineFantasyPoints r) =
        (let t = baseline_of (map total_of ts) (lp_playerId r) in
         (pt_gamesPlayed t, pt_goals t, pt_assists t, pt_fantasyPoints t))" if "r \<in> set rows" for r
    using that s(1) unfolding set_rows
    by (auto simp: locked_row_def Let_def list_all_iff slotted_def)
  have "mset (map (\<lambda>r. (lp_playerId r, lp_positionGroup r)) rows) =
      image_mset (\<lambda>r. (lp_playerId r, lp_positionGroup r)) (mset (map (locked_row (map total_of ts)) placed))"
    unfolding rows by simp
  also have "\<dots> = mset (map (\<lambda>p. (ap_playerId p, ap_positionGroup p)) placed)"
    by (simp add: multiset.map_comp comp_def locked_row_def Let_def)
  also have "\<dots> = mset (map (\<lambda>p. (ap_playerId p, ap_positionGroup p)) (map active_of ps))"
    by (simp add: f comp_def)
  finally have who: "mset (map (\<lambda>r. (lp_playerId r, lp_positionGroup r)) rows) =
      mset (map (\<lambda>p. (ap_playerId p, ap_positionGroup p)) (map active_of ps))" .
  have "map (\<lambda>r. (lp_positionGroup r, JInt (lp_slotNumber r))) (map (locked_row (map total_of ts)) placed) =
      map (\<lambda>p. (ap_positionGroup p, ap_slotNumber p)) placed"
    unfolding map_map by (rule map_cong) (use s(1) in \<open>auto simp: list_all_iff locked_row_def Let_def slotted_def\<close>)
  then have "distinct (map (\<lambda>r. (lp_positionGroup r, JInt (lp_slotNumber r))) rows)"
    unfolding rows distinct_map_js_sort using s(3) by (simp only:)
  then have "distinct (map (\<lambda>r. (lp_positionGroup r, lp_slotNumber r)) rows)"
    by (auto simp: distinct_map inj_on_def)
  moreover have "\<exists>r \<in> set rows. lp_playerId r = ap_playerId p \<and> ap_slotNumber p = JInt (lp_slotNumber r)"
    if p: "p \<in> set (map active_of ps)" "keeps_slot (map active_of ps) p" for p
  proof
    have "f p = p" using p by (rule f(4))
    then have "p \<in> set placed" using p(1) unfolding f(1) by (metis image_eqI set_map)
    then show "locked_row (map total_of ts) p \<in> set rows" unfolding set_rows by simp
    show "lp_playerId (locked_row (map total_of ts) p) = ap_playerId p \<and>
        ap_slotNumber p = JInt (lp_slotNumber (locked_row (map total_of ts) p))"
      using p(2) by (auto simp: locked_row_def Let_def keeps_slot_def)
  qed
  ultimately show ?thesis using who row by blast
qed

lemma locked_players_facts:
  assumes "buildLockedPlayerBaselines collate (JArr ps) (JArr ts) = Inr rows"
  shows "mset (map lp_playerId rows) = mset (map (ap_playerId \<circ> active_of) ps) \<and> distinct (map lp_playerId rows) \<and>
    (\<forall>r \<in> set rows. (lp_baselineGamesPlayed r, lp_baselineGoals r, lp_baselineAssists r, lp_baselineFantasyPoints r) =
      (let t = baseline_of (map total_of ts) (lp_playerId r) in
       (pt_gamesPlayed t, pt_goals t, pt_assists t, pt_fantasyPoints t)))"
proof -
  note facts = locked_rows [OF assms]
  have "image_mset fst (mset (map (\<lambda>r. (lp_playerId r, lp_positionGroup r)) rows)) =
      image_mset fst (mset (map (\<lambda>p. (ap_playerId p, ap_positionGroup p)) (map active_of ps)))"
    by (rule arg_cong [OF conjunct1 [OF facts]])
  then have ids: "mset (map lp_playerId rows) = mset (map (ap_playerId \<circ> active_of) ps)"
    by (simp add: multiset.map_comp comp_def)
  have "distinct (map (ap_playerId \<circ> active_of) ps)"
    by (rule lock_outcome_ids [OF assms])
  then have "distinct (map lp_playerId rows)" using ids by (metis mset_eq_imp_distinct_iff)
  with ids facts show ?thesis by blast
qed

text \<open>
  C30. The locked rows are the active players, each with the totals it had (or zeros) as its
  baseline and a display slot of its position that no other row has; a player whose own slot is
  usable and not claimed by another player keeps it.
\<close>

theorem lock_assigns_slots:
  assumes "buildLockedPlayerBaselines collate (JArr ps) (JArr ts) = Inr rows"
  shows "mset (map (\<lambda>r. (lp_playerId r, lp_positionGroup r)) rows) =
      mset (map (\<lambda>p. (ap_playerId p, ap_positionGroup p)) (map active_of ps)) \<and>
    distinct (map (\<lambda>r. (lp_positionGroup r, lp_slotNumber r)) rows) \<and>
    (\<forall>r \<in> set rows. 1 \<le> lp_slotNumber r \<and> lp_slotNumber r \<le> slot_limit (lp_positionGroup r) \<and>
      (lp_baselineGamesPlayed r, lp_baselineGoals r, lp_baselineAssists r, lp_baselineFantasyPoints r) =
        (let t = baseline_of (map total_of ts) (lp_playerId r) in
         (pt_gamesPlayed t, pt_goals t, pt_assists t, pt_fantasyPoints t))) \<and>
    (\<forall>p \<in> set (map active_of ps). keeps_slot (map active_of ps) p \<longrightarrow>
      (\<exists>r \<in> set rows. lp_playerId r = ap_playerId p \<and> ap_slotNumber p = JInt (lp_slotNumber r)))"
  by (rule locked_rows [OF assms])

text \<open>
  C32. A lineup that the legality check accepts can always be locked, whatever display slots its
  players have, as soon as the statistics totals are well formed.
\<close>

theorem legal_lineup_locks:
  assumes "evaluateMatchupLineupLegality (JArr ps) cap = Inr verdict" "ll_legal verdict" "totals_ok ts"
  shows "\<exists>rows. buildLockedPlayerBaselines collate (JArr ps) (JArr ts) = Inr rows"
proof -
  have none: "lineup_reasons ps cap = []" using assms(1,2) by (auto simp: evaluateMatchupLineupLegality_def Let_def)
  have "lineup_player_ok p" if "p \<in> set ps" for p
    using none that by (auto simp: lineup_reasons_def Let_def lineup_player_ok_def list_ex_iff split: if_splits)
  moreover have "distinct (map (\<lambda>p. fld p ''player_id'') ps)"
    using none by (auto simp: lineup_reasons_def Let_def split: if_splits)
  ultimately have "lineup_ok ps"
    using none by (auto simp: lineup_ok_def list_all_iff lineup_reasons_def Let_def split: if_splits)
  then show ?thesis using lock_answers [of ps collate ts] assms(3) by simp
qed

section \<open>A lineup\<close>

definition sample_player :: "string \<Rightarrow> string \<Rightarrow> jsval \<Rightarrow> jsval" where
  "sample_player i position slot = JObj [(''player_id'', JStr i), (''position_group'', JStr position), (''slot_number'', slot)]"

definition sample_total :: "string \<Rightarrow> jsval" where
  "sample_total i = JObj [(''player_id'', JStr i), (''games_played'', JInt 10), (''goals'', JInt 4),
     (''assists'', JInt 7), (''fantasy_points_hundredths'', JInt 1200)]"

definition sample_lineup :: "jsval list" where
  "sample_lineup = [sample_player ''p1'' ''F'' (JInt 3), sample_player ''p2'' ''F'' (JInt 3), sample_player ''p3'' ''D'' JNull]"

lemmas sample_lock = sample_lineup_def sample_player_def sample_total_def

lemma sample_totals_ok: "totals_ok [sample_total ''p1'']"
  by (simp add: totals_ok_def total_ok_def sample_lock safe_def max_safe_def)

lemma sample_lineup_ok: "lineup_ok sample_lineup"
  by (simp add: lineup_ok_def lineup_player_ok_def valid_player_id_def valid_position_def at_position_def sample_lock)

lemma sample_locks: "\<exists>rows. buildLockedPlayerBaselines locale_compare (JArr sample_lineup) (JArr [sample_total ''p1'']) = Inr rows"
  using sample_lineup_ok sample_totals_ok lock_answers [of sample_lineup locale_compare "[sample_total ''p1'']"] by simp

theorem lock_assigns_slots_witness:
  "\<exists>rows. buildLockedPlayerBaselines locale_compare (JArr sample_lineup) (JArr [sample_total ''p1'']) = Inr rows \<and>
     length rows = 3 \<and> distinct (map (\<lambda>r. (lp_positionGroup r, lp_slotNumber r)) rows)"
proof -
  obtain rows where r: "buildLockedPlayerBaselines locale_compare (JArr sample_lineup) (JArr [sample_total ''p1'']) = Inr rows"
    using sample_locks by blast
  note facts = lock_assigns_slots [OF r]
  then have "mset (map (\<lambda>r. (lp_playerId r, lp_positionGroup r)) rows) =
      mset (map (\<lambda>p. (ap_playerId p, ap_positionGroup p)) (map active_of sample_lineup))" by (rule conjunct1)
  then have "length rows = length sample_lineup" by (metis length_map size_mset)
  then have "length rows = 3" by (simp add: sample_lineup_def)
  with r facts show ?thesis by blast
qed

theorem legal_lineup_locks_witness:
  "\<exists>rows. buildLockedPlayerBaselines locale_compare (JArr sample_lineup) (JArr [sample_total ''p1'']) = Inr rows"
proof -
  have "lineup_reasons sample_lineup JNull = []"
    by (simp add: lineup_reasons_def cap_reasons_def healthy_on_ir_def valid_position_def valid_player_id_def
        at_position_def sample_lock)
  then have "evaluateMatchupLineupLegality (JArr sample_lineup) JNull =
      Inr \<lparr>ll_legal = True, ll_reasonCodes = [], ll_primaryReasonCode = None\<rparr>"
    by (simp add: evaluateMatchupLineupLegality_def)
  then show ?thesis by (rule legal_lineup_locks) (simp_all add: sample_totals_ok)
qed

end
