(* ===== verification/JsNumber.thy ===== *)
theory JsNumber
  imports Prelude
begin

text \<open>
  Sums that the code does not test: an addition of two doubles that hold integers gives the
  integer nearest to the exact sum with a 53-bit significand, ties to even. Below \<open>2^53\<close> this is
  the exact sum. (No sum here comes near the range of infinities.) \<^verbatim>\<open>Math.round\<close> of a
  quotient of two integers is the integer division rounded half up, as long as the divisor is below
  \<open>2^38\<close>: then no double between the quotient and the next half is closer to it.
\<close>

fun bit_width :: "nat \<Rightarrow> nat" where
  "bit_width n = (if n = 0 then 0 else Suc (bit_width (n div 2)))"

declare bit_width.simps [simp del]

definition round53 :: "int \<Rightarrow> int" where
  "round53 n =
     (let a = nat \<bar>n\<bar>; e = bit_width a - 53; q = a div 2 ^ e; r = a mod 2 ^ e in
      if e = 0 then n
      else sgn n * int ((if 2 ^ e < 2 * r \<or> (2 * r = 2 ^ e \<and> odd q) then q + 1 else q) * 2 ^ e))"

definition js_add :: "int \<Rightarrow> int \<Rightarrow> int" where
  "js_add a b = round53 (a + b)"

lemma bit_width_le: "n < 2 ^ k \<Longrightarrow> bit_width n \<le> k"
proof (induction k arbitrary: n)
  case 0
  then show ?case by (simp add: bit_width.simps)
next
  case (Suc k)
  then have "bit_width (n div 2) \<le> k" by (intro Suc.IH) (simp add: less_mult_imp_div_less)
  then show ?case by (subst bit_width.simps) simp
qed

lemma round53_safe: "safe n \<Longrightarrow> round53 n = n"
proof -
  assume "safe n"
  then have "nat \<bar>n\<bar> < 2 ^ 53" by (auto simp: safe_def max_safe_def nat_less_iff abs_if)
  then have "bit_width (nat \<bar>n\<bar>) \<le> 53" by (rule bit_width_le)
  then show ?thesis by (simp add: round53_def)
qed

lemma js_add_safe: "safe (a + b) \<Longrightarrow> js_add a b = a + b"
  by (simp add: js_add_def round53_safe)

definition round_div :: "int \<Rightarrow> int \<Rightarrow> int" where
  "round_div n d = (2 * n + d) div (2 * d)"

lemma round_div_bounds: "0 \<le> n \<Longrightarrow> 0 < d \<Longrightarrow> n \<le> m * d \<Longrightarrow> 0 \<le> round_div n d \<and> round_div n d \<le> m"
proof -
  assume n: "0 \<le> n" "0 < d" "n \<le> m * d"
  have "round_div n d \<le> (d + m * (2 * d)) div (2 * d)"
    unfolding round_div_def using n by (intro zdiv_mono1) (simp_all add: algebra_simps)
  also have "\<dots> = d div (2 * d) + m" using n by (subst div_mult_self1) simp_all
  also have "d div (2 * d) = 0" using n by simp
  finally show ?thesis using n by (simp add: round_div_def pos_imp_zdiv_nonneg_iff)
qed

definition js_mul :: "int \<Rightarrow> int \<Rightarrow> int" where
  "js_mul a b = round53 (a * b)"

lemma js_mul_safe: "safe (a * b) \<Longrightarrow> js_mul a b = a * b"
  by (simp add: js_mul_def round53_safe)

lemma bit_width_ge: "0 < n \<Longrightarrow> 2 ^ (bit_width n - 1) \<le> n"
proof (induction n rule: less_induct)
  case (less n)
  show ?case
  proof (cases "n = 1")
    case True
    then show ?thesis by (simp add: bit_width.simps)
  next
    case False
    then have "0 < n div 2" using less.prems by (simp add: div_greater_zero_iff)
    moreover have "n div 2 < n" using less.prems by simp
    ultimately have "2 ^ (bit_width (n div 2) - 1) \<le> n div 2" by (intro less.IH)
    moreover have "bit_width n = Suc (bit_width (n div 2))" using less.prems by (subst bit_width.simps) simp
    moreover have "bit_width (n div 2) \<noteq> 0" using \<open>0 < n div 2\<close> by (subst bit_width.simps) simp
    ultimately show ?thesis by (cases "bit_width (n div 2)") auto
  qed
qed

lemma bit_width_less: "n < 2 ^ bit_width n"
proof (induction n rule: bit_width.induct)
  case (1 n)
  show ?case
  proof (cases "n = 0")
    case False
    then have "n div 2 < 2 ^ bit_width (n div 2)" using 1 by simp
    with False show ?thesis by (subst bit_width.simps) simp
  qed simp
qed

text \<open>Rounding does not bring a number back below \<open>2^53\<close>.\<close>

lemma round53_large: "2 ^ 53 \<le> n \<Longrightarrow> 2 ^ 53 \<le> round53 n"
proof -
  assume n: "2 ^ 53 \<le> n"
  define a e where "a = nat \<bar>n\<bar>" and "e = bit_width a - 53"
  have a: "2 ^ 53 \<le> a" "0 < n" using n by (simp_all add: a_def le_nat_iff)
  then have width: "54 \<le> bit_width a"
  proof -
    have "(2 :: nat) ^ 53 < 2 ^ bit_width a" using a(1) bit_width_less [of a] by (rule le_less_trans)
    then have "53 < bit_width a" by (rule power_less_imp_less_exp [rotated]) simp
    then show ?thesis by simp
  qed
  then have e: "0 < e" "bit_width a - 1 = 52 + e" by (simp_all add: e_def)
  have "2 ^ (52 + e) \<le> a" using bit_width_ge [of a] a e by simp
  then have "2 ^ 52 \<le> a div 2 ^ e" by (simp add: power_add less_eq_div_iff_mult_less_eq)
  then have "(2 :: nat) ^ 52 * 2 ^ e \<le> a div 2 ^ e * 2 ^ e" by (rule mult_right_mono) simp
  moreover have "(2 :: nat) ^ 53 \<le> 2 ^ 52 * 2 ^ e"
    using power_increasing [of 53 "52 + e" "2 :: nat"] e by (simp add: power_add)
  ultimately have low: "2 ^ 53 \<le> a div 2 ^ e * 2 ^ e" by (rule order_trans [rotated])
  have "\<exists>q. a div 2 ^ e \<le> q \<and> round53 n = int (q * 2 ^ e)"
  proof -
    define q where "q = (if 2 ^ e < 2 * (a mod 2 ^ e) \<or> (2 * (a mod 2 ^ e) = 2 ^ e \<and> odd (a div 2 ^ e))
        then a div 2 ^ e + 1 else a div 2 ^ e)"
    have "round53 n = int (q * 2 ^ e)"
      using e(1) a(2) unfolding round53_def Let_def q_def a_def [symmetric] e_def [symmetric] by simp
    moreover have "a div 2 ^ e \<le> q" by (simp add: q_def)
    ultimately show ?thesis by blast
  qed
  then obtain q where q: "a div 2 ^ e \<le> q" "round53 n = int (q * 2 ^ e)" by blast
  have "a div 2 ^ e * 2 ^ e \<le> q * 2 ^ e" using q(1) by (rule mult_right_mono) simp
  with low have "2 ^ 53 \<le> q * 2 ^ e" by (rule order_trans)
  then show ?thesis unfolding q(2) by (metis of_nat_le_iff of_nat_numeral of_nat_power)
qed

lemma round53_nonneg: "0 \<le> n \<Longrightarrow> 0 \<le> round53 n"
  using round53_large [of n] round53_safe [of n] by (cases "2 ^ 53 \<le> n") (auto simp: safe_def max_safe_def)

text \<open>A rounded result within the safe integers is the exact one.\<close>

lemma round53_exact: "0 \<le> n \<Longrightarrow> round53 n \<le> max_safe \<Longrightarrow> round53 n = n"
  using round53_large [of n] round53_safe [of n]
  by (cases "2 ^ 53 \<le> n") (auto simp: safe_def max_safe_def)

lemma js_add_exact: "0 \<le> a \<Longrightarrow> 0 \<le> b \<Longrightarrow> js_add a b \<le> max_safe \<Longrightarrow> js_add a b = a + b"
  unfolding js_add_def by (rule round53_exact) simp_all

lemma js_mul_exact: "0 \<le> a \<Longrightarrow> 0 \<le> b \<Longrightarrow> js_mul a b \<le> max_safe \<Longrightarrow> js_mul a b = a * b"
  unfolding js_mul_def by (rule round53_exact) simp_all

lemma js_nonneg: "0 \<le> a \<Longrightarrow> 0 \<le> b \<Longrightarrow> 0 \<le> js_add a b" "0 \<le> a \<Longrightarrow> 0 \<le> b \<Longrightarrow> 0 \<le> js_mul a b"
  by (simp_all add: js_add_def js_mul_def round53_nonneg)

text \<open>Sums of nonnegative numbers only grow, so a safe sum had safe parts.\<close>

lemma js_add_ge: "0 \<le> a \<Longrightarrow> 0 \<le> b \<Longrightarrow> js_add a b \<le> max_safe \<Longrightarrow> a \<le> max_safe \<and> b \<le> max_safe"
  using js_add_exact [of a b] by linarith

end
