(* ===== verification/MatchupScoring.thy ===== *)
theory MatchupScoring
  imports MatchupLock JsNumber "HOL-Library.AList"
begin

text \<open>
  \<^verbatim>\<open>src/src/domain/matchups/matchupScoringPolicy.js\<close>: a team's live score from its locked
  lineup, the current statistics totals and the games that a late lock leaves out. The columns
  \<^verbatim>\<open>position_group\<close> and \<^verbatim>\<open>slot_number\<close>, which the policy reads without a test, are a text
  and an integer, as the table declares them.
\<close>

section \<open>The code\<close>

datatype scoring_code =
    ScoringInputInvalid | ScoringSourceFuture | ScoringSourceRegressed | ScoringEvidenceMissing

definition live_freshness_window :: int where
  "live_freshness_window = 6 * 60 * 60 * 1000"

abbreviation scoring_nonnegative :: "jsval \<Rightarrow> scoring_code + int" where
  "scoring_nonnegative \<equiv> safe_from ScoringInputInvalid 0"

record live_source =
  ls_ageMs :: int
  ls_fresh :: bool

definition describeLiveSource :: "jsval \<Rightarrow> jsval \<Rightarrow> scoring_code + live_source" where
  "describeLiveSource nowMs completedAtMs =
     bindE (scoring_nonnegative nowMs) (\<lambda>now.
     bindE (scoring_nonnegative completedAtMs) (\<lambda>completed.
     if completed > now then Inl ScoringSourceFuture
     else Inr \<lparr>ls_ageMs = now - completed, ls_fresh = (now - completed \<le> live_freshness_window)\<rparr>))"

definition add_current :: "(string \<times> player_total) list \<Rightarrow> jsval \<Rightarrow> scoring_code + (string \<times> player_total) list" where
  "add_current totals t = (case fld t ''player_id'' of
     JStr i \<Rightarrow>
       if i \<in> fst ` set totals then Inl ScoringInputInvalid
       else bindE (scoring_nonnegative (fld t ''games_played'')) (\<lambda>gp.
            bindE (scoring_nonnegative (fld t ''goals'')) (\<lambda>g.
            bindE (scoring_nonnegative (fld t ''assists'')) (\<lambda>a.
            bindE (scoring_nonnegative (fld t ''fantasy_points_hundredths'')) (\<lambda>fp.
            Inr (totals @ [(i, \<lparr>pt_gamesPlayed = gp, pt_goals = g, pt_assists = a, pt_fantasyPoints = fp\<rparr>)])))))
   | _ \<Rightarrow> Inl ScoringInputInvalid)"

text \<open>\<^verbatim>\<open>goalDelta * 125 + assistDelta * 100\<close> in doubles.\<close>

definition fantasy_score :: "int \<Rightarrow> int \<Rightarrow> int" where
  "fantasy_score goals assists = js_add (js_mul goals 125) (js_mul assists 100)"

record excluded_sum =
  ex_goals :: int
  ex_assists :: int
  ex_fantasyPoints :: int

definition zero_excluded :: excluded_sum where
  "zero_excluded = \<lparr>ex_goals = 0, ex_assists = 0, ex_fantasyPoints = 0\<rparr>"

definition excluded_of :: "(string \<times> excluded_sum) list \<Rightarrow> string \<Rightarrow> excluded_sum" where
  "excluded_of sums i = (case map_of sums i of Some s \<Rightarrow> s | None \<Rightarrow> zero_excluded)"

text \<open>
  One excluded player-game; the state is \<^verbatim>\<open>excludedIdentities\<close> and \<^verbatim>\<open>excludedByPlayer\<close>.
\<close>

definition add_excluded ::
  "string list \<times> (string \<times> excluded_sum) list \<Rightarrow> jsval \<Rightarrow>
   scoring_code + string list \<times> (string \<times> excluded_sum) list" where
  "add_excluded state x = (case state of (identities, sums) \<Rightarrow>
     (case (fld x ''player_id'', fld x ''nhl_game_id'') of
        (JStr i, JStr g) \<Rightarrow>
          (let identity = i @ CHR 0x00 # g in
           if identity \<in> set identities then Inl ScoringInputInvalid
           else bindE (scoring_nonnegative (fld x ''baseline_goals'')) (\<lambda>bg.
                bindE (scoring_nonnegative (fld x ''baseline_assists'')) (\<lambda>ba.
                bindE (scoring_nonnegative (fld x ''baseline_fantasy_points_hundredths'')) (\<lambda>bf.
                if fld x ''current_goals'' \<in> {JNull, JUndef} \<or> fld x ''current_assists'' \<in> {JNull, JUndef} \<or>
                   fld x ''current_fantasy_points_hundredths'' \<in> {JNull, JUndef}
                then Inl ScoringEvidenceMissing
                else bindE (scoring_nonnegative (fld x ''current_goals'')) (\<lambda>cg.
                     bindE (scoring_nonnegative (fld x ''current_assists'')) (\<lambda>ca.
                     bindE (scoring_nonnegative (fld x ''current_fantasy_points_hundredths'')) (\<lambda>cf.
                     if cg < bg \<or> ca < ba \<or> cf < bf then Inl ScoringSourceRegressed
                     else if cf - bf \<noteq> fantasy_score (cg - bg) (ca - ba) then Inl ScoringSourceRegressed
                     else (let s = excluded_of sums i in
                       Inr (identity # identities, AList.update i
                         \<lparr>ex_goals = js_add (ex_goals s) (cg - bg),
                          ex_assists = js_add (ex_assists s) (ca - ba),
                          ex_fantasyPoints = js_add (ex_fantasyPoints s) (cf - bf)\<rparr> sums)))))))))
      | _ \<Rightarrow> Inl ScoringInputInvalid))"

record scored_player =
  sp_playerId :: string
  sp_fullName :: string
  sp_positionGroup :: string
  sp_slotNumber :: int
  sp_gamesPlayedDelta :: int
  sp_goalDelta :: int
  sp_assistDelta :: int
  sp_pointDelta :: int
  sp_scoreHundredths :: int

definition score_player ::
  "(string \<times> player_total) list \<Rightarrow> (string \<times> excluded_sum) list \<Rightarrow> scored_player list \<Rightarrow> jsval \<Rightarrow>
   scoring_code + scored_player list" where
  "score_player totals sums players p = (case (fld p ''player_id'', fld p ''player_full_name'') of
     (JStr i, JStr name) \<Rightarrow>
       if trim name = [] \<or> i \<in> set (map sp_playerId players) then Inl ScoringInputInvalid
       else (case map_of totals i of
         None \<Rightarrow> Inl ScoringEvidenceMissing
       | Some current \<Rightarrow>
           bindE (scoring_nonnegative (fld p ''baseline_games_played'')) (\<lambda>bp.
           bindE (scoring_nonnegative (fld p ''baseline_goals'')) (\<lambda>bg.
           bindE (scoring_nonnegative (fld p ''baseline_assists'')) (\<lambda>ba.
           bindE (scoring_nonnegative (fld p ''baseline_fantasy_points_hundredths'')) (\<lambda>bf.
           if pt_gamesPlayed current < bp \<or> pt_goals current < bg \<or> pt_assists current < ba \<or>
              pt_fantasyPoints current < bf then Inl ScoringSourceRegressed
           else (let goals = pt_goals current - bg; assists = pt_assists current - ba;
                     ordinary = fantasy_score goals assists; s = excluded_of sums i in
             if pt_fantasyPoints current - bf \<noteq> ordinary then Inl ScoringSourceRegressed
             else if ex_goals s > goals \<or> ex_assists s > assists \<or> ex_fantasyPoints s > ordinary
             then Inl ScoringSourceRegressed
             else Inr (players @ [\<lparr>sp_playerId = i, sp_fullName = name,
               sp_positionGroup = text_of (fld p ''position_group''),
               sp_slotNumber = int_of (fld p ''slot_number''),
               sp_gamesPlayedDelta = pt_gamesPlayed current - bp,
               sp_goalDelta = goals - ex_goals s, sp_assistDelta = assists - ex_assists s,
               sp_pointDelta = js_add (goals - ex_goals s) (assists - ex_assists s),
               sp_scoreHundredths = ordinary - ex_fantasyPoints s\<rparr>])))))))
   | _ \<Rightarrow> Inl ScoringInputInvalid)"

definition compareScored :: "(string \<Rightarrow> string \<Rightarrow> int) \<Rightarrow> scored_player \<Rightarrow> scored_player \<Rightarrow> int" where
  "compareScored collate l r =
     cmp_or (collate (sp_positionGroup l) (sp_positionGroup r))
    (cmp_or (sp_slotNumber l - sp_slotNumber r)
            (collate (sp_playerId l) (sp_playerId r)))"

record team_score =
  ts_teamId :: jsval
  ts_legal :: bool
  ts_scoreHundredths :: int
  ts_players :: "scored_player list"

definition or_empty :: "jsval \<Rightarrow> jsval" where
  "or_empty v = (if v = JUndef then JArr [] else v)"

definition calculateTeamLiveScore ::
  "(string \<Rightarrow> string \<Rightarrow> int) \<Rightarrow> jsval \<Rightarrow> jsval \<Rightarrow> jsval \<Rightarrow> jsval \<Rightarrow> scoring_code + team_score" where
  "calculateTeamLiveScore collate lock lockedPlayers currentTotals excludedPlayerGames =
     (if fld lock ''legal'' \<notin> {JInt 0, JInt 1} then Inl ScoringInputInvalid
      else (case (items lockedPlayers, items currentTotals, items (or_empty excludedPlayerGames)) of
        (Some ps, Some ts, Some xs) \<Rightarrow>
          if fld lock ''legal'' = JInt 0
          then Inr \<lparr>ts_teamId = fld lock ''team_id'', ts_legal = False, ts_scoreHundredths = 0, ts_players = []\<rparr>
          else bindE (foldE add_current [] ts) (\<lambda>totals.
               bindE (foldE add_excluded ([], []) xs) (\<lambda>(identities, sums).
               bindE (foldE (score_player totals sums) [] ps) (\<lambda>players.
               let ranked = js_sort (compareScored collate) players in
               if list_ex (\<lambda>i. i \<notin> set (map sp_playerId players)) (map fst sums)
               then Inl ScoringInputInvalid
               else Inr \<lparr>ts_teamId = fld lock ''team_id'', ts_legal = True,
                 ts_scoreHundredths = foldl (\<lambda>sum p. js_add sum (sp_scoreHundredths p)) 0 ranked,
                 ts_players = ranked\<rparr>)))
      | _ \<Rightarrow> Inl ScoringInputInvalid))"

section \<open>Current totals\<close>

lemma scoring_nonnegative_iff: "scoring_nonnegative v = Inr n \<longleftrightarrow> safe_nonneg v \<and> n = int_of v"
  by (cases v) (auto simp: safe_from_iff)

interpretation current: unique_loader add_current total_ok total_of fst
proof
  fix rows rows' v
  show "add_current rows v = Inr rows' \<longleftrightarrow>
      total_ok v \<and> fst (total_of v) \<notin> fst ` set rows \<and> rows' = rows @ [total_of v]"
    by (cases "fld v ''player_id''")
      (auto simp: add_current_def total_ok_def total_of_def bindE_Inr_iff scoring_nonnegative_iff)
qed

lemma safe_nonneg_int_of: "safe_nonneg v \<Longrightarrow> 0 \<le> int_of v \<and> int_of v \<le> max_safe"
  by (cases v) (auto simp: safe_def)

lemma fantasy_score_exact:
  assumes "0 \<le> g" "0 \<le> a" "fantasy_score g a \<le> max_safe"
  shows "fantasy_score g a = 125 * g + 100 * a"
proof -
  have nn: "0 \<le> js_mul g 125" "0 \<le> js_mul a 100" using assms(1,2) by (auto intro: js_nonneg)
  have "js_mul g 125 \<le> max_safe" "js_mul a 100 \<le> max_safe"
    using js_add_ge [OF nn] assms(3) by (simp_all add: fantasy_score_def)
  then have "js_mul g 125 = g * 125" "js_mul a 100 = a * 100"
    using assms(1,2) by (auto intro: js_mul_exact)
  then show ?thesis
    using js_add_exact [OF nn] assms(3) by (simp add: fantasy_score_def)
qed

section \<open>Excluded games\<close>

definition game_delta :: "string \<Rightarrow> string \<Rightarrow> jsval \<Rightarrow> int" where
  "game_delta current baseline x = int_of (fld x current) - int_of (fld x baseline)"

definition excluded_games :: "string \<Rightarrow> jsval list \<Rightarrow> jsval list" where
  "excluded_games i xs = filter (\<lambda>x. fld x ''player_id'' = JStr i) xs"

definition goals_excluded :: "jsval list \<Rightarrow> string \<Rightarrow> int" where
  "goals_excluded xs i = sum_list (map (game_delta ''current_goals'' ''baseline_goals'') (excluded_games i xs))"

definition assists_excluded :: "jsval list \<Rightarrow> string \<Rightarrow> int" where
  "assists_excluded xs i = sum_list (map (game_delta ''current_assists'' ''baseline_assists'') (excluded_games i xs))"

text \<open>A sum of doubles is exact until it leaves the safe integers, and then it stays outside.\<close>

definition tracks :: "int \<Rightarrow> int \<Rightarrow> bool" where
  "tracks c e \<longleftrightarrow> 0 \<le> c \<and> 0 \<le> e \<and> (c = e \<or> max_safe < c \<and> max_safe < e)"

lemma tracks_zero [simp]: "tracks 0 0"
  by (simp add: tracks_def)

lemma tracks_exact: "tracks c e \<Longrightarrow> c \<le> max_safe \<Longrightarrow> c = e"
  by (auto simp: tracks_def)

lemma tracks_add:
  assumes "tracks c e" "0 \<le> d"
  shows "tracks (js_add c d) (e + d)"
proof (cases "js_add c d \<le> max_safe")
  case True
  have c: "0 \<le> c" using assms(1) by (simp add: tracks_def)
  then have "c \<le> max_safe" using js_add_ge [OF _ assms(2) True] by simp
  then have "c = e" using assms(1) by (rule tracks_exact [rotated])
  then show ?thesis using js_add_exact [OF c assms(2) True] c assms(2) by (simp add: tracks_def)
next
  case False
  have "max_safe < e + d"
  proof (cases "c = e")
    case True
    then have "\<not> safe (e + d)" using False js_add_safe by (auto simp: safe_def)
    then show ?thesis using assms by (auto simp: tracks_def safe_def max_safe_def)
  qed (use assms in \<open>auto simp: tracks_def\<close>)
  then show ?thesis using False assms by (auto simp: tracks_def max_safe_def)
qed

definition sums_track :: "jsval list \<Rightarrow> (string \<times> excluded_sum) list \<Rightarrow> bool" where
  "sums_track xs sums \<longleftrightarrow>
     (\<forall>i. tracks (ex_goals (excluded_of sums i)) (goals_excluded xs i) \<and>
          tracks (ex_assists (excluded_of sums i)) (assists_excluded xs i) \<and>
          tracks (ex_fantasyPoints (excluded_of sums i)) (125 * goals_excluded xs i + 100 * assists_excluded xs i)) \<and>
     fst ` set sums = {i. excluded_games i xs \<noteq> []}"

lemma excluded_of_update:
  "excluded_of (AList.update i s sums) j = (if j = i then s else excluded_of sums j)"
  by (simp add: excluded_of_def update_conv')

lemma add_excluded_track:
  assumes "add_excluded (ids, sums) x = Inr (ids', sums')" "sums_track xs sums"
  shows "sums_track (xs @ [x]) sums'"
proof -
  obtain i g where x: "fld x ''player_id'' = JStr i" "fld x ''nhl_game_id'' = JStr g"
    using assms(1) by (auto simp: add_excluded_def split: jsval.splits)
  define dg da df where "dg = game_delta ''current_goals'' ''baseline_goals'' x"
    and "da = game_delta ''current_assists'' ''baseline_assists'' x"
    and "df = game_delta ''current_fantasy_points_hundredths'' ''baseline_fantasy_points_hundredths'' x"
  note defs = dg_def da_def df_def game_delta_def
  let ?s = "excluded_of sums i"
  have step: "0 \<le> dg" "0 \<le> da" "0 \<le> df" "df \<le> max_safe" "df = fantasy_score dg da"
    "sums' = AList.update i \<lparr>ex_goals = js_add (ex_goals ?s) dg, ex_assists = js_add (ex_assists ?s) da,
       ex_fantasyPoints = js_add (ex_fantasyPoints ?s) df\<rparr> sums"
    using assms(1) safe_nonneg_int_of [of "fld x ''current_fantasy_points_hundredths''"]
      safe_nonneg_int_of [of "fld x ''baseline_fantasy_points_hundredths''"]
    unfolding add_excluded_def defs
    by (auto simp: x Let_def bindE_Inr_iff scoring_nonnegative_iff split: if_splits)
  then have df: "df = 125 * dg + 100 * da" using fantasy_score_exact by simp
  have games: "goals_excluded (xs @ [x]) j = goals_excluded xs j + (if j = i then dg else 0)"
    "assists_excluded (xs @ [x]) j = assists_excluded xs j + (if j = i then da else 0)" for j
    by (auto simp: goals_excluded_def assists_excluded_def excluded_games_def x defs)
  have old: "tracks (ex_goals (excluded_of sums j)) (goals_excluded xs j)"
    "tracks (ex_assists (excluded_of sums j)) (assists_excluded xs j)"
    "tracks (ex_fantasyPoints (excluded_of sums j)) (125 * goals_excluded xs j + 100 * assists_excluded xs j)" for j
    using assms(2) by (simp_all add: sums_track_def)
  have points: "125 * goals_excluded (xs @ [x]) i + 100 * assists_excluded (xs @ [x]) i =
      (125 * goals_excluded xs i + 100 * assists_excluded xs i) + df"
    by (simp add: games df)
  have "tracks (ex_goals (excluded_of sums' j)) (goals_excluded (xs @ [x]) j) \<and>
      tracks (ex_assists (excluded_of sums' j)) (assists_excluded (xs @ [x]) j) \<and>
      tracks (ex_fantasyPoints (excluded_of sums' j)) (125 * goals_excluded (xs @ [x]) j + 100 * assists_excluded (xs @ [x]) j)" for j
  proof (cases "j = i")
    case True
    show ?thesis
      unfolding True points unfolding games step(6) excluded_of_update using tracks_add old step(1-3) by simp
  next
    case False
    then show ?thesis using old by (simp add: games step(6) excluded_of_update)
  qed
  moreover have "fst ` set sums' = insert i (fst ` set sums)"
    unfolding step(6) by (simp add: update_conv' flip: dom_map_of_conv_image_fst)
  moreover have "excluded_games j (xs @ [x]) \<noteq> [] \<longleftrightarrow> j = i \<or> excluded_games j xs \<noteq> []" for j
    by (simp add: excluded_games_def x)
  ultimately show ?thesis using assms(2) unfolding sums_track_def by auto
qed

lemma add_excluded_all:
  "foldE add_excluded (ids, sums) ys = Inr (ids', sums') \<Longrightarrow> sums_track xs sums \<Longrightarrow> sums_track (xs @ ys) sums'"
proof (induction ys arbitrary: ids sums xs)
  case Nil
  then show ?case by simp
next
  case (Cons y ys)
  then obtain idsy sumsy where "add_excluded (ids, sums) y = Inr (idsy, sumsy)"
    "foldE add_excluded (idsy, sumsy) ys = Inr (ids', sums')" by (auto simp: bindE_Inr_iff)
  then show ?case using Cons.IH [of idsy sumsy "xs @ [y]"] add_excluded_track Cons.prems(2) by auto
qed

lemma sums_track_Nil: "sums_track [] []"
  by (simp add: sums_track_def goals_excluded_def assists_excluded_def excluded_games_def excluded_of_def zero_excluded_def)

section \<open>A player's score\<close>

text \<open>
  What a locked player's row should be: the growth of its totals since the baseline, less the
  excluded games, at 125 hundredths a goal and 100 an assist.
\<close>

definition expected_player :: "(string \<times> player_total) list \<Rightarrow> jsval list \<Rightarrow> jsval \<Rightarrow> scored_player" where
  "expected_player totals xs p =
     (let i = text_of (fld p ''player_id''); current = the (map_of totals i);
          goals = pt_goals current - int_of (fld p ''baseline_goals'') - goals_excluded xs i;
          assists = pt_assists current - int_of (fld p ''baseline_assists'') - assists_excluded xs i in
      \<lparr>sp_playerId = i, sp_fullName = text_of (fld p ''player_full_name''),
       sp_positionGroup = text_of (fld p ''position_group''), sp_slotNumber = int_of (fld p ''slot_number''),
       sp_gamesPlayedDelta = pt_gamesPlayed current - int_of (fld p ''baseline_games_played''),
       sp_goalDelta = goals, sp_assistDelta = assists, sp_pointDelta = goals + assists,
       sp_scoreHundredths = 125 * goals + 100 * assists\<rparr>)"

definition player_scores_ok :: "scored_player \<Rightarrow> bool" where
  "player_scores_ok s \<longleftrightarrow> 0 \<le> sp_goalDelta s \<and> 0 \<le> sp_assistDelta s \<and> 0 \<le> sp_scoreHundredths s \<and>
     sp_scoreHundredths s \<le> max_safe"

definition totals_wf :: "(string \<times> player_total) list \<Rightarrow> bool" where
  "totals_wf totals \<longleftrightarrow> (\<forall>(i, t) \<in> set totals. 0 \<le> pt_goals t \<and> pt_goals t \<le> max_safe \<and>
     0 \<le> pt_assists t \<and> pt_assists t \<le> max_safe \<and> 0 \<le> pt_fantasyPoints t \<and> pt_fantasyPoints t \<le> max_safe)"

lemma totals_wf_total_of: "list_all total_ok ts \<Longrightarrow> totals_wf (map total_of ts)"
  by (auto simp: totals_wf_def list_all_iff total_ok_def total_of_def dest: safe_nonneg_int_of)

lemma score_player_expected:
  assumes "score_player totals sums players p = Inr players'" "sums_track xs sums" "totals_wf totals"
  shows "players' = players @ [expected_player totals xs p] \<and> player_scores_ok (expected_player totals xs p) \<and>
    fld p ''player_id'' = JStr (sp_playerId (expected_player totals xs p)) \<and>
    sp_playerId (expected_player totals xs p) \<notin> set (map sp_playerId players)"
proof -
  obtain i name where p: "fld p ''player_id'' = JStr i" "fld p ''player_full_name'' = JStr name"
    "i \<notin> set (map sp_playerId players)"
    using assms(1) by (auto simp: score_player_def split: jsval.splits if_splits)
  obtain current where c: "map_of totals i = Some current"
    using assms(1) by (auto simp: score_player_def p split: option.splits if_splits)
  define bp bg ba bf where "bp = int_of (fld p ''baseline_games_played'')" and "bg = int_of (fld p ''baseline_goals'')"
    and "ba = int_of (fld p ''baseline_assists'')" and "bf = int_of (fld p ''baseline_fantasy_points_hundredths'')"
  let ?g = "pt_goals current - bg" and ?a = "pt_assists current - ba" and ?s = "excluded_of sums i"
  have base: "0 \<le> bg" "0 \<le> ba" "0 \<le> bf" and conds: "bg \<le> pt_goals current" "ba \<le> pt_assists current"
    "bf \<le> pt_fantasyPoints current" "pt_fantasyPoints current - bf = fantasy_score ?g ?a"
    "ex_goals ?s \<le> ?g" "ex_assists ?s \<le> ?a" "ex_fantasyPoints ?s \<le> fantasy_score ?g ?a"
    and row: "players' = players @ [\<lparr>sp_playerId = i, sp_fullName = name,
       sp_positionGroup = text_of (fld p ''position_group''), sp_slotNumber = int_of (fld p ''slot_number''),
       sp_gamesPlayedDelta = pt_gamesPlayed current - bp, sp_goalDelta = ?g - ex_goals ?s,
       sp_assistDelta = ?a - ex_assists ?s, sp_pointDelta = js_add (?g - ex_goals ?s) (?a - ex_assists ?s),
       sp_scoreHundredths = fantasy_score ?g ?a - ex_fantasyPoints ?s\<rparr>]"
    using assms(1) unfolding bp_def bg_def ba_def bf_def
    by (auto simp: score_player_def p c Let_def bindE_Inr_iff scoring_nonnegative_iff
        dest: safe_nonneg_int_of split: if_splits)
  have current: "pt_goals current \<le> max_safe" "pt_assists current \<le> max_safe" "pt_fantasyPoints current \<le> max_safe"
    using assms(3) map_of_SomeD [OF c] by (auto simp: totals_wf_def)
  have fantasy: "fantasy_score ?g ?a = 125 * ?g + 100 * ?a"
    by (rule fantasy_score_exact) (use conds current base in linarith)+
  have track: "tracks (ex_goals ?s) (goals_excluded xs i)" "tracks (ex_assists ?s) (assists_excluded xs i)"
    "tracks (ex_fantasyPoints ?s) (125 * goals_excluded xs i + 100 * assists_excluded xs i)"
    using assms(2) by (simp_all add: sums_track_def)
  have exact: "ex_goals ?s = goals_excluded xs i" "ex_assists ?s = assists_excluded xs i"
    "ex_fantasyPoints ?s = 125 * goals_excluded xs i + 100 * assists_excluded xs i"
    using conds current base by (intro tracks_exact [OF track(1)] tracks_exact [OF track(2)] tracks_exact [OF track(3)], linarith)+
  have nn: "0 \<le> ex_goals ?s" "0 \<le> ex_assists ?s" using track by (simp_all add: tracks_def)
  let ?G = "?g - ex_goals ?s" and ?A = "?a - ex_assists ?s"
  have score: "fantasy_score ?g ?a - ex_fantasyPoints ?s = 125 * ?G + 100 * ?A"
    unfolding fantasy exact by simp
  have ok: "0 \<le> ?G" "0 \<le> ?A" "125 * ?G + 100 * ?A \<le> max_safe"
    using conds current base nn score track(3) by (auto simp: tracks_def)
  then have "js_add ?G ?A = ?G + ?A" by (intro js_add_safe) (simp add: safe_def)
  then have "players' = players @ [expected_player totals xs p]"
    using row score p c unfolding expected_player_def by (simp add: Let_def exact bp_def bg_def ba_def)
  moreover have "player_scores_ok (expected_player totals xs p)"
    using ok unfolding player_scores_ok_def expected_player_def by (simp add: Let_def p c exact bg_def ba_def)
  ultimately show ?thesis using p by (simp add: expected_player_def Let_def)
qed

lemma score_players_expected:
  assumes "foldE (score_player totals sums) players ps = Inr players'" "sums_track xs sums" "totals_wf totals"
    and "distinct (map sp_playerId players)"
  shows "players' = players @ map (expected_player totals xs) ps \<and> distinct (map sp_playerId players') \<and>
    (\<forall>p \<in> set ps. player_scores_ok (expected_player totals xs p) \<and>
      fld p ''player_id'' = JStr (sp_playerId (expected_player totals xs p)))"
  using assms(1,4)
proof (induction ps arbitrary: players)
  case Nil
  then show ?case by simp
next
  case (Cons p ps)
  then obtain mid where mid: "score_player totals sums players p = Inr mid"
    "foldE (score_player totals sums) mid ps = Inr players'" by (auto simp: bindE_Inr_iff)
  note step = score_player_expected [OF mid(1) assms(2,3)]
  have "distinct (map sp_playerId mid)" using step Cons.prems(2) by auto
  note rest = Cons.IH [OF mid(2) this]
  have "players' = players @ map (expected_player totals xs) (p # ps)" using rest step by simp
  moreover have "distinct (map sp_playerId players')" using rest by blast
  moreover have "\<forall>q \<in> set (p # ps). player_scores_ok (expected_player totals xs q) \<and>
      fld q ''player_id'' = JStr (sp_playerId (expected_player totals xs q))"
    using rest step by simp
  ultimately show ?case by blast
qed

section \<open>A team's score\<close>

lemma score_sum:
  assumes "\<forall>s \<in> set players. 0 \<le> sp_scoreHundredths s" "0 \<le> k"
    and "k + sum_list (map sp_scoreHundredths players) \<le> max_safe"
  shows "foldl (\<lambda>sum p. js_add sum (sp_scoreHundredths p)) k players = k + sum_list (map sp_scoreHundredths players)"
  using assms
proof (induction players arbitrary: k)
  case Nil
  then show ?case by simp
next
  case (Cons s players)
  have "0 \<le> sum_list (map sp_scoreHundredths players)" using Cons.prems(1) by (intro sum_list_nonneg) auto
  then have "safe (k + sp_scoreHundredths s)" using Cons.prems by (simp add: safe_def max_safe_def)
  then have "js_add k (sp_scoreHundredths s) = k + sp_scoreHundredths s" by (rule js_add_safe)
  then show ?case using Cons.IH [of "k + sp_scoreHundredths s"] Cons.prems by (simp add: add.assoc)
qed

lemma sum_js_sort: "sum_list (map f (js_sort cmp xs)) = (sum_list (map f xs) :: int)"
  by (metis mset_js_sort mset_map sum_mset_sum_list)

text \<open>
  C34. An accepted score of a legally locked team has one row for each locked player: its goals,
  assists and games are the growth of its totals since the lock less the excluded games, none of
  them is negative, its points follow from them, the exclusions are all of locked players, and
  the team's score is the sum.
\<close>

theorem live_score_formula:
  assumes "calculateTeamLiveScore collate lock (JArr ps) (JArr ts) (JArr xs) = Inr score" "ts_legal score"
  shows "mset (ts_players score) = mset (map (expected_player (map total_of ts) xs) ps) \<and>
    distinct (map sp_playerId (ts_players score)) \<and>
    (\<forall>s \<in> set (ts_players score). player_scores_ok s) \<and>
    {i. excluded_games i xs \<noteq> []} \<subseteq> sp_playerId ` set (ts_players score) \<and>
    (sum_list (map sp_scoreHundredths (ts_players score)) \<le> max_safe \<longrightarrow>
      ts_scoreHundredths score = sum_list (map sp_scoreHundredths (ts_players score)))"
proof -
  obtain totals ids sums players where
    t: "foldE add_current [] ts = Inr totals" and x: "foldE add_excluded ([], []) xs = Inr (ids, sums)"
    and p: "foldE (score_player totals sums) [] ps = Inr players"
    and known: "\<not> list_ex (\<lambda>i. i \<notin> set (map sp_playerId players)) (map fst sums)"
    and ranked: "ts_players score = js_sort (compareScored collate) players"
    and total_score: "ts_scoreHundredths score =
      foldl (\<lambda>sum p. js_add sum (sp_scoreHundredths p)) 0 (js_sort (compareScored collate) players)"
    using assms unfolding calculateTeamLiveScore_def
    by (auto simp: or_empty_def bindE_Inr_iff Let_def split: if_splits)
  have totals: "totals = map total_of ts" "list_all total_ok ts" using t current.load_iff by blast+
  have track: "sums_track xs sums" using add_excluded_all [OF x sums_track_Nil] by simp
  from score_players_expected [OF p track] totals totals_wf_total_of
  have players: "players = map (expected_player (map total_of ts) xs) ps" "distinct (map sp_playerId players)"
    "\<forall>s \<in> set players. player_scores_ok s" by auto
  have "{i. excluded_games i xs \<noteq> []} \<subseteq> sp_playerId ` set players"
  proof -
    have "fst ` set sums \<subseteq> sp_playerId ` set players" using known by (auto simp: list_ex_iff)
    then show ?thesis using track by (simp add: sums_track_def)
  qed
  moreover have "ts_scoreHundredths score = sum_list (map sp_scoreHundredths players)"
    if "sum_list (map sp_scoreHundredths players) \<le> max_safe"
    unfolding total_score using score_sum [of "js_sort (compareScored collate) players" 0] that players(3)
    by (simp add: sum_js_sort player_scores_ok_def)
  ultimately show ?thesis using players unfolding ranked by (simp add: sum_js_sort)
qed

text \<open>
  A team without a legal lock scores nothing, whatever its players did.
\<close>

theorem illegal_lock_scores_zero:
  assumes "calculateTeamLiveScore collate lock players totals excluded = Inr score" "fld lock ''legal'' \<noteq> JInt 1"
  shows "ts_scoreHundredths score = 0 \<and> ts_players score = [] \<and> \<not> ts_legal score"
proof -
  have "fld lock ''legal'' = JInt 0"
    using assms by (auto simp: calculateTeamLiveScore_def split: if_splits)
  then show ?thesis
    using assms(1) by (cases "items players"; cases "items totals"; cases "items (or_empty excluded)")
      (simp_all add: calculateTeamLiveScore_def, auto)
qed

section \<open>From the lock to the score\<close>

text \<open>The row that the lock repository inserts, joined with the player's name.\<close>

definition locked_player_row :: "(string \<Rightarrow> string) \<Rightarrow> locked_player \<Rightarrow> jsval" where
  "locked_player_row name_of r = JObj
     [(''player_id'', JStr (lp_playerId r)), (''player_full_name'', JStr (name_of (lp_playerId r))),
      (''position_group'', JStr (lp_positionGroup r)), (''slot_number'', JInt (lp_slotNumber r)),
      (''baseline_games_played'', JInt (lp_baselineGamesPlayed r)),
      (''baseline_goals'', JInt (lp_baselineGoals r)), (''baseline_assists'', JInt (lp_baselineAssists r)),
      (''baseline_fantasy_points_hundredths'', JInt (lp_baselineFantasyPoints r))]"

lemma fantasy_score_zero [simp]: "fantasy_score 0 0 = 0"
  by (simp add: fantasy_score_def js_add_safe js_mul_safe safe_def max_safe_def)

definition unscored_row :: "(string \<Rightarrow> string) \<Rightarrow> locked_player \<Rightarrow> scored_player" where
  "unscored_row name_of r = \<lparr>sp_playerId = lp_playerId r, sp_fullName = name_of (lp_playerId r),
     sp_positionGroup = lp_positionGroup r, sp_slotNumber = lp_slotNumber r, sp_gamesPlayedDelta = 0,
     sp_goalDelta = 0, sp_assistDelta = 0, sp_pointDelta = 0, sp_scoreHundredths = 0\<rparr>"

definition total_safe :: "player_total \<Rightarrow> bool" where
  "total_safe t \<longleftrightarrow> (\<forall>n \<in> {pt_gamesPlayed t, pt_goals t, pt_assists t, pt_fantasyPoints t}. 0 \<le> n \<and> n \<le> max_safe)"

lemma score_player_at_lock:
  assumes "map_of totals (lp_playerId r) = Some t" "total_safe t"
    and "(lp_baselineGamesPlayed r, lp_baselineGoals r, lp_baselineAssists r, lp_baselineFantasyPoints r) =
      (pt_gamesPlayed t, pt_goals t, pt_assists t, pt_fantasyPoints t)"
    and "trim (name_of (lp_playerId r)) \<noteq> []" "lp_playerId r \<notin> set (map sp_playerId players)"
  shows "score_player totals [] players (locked_player_row name_of r) = Inr (players @ [unscored_row name_of r])"
proof -
  have "safe n" if "0 \<le> n" "n \<le> max_safe" for n using that by (simp add: safe_def)
  then show ?thesis
    using assms by (simp add: score_player_def locked_player_row_def unscored_row_def safe_from_def total_safe_def
        excluded_of_def zero_excluded_def Let_def js_add_def round53_safe safe_def max_safe_def)
qed

lemma score_players_at_lock:
  assumes "\<forall>r \<in> set rows. \<exists>t. map_of totals (lp_playerId r) = Some t \<and> total_safe t \<and>
      (lp_baselineGamesPlayed r, lp_baselineGoals r, lp_baselineAssists r, lp_baselineFantasyPoints r) =
      (pt_gamesPlayed t, pt_goals t, pt_assists t, pt_fantasyPoints t) \<and> trim (name_of (lp_playerId r)) \<noteq> []"
    and "distinct (map lp_playerId rows)" "set (map lp_playerId rows) \<inter> set (map sp_playerId players) = {}"
  shows "foldE (score_player totals []) players (map (locked_player_row name_of) rows) =
    Inr (players @ map (unscored_row name_of) rows)"
  using assms
proof (induction rows arbitrary: players)
  case Nil
  then show ?case by simp
next
  case (Cons r rows)
  then obtain t where "map_of totals (lp_playerId r) = Some t" "total_safe t"
    "(lp_baselineGamesPlayed r, lp_baselineGoals r, lp_baselineAssists r, lp_baselineFantasyPoints r) =
      (pt_gamesPlayed t, pt_goals t, pt_assists t, pt_fantasyPoints t)" "trim (name_of (lp_playerId r)) \<noteq> []"
    by auto
  then have step: "score_player totals [] players (locked_player_row name_of r) = Inr (players @ [unscored_row name_of r])"
    by (rule score_player_at_lock) (use Cons.prems(3) in auto)
  have "foldE (score_player totals []) (players @ [unscored_row name_of r]) (map (locked_player_row name_of) rows) =
      Inr ((players @ [unscored_row name_of r]) @ map (unscored_row name_of) rows)"
    using Cons.prems by (intro Cons.IH) (auto simp: unscored_row_def)
  with step show ?case by simp
qed

lemma total_safe_total_of: "total_ok t \<Longrightarrow> total_safe (snd (total_of t))"
  by (auto simp: total_ok_def total_of_def total_safe_def dest: safe_nonneg_int_of)

text \<open>
  A lineup that was just locked can be scored against the same totals when every player has
  one, and its score is zero: the lock's baselines are what the scoring subtracts.
\<close>

theorem locked_lineup_starts_at_zero:
  assumes "buildLockedPlayerBaselines collate (JArr ps) (JArr ts) = Inr rows" "totals_ok ts"
    and "ap_playerId ` set (map active_of ps) \<subseteq> fst ` set (map total_of ts)"
    and "\<forall>i. trim (name_of i) \<noteq> []" "fld lock ''legal'' = JInt 1"
  shows "\<exists>score. calculateTeamLiveScore collate lock (JArr (map (locked_player_row name_of) rows)) (JArr ts) JUndef =
      Inr score \<and> ts_legal score \<and> ts_scoreHundredths score = 0 \<and>
      mset (map sp_playerId (ts_players score)) = mset (map (ap_playerId \<circ> active_of) ps)"
proof -
  let ?totals = "map total_of ts"
  have ok: "list_all total_ok ts" "distinct (map (fst \<circ> total_of) ts)"
    using assms(2) total_ids by (auto simp: totals_ok_def)
  then have t: "foldE add_current [] ts = Inr ?totals" using current.load_iff by blast
  note facts = locked_players_facts [OF assms(1)]
  have ids: "mset (map lp_playerId rows) = mset (map (ap_playerId \<circ> active_of) ps)"
    and d: "distinct (map lp_playerId rows)"
    using facts by blast+
  have "\<exists>t. map_of ?totals (lp_playerId r) = Some t \<and> total_safe t \<and>
      (lp_baselineGamesPlayed r, lp_baselineGoals r, lp_baselineAssists r, lp_baselineFantasyPoints r) =
      (pt_gamesPlayed t, pt_goals t, pt_assists t, pt_fantasyPoints t) \<and> trim (name_of (lp_playerId r)) \<noteq> []"
    if r: "r \<in> set rows" for r
  proof -
    have "lp_playerId r \<in> set (map lp_playerId rows)" using r by simp
    also have "\<dots> = set (map (ap_playerId \<circ> active_of) ps)" using ids by (metis set_mset_mset)
    finally have "lp_playerId r \<in> fst ` set ?totals" using assms(3) by auto
    then obtain t where t: "map_of ?totals (lp_playerId r) = Some t"
      by (metis domD dom_map_of_conv_image_fst)
    then have "(lp_playerId r, t) \<in> set ?totals" by (rule map_of_SomeD)
    then obtain v where "v \<in> set ts" "(lp_playerId r, t) = total_of v" by auto
    then have "total_safe t" using ok(1) total_safe_total_of [of v] by (simp add: list_all_iff) (metis snd_conv)
    then show ?thesis using t facts r assms(4) by (auto simp: baseline_of_def Let_def)
  qed
  then have "foldE (score_player ?totals []) [] (map (locked_player_row name_of) rows) =
      Inr (map (unscored_row name_of) rows)"
    using score_players_at_lock [of rows ?totals name_of "[]"] d by simp
  then have score: "calculateTeamLiveScore collate lock (JArr (map (locked_player_row name_of) rows)) (JArr ts) JUndef =
      Inr \<lparr>ts_teamId = fld lock ''team_id'', ts_legal = True,
        ts_scoreHundredths = foldl (\<lambda>sum p. js_add sum (sp_scoreHundredths p)) 0
          (js_sort (compareScored collate) (map (unscored_row name_of) rows)),
        ts_players = js_sort (compareScored collate) (map (unscored_row name_of) rows)\<rparr>"
    using assms(5) by (simp add: calculateTeamLiveScore_def or_empty_def t Let_def)
  have zero: "\<forall>s \<in> set (js_sort (compareScored collate) (map (unscored_row name_of) rows)). sp_scoreHundredths s = 0"
    by (auto simp: unscored_row_def)
  have "sum_list (map sp_scoreHundredths (js_sort (compareScored collate) (map (unscored_row name_of) rows))) = 0"
    unfolding sum_js_sort by (simp add: unscored_row_def comp_def)
  then have "foldl (\<lambda>sum p. js_add sum (sp_scoreHundredths p)) 0
      (js_sort (compareScored collate) (map (unscored_row name_of) rows)) = 0"
    using score_sum [of "js_sort (compareScored collate) (map (unscored_row name_of) rows)" 0] zero
    by (simp add: max_safe_def)
  moreover have "mset (map sp_playerId (js_sort (compareScored collate) (map (unscored_row name_of) rows))) =
      mset (map lp_playerId rows)"
    by (simp add: multiset.map_comp comp_def unscored_row_def)
  ultimately show ?thesis using score ids by simp
qed

section \<open>A score\<close>

definition sample_lock_row :: "int \<Rightarrow> jsval" where
  "sample_lock_row legal = JObj [(''legal'', JInt legal), (''team_id'', JStr ''team'')]"

definition sample_locked :: jsval where
  "sample_locked = locked_player_row (\<lambda>_. ''A. Player'')
     \<lparr>lp_playerId = ''p1'', lp_positionGroup = ''F'', lp_slotNumber = 3, lp_baselineGamesPlayed = 10,
      lp_baselineGoals = 4, lp_baselineAssists = 7, lp_baselineFantasyPoints = 1200\<rparr>"

definition sample_current :: jsval where
  "sample_current = JObj [(''player_id'', JStr ''p1''), (''games_played'', JInt 12), (''goals'', JInt 6),
     (''assists'', JInt 8), (''fantasy_points_hundredths'', JInt 1550)]"

definition sample_excluded :: jsval where
  "sample_excluded = JObj [(''player_id'', JStr ''p1''), (''nhl_game_id'', JStr ''g1''),
     (''baseline_goals'', JInt 0), (''baseline_assists'', JInt 0), (''baseline_fantasy_points_hundredths'', JInt 0),
     (''current_goals'', JInt 1), (''current_assists'', JInt 0), (''current_fantasy_points_hundredths'', JInt 125)]"

lemmas js_exact = js_add_safe js_mul_safe safe_def max_safe_def

lemma sample_live_score:
  "\<exists>score. calculateTeamLiveScore locale_compare (sample_lock_row 1) (JArr [sample_locked]) (JArr [sample_current])
     (JArr [sample_excluded]) = Inr score \<and> ts_legal score"
proof -
  let ?t = "\<lparr>pt_gamesPlayed = 12, pt_goals = 6, pt_assists = 8, pt_fantasyPoints = 1550\<rparr>"
  let ?x = "\<lparr>ex_goals = 1, ex_assists = 0, ex_fantasyPoints = 125\<rparr>"
  have "add_current [] sample_current = Inr [(''p1'', ?t)]"
    by (simp add: add_current_def sample_current_def safe_from_def js_exact)
  moreover have "add_excluded ([], []) sample_excluded = Inr ([''p1'' @ CHR 0x00 # ''g1''], [(''p1'', ?x)])"
    by (simp add: add_excluded_def sample_excluded_def safe_from_def fantasy_score_def excluded_of_def
        zero_excluded_def js_exact)
  moreover have "\<exists>s. score_player [(''p1'', ?t)] [(''p1'', ?x)] [] sample_locked = Inr [s] \<and> sp_playerId s = ''p1''"
    by (simp add: score_player_def sample_locked_def locked_player_row_def safe_from_def fantasy_score_def
        excluded_of_def trim_def js_space_def js_exact)
  ultimately show ?thesis
    by (auto simp: calculateTeamLiveScore_def sample_lock_row_def or_empty_def Let_def)
qed

theorem live_score_formula_witness:
  "\<exists>score. calculateTeamLiveScore locale_compare (sample_lock_row 1) (JArr [sample_locked]) (JArr [sample_current])
     (JArr [sample_excluded]) = Inr score \<and> ts_scoreHundredths score = 225"
proof -
  obtain score where score: "calculateTeamLiveScore locale_compare (sample_lock_row 1) (JArr [sample_locked])
      (JArr [sample_current]) (JArr [sample_excluded]) = Inr score" "ts_legal score"
    using sample_live_score by blast
  note formula = live_score_formula [OF score]
  have "expected_player (map total_of [sample_current]) [sample_excluded] sample_locked =
      \<lparr>sp_playerId = ''p1'', sp_fullName = ''A. Player'', sp_positionGroup = ''F'', sp_slotNumber = 3,
       sp_gamesPlayedDelta = 2, sp_goalDelta = 1, sp_assistDelta = 1, sp_pointDelta = 2, sp_scoreHundredths = 225\<rparr>"
    by (simp add: expected_player_def sample_locked_def locked_player_row_def sample_current_def sample_excluded_def
        total_of_def goals_excluded_def assists_excluded_def excluded_games_def game_delta_def Let_def)
  then have "map sp_scoreHundredths (ts_players score) = [225]"
    using formula by simp
  with formula score show ?thesis by (auto simp: max_safe_def)
qed

theorem illegal_lock_scores_zero_witness:
  "\<exists>score. calculateTeamLiveScore locale_compare (sample_lock_row 0) (JArr [sample_locked]) (JArr []) JUndef = Inr score \<and>
     ts_scoreHundredths score = 0"
proof -
  have "\<exists>score. calculateTeamLiveScore locale_compare (sample_lock_row 0) (JArr [sample_locked]) (JArr []) JUndef = Inr score"
    by (simp add: calculateTeamLiveScore_def sample_lock_row_def or_empty_def)
  then show ?thesis
    using illegal_lock_scores_zero [of locale_compare "sample_lock_row 0" "JArr [sample_locked]" "JArr []" JUndef]
    by (auto simp: sample_lock_row_def)
qed

theorem locked_lineup_starts_at_zero_witness:
  "\<exists>rows score. buildLockedPlayerBaselines locale_compare (JArr [sample_player ''p1'' ''F'' JNull]) (JArr [sample_current]) = Inr rows \<and>
     calculateTeamLiveScore locale_compare (sample_lock_row 1) (JArr (map (locked_player_row (\<lambda>_. ''A'')) rows))
       (JArr [sample_current]) JUndef = Inr score \<and> ts_scoreHundredths score = 0"
proof -
  have t: "totals_ok [sample_current]"
    by (simp add: totals_ok_def total_ok_def sample_current_def safe_def max_safe_def)
  moreover have "lineup_ok [sample_player ''p1'' ''F'' JNull]"
    by (simp add: lineup_ok_def lineup_player_ok_def valid_player_id_def valid_position_def at_position_def sample_player_def)
  ultimately obtain rows where rows:
    "buildLockedPlayerBaselines locale_compare (JArr [sample_player ''p1'' ''F'' JNull]) (JArr [sample_current]) = Inr rows"
    using lock_answers [of "[sample_player ''p1'' ''F'' JNull]" locale_compare "[sample_current]"] by auto
  have "ap_playerId ` set (map active_of [sample_player ''p1'' ''F'' JNull]) \<subseteq> fst ` set (map total_of [sample_current])"
    by (simp add: active_of_def total_of_def sample_player_def sample_current_def)
  then show ?thesis
    using locked_lineup_starts_at_zero [OF rows t, of "\<lambda>_. ''A''" "sample_lock_row 1"] rows
    by (auto simp: sample_lock_row_def trim_def js_space_def)
qed

end
