(* ===== verification/MatchupWeek.thy ===== *)
theory MatchupWeek
  imports RecordRepository
begin

text \<open>
  The life of a matchup week up to the end of play:
  \<^verbatim>\<open>src/src/domain/matchups/matchupWeekPolicy.js\<close> decides the next transition,
  \<^verbatim>\<open>src/src/infrastructure/persistence/sqlite/SqliteMatchupWeekRepository.js\<close> applies it to the
  tables and \<^verbatim>\<open>src/src/application/services/matchups/createMatchupWeekService.js\<close> composes the
  two. A table is the list of its rows. The guard of a scheduled execution, the hook before the
  commit, the fresh operation identifier and what SQLite enforces beside the statements
  (\<open>accepts\<close>) are arguments.
\<close>

section \<open>The policy\<close>

datatype week_code = WeekInputInvalid | WeekStateInvalid | WeekTransitionEarly | WeekTransitionTerminal

definition week_statuses :: "string list" where
  "week_statuses = [''scheduled'', ''baseline_ready'', ''live'', ''awaiting_data'', ''final'',
     ''correction_required'', ''cancelled'']"

record week_boundaries =
  wb_startsAtMs :: int
  wb_baselineAtMs :: int
  wb_locksAtMs :: int
  wb_endsAtMs :: int
  wb_rollsOverAtMs :: int

abbreviation week_timestamp :: "jsval \<Rightarrow> week_code + int" where
  "week_timestamp \<equiv> safe_from WeekInputInvalid 0"

definition validateWeekBoundaries :: "jsval \<Rightarrow> week_code + week_boundaries" where
  "validateWeekBoundaries v =
     bindE (week_timestamp (fld v ''startsAtMs'')) (\<lambda>s.
     bindE (week_timestamp (fld v ''baselineAtMs'')) (\<lambda>b.
     bindE (week_timestamp (fld v ''locksAtMs'')) (\<lambda>l.
     bindE (week_timestamp (fld v ''endsAtMs'')) (\<lambda>e.
     bindE (week_timestamp (fld v ''rollsOverAtMs'')) (\<lambda>r.
     if b < s \<or> l < b \<or> e \<le> l \<or> r < e then Inl WeekInputInvalid
     else Inr \<lparr>wb_startsAtMs = s, wb_baselineAtMs = b, wb_locksAtMs = l, wb_endsAtMs = e,
       wb_rollsOverAtMs = r\<rparr>)))))"

definition isManagerRosterWriteOpen :: "jsval \<Rightarrow> jsval \<Rightarrow> week_code + bool" where
  "isManagerRosterWriteOpen nowMs locksAtMs =
     bindE (week_timestamp nowMs) (\<lambda>now. bindE (week_timestamp locksAtMs) (\<lambda>locks. Inr (now < locks)))"

record week_transition =
  wt_fromStatus :: string
  wt_toStatus :: string
  wt_matchupStatus :: "string option"
  wt_effectiveAtMs :: int
  wt_observedAtMs :: int

definition week_rule :: "week_boundaries \<Rightarrow> string \<Rightarrow> (int \<times> string \<times> string option) option" where
  "week_rule b = map_of
     [(''scheduled'', wb_baselineAtMs b, ''baseline_ready'', None),
      (''baseline_ready'', wb_locksAtMs b, ''live'', Some ''live''),
      (''live'', wb_endsAtMs b, ''awaiting_data'', Some ''awaiting_data'')]"

definition deriveNextWeekTransition :: "jsval \<Rightarrow> week_code + week_transition" where
  "deriveNextWeekTransition v =
     (case fld v ''status'' of
        JStr status \<Rightarrow>
          if status \<notin> set week_statuses then Inl WeekStateInvalid
          else
          bindE (week_timestamp (fld v ''nowMs'')) (\<lambda>now.
          bindE (validateWeekBoundaries v) (\<lambda>b.
          case week_rule b status of
            None \<Rightarrow> Inl WeekTransitionTerminal
          | Some (atMs, toStatus, matchupStatus) \<Rightarrow>
              if now < atMs then Inl WeekTransitionEarly
              else Inr \<lparr>wt_fromStatus = status, wt_toStatus = toStatus, wt_matchupStatus = matchupStatus,
                wt_effectiveAtMs = atMs, wt_observedAtMs = now\<rparr>))
      | _ \<Rightarrow> Inl WeekStateInvalid)"

section \<open>The repository\<close>

record week_row =
  wk_id :: string
  wk_league_id :: string
  wk_season_id :: string
  wk_starts_at_ms :: int
  wk_baseline_at_ms :: int
  wk_locks_at_ms :: int
  wk_ends_at_ms :: int
  wk_rolls_over_at_ms :: int
  wk_status :: string
  wk_updated_at_ms :: int
  wk_version :: int

record week_matchup =
  wm_id :: string
  wm_league_id :: string
  wm_season_id :: string
  wm_week_id :: string
  wm_status :: string
  wm_updated_at_ms :: int
  wm_version :: int

text \<open>A row of \<^verbatim>\<open>matchup_operations\<close>; the metadata object is kept as its fields.\<close>

record week_operation =
  wo_id :: string
  wo_league_id :: string
  wo_season_id :: string
  wo_week_id :: string
  wo_type :: string
  wo_fromStatus :: string
  wo_toStatus :: string
  wo_effectiveAtMs :: int
  wo_expectedVersion :: int
  wo_matchupChanges :: nat
  wo_started_at_ms :: int

record week_store =
  ws_weeks :: "week_row list"
  ws_matchups :: "week_matchup list"
  ws_operations :: "week_operation list"

definition week_scope :: "jsval \<Rightarrow> jsval \<Rightarrow> jsval \<Rightarrow> repo_error + string \<times> string \<times> string" where
  "week_scope leagueId seasonId weekId =
     bindE (stable_id RepoArgumentInvalid leagueId) (\<lambda>l.
     bindE (stable_id RepoArgumentInvalid seasonId) (\<lambda>s.
     bindE (stable_id RepoArgumentInvalid weekId) (\<lambda>w. Inr (l, s, w))))"

definition in_week_scope :: "string \<times> string \<times> string \<Rightarrow> week_row \<Rightarrow> bool" where
  "in_week_scope scope r \<longleftrightarrow> scope = (wk_league_id r, wk_season_id r, wk_id r)"

text \<open>\<^verbatim>\<open>LIMIT 2\<close> and one row at most.\<close>

definition single_row :: "'r list \<Rightarrow> repo_error + 'r option" where
  "single_row rows = (case rows of
     [] \<Rightarrow> Inr None | [r] \<Rightarrow> Inr (Some r) | _ \<Rightarrow> Inl RepoSchemaIncompatible)"

definition readWeek :: "week_store \<Rightarrow> jsval \<Rightarrow> jsval \<Rightarrow> jsval \<Rightarrow> repo_error + week_row option" where
  "readWeek st leagueId seasonId weekId =
     bindE (week_scope leagueId seasonId weekId) (\<lambda>scope.
     single_row (filter (in_week_scope scope) (ws_weeks st)))"

definition operation_matches :: "string \<times> string \<times> string \<Rightarrow> week_operation \<Rightarrow> bool" where
  "operation_matches scope wo \<longleftrightarrow>
     scope = (wo_league_id wo, wo_season_id wo, wo_week_id wo) \<and> wo_type wo = ''week_transition''"

definition readTransitionOperation ::
  "week_store \<Rightarrow> string \<times> string \<times> string \<Rightarrow> string \<Rightarrow> repo_error + week_operation option" where
  "readTransitionOperation st ids operationId =
     (case ids of (leagueId, seasonId, weekId) \<Rightarrow>
     bindE (stable_id RepoArgumentInvalid (JStr operationId)) (\<lambda>opId.
     bindE (single_row (filter (\<lambda>wo. wo_id wo = opId) (ws_operations st))) (\<lambda>found.
     case found of
       None \<Rightarrow> Inr None
     | Some wo \<Rightarrow>
         bindE (week_scope (JStr leagueId) (JStr seasonId) (JStr weekId)) (\<lambda>scope.
         if operation_matches scope wo then Inr (Some wo) else Inl RepoVersionConflict))))"

record week_change =
  wx_expectedVersion :: int
  wx_fromStatus :: string
  wx_toStatus :: string
  wx_matchupStatus :: "string option"
  wx_effectiveAtMs :: int
  wx_nowMs :: int

record 'o week_command =
  wc_leagueId :: string
  wc_seasonId :: string
  wc_weekId :: string
  wc_operationId :: string
  wc_change :: "week_change option"
  wc_occurrence :: "'o option"

record 'o week_env =
  we_guard :: "('o \<Rightarrow> repo_error option) option"
  we_beforeCommit :: "week_store \<Rightarrow> repo_error option"
  we_accepts :: "week_store \<Rightarrow> bool"

record week_outcome =
  wr_replayed :: bool
  wr_operationId :: string
  wr_matchupChanges :: "nat option"
  wr_week :: "week_row option"

definition assert_execution :: "'o week_env \<Rightarrow> 'o option \<Rightarrow> repo_error + unit" where
  "assert_execution env occurrence = (case occurrence of
     None \<Rightarrow> Inr ()
   | Some exec \<Rightarrow> (case we_guard env of
       None \<Rightarrow> Inl RepoArgumentInvalid
     | Some guard \<Rightarrow> (case guard exec of Some e \<Rightarrow> Inl e | None \<Rightarrow> Inr ())))"

definition updateWeekStatement :: "string \<times> string \<times> string \<Rightarrow> week_change \<Rightarrow> week_row list \<Rightarrow> week_row list \<times> nat" where
  "updateWeekStatement scope c rows =
     (let hit = (\<lambda>r. in_week_scope scope r \<and> wk_status r = wx_fromStatus c \<and> wk_version r = wx_expectedVersion c) in
      (map (\<lambda>r. if hit r then r\<lparr>wk_status := wx_toStatus c, wk_updated_at_ms := wx_nowMs c,
          wk_version := wk_version r + 1\<rparr> else r) rows,
       length (filter hit rows)))"

definition updateMatchupsStatement ::
  "string \<times> string \<times> string \<Rightarrow> week_change \<Rightarrow> string \<Rightarrow> week_matchup list \<Rightarrow> week_matchup list \<times> nat" where
  "updateMatchupsStatement scope c matchupStatus rows =
     (let expected = (if wx_fromStatus c = ''baseline_ready'' then ''scheduled'' else ''live'');
          hit = (\<lambda>m. scope = (wm_league_id m, wm_season_id m, wm_week_id m) \<and> wm_status m = expected) in
      (map (\<lambda>m. if hit m then m\<lparr>wm_status := matchupStatus, wm_updated_at_ms := wx_nowMs c,
          wm_version := wm_version m + 1\<rparr> else m) rows,
       length (filter hit rows)))"

definition move_matchups :: "string \<times> string \<times> string \<Rightarrow> week_change \<Rightarrow> week_matchup list \<Rightarrow> week_matchup list \<times> nat" where
  "move_matchups scope c rows = (case wx_matchupStatus c of
     None \<Rightarrow> (rows, 0) | Some s \<Rightarrow> updateMatchupsStatement scope c s rows)"

definition new_operation :: "'o week_command \<Rightarrow> week_change \<Rightarrow> nat \<Rightarrow> week_operation" where
  "new_operation cmd c changes =
     \<lparr>wo_id = wc_operationId cmd, wo_league_id = wc_leagueId cmd, wo_season_id = wc_seasonId cmd,
      wo_week_id = wc_weekId cmd, wo_type = ''week_transition'', wo_fromStatus = wx_fromStatus c,
      wo_toStatus = wx_toStatus c, wo_effectiveAtMs = wx_effectiveAtMs c,
      wo_expectedVersion = wx_expectedVersion c, wo_matchupChanges = changes,
      wo_started_at_ms = wx_nowMs c\<rparr>"

definition transitionTransaction ::
  "'o week_env \<Rightarrow> week_store \<Rightarrow> 'o week_command \<Rightarrow> repo_error + week_store \<times> week_outcome" where
  "transitionTransaction env st cmd =
     (let scope = (wc_leagueId cmd, wc_seasonId cmd, wc_weekId cmd);
          read = (\<lambda>s. readWeek s (JStr (wc_leagueId cmd)) (JStr (wc_seasonId cmd)) (JStr (wc_weekId cmd))) in
      bindE (assert_execution env (wc_occurrence cmd)) (\<lambda>_.
      bindE (stable_id RepoArgumentInvalid (JStr (wc_operationId cmd))) (\<lambda>opId.
      bindE (single_row (filter (\<lambda>wo. wo_id wo = opId) (ws_operations st))) (\<lambda>found.
      case found of
        Some wo \<Rightarrow>
          if \<not> operation_matches scope wo then Inl RepoVersionConflict
          else bindE (read st) (\<lambda>week. Inr (st,
            \<lparr>wr_replayed = True, wr_operationId = wo_id wo, wr_matchupChanges = None, wr_week = week\<rparr>))
      | None \<Rightarrow>
          if wc_occurrence cmd \<noteq> None \<and> wc_change cmd = None then Inl RepoVersionConflict
          else bindE (read st) (\<lambda>found_week.
          case found_week of
            None \<Rightarrow> Inl RepoRecordNotFound
          | Some week \<Rightarrow> (case wc_change cmd of
              None \<Rightarrow> Inl RepoVersionConflict
            | Some c \<Rightarrow>
                if wk_version week \<noteq> wx_expectedVersion c \<or> wk_status week \<noteq> wx_fromStatus c
                then Inl RepoVersionConflict
                else (case updateWeekStatement scope c (ws_weeks st) of (weeks, changed) \<Rightarrow>
                  if changed \<noteq> 1 then Inl RepoVersionConflict
                  else (case move_matchups scope c (ws_matchups st) of (matchups, moved) \<Rightarrow>
                    (let st' = \<lparr>ws_weeks = weeks, ws_matchups = matchups,
                           ws_operations = ws_operations st @ [new_operation cmd c moved]\<rparr> in
                     if \<not> we_accepts env st' then Inl RepoConstraint
                     else (case we_beforeCommit env st' of
                       Some e \<Rightarrow> Inl e
                     | None \<Rightarrow> bindE (read st') (\<lambda>after. Inr (st',
                         \<lparr>wr_replayed = False, wr_operationId = wc_operationId cmd,
                          wr_matchupChanges = Some moved, wr_week = after\<rparr>))))))))))))"

definition transitionWeek ::
  "'o week_env \<Rightarrow> week_store \<Rightarrow> 'o week_command \<Rightarrow> repo_error + week_store \<times> week_outcome" where
  "transitionWeek env st cmd =
     bindE (week_scope (JStr (wc_leagueId cmd)) (JStr (wc_seasonId cmd)) (JStr (wc_weekId cmd))) (\<lambda>_.
     transitionTransaction env st cmd)"

section \<open>The service\<close>

datatype week_failure = WeekRepo repo_error | WeekPolicy week_code | WeekMissing

definition weekRepoE :: "repo_error + 'a \<Rightarrow> week_failure + 'a" where
  "weekRepoE m = (case m of Inl e \<Rightarrow> Inl (WeekRepo e) | Inr x \<Rightarrow> Inr x)"

definition weekPolicyE :: "week_code + 'a \<Rightarrow> week_failure + 'a" where
  "weekPolicyE m = (case m of Inl e \<Rightarrow> Inl (WeekPolicy e) | Inr x \<Rightarrow> Inr x)"

record 'o week_input =
  win_leagueId :: jsval
  win_seasonId :: jsval
  win_weekId :: jsval
  win_nowMs :: jsval
  win_operationId :: "string option"
  win_occurrence :: "'o option"

definition requireWeek :: "week_store \<Rightarrow> 'o week_input \<Rightarrow> week_failure + week_row" where
  "requireWeek st inp =
     bindE (weekRepoE (readWeek st (win_leagueId inp) (win_seasonId inp) (win_weekId inp))) (\<lambda>found.
     case found of None \<Rightarrow> Inl WeekMissing | Some week \<Rightarrow> Inr week)"

definition boundary_fields :: "week_row \<Rightarrow> (string \<times> jsval) list" where
  "boundary_fields w =
     [(''startsAtMs'', JInt (wk_starts_at_ms w)), (''baselineAtMs'', JInt (wk_baseline_at_ms w)),
      (''locksAtMs'', JInt (wk_locks_at_ms w)), (''endsAtMs'', JInt (wk_ends_at_ms w)),
      (''rollsOverAtMs'', JInt (wk_rolls_over_at_ms w))]"

definition rosterWriteState :: "week_store \<Rightarrow> 'o week_input \<Rightarrow> week_failure + string \<times> int \<times> bool" where
  "rosterWriteState st inp =
     bindE (requireWeek st inp) (\<lambda>week.
     bindE (weekPolicyE (validateWeekBoundaries (JObj (boundary_fields week)))) (\<lambda>_.
     bindE (weekPolicyE (isManagerRosterWriteOpen (win_nowMs inp) (JInt (wk_locks_at_ms week)))) (\<lambda>is_open.
     Inr (wk_id week, wk_locks_at_ms week, is_open))))"

text \<open>An empty operation identifier is absent; \<open>fresh\<close> is what \<^verbatim>\<open>createId\<close> returns.\<close>

definition given_operation :: "'o week_input \<Rightarrow> string option" where
  "given_operation inp = (if win_operationId inp = Some [] then None else win_operationId inp)"

definition advance ::
  "'o week_env \<Rightarrow> string \<Rightarrow> week_store \<Rightarrow> 'o week_input \<Rightarrow> week_failure + week_store \<times> week_outcome" where
  "advance env fresh st inp =
     bindE (requireWeek st inp) (\<lambda>week.
     (let ids = (wk_league_id week, wk_season_id week, wk_id week);
          command = (\<lambda>opId change. \<lparr>wc_leagueId = wk_league_id week, wc_seasonId = wk_season_id week,
            wc_weekId = wk_id week, wc_operationId = opId, wc_change = change, wc_occurrence = win_occurrence inp\<rparr>);
          go = bindE (weekPolicyE (deriveNextWeekTransition (JObj
                 ((''status'', JStr (wk_status week)) # (''nowMs'', win_nowMs inp) # boundary_fields week)))) (\<lambda>t.
               weekRepoE (transitionWeek env st (command
                 (case given_operation inp of None \<Rightarrow> fresh | Some opId \<Rightarrow> opId)
                 (Some \<lparr>wx_expectedVersion = wk_version week, wx_fromStatus = wt_fromStatus t,
                   wx_toStatus = wt_toStatus t, wx_matchupStatus = wt_matchupStatus t,
                   wx_effectiveAtMs = wt_effectiveAtMs t, wx_nowMs = wt_observedAtMs t\<rparr>)))) in
      case given_operation inp of
        None \<Rightarrow> go
      | Some opId \<Rightarrow>
          bindE (weekRepoE (readTransitionOperation st ids opId)) (\<lambda>prior.
          case prior of
            None \<Rightarrow> go
          | Some wo \<Rightarrow>
              if win_occurrence inp \<noteq> None then weekRepoE (transitionWeek env st (command opId None))
              else Inr (st, \<lparr>wr_replayed = True, wr_operationId = wo_id wo, wr_matchupChanges = None,
                wr_week = Some week\<rparr>))))"

section \<open>What one call does\<close>

definition derive_for :: "week_row \<Rightarrow> jsval \<Rightarrow> week_code + week_transition" where
  "derive_for w now = deriveNextWeekTransition
     (JObj ((''status'', JStr (wk_status w)) # (''nowMs'', now) # boundary_fields w))"

definition change_for :: "week_row \<Rightarrow> week_transition \<Rightarrow> week_change" where
  "change_for w t = \<lparr>wx_expectedVersion = wk_version w, wx_fromStatus = wt_fromStatus t,
     wx_toStatus = wt_toStatus t, wx_matchupStatus = wt_matchupStatus t,
     wx_effectiveAtMs = wt_effectiveAtMs t, wx_nowMs = wt_observedAtMs t\<rparr>"

abbreviation week_ids :: "week_row \<Rightarrow> string \<times> string \<times> string" where
  "week_ids w \<equiv> (wk_league_id w, wk_season_id w, wk_id w)"

definition moved_week :: "week_row \<Rightarrow> week_transition \<Rightarrow> week_row" where
  "moved_week w t = w\<lparr>wk_status := wt_toStatus t, wk_updated_at_ms := wt_observedAtMs t,
     wk_version := wk_version w + 1\<rparr>"

definition transition_operation :: "week_row \<Rightarrow> week_transition \<Rightarrow> string \<Rightarrow> nat \<Rightarrow> week_operation" where
  "transition_operation w t opId changes =
     \<lparr>wo_id = opId, wo_league_id = wk_league_id w, wo_season_id = wk_season_id w, wo_week_id = wk_id w,
      wo_type = ''week_transition'', wo_fromStatus = wt_fromStatus t, wo_toStatus = wt_toStatus t,
      wo_effectiveAtMs = wt_effectiveAtMs t, wo_expectedVersion = wk_version w,
      wo_matchupChanges = changes, wo_started_at_ms = wt_observedAtMs t\<rparr>"

text \<open>The store after a transition of the week \<open>w\<close>.\<close>

definition apply_transition :: "week_store \<Rightarrow> week_row \<Rightarrow> week_transition \<Rightarrow> string \<Rightarrow> week_store" where
  "apply_transition st w t opId =
     (case move_matchups (week_ids w) (change_for w t) (ws_matchups st) of (matchups, moved) \<Rightarrow>
       \<lparr>ws_weeks = map (\<lambda>r. if r = w then moved_week w t else r) (ws_weeks st), ws_matchups = matchups,
        ws_operations = ws_operations st @ [transition_operation w t opId moved]\<rparr>)"

lemma single_row_iff:
  "single_row rows = Inr (Some r) \<longleftrightarrow> rows = [r]" "single_row rows = Inr None \<longleftrightarrow> rows = []"
  by (auto simp: single_row_def split: list.splits)

lemma readWeek_Some_iff:
  "readWeek st l s w = Inr (Some r) \<longleftrightarrow>
     l = JStr (wk_league_id r) \<and> s = JStr (wk_season_id r) \<and> w = JStr (wk_id r) \<and>
     is_uuid (wk_league_id r) \<and> is_uuid (wk_season_id r) \<and> is_uuid (wk_id r) \<and>
     filter (in_week_scope (week_ids r)) (ws_weeks st) = [r]"
proof -
  have "in_week_scope scope r" if "filter (in_week_scope scope) (ws_weeks st) = [r]" for scope
  proof -
    have "r \<in> set (filter (in_week_scope scope) (ws_weeks st))" using that by simp
    then show ?thesis by simp
  qed
  then have "filter (in_week_scope scope) (ws_weeks st) = [r] \<Longrightarrow> scope = week_ids r" for scope
    by (simp add: in_week_scope_def)
  then show ?thesis
    by (auto simp: readWeek_def week_scope_def bindE_Inr_iff stable_id_iff single_row_iff)
qed

lemma filter_single_iff:
  "filter P xs = [y] \<Longrightarrow> x \<in> set xs \<Longrightarrow> P x \<longleftrightarrow> x = y"
proof -
  assume "filter P xs = [y]" "x \<in> set xs"
  then have "{z \<in> set xs. P z} = {y}" by (metis list.set(1) list.simps(15) set_filter)
  with \<open>x \<in> set xs\<close> show "P x \<longleftrightarrow> x = y" by blast
qed

lemma change_for_fields [simp]:
  "wx_expectedVersion (change_for w t) = wk_version w" "wx_fromStatus (change_for w t) = wt_fromStatus t"
  "wx_toStatus (change_for w t) = wt_toStatus t" "wx_matchupStatus (change_for w t) = wt_matchupStatus t"
  "wx_effectiveAtMs (change_for w t) = wt_effectiveAtMs t" "wx_nowMs (change_for w t) = wt_observedAtMs t"
  by (simp_all add: change_for_def)

lemma updateWeek_single:
  assumes "filter (in_week_scope (week_ids w)) (ws_weeks st) = [w]" "wt_fromStatus t = wk_status w"
  shows "updateWeekStatement (week_ids w) (change_for w t) (ws_weeks st) =
    (map (\<lambda>r. if r = w then moved_week w t else r) (ws_weeks st), 1)"
proof -
  let ?hit = "\<lambda>r. in_week_scope (week_ids w) r \<and> wk_status r = wt_fromStatus t \<and> wk_version r = wk_version w"
  have hit: "?hit r \<longleftrightarrow> r = w" if "r \<in> set (ws_weeks st)" for r
    using filter_single_iff [OF assms(1) that] assms(2) by auto
  have "filter ?hit (ws_weeks st) = filter (\<lambda>r. r = w) (ws_weeks st)" using hit by (intro filter_cong) auto
  also have "\<dots> = filter (in_week_scope (week_ids w)) (ws_weeks st)"
    using filter_single_iff [OF assms(1)] by (intro filter_cong) auto
  finally have "length (filter ?hit (ws_weeks st)) = 1" using assms(1) by simp
  moreover have "map (\<lambda>r. if ?hit r then r\<lparr>wk_status := wt_toStatus t, wk_updated_at_ms := wt_observedAtMs t,
      wk_version := wk_version r + 1\<rparr> else r) (ws_weeks st) =
      map (\<lambda>r. if r = w then moved_week w t else r) (ws_weeks st)"
    by (rule map_cong [OF refl]) (simp add: hit moved_week_def)
  ultimately show ?thesis unfolding updateWeekStatement_def Let_def change_for_fields by (simp only:)
qed

definition week_bounds :: "week_row \<Rightarrow> week_boundaries" where
  "week_bounds w = \<lparr>wb_startsAtMs = wk_starts_at_ms w, wb_baselineAtMs = wk_baseline_at_ms w,
     wb_locksAtMs = wk_locks_at_ms w, wb_endsAtMs = wk_ends_at_ms w, wb_rollsOverAtMs = wk_rolls_over_at_ms w\<rparr>"

definition bounds_ok :: "week_row \<Rightarrow> bool" where
  "bounds_ok w \<longleftrightarrow> 0 \<le> wk_starts_at_ms w \<and> wk_starts_at_ms w \<le> wk_baseline_at_ms w \<and>
     wk_baseline_at_ms w \<le> wk_locks_at_ms w \<and> wk_locks_at_ms w < wk_ends_at_ms w \<and>
     wk_ends_at_ms w \<le> wk_rolls_over_at_ms w \<and> wk_rolls_over_at_ms w \<le> max_safe"

lemma week_boundaries_row:
  "fld v ''startsAtMs'' = JInt (wk_starts_at_ms w) \<Longrightarrow> fld v ''baselineAtMs'' = JInt (wk_baseline_at_ms w) \<Longrightarrow>
   fld v ''locksAtMs'' = JInt (wk_locks_at_ms w) \<Longrightarrow> fld v ''endsAtMs'' = JInt (wk_ends_at_ms w) \<Longrightarrow>
   fld v ''rollsOverAtMs'' = JInt (wk_rolls_over_at_ms w) \<Longrightarrow>
   validateWeekBoundaries v = Inr b \<longleftrightarrow> bounds_ok w \<and> b = week_bounds w"
  by (auto simp: validateWeekBoundaries_def bindE_Inr_iff safe_from_iff week_bounds_def bounds_ok_def safe_def max_safe_def)

lemma case_rule_iff:
  "(case m of None \<Rightarrow> Inl e | Some (a, s, ms) \<Rightarrow> if (n :: int) < a then Inl e' else Inr (F a s ms)) = Inr r \<longleftrightarrow>
     (\<exists>a s ms. m = Some (a, s, ms) \<and> a \<le> n \<and> r = F a s ms)"
  by (cases m) (auto split: if_splits)

lemma derive_for_iff:
  "derive_for w now = Inr t \<longleftrightarrow> bounds_ok w \<and> wk_status w \<in> set week_statuses \<and>
     (\<exists>n atMs toStatus matchupStatus. now = JInt n \<and> safe n \<and> 0 \<le> n \<and>
       week_rule (week_bounds w) (wk_status w) = Some (atMs, toStatus, matchupStatus) \<and> atMs \<le> n \<and>
       t = \<lparr>wt_fromStatus = wk_status w, wt_toStatus = toStatus, wt_matchupStatus = matchupStatus,
         wt_effectiveAtMs = atMs, wt_observedAtMs = n\<rparr>)"
proof -
  let ?v = "JObj ((''status'', JStr (wk_status w)) # (''nowMs'', now) # boundary_fields w)"
  have b: "validateWeekBoundaries ?v = Inr b \<longleftrightarrow> bounds_ok w \<and> b = week_bounds w" for b
    by (rule week_boundaries_row) (simp_all add: boundary_fields_def)
  have "derive_for w now = Inr t \<longleftrightarrow> wk_status w \<in> set week_statuses \<and> (\<exists>n. week_timestamp now = Inr n \<and>
      (\<exists>b. validateWeekBoundaries ?v = Inr b \<and> (\<exists>atMs toStatus matchupStatus.
        week_rule b (wk_status w) = Some (atMs, toStatus, matchupStatus) \<and> atMs \<le> n \<and>
        t = \<lparr>wt_fromStatus = wk_status w, wt_toStatus = toStatus, wt_matchupStatus = matchupStatus,
          wt_effectiveAtMs = atMs, wt_observedAtMs = n\<rparr>)))"
    by (simp add: derive_for_def deriveNextWeekTransition_def bindE_Inr_iff case_rule_iff)
  then show ?thesis unfolding b safe_from_iff by blast
qed

lemma derive_for_from: "derive_for w now = Inr t \<Longrightarrow> wt_fromStatus t = wk_status w"
  by (auto simp: derive_for_iff)

definition command_for :: "week_row \<Rightarrow> string \<Rightarrow> week_change option \<Rightarrow> 'o option \<Rightarrow> 'o week_command" where
  "command_for w opId change occurrence = \<lparr>wc_leagueId = wk_league_id w, wc_seasonId = wk_season_id w,
     wc_weekId = wk_id w, wc_operationId = opId, wc_change = change, wc_occurrence = occurrence\<rparr>"

lemma transitionWeek_success:
  assumes "transitionWeek env st (command_for w opId change occurrence) = Inr (st', out)"
    and w: "readWeek st l s i = Inr (Some w)"
  shows "is_uuid opId \<and>
    (if \<exists>wo \<in> set (ws_operations st). wo_id wo = opId
     then st' = st \<and> wr_replayed out \<and> (\<exists>wo. filter (\<lambda>wo. wo_id wo = opId) (ws_operations st) = [wo] \<and> operation_matches (week_ids w) wo)
     else \<not> wr_replayed out \<and> wr_operationId out = opId \<and>
       (\<exists>c. change = Some c \<and> wx_expectedVersion c = wk_version w \<and> wx_fromStatus c = wk_status w \<and>
         (\<forall>t. c = change_for w t \<longrightarrow> st' = apply_transition st w t opId)))"
proof -
  note found = w [unfolded readWeek_Some_iff]
  then have read: "readWeek st (JStr (wk_league_id w)) (JStr (wk_season_id w)) (JStr (wk_id w)) = Inr (Some w)"
    using w by simp
  have tt: "transitionTransaction env st (command_for w opId change occurrence) = Inr (st', out)"
    using assms(1) by (auto simp: transitionWeek_def bindE_Inr_iff)
  have uuid: "is_uuid opId"
    using tt by (auto simp: transitionTransaction_def command_for_def Let_def bindE_Inr_iff stable_id_iff)
  show ?thesis
  proof (cases "\<exists>wo \<in> set (ws_operations st). wo_id wo = opId")
    case True
    then have "filter (\<lambda>wo. wo_id wo = opId) (ws_operations st) \<noteq> []" by (auto simp: filter_empty_conv)
    then obtain wo where "filter (\<lambda>wo. wo_id wo = opId) (ws_operations st) = [wo]"
      "operation_matches (week_ids w) wo" "st' = st" "wr_replayed out"
      using tt by (auto simp: transitionTransaction_def command_for_def Let_def bindE_Inr_iff stable_id_iff
          read single_row_def split: list.splits if_splits)
    then show ?thesis using True uuid by auto
  next
    case False
    then have none: "filter (\<lambda>wo. wo_id wo = opId) (ws_operations st) = []" by (auto simp: filter_empty_conv)
    obtain c where c: "change = Some c" "wx_expectedVersion c = wk_version w" "wx_fromStatus c = wk_status w"
      using tt by (auto simp: transitionTransaction_def command_for_def Let_def bindE_Inr_iff stable_id_iff
          read none single_row_def split: if_splits option.splits)
    have "st' = apply_transition st w t opId" if t: "c = change_for w t" for t
    proof -
      have "wt_fromStatus t = wk_status w" using c(3) t by (simp add: change_for_def)
      note up = updateWeek_single [OF _ this, of st]
      show ?thesis
        using tt c found up unfolding t
        by (auto simp: transitionTransaction_def command_for_def Let_def bindE_Inr_iff stable_id_iff
          read none single_row_def apply_transition_def new_operation_def transition_operation_def change_for_def
          split: if_splits option.splits prod.splits)
    qed
    moreover have "\<not> wr_replayed out" "wr_operationId out = opId"
      using tt c by (auto simp: transitionTransaction_def command_for_def Let_def bindE_Inr_iff stable_id_iff
          read none single_row_def split: if_splits option.splits prod.splits)
    ultimately show ?thesis using False uuid c by auto
  qed
qed

lemma weekRepoE_iff: "weekRepoE m = Inr x \<longleftrightarrow> m = Inr x"
  by (cases m) (simp_all add: weekRepoE_def)

lemma weekPolicyE_iff: "weekPolicyE m = Inr x \<longleftrightarrow> m = Inr x"
  by (cases m) (simp_all add: weekPolicyE_def)

definition advance_week ::
  "'o week_env \<Rightarrow> string \<Rightarrow> week_store \<Rightarrow> 'o week_input \<Rightarrow> week_row \<Rightarrow> week_failure + week_store \<times> week_outcome" where
  "advance_week env opId st inp w =
     bindE (weekPolicyE (derive_for w (win_nowMs inp))) (\<lambda>t.
     weekRepoE (transitionWeek env st (command_for w opId (Some (change_for w t)) (win_occurrence inp))))"

lemma advance_eq:
  "advance env fresh st inp =
     bindE (requireWeek st inp) (\<lambda>w. case given_operation inp of
       None \<Rightarrow> advance_week env fresh st inp w
     | Some opId \<Rightarrow>
         bindE (weekRepoE (readTransitionOperation st (week_ids w) opId)) (\<lambda>prior. case prior of
           None \<Rightarrow> advance_week env opId st inp w
         | Some wo \<Rightarrow>
             if win_occurrence inp \<noteq> None then weekRepoE (transitionWeek env st (command_for w opId None (win_occurrence inp)))
             else Inr (st, \<lparr>wr_replayed = True, wr_operationId = wo_id wo, wr_matchupChanges = None,
               wr_week = Some w\<rparr>)))"
proof -
  have "advance_week env opId st inp w =
      bindE (weekPolicyE (deriveNextWeekTransition (JObj
        ((''status'', JStr (wk_status w)) # (''nowMs'', win_nowMs inp) # boundary_fields w)))) (\<lambda>t.
      weekRepoE (transitionWeek env st \<lparr>wc_leagueId = wk_league_id w, wc_seasonId = wk_season_id w,
        wc_weekId = wk_id w, wc_operationId = opId, wc_change =
          Some \<lparr>wx_expectedVersion = wk_version w, wx_fromStatus = wt_fromStatus t,
            wx_toStatus = wt_toStatus t, wx_matchupStatus = wt_matchupStatus t,
            wx_effectiveAtMs = wt_effectiveAtMs t, wx_nowMs = wt_observedAtMs t\<rparr>,
        wc_occurrence = win_occurrence inp\<rparr>))" for opId w
    by (simp add: advance_week_def derive_for_def command_for_def change_for_def)
  note week = this [symmetric]
  show ?thesis
    unfolding advance_def Let_def
    by (rule bindE_cong [OF refl], cases "given_operation inp"; simp add: week command_for_def cong: if_cong)
qed

lemma requireWeek_iff:
  "requireWeek st inp = Inr w \<longleftrightarrow> readWeek st (win_leagueId inp) (win_seasonId inp) (win_weekId inp) = Inr (Some w)"
  by (auto simp: requireWeek_def bindE_Inr_iff weekRepoE_iff split: option.splits)

lemma readTransitionOperation_None:
  "readTransitionOperation st ids opId = Inr None \<Longrightarrow> \<not> (\<exists>wo \<in> set (ws_operations st). wo_id wo = opId)"
proof -
  assume "readTransitionOperation st ids opId = Inr None"
  then have "filter (\<lambda>wo. wo_id wo = opId) (ws_operations st) = []"
    by (auto simp: readTransitionOperation_def bindE_Inr_iff stable_id_iff single_row_iff split: option.splits prod.splits if_splits)
  then show ?thesis by (auto simp: filter_empty_conv)
qed

lemma advance_cases:
  assumes "advance env fresh st inp = Inr (st', out)"
  obtains (replay) "st' = st" "wr_replayed out"
  | (moved) w t opId where "readWeek st (win_leagueId inp) (win_seasonId inp) (win_weekId inp) = Inr (Some w)"
      "derive_for w (win_nowMs inp) = Inr t" "is_uuid opId" "\<forall>wo \<in> set (ws_operations st). wo_id wo \<noteq> opId"
      "st' = apply_transition st w t opId" "\<not> wr_replayed out" "wr_operationId out = opId"
      "given_operation inp = None \<or> given_operation inp = Some opId"
proof -
  obtain w where w: "readWeek st (win_leagueId inp) (win_seasonId inp) (win_weekId inp) = Inr (Some w)"
    using assms by (auto simp: advance_eq bindE_Inr_iff requireWeek_iff)
  have step: thesis if go: "advance_week env opId st inp w = Inr (st', out)"
    and given: "given_operation inp = None \<or> given_operation inp = Some opId" for opId
  proof -
    obtain t where t: "derive_for w (win_nowMs inp) = Inr t"
      "transitionWeek env st (command_for w opId (Some (change_for w t)) (win_occurrence inp)) = Inr (st', out)"
      using go by (auto simp: advance_week_def bindE_Inr_iff weekPolicyE_iff weekRepoE_iff)
    note s = transitionWeek_success [OF t(2) w]
    show thesis
    proof (cases "\<exists>wo \<in> set (ws_operations st). wo_id wo = opId")
      case True
      with s show thesis by (intro replay) simp_all
    next
      case False
      with s have "st' = apply_transition st w t opId" "\<not> wr_replayed out" "wr_operationId out = opId" "is_uuid opId"
        by auto
      then show thesis using False w t(1) given by (intro moved) auto
    qed
  qed
  show thesis
  proof (cases "given_operation inp")
    case None
    then have "advance_week env fresh st inp w = Inr (st', out)"
      using assms w by (auto simp: advance_eq bindE_Inr_iff requireWeek_iff)
    then show thesis using None by (intro step) simp_all
  next
    case (Some opId)
    then obtain prior where prior: "readTransitionOperation st (week_ids w) opId = Inr prior"
      "(case prior of None \<Rightarrow> advance_week env opId st inp w
         | Some wo \<Rightarrow> if win_occurrence inp \<noteq> None
             then weekRepoE (transitionWeek env st (command_for w opId None (win_occurrence inp)))
             else Inr (st, \<lparr>wr_replayed = True, wr_operationId = wo_id wo, wr_matchupChanges = None,
               wr_week = Some w\<rparr>)) = Inr (st', out)"
      using assms w by (auto simp: advance_eq bindE_Inr_iff requireWeek_iff weekRepoE_iff simp del: not_None_eq)
    show thesis
    proof (cases prior)
      case None
      then show thesis using prior Some by (intro step) simp_all
    next
      case found: (Some wo)
      show thesis
      proof (cases "win_occurrence inp = None")
        case True
        then show thesis using prior found by (intro replay) auto
      next
        case False
        then have "transitionWeek env st (command_for w opId None (win_occurrence inp)) = Inr (st', out)"
          using prior found by (simp add: weekRepoE_iff)
        from transitionWeek_success [OF this w] show thesis
          by (intro replay) (auto split: if_splits)
      qed
    qed
  qed
qed

section \<open>The history of a week\<close>

definition stage :: "nat \<Rightarrow> string" where
  "stage k = week_statuses ! k"

definition matchup_stage :: "nat \<Rightarrow> string" where
  "matchup_stage k = [''scheduled'', ''scheduled'', ''live'', ''awaiting_data''] ! k"

definition stage_at :: "week_row \<Rightarrow> nat \<Rightarrow> int" where
  "stage_at w k = [wk_baseline_at_ms w, wk_locks_at_ms w, wk_ends_at_ms w] ! k"

definition transitions :: "week_store \<Rightarrow> week_row \<Rightarrow> week_operation list" where
  "transitions st w = filter (operation_matches (week_ids w)) (ws_operations st)"

definition history_ok :: "week_row \<Rightarrow> week_operation list \<Rightarrow> bool" where
  "history_ok w h \<longleftrightarrow> length h \<le> 3 \<and> wk_status w = stage (length h) \<and> wk_version w = 1 + int (length h) \<and>
     (\<forall>k < length h. wo_fromStatus (h ! k) = stage k \<and> wo_toStatus (h ! k) = stage (k + 1) \<and>
       wo_expectedVersion (h ! k) = 1 + int k \<and> wo_effectiveAtMs (h ! k) = stage_at w k \<and>
       stage_at w k \<le> wo_started_at_ms (h ! k))"

definition week_store_ok :: "week_store \<Rightarrow> bool" where
  "week_store_ok st \<longleftrightarrow> distinct (map wk_id (ws_weeks st)) \<and> distinct (map wo_id (ws_operations st)) \<and>
     (\<forall>w \<in> set (ws_weeks st). history_ok w (transitions st w)) \<and>
     (\<forall>w \<in> set (ws_weeks st). \<forall>m \<in> set (ws_matchups st).
       (wm_league_id m, wm_season_id m, wm_week_id m) = week_ids w \<longrightarrow>
       wm_status m = matchup_stage (length (transitions st w)))"

lemma rule_stage:
  assumes "k \<le> 3"
  shows "week_rule (week_bounds w) (stage k) = Some (a, s, m) \<longleftrightarrow>
    k < 3 \<and> a = stage_at w k \<and> s = stage (k + 1) \<and> m = (if k = 0 then None else Some (matchup_stage (k + 1)))"
proof -
  consider "k = 0" | "k = 1" | "k = 2" | "k = 3" using assms by linarith
  then show ?thesis
    by cases (auto simp: week_rule_def stage_def week_statuses_def stage_at_def week_bounds_def matchup_stage_def)
qed

lemma week_ids_moved [simp]: "week_ids (moved_week w t) = week_ids w" "stage_at (moved_week w t) = stage_at w"
  by (simp_all add: moved_week_def stage_at_def fun_eq_iff)

lemma moved_week_fields [simp]:
  "wk_id (moved_week w t) = wk_id w" "wk_league_id (moved_week w t) = wk_league_id w"
  "wk_season_id (moved_week w t) = wk_season_id w"
  by (simp_all add: moved_week_def)

lemma move_matchups_member:
  assumes "m' \<in> set (fst (move_matchups scope (change_for w t) ms))"
  obtains m where "m \<in> set ms"
    "(wm_league_id m', wm_season_id m', wm_week_id m') = (wm_league_id m, wm_season_id m, wm_week_id m)"
    "wm_status m' = (case wt_matchupStatus t of None \<Rightarrow> wm_status m | Some s \<Rightarrow>
       if scope = (wm_league_id m, wm_season_id m, wm_week_id m) \<and>
          wm_status m = (if wt_fromStatus t = ''baseline_ready'' then ''scheduled'' else ''live'')
       then s else wm_status m)"
proof (cases "wt_matchupStatus t")
  case None
  then show thesis using assms that [of m'] by (simp add: move_matchups_def)
next
  case (Some s)
  then have "m' \<in> (\<lambda>m. if scope = (wm_league_id m, wm_season_id m, wm_week_id m) \<and>
        wm_status m = (if wt_fromStatus t = ''baseline_ready'' then ''scheduled'' else ''live'')
      then m\<lparr>wm_status := s, wm_updated_at_ms := wt_observedAtMs t, wm_version := wm_version m + 1\<rparr> else m) ` set ms"
    using assms by (simp add: move_matchups_def updateMatchupsStatement_def Let_def)
  then show thesis using Some by (auto intro: that split: if_splits)
qed

lemma apply_transition_fields:
  "ws_weeks (apply_transition st w t opId) = map (\<lambda>r. if r = w then moved_week w t else r) (ws_weeks st)"
  "ws_matchups (apply_transition st w t opId) = fst (move_matchups (week_ids w) (change_for w t) (ws_matchups st))"
  "ws_operations (apply_transition st w t opId) = ws_operations st @
     [transition_operation w t opId (snd (move_matchups (week_ids w) (change_for w t) (ws_matchups st)))]"
  by (simp_all add: apply_transition_def split: prod.splits)

lemma operation_matches_new:
  "operation_matches ids (transition_operation w t opId n) \<longleftrightarrow> ids = week_ids w"
  by (auto simp: operation_matches_def transition_operation_def)

lemma transitions_apply:
  "transitions (apply_transition st w t opId) r =
     transitions st r @ (if week_ids r = week_ids w
       then [transition_operation w t opId (snd (move_matchups (week_ids w) (change_for w t) (ws_matchups st)))] else [])"
  by (simp add: transitions_def apply_transition_fields operation_matches_new)

lemma moved_transitions [simp]: "transitions st (moved_week w t) = transitions st w"
  by (simp add: transitions_def)

lemma history_ok_moved:
  assumes "history_ok w h" "derive_for w now = Inr t"
  shows "length h < 3 \<and> history_ok (moved_week w t) (h @ [transition_operation w t opId n]) \<and>
    wt_toStatus t = stage (length h + 1) \<and>
    wt_matchupStatus t = (if length h = 0 then None else Some (matchup_stage (length h + 1)))"
proof -
  let ?k = "length h"
  have h: "?k \<le> 3" "wk_status w = stage ?k" "wk_version w = 1 + int ?k"
    using assms(1) by (simp_all add: history_ok_def)
  from assms(2) obtain obs a s m where t: "week_rule (week_bounds w) (stage ?k) = Some (a, s, m)" "a \<le> obs"
    "t = \<lparr>wt_fromStatus = wk_status w, wt_toStatus = s, wt_matchupStatus = m, wt_effectiveAtMs = a, wt_observedAtMs = obs\<rparr>"
    unfolding derive_for_iff h(2) by blast
  note r = t(1) [unfolded rule_stage [OF h(1)]]
  have "history_ok (moved_week w t) (h @ [transition_operation w t opId n])"
    using assms(1) r t(2) unfolding history_ok_def t(3)
    by (auto simp: moved_week_def transition_operation_def stage_at_def nth_append less_Suc_eq h(2))
  then show ?thesis using r t(3) by simp
qed

lemma week_ids_inj:
  "week_store_ok st \<Longrightarrow> w \<in> set (ws_weeks st) \<Longrightarrow> r \<in> set (ws_weeks st) \<Longrightarrow> week_ids r = week_ids w \<Longrightarrow> r = w"
  by (auto simp: week_store_ok_def distinct_map inj_on_def)

lemma readWeek_member: "readWeek st l s i = Inr (Some w) \<Longrightarrow> w \<in> set (ws_weeks st)"
proof -
  assume "readWeek st l s i = Inr (Some w)"
  then have "w \<in> set (filter (in_week_scope (week_ids w)) (ws_weeks st))" by (simp add: readWeek_Some_iff)
  then show ?thesis by simp
qed

lemma week_store_ok_apply:
  assumes ok: "week_store_ok st" and w: "w \<in> set (ws_weeks st)" and t: "derive_for w now = Inr t"
    and fresh: "\<forall>wo \<in> set (ws_operations st). wo_id wo \<noteq> opId"
  shows "week_store_ok (apply_transition st w t opId)"
proof -
  let ?st = "apply_transition st w t opId" and ?h = "transitions st w"
  have "history_ok w ?h" using ok w by (simp add: week_store_ok_def)
  note moved = history_ok_moved [OF this t]
  have next_stage: "length ?h < 3"
    "wt_matchupStatus t = (if length ?h = 0 then None else Some (matchup_stage (length ?h + 1)))"
    using moved [of opId 0] by blast+
  have ids: "map wk_id (ws_weeks ?st) = map wk_id (ws_weeks st)"
    by (auto simp: apply_transition_fields moved_week_def)
  have member: "(\<exists>r \<in> set (ws_weeks st). r \<noteq> w \<and> r' = r) \<or> r' = moved_week w t" if "r' \<in> set (ws_weeks ?st)" for r'
    using that by (auto simp: apply_transition_fields split: if_splits)
  have others: "transitions ?st r = transitions st r" if "r \<in> set (ws_weeks st)" "r \<noteq> w" for r
    using that week_ids_inj [OF ok w] by (auto simp: transitions_apply)
  have own: "\<exists>n. transitions ?st (moved_week w t) = ?h @ [transition_operation w t opId n]"
    by (auto simp: transitions_apply)
  have histories: "history_ok r' (transitions ?st r')" if "r' \<in> set (ws_weeks ?st)" for r'
    using member [OF that] own moved others ok by (auto simp: week_store_ok_def)
  have matchups: "wm_status m' = matchup_stage (length (transitions ?st r'))"
    if r': "r' \<in> set (ws_weeks ?st)" and m': "m' \<in> set (ws_matchups ?st)"
    and same: "(wm_league_id m', wm_season_id m', wm_week_id m') = week_ids r'" for r' m'
  proof -
    obtain m where m: "m \<in> set (ws_matchups st)"
      "(wm_league_id m', wm_season_id m', wm_week_id m') = (wm_league_id m, wm_season_id m, wm_week_id m)"
      "wm_status m' = (case wt_matchupStatus t of None \<Rightarrow> wm_status m | Some s \<Rightarrow>
         if week_ids w = (wm_league_id m, wm_season_id m, wm_week_id m) \<and>
            wm_status m = (if wt_fromStatus t = ''baseline_ready'' then ''scheduled'' else ''live'')
         then s else wm_status m)"
      using m' unfolding apply_transition_fields by (rule move_matchups_member)
    have old: "wm_status m = matchup_stage (length (transitions st r))"
      if "r \<in> set (ws_weeks st)" "(wm_league_id m, wm_season_id m, wm_week_id m) = week_ids r" for r
      using ok m(1) that by (simp add: week_store_ok_def)
    show ?thesis
    proof (cases "week_ids r' = week_ids w")
      case False
      then obtain r where r: "r \<in> set (ws_weeks st)" "r \<noteq> w" "r' = r" using member [OF r'] by auto
      have "wm_status m' = wm_status m" using m(2,3) same False by (auto split: option.splits)
      then show ?thesis using old [OF r(1)] m(2) same others r by simp
    next
      case True
      then have r'_w: "r' = moved_week w t" using member [OF r'] week_ids_inj [OF ok w] by blast
      then have len: "length (transitions ?st r') = length ?h + 1" using own by auto
      have was: "wm_status m = matchup_stage (length ?h)" using old [OF w] m(2) same True by simp
      have from_stage: "wt_fromStatus t = stage (length ?h)"
        using derive_for_from [OF t] ok w by (auto simp: week_store_ok_def history_ok_def)
      consider "length ?h = 0" | "length ?h = 1" | "length ?h = 2" using next_stage(1) by linarith
      then show ?thesis
        using m(2,3) same True was next_stage(2) from_stage
        by cases (auto simp: len matchup_stage_def stage_def week_statuses_def)
    qed
  qed
  have "distinct (map wo_id (ws_operations ?st))"
    using ok fresh by (auto simp: week_store_ok_def apply_transition_fields transition_operation_def)
  then show ?thesis
    using ok histories matchups unfolding week_store_ok_def [of ?st] ids by (simp add: week_store_ok_def)
qed

section \<open>Reachable stores\<close>

text \<open>The season's schedule is published: every week is scheduled and none has moved yet.\<close>

definition weeks_scheduled :: "week_store \<Rightarrow> bool" where
  "weeks_scheduled st \<longleftrightarrow> distinct (map wk_id (ws_weeks st)) \<and> distinct (map wo_id (ws_operations st)) \<and>
     (\<forall>w \<in> set (ws_weeks st). wk_status w = ''scheduled'' \<and> wk_version w = 1 \<and> transitions st w = []) \<and>
     (\<forall>m \<in> set (ws_matchups st). wm_status m = ''scheduled'')"

inductive week_step :: "'o week_env set \<Rightarrow> week_store \<Rightarrow> week_store \<Rightarrow> bool" for envs where
  advanced: "env \<in> envs \<Longrightarrow> advance env fresh st inp = Inr (st', out) \<Longrightarrow> week_step envs st st'"

inductive week_reachable :: "'o week_env set \<Rightarrow> week_store \<Rightarrow> bool" for envs where
  published: "weeks_scheduled st \<Longrightarrow> week_reachable envs st"
| moved: "week_reachable envs st \<Longrightarrow> week_step envs st st' \<Longrightarrow> week_reachable envs st'"

lemma weeks_scheduled_ok: "weeks_scheduled st \<Longrightarrow> week_store_ok st"
  by (auto simp: weeks_scheduled_def week_store_ok_def history_ok_def stage_def week_statuses_def matchup_stage_def)

lemma week_step_ok: "week_step envs st st' \<Longrightarrow> week_store_ok st \<Longrightarrow> week_store_ok st'"
proof (induction rule: week_step.induct)
  case (advanced env fresh st inp st' out)
  from advanced(2) show ?case
  proof (cases rule: advance_cases)
    case replay
    then show ?thesis using advanced(3) by simp
  next
    case (moved w t opId)
    then show ?thesis
      using week_store_ok_apply [OF advanced(3) readWeek_member [OF moved(1)] moved(2,4)] by simp
  qed
qed

lemma week_reachable_ok: "week_reachable envs st \<Longrightarrow> week_store_ok st"
  by (induction rule: week_reachable.induct) (auto intro: weeks_scheduled_ok week_step_ok)

section \<open>What the week promises\<close>

lemma week_history_facts:
  assumes "week_store_ok st" "w \<in> set (ws_weeks st)"
  shows "length (transitions st w) \<le> 3 \<and> wk_status w = stage (length (transitions st w)) \<and>
    wk_version w = 1 + int (length (transitions st w)) \<and>
    (\<forall>k < length (transitions st w). wo_toStatus (transitions st w ! k) = stage (k + 1) \<and>
       wo_expectedVersion (transitions st w ! k) = 1 + int k \<and>
       wo_effectiveAtMs (transitions st w ! k) = stage_at w k \<and>
       stage_at w k \<le> wo_started_at_ms (transitions st w ! k)) \<and>
    (\<forall>m \<in> set (ws_matchups st). (wm_league_id m, wm_season_id m, wm_week_id m) = week_ids w \<longrightarrow>
       wm_status m = matchup_stage (length (transitions st w)))"
  using assms unfolding week_store_ok_def history_ok_def by simp

text \<open>
  C35. In every store that calls of the service reach from a published schedule, each week has made
  at most three transitions, they are recorded in order with the versions they expected and never
  before their boundary, the week's status and version say how many there were, and its matchups
  follow: scheduled until the lock, live until the end, then awaiting data.
\<close>

theorem week_history_invariant:
  assumes "week_reachable envs st" "w \<in> set (ws_weeks st)"
  shows "length (transitions st w) \<le> 3 \<and> wk_status w = stage (length (transitions st w)) \<and>
    wk_version w = 1 + int (length (transitions st w)) \<and>
    (\<forall>k < length (transitions st w). wo_toStatus (transitions st w ! k) = stage (k + 1) \<and>
       wo_expectedVersion (transitions st w ! k) = 1 + int k \<and>
       wo_effectiveAtMs (transitions st w ! k) = stage_at w k \<and>
       stage_at w k \<le> wo_started_at_ms (transitions st w ! k)) \<and>
    (\<forall>m \<in> set (ws_matchups st). (wm_league_id m, wm_season_id m, wm_week_id m) = week_ids w \<longrightarrow>
       wm_status m = matchup_stage (length (transitions st w)))"
  by (rule week_history_facts [OF week_reachable_ok [OF assms(1)] assms(2)])

lemma filter_eq_single: "distinct xs \<Longrightarrow> x \<in> set xs \<Longrightarrow> filter (\<lambda>r. r = x) xs = [x]"
  by (induction xs) (auto simp: filter_empty_conv)

lemma readWeek_ok:
  assumes "week_store_ok st" "w \<in> set (ws_weeks st)" "is_uuid (wk_league_id w)" "is_uuid (wk_season_id w)" "is_uuid (wk_id w)"
  shows "readWeek st (JStr (wk_league_id w)) (JStr (wk_season_id w)) (JStr (wk_id w)) = Inr (Some w)"
proof -
  have d: "distinct (ws_weeks st)" using assms(1) by (simp add: week_store_ok_def distinct_map)
  have "filter (in_week_scope (week_ids w)) (ws_weeks st) = filter (\<lambda>r. r = w) (ws_weeks st)"
    by (rule filter_cong [OF refl]) (use week_ids_inj [OF assms(1,2)] in \<open>auto simp: in_week_scope_def\<close>)
  also have "\<dots> = [w]" using d assms(2) by (rule filter_eq_single)
  finally show ?thesis using assms by (simp add: readWeek_Some_iff)
qed

text \<open>
  C38. Once a week is live its rosters are closed to managers: at no time from the moment the
  transition to live was made does the service report an open roster.
\<close>

theorem live_week_rosters_closed:
  assumes "week_reachable (envs :: 'o week_env set) st" "w \<in> set (ws_weeks st)" "wk_status w = ''live'' \<or> wk_status w = ''awaiting_data''"
  shows "\<exists>wo \<in> set (transitions st w). wo_toStatus wo = ''live'' \<and>
    \<not> (\<exists>(inp :: 'o week_input) locks n. win_nowMs inp = JInt n \<and> wo_started_at_ms wo \<le> n \<and> win_weekId inp = JStr (wk_id w) \<and>
        rosterWriteState st inp = Inr (wk_id w, locks, True))"
proof -
  note ok = week_reachable_ok [OF assms(1)]
  define h where "h = transitions st w"
  have h: "length h \<le> 3" "wk_status w = stage (length h)" "\<And>k. k < length h \<Longrightarrow> wo_toStatus (h ! k) = stage (k + 1)"
    "\<And>k. k < length h \<Longrightarrow> stage_at w k \<le> wo_started_at_ms (h ! k)"
    using week_history_facts [OF ok assms(2)] by (auto simp: h_def)
  have "length h \<noteq> 0 \<and> length h \<noteq> 1" using assms(3) h(2) by (auto simp: stage_def week_statuses_def)
  then have len: "1 < length h" by linarith
  then have locks: "wk_locks_at_ms w \<le> wo_started_at_ms (h ! 1)" using h(4) [OF len] by (simp add: stage_at_def)
  have "wo_toStatus (h ! 1) = ''live''" using h(3) [OF len] by (simp add: stage_def week_statuses_def)
  moreover have "\<not> (\<exists>(inp :: 'o week_input) locks n. win_nowMs inp = JInt n \<and> wo_started_at_ms (h ! 1) \<le> n \<and> win_weekId inp = JStr (wk_id w) \<and>
        rosterWriteState st inp = Inr (wk_id w, locks, True))"
  proof clarify
    fix inp :: "'o week_input" and locks' n
    assume n: "win_nowMs inp = JInt n" "wo_started_at_ms (h ! 1) \<le> n" "win_weekId inp = JStr (wk_id w)"
      and is_open: "rosterWriteState st inp = Inr (wk_id w, locks', True)"
    then obtain r where r: "readWeek st (win_leagueId inp) (win_seasonId inp) (win_weekId inp) = Inr (Some r)"
      "n < wk_locks_at_ms r" "wk_id r = wk_id w"
      by (auto simp: rosterWriteState_def bindE_Inr_iff requireWeek_iff weekPolicyE_iff isManagerRosterWriteOpen_def
          safe_from_iff)
    then have "r = w"
      using readWeek_member [OF r(1)] assms(2) ok by (auto simp: week_store_ok_def distinct_map dest: inj_onD)
    then show False using r(2) n(2) locks by simp
  qed
  ultimately show ?thesis using len unfolding h_def by (metis nth_mem)
qed

lemma new_operation_command:
  "new_operation \<lparr>wc_leagueId = wk_league_id w, wc_seasonId = wk_season_id w, wc_weekId = wk_id w,
     wc_operationId = opId, wc_change = c, wc_occurrence = occurrence\<rparr> (change_for w t) n =
   transition_operation w t opId n"
  by (simp add: new_operation_def transition_operation_def)

lemma derive_for_stage:
  assumes "bounds_ok w" "wk_status w = stage k" "k \<le> 3" "safe n" "0 \<le> n"
  shows "derive_for w (JInt n) =
    (if k = 3 then Inl WeekTransitionTerminal
     else if n < stage_at w k then Inl WeekTransitionEarly
     else Inr \<lparr>wt_fromStatus = stage k, wt_toStatus = stage (k + 1),
       wt_matchupStatus = (if k = 0 then None else Some (matchup_stage (k + 1))),
       wt_effectiveAtMs = stage_at w k, wt_observedAtMs = n\<rparr>)"
proof -
  let ?v = "JObj ((''status'', JStr (wk_status w)) # (''nowMs'', JInt n) # boundary_fields w)"
  have b: "validateWeekBoundaries ?v = Inr (week_bounds w)"
    using week_boundaries_row [of ?v w "week_bounds w"] assms(1) by (simp add: boundary_fields_def)
  have status: "stage k \<in> set week_statuses"
    using assms(3) unfolding stage_def by (intro nth_mem) (simp add: week_statuses_def)
  have now: "week_timestamp (JInt n) = Inr n" using assms(4,5) by (simp add: safe_from_iff)
  have "derive_for w (JInt n) = (case week_rule (week_bounds w) (stage k) of
      None \<Rightarrow> Inl WeekTransitionTerminal
    | Some (atMs, toStatus, matchupStatus) \<Rightarrow>
        if n < atMs then Inl WeekTransitionEarly
        else Inr \<lparr>wt_fromStatus = stage k, wt_toStatus = toStatus, wt_matchupStatus = matchupStatus,
          wt_effectiveAtMs = atMs, wt_observedAtMs = n\<rparr>)"
    using b status now by (simp add: derive_for_def deriveNextWeekTransition_def assms(2))
  also have "week_rule (week_bounds w) (stage k) = (if k = 3 then None
      else Some (stage_at w k, stage (k + 1), if k = 0 then None else Some (matchup_stage (k + 1))))"
    using rule_stage [OF assms(3), of w] assms(3) by (cases "week_rule (week_bounds w) (stage k)") auto
  finally show ?thesis by simp
qed


section \<open>Sending a transition again\<close>

definition week_later :: "'o week_env set \<Rightarrow> week_store \<Rightarrow> week_store \<Rightarrow> bool" where
  "week_later envs = (week_step envs)\<^sup>*\<^sup>*"

lemma week_step_keeps:
  assumes "week_step envs st st'"
  shows "set (ws_operations st) \<subseteq> set (ws_operations st') \<and> week_ids ` set (ws_weeks st) \<subseteq> week_ids ` set (ws_weeks st')"
  using assms
proof cases
  case (advanced env fresh inp out)
  from advanced(2) show ?thesis
  proof (cases rule: advance_cases)
    case (moved w t opId)
    have "week_ids ` set (ws_weeks st) \<subseteq> week_ids ` set (ws_weeks st')"
    proof
      fix i assume "i \<in> week_ids ` set (ws_weeks st)"
      then obtain r where "r \<in> set (ws_weeks st)" "i = week_ids r" by blast
      then have "(if r = w then moved_week w t else r) \<in> set (ws_weeks st')"
        "i = week_ids (if r = w then moved_week w t else r)"
        by (auto simp: moved(5) apply_transition_fields)
      then show "i \<in> week_ids ` set (ws_weeks st')" by blast
    qed
    then show ?thesis by (auto simp: moved(5) apply_transition_fields)
  qed simp
qed

lemma week_later_keeps:
  assumes "week_later envs st st'" "week_reachable envs st"
  shows "set (ws_operations st) \<subseteq> set (ws_operations st') \<and>
    week_ids ` set (ws_weeks st) \<subseteq> week_ids ` set (ws_weeks st') \<and> week_reachable envs st'"
  using assms(1) unfolding week_later_def
proof (induction rule: rtranclp_induct)
  case base
  then show ?case using assms(2) by simp
next
  case (step y z)
  have "week_reachable envs z" using step(2,3) by (auto intro: week_reachable.moved)
  then show ?case using step(3) week_step_keeps [OF step(2)] by (meson order_trans)
qed


section \<open>One week\<close>

definition sample_week :: week_row where
  "sample_week = \<lparr>wk_id = sample_id (CHR ''1''), wk_league_id = sample_id (CHR ''2''),
     wk_season_id = sample_id (CHR ''3''), wk_starts_at_ms = 100, wk_baseline_at_ms = 100,
     wk_locks_at_ms = 200, wk_ends_at_ms = 300, wk_rolls_over_at_ms = 400, wk_status = ''scheduled'',
     wk_updated_at_ms = 0, wk_version = 1\<rparr>"

definition sample_matchup :: week_matchup where
  "sample_matchup = \<lparr>wm_id = sample_id (CHR ''4''), wm_league_id = sample_id (CHR ''2''),
     wm_season_id = sample_id (CHR ''3''), wm_week_id = sample_id (CHR ''1''), wm_status = ''scheduled'',
     wm_updated_at_ms = 0, wm_version = 1\<rparr>"

definition sample_store :: week_store where
  "sample_store = \<lparr>ws_weeks = [sample_week], ws_matchups = [sample_matchup], ws_operations = []\<rparr>"

definition sample_env :: "nat week_env" where
  "sample_env = \<lparr>we_guard = None, we_beforeCommit = (\<lambda>_. None), we_accepts = (\<lambda>_. True)\<rparr>"

definition sample_input :: "int \<Rightarrow> string option \<Rightarrow> nat week_input" where
  "sample_input n opId = \<lparr>win_leagueId = JStr (wk_league_id sample_week), win_seasonId = JStr (wk_season_id sample_week),
     win_weekId = JStr (wk_id sample_week), win_nowMs = JInt n, win_operationId = opId, win_occurrence = None\<rparr>"

definition advance_at :: "int \<Rightarrow> char \<Rightarrow> week_store \<Rightarrow> week_store" where
  "advance_at n c st = (case advance sample_env (sample_id c) st (sample_input n (Some (sample_id c))) of
     Inr (st', _) \<Rightarrow> st' | Inl _ \<Rightarrow> st)"

lemmas sample_week_defs = sample_store_def sample_week_def sample_matchup_def sample_env_def sample_input_def

lemma sample_published: "week_reachable {sample_env} sample_store"
  by (rule week_reachable.published)
    (simp add: weeks_scheduled_def sample_store_def sample_week_def sample_matchup_def transitions_def)

lemma advance_at_reachable:
  "week_reachable {sample_env} st \<Longrightarrow> week_reachable {sample_env} (advance_at n c st)"
proof -
  assume st: "week_reachable {sample_env} st"
  show ?thesis
  proof (cases "advance sample_env (sample_id c) st (sample_input n (Some (sample_id c)))")
    case (Inr r)
    then obtain st' out where "advance sample_env (sample_id c) st (sample_input n (Some (sample_id c))) = Inr (st', out)"
      by (cases r) auto
    then show ?thesis
      using st by (auto simp: advance_at_def intro: week_reachable.moved week_step.advanced)
  qed (simp add: st advance_at_def)
qed

definition sample_store_live :: week_store where
  "sample_store_live = advance_at 250 (CHR ''6'') (advance_at 150 (CHR ''5'') sample_store)"

lemma sample_live: "week_reachable {sample_env} sample_store_live"
  unfolding sample_store_live_def by (intro advance_at_reachable sample_published)

lemma sample_live_week: "ws_weeks sample_store_live = [sample_week \<lparr>wk_status := ''live'', wk_updated_at_ms := 250, wk_version := 3\<rparr>]"
  by code_simp

theorem week_history_invariant_witness:
  "sample_week \<lparr>wk_status := ''live'', wk_updated_at_ms := 250, wk_version := 3\<rparr> \<in> set (ws_weeks sample_store_live) \<and>
   length (transitions sample_store_live (sample_week \<lparr>wk_status := ''live'', wk_updated_at_ms := 250, wk_version := 3\<rparr>)) = 2"
proof -
  let ?w = "sample_week \<lparr>wk_status := ''live'', wk_updated_at_ms := 250, wk_version := 3\<rparr>"
  have w: "?w \<in> set (ws_weeks sample_store_live)" by (simp add: sample_live_week)
  note facts = week_history_invariant [OF sample_live w]
  then have "wk_version ?w = 1 + int (length (transitions sample_store_live ?w))" by blast
  with w show ?thesis by simp
qed

theorem live_week_rosters_closed_witness:
  "\<exists>wo \<in> set (transitions sample_store_live (sample_week \<lparr>wk_status := ''live'', wk_updated_at_ms := 250, wk_version := 3\<rparr>)).
     wo_toStatus wo = ''live''"
  using live_week_rosters_closed [OF sample_live, of "sample_week \<lparr>wk_status := ''live'', wk_updated_at_ms := 250, wk_version := 3\<rparr>"]
  by (auto simp: sample_live_week)

lemma sample_uuids:
  "is_uuid (wk_league_id sample_week)" "is_uuid (wk_season_id sample_week)" "is_uuid (wk_id sample_week)"
  by (simp_all add: sample_week_def is_uuid_sample_id hex_char_def)



end
