(* ===== verification/MatchupStandings.thy ===== *)
theory MatchupStandings
  imports Ordering JsNumber
begin

text \<open>
  \<^verbatim>\<open>src/src/domain/matchups/matchupStandingsPolicy.js\<close>: the standings of a season from its
  finalized results. The rows live in a \<^verbatim>\<open>Map\<close> from team identifiers to mutable objects; here
  they are the list of its values in insertion order. \<open>collate\<close> stands for
  \<^verbatim>\<open>String.prototype.localeCompare\<close> on names and identifiers, whose order belongs to the
  runtime's locale; the code relies on it being a consistent comparison function.
\<close>

section \<open>The code\<close>

datatype standings_code = StandingsInputInvalid | StandingsParticipantMissing

record standing =
  st_teamId :: string
  st_teamDisplayName :: string
  st_gamesPlayed :: int
  st_wins :: int
  st_losses :: int
  st_ties :: int
  st_standingsPoints :: int
  st_pointsPercentageHundredths :: int
  st_fantasyPointsFor :: int
  st_fantasyPointsAgainst :: int
  st_fantasyPointsDifferential :: int
  st_rank :: int

definition new_standing :: "string \<Rightarrow> string \<Rightarrow> standing" where
  "new_standing t n =
     \<lparr>st_teamId = t, st_teamDisplayName = n, st_gamesPlayed = 0, st_wins = 0, st_losses = 0,
      st_ties = 0, st_standingsPoints = 0, st_pointsPercentageHundredths = 0,
      st_fantasyPointsFor = 0, st_fantasyPointsAgainst = 0, st_fantasyPointsDifferential = 0,
      st_rank = 0\<rparr>"

definition add_participant :: "standing list \<Rightarrow> jsval \<Rightarrow> standings_code + standing list" where
  "add_participant rows p = (case (fld p ''team_id'', fld p ''team_display_name'') of
     (JStr t, JStr n) \<Rightarrow>
       if length n < 1 \<or> t \<in> set (map st_teamId rows) then Inl StandingsInputInvalid
       else Inr (rows @ [new_standing t n])
   | _ \<Rightarrow> Inl StandingsInputInvalid)"

definition find_row :: "standing list \<Rightarrow> jsval \<Rightarrow> standing option" where
  "find_row rows v = (case v of JStr t \<Rightarrow> find (\<lambda>r. st_teamId r = t) rows | _ \<Rightarrow> None)"

text \<open>What one result adds to the row of a team that scored \<open>own\<close> against \<open>other\<close>.\<close>

definition play :: "int \<Rightarrow> int \<Rightarrow> standing \<Rightarrow> standing" where
  "play own other r =
     (let s = r\<lparr>st_gamesPlayed := st_gamesPlayed r + 1,
                st_fantasyPointsFor := js_add (st_fantasyPointsFor r) own,
                st_fantasyPointsAgainst := js_add (st_fantasyPointsAgainst r) other\<rparr> in
      if own = other then
        s\<lparr>st_ties := st_ties r + 1, st_standingsPoints := st_standingsPoints r + 1\<rparr>
      else if own > other then
        s\<lparr>st_wins := st_wins r + 1, st_standingsPoints := st_standingsPoints r + 2\<rparr>
      else s\<lparr>st_losses := st_losses r + 1\<rparr>)"

definition update_row :: "string \<Rightarrow> (standing \<Rightarrow> standing) \<Rightarrow> standing list \<Rightarrow> standing list" where
  "update_row t f rows = map (\<lambda>r. if st_teamId r = t then f r else r) rows"

definition apply_result :: "standing list \<Rightarrow> jsval \<Rightarrow> standings_code + standing list" where
  "apply_result rows res =
     (case (find_row rows (fld res ''home_team_id''), find_row rows (fld res ''away_team_id'')) of
        (Some home, Some away) \<Rightarrow>
          if st_teamId home = st_teamId away then Inl StandingsParticipantMissing
          else (case (fld res ''home_score_hundredths'', fld res ''away_score_hundredths'') of
            (JInt x, JInt y) \<Rightarrow>
              if safe x \<and> safe y
              then Inr (update_row (st_teamId away) (play y x) (update_row (st_teamId home) (play x y) rows))
              else Inl StandingsInputInvalid
          | _ \<Rightarrow> Inl StandingsInputInvalid)
      | _ \<Rightarrow> Inl StandingsParticipantMissing)"

definition finish_row :: "standing \<Rightarrow> standing" where
  "finish_row r = r\<lparr>
     st_fantasyPointsDifferential := js_add (st_fantasyPointsFor r) (- st_fantasyPointsAgainst r),
     st_pointsPercentageHundredths :=
       (if st_gamesPlayed r = 0 then 0
        else round_div (st_standingsPoints r * 10000) (st_gamesPlayed r * 2))\<rparr>"

text \<open>A difference of two doubles has the sign of the exact difference.\<close>

definition compareStandings :: "(string \<Rightarrow> string \<Rightarrow> int) \<Rightarrow> standing \<Rightarrow> standing \<Rightarrow> int" where
  "compareStandings collate l r =
     cmp_or (st_standingsPoints r - st_standingsPoints l)
    (cmp_or (st_fantasyPointsDifferential r - st_fantasyPointsDifferential l)
    (cmp_or (st_fantasyPointsFor r - st_fantasyPointsFor l)
    (cmp_or (collate (st_teamDisplayName l) (st_teamDisplayName r))
            (collate (st_teamId l) (st_teamId r)))))"

definition tied :: "standing \<Rightarrow> standing \<Rightarrow> bool" where
  "tied p r \<longleftrightarrow> st_standingsPoints p = st_standingsPoints r \<and>
     st_fantasyPointsDifferential p = st_fantasyPointsDifferential r \<and>
     st_fantasyPointsFor p = st_fantasyPointsFor r"

fun assign_ranks :: "standing option \<Rightarrow> int \<Rightarrow> standing list \<Rightarrow> standing list" where
  "assign_ranks prior index [] = []"
| "assign_ranks prior index (row # rest) =
     (let ranked = row\<lparr>st_rank := (case prior of
        Some p \<Rightarrow> if tied p row then st_rank p else index + 1
      | None \<Rightarrow> index + 1)\<rparr> in
      ranked # assign_ranks (Some ranked) (index + 1) rest)"

definition calculateStandings ::
  "(string \<Rightarrow> string \<Rightarrow> int) \<Rightarrow> jsval \<Rightarrow> jsval \<Rightarrow> standings_code + standing list" where
  "calculateStandings collate participants results =
     (case (items participants, items results) of
        (Some ps, Some rs) \<Rightarrow>
          bindE (foldE add_participant [] ps) (\<lambda>rows.
          bindE (foldE apply_result rows rs) (\<lambda>rows.
          Inr (assign_ranks None 0 (js_sort (compareStandings collate) (map finish_row rows)))))
      | _ \<Rightarrow> Inl StandingsInputInvalid)"

section \<open>The table a season's games promise\<close>

record game =
  g_home :: string
  g_away :: string
  g_homeScore :: int
  g_awayScore :: int

fun jstr :: "jsval \<Rightarrow> string" where
  "jstr (JStr s) = s"
| "jstr _ = []"

fun jint :: "jsval \<Rightarrow> int" where
  "jint (JInt n) = n"
| "jint _ = 0"

definition game_of :: "jsval \<Rightarrow> game" where
  "game_of res = \<lparr>g_home = jstr (fld res ''home_team_id''), g_away = jstr (fld res ''away_team_id''),
     g_homeScore = jint (fld res ''home_score_hundredths''),
     g_awayScore = jint (fld res ''away_score_hundredths'')\<rparr>"

definition team_of :: "jsval \<Rightarrow> string \<times> string" where
  "team_of p = (jstr (fld p ''team_id''), jstr (fld p ''team_display_name''))"

definition own_score :: "string \<Rightarrow> game \<Rightarrow> int" where
  "own_score t g = (if g_home g = t then g_homeScore g else g_awayScore g)"

definition other_score :: "string \<Rightarrow> game \<Rightarrow> int" where
  "other_score t g = (if g_home g = t then g_awayScore g else g_homeScore g)"

definition games_of :: "string \<Rightarrow> game list \<Rightarrow> game list" where
  "games_of t gs = filter (\<lambda>g. g_home g = t \<or> g_away g = t) gs"

definition won :: "string \<Rightarrow> game list \<Rightarrow> int" where
  "won t gs = int (length (filter (\<lambda>g. own_score t g > other_score t g) (games_of t gs)))"

definition lost :: "string \<Rightarrow> game list \<Rightarrow> int" where
  "lost t gs = int (length (filter (\<lambda>g. own_score t g < other_score t g) (games_of t gs)))"

definition drawn :: "string \<Rightarrow> game list \<Rightarrow> int" where
  "drawn t gs = int (length (filter (\<lambda>g. own_score t g = other_score t g) (games_of t gs)))"

definition scored :: "string \<Rightarrow> game list \<Rightarrow> int" where
  "scored t gs = sum_list (map (own_score t) (games_of t gs))"

definition conceded :: "string \<Rightarrow> game list \<Rightarrow> int" where
  "conceded t gs = sum_list (map (other_score t) (games_of t gs))"

definition tally :: "game list \<Rightarrow> string \<times> string \<Rightarrow> standing" where
  "tally gs p = (case p of (t, n) \<Rightarrow>
     (new_standing t n)\<lparr>st_gamesPlayed := int (length (games_of t gs)), st_wins := won t gs,
       st_losses := lost t gs, st_ties := drawn t gs,
       st_standingsPoints := 2 * won t gs + drawn t gs,
       st_fantasyPointsFor := scored t gs, st_fantasyPointsAgainst := conceded t gs\<rparr>)"

text \<open>All scores together stay where sums of doubles are exact.\<close>

definition scores_bounded :: "game list \<Rightarrow> bool" where
  "scores_bounded gs \<longleftrightarrow> sum_list (map (\<lambda>g. \<bar>g_homeScore g\<bar> + \<bar>g_awayScore g\<bar>) gs) \<le> max_safe"

section \<open>Loading the participants\<close>

definition participant_ok :: "jsval \<Rightarrow> bool" where
  "participant_ok p \<longleftrightarrow> (\<exists>t n. fld p ''team_id'' = JStr t \<and> fld p ''team_display_name'' = JStr n \<and> n \<noteq> [])"

lemma st_fields_new [simp]:
  "st_teamId (new_standing t n) = t" "st_teamDisplayName (new_standing t n) = n"
  by (simp_all add: new_standing_def)

lemma tally_ids [simp]: "st_teamId (tally gs p) = fst p" "st_teamDisplayName (tally gs p) = snd p"
  by (simp_all add: tally_def split: prod.splits)

lemma add_participant_iff:
  "add_participant rows p = Inr rows' \<longleftrightarrow>
     participant_ok p \<and> fst (team_of p) \<notin> st_teamId ` set rows \<and>
     rows' = rows @ [tally [] (team_of p)]"
proof -
  have "tally [] q = new_standing (fst q) (snd q)" for q
    by (simp add: tally_def games_of_def won_def lost_def drawn_def scored_def conceded_def
        new_standing_def split: prod.splits)
  then show ?thesis
    unfolding add_participant_def participant_ok_def team_of_def
    by (auto split: jsval.splits)
qed

interpretation participants: unique_loader add_participant participant_ok "tally [] \<circ> team_of" st_teamId
  by unfold_locales (simp add: add_participant_iff)

section \<open>Playing the results\<close>

definition result_ok :: "string set \<Rightarrow> jsval \<Rightarrow> bool" where
  "result_ok ids res \<longleftrightarrow> (\<exists>h a x y. fld res ''home_team_id'' = JStr h \<and> fld res ''away_team_id'' = JStr a \<and>
     fld res ''home_score_hundredths'' = JInt x \<and> fld res ''away_score_hundredths'' = JInt y \<and>
     h \<in> ids \<and> a \<in> ids \<and> h \<noteq> a \<and> safe x \<and> safe y)"

lemma find_row_cases:
  "find_row rows v = Some r \<Longrightarrow> v = JStr (st_teamId r) \<and> r \<in> set rows"
  "find_row rows v = None \<Longrightarrow> v = JStr t \<Longrightarrow> t \<notin> st_teamId ` set rows"
  by (auto simp: find_row_def find_Some_iff find_None_iff split: jsval.splits)

lemma find_row_known:
  "t \<in> st_teamId ` set rows \<Longrightarrow> \<exists>r. find_row rows (JStr t) = Some r \<and> st_teamId r = t"
  by (metis find_row_cases jsval.inject(3) option.exhaust)

lemma apply_result_iff:
  "apply_result rows res = Inr rows' \<longleftrightarrow>
     result_ok (st_teamId ` set rows) res \<and>
     rows' = update_row (g_away (game_of res)) (play (g_awayScore (game_of res)) (g_homeScore (game_of res)))
       (update_row (g_home (game_of res)) (play (g_homeScore (game_of res)) (g_awayScore (game_of res))) rows)"
  (is "?l \<longleftrightarrow> ?r")
proof
  assume ?l
  then obtain h a x y where f: "find_row rows (fld res ''home_team_id'') = Some h"
    "find_row rows (fld res ''away_team_id'') = Some a" "st_teamId h \<noteq> st_teamId a"
    "fld res ''home_score_hundredths'' = JInt x" "fld res ''away_score_hundredths'' = JInt y"
    "safe x" "safe y"
    "rows' = update_row (st_teamId a) (play y x) (update_row (st_teamId h) (play x y) rows)"
    unfolding apply_result_def by (auto split: option.splits jsval.splits if_splits)
  with find_row_cases(1) [OF f(1)] find_row_cases(1) [OF f(2)] show ?r
    by (simp add: result_ok_def game_of_def)
next
  assume ?r
  then obtain h a x y where f: "fld res ''home_team_id'' = JStr h" "fld res ''away_team_id'' = JStr a"
     "fld res ''home_score_hundredths'' = JInt x" "fld res ''away_score_hundredths'' = JInt y"
     "h \<in> st_teamId ` set rows" "a \<in> st_teamId ` set rows" "h \<noteq> a" "safe x" "safe y"
    and rows': "rows' = update_row a (play y x) (update_row h (play x y) rows)"
    unfolding result_ok_def by (auto simp: game_of_def)
  from find_row_known [OF f(5)] find_row_known [OF f(6)] show ?l
    using f rows' by (auto simp: apply_result_def)
qed

lemma games_of_append: "games_of t (gs @ hs) = games_of t gs @ games_of t hs"
  by (simp add: games_of_def)

lemma games_of_single:
  "games_of t [g] = (if g_home g = t \<or> g_away g = t then [g] else [])"
  by (simp add: games_of_def)

lemmas tally_defs = games_of_append won_def lost_def drawn_def scored_def conceded_def

lemma tally_other: "g_home g \<noteq> fst p \<Longrightarrow> g_away g \<noteq> fst p \<Longrightarrow> tally (gs @ [g]) p = tally gs p"
  by (cases p) (simp add: tally_def tally_defs games_of_single)

lemma scored_bounds:
  "\<bar>scored t gs\<bar> + \<bar>conceded t gs\<bar> \<le> sum_list (map (\<lambda>g. \<bar>g_homeScore g\<bar> + \<bar>g_awayScore g\<bar>) gs)"
proof (induction gs)
  case Nil
  then show ?case by (simp add: scored_def conceded_def games_of_def)
next
  case (Cons g gs)
  have "\<bar>own_score t g\<bar> + \<bar>other_score t g\<bar> = \<bar>g_homeScore g\<bar> + \<bar>g_awayScore g\<bar>"
    by (simp add: own_score_def other_score_def)
  moreover have "scored t (g # gs) = (if g_home g = t \<or> g_away g = t then own_score t g else 0) + scored t gs"
    "conceded t (g # gs) = (if g_home g = t \<or> g_away g = t then other_score t g else 0) + conceded t gs"
    by (simp_all add: scored_def conceded_def games_of_def)
  ultimately show ?case using Cons by (simp only: list.map sum_list.Cons) (simp split: if_split, linarith)
qed

lemma scores_bounded_safe:
  "scores_bounded gs \<Longrightarrow> safe (scored t gs) \<and> safe (conceded t gs) \<and> safe (scored t gs - conceded t gs)"
  using scored_bounds [of t gs] unfolding scores_bounded_def safe_def by linarith

lemma tally_play:
  assumes "g_home g = fst p \<or> g_away g = fst p" "scores_bounded (gs @ [g])"
  shows "play (own_score (fst p) g) (other_score (fst p) g) (tally gs p) = tally (gs @ [g]) p"
proof -
  obtain t n where p: "p = (t, n)" by (cases p)
  have split: "scored t (gs @ [g]) = scored t gs + own_score t g"
    "conceded t (gs @ [g]) = conceded t gs + other_score t g"
    "won t (gs @ [g]) = won t gs + (if own_score t g > other_score t g then 1 else 0)"
    "lost t (gs @ [g]) = lost t gs + (if own_score t g < other_score t g then 1 else 0)"
    "drawn t (gs @ [g]) = drawn t gs + (if own_score t g = other_score t g then 1 else 0)"
    "length (games_of t (gs @ [g])) = Suc (length (games_of t gs))"
    using assms(1) by (auto simp: p tally_defs games_of_single)
  have add: "js_add (scored t gs) (own_score t g) = scored t (gs @ [g])"
    "js_add (conceded t gs) (other_score t g) = conceded t (gs @ [g])"
    using scores_bounded_safe [OF assms(2), of t] unfolding split(1,2) by (auto intro: js_add_safe)
  show ?thesis
    by (simp add: p tally_def play_def Let_def add) (simp add: split(3-6) new_standing_def)
qed

lemma apply_result_tally:
  assumes "distinct (map fst ts)" "scores_bounded (gs @ [game_of res])"
  shows "apply_result (map (tally gs) ts) res = Inr rows \<longleftrightarrow>
    result_ok (fst ` set ts) res \<and> rows = map (tally (gs @ [game_of res])) ts"
proof -
  define g where "g = game_of res"
  have ids: "st_teamId ` set (map (tally gs) ts) = fst ` set ts" by (simp add: image_image)
  have "update_row (g_away g) (play (g_awayScore g) (g_homeScore g))
      (update_row (g_home g) (play (g_homeScore g) (g_awayScore g)) (map (tally gs) ts)) =
      map (tally (gs @ [g])) ts" if ok: "g_home g \<noteq> g_away g"
  proof -
    have "(if st_teamId r = g_away g then play (g_awayScore g) (g_homeScore g) r else r) = tally (gs @ [g]) p"
      if r: "r = (if st_teamId (tally gs p) = g_home g then play (g_homeScore g) (g_awayScore g) (tally gs p)
        else tally gs p)" for r p
    proof -
      note tp = tally_play [of g p gs, OF _ assms(2) [folded g_def]]
      show ?thesis
        using tp tally_other [of g p gs] ok r tally_ids(1) [of "gs @ [g]" p]
        by (auto simp: own_score_def other_score_def split: if_splits)
    qed
    then show ?thesis by (simp add: update_row_def)
  qed
  moreover have "g_home g \<noteq> g_away g" if "result_ok (fst ` set ts) res"
    using that by (auto simp: result_ok_def g_def game_of_def)
  ultimately show ?thesis
    unfolding apply_result_iff ids g_def by auto
qed

lemma apply_results_tally:
  assumes "distinct (map fst ts)" "scores_bounded (gs @ map game_of rs)"
  shows "foldE apply_result (map (tally gs) ts) rs = Inr rows \<longleftrightarrow>
    list_all (result_ok (fst ` set ts)) rs \<and> rows = map (tally (gs @ map game_of rs)) ts"
  using assms(2)
proof (induction rs arbitrary: gs)
  case Nil
  then show ?case by auto
next
  case (Cons res rs)
  have "0 \<le> sum_list (map (\<lambda>g. \<bar>g_homeScore g\<bar> + \<bar>g_awayScore g\<bar>) (map game_of rs))"
    by (rule sum_list_nonneg) auto
  then have "scores_bounded (gs @ [game_of res])"
    using Cons.prems unfolding scores_bounded_def by simp
  note step = apply_result_tally [OF assms(1) this]
  have "foldE apply_result (map (tally (gs @ [game_of res])) ts) rs = Inr rows \<longleftrightarrow>
      list_all (result_ok (fst ` set ts)) rs \<and> rows = map (tally (gs @ map game_of (res # rs))) ts"
    using Cons.IH [of "gs @ [game_of res]"] Cons.prems by simp
  then show ?case by (auto simp: bindE_Inr_iff step)
qed

text \<open>The row that the table shows, with the derived columns.\<close>

definition standing_of :: "game list \<Rightarrow> string \<times> string \<Rightarrow> standing" where
  "standing_of gs p = (case p of (t, n) \<Rightarrow>
     (tally gs p)\<lparr>st_fantasyPointsDifferential := scored t gs - conceded t gs,
       st_pointsPercentageHundredths :=
         (if games_of t gs = [] then 0
          else round_div ((2 * won t gs + drawn t gs) * 10000) (2 * int (length (games_of t gs))))\<rparr>)"

lemma standing_of_ids [simp]: "st_teamId (standing_of gs p) = fst p" "st_rank (standing_of gs p) = 0"
  by (simp_all add: standing_of_def tally_def new_standing_def split: prod.splits)

lemma finish_tally: "scores_bounded gs \<Longrightarrow> finish_row (tally gs p) = standing_of gs p"
proof -
  assume "scores_bounded gs"
  then have "js_add (scored t gs) (- conceded t gs) = scored t gs - conceded t gs" for t
    using scores_bounded_safe [of gs t] by (simp add: js_add_safe)
  then show ?thesis
    by (cases p) (simp add: finish_row_def standing_of_def tally_def mult.commute)
qed

lemma calculateStandings_iff:
  assumes "scores_bounded (map game_of rs)"
  shows "calculateStandings collate (JArr ps) (JArr rs) = Inr table \<longleftrightarrow>
    list_all participant_ok ps \<and> distinct (map (fst \<circ> team_of) ps) \<and>
    list_all (result_ok ((fst \<circ> team_of) ` set ps)) rs \<and>
    table = assign_ranks None 0 (js_sort (compareStandings collate)
      (map (standing_of (map game_of rs) \<circ> team_of) ps))"
proof -
  have load: "foldE add_participant [] ps = Inr rows \<longleftrightarrow> list_all participant_ok ps \<and>
      distinct (map (fst \<circ> team_of) ps) \<and> rows = map (tally []) (map team_of ps)" for rows
    using participants.load_iff [of ps] by (simp add: comp_def)
  have results: "foldE apply_result (map (tally []) (map team_of ps)) rs = Inr rows \<longleftrightarrow>
      list_all (result_ok ((fst \<circ> team_of) ` set ps)) rs \<and>
      rows = map (tally (map game_of rs)) (map team_of ps)"
    if "distinct (map (fst \<circ> team_of) ps)" for rows
    using apply_results_tally [of "map team_of ps" "[]" rs] that assms by (simp add: image_image comp_def)
  have rows: "map (finish_row \<circ> (tally (map game_of rs) \<circ> team_of)) ps =
      map (standing_of (map game_of rs) \<circ> team_of) ps"
    by (simp add: finish_tally [OF assms])
  have "calculateStandings collate (JArr ps) (JArr rs) = Inr table \<longleftrightarrow>
      (\<exists>rows. foldE add_participant [] ps = Inr rows \<and> (\<exists>rows'. foldE apply_result rows rs = Inr rows' \<and>
        table = assign_ranks None 0 (js_sort (compareStandings collate) (map finish_row rows'))))"
    by (auto simp: calculateStandings_def bindE_Inr_iff)
  also have "\<dots> \<longleftrightarrow> list_all participant_ok ps \<and> distinct (map (fst \<circ> team_of) ps) \<and>
      (\<exists>rows'. foldE apply_result (map (tally []) (map team_of ps)) rs = Inr rows' \<and>
        table = assign_ranks None 0 (js_sort (compareStandings collate) (map finish_row rows')))"
    unfolding load by blast
  also have "\<dots> \<longleftrightarrow> list_all participant_ok ps \<and> distinct (map (fst \<circ> team_of) ps) \<and>
      list_all (result_ok ((fst \<circ> team_of) ` set ps)) rs \<and>
      table = assign_ranks None 0 (js_sort (compareStandings collate)
        (map finish_row (map (tally (map game_of rs)) (map team_of ps))))"
    by (cases "distinct (map (fst \<circ> team_of) ps)") (simp_all del: map_map add: results)
  finally show ?thesis unfolding map_map rows .
qed

section \<open>Ranks\<close>

definition ahead :: "standing \<Rightarrow> standing \<Rightarrow> bool" where
  "ahead s r \<longleftrightarrow> st_standingsPoints s > st_standingsPoints r \<or>
     st_standingsPoints s = st_standingsPoints r \<and>
       (st_fantasyPointsDifferential s > st_fantasyPointsDifferential r \<or>
        st_fantasyPointsDifferential s = st_fantasyPointsDifferential r \<and>
          st_fantasyPointsFor s > st_fantasyPointsFor r)"

lemma ahead_facts:
  "\<not> ahead s s"
  "tied p r \<longleftrightarrow> \<not> ahead p r \<and> \<not> ahead r p"
  "tied p r \<Longrightarrow> ahead s p \<longleftrightarrow> ahead s r"
  "ahead p r \<Longrightarrow> \<not> ahead p s \<Longrightarrow> ahead s r"
  by (auto simp: ahead_def tied_def)

lemma compareStandings_ahead: "compareStandings collate l r \<le> 0 \<Longrightarrow> \<not> ahead r l"
  by (auto simp: compareStandings_def cmp_or_def ahead_def split: if_splits)

lemma ahead_rank_update [simp]:
  "ahead (s\<lparr>st_rank := k\<rparr>) r \<longleftrightarrow> ahead s r" "ahead s (r\<lparr>st_rank := k\<rparr>) \<longleftrightarrow> ahead s r"
  "tied (s\<lparr>st_rank := k\<rparr>) r \<longleftrightarrow> tied s r"
  by (simp_all add: ahead_def tied_def)

definition standing_rank :: "standing list \<Rightarrow> standing \<Rightarrow> int" where
  "standing_rank xs r = 1 + int (length (filter (\<lambda>s. ahead s r) xs))"

lemma assign_ranks_sorted:
  assumes "sorted_wrt (\<lambda>l r. \<not> ahead r l) (done_rows @ rest)"
    and "case prior of None \<Rightarrow> done_rows = []
       | Some p \<Rightarrow> done_rows \<noteq> [] \<and> tied p (last done_rows) \<and> st_rank p = standing_rank done_rows p"
  shows "assign_ranks prior (int (length done_rows)) rest =
    map (\<lambda>r. r\<lparr>st_rank := standing_rank (done_rows @ rest) r\<rparr>) rest"
  using assms
proof (induction rest arbitrary: done_rows prior)
  case Nil
  then show ?case by simp
next
  case (Cons row rest)
  have none: "filter (\<lambda>s. ahead s row) (row # rest) = []"
    using Cons.prems(1) ahead_facts(1) by (auto simp: sorted_wrt_append filter_empty_conv)
  then have here: "standing_rank (done_rows @ row # rest) row = standing_rank done_rows row"
    "standing_rank (done_rows @ [row]) row = standing_rank done_rows row"
    using ahead_facts(1) by (auto simp: standing_rank_def)
  let ?rank = "case prior of Some p \<Rightarrow> if tied p row then st_rank p else int (length done_rows) + 1
      | None \<Rightarrow> int (length done_rows) + 1"
  have rank: "?rank = standing_rank done_rows row"
  proof (cases prior)
    case None
    then show ?thesis using Cons.prems(2) by (simp add: standing_rank_def)
  next
    case (Some p)
    then have p: "done_rows \<noteq> []" "tied p (last done_rows)" "st_rank p = standing_rank done_rows p"
      using Cons.prems(2) by auto
    show ?thesis
    proof (cases "tied p row")
      case True
      then show ?thesis using p(3) Some ahead_facts(3) [OF True] by (simp add: standing_rank_def)
    next
      case False
      have last: "last done_rows \<in> set done_rows" using p(1) by simp
      have "\<not> ahead row (last done_rows)" using Cons.prems(1) last by (auto simp: sorted_wrt_append)
      then have "ahead (last done_rows) row"
        using False p(2) ahead_facts(2,3) by blast
      moreover have "\<not> ahead (last done_rows) s" if "s \<in> set done_rows" for s
      proof -
        have "done_rows = butlast done_rows @ [last done_rows]" using p(1) by simp
        with Cons.prems(1) have "sorted_wrt (\<lambda>l r. \<not> ahead r l) (butlast done_rows @ [last done_rows])"
          by (metis sorted_wrt_append)
        moreover have "s \<in> set (butlast done_rows) \<or> s = last done_rows"
          using that p(1) by (metis append_butlast_last_id rotate1.simps(2) set_ConsD set_rotate1)
        ultimately show ?thesis using ahead_facts(1) by (auto simp: sorted_wrt_append)
      qed
      ultimately have "filter (\<lambda>s. ahead s row) done_rows = done_rows"
        using ahead_facts(4) by (intro filter_True) blast
      then show ?thesis using False Some by (simp add: standing_rank_def)
    qed
  qed
  have "assign_ranks (Some (row\<lparr>st_rank := ?rank\<rparr>)) (int (length (done_rows @ [row]))) rest =
      map (\<lambda>r. r\<lparr>st_rank := standing_rank ((done_rows @ [row]) @ rest) r\<rparr>) rest"
    by (rule Cons.IH) (use Cons.prems(1) here rank in \<open>auto simp: tied_def standing_rank_def\<close>)
  then show ?case using rank here(1) by (simp add: Let_def add.commute)
qed

definition compare_columns :: "(string \<Rightarrow> string \<Rightarrow> int) \<Rightarrow> standing \<Rightarrow> standing \<Rightarrow> int" where
  "compare_columns collate l r =
     cmp_or (st_standingsPoints r - st_standingsPoints l)
    (cmp_or (st_fantasyPointsDifferential r - st_fantasyPointsDifferential l)
    (cmp_or (st_fantasyPointsFor r - st_fantasyPointsFor l)
            (collate (st_teamDisplayName l) (st_teamDisplayName r))))"

lemma standings_by_id:
  "compareStandings collate = (\<lambda>l r. cmp_or (compare_columns collate l r) (collate (st_teamId l) (st_teamId r)))"
  by (intro ext) (simp add: compareStandings_def compare_columns_def cmp_or_def)

lemma comparator_columns: "collation collate \<Longrightarrow> comparator (compare_columns collate)"
  unfolding compare_columns_def [abs_def]
  by (intro comparator_intros collation.comparator_collate)

lemma comparator_standings: "collation collate \<Longrightarrow> comparator (compareStandings collate)"
  unfolding compareStandings_def [abs_def]
  by (intro comparator_intros collation.comparator_collate)

lemma assign_ranks_js_sort:
  assumes "collation collate"
  shows "assign_ranks None 0 (js_sort (compareStandings collate) xs) =
    map (\<lambda>r. r\<lparr>st_rank := standing_rank xs r\<rparr>) (js_sort (compareStandings collate) xs)"
proof -
  let ?ys = "js_sort (compareStandings collate) xs"
  have "sorted_wrt (\<lambda>l r. \<not> ahead r l) ?ys"
    by (rule sorted_wrt_mono_rel [OF _ comparator.sorted_js_sort [OF comparator_standings [OF assms]]])
      (rule compareStandings_ahead)
  then have "assign_ranks None 0 ?ys = map (\<lambda>r. r\<lparr>st_rank := standing_rank ?ys r\<rparr>) ?ys"
    using assign_ranks_sorted [of "[]" ?ys None] by simp
  moreover have "standing_rank ?ys r = standing_rank xs r" for r
    unfolding standing_rank_def by (metis mset_filter mset_js_sort size_mset)
  ultimately show ?thesis by simp
qed

lemma assign_ranks_erase:
  "map (\<lambda>r. r\<lparr>st_rank := 0\<rparr>) (assign_ranks prior i xs) = map (\<lambda>r. r\<lparr>st_rank := 0\<rparr>) xs"
  by (induction xs arbitrary: prior i) (simp_all add: Let_def)

lemma standing_of_erase [simp]: "(standing_of gs p)\<lparr>st_rank := 0\<rparr> = standing_of gs p"
  by (rule standing.equality) simp_all

lemma standing_of_columns:
  "st_gamesPlayed (standing_of gs p) = int (length (games_of (fst p) gs))"
  "st_wins (standing_of gs p) = won (fst p) gs"
  "st_losses (standing_of gs p) = lost (fst p) gs"
  "st_ties (standing_of gs p) = drawn (fst p) gs"
  "st_standingsPoints (standing_of gs p) = 2 * won (fst p) gs + drawn (fst p) gs"
  "st_fantasyPointsFor (standing_of gs p) = scored (fst p) gs"
  "st_fantasyPointsAgainst (standing_of gs p) = conceded (fst p) gs"
  "st_fantasyPointsDifferential (standing_of gs p) = scored (fst p) gs - conceded (fst p) gs"
  by (cases p; simp add: standing_of_def tally_def new_standing_def)+

lemma games_split: "int (length (games_of t gs)) = won t gs + lost t gs + drawn t gs"
proof -
  have "int (length xs) = int (length (filter (\<lambda>g. own_score t g > other_score t g) xs)) +
    int (length (filter (\<lambda>g. own_score t g < other_score t g) xs)) +
    int (length (filter (\<lambda>g. own_score t g = other_score t g) xs))" for xs
    by (induction xs) auto
  then show ?thesis unfolding won_def lost_def drawn_def .
qed

lemma percentage_bounds:
  "0 \<le> st_pointsPercentageHundredths (standing_of gs p) \<and>
   st_pointsPercentageHundredths (standing_of gs p) \<le> 10000"
proof (cases "games_of (fst p) gs = []")
  case True
  then show ?thesis by (cases p) (simp add: standing_of_def)
next
  case False
  let ?t = "fst p"
  have w: "0 \<le> won ?t gs" "0 \<le> drawn ?t gs" "0 \<le> lost ?t gs" by (simp_all add: won_def drawn_def lost_def)
  then have "0 \<le> (2 * won ?t gs + drawn ?t gs) * 10000" by simp
  moreover have "0 < 2 * int (length (games_of ?t gs))" using False by simp
  moreover have "(2 * won ?t gs + drawn ?t gs) * 10000 \<le> 10000 * (2 * int (length (games_of ?t gs)))"
    using w unfolding games_split by simp
  ultimately have "0 \<le> round_div ((2 * won ?t gs + drawn ?t gs) * 10000) (2 * int (length (games_of ?t gs))) \<and>
      round_div ((2 * won ?t gs + drawn ?t gs) * 10000) (2 * int (length (games_of ?t gs))) \<le> 10000"
    by (rule round_div_bounds)
  moreover have "st_pointsPercentageHundredths (standing_of gs p) =
      round_div ((2 * won ?t gs + drawn ?t gs) * 10000) (2 * int (length (games_of ?t gs)))"
    using False by (cases p) (simp add: standing_of_def)
  ultimately show ?thesis by simp
qed

lemma standings_rows:
  assumes "calculateStandings collate (JArr ps) (JArr rs) = Inr table" "scores_bounded (map game_of rs)"
  shows "mset (map (\<lambda>r. r\<lparr>st_rank := 0\<rparr>) table) = mset (map (standing_of (map game_of rs) \<circ> team_of) ps)"
proof -
  have "map (\<lambda>r. r\<lparr>st_rank := 0\<rparr>) table = map (\<lambda>r. r\<lparr>st_rank := 0\<rparr>)
      (js_sort (compareStandings collate) (map (standing_of (map game_of rs) \<circ> team_of) ps))"
    using assms(1) unfolding calculateStandings_iff [OF assms(2)] by (simp only: assign_ranks_erase)
  then have "mset (map (\<lambda>r. r\<lparr>st_rank := 0\<rparr>) table) =
      image_mset (\<lambda>r. r\<lparr>st_rank := 0\<rparr>) (mset (map (standing_of (map game_of rs) \<circ> team_of) ps))"
    by (simp only: mset_map mset_js_sort)
  also have "\<dots> = mset (map (standing_of (map game_of rs) \<circ> team_of) ps)"
    by (simp add: multiset.map_comp comp_def flip: mset_map)
  finally show ?thesis .
qed

text \<open>A column of the table adds up to the column of the tallies.\<close>

lemma column_sum:
  assumes "mset (map (\<lambda>r. r\<lparr>st_rank := 0\<rparr>) table) = mset (map (standing_of gs \<circ> team_of) ps)"
    and "\<And>r. f (r\<lparr>st_rank := 0\<rparr>) = f r"
  shows "sum_list (map f table) = (sum_list (map (\<lambda>p. f (standing_of gs p)) (map team_of ps)) :: int)"
proof -
  have "mset (map f (map (\<lambda>r. r\<lparr>st_rank := 0\<rparr>) table)) = mset (map f (map (standing_of gs \<circ> team_of) ps))"
    using assms(1) by (metis mset_map)
  then have "sum_mset (mset (map f table)) = sum_mset (mset (map (\<lambda>p. f (standing_of gs p)) (map team_of ps)))"
    using assms(2) by (simp add: comp_def)
  then show ?thesis by (simp only: sum_mset_sum_list)
qed

text \<open>
  C27. The table has one row for each participant, and the row shows that team's games, wins,
  losses, ties, standings points, scores and differential as the results have them, with a points
  percentage between 0 and 100%.
\<close>

theorem standings_table:
  assumes "calculateStandings collate (JArr ps) (JArr rs) = Inr table"
    and "scores_bounded (map game_of rs)"
  shows "mset (map (\<lambda>r. r\<lparr>st_rank := 0\<rparr>) table) = mset (map (standing_of (map game_of rs) \<circ> team_of) ps) \<and>
    distinct (map st_teamId table) \<and>
    (\<forall>r \<in> set table. st_gamesPlayed r = st_wins r + st_losses r + st_ties r \<and>
       0 \<le> st_pointsPercentageHundredths r \<and> st_pointsPercentageHundredths r \<le> 10000)"
proof (intro conjI ballI)
  let ?gs = "map game_of rs"
  note rows = standings_rows [OF assms]
  show "mset (map (\<lambda>r. r\<lparr>st_rank := 0\<rparr>) table) = mset (map (standing_of ?gs \<circ> team_of) ps)" by (rule rows)
  have "mset (map st_teamId (map (\<lambda>r. r\<lparr>st_rank := 0\<rparr>) table)) = mset (map st_teamId (map (standing_of ?gs \<circ> team_of) ps))"
    using rows by (metis mset_map)
  then have "mset (map st_teamId table) = mset (map (fst \<circ> team_of) ps)" by (simp add: comp_def)
  then show "distinct (map st_teamId table)"
    using assms(1) unfolding calculateStandings_iff [OF assms(2)] by (metis mset_eq_imp_distinct_iff)
  fix r assume "r \<in> set table"
  then have "r\<lparr>st_rank := 0\<rparr> \<in># mset (map (\<lambda>r. r\<lparr>st_rank := 0\<rparr>) table)" by simp
  then obtain q where "r\<lparr>st_rank := 0\<rparr> = standing_of ?gs (team_of q)" unfolding rows by auto
  then obtain p where p: "r\<lparr>st_rank := 0\<rparr> = standing_of ?gs p" by blast
  have fields: "st_gamesPlayed r = st_gamesPlayed (standing_of ?gs p)" "st_wins r = st_wins (standing_of ?gs p)"
    "st_losses r = st_losses (standing_of ?gs p)" "st_ties r = st_ties (standing_of ?gs p)"
    "st_pointsPercentageHundredths r = st_pointsPercentageHundredths (standing_of ?gs p)"
    unfolding p [symmetric] by simp_all
  show "st_gamesPlayed r = st_wins r + st_losses r + st_ties r"
    unfolding fields standing_of_columns games_split by simp
  show "0 \<le> st_pointsPercentageHundredths r" "st_pointsPercentageHundredths r \<le> 10000"
    unfolding fields using percentage_bounds by blast+
qed

section \<open>What balances over the league\<close>

lemma sum_two:
  assumes "distinct ids" "h \<in> set ids" "a \<in> set ids" "h \<noteq> a"
  shows "sum_list (map (\<lambda>t. if h = t then x else if a = t then y else (0::int)) ids) = x + y"
proof -
  have "(\<lambda>t. if h = t then x else if a = t then y else 0) =
      (\<lambda>t. (if h = t then x else 0) + (if a = t then y else 0))" using assms(4) by auto
  then have "sum_list (map (\<lambda>t. if h = t then x else if a = t then y else 0) ids) =
      (\<Sum>t\<in>set ids. (if h = t then x else 0) + (if a = t then y else 0))"
    by (simp only: sum_list_distinct_conv_sum_set [OF assms(1)])
  also have "\<dots> = x + y" using assms(2,3) by (simp add: sum.distrib)
  finally show ?thesis .
qed

lemma league_sum:
  assumes "distinct ids" "\<forall>g \<in> set gs. g_home g \<in> set ids \<and> g_away g \<in> set ids \<and> g_home g \<noteq> g_away g"
    and q: "\<And>t. q t [] = 0"
      "\<And>t g gs. q t (g # gs) = (if g_home g = t then x g else if g_away g = t then y g else 0) + q t gs"
  shows "sum_list (map (\<lambda>t. q t gs) ids) = sum_list (map (\<lambda>g. x g + (y g :: int)) gs)"
  using assms(2)
proof (induction gs)
  case Nil
  then show ?case by (simp add: q)
next
  case (Cons g gs)
  then show ?case by (simp add: q sum_list_addf sum_two [OF assms(1)])
qed

lemma league_columns:
  assumes "distinct ids" "\<forall>g \<in> set gs. g_home g \<in> set ids \<and> g_away g \<in> set ids \<and> g_home g \<noteq> g_away g"
  shows "sum_list (map (\<lambda>t. won t gs) ids) = sum_list (map (\<lambda>t. lost t gs) ids)"
    and "sum_list (map (\<lambda>t. scored t gs) ids) = sum_list (map (\<lambda>t. conceded t gs) ids)"
    and "sum_list (map (\<lambda>t. int (length (games_of t gs))) ids) = 2 * int (length gs)"
    and "sum_list (map (\<lambda>t. 2 * won t gs + drawn t gs) ids) = 2 * int (length gs)"
proof -
  note defs = games_of_def won_def lost_def drawn_def scored_def conceded_def own_score_def other_score_def
  let ?w = "\<lambda>g. if g_homeScore g > g_awayScore g then 1 else (0::int)"
  let ?l = "\<lambda>g. if g_homeScore g < g_awayScore g then 1 else (0::int)"
  have "sum_list (map (\<lambda>t. won t gs) ids) = sum_list (map (\<lambda>g. ?w g + ?l g) gs)"
    by (rule league_sum [OF assms]) (auto simp: defs)
  also have "\<dots> = sum_list (map (\<lambda>g. ?l g + ?w g) gs)" by (simp only: add.commute)
  also have "\<dots> = sum_list (map (\<lambda>t. lost t gs) ids)"
    by (rule league_sum [OF assms, symmetric]) (auto simp: defs)
  finally show "sum_list (map (\<lambda>t. won t gs) ids) = sum_list (map (\<lambda>t. lost t gs) ids)" .
  have "sum_list (map (\<lambda>t. scored t gs) ids) = sum_list (map (\<lambda>g. g_homeScore g + g_awayScore g) gs)"
    by (rule league_sum [OF assms]) (auto simp: defs)
  also have "\<dots> = sum_list (map (\<lambda>g. g_awayScore g + g_homeScore g) gs)" by (simp only: add.commute)
  also have "\<dots> = sum_list (map (\<lambda>t. conceded t gs) ids)"
    by (rule league_sum [OF assms, symmetric]) (auto simp: defs)
  finally show "sum_list (map (\<lambda>t. scored t gs) ids) = sum_list (map (\<lambda>t. conceded t gs) ids)" .
  have two: "sum_list (map (\<lambda>g. 1 + (1 :: int)) gs) = 2 * int (length gs)" by (induction gs) simp_all
  have "sum_list (map (\<lambda>t. int (length (games_of t gs))) ids) = sum_list (map (\<lambda>g. 1 + (1 :: int)) gs)"
    by (rule league_sum [OF assms]) (auto simp: defs)
  then show "sum_list (map (\<lambda>t. int (length (games_of t gs))) ids) = 2 * int (length gs)"
    unfolding two .
  let ?p = "\<lambda>g. if g_homeScore g > g_awayScore g then 2 else if g_homeScore g = g_awayScore g then 1 else (0::int)"
  have "sum_list (map (\<lambda>t. 2 * won t gs + drawn t gs) ids) = sum_list (map (\<lambda>g. ?p g + (2 - ?p g)) gs)"
    by (rule league_sum [OF assms]) (auto simp: defs)
  also have "(\<lambda>g. ?p g + (2 - ?p g)) = (\<lambda>g. 1 + 1)" by auto
  finally show "sum_list (map (\<lambda>t. 2 * won t gs + drawn t gs) ids) = 2 * int (length gs)"
    unfolding two .
qed

text \<open>
  C29. Over the whole table wins equal losses, every result is counted for two teams and gives out
  two standings points, and the scores for equal the scores against, so the differentials cancel.
\<close>

theorem standings_balance:
  assumes "calculateStandings collate (JArr ps) (JArr rs) = Inr table"
    and "scores_bounded (map game_of rs)"
  shows "sum_list (map st_wins table) = sum_list (map st_losses table) \<and>
    sum_list (map st_gamesPlayed table) = 2 * int (length rs) \<and>
    sum_list (map st_standingsPoints table) = 2 * int (length rs) \<and>
    sum_list (map st_fantasyPointsFor table) = sum_list (map st_fantasyPointsAgainst table) \<and>
    sum_list (map st_fantasyPointsDifferential table) = 0"
proof -
  define gs ids where "gs = map game_of rs" and "ids = map (fst \<circ> team_of) ps"
  have d: "distinct ids" and ok: "list_all (result_ok (set ids)) rs"
    using assms(1) unfolding calculateStandings_iff [OF assms(2)] by (simp_all add: ids_def)
  have "\<forall>g \<in> set gs. g_home g \<in> set ids \<and> g_away g \<in> set ids \<and> g_home g \<noteq> g_away g"
    using ok by (auto simp: gs_def list_all_iff result_ok_def game_of_def)
  note columns = league_columns [OF d this]
  have col: "sum_list (map f table) = sum_list (map q ids)"
    if "\<And>p. f (standing_of gs p) = q (fst p)" "\<And>r. f (r\<lparr>st_rank := 0\<rparr>) = f r" for f and q :: "string \<Rightarrow> int"
    using column_sum [where f = f, OF standings_rows [OF assms, folded gs_def] that(2)] that(1) by (simp add: ids_def comp_def)
  have sums: "sum_list (map st_wins table) = sum_list (map (\<lambda>t. won t gs) ids)"
    "sum_list (map st_losses table) = sum_list (map (\<lambda>t. lost t gs) ids)"
    "sum_list (map st_gamesPlayed table) = sum_list (map (\<lambda>t. int (length (games_of t gs))) ids)"
    "sum_list (map st_standingsPoints table) = sum_list (map (\<lambda>t. 2 * won t gs + drawn t gs) ids)"
    "sum_list (map st_fantasyPointsFor table) = sum_list (map (\<lambda>t. scored t gs) ids)"
    "sum_list (map st_fantasyPointsAgainst table) = sum_list (map (\<lambda>t. conceded t gs) ids)"
    "sum_list (map st_fantasyPointsDifferential table) = sum_list (map (\<lambda>t. scored t gs - conceded t gs) ids)"
    by (rule col; simp add: standing_of_columns)+
  show ?thesis
    unfolding sums columns by (simp add: gs_def columns(2) [unfolded gs_def] sum_list_subtractf)
qed

section \<open>Order and ranks\<close>

text \<open>
  C28. The table is sorted by standings points, differential and points for, and a team's rank is
  one more than the number of teams strictly ahead of it, so equal teams share a rank and the next
  one is skipped.
\<close>

theorem standings_ranks:
  assumes "collation collate" "calculateStandings collate participants results = Inr table"
  shows "sorted_wrt (\<lambda>l r. \<not> ahead r l) table \<and>
    (\<forall>r \<in> set table. st_rank r = 1 + int (length (filter (\<lambda>s. ahead s r) table)))"
proof -
  obtain rows where "table = assign_ranks None 0 (js_sort (compareStandings collate) rows)"
    using assms(2) by (auto simp: calculateStandings_def bindE_Inr_iff split: option.splits)
  then have table: "table = map (\<lambda>r. r\<lparr>st_rank := standing_rank rows r\<rparr>) (js_sort (compareStandings collate) rows)"
    (is "_ = map ?f ?ys") using assign_ranks_js_sort [OF assms(1)] by simp
  have sorted: "sorted_wrt (\<lambda>l r. \<not> ahead r l) ?ys"
    by (rule sorted_wrt_mono_rel [OF _ comparator.sorted_js_sort [OF comparator_standings [OF assms(1)]]])
      (rule compareStandings_ahead)
  have count: "length (filter (\<lambda>s. ahead s r) table) = length (filter (\<lambda>s. ahead s r) rows)" for r
  proof -
    have "length (filter (\<lambda>s. ahead s r) table) = length (filter (\<lambda>s. ahead s r) ?ys)"
      by (simp add: table filter_map comp_def)
    also have "\<dots> = length (filter (\<lambda>s. ahead s r) rows)" by (metis mset_filter mset_js_sort size_mset)
    finally show ?thesis .
  qed
  have "st_rank r = 1 + int (length (filter (\<lambda>s. ahead s r) table))" if "r \<in> set table" for r
    using that unfolding count by (auto simp: table standing_rank_def)
  moreover have "sorted_wrt (\<lambda>l r. \<not> ahead r l) table"
    using sorted unfolding table by (simp add: sorted_wrt_map)
  ultimately show ?thesis by blast
qed

text \<open>
  The table does not depend on the order of the participants or of the results.
\<close>

theorem standings_order_independent:
  assumes "collation collate" "mset ps = mset ps'" "mset rs = mset rs'"
    and "\<forall>p \<in> set ps. is_uuid (fst (team_of p))" "scores_bounded (map game_of rs)"
    and "calculateStandings collate (JArr ps) (JArr rs) = Inr table"
  shows "calculateStandings collate (JArr ps') (JArr rs') = Inr table"
proof -
  have sets: "set ps' = set ps" "set rs' = set rs" using assms(2,3) by (metis set_mset_mset)+
  have games: "mset (map game_of rs') = mset (map game_of rs)" using assms(3) by simp
  have "sum_list (map f (map game_of rs')) = sum_list (map f (map game_of rs))" for f :: "game \<Rightarrow> int"
    by (metis games mset_map sum_mset_sum_list)
  then have bounded: "scores_bounded (map game_of rs')" using assms(5) by (simp add: scores_bounded_def)
  have per_team: "mset (games_of t (map game_of rs')) = mset (games_of t (map game_of rs))" for t
    unfolding games_of_def using games by (metis mset_filter)
  then have count: "length (filter P (games_of t (map game_of rs'))) = length (filter P (games_of t (map game_of rs)))"
    "sum_list (map f (games_of t (map game_of rs'))) = sum_list (map f (games_of t (map game_of rs)))"
    "length (games_of t (map game_of rs')) = length (games_of t (map game_of rs))" for P t and f :: "game \<Rightarrow> int"
    by (metis mset_filter size_mset, metis mset_map sum_mset_sum_list, metis size_mset)
  have "won t (map game_of rs') = won t (map game_of rs)" "lost t (map game_of rs') = lost t (map game_of rs)"
    "drawn t (map game_of rs') = drawn t (map game_of rs)" "scored t (map game_of rs') = scored t (map game_of rs)"
    "conceded t (map game_of rs') = conceded t (map game_of rs)"
    "games_of t (map game_of rs') = [] \<longleftrightarrow> games_of t (map game_of rs) = []" for t
    using count unfolding won_def lost_def drawn_def scored_def conceded_def
    by simp_all (metis length_0_conv)
  then have same: "standing_of (map game_of rs') = standing_of (map game_of rs)"
    using count(3) by (intro ext) (simp add: standing_of_def tally_def cong: if_cong)
  note iff = calculateStandings_iff [OF assms(5)] calculateStandings_iff [OF bounded]
  define rows where "rows = (\<lambda>qs. map (standing_of (map game_of rs) \<circ> team_of) qs)"
  have "mset (rows ps) = mset (rows ps')" unfolding rows_def using assms(2) by simp
  moreover have "distinct (map st_teamId (rows ps))"
    using assms(6) unfolding iff(1) by (simp add: rows_def comp_def)
  moreover have "is_uuid (st_teamId x)" if "x \<in> set (rows ps)" for x
    using that assms(4) by (auto simp: rows_def)
  ultimately have "js_sort (compareStandings collate) (rows ps) = js_sort (compareStandings collate) (rows ps')"
    unfolding standings_by_id
    by (intro collation.sort_by_id_perm [OF assms(1)] comparator_columns assms(1))
  moreover have "distinct (map (fst \<circ> team_of) ps')"
    using assms(2,6) unfolding iff(1) by (metis mset_eq_imp_distinct_iff mset_map)
  ultimately show ?thesis
    using assms(6) unfolding iff by (simp add: same sets list_all_iff rows_def)
qed

section \<open>A league of three\<close>

definition sample_participant :: "char \<Rightarrow> jsval" where
  "sample_participant c = JObj [(''team_id'', JStr (sample_id c)), (''team_display_name'', JStr [c])]"

definition sample_result :: "char \<Rightarrow> int \<Rightarrow> char \<Rightarrow> int \<Rightarrow> jsval" where
  "sample_result c x d y = JObj [(''home_team_id'', JStr (sample_id c)), (''away_team_id'', JStr (sample_id d)),
     (''home_score_hundredths'', JInt x), (''away_score_hundredths'', JInt y)]"

definition sample_participants :: "jsval list" where
  "sample_participants = map sample_participant ''abc''"

definition sample_results :: "jsval list" where
  "sample_results = [sample_result (CHR ''a'') 1250 (CHR ''b'') 900, sample_result (CHR ''b'') 300 (CHR ''c'') 300]"

lemmas sample_standings = sample_participants_def sample_results_def sample_participant_def sample_result_def

lemma sample_bounded: "scores_bounded (map game_of sample_results)"
  by (simp add: scores_bounded_def sample_standings game_of_def max_safe_def)

lemma sample_accepted: "\<exists>table. calculateStandings locale_compare (JArr sample_participants) (JArr sample_results) = Inr table"
  unfolding calculateStandings_iff [OF sample_bounded]
  by (simp add: sample_standings participant_ok_def result_ok_def team_of_def safe_def max_safe_def)

theorem standings_table_witness:
  "\<exists>table. calculateStandings locale_compare (JArr sample_participants) (JArr sample_results) = Inr table \<and>
     length table = 3 \<and> distinct (map st_teamId table)"
proof -
  obtain table where t: "calculateStandings locale_compare (JArr sample_participants) (JArr sample_results) = Inr table"
    using sample_accepted by blast
  note facts = standings_table [OF t sample_bounded]
  then have "mset (map (\<lambda>r. r\<lparr>st_rank := 0\<rparr>) table) =
    mset (map (standing_of (map game_of sample_results) \<circ> team_of) sample_participants)" by blast
  then have "length table = length sample_participants" by (metis length_map size_mset)
  with t facts show ?thesis by (auto simp: sample_participants_def)
qed

theorem standings_balance_witness:
  "\<exists>table. calculateStandings locale_compare (JArr sample_participants) (JArr sample_results) = Inr table \<and>
     sum_list (map st_standingsPoints table) = 4"
  using sample_accepted standings_balance [OF _ sample_bounded] by (auto simp: sample_results_def)

theorem standings_ranks_witness:
  "\<exists>table. calculateStandings locale_compare (JArr sample_participants) (JArr sample_results) = Inr table \<and>
     sorted_wrt (\<lambda>l r. \<not> ahead r l) table"
  using sample_accepted standings_ranks [OF code_units.collation_axioms] by blast

theorem standings_order_independent_witness:
  "\<exists>table. calculateStandings locale_compare (JArr (rev sample_participants)) (JArr (rev sample_results)) = Inr table"
proof -
  have "\<not> (\<exists>p \<in> set sample_participants. \<not> is_uuid (fst (team_of p)))"
    by (simp add: sample_participants_def sample_participant_def team_of_def is_uuid_sample_id hex_char_def)
  then show ?thesis
    using sample_accepted standings_order_independent [OF code_units.collation_axioms, of sample_participants
      "rev sample_participants" sample_results "rev sample_results"] sample_bounded by auto
qed

end
