(* ===== verification/MatchupResult.thy ===== *)
theory MatchupResult
  imports MatchupStandings
begin

text \<open>
  \<^verbatim>\<open>src/src/domain/matchups/matchupResultPolicy.js\<close>: the outcome of a pair of scores, the
  freshness of the statistics that make a result final, and the shape of a correction.
\<close>

datatype result_code = ResultInputInvalid | ResultSourceFuture | ResultCorrectionInvalid

datatype matchup_outcome = Tie | HomeWin | AwayWin

definition final_freshness_window :: int where
  "final_freshness_window = 6 * 60 * 60 * 1000"

fun score_value :: "jsval \<Rightarrow> result_code + int" where
  "score_value (JInt n) = (if safe n then Inr n else Inl ResultInputInvalid)"
| "score_value _ = Inl ResultInputInvalid"

definition deriveMatchupOutcome :: "jsval \<Rightarrow> jsval \<Rightarrow> result_code + matchup_outcome" where
  "deriveMatchupOutcome homeScore awayScore =
     bindE (score_value homeScore) (\<lambda>home.
     bindE (score_value awayScore) (\<lambda>away.
     if home = away then Inr Tie else Inr (if home > away then HomeWin else AwayWin)))"

datatype final_wait = SourceBeforeWeekEnd | SourceStale

record final_source =
  fs_ready :: bool
  fs_reasonCode :: "final_wait option"
  fs_ageMs :: "int option"

definition evaluateFinalSource :: "jsval \<Rightarrow> jsval \<Rightarrow> jsval \<Rightarrow> result_code + final_source" where
  "evaluateFinalSource weekEndsAtMs refreshCompletedAtMs nowMs =
     bindE (safe_from ResultInputInvalid 0 weekEndsAtMs) (\<lambda>ends.
     bindE (safe_from ResultInputInvalid 0 refreshCompletedAtMs) (\<lambda>completed.
     bindE (safe_from ResultInputInvalid 0 nowMs) (\<lambda>now.
     if completed > now then Inl ResultSourceFuture
     else if completed < ends
     then Inr \<lparr>fs_ready = False, fs_reasonCode = Some SourceBeforeWeekEnd, fs_ageMs = None\<rparr>
     else if now - completed > final_freshness_window
     then Inr \<lparr>fs_ready = False, fs_reasonCode = Some SourceStale, fs_ageMs = Some (now - completed)\<rparr>
     else Inr \<lparr>fs_ready = True, fs_reasonCode = None, fs_ageMs = Some (now - completed)\<rparr>)))"

record result_correction =
  rc_homeScore :: int
  rc_awayScore :: int
  rc_outcome :: matchup_outcome
  rc_reason :: string

definition validateResultCorrection :: "jsval \<Rightarrow> result_code + result_correction" where
  "validateResultCorrection v =
     bindE (score_value (fld v ''homeScoreHundredths'')) (\<lambda>home.
     bindE (score_value (fld v ''awayScoreHundredths'')) (\<lambda>away.
     bindE (bounded_text ResultCorrectionInvalid 500 (fld v ''reason'')) (\<lambda>reason.
     bindE (deriveMatchupOutcome (JInt home) (JInt away)) (\<lambda>outcome.
     Inr \<lparr>rc_homeScore = home, rc_awayScore = away, rc_outcome = outcome, rc_reason = reason\<rparr>))))"

lemma score_value_iff: "score_value v = Inr n \<longleftrightarrow> v = JInt n \<and> safe n"
  by (cases v) auto

text \<open>
  The outcome that is stored with a result is the one the standings give out: a win is worth
  two points to that side and none to the other, a tie one point to each, and swapping the scores
  swaps the winner.
\<close>

theorem outcome_matches_standings:
  assumes "deriveMatchupOutcome (JInt x) (JInt y) = Inr outcome"
  shows "(st_standingsPoints (play x y home), st_standingsPoints (play y x away)) =
      (case outcome of
         HomeWin \<Rightarrow> (st_standingsPoints home + 2, st_standingsPoints away)
       | AwayWin \<Rightarrow> (st_standingsPoints home, st_standingsPoints away + 2)
       | Tie \<Rightarrow> (st_standingsPoints home + 1, st_standingsPoints away + 1)) \<and>
    deriveMatchupOutcome (JInt y) (JInt x) =
      Inr (case outcome of HomeWin \<Rightarrow> AwayWin | AwayWin \<Rightarrow> HomeWin | Tie \<Rightarrow> Tie)"
  using assms by (auto simp: deriveMatchupOutcome_def bindE_Inr_iff score_value_iff play_def Let_def split: if_splits)

theorem outcome_matches_standings_witness:
  "st_standingsPoints (play 900 300 (new_standing ''a'' ''A'')) = 2 \<and>
   deriveMatchupOutcome (JInt 300) (JInt 900) = Inr AwayWin"
proof -
  have "deriveMatchupOutcome (JInt 900) (JInt 300) = Inr HomeWin"
    by (simp add: deriveMatchupOutcome_def safe_def max_safe_def)
  from outcome_matches_standings [OF this, of "new_standing ''a'' ''A''" "new_standing ''b'' ''B''"]
  show ?thesis by (simp add: new_standing_def)
qed

text \<open>
  Statistics make a result final exactly when they were completed after the week's end, not in
  the future and at most six hours ago.
\<close>

theorem final_source_window:
  "(\<exists>age. evaluateFinalSource (JInt ends) (JInt completed) (JInt now) =
      Inr \<lparr>fs_ready = True, fs_reasonCode = None, fs_ageMs = Some age\<rparr>) \<longleftrightarrow>
   0 \<le> ends \<and> ends \<le> completed \<and> completed \<le> now \<and> now \<le> completed + 21600000 \<and> now \<le> max_safe"
  by (auto simp: evaluateFinalSource_def bindE_Inr_iff safe_from_iff final_freshness_window_def safe_def max_safe_def
      split: if_splits)

end
