(* ===== verification/TradeAsset.thy ===== *)
theory TradeAsset
  imports Validation
begin

text \<open>
  \<^verbatim>\<open>src/src/domain/trades/tradeAssetPolicy.js\<close>: the body of a trade proposal between two
  or three teams, the typed assets in it, the identity that keeps an asset from being traded twice,
  the asset rows made from an accepted body, and the creation command that the repository
  validates again. The body of an asset is described by a \<open>subject\<close>, what the asset is
  about; an accepted asset row is the row of exactly one well-formed subject.

  \<^verbatim>\<open>description\<close> compares with its NFC form, which is the identity on the characters of the
  model. A field \<^verbatim>\<open>participantTeamIds\<close> that is a number other than an integer counts as truthy.
\<close>

section \<open>Errors and field checks\<close>

datatype trade_asset_code =
    AssetInputInvalid
  | AssetStableIdInvalid
  | AssetTypeUnsupported
  | AssetCountInvalid
  | AssetMinimumContributionRequired
  | AssetDuplicate
  | AssetConflict
  | AssetRetentionInvalid
  | AssetDescriptionInvalid
  | AssetAuthorityInvalid
  | AssetTimestampInvalid
  | AssetIdempotencyInvalid
  | AssetIneligible
  | AssetStaleOwnership
  | AssetSnapshotInvalid
  | AssetIdempotencyConflict

definition MAX_ASSETS_PER_SIDE :: nat where
  "MAX_ASSETS_PER_SIDE = 100"

definition TRADE_PROPOSAL_LIFETIME_MS :: int where
  "TRADE_PROPOSAL_LIFETIME_MS = 7 * 24 * 60 * 60 * 1000"

definition TRADE_ASSET_TYPES :: "string list" where
  "TRADE_ASSET_TYPES =
     [''contract'', ''prospect_right'', ''draft_pick'', ''retention_obligation'',
      ''buyout_obligation'', ''future_consideration'', ''future_consideration_instruction'',
      ''requested_retention'']"

definition asset_exactObject :: "string list \<Rightarrow> jsval \<Rightarrow> trade_asset_code + unit" where
  "asset_exactObject = exact_object AssetInputInvalid"

definition asset_stableId :: "jsval \<Rightarrow> trade_asset_code + string" where
  "asset_stableId = stable_id AssetStableIdInvalid"

definition asset_safeTimestamp :: "jsval \<Rightarrow> trade_asset_code + int" where
  "asset_safeTimestamp = safe_between AssetTimestampInvalid 0 max_timestamp"

definition asset_description :: "jsval \<Rightarrow> trade_asset_code + string" where
  "asset_description = bounded_text AssetDescriptionInvalid 500"

definition boundedIdempotencyKey :: "jsval \<Rightarrow> trade_asset_code + string" where
  "boundedIdempotencyKey = bounded_text AssetIdempotencyInvalid 128"

lemmas asset_field_defs =
  asset_exactObject_def asset_stableId_def asset_safeTimestamp_def asset_description_def
  boundedIdempotencyKey_def

text \<open>Whether a field that is a string, null or undefined counts as true.\<close>

fun truthy_text :: "string option \<Rightarrow> bool" where
  "truthy_text None \<longleftrightarrow> False"
| "truthy_text (Some s) \<longleftrightarrow> s \<noteq> []"

section \<open>One asset\<close>

record trade_asset =
  ta_inputType :: string
  ta_assetType :: string
  ta_contractId :: "string option"
  ta_playerId :: "string option"
  ta_draftPickId :: "string option"
  ta_retentionObligationId :: "string option"
  ta_buyoutObligationId :: "string option"
  ta_futureConsiderationId :: "string option"
  ta_requestedRetentionContractId :: "string option"
  ta_requestedRetentionCents :: "int option"
  ta_futureConsiderationDescription :: "string option"

definition blankAsset :: "string \<Rightarrow> trade_asset" where
  "blankAsset inputType =
     \<lparr>ta_inputType = inputType,
      ta_assetType =
        (if inputType = ''future_consideration_instruction'' then ''future_consideration''
         else inputType),
      ta_contractId = None,
      ta_playerId = None,
      ta_draftPickId = None,
      ta_retentionObligationId = None,
      ta_buyoutObligationId = None,
      ta_futureConsiderationId = None,
      ta_requestedRetentionContractId = None,
      ta_requestedRetentionCents = None,
      ta_futureConsiderationDescription = None\<rparr>"

definition validateTradeAssetInput :: "jsval \<Rightarrow> trade_asset_code + trade_asset" where
  "validateTradeAssetInput input =
     (case input of
       JObj _ \<Rightarrow>
         bindE (one_of AssetTypeUnsupported TRADE_ASSET_TYPES (fld input ''type'')) (\<lambda>t.
         let asset = blankAsset t in
         if t = ''contract'' then
           bindE (asset_exactObject [''type'', ''contractId''] input) (\<lambda>_.
           bindE (asset_stableId (fld input ''contractId'')) (\<lambda>i.
           Inr (asset\<lparr>ta_contractId := Some i\<rparr>)))
         else if t = ''prospect_right'' then
           bindE (asset_exactObject [''type'', ''playerId''] input) (\<lambda>_.
           bindE (asset_stableId (fld input ''playerId'')) (\<lambda>i.
           Inr (asset\<lparr>ta_playerId := Some i\<rparr>)))
         else if t = ''draft_pick'' then
           bindE (asset_exactObject [''type'', ''draftPickId''] input) (\<lambda>_.
           bindE (asset_stableId (fld input ''draftPickId'')) (\<lambda>i.
           Inr (asset\<lparr>ta_draftPickId := Some i\<rparr>)))
         else if t = ''retention_obligation'' then
           bindE (asset_exactObject [''type'', ''retentionObligationId''] input) (\<lambda>_.
           bindE (asset_stableId (fld input ''retentionObligationId'')) (\<lambda>i.
           Inr (asset\<lparr>ta_retentionObligationId := Some i\<rparr>)))
         else if t = ''buyout_obligation'' then
           bindE (asset_exactObject [''type'', ''buyoutObligationId''] input) (\<lambda>_.
           bindE (asset_stableId (fld input ''buyoutObligationId'')) (\<lambda>i.
           Inr (asset\<lparr>ta_buyoutObligationId := Some i\<rparr>)))
         else if t = ''future_consideration'' then
           bindE (asset_exactObject [''type'', ''futureConsiderationId''] input) (\<lambda>_.
           bindE (asset_stableId (fld input ''futureConsiderationId'')) (\<lambda>i.
           Inr (asset\<lparr>ta_futureConsiderationId := Some i\<rparr>)))
         else if t = ''future_consideration_instruction'' then
           bindE (asset_exactObject [''type'', ''description''] input) (\<lambda>_.
           bindE (asset_description (fld input ''description'')) (\<lambda>s.
           Inr (asset\<lparr>ta_futureConsiderationDescription := Some s\<rparr>)))
         else
           bindE (asset_exactObject [''type'', ''contractId'', ''retainedAavCents''] input) (\<lambda>_.
           bindE (asset_stableId (fld input ''contractId'')) (\<lambda>i.
           bindE (safe_from AssetRetentionInvalid 1 (fld input ''retainedAavCents'')) (\<lambda>n.
           Inr (asset\<lparr>ta_requestedRetentionContractId := Some i,
                      ta_requestedRetentionCents := Some n\<rparr>)))))
     | _ \<Rightarrow> Inl AssetInputInvalid)"

text \<open>The string that identifies what an asset moves.\<close>

fun text_or_null :: "string option \<Rightarrow> string" where
  "text_or_null None = ''null''"
| "text_or_null (Some s) = s"

definition assetIdentity :: "trade_asset \<Rightarrow> string \<Rightarrow> string \<Rightarrow> string" where
  "assetIdentity asset sourceTeamId destinationTeamId =
     (if truthy_text (ta_contractId asset) then ''contract:'' @ the (ta_contractId asset)
      else if truthy_text (ta_playerId asset) then ''player:'' @ the (ta_playerId asset)
      else if truthy_text (ta_draftPickId asset) then ''draft_pick:'' @ the (ta_draftPickId asset)
      else if truthy_text (ta_retentionObligationId asset)
      then ''retention_obligation:'' @ the (ta_retentionObligationId asset)
      else if truthy_text (ta_buyoutObligationId asset)
      then ''buyout_obligation:'' @ the (ta_buyoutObligationId asset)
      else if truthy_text (ta_futureConsiderationId asset)
      then ''future_consideration:'' @ the (ta_futureConsiderationId asset)
      else if truthy_text (ta_requestedRetentionContractId asset)
      then ''requested_retention:'' @ the (ta_requestedRetentionContractId asset)
      else ''future_consideration_instruction:'' @ sourceTeamId @ '':'' @ destinationTeamId @
           '':'' @ text_or_null (ta_futureConsiderationDescription asset))"

subsection \<open>What an asset is about\<close>

datatype subject =
    SContract string
  | SProspect string
  | SPick string
  | SRetention string
  | SBuyout string
  | SConsideration string
  | SInstruction string
  | SRequested string int

fun asset_of :: "subject \<Rightarrow> trade_asset" where
  "asset_of (SContract i) = (blankAsset ''contract'')\<lparr>ta_contractId := Some i\<rparr>"
| "asset_of (SProspect i) = (blankAsset ''prospect_right'')\<lparr>ta_playerId := Some i\<rparr>"
| "asset_of (SPick i) = (blankAsset ''draft_pick'')\<lparr>ta_draftPickId := Some i\<rparr>"
| "asset_of (SRetention i) =
     (blankAsset ''retention_obligation'')\<lparr>ta_retentionObligationId := Some i\<rparr>"
| "asset_of (SBuyout i) = (blankAsset ''buyout_obligation'')\<lparr>ta_buyoutObligationId := Some i\<rparr>"
| "asset_of (SConsideration i) =
     (blankAsset ''future_consideration'')\<lparr>ta_futureConsiderationId := Some i\<rparr>"
| "asset_of (SInstruction s) =
     (blankAsset ''future_consideration_instruction'')\<lparr>ta_futureConsiderationDescription := Some s\<rparr>"
| "asset_of (SRequested i n) =
     (blankAsset ''requested_retention'')
       \<lparr>ta_requestedRetentionContractId := Some i, ta_requestedRetentionCents := Some n\<rparr>"

fun subject_wf :: "subject \<Rightarrow> bool" where
  "subject_wf (SContract i) \<longleftrightarrow> is_uuid i"
| "subject_wf (SProspect i) \<longleftrightarrow> is_uuid i"
| "subject_wf (SPick i) \<longleftrightarrow> is_uuid i"
| "subject_wf (SRetention i) \<longleftrightarrow> is_uuid i"
| "subject_wf (SBuyout i) \<longleftrightarrow> is_uuid i"
| "subject_wf (SConsideration i) \<longleftrightarrow> is_uuid i"
| "subject_wf (SInstruction s) \<longleftrightarrow> is_bounded_text 500 s"
| "subject_wf (SRequested i n) \<longleftrightarrow> is_uuid i \<and> safe n \<and> 1 \<le> n"

fun subject_fields :: "subject \<Rightarrow> (string \<times> jsval) list" where
  "subject_fields (SContract i) = [(''type'', JStr ''contract''), (''contractId'', JStr i)]"
| "subject_fields (SProspect i) = [(''type'', JStr ''prospect_right''), (''playerId'', JStr i)]"
| "subject_fields (SPick i) = [(''type'', JStr ''draft_pick''), (''draftPickId'', JStr i)]"
| "subject_fields (SRetention i) =
     [(''type'', JStr ''retention_obligation''), (''retentionObligationId'', JStr i)]"
| "subject_fields (SBuyout i) =
     [(''type'', JStr ''buyout_obligation''), (''buyoutObligationId'', JStr i)]"
| "subject_fields (SConsideration i) =
     [(''type'', JStr ''future_consideration''), (''futureConsiderationId'', JStr i)]"
| "subject_fields (SInstruction s) =
     [(''type'', JStr ''future_consideration_instruction''), (''description'', JStr s)]"
| "subject_fields (SRequested i n) =
     [(''type'', JStr ''requested_retention''), (''contractId'', JStr i),
      (''retainedAavCents'', JInt n)]"

definition subject_of :: "trade_asset \<Rightarrow> subject" where
  "subject_of a =
     (case ta_contractId a of Some i \<Rightarrow> SContract i | None \<Rightarrow>
      case ta_playerId a of Some i \<Rightarrow> SProspect i | None \<Rightarrow>
      case ta_draftPickId a of Some i \<Rightarrow> SPick i | None \<Rightarrow>
      case ta_retentionObligationId a of Some i \<Rightarrow> SRetention i | None \<Rightarrow>
      case ta_buyoutObligationId a of Some i \<Rightarrow> SBuyout i | None \<Rightarrow>
      case ta_futureConsiderationId a of Some i \<Rightarrow> SConsideration i | None \<Rightarrow>
      case ta_requestedRetentionContractId a of
        Some i \<Rightarrow> SRequested i (case ta_requestedRetentionCents a of Some n \<Rightarrow> n | None \<Rightarrow> 0)
      | None \<Rightarrow> SInstruction (text_or_null (ta_futureConsiderationDescription a)))"

definition asset_wf :: "trade_asset \<Rightarrow> bool" where
  "asset_wf a \<longleftrightarrow> asset_of (subject_of a) = a \<and> subject_wf (subject_of a)"

definition asset_fields :: "trade_asset \<Rightarrow> (string \<times> jsval) list" where
  "asset_fields a = subject_fields (subject_of a)"

lemma subject_of_asset_of [simp]: "subject_of (asset_of s) = s"
  by (cases s) (simp_all add: subject_of_def blankAsset_def)

lemma asset_of_inj [simp]: "asset_of s = asset_of t \<longleftrightarrow> s = t"
  by (metis subject_of_asset_of)

lemma asset_wf_asset_of [simp]: "asset_wf (asset_of s) \<longleftrightarrow> subject_wf s"
  by (simp add: asset_wf_def)

lemma asset_fields_asset_of [simp]: "asset_fields (asset_of s) = subject_fields s"
  by (simp add: asset_fields_def)

lemma asset_wf_cases:
  assumes "asset_wf a"
  obtains s where "a = asset_of s" "subject_wf s"
  using assms by (metis asset_wf_def)

lemma ex_subject:
  "(\<exists>s. P s) \<longleftrightarrow> (\<exists>i. P (SContract i)) \<or> (\<exists>i. P (SProspect i)) \<or> (\<exists>i. P (SPick i)) \<or>
     (\<exists>i. P (SRetention i)) \<or> (\<exists>i. P (SBuyout i)) \<or> (\<exists>i. P (SConsideration i)) \<or>
     (\<exists>s. P (SInstruction s)) \<or> (\<exists>i n. P (SRequested i n))"
  by (metis subject.exhaust)

lemma same_subject_fields:
  "same_object v (subject_fields s) \<longleftrightarrow>
     exact_object AssetInputInvalid (map fst (subject_fields s)) v = Inr () \<and>
     list_all (\<lambda>(k, w). fld v k = w) (subject_fields s)"
  by (rule same_object_fields) (cases s; simp)

lemma validateTradeAssetInput_iff:
  "validateTradeAssetInput v = Inr a \<longleftrightarrow>
     (\<exists>s. a = asset_of s \<and> subject_wf s \<and> same_object v (subject_fields s))"
proof (cases "\<exists>ps t. v = JObj ps \<and> fld v ''type'' = JStr t \<and> t \<in> set TRADE_ASSET_TYPES")
  case True
  then obtain ps t where v: "v = JObj ps" and t: "fld v ''type'' = JStr t" "t \<in> set TRADE_ASSET_TYPES"
    by blast
  have obj: "(case v of JUndef \<Rightarrow> e1 | JNull \<Rightarrow> e2 | JBool b \<Rightarrow> e3 b | JInt n \<Rightarrow> e4 n | JOther \<Rightarrow> e5
      | JOpaque \<Rightarrow> e6 | JStr x \<Rightarrow> e7 x | JArr y \<Rightarrow> e8 y | JObj qs \<Rightarrow> k qs) = k ps"
    for e1 e2 e3 e4 e5 e6 e7 e8 k
    by (simp add: v)
  have known: "bindE (one_of AssetTypeUnsupported TRADE_ASSET_TYPES (fld v ''type'')) k = k t"
    for k :: "string \<Rightarrow> trade_asset_code + trade_asset"
    using t by (simp add: one_of_def)
  from t(2) have "t \<in> {''contract'', ''prospect_right'', ''draft_pick'', ''retention_obligation'',
      ''buyout_obligation'', ''future_consideration'', ''future_consideration_instruction'',
      ''requested_retention''}" by (simp add: TRADE_ASSET_TYPES_def)
  then show ?thesis
    unfolding ex_subject same_subject_fields validateTradeAssetInput_def obj known Let_def
    by (elim insertE emptyE)
      (simp add: bindE_Inr_iff asset_field_defs stable_id_iff safe_from_iff bounded_text_iff
        t(1);
        rule iffI; elim conjE exE; intro conjI exI; (assumption | (rule sym, assumption)))+
next
  case False
  then have "validateTradeAssetInput v \<noteq> Inr a"
    by (cases v) (auto simp: validateTradeAssetInput_def result_iffs check_iffs)
  moreover have "\<not> same_object v (subject_fields s)" for s
  proof
    assume "same_object v (subject_fields s)"
    then obtain ps where v: "v = JObj ps" and all: "list_all (\<lambda>(k, w). fld v k = w) (subject_fields s)"
      unfolding same_subject_fields exact_object_iff by blast
    have "\<exists>t \<in> set TRADE_ASSET_TYPES. fld v ''type'' = JStr t"
      using all by (cases s) (simp_all add: TRADE_ASSET_TYPES_def)
    with False v show False by blast
  qed
  ultimately show ?thesis by blast
qed

interpretation asset_validator: validator validateTradeAssetInput asset_fields asset_wf
proof
  fix v a
  show "validateTradeAssetInput v = Inr a \<longleftrightarrow> asset_wf a \<and> same_object v (asset_fields a)"
    unfolding validateTradeAssetInput_iff by (metis asset_fields_asset_of asset_wf_asset_of asset_wf_cases)
qed

subsection \<open>Identities\<close>

text \<open>
  What an asset moves, as a value: a requested retention is about its contract whatever the
  amount, an instruction about its text and the two teams; the identity strings distinguish
  exactly these.
\<close>

fun thing :: "string \<Rightarrow> string \<Rightarrow> subject \<Rightarrow> subject \<times> string \<times> string" where
  "thing source destination (SRequested i n) = (SRequested i 0, '''', '''')"
| "thing source destination (SInstruction s) = (SInstruction s, source, destination)"
| "thing source destination s = (s, '''', '''')"

lemma uuid_nonempty [simp]: "is_uuid i \<Longrightarrow> i \<noteq> []"
  using is_uuid_length by fastforce

lemma assetIdentity_asset_of:
  "subject_wf s \<Longrightarrow> assetIdentity (asset_of s) source destination =
     (case s of
        SContract i \<Rightarrow> ''contract:'' @ i
      | SProspect i \<Rightarrow> ''player:'' @ i
      | SPick i \<Rightarrow> ''draft_pick:'' @ i
      | SRetention i \<Rightarrow> ''retention_obligation:'' @ i
      | SBuyout i \<Rightarrow> ''buyout_obligation:'' @ i
      | SConsideration i \<Rightarrow> ''future_consideration:'' @ i
      | SRequested i n \<Rightarrow> ''requested_retention:'' @ i
      | SInstruction t \<Rightarrow>
          ''future_consideration_instruction:'' @ source @ '':'' @ destination @ '':'' @ t)"
  by (cases s) (auto simp: assetIdentity_def blankAsset_def)

lemma assetIdentity_eq_iff:
  assumes "subject_wf s" "subject_wf t"
    and "length source = length source'" "length destination = length destination'"
  shows "assetIdentity (asset_of s) source destination = assetIdentity (asset_of t) source' destination'
     \<longleftrightarrow> thing source destination s = thing source' destination' t"
  unfolding assetIdentity_asset_of [OF assms(1)] assetIdentity_asset_of [OF assms(2)]
  using assms(3,4) by (cases s; cases t) auto

section \<open>The body of a proposal\<close>

text \<open>
  A body names the proposing team, the receiving team (the second participant when there are
  three) and the assets of each side; between three teams every asset names its destination.
\<close>

datatype trade_body =
    TwoTeam string string "trade_asset list" "trade_asset list"
  | ThreeTeam string string "(string \<times> (trade_asset \<times> string) list) list"

definition validateSide :: "jsval \<Rightarrow> trade_asset_code + trade_asset list" where
  "validateSide v =
     (case items v of
       None \<Rightarrow> Inl AssetCountInvalid
     | Some vs \<Rightarrow>
         if length vs < 1 \<or> MAX_ASSETS_PER_SIDE < length vs then Inl AssetCountInvalid
         else mapE validateTradeAssetInput vs)"

definition check_contribution :: "trade_asset list \<Rightarrow> trade_asset_code + unit" where
  "check_contribution side =
     (if list_ex (\<lambda>a. ta_inputType a \<noteq> ''requested_retention'') side then Inr ()
      else Inl AssetMinimumContributionRequired)"

definition check_side :: "trade_asset list \<Rightarrow> trade_asset_code + unit" where
  "check_side side =
     bindE (check_contribution side) (\<lambda>_.
     let contractIds = map ta_contractId (filter (\<lambda>a. truthy_text (ta_contractId a)) side) in
     if list_ex (\<lambda>a. truthy_text (ta_requestedRetentionContractId a) \<and>
               ta_requestedRetentionContractId a \<notin> set contractIds) side
     then Inl AssetRetentionInvalid
     else Inr ())"

definition add_identity ::
    "string list \<Rightarrow> string \<Rightarrow> trade_asset_code + string list" where
  "add_identity identities identity =
     (if identity \<in> set identities then Inl AssetDuplicate else Inr (identities @ [identity]))"

definition three_asset ::
    "string list \<Rightarrow> string \<Rightarrow> string list \<times> (trade_asset \<times> string) list \<Rightarrow> jsval \<Rightarrow>
     trade_asset_code + (string list \<times> (trade_asset \<times> string) list)" where
  "three_asset teamIds teamId state item =
     (case item of
       JObj ps \<Rightarrow>
         (case fld item ''destinationTeamId'' of
           JStr d \<Rightarrow>
             if d \<notin> set teamIds \<or> d = teamId then Inl AssetConflict
             else
               bindE (validateTradeAssetInput
                       (JObj (filter (\<lambda>(k, w). k \<noteq> ''destinationTeamId'') ps))) (\<lambda>asset.
               bindE (add_identity (fst state) (assetIdentity asset teamId d)) (\<lambda>identities.
               Inr (identities, snd state @ [(asset, d)])))
         | _ \<Rightarrow> Inl AssetConflict)
     | _ \<Rightarrow> Inl AssetInputInvalid)"

definition retention_routed :: "(trade_asset \<times> string) list \<Rightarrow> bool" where
  "retention_routed assets \<longleftrightarrow>
     list_all (\<lambda>(a, d). truthy_text (ta_requestedRetentionContractId a) \<longrightarrow>
       list_ex (\<lambda>(c, d'). ta_contractId c = ta_requestedRetentionContractId a \<and> d' = d) assets) assets"

definition three_side ::
    "string list \<Rightarrow> string list \<times> (string \<times> (trade_asset \<times> string) list) list \<Rightarrow> string \<times> jsval \<Rightarrow>
     trade_asset_code + (string list \<times> (string \<times> (trade_asset \<times> string) list) list)" where
  "three_side teamIds state side =
     (case items (fld (snd side) ''assets'') of
       None \<Rightarrow> Inl AssetCountInvalid
     | Some vs \<Rightarrow>
         if length vs < 1 \<or> MAX_ASSETS_PER_SIDE < length vs then Inl AssetCountInvalid
         else
           bindE (foldE (three_asset teamIds (fst side)) (fst state, []) vs) (\<lambda>(identities, assets).
           bindE (check_contribution (map fst assets)) (\<lambda>_.
           if \<not> retention_routed assets then Inl AssetRetentionInvalid
           else Inr (identities, snd state @ [(fst side, assets)]))))"

definition validateThreeTeamInput :: "jsval \<Rightarrow> trade_asset_code + trade_body" where
  "validateThreeTeamInput input =
     bindE (asset_exactObject [''proposingTeamId'', ''participants''] input) (\<lambda>_.
     bindE (asset_stableId (fld input ''proposingTeamId'')) (\<lambda>proposingTeamId.
     case items (fld input ''participants'') of
       None \<Rightarrow> Inl AssetCountInvalid
     | Some sides \<Rightarrow>
         if length sides \<noteq> 3 then Inl AssetCountInvalid
         else
           bindE (mapE (\<lambda>side. bindE (asset_exactObject [''teamId'', ''assets''] side) (\<lambda>_.
                   asset_stableId (fld side ''teamId''))) sides) (\<lambda>teamIds.
           if \<not> distinct teamIds \<or> teamIds ! 0 \<noteq> proposingTeamId then Inl AssetConflict
           else
             bindE (foldE (three_side teamIds) ([], []) (zip teamIds sides)) (\<lambda>(identities, participants).
             Inr (ThreeTeam proposingTeamId (teamIds ! 1) participants)))))"

definition validateTradeProposalCreationInput :: "jsval \<Rightarrow> trade_asset_code + trade_body" where
  "validateTradeProposalCreationInput input =
     (if has_own input ''participants'' then validateThreeTeamInput input
      else
        bindE (asset_exactObject
          [''proposingTeamId'', ''receivingTeamId'', ''proposingAssets'', ''receivingAssets''] input) (\<lambda>_.
        bindE (asset_stableId (fld input ''proposingTeamId'')) (\<lambda>proposingTeamId.
        bindE (asset_stableId (fld input ''receivingTeamId'')) (\<lambda>receivingTeamId.
        if proposingTeamId = receivingTeamId then Inl AssetConflict
        else
          bindE (validateSide (fld input ''proposingAssets'')) (\<lambda>proposingAssets.
          bindE (validateSide (fld input ''receivingAssets'')) (\<lambda>receivingAssets.
          bindE (check_side proposingAssets) (\<lambda>_.
          bindE (check_side receivingAssets) (\<lambda>_.
          bindE (foldE add_identity []
                  (map (\<lambda>a. assetIdentity a proposingTeamId '''') proposingAssets @
                   map (\<lambda>a. assetIdentity a receivingTeamId '''') receivingAssets)) (\<lambda>_.
          Inr (TwoTeam proposingTeamId receivingTeamId proposingAssets receivingAssets))))))))))"

subsection \<open>Loops that collect identities\<close>

text \<open>
  The contract of both loops of the three-team body: a step accepts an entry, adds its keys
  to the identities seen so far and throws when one of them is already there.
\<close>

locale identity_loop =
  fixes advance :: "'k list \<times> 'x list \<Rightarrow> 'v \<Rightarrow> 'e + ('k list \<times> 'x list)"
    and ok :: "'v \<Rightarrow> 'x \<Rightarrow> bool" and keys :: "'x \<Rightarrow> 'k list"
  assumes advance_iff: "advance (ids, acc) v = Inr s' \<longleftrightarrow>
    (\<exists>x. ok v x \<and> distinct (keys x) \<and> set (keys x) \<inter> set ids = {} \<and> s' = (ids @ keys x, acc @ [x]))"
begin

lemma loop_iff:
  "foldE advance (ids, acc) vs = Inr s' \<longleftrightarrow>
     (\<exists>xs. list_all2 ok vs xs \<and> distinct (concat (map keys xs)) \<and>
        set (concat (map keys xs)) \<inter> set ids = {} \<and> s' = (ids @ concat (map keys xs), acc @ xs))"
proof (induction vs arbitrary: ids acc)
  case Nil
  then show ?case by auto
next
  case (Cons v vs)
  have "foldE advance (ids, acc) (v # vs) = Inr s' \<longleftrightarrow>
      (\<exists>x. ok v x \<and> distinct (keys x) \<and> set (keys x) \<inter> set ids = {} \<and>
         foldE advance (ids @ keys x, acc @ [x]) vs = Inr s')"
    by (auto simp: bindE_Inr_iff advance_iff)
  also have "\<dots> \<longleftrightarrow> (\<exists>x xs. ok v x \<and> list_all2 ok vs xs \<and> distinct (concat (map keys (x # xs))) \<and>
      set (concat (map keys (x # xs))) \<inter> set ids = {} \<and>
      s' = (ids @ concat (map keys (x # xs)), acc @ x # xs))"
    unfolding Cons.IH by (simp add: Int_Un_distrib Int_Un_distrib2) blast
  also have "\<dots> \<longleftrightarrow> (\<exists>xs. list_all2 ok (v # vs) xs \<and> distinct (concat (map keys xs)) \<and>
      set (concat (map keys xs)) \<inter> set ids = {} \<and> s' = (ids @ concat (map keys xs), acc @ xs))"
    unfolding list_all2_Cons1 by blast
  finally show ?case .
qed

end

lemma add_identity_iff:
  "add_identity ids x = Inr ids' \<longleftrightarrow> x \<notin> set ids \<and> ids' = ids @ [x]"
  by (auto simp: add_identity_def)

lemma identities_iff:
  "foldE add_identity ids xs = Inr ids' \<longleftrightarrow>
     distinct xs \<and> set xs \<inter> set ids = {} \<and> ids' = ids @ xs"
proof (induction xs arbitrary: ids)
  case (Cons x xs)
  have "foldE add_identity ids (x # xs) = Inr ids' \<longleftrightarrow>
      x \<notin> set ids \<and> foldE add_identity (ids @ [x]) xs = Inr ids'"
    by (auto simp: bindE_Inr_iff add_identity_iff)
  then show ?case unfolding Cons.IH by auto
qed auto

subsection \<open>Well-formed bodies\<close>

fun is_request :: "subject \<Rightarrow> bool" where
  "is_request (SRequested i n) \<longleftrightarrow> True"
| "is_request s \<longleftrightarrow> False"

text \<open>
  A side, as assets with their destinations: 1 to 100 well-formed assets, one of them not a
  requested retention, and every requested retention on a contract that goes with it.
\<close>

definition side_wf :: "(trade_asset \<times> string) list \<Rightarrow> bool" where
  "side_wf side \<longleftrightarrow>
     1 \<le> length side \<and> length side \<le> MAX_ASSETS_PER_SIDE \<and> list_all asset_wf (map fst side) \<and>
     list_ex (\<lambda>(a, d). \<not> is_request (subject_of a)) side \<and>
     list_all (\<lambda>(a, d). case subject_of a of
         SRequested i n \<Rightarrow> (asset_of (SContract i), d) \<in> set side | _ \<Rightarrow> True) side"

text \<open>Every asset with the team it leaves and the team it goes to.\<close>

fun deals :: "trade_body \<Rightarrow> (string \<times> string \<times> trade_asset) list" where
  "deals (TwoTeam p r pa ra) = map (\<lambda>a. (p, r, a)) pa @ map (\<lambda>a. (r, p, a)) ra"
| "deals (ThreeTeam p r sides) = concat (map (\<lambda>(t, side). map (\<lambda>(a, d). (t, d, a)) side) sides)"

definition things :: "trade_body \<Rightarrow> (subject \<times> string \<times> string) list" where
  "things b = map (\<lambda>(s, d, a). thing s d (subject_of a)) (deals b)"

fun body_wf :: "trade_body \<Rightarrow> bool" where
  "body_wf (TwoTeam p r pa ra) \<longleftrightarrow>
     is_uuid p \<and> is_uuid r \<and> p \<noteq> r \<and>
     side_wf (map (\<lambda>a. (a, r)) pa) \<and> side_wf (map (\<lambda>a. (a, p)) ra) \<and>
     distinct (things (TwoTeam p r pa ra))"
| "body_wf (ThreeTeam p r sides) \<longleftrightarrow>
     length sides = 3 \<and> list_all is_uuid (map fst sides) \<and> distinct (map fst sides) \<and>
     p = fst (sides ! 0) \<and> r = fst (sides ! 1) \<and>
     list_all (\<lambda>(t, side). side_wf side \<and>
       list_all (\<lambda>(a, d). d \<in> set (map fst sides) \<and> d \<noteq> t) side) sides \<and>
     distinct (things (ThreeTeam p r sides))"

fun body_fields :: "trade_body \<Rightarrow> (string \<times> jsval) list" where
  "body_fields (TwoTeam p r pa ra) =
     [(''proposingTeamId'', JStr p), (''receivingTeamId'', JStr r),
      (''proposingAssets'', JArr (map (\<lambda>a. JObj (asset_fields a)) pa)),
      (''receivingAssets'', JArr (map (\<lambda>a. JObj (asset_fields a)) ra))]"
| "body_fields (ThreeTeam p r sides) =
     [(''proposingTeamId'', JStr p),
      (''participants'', JArr (map (\<lambda>(t, side). JObj
         [(''teamId'', JStr t),
          (''assets'', JArr (map (\<lambda>(a, d). JObj (asset_fields a @ [(''destinationTeamId'', JStr d)])) side))])
         sides))]"

subsection \<open>The checks of a side\<close>

lemma asset_of_fields [simp]:
  "ta_inputType (asset_of s) = ''requested_retention'' \<longleftrightarrow> is_request s"
  "ta_contractId (asset_of s) = (case s of SContract i \<Rightarrow> Some i | _ \<Rightarrow> None)"
  "ta_requestedRetentionContractId (asset_of s) = (case s of SRequested i n \<Rightarrow> Some i | _ \<Rightarrow> None)"
  by (cases s; simp add: blankAsset_def)+

declare asset_of.simps [simp del]

lemma check_contribution_iff [result_iffs]:
  "check_contribution side = Inr u \<longleftrightarrow> list_ex (\<lambda>a. ta_inputType a \<noteq> ''requested_retention'') side"
  by (simp add: check_contribution_def)

text \<open>For well-formed assets, a contract identifier names the contract's asset row.\<close>

lemma contract_id_iff:
  assumes "asset_wf c" and "is_uuid i"
  shows "ta_contractId c = Some i \<longleftrightarrow> c = asset_of (SContract i)"
  using assms by (elim asset_wf_cases) (auto split: subject.splits)

lemma request_contract_iff:
  assumes "asset_wf a"
  shows "truthy_text (ta_requestedRetentionContractId a) \<longleftrightarrow> is_request (subject_of a)"
    and "is_request (subject_of a) \<Longrightarrow> \<exists>i n. subject_of a = SRequested i n \<and> is_uuid i \<and>
      ta_requestedRetentionContractId a = Some i"
proof -
  obtain s where s: "a = asset_of s" "subject_wf s" using assms by (rule asset_wf_cases)
  show "truthy_text (ta_requestedRetentionContractId a) \<longleftrightarrow> is_request (subject_of a)"
    using s by (cases s) auto
  show "\<exists>i n. subject_of a = SRequested i n \<and> is_uuid i \<and>
      ta_requestedRetentionContractId a = Some i" if "is_request (subject_of a)"
    using s that by (cases s) auto
qed

lemma inputType_iff:
  "asset_wf a \<Longrightarrow> ta_inputType a = ''requested_retention'' \<longleftrightarrow> is_request (subject_of a)"
  by (elim asset_wf_cases) simp

definition retention_wf :: "(trade_asset \<times> string) list \<Rightarrow> bool" where
  "retention_wf side \<longleftrightarrow>
     list_all (\<lambda>(a, d). case subject_of a of
         SRequested i n \<Rightarrow> (asset_of (SContract i), d) \<in> set side | _ \<Rightarrow> True) side"

lemma retention_routed_iff:
  assumes wf: "list_all asset_wf (map fst side)"
  shows "retention_routed side \<longleftrightarrow> retention_wf side"
proof -
  have "(truthy_text (ta_requestedRetentionContractId a) \<longrightarrow>
       list_ex (\<lambda>(c, d'). ta_contractId c = ta_requestedRetentionContractId a \<and> d' = d) side) \<longleftrightarrow>
     (case subject_of a of SRequested i n \<Rightarrow> (asset_of (SContract i), d) \<in> set side | _ \<Rightarrow> True)"
    if "(a, d) \<in> set side" for a d
  proof (cases "is_request (subject_of a)")
    case True
    have "asset_wf a" using wf that by (auto simp: list_all_iff)
    from request_contract_iff(2) [OF this True]
    obtain i n where s: "subject_of a = SRequested i n" "is_uuid i"
      "ta_requestedRetentionContractId a = Some i" by blast
    have "list_ex (\<lambda>(c, d'). ta_contractId c = Some i \<and> d' = d) side \<longleftrightarrow>
        (\<exists>(c, d') \<in> set side. c = asset_of (SContract i) \<and> d' = d)"
      unfolding list_ex_iff using wf contract_id_iff [OF _ s(2)]
      by (intro bex_cong refl) (auto simp: list_all_iff)
    then show ?thesis using s by force
  next
    case False
    have "asset_wf a" using wf that by (auto simp: list_all_iff)
    with False show ?thesis by (cases "subject_of a") (simp_all add: request_contract_iff(1))
  qed
  then show ?thesis unfolding retention_routed_def retention_wf_def list_all_iff by blast
qed

text \<open>The two-team check is the routed one with a single destination.\<close>

lemma check_side_iff:
  assumes wf: "list_all asset_wf side"
  shows "check_side side = Inr u \<longleftrightarrow>
    list_ex (\<lambda>a. \<not> is_request (subject_of a)) side \<and> retention_wf (map (\<lambda>a. (a, d)) side)"
proof -
  have key: "(truthy_text (ta_requestedRetentionContractId a) \<longrightarrow>
        (\<exists>c \<in> set side. ta_contractId c = ta_requestedRetentionContractId a)) \<longleftrightarrow>
      \<not> (truthy_text (ta_requestedRetentionContractId a) \<and>
        ta_requestedRetentionContractId a \<notin>
          ta_contractId ` {c \<in> set side. truthy_text (ta_contractId c)})" for a
    by (auto simp: image_iff; metis)
  have "retention_routed (map (\<lambda>a. (a, d)) side) \<longleftrightarrow>
      (\<forall>a \<in> set side. truthy_text (ta_requestedRetentionContractId a) \<longrightarrow>
        (\<exists>c \<in> set side. ta_contractId c = ta_requestedRetentionContractId a))"
    by (simp add: retention_routed_def list_all_iff list_ex_iff)
  also have "\<dots> \<longleftrightarrow> \<not> list_ex (\<lambda>a. truthy_text (ta_requestedRetentionContractId a) \<and>
        ta_requestedRetentionContractId a \<notin>
          ta_contractId ` {c \<in> set side. truthy_text (ta_contractId c)}) side"
    unfolding key list_ex_iff by blast
  finally have "retention_routed (map (\<lambda>a. (a, d)) side) \<longleftrightarrow>
      \<not> list_ex (\<lambda>a. truthy_text (ta_requestedRetentionContractId a) \<and>
        ta_requestedRetentionContractId a \<notin>
          ta_contractId ` {c \<in> set side. truthy_text (ta_contractId c)}) side" .
  moreover have "list_ex (\<lambda>a. ta_inputType a \<noteq> ''requested_retention'') side \<longleftrightarrow>
      list_ex (\<lambda>a. \<not> is_request (subject_of a)) side"
    using wf by (auto simp: list_ex_iff list_all_iff inputType_iff)
  moreover have "list_all asset_wf (map fst (map (\<lambda>a. (a, d)) side))"
    using wf by (simp add: comp_def)
  ultimately show ?thesis
    by (simp add: check_side_def bindE_Inr_iff check_contribution_iff Let_def retention_routed_iff)
qed

lemma side_wf_iff:
  "side_wf side \<longleftrightarrow> 1 \<le> length side \<and> length side \<le> MAX_ASSETS_PER_SIDE \<and>
     list_all asset_wf (map fst side) \<and>
     list_ex (\<lambda>(a, d). \<not> is_request (subject_of a)) side \<and> retention_wf side"
  by (simp add: side_wf_def retention_wf_def)

lemma validateSide_iff:
  "validateSide v = Inr side \<longleftrightarrow> (\<exists>vs. v = JArr vs \<and> 1 \<le> length vs \<and>
     length vs \<le> MAX_ASSETS_PER_SIDE \<and> mapE validateTradeAssetInput vs = Inr side)"
  by (cases v) (auto simp: validateSide_def not_less Suc_le_eq split: if_splits)

lemma checked_side_wf:
  assumes "validateSide v = Inr side"
  shows "check_side side = Inr u \<longleftrightarrow> side_wf (map (\<lambda>a. (a, d)) side)"
proof -
  from assms obtain vs where vs: "1 \<le> length vs" "length vs \<le> MAX_ASSETS_PER_SIDE"
    "mapE validateTradeAssetInput vs = Inr side" by (auto simp: validateSide_iff)
  note wf = asset_validator.mapE_parse_wf [OF vs(3)]
  show ?thesis
    unfolding check_side_iff [OF wf, of u d] side_wf_iff using vs(1,2) wf mapE_Inr_length [OF vs(3)]
    by (simp add: comp_def list_ex_iff)
qed

lemma validateSide_encode:
  assumes "side_wf (map (\<lambda>a. (a, d)) side)"
  shows "validateSide (JArr (map (\<lambda>a. JObj (asset_fields a)) side)) = Inr side"
  using assms asset_validator.mapE_parse_encode [of side]
  by (simp add: validateSide_iff side_wf_iff comp_def)

subsection \<open>The loops of a three-team body\<close>

definition item_ok :: "string list \<Rightarrow> string \<Rightarrow> jsval \<Rightarrow> trade_asset \<times> string \<Rightarrow> bool" where
  "item_ok teamIds teamId item x \<longleftrightarrow>
     (\<exists>ps. item = JObj ps \<and> fld item ''destinationTeamId'' = JStr (snd x) \<and>
        snd x \<in> set teamIds \<and> snd x \<noteq> teamId \<and>
        validateTradeAssetInput (JObj (filter (\<lambda>(k, w). k \<noteq> ''destinationTeamId'') ps)) = Inr (fst x))"

definition item_keys :: "string \<Rightarrow> trade_asset \<times> string \<Rightarrow> string list" where
  "item_keys teamId x = [assetIdentity (fst x) teamId (snd x)]"

interpretation item_loop: identity_loop "three_asset teamIds teamId" "item_ok teamIds teamId" "item_keys teamId"
  for teamIds teamId
proof
  fix ids acc v s'
  show "three_asset teamIds teamId (ids, acc) v = Inr s' \<longleftrightarrow>
      (\<exists>x. item_ok teamIds teamId v x \<and> distinct (item_keys teamId x) \<and>
        set (item_keys teamId x) \<inter> set ids = {} \<and> s' = (ids @ item_keys teamId x, acc @ [x]))"
  proof (cases "\<exists>ps d. v = JObj ps \<and> fld v ''destinationTeamId'' = JStr d")
    case True
    then obtain ps d where "v = JObj ps" "fld v ''destinationTeamId'' = JStr d" by blast
    then show ?thesis
      by (auto simp: three_asset_def item_ok_def item_keys_def bindE_Inr_iff add_identity_iff)
  next
    case False
    then show ?thesis
      by (auto simp: three_asset_def item_ok_def split: jsval.splits)
  qed
qed

definition side_ok :: "string list \<Rightarrow> string \<times> jsval \<Rightarrow> string \<times> (trade_asset \<times> string) list \<Rightarrow> bool" where
  "side_ok teamIds side x \<longleftrightarrow> fst x = fst side \<and>
     (\<exists>vs. fld (snd side) ''assets'' = JArr vs \<and> 1 \<le> length vs \<and> length vs \<le> MAX_ASSETS_PER_SIDE \<and>
        list_all2 (item_ok teamIds (fst side)) vs (snd x)) \<and>
     list_ex (\<lambda>a. ta_inputType a \<noteq> ''requested_retention'') (map fst (snd x)) \<and>
     retention_routed (snd x)"

definition side_keys :: "string \<times> (trade_asset \<times> string) list \<Rightarrow> string list" where
  "side_keys x = map (\<lambda>y. assetIdentity (fst y) (fst x) (snd y)) (snd x)"

lemma concat_item_keys [simp]: "concat (map (item_keys t) xs) = side_keys (t, xs)"
  by (induction xs) (simp_all add: item_keys_def side_keys_def)

interpretation side_loop: identity_loop "three_side teamIds" "side_ok teamIds" side_keys for teamIds
proof
  fix ids acc side s'
  show "three_side teamIds (ids, acc) side = Inr s' \<longleftrightarrow>
      (\<exists>x. side_ok teamIds side x \<and> distinct (side_keys x) \<and> set (side_keys x) \<inter> set ids = {} \<and>
        s' = (ids @ side_keys x, acc @ [x]))"
  proof (cases "\<exists>vs. fld (snd side) ''assets'' = JArr vs \<and> 1 \<le> length vs \<and> length vs \<le> MAX_ASSETS_PER_SIDE")
    case True
    then obtain vs where "fld (snd side) ''assets'' = JArr vs" "1 \<le> length vs"
      "length vs \<le> MAX_ASSETS_PER_SIDE" by blast
    then show ?thesis
      by (simp add: three_side_def side_ok_def bindE_Inr_iff item_loop.loop_iff check_contribution_iff
          split_def if_Inl_eq_Inr) (cases side; auto)
  next
    case False
    then show ?thesis
      by (cases "fld (snd side) ''assets''")
        (auto simp: three_side_def side_ok_def Suc_le_eq not_less)
  qed
qed

subsection \<open>Accepted bodies\<close>

lemma distinct_map_same:
  "(\<And>x y. x \<in> set xs \<Longrightarrow> y \<in> set xs \<Longrightarrow> f x = f y \<longleftrightarrow> g x = g y) \<Longrightarrow>
   distinct (map f xs) \<longleftrightarrow> distinct (map g xs)"
  by (simp add: distinct_map inj_on_def)

definition deal_ok :: "string \<times> string \<times> trade_asset \<Rightarrow> bool" where
  "deal_ok = (\<lambda>(s, d, a). is_uuid s \<and> is_uuid d \<and> asset_wf a)"

lemma routed_identities:
  assumes "list_all deal_ok D"
  shows "distinct (map (\<lambda>(s, d, a). assetIdentity a s d) D) \<longleftrightarrow>
    distinct (map (\<lambda>(s, d, a). thing s d (subject_of a)) D)"
proof (rule distinct_map_same)
  fix x y assume "x \<in> set D" "y \<in> set D"
  with assms have "deal_ok x" "deal_ok y" by (auto simp: list_all_iff)
  then show "(case x of (s, d, a) \<Rightarrow> assetIdentity a s d) = (case y of (s, d, a) \<Rightarrow> assetIdentity a s d) \<longleftrightarrow>
      (case x of (s, d, a) \<Rightarrow> thing s d (subject_of a)) = (case y of (s, d, a) \<Rightarrow> thing s d (subject_of a))"
    by (auto simp: deal_ok_def is_uuid_length assetIdentity_eq_iff elim!: asset_wf_cases)
qed

text \<open>Between two teams the source determines the destination and is all that is written.\<close>

lemma thing_source:
  "(s = s' \<longleftrightarrow> d = d') \<Longrightarrow> thing s '''' x = thing s' '''' y \<longleftrightarrow> thing s d x = thing s' d' y"
  by (cases x; cases y) auto

lemma sourced_identities:
  assumes "list_all deal_ok D" and dest: "\<And>s d a s' d' a'. (s, d, a) \<in> set D \<Longrightarrow> (s', d', a') \<in> set D \<Longrightarrow> s = s' \<longleftrightarrow> d = d'"
  shows "distinct (map (\<lambda>(s, d, a). assetIdentity a s '''') D) \<longleftrightarrow>
    distinct (map (\<lambda>(s, d, a). thing s d (subject_of a)) D)"
proof (rule distinct_map_same)
  fix x y assume xy: "x \<in> set D" "y \<in> set D"
  obtain s d a where x: "x = (s, d, a)" by (cases x)
  obtain s' d' a' where y: "y = (s', d', a')" by (cases y)
  from assms(1) xy have ok: "deal_ok x" "deal_ok y" by (auto simp: list_all_iff)
  obtain u where u: "a = asset_of u" "subject_wf u"
    using ok(1) x by (auto simp: deal_ok_def elim: asset_wf_cases)
  obtain w where w: "a' = asset_of w" "subject_wf w"
    using ok(2) y by (auto simp: deal_ok_def elim: asset_wf_cases)
  have len: "length s = length s'" using ok x y by (simp add: deal_ok_def is_uuid_length)
  have "assetIdentity a s '''' = assetIdentity a' s' '''' \<longleftrightarrow> thing s '''' u = thing s' '''' w"
    unfolding u(1) w(1) by (rule assetIdentity_eq_iff [OF u(2) w(2) len refl])
  also have "\<dots> \<longleftrightarrow> thing s d u = thing s' d' w"
    using dest xy x y by (intro thing_source) blast
  finally show "(case x of (s, d, a) \<Rightarrow> assetIdentity a s '''') = (case y of (s, d, a) \<Rightarrow> assetIdentity a s '''') \<longleftrightarrow>
      (case x of (s, d, a) \<Rightarrow> thing s d (subject_of a)) = (case y of (s, d, a) \<Rightarrow> thing s d (subject_of a))"
    by (simp add: x y u w)
qed

lemma two_team_distinct:
  assumes "is_uuid p" "is_uuid r" "p \<noteq> r" "list_all asset_wf pa" "list_all asset_wf ra"
  shows "distinct (map (\<lambda>a. assetIdentity a p '''') pa @ map (\<lambda>a. assetIdentity a r '''') ra) \<longleftrightarrow>
    distinct (things (TwoTeam p r pa ra))"
proof -
  have eq: "map (\<lambda>a. assetIdentity a p '''') pa @ map (\<lambda>a. assetIdentity a r '''') ra =
      map (\<lambda>(s, d, a). assetIdentity a s '''') (deals (TwoTeam p r pa ra))"
    by (simp add: comp_def)
  show ?thesis
    unfolding eq things_def
    using assms by (intro sourced_identities) (auto simp: list_all_iff deal_ok_def)
qed

lemma three_team_distinct:
  assumes "list_all deal_ok (deals (ThreeTeam p r sides))"
  shows "distinct (concat (map side_keys sides)) \<longleftrightarrow> distinct (things (ThreeTeam p r sides))"
proof -
  have eq: "concat (map side_keys sides) =
      map (\<lambda>(s, d, a). assetIdentity a s d) (deals (ThreeTeam p r sides))"
    by (induction sides) (auto simp: side_keys_def comp_def split_def)
  show ?thesis unfolding eq things_def using assms by (rule routed_identities)
qed

lemma two_team_iff:
  assumes "\<not> has_own v ''participants''"
  shows "validateTradeProposalCreationInput v = Inr b \<longleftrightarrow>
    exact_object AssetInputInvalid
      [''proposingTeamId'', ''receivingTeamId'', ''proposingAssets'', ''receivingAssets''] v = Inr () \<and>
    (\<exists>p r pa ra. fld v ''proposingTeamId'' = JStr p \<and> fld v ''receivingTeamId'' = JStr r \<and>
       validateSide (fld v ''proposingAssets'') = Inr pa \<and>
       validateSide (fld v ''receivingAssets'') = Inr ra \<and>
       body_wf (TwoTeam p r pa ra) \<and> b = TwoTeam p r pa ra)"
proof -
  have wf: "list_all asset_wf side" if "validateSide w = Inr side" for w side
    using that by (auto simp: validateSide_iff dest: asset_validator.mapE_parse_wf)
  have "check_side pa = Inr () \<and> check_side ra = Inr () \<and>
      distinct (map (\<lambda>a. assetIdentity a p '''') pa @ map (\<lambda>a. assetIdentity a r '''') ra) \<and>
      is_uuid p \<and> is_uuid r \<and> p \<noteq> r \<longleftrightarrow> body_wf (TwoTeam p r pa ra)"
    if "validateSide w = Inr pa" "validateSide w' = Inr ra" for w w' p r pa ra
    using two_team_distinct [of p r pa ra] wf that checked_side_wf [OF that(1), of "()" r]
      checked_side_wf [OF that(2), of "()" p] by auto
  note key = this
  show ?thesis (is "?l \<longleftrightarrow> ?r")
  proof
    assume ?l
    then obtain p r pa ra ids where
      keys: "exact_object AssetInputInvalid
        [''proposingTeamId'', ''receivingTeamId'', ''proposingAssets'', ''receivingAssets''] v = Inr ()"
      and ids: "fld v ''proposingTeamId'' = JStr p" "fld v ''receivingTeamId'' = JStr r"
      and sides: "validateSide (fld v ''proposingAssets'') = Inr pa" "validateSide (fld v ''receivingAssets'') = Inr ra"
      and ok: "check_side pa = Inr ()" "check_side ra = Inr ()" "is_uuid p" "is_uuid r" "p \<noteq> r"
        "foldE add_identity [] (map (\<lambda>a. assetIdentity a p '''') pa @
          map (\<lambda>a. assetIdentity a r '''') ra) = Inr ids"
      and b: "b = TwoTeam p r pa ra"
      using assms
      by (auto simp: validateTradeProposalCreationInput_def bindE_Inr_iff asset_field_defs stable_id_iff
          split: if_splits)
    from ok(6) have "distinct (map (\<lambda>a. assetIdentity a p '''') pa @ map (\<lambda>a. assetIdentity a r '''') ra)"
      unfolding identities_iff by blast
    with ok(1-5) key [OF sides] have "body_wf (TwoTeam p r pa ra)" by blast
    with keys ids sides b show ?r by blast
  next
    assume ?r
    then obtain p r pa ra where
      keys: "exact_object AssetInputInvalid
        [''proposingTeamId'', ''receivingTeamId'', ''proposingAssets'', ''receivingAssets''] v = Inr ()"
      and ids: "fld v ''proposingTeamId'' = JStr p" "fld v ''receivingTeamId'' = JStr r"
      and sides: "validateSide (fld v ''proposingAssets'') = Inr pa" "validateSide (fld v ''receivingAssets'') = Inr ra"
      and wf: "body_wf (TwoTeam p r pa ra)" and b: "b = TwoTeam p r pa ra" by blast
    from wf key [OF sides] have ok: "check_side pa = Inr ()" "check_side ra = Inr ()" "is_uuid p" "is_uuid r" "p \<noteq> r"
      and "distinct (map (\<lambda>a. assetIdentity a p '''') pa @ map (\<lambda>a. assetIdentity a r '''') ra)" by blast+
    then have "foldE add_identity [] (map (\<lambda>a. assetIdentity a p '''') pa @ map (\<lambda>a. assetIdentity a r '''') ra) =
        Inr (map (\<lambda>a. assetIdentity a p '''') pa @ map (\<lambda>a. assetIdentity a r '''') ra)"
      by (simp add: identities_iff)
    with assms keys ids sides ok b show ?l
      by (simp add: validateTradeProposalCreationInput_def asset_field_defs)
  qed
qed

definition team_entry :: "jsval \<Rightarrow> trade_asset_code + string" where
  "team_entry side =
     bindE (asset_exactObject [''teamId'', ''assets''] side) (\<lambda>_. asset_stableId (fld side ''teamId''))"

lemma list_all2_right:
  "list_all2 P xs ys \<Longrightarrow> y \<in> set ys \<Longrightarrow> \<exists>x \<in> set xs. P x y"
  by (induction xs ys rule: list_all2_induct) auto

lemma three_team_parse:
  "validateThreeTeamInput v = Inr b \<longleftrightarrow>
    exact_object AssetInputInvalid [''proposingTeamId'', ''participants''] v = Inr () \<and>
    (\<exists>p sides teamIds parts. fld v ''proposingTeamId'' = JStr p \<and> is_uuid p \<and>
       fld v ''participants'' = JArr sides \<and> length sides = 3 \<and>
       mapE team_entry sides = Inr teamIds \<and> distinct teamIds \<and> teamIds ! 0 = p \<and>
       list_all2 (side_ok teamIds) (zip teamIds sides) parts \<and>
       distinct (concat (map side_keys parts)) \<and> b = ThreeTeam p (teamIds ! 1) parts)" (is "?l \<longleftrightarrow> ?r")
proof
  assume ?l
  then obtain p sides teamIds parts ids where
    keys: "exact_object AssetInputInvalid [''proposingTeamId'', ''participants''] v = Inr ()"
    and p: "fld v ''proposingTeamId'' = JStr p" "is_uuid p" "fld v ''participants'' = JArr sides"
      "length sides = 3" "mapE team_entry sides = Inr teamIds" "distinct teamIds" "teamIds ! 0 = p"
    and loop: "foldE (three_side teamIds) ([], []) (zip teamIds sides) = Inr (ids, parts)"
    and b: "b = ThreeTeam p (teamIds ! 1) parts"
    by (auto simp: validateThreeTeamInput_def bindE_Inr_iff asset_exactObject_def asset_stableId_def
        stable_id_iff case_items_Inr team_entry_def [abs_def] split: if_splits)
  from loop have "list_all2 (side_ok teamIds) (zip teamIds sides) parts" "distinct (concat (map side_keys parts))"
    unfolding side_loop.loop_iff by auto
  with keys p b show ?r by blast
next
  assume ?r
  then obtain p sides teamIds parts where
    keys: "exact_object AssetInputInvalid [''proposingTeamId'', ''participants''] v = Inr ()"
    and p: "fld v ''proposingTeamId'' = JStr p" "is_uuid p" "fld v ''participants'' = JArr sides"
      "length sides = 3" "mapE team_entry sides = Inr teamIds" "distinct teamIds" "teamIds ! 0 = p"
    and ok: "list_all2 (side_ok teamIds) (zip teamIds sides) parts" "distinct (concat (map side_keys parts))"
    and b: "b = ThreeTeam p (teamIds ! 1) parts" by blast
  from ok have "foldE (three_side teamIds) ([], []) (zip teamIds sides) = Inr (concat (map side_keys parts), parts)"
    unfolding side_loop.loop_iff by simp
  with keys p b show ?l
    by (simp add: validateThreeTeamInput_def asset_exactObject_def asset_stableId_def team_entry_def [abs_def])
qed

lemma three_team_parseI:
  "exact_object AssetInputInvalid [''proposingTeamId'', ''participants''] v = Inr () \<Longrightarrow>
   fld v ''proposingTeamId'' = JStr p \<Longrightarrow> is_uuid p \<Longrightarrow> fld v ''participants'' = JArr sides \<Longrightarrow>
   length sides = 3 \<Longrightarrow> mapE team_entry sides = Inr teamIds \<Longrightarrow> distinct teamIds \<Longrightarrow> teamIds ! 0 = p \<Longrightarrow>
   list_all2 (side_ok teamIds) (zip teamIds sides) parts \<Longrightarrow> distinct (concat (map side_keys parts)) \<Longrightarrow>
   validateThreeTeamInput v = Inr (ThreeTeam p (teamIds ! 1) parts)"
  unfolding three_team_parse by blast

lemma side_ok_wf:
  assumes "side_ok teamIds side x"
  shows "side_wf (snd x)" "list_all (\<lambda>(a, d). d \<in> set teamIds \<and> d \<noteq> fst x) (snd x)"
proof -
  from assms obtain vs where vs: "1 \<le> length vs" "length vs \<le> MAX_ASSETS_PER_SIDE"
    "list_all2 (item_ok teamIds (fst side)) vs (snd x)" and x: "fst x = fst side"
    and ex: "list_ex (\<lambda>a. ta_inputType a \<noteq> ''requested_retention'') (map fst (snd x))"
    and route: "retention_routed (snd x)"
    by (auto simp: side_ok_def)
  have item: "\<exists>v. item_ok teamIds (fst side) v y" if "y \<in> set (snd x)" for y
    using list_all2_right [OF vs(3) that] by blast
  have wf: "list_all asset_wf (map fst (snd x))"
    using item asset_validator.parse_wf by (force simp: list_all_iff item_ok_def)
  have "list_ex (\<lambda>(a, d). \<not> is_request (subject_of a)) (snd x)"
    using ex wf by (force simp: list_ex_iff list_all_iff inputType_iff)
  then show "side_wf (snd x)"
    using vs wf route by (simp add: side_wf_iff retention_routed_iff list_all2_lengthD)
  show "list_all (\<lambda>(a, d). d \<in> set teamIds \<and> d \<noteq> fst x) (snd x)"
    using item by (force simp: list_all_iff item_ok_def x)
qed

lemma deals_ok:
  assumes "list_all is_uuid (map fst sides)"
    and "\<And>x. x \<in> set sides \<Longrightarrow> side_wf (snd x) \<and> list_all (\<lambda>(a, d). d \<in> set (map fst sides) \<and> d \<noteq> fst x) (snd x)"
  shows "list_all deal_ok (deals (ThreeTeam p r sides))"
proof -
  have "is_uuid t \<and> is_uuid d \<and> asset_wf a" if "(t, side) \<in> set sides" "(a, d) \<in> set side" for t side a d
  proof -
    have "side_wf side" "d \<in> set (map fst sides)" using assms(2) [OF that(1)] that(2) by (auto simp: list_all_iff)
    then have "asset_wf a" "is_uuid d" using assms(1) that(2) by (auto simp: side_wf_iff list_all_iff)
    moreover have "is_uuid t" using assms(1) that(1) by (force simp: list_all_iff)
    ultimately show ?thesis by blast
  qed
  then show ?thesis by (auto simp: list_all_iff deal_ok_def)
qed

lemma three_team_sound:
  assumes "validateThreeTeamInput v = Inr b"
  shows "body_wf b"
proof -
  from assms obtain p sides teamIds parts where
    p: "is_uuid p" "length sides = 3" "mapE team_entry sides = Inr teamIds" "distinct teamIds" "teamIds ! 0 = p"
    and ok: "list_all2 (side_ok teamIds) (zip teamIds sides) parts" "distinct (concat (map side_keys parts))"
    and b: "b = ThreeTeam p (teamIds ! 1) parts" unfolding three_team_parse by blast
  have len: "length teamIds = 3" "length parts = 3"
    using p(2,3) ok(1) mapE_Inr_length list_all2_lengthD by fastforce+
  have fst: "map fst parts = teamIds"
  proof (rule nth_equalityI)
    fix i assume "i < length (map fst parts)"
    then show "map fst parts ! i = teamIds ! i"
      using ok(1) len p(2) by (auto simp: list_all2_conv_all_nth side_ok_def)
  qed (simp add: len)
  have uuids: "list_all is_uuid teamIds"
    using mapE_Inr_all [OF p(3), of is_uuid]
    by (auto simp: list_all_iff team_entry_def bindE_Inr_iff asset_stableId_def stable_id_iff)
  have sides: "side_wf (snd x) \<and> list_all (\<lambda>(a, d). d \<in> set (map fst parts) \<and> d \<noteq> fst x) (snd x)"
    if "x \<in> set parts" for x
  proof -
    obtain y where "side_ok teamIds y x" using list_all2_right [OF ok(1) \<open>x \<in> set parts\<close>] by blast
    then show ?thesis unfolding fst using side_ok_wf by blast
  qed
  have "list_all deal_ok (deals (ThreeTeam p (teamIds ! 1) parts))"
    using uuids sides unfolding fst [symmetric] by (rule deals_ok)
  from three_team_distinct [OF this] ok(2)
  have "distinct (things (ThreeTeam p (teamIds ! 1) parts))" by blast
  moreover have nth: "fst (parts ! i) = teamIds ! i" if "i < 3" for i using fst len that by (metis nth_map)
  moreover have "list_all (\<lambda>(t, side). side_wf side \<and>
      list_all (\<lambda>(a, d). d \<in> set (map fst parts) \<and> d \<noteq> t) side) parts"
    unfolding list_all_iff [of _ parts] using sides by (simp add: split_def)
  ultimately show ?thesis
    unfolding b body_wf.simps using len(2) p(4,5) uuids by (simp add: fst)
qed

text \<open>Completeness: every well-formed body is read back from its object.\<close>

lemma asset_fields_no_destination:
  "asset_wf a \<Longrightarrow> ''destinationTeamId'' \<notin> fst ` set (asset_fields a)"
  by (cases "subject_of a") (simp_all add: asset_fields_def)

lemma filter_other_keys:
  "k \<notin> fst ` set ps \<Longrightarrow> filter (\<lambda>(k', w). k' \<noteq> k) (ps @ [(k, u)]) = ps"
  by (induction ps) auto

lemma fld_append_last:
  "k \<notin> fst ` set ps \<Longrightarrow> fld (JObj (ps @ [(k, u)])) k = u"
  by (induction ps) auto

lemma item_ok_encode:
  assumes "asset_wf a" "d \<in> set teamIds" "d \<noteq> t"
  shows "item_ok teamIds t (JObj (asset_fields a @ [(''destinationTeamId'', JStr d)])) (a, d)"
  using assms asset_validator.parse_encode [OF assms(1)]
    filter_other_keys [OF asset_fields_no_destination [OF assms(1)], of "JStr d"]
    fld_append_last [OF asset_fields_no_destination [OF assms(1)], of "JStr d"]
  by (simp add: item_ok_def)

definition side_object :: "string \<times> (trade_asset \<times> string) list \<Rightarrow> jsval" where
  "side_object = (\<lambda>(t, side). JObj
     [(''teamId'', JStr t),
      (''assets'', JArr (map (\<lambda>(a, d). JObj (asset_fields a @ [(''destinationTeamId'', JStr d)])) side))])"

lemma side_ok_encode:
  assumes wf: "side_wf (snd x)" and route: "list_all (\<lambda>(a, d). d \<in> set teamIds \<and> d \<noteq> fst x) (snd x)"
  shows "side_ok teamIds (fst x, side_object x) x"
proof -
  obtain t side where x: "x = (t, side)" by (cases x)
  have assets: "list_all asset_wf (map fst side)" using wf by (simp add: side_wf_iff x)
  have "item_ok teamIds t (JObj (asset_fields a @ [(''destinationTeamId'', JStr d)])) (a, d)"
    if "(a, d) \<in> set side" for a d
  proof (rule item_ok_encode)
    show "asset_wf a" using assets that by (auto simp: list_all_iff)
    show "d \<in> set teamIds" "d \<noteq> t" using route that by (auto simp: list_all_iff x)
  qed
  then have "list_all2 (item_ok teamIds t)
      (map (\<lambda>(a, d). JObj (asset_fields a @ [(''destinationTeamId'', JStr d)])) side) side"
    unfolding list_all2_map1 list_all2_same by auto
  moreover have "list_ex (\<lambda>a. ta_inputType a \<noteq> ''requested_retention'') (map fst side)"
    using wf assets by (force simp: x side_wf_iff list_ex_iff list_all_iff inputType_iff)
  moreover have "retention_routed side" using wf assets by (simp add: x side_wf_iff retention_routed_iff)
  ultimately show ?thesis using wf by (simp add: side_ok_def x side_object_def side_wf_iff)
qed

lemma three_team_complete:
  assumes wf: "body_wf (ThreeTeam p r sides)"
  shows "validateThreeTeamInput (JObj (body_fields (ThreeTeam p r sides))) = Inr (ThreeTeam p r sides)"
proof -
  have len: "length sides = 3" and uuids: "list_all is_uuid (map fst sides)"
    and dist: "distinct (map fst sides)" and pr: "p = fst (sides ! 0)" "r = fst (sides ! 1)"
    and all: "list_all (\<lambda>(t, side). side_wf side \<and>
        list_all (\<lambda>(a, d). d \<in> set (map fst sides) \<and> d \<noteq> t) side) sides"
    and things: "distinct (things (ThreeTeam p r sides))"
    using wf unfolding body_wf.simps by blast+
  have sides: "side_wf (snd x) \<and> list_all (\<lambda>(a, d). d \<in> set (map fst sides) \<and> d \<noteq> fst x) (snd x)"
    if "x \<in> set sides" for x
    using all that by (simp add: list_all_iff [of _ sides] split_def)
  have entries: "mapE team_entry (map side_object sides) = Inr (map fst sides)"
    using uuids by (intro mapE_map_Inr)
      (auto simp: list_all_iff team_entry_def side_object_def asset_exactObject_def asset_stableId_def)
  have zip: "zip (map fst sides) (map side_object sides) = map (\<lambda>x. (fst x, side_object x)) sides"
    by (simp add: zip_map_map zip_same_conv_map)
  have ok: "list_all2 (side_ok (map fst sides)) (zip (map fst sides) (map side_object sides)) sides"
    unfolding zip list_all2_map1 list_all2_same using sides side_ok_encode by blast
  have "distinct (concat (map side_keys sides))"
    using three_team_distinct [OF deals_ok [OF uuids sides]] things by blast
  moreover have "map fst sides ! 0 = p" "ThreeTeam p r sides = ThreeTeam p (map fst sides ! 1) sides"
    using len pr by simp_all
  moreover have "is_uuid p" using uuids len pr by (simp add: list_all_length)
  moreover define v where "v = JObj (body_fields (ThreeTeam p r sides))"
  moreover have "v = JObj [(''proposingTeamId'', JStr p), (''participants'', JArr (map side_object sides))]"
    by (simp add: v_def side_object_def split_def)
  then have "exact_object AssetInputInvalid [''proposingTeamId'', ''participants''] v = Inr ()"
    "fld v ''proposingTeamId'' = JStr p" "fld v ''participants'' = JArr (map side_object sides)" by simp_all
  moreover have "length (map side_object sides) = 3" using len by simp
  ultimately have "validateThreeTeamInput v = Inr (ThreeTeam p (map fst sides ! 1) sides)"
    by (intro three_team_parseI [OF _ _ _ _ _ entries dist _ ok]) simp_all
  then show ?thesis using \<open>ThreeTeam p r sides = ThreeTeam p (map fst sides ! 1) sides\<close> v_def by simp
qed

lemma creation_input_sound:
  assumes "validateTradeProposalCreationInput v = Inr b"
  shows "body_wf b"
proof (cases "has_own v ''participants''")
  case True
  with assms show ?thesis using three_team_sound by (simp add: validateTradeProposalCreationInput_def)
next
  case False
  show ?thesis using assms unfolding two_team_iff [OF False] by (elim conjE exE) (simp only:)
qed

lemma creation_input_complete:
  assumes "body_wf b"
  shows "validateTradeProposalCreationInput (JObj (body_fields b)) = Inr b"
proof (cases b)
  case (TwoTeam p r pa ra)
  have sides: "side_wf (map (\<lambda>a. (a, r)) pa)" "side_wf (map (\<lambda>a. (a, p)) ra)"
    using assms TwoTeam by auto
  show ?thesis
    using assms validateSide_encode [OF sides(1)] validateSide_encode [OF sides(2)]
    unfolding TwoTeam by (subst two_team_iff) simp_all
next
  case (ThreeTeam p r sides)
  with assms have "validateThreeTeamInput (JObj (body_fields b)) = Inr b"
    using three_team_complete by blast
  moreover have "has_own (JObj (body_fields b)) ''participants''" by (simp add: ThreeTeam)
  ultimately show ?thesis by (simp add: validateTradeProposalCreationInput_def)
qed

section \<open>Asset rows\<close>

record asset_command =
  ac_id :: string
  ac_direction :: string
  ac_sourceTeamId :: string
  ac_destinationTeamId :: string
  ac_asset :: trade_asset
  ac_sequence :: int
  ac_createdAtMs :: int

definition asset_command_row ::
    "string \<Rightarrow> nat \<times> jsval \<times> string \<times> string \<times> string \<times> trade_asset \<Rightarrow> int \<Rightarrow> asset_command" where
  "asset_command_row i entry created = (case entry of (index, _, direction, source, destination, asset) \<Rightarrow>
     \<lparr>ac_id = i, ac_direction = direction, ac_sourceTeamId = source,
      ac_destinationTeamId = destination, ac_asset = asset,
      ac_sequence = int index + 1, ac_createdAtMs = created\<rparr>)"

definition createTradeAssetCommands ::
    "trade_body \<Rightarrow> jsval \<Rightarrow> jsval \<Rightarrow> trade_asset_code + asset_command list" where
  "createTradeAssetCommands input assetIds createdAtMs =
     (case input of
       ThreeTeam proposing receiving participants \<Rightarrow>
         let transfers = concat (map (\<lambda>(teamId, assets). map (\<lambda>(asset, destination).
               (if teamId = proposing then ''proposing_to_receiving'' else ''receiving_to_proposing'',
                teamId, destination, asset)) assets) participants) in
         (case items assetIds of
           None \<Rightarrow> Inl AssetInputInvalid
         | Some ids \<Rightarrow>
             if length ids \<noteq> length transfers then Inl AssetInputInvalid
             else mapE (\<lambda>entry. bindE (asset_stableId (fst (snd entry))) (\<lambda>i.
                    bindE (asset_safeTimestamp createdAtMs) (\<lambda>created.
                    Inr (asset_command_row i entry created)))) (enumerate 0 (zip ids transfers)))
     | TwoTeam proposing receiving proposingAssets receivingAssets \<Rightarrow>
         let transfers =
               map (\<lambda>asset. (''proposing_to_receiving'', proposing, receiving, asset)) proposingAssets @
               map (\<lambda>asset. (''receiving_to_proposing'', receiving, proposing, asset)) receivingAssets in
         (case items assetIds of
           None \<Rightarrow> Inl AssetInputInvalid
         | Some ids \<Rightarrow>
             if length ids \<noteq> length proposingAssets + length receivingAssets then Inl AssetInputInvalid
             else
               bindE (asset_safeTimestamp createdAtMs) (\<lambda>created.
               mapE (\<lambda>entry. bindE (asset_stableId (fst (snd entry))) (\<lambda>i.
                 Inr (asset_command_row i entry created))) (enumerate 0 (zip ids transfers)))))"

definition assertNewTradeProposalAssetTypes :: "jsval \<Rightarrow> trade_asset_code + unit" where
  "assertNewTradeProposalAssetTypes assets =
     (case items assets of
       None \<Rightarrow> Inl AssetInputInvalid
     | Some vs \<Rightarrow>
         if list_ex (\<lambda>a. fld a ''inputType'' = JStr ''retention_obligation'' \<or>
                       fld a ''assetType'' = JStr ''retention_obligation'') vs
         then Inl AssetTypeUnsupported
         else Inr ())"

definition assertSnapshot :: "jsval \<Rightarrow> trade_asset_code + jsval" where
  "assertSnapshot v =
     (case v of JObj ps \<Rightarrow> if ps = [] then Inl AssetSnapshotInvalid else Inr v
      | _ \<Rightarrow> Inl AssetSnapshotInvalid)"

section \<open>The creation command\<close>

record creation_foundation =
  cf_proposalId :: string
  cf_leagueId :: string
  cf_seasonId :: string
  cf_proposingTeamId :: string
  cf_receivingTeamId :: string
  cf_actorUserId :: string
  cf_actorMembershipId :: string
  cf_actorAuthority :: string
  cf_createdAtMs :: int

definition validateCreationFoundation :: "jsval \<Rightarrow> trade_asset_code + creation_foundation" where
  "validateCreationFoundation input =
     bindE (one_of AssetAuthorityInvalid [''manager'', ''commissioner''] (fld input ''actorAuthority'')) (\<lambda>actorAuthority.
     bindE (asset_stableId (fld input ''tradeId'')) (\<lambda>proposalId.
     bindE (asset_stableId (fld input ''leagueId'')) (\<lambda>leagueId.
     bindE (asset_stableId (fld input ''seasonId'')) (\<lambda>seasonId.
     bindE (asset_stableId (fld input ''proposingTeamId'')) (\<lambda>proposingTeamId.
     bindE (asset_stableId (fld input ''receivingTeamId'')) (\<lambda>receivingTeamId.
     bindE (asset_stableId (fld input ''actorUserId'')) (\<lambda>actorUserId.
     bindE (asset_stableId (fld input ''actorMembershipId'')) (\<lambda>actorMembershipId.
     bindE (asset_safeTimestamp (fld input ''createdAtMs'')) (\<lambda>createdAtMs.
     if proposingTeamId = receivingTeamId then Inl AssetConflict
     else
       Inr \<lparr>cf_proposalId = proposalId, cf_leagueId = leagueId, cf_seasonId = seasonId,
            cf_proposingTeamId = proposingTeamId, cf_receivingTeamId = receivingTeamId,
            cf_actorUserId = actorUserId, cf_actorMembershipId = actorMembershipId,
            cf_actorAuthority = actorAuthority, cf_createdAtMs = createdAtMs\<rparr>)))))))))"

fun truthy :: "jsval \<Rightarrow> bool" where
  "truthy JUndef \<longleftrightarrow> False"
| "truthy JNull \<longleftrightarrow> False"
| "truthy (JBool b) \<longleftrightarrow> b"
| "truthy (JInt n) \<longleftrightarrow> n \<noteq> 0"
| "truthy (JStr s) \<longleftrightarrow> s \<noteq> []"
| "truthy _ \<longleftrightarrow> True"

text \<open>The optional list of the three participants.\<close>

definition participant_ids :: "creation_foundation \<Rightarrow> jsval \<Rightarrow> trade_asset_code + string list option" where
  "participant_ids foundation v =
     (if \<not> truthy v then Inr None
      else
        case items v of
          None \<Rightarrow> Inl AssetConflict
        | Some vs \<Rightarrow>
            if length vs \<noteq> 3 \<or> \<not> distinct vs \<or>
               vs ! 0 \<noteq> JStr (cf_proposingTeamId foundation) \<or>
               vs ! 1 \<noteq> JStr (cf_receivingTeamId foundation)
            then Inl AssetConflict
            else bindE (mapE asset_stableId vs) (\<lambda>ids. Inr (Some ids)))"

definition command_asset_keys :: "string list" where
  "command_asset_keys =
     [''id'', ''direction'', ''sourceTeamId'', ''destinationTeamId'', ''inputType'', ''assetType'',
      ''contractId'', ''playerId'', ''draftPickId'', ''retentionObligationId'',
      ''buyoutObligationId'', ''futureConsiderationId'', ''requestedRetentionContractId'',
      ''requestedRetentionCents'', ''futureConsiderationDescription'', ''sequence'',
      ''createdAtMs'']"

definition command_asset ::
    "creation_foundation \<Rightarrow> string list option \<Rightarrow> jsval list \<Rightarrow> nat \<times> jsval \<Rightarrow>
     trade_asset_code + jsval list" where
  "command_asset foundation participantTeamIds seenIds entry =
     (let asset = snd entry;
          proposing = cf_proposingTeamId foundation;
          receiving = cf_receivingTeamId foundation;
          source = fld asset ''sourceTeamId'';
          destination = fld asset ''destinationTeamId'';
          expectedDirection =
            (if source = JStr proposing then ''proposing_to_receiving'' else ''receiving_to_proposing'');
          expectedDestination = (if source = JStr proposing then receiving else proposing)
      in
        bindE (asset_exactObject command_asset_keys asset) (\<lambda>_.
        if fld asset ''direction'' \<noteq> JStr expectedDirection \<or>
           (case participantTeamIds of
              Some ids \<Rightarrow> destination \<notin> JStr ` set ids \<or> destination = source
            | None \<Rightarrow> destination \<noteq> JStr expectedDestination) \<or>
           source \<notin> JStr ` set (case participantTeamIds of Some ids \<Rightarrow> ids | None \<Rightarrow> [proposing, receiving]) \<or>
           fld asset ''sequence'' \<noteq> JInt (int (fst entry) + 1) \<or>
           fld asset ''createdAtMs'' \<noteq> JInt (cf_createdAtMs foundation) \<or>
           fld asset ''id'' \<in> set seenIds
        then Inl AssetConflict
        else bindE (asset_stableId (fld asset ''id'')) (\<lambda>i. Inr (seenIds @ [JStr i]))))"

record creation_command =
  cc_foundation :: creation_foundation
  cc_participantTeamIds :: "string list option"
  cc_eventId :: string
  cc_idempotencyRequestId :: string
  cc_expiresAtMs :: int
  cc_effectiveDeadlineAtMs :: int
  cc_idempotencyKey :: string
  cc_idempotencyExpiresAtMs :: int
  cc_assets :: "jsval list"

definition creation_command_keys :: "string list" where
  "creation_command_keys =
     [''tradeId'', ''eventId'', ''idempotencyRequestId'', ''leagueId'', ''seasonId'',
      ''proposingTeamId'', ''receivingTeamId'', ''actorUserId'', ''actorMembershipId'',
      ''actorAuthority'', ''createdAtMs'', ''expiresAtMs'', ''effectiveDeadlineAtMs'',
      ''idempotencyKey'', ''idempotencyExpiresAtMs'', ''assets'']"

definition validateTradeProposalCreationCommand :: "jsval \<Rightarrow> trade_asset_code + creation_command" where
  "validateTradeProposalCreationCommand input =
     bindE (asset_exactObject
       ((if has_own input ''participantTeamIds'' then [''participantTeamIds''] else []) @
        creation_command_keys) input) (\<lambda>_.
     bindE (validateCreationFoundation input) (\<lambda>foundation.
     bindE (participant_ids foundation (fld input ''participantTeamIds'')) (\<lambda>participantTeamIds.
     bindE (asset_safeTimestamp (fld input ''expiresAtMs'')) (\<lambda>expiresAtMs.
     bindE (asset_safeTimestamp (fld input ''effectiveDeadlineAtMs'')) (\<lambda>effectiveDeadlineAtMs.
     bindE (asset_safeTimestamp (fld input ''idempotencyExpiresAtMs'')) (\<lambda>idempotencyExpiresAtMs.
     case items (fld input ''assets'') of
       None \<Rightarrow> Inl AssetTimestampInvalid
     | Some assets \<Rightarrow>
         if expiresAtMs \<noteq> cf_createdAtMs foundation + TRADE_PROPOSAL_LIFETIME_MS \<or>
            effectiveDeadlineAtMs \<le> cf_createdAtMs foundation \<or>
            expiresAtMs < effectiveDeadlineAtMs \<or>
            idempotencyExpiresAtMs \<le> cf_createdAtMs foundation \<or>
            length assets < 2 \<or>
            MAX_ASSETS_PER_SIDE * (if participantTeamIds = None then 2 else 3) < length assets
         then Inl AssetTimestampInvalid
         else
           bindE (foldE (command_asset foundation participantTeamIds) [] (enumerate 0 assets)) (\<lambda>_.
           bindE (asset_stableId (fld input ''eventId'')) (\<lambda>eventId.
           bindE (asset_stableId (fld input ''idempotencyRequestId'')) (\<lambda>idempotencyRequestId.
           bindE (boundedIdempotencyKey (fld input ''idempotencyKey'')) (\<lambda>idempotencyKey.
           Inr \<lparr>cc_foundation = foundation,
                cc_participantTeamIds = participantTeamIds,
                cc_eventId = eventId,
                cc_idempotencyRequestId = idempotencyRequestId,
                cc_expiresAtMs = expiresAtMs,
                cc_effectiveDeadlineAtMs = effectiveDeadlineAtMs,
                cc_idempotencyKey = idempotencyKey,
                cc_idempotencyExpiresAtMs = idempotencyExpiresAtMs,
                cc_assets = assets\<rparr>))))))))))"

section \<open>The rows of an accepted body pass the command's checks\<close>

definition asset_command_fields :: "asset_command \<Rightarrow> (string \<times> jsval) list" where
  "asset_command_fields c = (let a = ac_asset c in
     [(''id'', JStr (ac_id c)),
      (''direction'', JStr (ac_direction c)),
      (''sourceTeamId'', JStr (ac_sourceTeamId c)),
      (''destinationTeamId'', JStr (ac_destinationTeamId c)),
      (''inputType'', JStr (ta_inputType a)),
      (''assetType'', JStr (ta_assetType a)),
      (''contractId'', jstr_or_null (ta_contractId a)),
      (''playerId'', jstr_or_null (ta_playerId a)),
      (''draftPickId'', jstr_or_null (ta_draftPickId a)),
      (''retentionObligationId'', jstr_or_null (ta_retentionObligationId a)),
      (''buyoutObligationId'', jstr_or_null (ta_buyoutObligationId a)),
      (''futureConsiderationId'', jstr_or_null (ta_futureConsiderationId a)),
      (''requestedRetentionContractId'', jstr_or_null (ta_requestedRetentionContractId a)),
      (''requestedRetentionCents'', jint_or_null (ta_requestedRetentionCents a)),
      (''futureConsiderationDescription'', jstr_or_null (ta_futureConsiderationDescription a)),
      (''sequence'', JInt (ac_sequence c)),
      (''createdAtMs'', JInt (ac_createdAtMs c))])"

fun body_teams :: "trade_body \<Rightarrow> string \<times> string \<times> string list option" where
  "body_teams (TwoTeam p r pa ra) = (p, r, None)"
| "body_teams (ThreeTeam p r sides) = (p, r, Some (map fst sides))"

definition deal_row :: "string \<Rightarrow> int \<Rightarrow> nat \<times> string \<times> string \<times> string \<times> trade_asset \<Rightarrow> asset_command" where
  "deal_row proposing created entry = (case entry of (index, i, source, destination, asset) \<Rightarrow>
     \<lparr>ac_id = i,
      ac_direction = (if source = proposing then ''proposing_to_receiving'' else ''receiving_to_proposing''),
      ac_sourceTeamId = source, ac_destinationTeamId = destination, ac_asset = asset,
      ac_sequence = int index + 1, ac_createdAtMs = created\<rparr>)"

definition deal_rows :: "trade_body \<Rightarrow> string list \<Rightarrow> int \<Rightarrow> asset_command list" where
  "deal_rows b ids created =
     map (deal_row (fst (body_teams b)) created) (enumerate 0 (zip ids (deals b)))"

lemma created_rows:
  assumes wf: "body_wf b" and ids: "list_all is_uuid ids" "length ids = length (deals b)"
    and created: "asset_safeTimestamp (JInt created) = Inr created"
  shows "createTradeAssetCommands b (JArr (map JStr ids)) (JInt created) = Inr (deal_rows b ids created)"
proof -
  let ?p = "fst (body_teams b)"
  let ?dir = "\<lambda>(s, d, a). (if s = ?p then ''proposing_to_receiving'' else ''receiving_to_proposing'', s, d, a)"
  have rows: "map (\<lambda>e. asset_command_row (fst (snd e)) (fst e, JUndef, ?dir (snd (snd e))) created)
      (enumerate 0 (zip ids (deals b))) = deal_rows b ids created"
    by (simp add: deal_rows_def asset_command_row_def deal_row_def split_def)
  have mapE: "mapE f (enumerate n (zip (map JStr ids) (map ?dir D))) =
      Inr (map (\<lambda>e. asset_command_row (fst (snd e)) (fst e, JUndef, ?dir (snd (snd e))) created) (enumerate n (zip ids D)))"
    if "\<And>n i y. is_uuid i \<Longrightarrow> f (n, JStr i, y) = Inr (asset_command_row i (n, JStr i, y) created)" for f n D
    using ids(1)
  proof (induction ids arbitrary: D n)
    case (Cons i ids)
    then show ?case
      by (cases D) (simp_all add: that asset_command_row_def split_def)
  qed simp
  have main: "mapE f (enumerate 0 (zip (map JStr ids) T)) = Inr (deal_rows b ids created)"
    if "T = map ?dir (deals b)"
      "\<And>n i y. is_uuid i \<Longrightarrow> f (n, JStr i, y) = Inr (asset_command_row i (n, JStr i, y) created)" for T f
    unfolding that(1) using mapE [OF that(2)] rows by simp
  show ?thesis
  proof (cases b)
    case (TwoTeam p r pa ra)
    let ?T = "map (\<lambda>a. (''proposing_to_receiving'', p, r, a)) pa @
        map (\<lambda>a. (''receiving_to_proposing'', r, p, a)) ra"
    have "p \<noteq> r" using wf by (simp add: TwoTeam)
    then have T: "?T = map ?dir (deals b)" by (simp add: TwoTeam)
    have "mapE (\<lambda>entry. bindE (asset_stableId (fst (snd entry))) (\<lambda>i. Inr (asset_command_row i entry created)))
        (enumerate 0 (zip (map JStr ids) ?T)) = Inr (deal_rows b ids created)"
      by (rule main [OF T]) (simp add: asset_stableId_def)
    moreover have "length ids = length pa + length ra" using ids(2) by (simp add: TwoTeam)
    ultimately show ?thesis
      using created unfolding TwoTeam createTradeAssetCommands_def by (simp del: zip_map1)
  next
    case (ThreeTeam p r sides)
    let ?T = "concat (map (\<lambda>(t, assets). map (\<lambda>(a, d). (if t = p then ''proposing_to_receiving''
        else ''receiving_to_proposing'', t, d, a)) assets) sides)"
    have T: "?T = map ?dir (deals b)"
      unfolding ThreeTeam by (simp add: map_concat comp_def split_def)
    have "mapE (\<lambda>entry. bindE (asset_stableId (fst (snd entry))) (\<lambda>i.
          bindE (asset_safeTimestamp (JInt created)) (\<lambda>created. Inr (asset_command_row i entry created))))
        (enumerate 0 (zip (map JStr ids) ?T)) = Inr (deal_rows b ids created)"
      by (rule main [OF T]) (simp add: asset_stableId_def created)
    moreover have "length ids = length ?T" unfolding T using ids(2) by simp
    ultimately show ?thesis
      unfolding ThreeTeam createTradeAssetCommands_def by (simp add: Let_def)
  qed
qed

fun deal_legal :: "string \<Rightarrow> string \<Rightarrow> string list option \<Rightarrow> string \<times> string \<times> trade_asset \<Rightarrow> bool" where
  "deal_legal p r None (s, d, a) \<longleftrightarrow> (s = p \<and> d = r) \<or> (s = r \<and> d = p)"
| "deal_legal p r (Some ids) (s, d, a) \<longleftrightarrow> s \<in> set ids \<and> d \<in> set ids \<and> d \<noteq> s"

lemma body_deals_legal:
  assumes wf: "body_wf b" and teams: "body_teams b = (p, r, parts)"
  shows "list_all (deal_legal p r parts) (deals b)"
proof (cases b)
  case (TwoTeam p' r' pa ra)
  then show ?thesis using teams by (auto simp: list_all_iff)
next
  case (ThreeTeam p' r' sides)
  have all: "list_all (\<lambda>(t, side). side_wf side \<and>
      list_all (\<lambda>(a, d). d \<in> set (map fst sides) \<and> d \<noteq> t) side) sides"
    using wf unfolding ThreeTeam body_wf.simps by blast
  have "deal_legal p r parts (t, d, a)" if "(t, side) \<in> set sides" "(a, d) \<in> set side" for t side a d
    using all that teams by (force simp: list_all_iff ThreeTeam)
  then show ?thesis by (auto simp: ThreeTeam list_all_iff)
qed

lemma command_asset_row:
  assumes "deal_legal p r parts (s, d, a)" "p \<noteq> r" "is_uuid i" "JStr i \<notin> set seen"
    and "cf_proposingTeamId f = p" "cf_receivingTeamId f = r" "cf_createdAtMs f = created"
  shows "command_asset f parts seen (n, JObj (asset_command_fields (deal_row p created (n, i, s, d, a)))) =
    Inr (seen @ [JStr i])"
proof -
  let ?c = "deal_row p created (n, i, s, d, a)"
  let ?v = "JObj (asset_command_fields ?c)"
  have keys: "asset_exactObject command_asset_keys ?v = Inr ()"
    by (simp add: asset_exactObject_def asset_command_fields_def command_asset_keys_def Let_def)
  have flds: "fld ?v ''id'' = JStr i" "fld ?v ''direction'' = JStr (ac_direction ?c)"
    "fld ?v ''sourceTeamId'' = JStr s" "fld ?v ''destinationTeamId'' = JStr d"
    "fld ?v ''sequence'' = JInt (int n + 1)" "fld ?v ''createdAtMs'' = JInt created"
    by (simp_all add: asset_command_fields_def deal_row_def Let_def)
  have dir: "ac_direction ?c = (if s = p then ''proposing_to_receiving'' else ''receiving_to_proposing'')"
    by (simp add: deal_row_def)
  show ?thesis
    unfolding command_asset_def Let_def snd_conv fst_conv flds keys dir
    using assms by (cases parts) (auto simp: asset_stableId_def)
qed

lemma command_assets_loop:
  assumes "list_all (deal_legal p r parts) D" "p \<noteq> r" "list_all is_uuid ids" "length ids = length D"
    and "distinct ids" "set ids \<inter> set seen = {}"
    and "cf_proposingTeamId f = p" "cf_receivingTeamId f = r" "cf_createdAtMs f = created"
  shows "foldE (command_asset f parts) (map JStr seen)
      (enumerate n (map (\<lambda>c. JObj (asset_command_fields c)) (map (deal_row p created) (enumerate n (zip ids D))))) =
    Inr (map JStr (seen @ ids))"
  using assms(1,3-6)
proof (induction D arbitrary: ids n seen)
  case (Cons x D)
  obtain i ids' where ids: "ids = i # ids'" using Cons.prems(3) by (cases ids) auto
  obtain s d a where x: "x = (s, d, a)" by (cases x)
  have head: "command_asset f parts (map JStr seen)
      (n, JObj (asset_command_fields (deal_row p created (n, i, s, d, a)))) = Inr (map JStr (seen @ [i]))"
    using Cons.prems by (subst command_asset_row [where r = r]) (auto simp: ids x assms)
  have tail: "foldE (command_asset f parts) (map JStr (seen @ [i]))
      (enumerate (Suc n) (map (\<lambda>c. JObj (asset_command_fields c))
        (map (deal_row p created) (enumerate (Suc n) (zip ids' D))))) = Inr (map JStr ((seen @ [i]) @ ids'))"
    using Cons.prems by (intro Cons.IH) (auto simp: ids)
  show ?case using head tail by (simp add: ids x)
qed simp

text \<open>The command object, as the service writes it.\<close>

definition creation_command_fields ::
    "creation_foundation \<Rightarrow> string list option \<Rightarrow> string \<Rightarrow> string \<Rightarrow> int \<Rightarrow> int \<Rightarrow> string \<Rightarrow> int \<Rightarrow>
     asset_command list \<Rightarrow> (string \<times> jsval) list" where
  "creation_command_fields f participantTeamIds eventId requestId expires effectiveDeadline key keyExpires assets =
     (case participantTeamIds of
        Some ids \<Rightarrow> [(''participantTeamIds'', JArr (map JStr ids))] | None \<Rightarrow> []) @
     [(''tradeId'', JStr (cf_proposalId f)),
      (''eventId'', JStr eventId),
      (''idempotencyRequestId'', JStr requestId),
      (''leagueId'', JStr (cf_leagueId f)),
      (''seasonId'', JStr (cf_seasonId f)),
      (''proposingTeamId'', JStr (cf_proposingTeamId f)),
      (''receivingTeamId'', JStr (cf_receivingTeamId f)),
      (''actorUserId'', JStr (cf_actorUserId f)),
      (''actorMembershipId'', JStr (cf_actorMembershipId f)),
      (''actorAuthority'', JStr (cf_actorAuthority f)),
      (''createdAtMs'', JInt (cf_createdAtMs f)),
      (''expiresAtMs'', JInt expires),
      (''effectiveDeadlineAtMs'', JInt effectiveDeadline),
      (''idempotencyKey'', JStr key),
      (''idempotencyExpiresAtMs'', JInt keyExpires),
      (''assets'', JArr (map (\<lambda>c. JObj (asset_command_fields c)) assets))]"

definition foundation_wf :: "creation_foundation \<Rightarrow> bool" where
  "foundation_wf f \<longleftrightarrow>
     is_uuid (cf_proposalId f) \<and> is_uuid (cf_leagueId f) \<and> is_uuid (cf_seasonId f) \<and>
     is_uuid (cf_proposingTeamId f) \<and> is_uuid (cf_receivingTeamId f) \<and>
     cf_proposingTeamId f \<noteq> cf_receivingTeamId f \<and>
     is_uuid (cf_actorUserId f) \<and> is_uuid (cf_actorMembershipId f) \<and>
     cf_actorAuthority f \<in> {''manager'', ''commissioner''} \<and>
     0 \<le> cf_createdAtMs f \<and> cf_createdAtMs f \<le> max_timestamp"

lemma max_timestamp_safe: "0 \<le> n \<Longrightarrow> n \<le> max_timestamp \<Longrightarrow> safe n"
  by (simp add: safe_def max_safe_def max_timestamp_def)

lemma asset_safeTimestamp_JInt:
  "0 \<le> n \<Longrightarrow> n \<le> max_timestamp \<Longrightarrow> asset_safeTimestamp (JInt n) = Inr n"
  by (simp add: asset_safeTimestamp_def safe_between_iff max_timestamp_safe)

lemma body_teams_wf:
  assumes "body_wf b" "body_teams b = (p, r, parts)"
  shows "is_uuid p" "is_uuid r" "p \<noteq> r"
    and "case parts of Some ids \<Rightarrow> length ids = 3 \<and> distinct ids \<and> list_all is_uuid ids \<and> ids ! 0 = p \<and> ids ! 1 = r
      | None \<Rightarrow> True"
proof -
  have *: "is_uuid p \<and> is_uuid r \<and> p \<noteq> r \<and> (case parts of Some ids \<Rightarrow> length ids = 3 \<and> distinct ids \<and>
      list_all is_uuid ids \<and> ids ! 0 = p \<and> ids ! 1 = r | None \<Rightarrow> True)"
  proof (cases b)
    case (TwoTeam p' r' pa ra)
    then show ?thesis using assms by auto
  next
    case (ThreeTeam p' r' sides)
    then have b: "length (map fst sides) = 3" "distinct (map fst sides)" "list_all is_uuid (map fst sides)"
      "p = map fst sides ! 0" "r = map fst sides ! 1" "parts = Some (map fst sides)"
      using assms by simp_all
    moreover have "p \<noteq> r"
    proof
      assume "p = r"
      then have "map fst sides ! 0 = map fst sides ! 1" using b by simp
      with b(1,2) show False using nth_eq_iff_index_eq by fastforce
    qed
    moreover have "is_uuid p" "is_uuid r" using b by (simp_all add: list_all_length)
    ultimately show ?thesis by simp
  qed
  then show "is_uuid p" "is_uuid r" "p \<noteq> r" "case parts of Some ids \<Rightarrow> length ids = 3 \<and> distinct ids \<and>
      list_all is_uuid ids \<and> ids ! 0 = p \<and> ids ! 1 = r | None \<Rightarrow> True" by blast+
qed

lemma side_wf_length: "side_wf side \<Longrightarrow> 1 \<le> length side \<and> length side \<le> 100"
  by (simp add: side_wf_iff MAX_ASSETS_PER_SIDE_def)

lemma deals_length:
  assumes "body_wf b" "body_teams b = (p, r, parts)"
  shows "2 \<le> length (deals b)" "length (deals b) \<le> MAX_ASSETS_PER_SIDE * (if parts = None then 2 else 3)"
proof -
  have "2 \<le> length (deals b) \<and> length (deals b) \<le> 100 * (if parts = None then 2 else 3)"
  proof (cases b)
    case (TwoTeam p' r' pa ra)
    then have "side_wf (map (\<lambda>a. (a, r')) pa)" "side_wf (map (\<lambda>a. (a, p')) ra)" "parts = None"
      using assms by auto
    from side_wf_length [OF this(1)] side_wf_length [OF this(2)] this(3) show ?thesis
      by (simp add: TwoTeam)
  next
    case (ThreeTeam p' r' sides)
    have len: "length sides = 3" and all: "list_all (\<lambda>(t, side). side_wf side \<and>
      list_all (\<lambda>(a, d). d \<in> set (map fst sides) \<and> d \<noteq> t) side) sides" and parts: "parts \<noteq> None"
      using assms unfolding ThreeTeam body_wf.simps by auto
    then obtain x y z where sides: "sides = [x, y, z]"
      by (auto simp: numeral_eq_Suc length_Suc_conv)
    have "side_wf (snd u)" if "u \<in> {x, y, z}" for u
      using all that unfolding sides by (auto simp: split_def)
    then have "1 \<le> length (snd u) \<and> length (snd u) \<le> 100" if "u \<in> {x, y, z}" for u
      using that side_wf_length by blast
    from this [of x] this [of y] this [of z] parts show ?thesis
      by (auto simp: ThreeTeam sides split_def)
  qed
  then show "2 \<le> length (deals b)" "length (deals b) \<le> MAX_ASSETS_PER_SIDE * (if parts = None then 2 else 3)"
    by (simp_all add: MAX_ASSETS_PER_SIDE_def)
qed

lemma participant_ids_accepts:
  assumes "is_uuid (cf_proposingTeamId f)"
    and "case parts of Some ids \<Rightarrow> length ids = 3 \<and> distinct ids \<and> list_all is_uuid ids \<and>
      ids ! 0 = cf_proposingTeamId f \<and> ids ! 1 = cf_receivingTeamId f | None \<Rightarrow> True"
  shows "participant_ids f (case parts of Some ids \<Rightarrow> JArr (map JStr ids) | None \<Rightarrow> JUndef) = Inr parts"
proof (cases parts)
  case (Some ids)
  then have "mapE asset_stableId (map JStr ids) = Inr ids"
    using assms mapE_map_Inr [of ids asset_stableId JStr id]
    by (simp add: list_all_iff asset_stableId_def)
  then show ?thesis
    using Some assms by (simp add: participant_ids_def distinct_map inj_on_def)
qed (simp add: participant_ids_def)

lemma creation_command_accepted:
  assumes body: "body_wf b" "body_teams b = (p, r, parts)"
    and f: "foundation_wf f" "cf_proposingTeamId f = p" "cf_receivingTeamId f = r" "cf_createdAtMs f = created"
    and ids: "list_all is_uuid ids" "distinct ids" "length ids = length (deals b)"
    and others: "is_uuid eventId" "is_uuid requestId" "is_bounded_text 128 key"
    and times: "created + TRADE_PROPOSAL_LIFETIME_MS \<le> max_timestamp" "created < eff"
      "eff \<le> created + TRADE_PROPOSAL_LIFETIME_MS" "created < keyExpires" "keyExpires \<le> max_timestamp"
  shows "validateTradeProposalCreationCommand (JObj (creation_command_fields f parts eventId requestId
      (created + TRADE_PROPOSAL_LIFETIME_MS) eff key keyExpires (deal_rows b ids created))) =
    Inr \<lparr>cc_foundation = f, cc_participantTeamIds = parts, cc_eventId = eventId,
      cc_idempotencyRequestId = requestId, cc_expiresAtMs = created + TRADE_PROPOSAL_LIFETIME_MS,
      cc_effectiveDeadlineAtMs = eff, cc_idempotencyKey = key, cc_idempotencyExpiresAtMs = keyExpires,
      cc_assets = map (\<lambda>c. JObj (asset_command_fields c)) (deal_rows b ids created)\<rparr>"
proof -
  define rows where "rows = map (\<lambda>c. JObj (asset_command_fields c)) (deal_rows b ids created)"
  define v where "v = JObj (creation_command_fields f parts eventId requestId
      (created + TRADE_PROPOSAL_LIFETIME_MS) eff key keyExpires (deal_rows b ids created))"
  note teams = body_teams_wf [OF body]
  have own: "has_own v ''participantTeamIds'' \<longleftrightarrow> parts \<noteq> None"
    by (cases parts) (simp_all add: v_def creation_command_fields_def)
  have keys: "asset_exactObject ((if has_own v ''participantTeamIds'' then [''participantTeamIds''] else []) @
      creation_command_keys) v = Inr ()"
    unfolding own by (cases parts)
      (simp_all add: v_def asset_exactObject_def creation_command_fields_def creation_command_keys_def)
  have flds: "fld v ''actorAuthority'' = JStr (cf_actorAuthority f)" "fld v ''tradeId'' = JStr (cf_proposalId f)"
    "fld v ''leagueId'' = JStr (cf_leagueId f)" "fld v ''seasonId'' = JStr (cf_seasonId f)"
    "fld v ''proposingTeamId'' = JStr (cf_proposingTeamId f)" "fld v ''receivingTeamId'' = JStr (cf_receivingTeamId f)"
    "fld v ''actorUserId'' = JStr (cf_actorUserId f)" "fld v ''actorMembershipId'' = JStr (cf_actorMembershipId f)"
    "fld v ''createdAtMs'' = JInt created"
    "fld v ''participantTeamIds'' = (case parts of Some ids \<Rightarrow> JArr (map JStr ids) | None \<Rightarrow> JUndef)"
    "fld v ''expiresAtMs'' = JInt (created + TRADE_PROPOSAL_LIFETIME_MS)"
    "fld v ''effectiveDeadlineAtMs'' = JInt eff" "fld v ''idempotencyExpiresAtMs'' = JInt keyExpires"
    "fld v ''assets'' = JArr rows" "fld v ''eventId'' = JStr eventId"
    "fld v ''idempotencyRequestId'' = JStr requestId" "fld v ''idempotencyKey'' = JStr key"
    by (cases parts; simp add: v_def creation_command_fields_def rows_def f(4))+
  have found: "validateCreationFoundation v = Inr f"
    using f by (simp add: validateCreationFoundation_def flds foundation_wf_def asset_stableId_def one_of_def
        asset_safeTimestamp_JInt)
  have parts: "participant_ids f (fld v ''participantTeamIds'') = Inr parts"
    unfolding flds(10) using teams f(2,3) by (intro participant_ids_accepts) (simp_all split: option.splits)
  have created: "0 \<le> created" "created \<le> max_timestamp" using f by (auto simp: foundation_wf_def)
  have stamps: "asset_safeTimestamp (JInt (created + TRADE_PROPOSAL_LIFETIME_MS)) = Inr (created + TRADE_PROPOSAL_LIFETIME_MS)"
    "asset_safeTimestamp (JInt eff) = Inr eff" "asset_safeTimestamp (JInt keyExpires) = Inr keyExpires"
    using created times by (simp_all add: asset_safeTimestamp_JInt TRADE_PROPOSAL_LIFETIME_MS_def)
  have loop: "foldE (command_asset f parts) [] (enumerate 0 rows) = Inr (map JStr ids)"
    using command_assets_loop [OF body_deals_legal [OF body] teams(3) ids(1,3,2), of "[]" f created 0] f(2-4)
    by (simp add: rows_def deal_rows_def body(2))
  have len: "length rows = length (deals b)" using ids(3) by (simp add: rows_def deal_rows_def)
  have rest: "asset_stableId (JStr eventId) = Inr eventId" "asset_stableId (JStr requestId) = Inr requestId"
    "boundedIdempotencyKey (JStr key) = Inr key"
    using others by (simp_all add: asset_stableId_def boundedIdempotencyKey_def bounded_text_iff)
  have guard: "\<not> (created + TRADE_PROPOSAL_LIFETIME_MS \<noteq> cf_createdAtMs f + TRADE_PROPOSAL_LIFETIME_MS \<or>
      eff \<le> cf_createdAtMs f \<or> created + TRADE_PROPOSAL_LIFETIME_MS < eff \<or> keyExpires \<le> cf_createdAtMs f \<or>
      length rows < 2 \<or> MAX_ASSETS_PER_SIDE * (if parts = None then 2 else 3) < length rows)"
    using times deals_length [OF body] len by (simp add: f(4) not_less)
  show ?thesis
    unfolding v_def [symmetric] rows_def [symmetric] validateTradeProposalCreationCommand_def keys found
      parts [unfolded flds(10)] bindE_simps flds stamps items.simps option.case loop rest if_not_P [OF guard] ..
qed

end
