(* ===== verification/TradeProposal.thy ===== *)
theory TradeProposal
  imports TradeAsset
begin

text \<open>
  \<^verbatim>\<open>src/src/domain/trades/tradeProposalPolicy.js\<close> and the command builder of
  \<^verbatim>\<open>src/src/application/services/trades/createTradeProposalService.js\<close>: who may propose a
  trade and when, the deadline of a proposal, and the creation command that the service hands to
  the repository. The manager authorization, the row of the repository, the clock and the random
  identifiers are arguments. A row's columns are typed; a column of a \<^verbatim>\<open>LEFT JOIN\<close> is an
  option.
\<close>

section \<open>Errors and field checks\<close>

datatype foundation_code =
    FoundationInputInvalid
  | FoundationStableIdInvalid
  | FoundationAuthorityInvalid
  | FoundationTimestampInvalid
  | FoundationTeamsSame
  | FoundationAuthorizationDenied
  | FoundationSeasonUnavailable
  | FoundationWindowClosed
  | FoundationProjectionInvalid

definition ACTOR_AUTHORITIES :: "string list" where
  "ACTOR_AUTHORITIES = [''manager'', ''commissioner'']"

definition OPEN_DRAFT_STATUSES :: "string list" where
  "OPEN_DRAFT_STATUSES = [''ready'', ''active'', ''completed'']"

definition foundation_exactObject :: "string list \<Rightarrow> jsval \<Rightarrow> foundation_code + unit" where
  "foundation_exactObject = exact_object FoundationInputInvalid"

definition foundation_stableId :: "jsval \<Rightarrow> foundation_code + string" where
  "foundation_stableId = stable_id FoundationStableIdInvalid"

definition foundation_safeTimestamp :: "jsval \<Rightarrow> foundation_code + int" where
  "foundation_safeTimestamp = safe_between FoundationTimestampInvalid 0 max_timestamp"

lemmas foundation_field_defs =
  foundation_exactObject_def foundation_stableId_def foundation_safeTimestamp_def

section \<open>Requests\<close>

definition validateTradeProposalFoundationInput :: "jsval \<Rightarrow> foundation_code + (string \<times> string)" where
  "validateTradeProposalFoundationInput input =
     bindE (foundation_exactObject [''proposingTeamId'', ''receivingTeamId''] input) (\<lambda>_.
     bindE (foundation_stableId (fld input ''proposingTeamId'')) (\<lambda>proposingTeamId.
     bindE (foundation_stableId (fld input ''receivingTeamId'')) (\<lambda>receivingTeamId.
     if proposingTeamId = receivingTeamId then Inl FoundationTeamsSame
     else Inr (proposingTeamId, receivingTeamId))))"

definition validateTradeProposalFoundationRequest ::
    "jsval \<Rightarrow> foundation_code + (string \<times> string \<times> string)" where
  "validateTradeProposalFoundationRequest input =
     bindE (foundation_exactObject [''leagueId'', ''proposingTeamId'', ''receivingTeamId''] input) (\<lambda>_.
     bindE (foundation_stableId (fld input ''leagueId'')) (\<lambda>leagueId.
     bindE (foundation_stableId (fld input ''proposingTeamId'')) (\<lambda>proposingTeamId.
     bindE (foundation_stableId (fld input ''receivingTeamId'')) (\<lambda>receivingTeamId.
     if proposingTeamId = receivingTeamId then Inl FoundationTeamsSame
     else Inr (leagueId, proposingTeamId, receivingTeamId)))))"

definition foundation_keys :: "string list" where
  "foundation_keys =
     [''proposalId'', ''leagueId'', ''seasonId'', ''proposingTeamId'', ''receivingTeamId'',
      ''actorUserId'', ''actorMembershipId'', ''actorAuthority'', ''createdAtMs'']"

definition validateTradeProposalFoundationCommand :: "jsval \<Rightarrow> foundation_code + creation_foundation" where
  "validateTradeProposalFoundationCommand input =
     bindE (foundation_exactObject foundation_keys input) (\<lambda>_.
     bindE (one_of FoundationAuthorityInvalid ACTOR_AUTHORITIES (fld input ''actorAuthority'')) (\<lambda>actorAuthority.
     bindE (foundation_stableId (fld input ''proposalId'')) (\<lambda>proposalId.
     bindE (foundation_stableId (fld input ''leagueId'')) (\<lambda>leagueId.
     bindE (foundation_stableId (fld input ''seasonId'')) (\<lambda>seasonId.
     bindE (foundation_stableId (fld input ''proposingTeamId'')) (\<lambda>proposingTeamId.
     bindE (foundation_stableId (fld input ''receivingTeamId'')) (\<lambda>receivingTeamId.
     bindE (foundation_stableId (fld input ''actorUserId'')) (\<lambda>actorUserId.
     bindE (foundation_stableId (fld input ''actorMembershipId'')) (\<lambda>actorMembershipId.
     bindE (foundation_safeTimestamp (fld input ''createdAtMs'')) (\<lambda>createdAtMs.
     if proposingTeamId = receivingTeamId then Inl FoundationTeamsSame
     else
       Inr \<lparr>cf_proposalId = proposalId, cf_leagueId = leagueId, cf_seasonId = seasonId,
            cf_proposingTeamId = proposingTeamId, cf_receivingTeamId = receivingTeamId,
            cf_actorUserId = actorUserId, cf_actorMembershipId = actorMembershipId,
            cf_actorAuthority = actorAuthority, cf_createdAtMs = createdAtMs\<rparr>))))))))))"

definition foundation_fields :: "creation_foundation \<Rightarrow> (string \<times> jsval) list" where
  "foundation_fields f =
     [(''proposalId'', JStr (cf_proposalId f)), (''leagueId'', JStr (cf_leagueId f)),
      (''seasonId'', JStr (cf_seasonId f)), (''proposingTeamId'', JStr (cf_proposingTeamId f)),
      (''receivingTeamId'', JStr (cf_receivingTeamId f)), (''actorUserId'', JStr (cf_actorUserId f)),
      (''actorMembershipId'', JStr (cf_actorMembershipId f)),
      (''actorAuthority'', JStr (cf_actorAuthority f)), (''createdAtMs'', JInt (cf_createdAtMs f))]"

lemma foundation_command_iff:
  "validateTradeProposalFoundationCommand v = Inr c \<longleftrightarrow>
     foundation_wf c \<and> exact_object FoundationInputInvalid foundation_keys v = Inr () \<and>
     list_all (\<lambda>(k, w). fld v k = w) (foundation_fields c)"
  by (cases c) (auto simp: validateTradeProposalFoundationCommand_def foundation_field_defs
      result_iffs check_iffs foundation_wf_def foundation_fields_def ACTOR_AUTHORITIES_def
      max_timestamp_safe simp del: exact_object_same_keys)

interpretation foundation_validator:
  validator validateTradeProposalFoundationCommand foundation_fields foundation_wf
  by (rule validatorI [OF _ _ foundation_command_iff])
    (simp_all add: foundation_fields_def foundation_keys_def)

section \<open>The state a proposal is created in\<close>

record foundation_context =
  fc_league_status :: string
  fc_commissioner_membership_id :: "string option"
  fc_current_season_id :: "string option"
  fc_season_status :: "string option"
  fc_trade_deadline_at_ms :: "int option"
  fc_proposing_team_status :: string
  fc_receiving_team_status :: string
  fc_membership_permission :: "string option"
  fc_membership_status :: "string option"
  fc_assignment_status :: "string option"
  fc_assignment_ended_at_ms :: "int option"
  fc_entry_draft_status :: "string option"
  fc_trading_opens_at_ms :: "int option"
  fc_inaugural_trading_opens_at_ms :: "int option"

definition requireCurrentTradeSeasonId :: "foundation_context option \<Rightarrow> foundation_code + string" where
  "requireCurrentTradeSeasonId ctx =
     (case ctx of
       None \<Rightarrow> Inl FoundationSeasonUnavailable
     | Some c \<Rightarrow>
         if fc_season_status c \<noteq> Some ''active'' then Inl FoundationSeasonUnavailable
         else
           case foundation_stableId (jstr_or_null (fc_current_season_id c)) of
             Inl _ \<Rightarrow> Inl FoundationSeasonUnavailable
           | Inr i \<Rightarrow> Inr i)"

definition proposal_manager_authorized :: "creation_foundation \<Rightarrow> foundation_context \<Rightarrow> bool" where
  "proposal_manager_authorized command c \<longleftrightarrow>
     cf_actorAuthority command = ''manager'' \<and> fc_league_status c = ''active'' \<and>
     fc_membership_status c = Some ''active'' \<and> fc_assignment_status c = Some ''accepted'' \<and>
     fc_assignment_ended_at_ms c = None"

definition proposal_commissioner_authorized :: "creation_foundation \<Rightarrow> foundation_context \<Rightarrow> bool" where
  "proposal_commissioner_authorized command c \<longleftrightarrow>
     cf_actorAuthority command = ''commissioner'' \<and> fc_league_status c \<in> {''active'', ''frozen''} \<and>
     fc_membership_status c = Some ''active'' \<and> fc_membership_permission c = Some ''commissioner'' \<and>
     fc_commissioner_membership_id c = Some (cf_actorMembershipId command)"

fun opened_by :: "int \<Rightarrow> int option \<Rightarrow> bool" where
  "opened_by now None \<longleftrightarrow> False"
| "opened_by now (Some t) \<longleftrightarrow> safe t \<and> t \<le> now"

definition trading_open :: "int \<Rightarrow> foundation_context \<Rightarrow> bool" where
  "trading_open now c \<longleftrightarrow>
     (fc_entry_draft_status c \<in> Some ` set OPEN_DRAFT_STATUSES \<and> opened_by now (fc_trading_opens_at_ms c)) \<or>
     (opened_by now (fc_inaugural_trading_opens_at_ms c) \<and>
      (case fc_inaugural_trading_opens_at_ms c of Some t \<Rightarrow> 0 \<le> t | None \<Rightarrow> False))"

definition before_deadline :: "int \<Rightarrow> int option \<Rightarrow> bool" where
  "before_deadline now deadline \<longleftrightarrow> (case deadline of Some t \<Rightarrow> safe t \<and> now < t | None \<Rightarrow> False)"

definition assertTradeProposalFoundationState ::
    "creation_foundation \<Rightarrow> foundation_context option \<Rightarrow> foundation_code + unit" where
  "assertTradeProposalFoundationState command ctx =
     (case ctx of
       None \<Rightarrow> Inl FoundationAuthorizationDenied
     | Some c \<Rightarrow>
         if fc_proposing_team_status c \<noteq> ''active'' \<or> fc_receiving_team_status c \<noteq> ''active'' \<or>
            \<not> (proposal_manager_authorized command c \<or> proposal_commissioner_authorized command c)
         then Inl FoundationAuthorizationDenied
         else if fc_current_season_id c \<noteq> Some (cf_seasonId command) \<or>
                 fc_season_status c \<noteq> Some ''active''
         then Inl FoundationSeasonUnavailable
         else if \<not> trading_open (cf_createdAtMs command) c \<or>
                 \<not> before_deadline (cf_createdAtMs command) (fc_trade_deadline_at_ms c)
         then Inl FoundationWindowClosed
         else Inr ())"

definition assertNewTradeProposalCreationAuthority :: "string \<Rightarrow> foundation_code + unit" where
  "assertNewTradeProposalCreationAuthority actorAuthority =
     (if actorAuthority \<noteq> ''manager'' then Inl FoundationAuthorizationDenied else Inr ())"

record proposal_timing =
  pt_createdAtMs :: int
  pt_expiresAtMs :: int
  pt_tradeDeadlineAtMs :: int
  pt_effectiveDeadlineAtMs :: int

definition deriveTradeProposalTiming :: "jsval \<Rightarrow> jsval \<Rightarrow> foundation_code + proposal_timing" where
  "deriveTradeProposalTiming createdAtMs tradeDeadlineAtMs =
     bindE (foundation_safeTimestamp createdAtMs) (\<lambda>created.
     bindE (foundation_safeTimestamp tradeDeadlineAtMs) (\<lambda>tradeDeadline.
     let expiresAtMs = created + TRADE_PROPOSAL_LIFETIME_MS in
     if tradeDeadline \<le> created \<or> \<not> safe expiresAtMs \<or> max_timestamp < expiresAtMs
     then Inl FoundationWindowClosed
     else
       Inr \<lparr>pt_createdAtMs = created, pt_expiresAtMs = expiresAtMs,
            pt_tradeDeadlineAtMs = tradeDeadline,
            pt_effectiveDeadlineAtMs = min expiresAtMs tradeDeadline\<rparr>))"

section \<open>The projection of a row\<close>

definition STATUS_LABELS :: "(string \<times> string) list" where
  "STATUS_LABELS =
     [(''proposed'', ''Pending''),
      (''awaiting_commissioner_approval'', ''Awaiting Commissioner Approval''),
      (''accepted'', ''Accepted''), (''declined'', ''Rejected''), (''cancelled'', ''Cancelled''),
      (''expired'', ''Expired''), (''completed'', ''Accepted''), (''reversed'', ''Reversed''),
      (''correction_required'', ''Correction Required'')]"

record proposal_row =
  pl_trade_id :: string
  pl_league_id :: string
  pl_season_id :: string
  pl_proposing_team_id :: string
  pl_proposing_team_name :: string
  pl_receiving_team_id :: string
  pl_receiving_team_name :: string
  pl_proposing_user_id :: string
  pl_storage_status :: string
  pl_created_at_ms :: int
  pl_expires_at_ms :: int
  pl_trade_deadline_at_ms :: "int option"
  pl_persisted_effective_deadline_at_ms :: "int option"
  pl_responded_at_ms :: "int option"
  pl_completed_at_ms :: "int option"
  pl_commissioner_completion_reference :: "string option"
  pl_version :: int

record proposal_view =
  pv_row :: proposal_row
  pv_status :: string
  pv_tradeDeadlineAtMs :: "int option"
  pv_effectiveDeadlineAtMs :: int

definition safe_or_null :: "int option \<Rightarrow> int option" where
  "safe_or_null v = (case v of Some n \<Rightarrow> if safe n then Some n else None | None \<Rightarrow> None)"

text \<open>The projected object repeats the row's columns and adds what is computed here.\<close>

definition projectTradeProposalRow :: "proposal_row option \<Rightarrow> foundation_code + proposal_view" where
  "projectTradeProposalRow row =
     (case row of
       None \<Rightarrow> Inl FoundationProjectionInvalid
     | Some r \<Rightarrow>
         (case map_of STATUS_LABELS (pl_storage_status r) of
           None \<Rightarrow> Inl FoundationProjectionInvalid
         | Some label \<Rightarrow>
             if \<not> safe (pl_created_at_ms r) \<or> \<not> safe (pl_expires_at_ms r)
             then Inl FoundationProjectionInvalid
             else
               let tradeDeadline = safe_or_null (pl_trade_deadline_at_ms r);
                   persisted = safe_or_null (pl_persisted_effective_deadline_at_ms r) in
               bindE (mapE (\<lambda>s. foundation_stableId (JStr s))
                 [pl_trade_id r, pl_league_id r, pl_season_id r, pl_proposing_team_id r,
                  pl_receiving_team_id r, pl_proposing_user_id r]) (\<lambda>_.
               Inr \<lparr>pv_row = r, pv_status = label, pv_tradeDeadlineAtMs = tradeDeadline,
                    pv_effectiveDeadlineAtMs =
                      (case persisted of Some t \<Rightarrow> t
                       | None \<Rightarrow> (case tradeDeadline of None \<Rightarrow> pl_expires_at_ms r
                                 | Some t \<Rightarrow> min (pl_expires_at_ms r) t))\<rparr>)))"

section \<open>The service's command\<close>

definition IDEMPOTENCY_LIFETIME_MS :: int where
  "IDEMPOTENCY_LIFETIME_MS = 24 * 60 * 60 * 1000"

datatype service_error =
    ServiceAsset trade_asset_code
  | ServiceFoundation foundation_code
  | ServiceDenied
  | ServiceClock

fun as_asset :: "trade_asset_code + 'a \<Rightarrow> service_error + 'a" where
  "as_asset (Inl e) = Inl (ServiceAsset e)"
| "as_asset (Inr x) = Inr x"

fun as_foundation :: "foundation_code + 'a \<Rightarrow> service_error + 'a" where
  "as_foundation (Inl e) = Inl (ServiceFoundation e)"
| "as_foundation (Inr x) = Inr x"

text \<open>
  What the service asks for: the authorization of a manager (league, user, membership and
  authority of the actor, or a refusal), the repository's row for the two teams, the clock, and
  the identifiers it draws, in the order of the draws.
\<close>

record manager_authority =
  ma_leagueId :: string
  ma_actorUserId :: string
  ma_membershipId :: string
  ma_authority :: string

record service_world =
  sw_requireManager :: "string \<Rightarrow> manager_authority option"
  sw_loadFoundationState :: "string \<Rightarrow> string \<Rightarrow> string \<Rightarrow> manager_authority \<Rightarrow> foundation_context option"
  sw_nowMs :: jsval
  sw_tradeId :: string
  sw_assetIds :: "nat \<Rightarrow> string list"
  sw_eventId :: string
  sw_requestId :: string

definition safeNow :: "jsval \<Rightarrow> service_error + int" where
  "safeNow v = safe_from ServiceClock 0 v"

fun asset_count :: "trade_body \<Rightarrow> nat" where
  "asset_count (TwoTeam p r pa ra) = length pa + length ra"
| "asset_count (ThreeTeam p r sides) = sum_list (map (\<lambda>(t, side). length side) sides)"

definition buildCommand :: "service_world \<Rightarrow> jsval \<Rightarrow> jsval \<Rightarrow> service_error + (string \<times> jsval) list" where
  "buildCommand w input idempotencyKey =
     bindE (as_asset (validateTradeProposalCreationInput input)) (\<lambda>body.
     bindE (as_asset (boundedIdempotencyKey idempotencyKey)) (\<lambda>canonicalIdempotencyKey.
     let (proposing, receiving, participants) = body_teams body in
     case sw_requireManager w proposing of
       None \<Rightarrow> Inl ServiceDenied
     | Some authority \<Rightarrow>
     let ctx = sw_loadFoundationState w (ma_leagueId authority) proposing receiving authority in
     bindE (as_foundation (requireCurrentTradeSeasonId ctx)) (\<lambda>seasonId.
     bindE (safeNow (sw_nowMs w)) (\<lambda>createdAtMs.
     bindE (as_foundation (validateTradeProposalFoundationCommand (JObj (foundation_fields
       \<lparr>cf_proposalId = sw_tradeId w, cf_leagueId = ma_leagueId authority, cf_seasonId = seasonId,
        cf_proposingTeamId = proposing, cf_receivingTeamId = receiving,
        cf_actorUserId = ma_actorUserId authority, cf_actorMembershipId = ma_membershipId authority,
        cf_actorAuthority = ma_authority authority, cf_createdAtMs = createdAtMs\<rparr>)))) (\<lambda>foundation.
     bindE (as_foundation (assertTradeProposalFoundationState foundation ctx)) (\<lambda>_.
     bindE (as_foundation (deriveTradeProposalTiming (JInt createdAtMs)
       (case ctx of Some c \<Rightarrow> jint_or_null (fc_trade_deadline_at_ms c) | None \<Rightarrow> JUndef))) (\<lambda>timing.
     bindE (as_asset (createTradeAssetCommands body
       (JArr (map JStr (sw_assetIds w (asset_count body)))) (JInt createdAtMs))) (\<lambda>assets.
     Inr (creation_command_fields foundation participants (sw_eventId w) (sw_requestId w)
       (pt_expiresAtMs timing) (pt_effectiveDeadlineAtMs timing) canonicalIdempotencyKey
       (createdAtMs + IDEMPOTENCY_LIFETIME_MS) assets)))))))))"

section \<open>Deadlines\<close>

lemma deriveTradeProposalTiming_iff:
  "deriveTradeProposalTiming (JInt created) (JInt deadline) = Inr t \<longleftrightarrow>
     0 \<le> created \<and> created + TRADE_PROPOSAL_LIFETIME_MS \<le> max_timestamp \<and>
     created < deadline \<and> deadline \<le> max_timestamp \<and>
     t = \<lparr>pt_createdAtMs = created, pt_expiresAtMs = created + TRADE_PROPOSAL_LIFETIME_MS,
          pt_tradeDeadlineAtMs = deadline,
          pt_effectiveDeadlineAtMs = min (created + TRADE_PROPOSAL_LIFETIME_MS) deadline\<rparr>"
  by (auto simp: deriveTradeProposalTiming_def foundation_safeTimestamp_def bindE_Inr_iff
      safe_between_iff Let_def TRADE_PROPOSAL_LIFETIME_MS_def safe_def max_safe_def max_timestamp_def
      split: if_splits)

lemma timing_Inr:
  assumes "deriveTradeProposalTiming (JInt created) v = Inr t"
  obtains deadline where "v = JInt deadline" "deriveTradeProposalTiming (JInt created) (JInt deadline) = Inr t"
  using assms
  by (auto simp: deriveTradeProposalTiming_def foundation_safeTimestamp_def bindE_Inr_iff safe_between_iff)

section \<open>The service's command passes the repository's checks\<close>

lemma as_asset_Inr [result_iffs]: "as_asset m = Inr x \<longleftrightarrow> m = Inr x"
  by (cases m) auto

lemma as_foundation_Inr [result_iffs]: "as_foundation m = Inr x \<longleftrightarrow> m = Inr x"
  by (cases m) auto

lemma asset_count_deals: "asset_count b = length (deals b)"
  by (cases b) (auto simp: length_concat comp_def split_def)

lemma buildCommand_Inr:
  assumes "buildCommand w input key = Inr cmd"
  obtains body proposing receiving participants k authority c seasonId created f t deadline rows where
    "validateTradeProposalCreationInput input = Inr body"
    "body_teams body = (proposing, receiving, participants)"
    "boundedIdempotencyKey key = Inr k"
    "sw_requireManager w proposing = Some authority"
    "sw_loadFoundationState w (ma_leagueId authority) proposing receiving authority = Some c"
    "f = \<lparr>cf_proposalId = sw_tradeId w, cf_leagueId = ma_leagueId authority, cf_seasonId = seasonId,
        cf_proposingTeamId = proposing, cf_receivingTeamId = receiving,
        cf_actorUserId = ma_actorUserId authority, cf_actorMembershipId = ma_membershipId authority,
        cf_actorAuthority = ma_authority authority, cf_createdAtMs = created\<rparr>"
    "foundation_wf f" "assertTradeProposalFoundationState f (Some c) = Inr ()"
    "fc_trade_deadline_at_ms c = Some deadline"
    "deriveTradeProposalTiming (JInt created) (JInt deadline) = Inr t"
    "createTradeAssetCommands body (JArr (map JStr (sw_assetIds w (asset_count body)))) (JInt created) = Inr rows"
    "cmd = creation_command_fields f participants (sw_eventId w) (sw_requestId w)
       (pt_expiresAtMs t) (pt_effectiveDeadlineAtMs t) k (created + IDEMPOTENCY_LIFETIME_MS) rows"
proof -
  from assms obtain body k where body: "validateTradeProposalCreationInput input = Inr body"
    and k: "boundedIdempotencyKey key = Inr k"
    unfolding buildCommand_def by (auto simp: bindE_Inr_iff as_asset_Inr)
  obtain p r parts where teams: "body_teams body = (p, r, parts)" by (cases "body_teams body")
  note m1 = assms [unfolded buildCommand_def body k as_asset.simps bindE_simps Let_def teams prod.case]
  then obtain a where a: "sw_requireManager w p = Some a" by (auto split: option.splits)
  define ctx where "ctx = sw_loadFoundationState w (ma_leagueId a) p r a"
  note m2 = m1 [unfolded a option.case ctx_def [symmetric]]
  then obtain s created g t rows where s: "requireCurrentTradeSeasonId ctx = Inr s"
    and g: "validateTradeProposalFoundationCommand (JObj (foundation_fields
       \<lparr>cf_proposalId = sw_tradeId w, cf_leagueId = ma_leagueId a, cf_seasonId = s,
        cf_proposingTeamId = p, cf_receivingTeamId = r,
        cf_actorUserId = ma_actorUserId a, cf_actorMembershipId = ma_membershipId a,
        cf_actorAuthority = ma_authority a, cf_createdAtMs = created\<rparr>)) = Inr g"
    and ok: "assertTradeProposalFoundationState g ctx = Inr ()"
    and t: "deriveTradeProposalTiming (JInt created)
       (case ctx of Some c \<Rightarrow> jint_or_null (fc_trade_deadline_at_ms c) | None \<Rightarrow> JUndef) = Inr t"
    and rows: "createTradeAssetCommands body (JArr (map JStr (sw_assetIds w (asset_count body))))
      (JInt created) = Inr rows"
    and cmd: "cmd = creation_command_fields g parts (sw_eventId w) (sw_requestId w)
       (pt_expiresAtMs t) (pt_effectiveDeadlineAtMs t) k (created + IDEMPOTENCY_LIFETIME_MS) rows"
    by (auto simp: bindE_Inr_iff as_asset_Inr as_foundation_Inr)
  obtain c where c: "ctx = Some c" using s by (cases ctx) (auto simp: requireCurrentTradeSeasonId_def)
  define f where "f = \<lparr>cf_proposalId = sw_tradeId w, cf_leagueId = ma_leagueId a, cf_seasonId = s,
        cf_proposingTeamId = p, cf_receivingTeamId = r,
        cf_actorUserId = ma_actorUserId a, cf_actorMembershipId = ma_membershipId a,
        cf_actorAuthority = ma_authority a, cf_createdAtMs = created\<rparr>"
  have wf: "foundation_wf g" using g by (rule foundation_validator.parse_wf)
  have g': "validateTradeProposalFoundationCommand (JObj (foundation_fields f)) = Inr g"
    using g by (simp add: f_def)
  have fg: "g = f"
    using g' unfolding foundation_command_iff by (cases f, cases g) (simp add: foundation_fields_def)
  from t c have "deriveTradeProposalTiming (JInt created) (jint_or_null (fc_trade_deadline_at_ms c)) = Inr t"
    by simp
  then obtain deadline where dl: "jint_or_null (fc_trade_deadline_at_ms c) = JInt deadline"
    "deriveTradeProposalTiming (JInt created) (JInt deadline) = Inr t" by (rule timing_Inr)
  have dl': "fc_trade_deadline_at_ms c = Some deadline"
    using dl(1) by (cases "fc_trade_deadline_at_ms c") auto
  note ok' = ok [unfolded c fg] and cmd' = cmd [unfolded fg] and wf' = wf [unfolded fg]
  show ?thesis
    by (rule that [OF body teams k a _ f_def wf' ok' dl' dl(2) rows cmd']) (use c ctx_def in simp)
qed

lemma buildCommand_accepted:
  assumes built: "buildCommand w input key = Inr cmd"
    and body: "validateTradeProposalCreationInput input = Inr body"
    and ids: "length (sw_assetIds w (asset_count body)) = asset_count body"
      "distinct (sw_assetIds w (asset_count body))" "list_all is_uuid (sw_assetIds w (asset_count body))"
      "is_uuid (sw_eventId w)" "is_uuid (sw_requestId w)"
  obtains c deadline where "validateTradeProposalCreationCommand (JObj cmd) = Inr c"
    "cc_participantTeamIds c = snd (snd (body_teams body))"
    "cc_assets c = map (\<lambda>row. JObj (asset_command_fields row))
       (deal_rows body (sw_assetIds w (asset_count body)) (cf_createdAtMs (cc_foundation c)))"
    "cc_effectiveDeadlineAtMs c = min (cf_createdAtMs (cc_foundation c) + TRADE_PROPOSAL_LIFETIME_MS) deadline"
    "cf_createdAtMs (cc_foundation c) < deadline"
proof -
  let ?ids = "sw_assetIds w (asset_count body)"
  from built obtain b p r parts k a c s created f t deadline rows where
    b: "validateTradeProposalCreationInput input = Inr b" "body_teams b = (p, r, parts)"
    and k: "boundedIdempotencyKey key = Inr k"
    and "sw_requireManager w p = Some a"
      "sw_loadFoundationState w (ma_leagueId a) p r a = Some c"
    and f: "f = \<lparr>cf_proposalId = sw_tradeId w, cf_leagueId = ma_leagueId a, cf_seasonId = s,
        cf_proposingTeamId = p, cf_receivingTeamId = r,
        cf_actorUserId = ma_actorUserId a, cf_actorMembershipId = ma_membershipId a,
        cf_actorAuthority = ma_authority a, cf_createdAtMs = created\<rparr>" "foundation_wf f"
    and "assertTradeProposalFoundationState f (Some c) = Inr ()"
    and dl: "fc_trade_deadline_at_ms c = Some deadline"
      "deriveTradeProposalTiming (JInt created) (JInt deadline) = Inr t"
    and rows: "createTradeAssetCommands b (JArr (map JStr (sw_assetIds w (asset_count b)))) (JInt created) = Inr rows"
    and cmd: "cmd = creation_command_fields f parts (sw_eventId w) (sw_requestId w)
       (pt_expiresAtMs t) (pt_effectiveDeadlineAtMs t) k (created + IDEMPOTENCY_LIFETIME_MS) rows"
    by (rule buildCommand_Inr)
  have eq: "b = body" using b(1) body by simp
  have wf: "body_wf body" using body by (rule creation_input_sound)
  from dl(2) have times: "0 \<le> created" "created + TRADE_PROPOSAL_LIFETIME_MS \<le> max_timestamp" "created < deadline"
    and t: "pt_expiresAtMs t = created + TRADE_PROPOSAL_LIFETIME_MS"
      "pt_effectiveDeadlineAtMs t = min (created + TRADE_PROPOSAL_LIFETIME_MS) deadline"
    by (auto simp: deriveTradeProposalTiming_iff)
  have stamp: "asset_safeTimestamp (JInt created) = Inr created"
    using times by (intro asset_safeTimestamp_JInt) (simp_all add: TRADE_PROPOSAL_LIFETIME_MS_def)
  have rows': "rows = deal_rows body ?ids created"
    using created_rows [OF wf ids(3) _ stamp] ids(1) rows by (simp add: eq asset_count_deals)
  have key: "is_bounded_text 128 k" using k by (auto simp: boundedIdempotencyKey_def bounded_text_iff)
  have len: "length ?ids = length (deals body)" using ids(1) by (simp add: asset_count_deals)
  have "validateTradeProposalCreationCommand (JObj cmd) =
    Inr \<lparr>cc_foundation = f, cc_participantTeamIds = parts, cc_eventId = sw_eventId w,
      cc_idempotencyRequestId = sw_requestId w, cc_expiresAtMs = created + TRADE_PROPOSAL_LIFETIME_MS,
      cc_effectiveDeadlineAtMs = min (created + TRADE_PROPOSAL_LIFETIME_MS) deadline,
      cc_idempotencyKey = k, cc_idempotencyExpiresAtMs = created + IDEMPOTENCY_LIFETIME_MS,
      cc_assets = map (\<lambda>c. JObj (asset_command_fields c)) (deal_rows body ?ids created)\<rparr>"
    unfolding cmd rows' t
    by (rule creation_command_accepted [OF wf b(2) [unfolded eq] f(2) _ _ _ ids(3) ids(2) len ids(4,5) key])
      (use times in \<open>simp_all add: f(1) TRADE_PROPOSAL_LIFETIME_MS_def IDEMPOTENCY_LIFETIME_MS_def\<close>)
  then show ?thesis
    by (rule that) (use times in \<open>simp_all add: f(1) b(2) [unfolded eq]\<close>)
qed

section \<open>Properties\<close>

text \<open>C39. A proposal's body is accepted exactly when it is well formed, whatever the order of its
  keys: whatever the validator accepts is a body of two or three different teams, each giving 1 to
  100 assets and not only requested retentions, a requested retention going with its contract,
  and nothing traded twice; and every such body is read back from its own object.\<close>

theorem trade_body_roundtrip:
  "(\<nexists>b. validateTradeProposalCreationInput input = Inr b \<and> \<not> body_wf b) \<and>
   (body_wf b \<longrightarrow> validateTradeProposalCreationInput (JObj (body_fields b)) = Inr b)"
  using creation_input_sound creation_input_complete by blast

definition sample_body :: trade_body where
  "sample_body = TwoTeam (sample_id CHR ''1'') (sample_id CHR ''2'')
     [asset_of (SContract (sample_id CHR ''a'')), asset_of (SRequested (sample_id CHR ''a'') 100)]
     [asset_of (SPick (sample_id CHR ''b''))]"

theorem trade_body_roundtrip_witness:
  "validateTradeProposalCreationInput (JObj (body_fields sample_body)) = Inr sample_body"
proof -
  have "body_wf sample_body"
    by (simp add: sample_body_def side_wf_def MAX_ASSETS_PER_SIDE_def hex_char_def safe_def max_safe_def
        things_def asset_of_inj)
  then show ?thesis using trade_body_roundtrip [of undefined sample_body] by blast
qed


definition sample_world :: service_world where
  "sample_world =
     \<lparr>sw_requireManager = (\<lambda>team. Some
        \<lparr>ma_leagueId = sample_id CHR ''3'', ma_actorUserId = sample_id CHR ''4'',
         ma_membershipId = sample_id CHR ''5'', ma_authority = ''manager''\<rparr>),
      sw_loadFoundationState = (\<lambda>_ _ _ _. Some
        \<lparr>fc_league_status = ''active'', fc_commissioner_membership_id = None,
         fc_current_season_id = Some (sample_id CHR ''6''), fc_season_status = Some ''active'',
         fc_trade_deadline_at_ms = Some 5000, fc_proposing_team_status = ''active'',
         fc_receiving_team_status = ''active'', fc_membership_permission = Some ''manager'',
         fc_membership_status = Some ''active'', fc_assignment_status = Some ''accepted'',
         fc_assignment_ended_at_ms = None, fc_entry_draft_status = Some ''active'',
         fc_trading_opens_at_ms = Some 1000, fc_inaugural_trading_opens_at_ms = None\<rparr>),
      sw_nowMs = JInt 1000, sw_tradeId = sample_id CHR ''7'',
      sw_assetIds = (\<lambda>n. [sample_id CHR ''a'', sample_id CHR ''b'', sample_id CHR ''c'']),
      sw_eventId = sample_id CHR ''8'', sw_requestId = sample_id CHR ''9''\<rparr>"


end
