(* ===== verification/TradeLifecycle.thy ===== *)
theory TradeLifecycle
  imports TradeProposal
begin

text \<open>
  \<^verbatim>\<open>src/src/domain/trades/tradeLifecyclePolicy.js\<close>, \<^verbatim>\<open>tradeExecutionPolicy.js\<close> and
  \<^verbatim>\<open>tradeReversalPolicy.js\<close>: the commands that end a proposal (reject, cancel, expire,
  accept, approve) or recover a completed trade, and the state in which each is allowed. The row
  the repository loads for a command is \<open>trade_context\<close>; columns of a \<^verbatim>\<open>LEFT JOIN\<close> are
  options, and \<^verbatim>\<open>multi_trade_actor_team_id\<close> is the team the repository adds for a trade
  between three teams.
\<close>

section \<open>Validators with an optional team\<close>

fun undef_or :: "string option \<Rightarrow> jsval" where
  "undef_or None = JUndef"
| "undef_or (Some s) = JStr s"

definition responding_key :: "jsval \<Rightarrow> string list" where
  "responding_key input =
     (if fld input ''respondingTeamId'' = JUndef then [] else [''respondingTeamId''])"

definition responding_team :: "(jsval \<Rightarrow> 'e + string) \<Rightarrow> jsval \<Rightarrow> 'e + string option" where
  "responding_team stableId input =
     (if fld input ''respondingTeamId'' = JUndef then Inr None
      else bindE (stableId (fld input ''respondingTeamId'')) (\<lambda>s. Inr (Some s)))"

fun responding_field :: "string option \<Rightarrow> (string \<times> jsval) list" where
  "responding_field None = []"
| "responding_field (Some s) = [(''respondingTeamId'', JStr s)]"

lemma responding_team_iff [check_iffs]:
  "responding_team (stable_id e) v = Inr r \<longleftrightarrow>
     fld v ''respondingTeamId'' = undef_or r \<and> pred_option is_uuid r"
  by (cases r) (auto simp: responding_team_def bindE_Inr_iff stable_id_iff)

lemma responding_validatorI:
  assumes keys: "\<And>c. map fst (rest c) = ks" and dist: "distinct (''respondingTeamId'' # ks)"
    and iff: "\<And>v c. parse v = Inr c \<longleftrightarrow> ok c \<and>
      exact_object e (responding_key v @ ks) v = Inr () \<and>
      fld v ''respondingTeamId'' = undef_or (team c) \<and> list_all (\<lambda>(k, w). fld v k = w) (rest c)"
  shows "validator parse (\<lambda>c. responding_field (team c) @ rest c) ok"
proof
  fix v c
  show "parse v = Inr c \<longleftrightarrow> ok c \<and> same_object v (responding_field (team c) @ rest c)"
  proof (cases "team c")
    case None
    have absent: "fld v ''respondingTeamId'' = JUndef" if "exact_object e ks v = Inr ()"
    proof -
      from that obtain ps where v: "v = JObj ps" "mset (map fst ps) = mset ks" by (auto simp: exact_object_iff)
      then have "''respondingTeamId'' \<notin> fst ` set ps"
        using has_own_if_keys [OF v(2)] dist by (simp add: has_own_def)
      then have "map_of ps ''respondingTeamId'' = None" by (simp add: map_of_eq_None_iff)
      then show ?thesis by (simp add: v(1) fld_def)
    qed
    have "distinct (map fst (rest c))" using keys dist by simp
    from same_object_fields [OF this, of v e] show ?thesis
      unfolding iff None using absent by (auto simp: keys responding_key_def)
  next
    case (Some t)
    have "distinct (map fst (responding_field (team c) @ rest c))" using Some keys dist by simp
    from same_object_fields [OF this, of v e] show ?thesis
      unfolding iff Some by (auto simp: keys responding_key_def)
  qed
qed

section \<open>Lifecycle commands\<close>

datatype lifecycle_code =
    LifecycleInputInvalid
  | LifecycleStableIdInvalid
  | LifecycleActionInvalid
  | LifecycleAuthorityInvalid
  | LifecycleTimestampInvalid
  | LifecycleVersionInvalid
  | LifecycleIdempotencyInvalid
  | LifecycleIdempotencyConflict
  | LifecycleNotFound
  | LifecycleNotPending
  | LifecycleRoleDenied
  | LifecycleWindowClosed
  | LifecycleStateInvalid
  | LifecycleVersionConflict

definition LIFECYCLE_ACTIONS :: "string list" where
  "LIFECYCLE_ACTIONS = [''reject'', ''cancel'']"

definition OPEN_PROPOSAL_STATUSES :: "string list" where
  "OPEN_PROPOSAL_STATUSES = [''proposed'', ''awaiting_commissioner_approval'']"

definition EXECUTION_AUTHORITIES :: "string list" where
  "EXECUTION_AUTHORITIES = [''manager'', ''commissioner'', ''platform_administrator'']"

definition lifecycle_exactObject :: "string list \<Rightarrow> jsval \<Rightarrow> lifecycle_code + unit" where
  "lifecycle_exactObject = exact_object LifecycleInputInvalid"

definition lifecycle_stableId :: "jsval \<Rightarrow> lifecycle_code + string" where
  "lifecycle_stableId = stable_id LifecycleStableIdInvalid"

definition lifecycle_safeTimestamp :: "jsval \<Rightarrow> lifecycle_code + int" where
  "lifecycle_safeTimestamp = safe_between LifecycleTimestampInvalid 0 max_timestamp"

definition lifecycle_positiveVersion :: "jsval \<Rightarrow> lifecycle_code + int" where
  "lifecycle_positiveVersion = safe_from LifecycleVersionInvalid 1"

definition lifecycleAction :: "jsval \<Rightarrow> lifecycle_code + string" where
  "lifecycleAction = one_of LifecycleActionInvalid LIFECYCLE_ACTIONS"

lemmas lifecycle_field_defs =
  lifecycle_exactObject_def lifecycle_stableId_def lifecycle_safeTimestamp_def
  lifecycle_positiveVersion_def lifecycleAction_def

record lifecycle_input =
  li_respondingTeamId :: "string option"
  li_tradeId :: string
  li_action :: string

definition validateTradeLifecycleInput :: "jsval \<Rightarrow> lifecycle_code + lifecycle_input" where
  "validateTradeLifecycleInput input =
     bindE (lifecycle_exactObject (responding_key input @ [''tradeId'', ''action'']) input) (\<lambda>_.
     bindE (responding_team lifecycle_stableId input) (\<lambda>respondingTeamId.
     bindE (lifecycle_stableId (fld input ''tradeId'')) (\<lambda>tradeId.
     bindE (lifecycleAction (fld input ''action'')) (\<lambda>action.
     Inr \<lparr>li_respondingTeamId = respondingTeamId, li_tradeId = tradeId, li_action = action\<rparr>))))"

record lifecycle_command =
  lc_respondingTeamId :: "string option"
  lc_tradeId :: string
  lc_eventId :: string
  lc_idempotencyRequestId :: string
  lc_leagueId :: string
  lc_seasonId :: string
  lc_proposingTeamId :: string
  lc_receivingTeamId :: string
  lc_expectedVersion :: int
  lc_action :: string
  lc_actorUserId :: string
  lc_actorMembershipId :: string
  lc_actorAuthority :: string
  lc_occurredAtMs :: int
  lc_effectiveDeadlineAtMs :: int
  lc_idempotencyKey :: string
  lc_idempotencyExpiresAtMs :: int

definition lifecycle_keys :: "string list" where
  "lifecycle_keys =
     [''tradeId'', ''eventId'', ''idempotencyRequestId'', ''leagueId'', ''seasonId'',
      ''proposingTeamId'', ''receivingTeamId'', ''expectedVersion'', ''action'', ''actorUserId'',
      ''actorMembershipId'', ''actorAuthority'', ''occurredAtMs'', ''effectiveDeadlineAtMs'',
      ''idempotencyKey'', ''idempotencyExpiresAtMs'']"

definition validateTradeLifecycleCommand :: "jsval \<Rightarrow> lifecycle_code + lifecycle_command" where
  "validateTradeLifecycleCommand input =
     bindE (lifecycle_exactObject (responding_key input @ lifecycle_keys) input) (\<lambda>_.
     bindE (one_of LifecycleAuthorityInvalid EXECUTION_AUTHORITIES (fld input ''actorAuthority'')) (\<lambda>actorAuthority.
     bindE (lifecycle_safeTimestamp (fld input ''occurredAtMs'')) (\<lambda>occurredAtMs.
     bindE (lifecycle_safeTimestamp (fld input ''effectiveDeadlineAtMs'')) (\<lambda>effectiveDeadlineAtMs.
     bindE (lifecycle_safeTimestamp (fld input ''idempotencyExpiresAtMs'')) (\<lambda>idempotencyExpiresAtMs.
     if idempotencyExpiresAtMs \<le> occurredAtMs then Inl LifecycleTimestampInvalid
     else
     bindE (responding_team lifecycle_stableId input) (\<lambda>respondingTeamId.
     bindE (lifecycle_stableId (fld input ''tradeId'')) (\<lambda>tradeId.
     bindE (lifecycle_stableId (fld input ''eventId'')) (\<lambda>eventId.
     bindE (lifecycle_stableId (fld input ''idempotencyRequestId'')) (\<lambda>idempotencyRequestId.
     bindE (lifecycle_stableId (fld input ''leagueId'')) (\<lambda>leagueId.
     bindE (lifecycle_stableId (fld input ''seasonId'')) (\<lambda>seasonId.
     bindE (lifecycle_stableId (fld input ''proposingTeamId'')) (\<lambda>proposingTeamId.
     bindE (lifecycle_stableId (fld input ''receivingTeamId'')) (\<lambda>receivingTeamId.
     bindE (lifecycle_positiveVersion (fld input ''expectedVersion'')) (\<lambda>expectedVersion.
     bindE (lifecycleAction (fld input ''action'')) (\<lambda>action.
     bindE (lifecycle_stableId (fld input ''actorUserId'')) (\<lambda>actorUserId.
     bindE (lifecycle_stableId (fld input ''actorMembershipId'')) (\<lambda>actorMembershipId.
     bindE (bounded_text LifecycleIdempotencyInvalid 128 (fld input ''idempotencyKey'')) (\<lambda>idempotencyKey.
     if proposingTeamId = receivingTeamId then Inl LifecycleStateInvalid
     else
       Inr \<lparr>lc_respondingTeamId = respondingTeamId, lc_tradeId = tradeId, lc_eventId = eventId,
            lc_idempotencyRequestId = idempotencyRequestId, lc_leagueId = leagueId,
            lc_seasonId = seasonId, lc_proposingTeamId = proposingTeamId,
            lc_receivingTeamId = receivingTeamId, lc_expectedVersion = expectedVersion,
            lc_action = action, lc_actorUserId = actorUserId,
            lc_actorMembershipId = actorMembershipId, lc_actorAuthority = actorAuthority,
            lc_occurredAtMs = occurredAtMs, lc_effectiveDeadlineAtMs = effectiveDeadlineAtMs,
            lc_idempotencyKey = idempotencyKey,
            lc_idempotencyExpiresAtMs = idempotencyExpiresAtMs\<rparr>))))))))))))))))))"

definition lifecycle_fields :: "lifecycle_command \<Rightarrow> (string \<times> jsval) list" where
  "lifecycle_fields c =
     [(''tradeId'', JStr (lc_tradeId c)), (''eventId'', JStr (lc_eventId c)),
      (''idempotencyRequestId'', JStr (lc_idempotencyRequestId c)),
      (''leagueId'', JStr (lc_leagueId c)), (''seasonId'', JStr (lc_seasonId c)),
      (''proposingTeamId'', JStr (lc_proposingTeamId c)),
      (''receivingTeamId'', JStr (lc_receivingTeamId c)),
      (''expectedVersion'', JInt (lc_expectedVersion c)), (''action'', JStr (lc_action c)),
      (''actorUserId'', JStr (lc_actorUserId c)),
      (''actorMembershipId'', JStr (lc_actorMembershipId c)),
      (''actorAuthority'', JStr (lc_actorAuthority c)), (''occurredAtMs'', JInt (lc_occurredAtMs c)),
      (''effectiveDeadlineAtMs'', JInt (lc_effectiveDeadlineAtMs c)),
      (''idempotencyKey'', JStr (lc_idempotencyKey c)),
      (''idempotencyExpiresAtMs'', JInt (lc_idempotencyExpiresAtMs c))]"

definition is_timestamp :: "int \<Rightarrow> bool" where
  "is_timestamp n \<longleftrightarrow> safe n \<and> 0 \<le> n \<and> n \<le> max_timestamp"

definition lifecycle_wf :: "lifecycle_command \<Rightarrow> bool" where
  "lifecycle_wf c \<longleftrightarrow>
     pred_option is_uuid (lc_respondingTeamId c) \<and> is_uuid (lc_tradeId c) \<and> is_uuid (lc_eventId c) \<and>
     is_uuid (lc_idempotencyRequestId c) \<and> is_uuid (lc_leagueId c) \<and> is_uuid (lc_seasonId c) \<and>
     is_uuid (lc_proposingTeamId c) \<and> is_uuid (lc_receivingTeamId c) \<and>
     lc_proposingTeamId c \<noteq> lc_receivingTeamId c \<and>
     safe (lc_expectedVersion c) \<and> 1 \<le> lc_expectedVersion c \<and>
     lc_action c \<in> set LIFECYCLE_ACTIONS \<and> is_uuid (lc_actorUserId c) \<and>
     is_uuid (lc_actorMembershipId c) \<and> lc_actorAuthority c \<in> set EXECUTION_AUTHORITIES \<and>
     is_timestamp (lc_occurredAtMs c) \<and> is_timestamp (lc_effectiveDeadlineAtMs c) \<and>
     is_bounded_text 128 (lc_idempotencyKey c) \<and> is_timestamp (lc_idempotencyExpiresAtMs c) \<and>
     lc_occurredAtMs c < lc_idempotencyExpiresAtMs c"

interpretation lifecycle_validator: validator validateTradeLifecycleCommand
    "\<lambda>c. responding_field (lc_respondingTeamId c) @ lifecycle_fields c" lifecycle_wf
proof (rule responding_validatorI [where ks = lifecycle_keys and e = LifecycleInputInvalid])
  fix v c
  show "validateTradeLifecycleCommand v = Inr c \<longleftrightarrow> lifecycle_wf c \<and>
      exact_object LifecycleInputInvalid (responding_key v @ lifecycle_keys) v = Inr () \<and>
      fld v ''respondingTeamId'' = undef_or (lc_respondingTeamId c) \<and>
      list_all (\<lambda>(k, w). fld v k = w) (lifecycle_fields c)"
    by (cases c) (auto simp: validateTradeLifecycleCommand_def lifecycle_field_defs result_iffs
        check_iffs lifecycle_wf_def lifecycle_fields_def is_timestamp_def
        simp del: exact_object_same_keys)
qed (simp_all add: lifecycle_fields_def lifecycle_keys_def)

subsection \<open>The state a command acts on\<close>

record trade_context =
  tx_trade_id :: string
  tx_league_id :: string
  tx_season_id :: string
  tx_proposing_team_id :: string
  tx_receiving_team_id :: string
  tx_trade_status :: string
  tx_effective_deadline_at_ms :: "int option"
  tx_trade_version :: int
  tx_proposal_model_version :: int
  tx_league_status :: string
  tx_commissioner_membership_id :: "string option"
  tx_season_status :: string
  tx_membership_user_id :: "string option"
  tx_membership_permission :: "string option"
  tx_membership_status :: "string option"
  tx_assignment_team_id :: "string option"
  tx_assignment_status :: "string option"
  tx_assignment_accepted_at_ms :: "int option"
  tx_assignment_ended_at_ms :: "int option"
  tx_is_platform_administrator :: int
  tx_has_future_considerations :: int
  tx_multi_trade_actor_team_id :: "string option"

text \<open>What every assertion compares first, and a deadline that has not passed.\<close>

definition same_trade ::
    "trade_context \<Rightarrow> string \<Rightarrow> string \<Rightarrow> string \<Rightarrow> string \<Rightarrow> string \<Rightarrow> int \<Rightarrow> bool" where
  "same_trade c tradeId leagueId seasonId proposingTeamId receivingTeamId effectiveDeadlineAtMs \<longleftrightarrow>
     tx_trade_id c = tradeId \<and> tx_league_id c = leagueId \<and> tx_season_id c = seasonId \<and>
     tx_proposing_team_id c = proposingTeamId \<and> tx_receiving_team_id c = receivingTeamId \<and>
     tx_effective_deadline_at_ms c = Some effectiveDeadlineAtMs"

definition window_open :: "trade_context \<Rightarrow> int \<Rightarrow> bool" where
  "window_open c occurredAtMs \<longleftrightarrow>
     (case tx_effective_deadline_at_ms c of Some d \<Rightarrow> occurredAtMs < d | None \<Rightarrow> False) \<and>
     tx_season_status c = ''active''"

text \<open>The team whose manager may act: the participant of a three-team trade, or the given one.\<close>

definition acting_team :: "trade_context \<Rightarrow> string \<Rightarrow> string" where
  "acting_team c team =
     (case tx_multi_trade_actor_team_id c of Some t \<Rightarrow> if t \<noteq> [] then t else team | None \<Rightarrow> team)"

definition manager_authorized :: "trade_context \<Rightarrow> string \<Rightarrow> string \<Rightarrow> string \<Rightarrow> bool" where
  "manager_authorized c actorAuthority actorUserId team \<longleftrightarrow>
     actorAuthority = ''manager'' \<and> tx_league_status c = ''active'' \<and>
     tx_membership_user_id c = Some actorUserId \<and> tx_membership_status c = Some ''active'' \<and>
     tx_assignment_team_id c = Some (acting_team c team) \<and>
     tx_assignment_status c = Some ''accepted'' \<and>
     tx_assignment_accepted_at_ms c \<noteq> None \<and> tx_assignment_ended_at_ms c = None"

definition commissioner_authorized :: "trade_context \<Rightarrow> string \<Rightarrow> string \<Rightarrow> string \<Rightarrow> bool" where
  "commissioner_authorized c actorAuthority actorUserId actorMembershipId \<longleftrightarrow>
     tx_league_status c \<in> {''active'', ''frozen''} \<and>
     tx_membership_user_id c = Some actorUserId \<and> tx_membership_status c = Some ''active'' \<and>
     ((actorAuthority = ''commissioner'' \<and>
       tx_commissioner_membership_id c = Some actorMembershipId \<and>
       tx_membership_permission c = Some ''commissioner'') \<or>
      (actorAuthority = ''platform_administrator'' \<and> tx_is_platform_administrator c = 1))"

definition expectedManagerTeamId :: "lifecycle_command \<Rightarrow> string" where
  "expectedManagerTeamId command =
     (if lc_action command = ''reject'' then lc_receivingTeamId command else lc_proposingTeamId command)"

definition assertTradeLifecycleState ::
    "lifecycle_command \<Rightarrow> trade_context option \<Rightarrow> lifecycle_code + unit" where
  "assertTradeLifecycleState command ctx =
     (case ctx of
       None \<Rightarrow> Inl LifecycleNotFound
     | Some c \<Rightarrow>
         if \<not> same_trade c (lc_tradeId command) (lc_leagueId command) (lc_seasonId command)
              (lc_proposingTeamId command) (lc_receivingTeamId command) (lc_effectiveDeadlineAtMs command)
         then Inl LifecycleStateInvalid
         else if tx_trade_status c \<notin> set OPEN_PROPOSAL_STATUSES then Inl LifecycleNotPending
         else if \<not> window_open c (lc_occurredAtMs command) then Inl LifecycleWindowClosed
         else if \<not> manager_authorized c (lc_actorAuthority command) (lc_actorUserId command)
              (expectedManagerTeamId command)
         then Inl LifecycleRoleDenied
         else Inr ())"

section \<open>Acceptance previews\<close>

definition validateTradeAcceptancePreviewInput :: "jsval \<Rightarrow> lifecycle_code + (string option \<times> string)" where
  "validateTradeAcceptancePreviewInput input =
     bindE (lifecycle_exactObject (responding_key input @ [''tradeId'']) input) (\<lambda>_.
     bindE (responding_team lifecycle_stableId input) (\<lambda>respondingTeamId.
     bindE (lifecycle_stableId (fld input ''tradeId'')) (\<lambda>tradeId.
     Inr (respondingTeamId, tradeId))))"

record preview_command =
  vc_respondingTeamId :: "string option"
  vc_tradeId :: string
  vc_leagueId :: string
  vc_seasonId :: string
  vc_proposingTeamId :: string
  vc_receivingTeamId :: string
  vc_expectedVersion :: int
  vc_actorUserId :: string
  vc_actorMembershipId :: string
  vc_actorAuthority :: string
  vc_occurredAtMs :: int
  vc_effectiveDeadlineAtMs :: int

definition preview_keys :: "string list" where
  "preview_keys =
     [''tradeId'', ''leagueId'', ''seasonId'', ''proposingTeamId'', ''receivingTeamId'',
      ''expectedVersion'', ''actorUserId'', ''actorMembershipId'', ''actorAuthority'',
      ''occurredAtMs'', ''effectiveDeadlineAtMs'']"

definition validateTradeAcceptancePreviewCommand :: "jsval \<Rightarrow> lifecycle_code + preview_command" where
  "validateTradeAcceptancePreviewCommand input =
     bindE (lifecycle_exactObject (responding_key input @ preview_keys) input) (\<lambda>_.
     bindE (one_of LifecycleAuthorityInvalid EXECUTION_AUTHORITIES (fld input ''actorAuthority'')) (\<lambda>actorAuthority.
     bindE (responding_team lifecycle_stableId input) (\<lambda>respondingTeamId.
     bindE (lifecycle_stableId (fld input ''tradeId'')) (\<lambda>tradeId.
     bindE (lifecycle_stableId (fld input ''leagueId'')) (\<lambda>leagueId.
     bindE (lifecycle_stableId (fld input ''seasonId'')) (\<lambda>seasonId.
     bindE (lifecycle_stableId (fld input ''proposingTeamId'')) (\<lambda>proposingTeamId.
     bindE (lifecycle_stableId (fld input ''receivingTeamId'')) (\<lambda>receivingTeamId.
     bindE (lifecycle_positiveVersion (fld input ''expectedVersion'')) (\<lambda>expectedVersion.
     bindE (lifecycle_stableId (fld input ''actorUserId'')) (\<lambda>actorUserId.
     bindE (lifecycle_stableId (fld input ''actorMembershipId'')) (\<lambda>actorMembershipId.
     bindE (lifecycle_safeTimestamp (fld input ''occurredAtMs'')) (\<lambda>occurredAtMs.
     bindE (lifecycle_safeTimestamp (fld input ''effectiveDeadlineAtMs'')) (\<lambda>effectiveDeadlineAtMs.
     if proposingTeamId = receivingTeamId then Inl LifecycleStateInvalid
     else
       Inr \<lparr>vc_respondingTeamId = respondingTeamId, vc_tradeId = tradeId, vc_leagueId = leagueId,
            vc_seasonId = seasonId, vc_proposingTeamId = proposingTeamId,
            vc_receivingTeamId = receivingTeamId, vc_expectedVersion = expectedVersion,
            vc_actorUserId = actorUserId, vc_actorMembershipId = actorMembershipId,
            vc_actorAuthority = actorAuthority, vc_occurredAtMs = occurredAtMs,
            vc_effectiveDeadlineAtMs = effectiveDeadlineAtMs\<rparr>)))))))))))))"

definition assertTradeAcceptancePreviewState ::
    "preview_command \<Rightarrow> trade_context option \<Rightarrow> lifecycle_code + unit" where
  "assertTradeAcceptancePreviewState command ctx =
     (case ctx of
       None \<Rightarrow> Inl LifecycleNotFound
     | Some c \<Rightarrow>
         if \<not> same_trade c (vc_tradeId command) (vc_leagueId command) (vc_seasonId command)
              (vc_proposingTeamId command) (vc_receivingTeamId command) (vc_effectiveDeadlineAtMs command) \<or>
            tx_trade_version c \<noteq> vc_expectedVersion command
         then Inl LifecycleStateInvalid
         else if tx_trade_status c \<notin> set OPEN_PROPOSAL_STATUSES then Inl LifecycleNotPending
         else if \<not> window_open c (vc_occurredAtMs command) then Inl LifecycleWindowClosed
         else if \<not> manager_authorized c (vc_actorAuthority command) (vc_actorUserId command)
                (vc_receivingTeamId command) \<and>
              \<not> (tx_trade_status c = ''awaiting_commissioner_approval'' \<and>
                 commissioner_authorized c (vc_actorAuthority command) (vc_actorUserId command)
                   (vc_actorMembershipId command))
         then Inl LifecycleRoleDenied
         else Inr ())"

section \<open>Expiry\<close>

record expiry_command =
  xc_tradeId :: string
  xc_eventId :: string
  xc_leagueId :: string
  xc_seasonId :: string
  xc_expectedVersion :: int
  xc_effectiveDeadlineAtMs :: int
  xc_occurredAtMs :: int
  xc_occurrenceKey :: string

definition buildTradeExpiryOccurrenceKey :: "jsval \<Rightarrow> jsval \<Rightarrow> lifecycle_code + string" where
  "buildTradeExpiryOccurrenceKey tradeId effectiveDeadlineAtMs =
     bindE (lifecycle_stableId tradeId) (\<lambda>i.
     bindE (lifecycle_safeTimestamp effectiveDeadlineAtMs) (\<lambda>t.
     Inr (''trade-expiry:'' @ i @ '':'' @ int_text t)))"

definition expiry_keys :: "string list" where
  "expiry_keys =
     [''tradeId'', ''eventId'', ''leagueId'', ''seasonId'', ''expectedVersion'',
      ''effectiveDeadlineAtMs'', ''occurredAtMs'', ''occurrenceKey'']"

definition validateTradeExpiryCommand :: "jsval \<Rightarrow> lifecycle_code + expiry_command" where
  "validateTradeExpiryCommand input =
     bindE (lifecycle_exactObject expiry_keys input) (\<lambda>_.
     bindE (lifecycle_stableId (fld input ''tradeId'')) (\<lambda>tradeId.
     bindE (lifecycle_stableId (fld input ''eventId'')) (\<lambda>eventId.
     bindE (lifecycle_stableId (fld input ''leagueId'')) (\<lambda>leagueId.
     bindE (lifecycle_stableId (fld input ''seasonId'')) (\<lambda>seasonId.
     bindE (lifecycle_positiveVersion (fld input ''expectedVersion'')) (\<lambda>expectedVersion.
     bindE (lifecycle_safeTimestamp (fld input ''effectiveDeadlineAtMs'')) (\<lambda>effectiveDeadlineAtMs.
     bindE (lifecycle_safeTimestamp (fld input ''occurredAtMs'')) (\<lambda>occurredAtMs.
     bindE (bounded_text LifecycleInputInvalid 200 (fld input ''occurrenceKey'')) (\<lambda>occurrenceKey.
     if occurredAtMs < effectiveDeadlineAtMs then Inl LifecycleWindowClosed
     else
     bindE (buildTradeExpiryOccurrenceKey (JStr tradeId) (JInt effectiveDeadlineAtMs)) (\<lambda>expected.
     if occurrenceKey \<noteq> expected then Inl LifecycleWindowClosed
     else
       Inr \<lparr>xc_tradeId = tradeId, xc_eventId = eventId, xc_leagueId = leagueId,
            xc_seasonId = seasonId, xc_expectedVersion = expectedVersion,
            xc_effectiveDeadlineAtMs = effectiveDeadlineAtMs, xc_occurredAtMs = occurredAtMs,
            xc_occurrenceKey = occurrenceKey\<rparr>))))))))))"

definition assertTradeExpiryState :: "expiry_command \<Rightarrow> trade_context option \<Rightarrow> lifecycle_code + unit" where
  "assertTradeExpiryState command ctx =
     (case ctx of
       None \<Rightarrow> Inl LifecycleNotFound
     | Some c \<Rightarrow>
         if tx_trade_id c \<noteq> xc_tradeId command \<or> tx_league_id c \<noteq> xc_leagueId command \<or>
            tx_season_id c \<noteq> xc_seasonId command \<or>
            tx_effective_deadline_at_ms c \<noteq> Some (xc_effectiveDeadlineAtMs command)
         then Inl LifecycleStateInvalid
         else if tx_trade_status c \<notin> set OPEN_PROPOSAL_STATUSES then Inl LifecycleNotPending
         else if (case tx_effective_deadline_at_ms c of Some d \<Rightarrow> xc_occurredAtMs command < d | None \<Rightarrow> False)
         then Inl LifecycleWindowClosed
         else Inr ())"

section \<open>Acceptance and approval\<close>

datatype execution_code =
    ExecutionInputInvalid
  | ExecutionStableIdInvalid
  | ExecutionAuthorityInvalid
  | ExecutionTimestampInvalid
  | ExecutionVersionInvalid
  | ExecutionIdempotencyInvalid
  | ExecutionIdempotencyConflict
  | ExecutionNotFound
  | ExecutionNotPending
  | ExecutionRoleDenied
  | ExecutionWindowClosed
  | ExecutionStateInvalid
  | ExecutionVersionConflict

definition execution_exactObject :: "string list \<Rightarrow> jsval \<Rightarrow> execution_code + unit" where
  "execution_exactObject = exact_object ExecutionInputInvalid"

definition execution_stableId :: "jsval \<Rightarrow> execution_code + string" where
  "execution_stableId = stable_id ExecutionStableIdInvalid"

definition execution_safeTimestamp :: "jsval \<Rightarrow> execution_code + int" where
  "execution_safeTimestamp = safe_between ExecutionTimestampInvalid 0 max_timestamp"

lemmas execution_field_defs =
  execution_exactObject_def execution_stableId_def execution_safeTimestamp_def

definition validateTradeExecutionInput :: "jsval \<Rightarrow> execution_code + (string option \<times> string)" where
  "validateTradeExecutionInput input =
     bindE (execution_exactObject (responding_key input @ [''tradeId'']) input) (\<lambda>_.
     bindE (responding_team execution_stableId input) (\<lambda>respondingTeamId.
     bindE (execution_stableId (fld input ''tradeId'')) (\<lambda>tradeId.
     Inr (respondingTeamId, tradeId))))"

record execution_command =
  ex_respondingTeamId :: "string option"
  ex_tradeId :: string
  ex_eventId :: string
  ex_idempotencyRequestId :: string
  ex_leagueId :: string
  ex_seasonId :: string
  ex_proposingTeamId :: string
  ex_receivingTeamId :: string
  ex_expectedVersion :: int
  ex_actorUserId :: string
  ex_actorMembershipId :: string
  ex_actorAuthority :: string
  ex_occurredAtMs :: int
  ex_effectiveDeadlineAtMs :: int
  ex_idempotencyKey :: string
  ex_idempotencyExpiresAtMs :: int

definition execution_keys :: "string list" where
  "execution_keys =
     [''tradeId'', ''eventId'', ''idempotencyRequestId'', ''leagueId'', ''seasonId'',
      ''proposingTeamId'', ''receivingTeamId'', ''expectedVersion'', ''actorUserId'',
      ''actorMembershipId'', ''actorAuthority'', ''occurredAtMs'', ''effectiveDeadlineAtMs'',
      ''idempotencyKey'', ''idempotencyExpiresAtMs'']"

definition validateExecutionCommand :: "string list \<Rightarrow> jsval \<Rightarrow> execution_code + execution_command" where
  "validateExecutionCommand allowedAuthorities input =
     bindE (execution_exactObject (responding_key input @ execution_keys) input) (\<lambda>_.
     bindE (one_of ExecutionAuthorityInvalid allowedAuthorities (fld input ''actorAuthority'')) (\<lambda>actorAuthority.
     bindE (safe_from ExecutionVersionInvalid 1 (fld input ''expectedVersion'')) (\<lambda>expectedVersion.
     bindE (bounded_text ExecutionIdempotencyInvalid 128 (fld input ''idempotencyKey'')) (\<lambda>idempotencyKey.
     bindE (responding_team execution_stableId input) (\<lambda>respondingTeamId.
     bindE (execution_stableId (fld input ''tradeId'')) (\<lambda>tradeId.
     bindE (execution_stableId (fld input ''eventId'')) (\<lambda>eventId.
     bindE (execution_stableId (fld input ''idempotencyRequestId'')) (\<lambda>idempotencyRequestId.
     bindE (execution_stableId (fld input ''leagueId'')) (\<lambda>leagueId.
     bindE (execution_stableId (fld input ''seasonId'')) (\<lambda>seasonId.
     bindE (execution_stableId (fld input ''proposingTeamId'')) (\<lambda>proposingTeamId.
     bindE (execution_stableId (fld input ''receivingTeamId'')) (\<lambda>receivingTeamId.
     bindE (execution_stableId (fld input ''actorUserId'')) (\<lambda>actorUserId.
     bindE (execution_stableId (fld input ''actorMembershipId'')) (\<lambda>actorMembershipId.
     bindE (execution_safeTimestamp (fld input ''occurredAtMs'')) (\<lambda>occurredAtMs.
     bindE (execution_safeTimestamp (fld input ''effectiveDeadlineAtMs'')) (\<lambda>effectiveDeadlineAtMs.
     bindE (execution_safeTimestamp (fld input ''idempotencyExpiresAtMs'')) (\<lambda>idempotencyExpiresAtMs.
     if proposingTeamId = receivingTeamId \<or> idempotencyExpiresAtMs \<le> occurredAtMs
     then Inl ExecutionStateInvalid
     else
       Inr \<lparr>ex_respondingTeamId = respondingTeamId, ex_tradeId = tradeId, ex_eventId = eventId,
            ex_idempotencyRequestId = idempotencyRequestId, ex_leagueId = leagueId,
            ex_seasonId = seasonId, ex_proposingTeamId = proposingTeamId,
            ex_receivingTeamId = receivingTeamId, ex_expectedVersion = expectedVersion,
            ex_actorUserId = actorUserId, ex_actorMembershipId = actorMembershipId,
            ex_actorAuthority = actorAuthority, ex_occurredAtMs = occurredAtMs,
            ex_effectiveDeadlineAtMs = effectiveDeadlineAtMs, ex_idempotencyKey = idempotencyKey,
            ex_idempotencyExpiresAtMs = idempotencyExpiresAtMs\<rparr>)))))))))))))))))"

definition validateTradeExecutionCommand :: "jsval \<Rightarrow> execution_code + execution_command" where
  "validateTradeExecutionCommand = validateExecutionCommand EXECUTION_AUTHORITIES"

definition validateTradeApprovalCommand :: "jsval \<Rightarrow> execution_code + execution_command" where
  "validateTradeApprovalCommand =
     validateExecutionCommand [''commissioner'', ''platform_administrator'']"

definition execution_fields :: "execution_command \<Rightarrow> (string \<times> jsval) list" where
  "execution_fields c =
     [(''tradeId'', JStr (ex_tradeId c)), (''eventId'', JStr (ex_eventId c)),
      (''idempotencyRequestId'', JStr (ex_idempotencyRequestId c)),
      (''leagueId'', JStr (ex_leagueId c)), (''seasonId'', JStr (ex_seasonId c)),
      (''proposingTeamId'', JStr (ex_proposingTeamId c)),
      (''receivingTeamId'', JStr (ex_receivingTeamId c)),
      (''expectedVersion'', JInt (ex_expectedVersion c)),
      (''actorUserId'', JStr (ex_actorUserId c)),
      (''actorMembershipId'', JStr (ex_actorMembershipId c)),
      (''actorAuthority'', JStr (ex_actorAuthority c)), (''occurredAtMs'', JInt (ex_occurredAtMs c)),
      (''effectiveDeadlineAtMs'', JInt (ex_effectiveDeadlineAtMs c)),
      (''idempotencyKey'', JStr (ex_idempotencyKey c)),
      (''idempotencyExpiresAtMs'', JInt (ex_idempotencyExpiresAtMs c))]"

definition execution_wf :: "string list \<Rightarrow> execution_command \<Rightarrow> bool" where
  "execution_wf allowedAuthorities c \<longleftrightarrow>
     pred_option is_uuid (ex_respondingTeamId c) \<and> is_uuid (ex_tradeId c) \<and> is_uuid (ex_eventId c) \<and>
     is_uuid (ex_idempotencyRequestId c) \<and> is_uuid (ex_leagueId c) \<and> is_uuid (ex_seasonId c) \<and>
     is_uuid (ex_proposingTeamId c) \<and> is_uuid (ex_receivingTeamId c) \<and>
     ex_proposingTeamId c \<noteq> ex_receivingTeamId c \<and>
     safe (ex_expectedVersion c) \<and> 1 \<le> ex_expectedVersion c \<and> is_uuid (ex_actorUserId c) \<and>
     is_uuid (ex_actorMembershipId c) \<and> ex_actorAuthority c \<in> set allowedAuthorities \<and>
     is_timestamp (ex_occurredAtMs c) \<and> is_timestamp (ex_effectiveDeadlineAtMs c) \<and>
     is_bounded_text 128 (ex_idempotencyKey c) \<and> is_timestamp (ex_idempotencyExpiresAtMs c) \<and>
     ex_occurredAtMs c < ex_idempotencyExpiresAtMs c"

interpretation execution_validator: validator "validateExecutionCommand allowed"
    "\<lambda>c. responding_field (ex_respondingTeamId c) @ execution_fields c" "execution_wf allowed"
  for allowed
proof (rule responding_validatorI [where ks = execution_keys and e = ExecutionInputInvalid])
  fix v c
  show "validateExecutionCommand allowed v = Inr c \<longleftrightarrow> execution_wf allowed c \<and>
      exact_object ExecutionInputInvalid (responding_key v @ execution_keys) v = Inr () \<and>
      fld v ''respondingTeamId'' = undef_or (ex_respondingTeamId c) \<and>
      list_all (\<lambda>(k, w). fld v k = w) (execution_fields c)"
    by (cases c) (auto simp: validateExecutionCommand_def execution_field_defs result_iffs
        check_iffs execution_wf_def execution_fields_def is_timestamp_def
        simp del: exact_object_same_keys)
qed (simp_all add: execution_fields_def execution_keys_def)

definition assertSharedExecutionState ::
    "execution_command \<Rightarrow> trade_context option \<Rightarrow> string \<Rightarrow> execution_code + trade_context" where
  "assertSharedExecutionState command ctx expectedStatus =
     (case ctx of
       None \<Rightarrow> Inl ExecutionNotFound
     | Some c \<Rightarrow>
         if \<not> same_trade c (ex_tradeId command) (ex_leagueId command) (ex_seasonId command)
              (ex_proposingTeamId command) (ex_receivingTeamId command) (ex_effectiveDeadlineAtMs command)
         then Inl ExecutionStateInvalid
         else if tx_trade_status c \<noteq> expectedStatus then Inl ExecutionNotPending
         else if tx_trade_version c \<noteq> ex_expectedVersion command \<or> tx_proposal_model_version c \<noteq> 2
         then Inl ExecutionVersionConflict
         else if \<not> window_open c (ex_occurredAtMs command) then Inl ExecutionWindowClosed
         else Inr c)"

definition assertTradeExecutionState ::
    "execution_command \<Rightarrow> trade_context option \<Rightarrow> execution_code + unit" where
  "assertTradeExecutionState command ctx =
     bindE (assertSharedExecutionState command ctx ''proposed'') (\<lambda>c.
     if \<not> manager_authorized c (ex_actorAuthority command) (ex_actorUserId command)
          (ex_receivingTeamId command)
     then Inl ExecutionRoleDenied
     else Inr ())"

definition assertTradeApprovalState ::
    "execution_command \<Rightarrow> trade_context option \<Rightarrow> execution_code + unit" where
  "assertTradeApprovalState command ctx =
     bindE (assertSharedExecutionState command ctx ''awaiting_commissioner_approval'') (\<lambda>c.
     if tx_has_future_considerations c \<noteq> 1 \<or>
        \<not> commissioner_authorized c (ex_actorAuthority command) (ex_actorUserId command)
            (ex_actorMembershipId command)
     then Inl ExecutionRoleDenied
     else Inr ())"

section \<open>Recovery of a completed trade\<close>

datatype reversal_code =
    ReversalInputInvalid
  | ReversalStableIdInvalid
  | ReversalAuthorityInvalid
  | ReversalTimestampInvalid
  | ReversalVersionInvalid
  | ReversalIdempotencyInvalid
  | ReversalIdempotencyConflict
  | ReversalConfirmationRequired
  | ReversalNotFound
  | ReversalNotCompleted
  | ReversalLegacyTrade
  | ReversalRoleDenied
  | ReversalVersionConflict
  | ReversalUnsafe
  | ReversalCorrectionNotRequired
  | ReversalStateInvalid

definition reversal_exactObject :: "string list \<Rightarrow> jsval \<Rightarrow> reversal_code + unit" where
  "reversal_exactObject = exact_object ReversalInputInvalid"

definition reversal_stableId :: "jsval \<Rightarrow> reversal_code + string" where
  "reversal_stableId = stable_id ReversalStableIdInvalid"

definition reversal_safeTimestamp :: "jsval \<Rightarrow> reversal_code + int" where
  "reversal_safeTimestamp = safe_between ReversalTimestampInvalid 0 max_timestamp"

lemmas reversal_field_defs =
  reversal_exactObject_def reversal_stableId_def reversal_safeTimestamp_def

definition validateTradeReversalPreviewInput :: "jsval \<Rightarrow> reversal_code + string" where
  "validateTradeReversalPreviewInput input =
     bindE (reversal_exactObject [''tradeId''] input) (\<lambda>_. reversal_stableId (fld input ''tradeId''))"

definition validateTradeRecoveryWriteInput :: "jsval \<Rightarrow> reversal_code + string" where
  "validateTradeRecoveryWriteInput input =
     bindE (reversal_exactObject [''tradeId'', ''confirmed''] input) (\<lambda>_.
     if fld input ''confirmed'' \<noteq> JBool True then Inl ReversalConfirmationRequired
     else reversal_stableId (fld input ''tradeId''))"

record reversal_preview_command =
  rp_tradeId :: string
  rp_leagueId :: string
  rp_actorUserId :: string
  rp_actorMembershipId :: string

definition validateTradeReversalPreviewCommand :: "jsval \<Rightarrow> reversal_code + reversal_preview_command" where
  "validateTradeReversalPreviewCommand input =
     bindE (reversal_exactObject
       [''tradeId'', ''leagueId'', ''actorUserId'', ''actorMembershipId'', ''actorAuthority''] input) (\<lambda>_.
     if fld input ''actorAuthority'' \<noteq> JStr ''commissioner'' then Inl ReversalAuthorityInvalid
     else
     bindE (reversal_stableId (fld input ''tradeId'')) (\<lambda>tradeId.
     bindE (reversal_stableId (fld input ''leagueId'')) (\<lambda>leagueId.
     bindE (reversal_stableId (fld input ''actorUserId'')) (\<lambda>actorUserId.
     bindE (reversal_stableId (fld input ''actorMembershipId'')) (\<lambda>actorMembershipId.
     Inr \<lparr>rp_tradeId = tradeId, rp_leagueId = leagueId, rp_actorUserId = actorUserId,
          rp_actorMembershipId = actorMembershipId\<rparr>)))))"

record recovery_command =
  rv_tradeId :: string
  rv_eventId :: string
  rv_correctionId :: string
  rv_activityId :: string
  rv_outboxEventId :: string
  rv_idempotencyRequestId :: string
  rv_leagueId :: string
  rv_seasonId :: string
  rv_expectedVersion :: int
  rv_actorUserId :: string
  rv_actorMembershipId :: string
  rv_actorAuthority :: string
  rv_action :: string
  rv_occurredAtMs :: int
  rv_idempotencyKey :: string
  rv_idempotencyExpiresAtMs :: int

definition recovery_keys :: "string list" where
  "recovery_keys =
     [''tradeId'', ''eventId'', ''correctionId'', ''activityId'', ''outboxEventId'',
      ''idempotencyRequestId'', ''leagueId'', ''seasonId'', ''expectedVersion'', ''actorUserId'',
      ''actorMembershipId'', ''actorAuthority'', ''action'', ''confirmed'', ''occurredAtMs'',
      ''idempotencyKey'', ''idempotencyExpiresAtMs'']"

definition validateTradeRecoveryCommand :: "jsval \<Rightarrow> reversal_code + recovery_command" where
  "validateTradeRecoveryCommand input =
     bindE (reversal_exactObject recovery_keys input) (\<lambda>_.
     if fld input ''actorAuthority'' \<noteq> JStr ''commissioner'' then Inl ReversalAuthorityInvalid
     else
     bindE (one_of ReversalInputInvalid [''reverse'', ''correction_required''] (fld input ''action'')) (\<lambda>action.
     if fld input ''confirmed'' \<noteq> JBool True then Inl ReversalConfirmationRequired
     else
     bindE (reversal_stableId (fld input ''tradeId'')) (\<lambda>tradeId.
     bindE (reversal_stableId (fld input ''eventId'')) (\<lambda>eventId.
     bindE (reversal_stableId (fld input ''correctionId'')) (\<lambda>correctionId.
     bindE (reversal_stableId (fld input ''activityId'')) (\<lambda>activityId.
     bindE (reversal_stableId (fld input ''outboxEventId'')) (\<lambda>outboxEventId.
     bindE (reversal_stableId (fld input ''idempotencyRequestId'')) (\<lambda>idempotencyRequestId.
     bindE (reversal_stableId (fld input ''leagueId'')) (\<lambda>leagueId.
     bindE (reversal_stableId (fld input ''seasonId'')) (\<lambda>seasonId.
     bindE (safe_from ReversalVersionInvalid 1 (fld input ''expectedVersion'')) (\<lambda>expectedVersion.
     bindE (reversal_stableId (fld input ''actorUserId'')) (\<lambda>actorUserId.
     bindE (reversal_stableId (fld input ''actorMembershipId'')) (\<lambda>actorMembershipId.
     bindE (reversal_safeTimestamp (fld input ''occurredAtMs'')) (\<lambda>occurredAtMs.
     bindE (bounded_text ReversalIdempotencyInvalid 128 (fld input ''idempotencyKey'')) (\<lambda>idempotencyKey.
     bindE (reversal_safeTimestamp (fld input ''idempotencyExpiresAtMs'')) (\<lambda>idempotencyExpiresAtMs.
     if idempotencyExpiresAtMs \<le> occurredAtMs then Inl ReversalStateInvalid
     else
       Inr \<lparr>rv_tradeId = tradeId, rv_eventId = eventId, rv_correctionId = correctionId,
            rv_activityId = activityId, rv_outboxEventId = outboxEventId,
            rv_idempotencyRequestId = idempotencyRequestId, rv_leagueId = leagueId,
            rv_seasonId = seasonId, rv_expectedVersion = expectedVersion,
            rv_actorUserId = actorUserId, rv_actorMembershipId = actorMembershipId,
            rv_actorAuthority = ''commissioner'', rv_action = action, rv_occurredAtMs = occurredAtMs,
            rv_idempotencyKey = idempotencyKey,
            rv_idempotencyExpiresAtMs = idempotencyExpiresAtMs\<rparr>))))))))))))))))"

definition recovery_fields :: "recovery_command \<Rightarrow> (string \<times> jsval) list" where
  "recovery_fields c =
     [(''tradeId'', JStr (rv_tradeId c)), (''eventId'', JStr (rv_eventId c)),
      (''correctionId'', JStr (rv_correctionId c)), (''activityId'', JStr (rv_activityId c)),
      (''outboxEventId'', JStr (rv_outboxEventId c)),
      (''idempotencyRequestId'', JStr (rv_idempotencyRequestId c)),
      (''leagueId'', JStr (rv_leagueId c)), (''seasonId'', JStr (rv_seasonId c)),
      (''expectedVersion'', JInt (rv_expectedVersion c)),
      (''actorUserId'', JStr (rv_actorUserId c)),
      (''actorMembershipId'', JStr (rv_actorMembershipId c)),
      (''actorAuthority'', JStr (rv_actorAuthority c)), (''action'', JStr (rv_action c)),
      (''confirmed'', JBool True), (''occurredAtMs'', JInt (rv_occurredAtMs c)),
      (''idempotencyKey'', JStr (rv_idempotencyKey c)),
      (''idempotencyExpiresAtMs'', JInt (rv_idempotencyExpiresAtMs c))]"

definition recovery_wf :: "recovery_command \<Rightarrow> bool" where
  "recovery_wf c \<longleftrightarrow>
     is_uuid (rv_tradeId c) \<and> is_uuid (rv_eventId c) \<and> is_uuid (rv_correctionId c) \<and>
     is_uuid (rv_activityId c) \<and> is_uuid (rv_outboxEventId c) \<and>
     is_uuid (rv_idempotencyRequestId c) \<and> is_uuid (rv_leagueId c) \<and> is_uuid (rv_seasonId c) \<and>
     safe (rv_expectedVersion c) \<and> 1 \<le> rv_expectedVersion c \<and> is_uuid (rv_actorUserId c) \<and>
     is_uuid (rv_actorMembershipId c) \<and> rv_actorAuthority c = ''commissioner'' \<and>
     rv_action c \<in> {''reverse'', ''correction_required''} \<and> is_timestamp (rv_occurredAtMs c) \<and>
     is_bounded_text 128 (rv_idempotencyKey c) \<and> is_timestamp (rv_idempotencyExpiresAtMs c) \<and>
     rv_occurredAtMs c < rv_idempotencyExpiresAtMs c"

interpretation recovery_validator: validator validateTradeRecoveryCommand recovery_fields recovery_wf
proof (rule validatorI [where ks = recovery_keys and e = ReversalInputInvalid])
  fix v c
  show "validateTradeRecoveryCommand v = Inr c \<longleftrightarrow> recovery_wf c \<and>
      exact_object ReversalInputInvalid recovery_keys v = Inr () \<and>
      list_all (\<lambda>(k, w). fld v k = w) (recovery_fields c)"
    by (cases c) (auto simp: validateTradeRecoveryCommand_def reversal_field_defs result_iffs
        check_iffs recovery_wf_def recovery_fields_def is_timestamp_def
        simp del: exact_object_same_keys)
qed (simp_all add: recovery_fields_def recovery_keys_def)

definition assertTradeRecoveryState ::
    "recovery_command \<Rightarrow> trade_context option \<Rightarrow> reversal_code + unit" where
  "assertTradeRecoveryState command ctx =
     (case ctx of
       None \<Rightarrow> Inl ReversalNotFound
     | Some c \<Rightarrow>
         if tx_trade_id c \<noteq> rv_tradeId command \<or> tx_league_id c \<noteq> rv_leagueId command \<or>
            tx_season_id c \<noteq> rv_seasonId command
         then Inl ReversalStateInvalid
         else if tx_trade_status c \<noteq> ''completed'' then Inl ReversalNotCompleted
         else if tx_proposal_model_version c \<noteq> 2 then Inl ReversalLegacyTrade
         else if tx_trade_version c \<noteq> rv_expectedVersion command then Inl ReversalVersionConflict
         else if tx_commissioner_membership_id c \<noteq> Some (rv_actorMembershipId command) \<or>
                 tx_membership_user_id c \<noteq> Some (rv_actorUserId command) \<or>
                 tx_membership_status c \<noteq> Some ''active'' \<or>
                 tx_membership_permission c \<noteq> Some ''commissioner'' \<or>
                 rv_actorAuthority command \<noteq> ''commissioner''
         then Inl ReversalRoleDenied
         else Inr ())"

definition assertRecoveryActionAllowed :: "string \<Rightarrow> bool \<Rightarrow> reversal_code + unit" where
  "assertRecoveryActionAllowed action recoverable =
     (if action = ''reverse'' \<and> \<not> recoverable then Inl ReversalUnsafe
      else if action = ''correction_required'' \<and> recoverable then Inl ReversalCorrectionNotRequired
      else Inr ())"

end
