(* ===== verification/TradeStore.thy ===== *)
theory TradeStore
  imports TradeLifecycle RetentionRepository BuyoutPolicy
begin

text \<open>
  What \<^verbatim>\<open>SqliteTradeProposalRepository.js\<close> and its helpers
  \<^verbatim>\<open>SqliteTradeParticipants.js\<close> and \<^verbatim>\<open>SqliteTradeProposalCancellationWriter.js\<close> read and
  write: the tables of trades and of what is traded as lists of rows, the queries shared by the
  transactions, and the participants of three-team trades. JSON columns are kept as the values
  written, not as their text. \<open>trade_env\<close> holds what the transactions only read and the hooks
  of other components: publications, notifications and the Candidate Card synchronizer may fail
  and are not stored. \<open>te_accepts\<close> is what SQLite enforces beyond primary keys.
\<close>

section \<open>Values stored as JSON\<close>

record player_view =
  pv_id :: string
  pv_name :: string

record contract_year_view =
  yv_season_id :: string
  yv_year_number :: int
  yv_aav_cents :: int
  yv_status :: string

record contract_view =
  kv_id :: string
  kv_type :: string
  kv_originalTotalValueCents :: int
  kv_originalTermYears :: int
  kv_aavCents :: int
  kv_startSeasonId :: string
  kv_auctionBuyoutLockExpiresAtMs :: "int option"
  kv_version :: int
  kv_years :: "contract_year_view list"

record ownership_view =
  ov_id :: string
  ov_teamId :: string
  ov_rosterCategory :: string
  ov_positionGroup :: string
  ov_slotNumber :: "int option"
  ov_version :: int

record elc_view =
  el_contractId :: string
  el_aavCents :: int
  el_version :: int

record pick_view =
  kp_id :: string
  kp_draftId :: string
  kp_targetSeasonId :: string
  kp_targetSeasonLabel :: string
  kp_roundNumber :: int
  kp_positionNumber :: int
  kp_originalTeamId :: string
  kp_currentOwnerTeamId :: string
  kp_version :: int

text \<open>A season of a retention or a buyout: its identifier, amount and status.\<close>

type_synonym obligation_year = "string \<times> int \<times> string"

record retention_view =
  rw_id :: string
  rw_contractId :: string
  rw_player :: player_view
  rw_originatingTeamId :: string
  rw_responsibleTeamId :: string
  rw_retainedAavCents :: int
  rw_originalContractAavCents :: int
  rw_creationTradeId :: string
  rw_version :: int
  rw_years :: "obligation_year list"

record buyout_view =
  bw_id :: string
  bw_contractId :: string
  bw_player :: player_view
  bw_originatingTeamId :: string
  bw_responsibleTeamId :: string
  bw_annualPenaltyBasisCents :: int
  bw_buyoutTransactionId :: string
  bw_version :: int
  bw_years :: "obligation_year list"

record consideration_view =
  vw_id :: string
  vw_originatingTradeId :: string
  vw_owingTeamId :: string
  vw_entitledTeamId :: string
  vw_description :: string
  vw_version :: int

record requested_view =
  qw_contractId :: string
  qw_playerId :: string
  qw_retainingTeamId :: string
  qw_retainedAavCents :: int
  qw_originalAavCents :: int
  qw_cumulativeRetainedAavCents :: int
  qw_retentionCeilingCents :: int

datatype snapshot =
    ContractSnapshot player_view contract_view ownership_view
  | ProspectSnapshot player_view ownership_view "elc_view option"
  | PickSnapshot pick_view
  | RetentionSnapshot retention_view
  | BuyoutSnapshot buyout_view
  | InstructionSnapshot string string "string option"
  | ConsiderationSnapshot consideration_view
  | RequestedSnapshot requested_view

datatype preview_issue =
    LimitExceeded string int int
  | RosteredContractInvalid string string
  | NormalRosterSlotUnplaced string string string string
  | BenchAavLimitExceeded string string int int
  | RosterSlotCollision string string
  | SalaryCapExceeded int int
  | RetentionSlotLimitExceeded int int

record roster_counts =
  rk_activeForwards :: int
  rk_activeDefence :: int
  rk_bench :: int
  rk_injuredReserve :: int
  rk_prospects :: int

record preview_cap =
  pk_salaryCapCents :: int
  pk_activePlayerCapCents :: int
  pk_retentionCapCents :: int
  pk_buyoutCapCents :: int
  pk_usageCents :: int
  pk_spaceCents :: int

record team_preview =
  tw_teamId :: string
  tw_rosterCounts :: roster_counts
  tw_cap :: preview_cap
  tw_retentionSlots :: int
  tw_issues :: "preview_issue list"
  tw_generallyIllegal :: bool
  tw_before :: "(preview_cap \<times> roster_counts \<times> int) option"

text \<open>The receipts in the metadata of an accepted trade.\<close>

record public_transfer =
  pt_assetId :: string
  pt_assetType :: string
  pt_sourceTeamId :: string
  pt_destinationTeamId :: string
  pt_plannedRosterSlotNumber :: "int option"
  pt_plannedRosterCategory :: "string option"

record ownership_transfer =
  ot_sourceTeamId :: string
  ot_destinationTeamId :: string
  ot_sourceOwnershipId :: string
  ot_sourceOwnershipVersion :: int
  ot_destinationOwnershipId :: string
  ot_destinationOwnershipVersion :: int

text \<open>\<^verbatim>\<open>sourceMetadata\<close> of an automatic cancellation: the accepted trade, or the move of a prospect.\<close>

datatype cancel_source =
    AcceptedTrade string
  | RosterMoved string string

datatype trade_metadata =
    CreatedMetadata string "string list" "string option"
  | LifecycleMetadata string string string string "string option"
  | ParticipantMetadata string bool "team_preview list"
  | AwaitingMetadata string bool "team_preview list"
  | ExecutedMetadata string string string bool "team_preview list" "public_transfer list"
      "ownership_transfer list" "string list"
  | CancelledMetadata cancel_source string string
  | ExpiredMetadata string int string

record ownership_state =
  os_id :: string
  os_leagueId :: string
  os_seasonId :: string
  os_playerId :: string
  os_teamId :: string
  os_ownershipKind :: string
  os_rosterCategory :: string
  os_positionGroup :: string
  os_slotNumber :: "int option"
  os_version :: int

datatype ownership_metadata =
    OwnershipExists ownership_state
  | OwnershipClosedTo string
  | OwnershipOpenedFrom string
  | OwnershipPlaced "string option" string string "int option" int

section \<open>Rows\<close>

record trade_row =
  tr_id :: string
  tr_league_id :: string
  tr_season_id :: string
  tr_proposing_team_id :: string
  tr_receiving_team_id :: string
  tr_proposing_user_id :: string
  tr_creating_membership_id :: "string option"
  tr_creating_authority :: "string option"
  tr_status :: string
  tr_created_at_ms :: int
  tr_expires_at_ms :: int
  tr_effective_deadline_at_ms :: "int option"
  tr_responded_at_ms :: "int option"
  tr_completed_at_ms :: "int option"
  tr_commissioner_completion_reference :: "string option"
  tr_proposal_model_version :: int
  tr_updated_at_ms :: int
  tr_version :: int

record trade_asset_row =
  tar_id :: string
  tar_league_id :: string
  tar_trade_id :: string
  tar_direction :: string
  tar_source_team_id :: string
  tar_destination_team_id :: string
  tar_asset_type :: string
  tar_contract_id :: "string option"
  tar_player_id :: "string option"
  tar_draft_pick_id :: "string option"
  tar_retention_obligation_id :: "string option"
  tar_buyout_obligation_id :: "string option"
  tar_future_consideration_id :: "string option"
  tar_requested_retention_contract_id :: "string option"
  tar_requested_retention_cents :: "int option"
  tar_future_consideration_description :: "string option"
  tar_proposal_snapshot :: snapshot
  tar_asset_model_version :: int
  tar_sequence :: int
  tar_created_at_ms :: int

record participant_row =
  tp_id :: string
  tp_league_id :: string
  tp_trade_id :: string
  tp_team_id :: string
  tp_sequence :: int
  tp_decision :: string
  tp_responded_by_user_id :: "string option"
  tp_responded_by_membership_id :: "string option"
  tp_responded_at_ms :: "int option"
  tp_acknowledged_at_ms :: "int option"

record acceptance_row =
  fa_id :: string
  fa_league_id :: string
  fa_season_id :: string
  fa_trade_id :: string
  fa_accepted_by_user_id :: string
  fa_accepted_by_membership_id :: string
  fa_accepted_authority :: string
  fa_accepted_at_ms :: int
  fa_trade_version_after :: int

record trade_event_row =
  tv_id :: string
  tv_league_id :: string
  tv_season_id :: string
  tv_trade_id :: string
  tv_actor_user_id :: "string option"
  tv_event_type :: string
  tv_reason :: "string option"
  tv_metadata :: trade_metadata
  tv_occurred_at_ms :: int

record draft_pick_row =
  dp_id :: string
  dp_league_id :: string
  dp_draft_id :: string
  dp_target_season_id :: string
  dp_round_number :: int
  dp_position_number :: int
  dp_original_team_id :: string
  dp_current_owner_team_id :: string
  dp_status :: string
  dp_selection_id :: "string option"
  dp_created_at_ms :: int
  dp_updated_at_ms :: int
  dp_version :: int

record consideration_row =
  cr_id :: string
  cr_league_id :: string
  cr_season_id :: string
  cr_originating_trade_id :: string
  cr_owing_team_id :: string
  cr_receiving_team_id :: string
  cr_description :: string
  cr_status :: string
  cr_created_at_ms :: int
  cr_resolved_at_ms :: "int option"
  cr_updated_at_ms :: int
  cr_version :: int

record ownership_event_row =
  oe_id :: string
  oe_league_id :: string
  oe_season_id :: string
  oe_player_id :: string
  oe_team_id :: string
  oe_ownership_id :: string
  oe_event_type :: string
  oe_actor_user_id :: "string option"
  oe_source_type :: string
  oe_source_id :: string
  oe_before :: ownership_metadata
  oe_after :: ownership_metadata
  oe_reason :: "string option"
  oe_occurred_at_ms :: int

record pick_event_row =
  pe_id :: string
  pe_league_id :: string
  pe_draft_pick_id :: string
  pe_from_team_id :: "string option"
  pe_to_team_id :: string
  pe_trade_id :: "string option"
  pe_actor_user_id :: "string option"
  pe_event_type :: string
  pe_occurred_at_ms :: int

record trade_store =
  td_trades :: "trade_row list"
  td_assets :: "trade_asset_row list"
  td_participants :: "participant_row list"
  td_acceptances :: "acceptance_row list"
  td_events :: "trade_event_row list"
  td_requests :: "request_row list"
  td_ownerships :: "player_ownership_row list"
  td_contracts :: "contract_row list"
  td_contract_years :: "contract_year_row list"
  td_picks :: "draft_pick_row list"
  td_retentions :: "retention_row list"
  td_retention_years :: "retention_year_row list"
  td_buyouts :: "buyout_obligation_row list"
  td_buyout_years :: "buyout_year_row list"
  td_considerations :: "consideration_row list"
  td_ownership_events :: "ownership_event_row list"
  td_contract_events :: "contract_event_row list"
  td_pick_events :: "pick_event_row list"

section \<open>What the transactions only read\<close>

record league_settings =
  ls_salary_cap_cents :: int
  ls_active_forward_slots :: int
  ls_active_defence_slots :: int
  ls_bench_slots :: int
  ls_maximum_bench_aav_cents :: int
  ls_injured_reserve_slots :: int

record actor_row =
  ar_league_status :: string
  ar_commissioner_membership_id :: "string option"
  ar_season_status :: string
  ar_membership_user_id :: "string option"
  ar_membership_permission :: "string option"
  ar_membership_status :: "string option"
  ar_assignment_team_id :: "string option"
  ar_assignment_status :: "string option"
  ar_assignment_accepted_at_ms :: "int option"
  ar_assignment_ended_at_ms :: "int option"
  ar_is_platform_administrator :: int

text \<open>
  \<open>te_foundation\<close> and \<open>te_actor\<close> are the rows that the joins of \<^verbatim>\<open>loadFoundationStateStatement\<close>
  and \<^verbatim>\<open>loadLifecycleStateStatement\<close> take from the tables of leagues, seasons, memberships,
  assignments and drafts, by league, season or teams, membership, user and team; \<open>te_managed\<close>
  the teams a user manages, one per accepted assignment; the others single columns.
\<close>

record trade_env =
  te_sha :: "string \<Rightarrow> string"
  te_collate :: "string \<Rightarrow> string \<Rightarrow> int"
  te_user_version :: int
  te_foundation :: "string \<Rightarrow> string \<Rightarrow> string \<Rightarrow> string \<Rightarrow> string \<Rightarrow> foundation_context list"
  te_actor :: "string \<Rightarrow> string \<Rightarrow> string \<Rightarrow> string \<Rightarrow> string \<Rightarrow> actor_row list"
  te_managed :: "string \<Rightarrow> string \<Rightarrow> string list"
  te_team_status :: "string \<Rightarrow> string \<Rightarrow> string option"
  te_player_name :: "string \<Rightarrow> string option"
  te_season_label :: "string \<Rightarrow> string \<Rightarrow> string option"
  te_draft_status :: "string \<Rightarrow> string \<Rightarrow> string option"
  te_settings :: "string \<Rightarrow> league_settings list"
  te_fresh :: "nat \<Rightarrow> string"
  te_publish :: "string \<Rightarrow> repo_error option"
  te_notify :: "string \<Rightarrow> repo_error option"
  te_synchronize :: "string \<Rightarrow> repo_error option"
  te_accepts :: "trade_store \<Rightarrow> bool"

section \<open>Errors and statements\<close>

datatype trade_failure =
    TradeAssetFailure trade_asset_code
  | TradeFoundationFailure foundation_code
  | TradeLifecycleFailure lifecycle_code
  | TradeExecutionFailure execution_code
  | TradeRepoFailure repo_error
  | TradeTypeError

fun asset_result :: "trade_asset_code + 'a \<Rightarrow> trade_failure + 'a" where
  "asset_result (Inl e) = Inl (TradeAssetFailure e)"
| "asset_result (Inr x) = Inr x"

fun foundation_result :: "foundation_code + 'a \<Rightarrow> trade_failure + 'a" where
  "foundation_result (Inl e) = Inl (TradeFoundationFailure e)"
| "foundation_result (Inr x) = Inr x"

fun lifecycle_result :: "lifecycle_code + 'a \<Rightarrow> trade_failure + 'a" where
  "lifecycle_result (Inl e) = Inl (TradeLifecycleFailure e)"
| "lifecycle_result (Inr x) = Inr x"

fun execution_result :: "execution_code + 'a \<Rightarrow> trade_failure + 'a" where
  "execution_result (Inl e) = Inl (TradeExecutionFailure e)"
| "execution_result (Inr x) = Inr x"

lemma result_embeddings [check_iffs]:
  "asset_result a = Inr x \<longleftrightarrow> a = Inr x"
  "foundation_result f = Inr x \<longleftrightarrow> f = Inr x"
  "lifecycle_result l = Inr x \<longleftrightarrow> l = Inr x"
  "execution_result e = Inr x \<longleftrightarrow> e = Inr x"
  by (cases a; cases f; cases l; cases e; simp)+

fun hook_result :: "repo_error option \<Rightarrow> trade_failure + unit" where
  "hook_result None = Inr ()"
| "hook_result (Some e) = Inl (TradeRepoFailure e)"

lemma pred_option_eqs [code]:
  "pred_option p None \<longleftrightarrow> True"
  "pred_option p (Some x) \<longleftrightarrow> p x"
  by simp_all

text \<open>A row read by a statement that must find at most one.\<close>

definition unique_found :: "'r list \<Rightarrow> trade_failure + 'r option" where
  "unique_found rows =
     (case rows of
        [] \<Rightarrow> Inr None
      | [r] \<Rightarrow> Inr (Some r)
      | _ \<Rightarrow> Inl (TradeRepoFailure RepoSchemaIncompatible))"

lemma unique_found_Inr [check_iffs]:
  "unique_found rows = Inr found \<longleftrightarrow> (rows = [] \<and> found = None) \<or> (\<exists>r. rows = [r] \<and> found = Some r)"
  by (auto simp: unique_found_def split: list.splits)

text \<open>
  \<^verbatim>\<open>INSERT\<close> under a primary key, \<^verbatim>\<open>UPDATE\<close> of the rows that a predicate names, and the two
  tests of \<^verbatim>\<open>changes !== 1\<close>; \<open>written\<close> is the rest of what SQLite checks of a statement.
\<close>

definition insert_row :: "('r \<Rightarrow> string) \<Rightarrow> 'r \<Rightarrow> 'r list \<Rightarrow> trade_failure + 'r list" where
  "insert_row key r rows =
     (if key r \<in> key ` set rows then Inl (TradeRepoFailure RepoConstraint) else Inr (rows @ [r]))"

definition update_rows :: "('r \<Rightarrow> bool) \<Rightarrow> ('r \<Rightarrow> 'r) \<Rightarrow> 'r list \<Rightarrow> 'r list" where
  "update_rows p f rows = map (\<lambda>r. if p r then f r else r) rows"

definition update_one :: "trade_failure \<Rightarrow> ('r \<Rightarrow> bool) \<Rightarrow> ('r \<Rightarrow> 'r) \<Rightarrow> 'r list \<Rightarrow> trade_failure + 'r list" where
  "update_one e p f rows =
     (if length (filter p rows) \<noteq> 1 then Inl e else Inr (update_rows p f rows))"

definition delete_one :: "trade_failure \<Rightarrow> ('r \<Rightarrow> bool) \<Rightarrow> 'r list \<Rightarrow> trade_failure + 'r list" where
  "delete_one e p rows =
     (if length (filter p rows) \<noteq> 1 then Inl e else Inr (filter (\<lambda>r. \<not> p r) rows))"

definition written :: "trade_env \<Rightarrow> trade_store \<Rightarrow> trade_failure + trade_store" where
  "written env st = (if te_accepts env st then Inr st else Inl (TradeRepoFailure RepoConstraint))"

lemma insert_row_Inr [check_iffs]:
  "insert_row key r rows = Inr rows' \<longleftrightarrow> key r \<notin> key ` set rows \<and> rows' = rows @ [r]"
  by (auto simp: insert_row_def)

lemma update_one_Inr [check_iffs]:
  "update_one e p f rows = Inr rows' \<longleftrightarrow> length (filter p rows) = 1 \<and> rows' = update_rows p f rows"
  by (auto simp: update_one_def)

lemma delete_one_Inr [check_iffs]:
  "delete_one e p rows = Inr rows' \<longleftrightarrow> length (filter p rows) = 1 \<and> rows' = filter (\<lambda>r. \<not> p r) rows"
  by (auto simp: delete_one_def)

lemma written_Inr [check_iffs]: "written env st = Inr st' \<longleftrightarrow> te_accepts env st \<and> st' = st"
  by (auto simp: written_def)

text \<open>\<^verbatim>\<open>LEFT JOIN\<close>: every match, or one row of nulls.\<close>

definition left_join :: "'r list \<Rightarrow> 'r option list" where
  "left_join rows = (if rows = [] then [None] else map Some rows)"

definition option_rows :: "'r option \<Rightarrow> 'r list" where
  "option_rows r = (case r of None \<Rightarrow> [] | Some x \<Rightarrow> [x])"

definition deterministicUuid :: "trade_env \<Rightarrow> string \<Rightarrow> string" where
  "deterministicUuid env v =
     (let hex = te_sha env v in
        take 8 hex @ ''-'' @ take 4 (drop 8 hex) @ ''-4'' @ take 3 (drop 13 hex) @ ''-8'' @
        take 3 (drop 17 hex) @ ''-'' @ take 12 (drop 20 hex))"

section \<open>Queries of several transactions\<close>

definition has_acceptance :: "trade_store \<Rightarrow> string \<Rightarrow> string \<Rightarrow> bool" where
  "has_acceptance st leagueId tradeId \<longleftrightarrow>
     list_ex (\<lambda>a. fa_league_id a = leagueId \<and> fa_trade_id a = tradeId) (td_acceptances st)"

definition projected_status :: "trade_store \<Rightarrow> trade_row \<Rightarrow> string" where
  "projected_status st t =
     (if tr_status t = ''proposed'' \<and> has_acceptance st (tr_league_id t) (tr_id t)
      then ''awaiting_commissioner_approval'' else tr_status t)"

definition findTrade :: "trade_store \<Rightarrow> string \<Rightarrow> string \<Rightarrow> trade_row list" where
  "findTrade st leagueId tradeId =
     filter (\<lambda>t. tr_league_id t = leagueId \<and> tr_id t = tradeId) (td_trades st)"

definition listTradeAssets :: "trade_store \<Rightarrow> string \<Rightarrow> string \<Rightarrow> trade_asset_row list" where
  "listTradeAssets st leagueId tradeId =
     sort_key tar_sequence
       (filter (\<lambda>a. tar_league_id a = leagueId \<and> tar_trade_id a = tradeId) (td_assets st))"

definition has_future_considerations :: "trade_store \<Rightarrow> string \<Rightarrow> string \<Rightarrow> bool" where
  "has_future_considerations st leagueId tradeId \<longleftrightarrow>
     list_ex (\<lambda>a. tar_asset_type a = ''future_consideration'') (listTradeAssets st leagueId tradeId)"

definition findTradeEvent :: "trade_store \<Rightarrow> string \<Rightarrow> string \<Rightarrow> string \<Rightarrow> trade_event_row list" where
  "findTradeEvent st leagueId tradeId eventType =
     filter (\<lambda>e. tv_league_id e = leagueId \<and> tv_trade_id e = tradeId \<and> tv_event_type e = eventType)
       (td_events st)"

text \<open>\<^verbatim>\<open>projectEffectiveTrade\<close>: a trade with its projected status.\<close>

definition projectEffectiveTrade :: "trade_store \<Rightarrow> trade_row \<Rightarrow> trade_row" where
  "projectEffectiveTrade st t = t\<lparr>tr_status := projected_status st t\<rparr>"

definition loadLifecycleState ::
    "trade_env \<Rightarrow> trade_store \<Rightarrow> string \<Rightarrow> string \<Rightarrow> string \<Rightarrow> string \<Rightarrow> string \<Rightarrow> trade_context list" where
  "loadLifecycleState env st leagueId tradeId actorUserId actorMembershipId participantTeamId =
     concat (map (\<lambda>t. map (\<lambda>a.
       \<lparr>tx_trade_id = tr_id t, tx_league_id = tr_league_id t, tx_season_id = tr_season_id t,
        tx_proposing_team_id = tr_proposing_team_id t,
        tx_receiving_team_id = tr_receiving_team_id t,
        tx_trade_status = projected_status st t,
        tx_effective_deadline_at_ms = tr_effective_deadline_at_ms t,
        tx_trade_version = tr_version t,
        tx_proposal_model_version = tr_proposal_model_version t,
        tx_league_status = ar_league_status a,
        tx_commissioner_membership_id = ar_commissioner_membership_id a,
        tx_season_status = ar_season_status a,
        tx_membership_user_id = ar_membership_user_id a,
        tx_membership_permission = ar_membership_permission a,
        tx_membership_status = ar_membership_status a,
        tx_assignment_team_id = ar_assignment_team_id a,
        tx_assignment_status = ar_assignment_status a,
        tx_assignment_accepted_at_ms = ar_assignment_accepted_at_ms a,
        tx_assignment_ended_at_ms = ar_assignment_ended_at_ms a,
        tx_is_platform_administrator = ar_is_platform_administrator a,
        tx_has_future_considerations =
          (if has_future_considerations st (tr_league_id t) (tr_id t) then 1 else 0),
        tx_multi_trade_actor_team_id = None\<rparr>)
       (te_actor env leagueId (tr_season_id t) actorMembershipId actorUserId participantTeamId))
     (findTrade st leagueId tradeId))"

section \<open>Idempotency requests\<close>

definition findRequest :: "trade_store \<Rightarrow> string \<Rightarrow> string \<Rightarrow> string \<Rightarrow> string \<Rightarrow> request_row list" where
  "findRequest st leagueId actorUserId operation idempotencyKey =
     filter (\<lambda>r. rq_league_id r = leagueId \<and> rq_actor_user_id r = actorUserId \<and>
                 rq_operation r = operation \<and> rq_client_key r = idempotencyKey) (td_requests st)"

definition insertRequest ::
    "trade_env \<Rightarrow> string \<Rightarrow> string \<Rightarrow> string \<Rightarrow> string \<Rightarrow> string \<Rightarrow> string \<Rightarrow> int \<Rightarrow> int \<Rightarrow> trade_store \<Rightarrow>
     trade_failure + trade_store" where
  "insertRequest env requestId leagueId actorUserId operation idempotencyKey requestHash createdAtMs
       expiresAtMs st =
     bindE (insert_row rq_id
       \<lparr>rq_id = requestId, rq_league_id = leagueId, rq_actor_user_id = actorUserId,
        rq_operation = operation, rq_client_key = idempotencyKey, rq_request_hash = requestHash,
        rq_status = ''started'', rq_result_type = None, rq_result_id = None,
        rq_created_at_ms = createdAtMs, rq_completed_at_ms = None, rq_expires_at_ms = expiresAtMs\<rparr>
       (td_requests st)) (\<lambda>rows.
     written env (st\<lparr>td_requests := rows\<rparr>))"

definition completeRequest ::
    "trade_env \<Rightarrow> trade_failure \<Rightarrow> string \<Rightarrow> string \<Rightarrow> string \<Rightarrow> int \<Rightarrow> trade_store \<Rightarrow>
     trade_failure + trade_store" where
  "completeRequest env e requestId leagueId tradeId completedAtMs st =
     bindE (update_one e
       (\<lambda>r. rq_id r = requestId \<and> rq_league_id r = leagueId \<and> rq_status r = ''started'')
       (\<lambda>r. r\<lparr>rq_status := ''completed'', rq_result_type := Some ''trade'',
              rq_result_id := Some tradeId, rq_completed_at_ms := Some completedAtMs\<rparr>)
       (td_requests st)) (\<lambda>rows.
     written env (st\<lparr>td_requests := rows\<rparr>))"

text \<open>Whether a stored request is the completed one of the same command.\<close>

definition request_replays :: "request_row \<Rightarrow> string \<Rightarrow> string \<Rightarrow> bool" where
  "request_replays r requestHash tradeId \<longleftrightarrow>
     rq_request_hash r = requestHash \<and> rq_status r = ''completed'' \<and>
     rq_result_type r = Some ''trade'' \<and> rq_result_id r = Some tradeId"

section \<open>Participants of three-team trades\<close>

definition participant_list ::
    "trade_env \<Rightarrow> trade_store \<Rightarrow> string \<Rightarrow> string \<Rightarrow> trade_failure + participant_row list" where
  "participant_list env st leagueId tradeId =
     (if te_user_version env < 64 then Inr []
      else
        let rows = sort_key tp_sequence
              (filter (\<lambda>p. tp_league_id p = leagueId \<and> tp_trade_id p = tradeId) (td_participants st))
        in if rows \<noteq> [] \<and> map tp_sequence rows \<noteq> [1, 2, 3]
           then Inl (TradeLifecycleFailure LifecycleStateInvalid)
           else Inr rows)"

definition participant_team_ids ::
    "trade_env \<Rightarrow> trade_store \<Rightarrow> string \<Rightarrow> string \<Rightarrow> string \<Rightarrow> string \<Rightarrow> trade_failure + string list" where
  "participant_team_ids env st leagueId tradeId proposingTeamId receivingTeamId =
     bindE (participant_list env st leagueId tradeId) (\<lambda>rows.
     Inr (if rows \<noteq> [] then map tp_team_id rows else [proposingTeamId, receivingTeamId]))"

text \<open>The one participant that the acting user manages and may answer for.\<close>

definition actorTeam ::
    "trade_env \<Rightarrow> trade_store \<Rightarrow> string \<Rightarrow> string \<Rightarrow> string \<Rightarrow> string option \<Rightarrow> string \<Rightarrow> bool \<Rightarrow>
     trade_failure + string" where
  "actorTeam env st leagueId tradeId actorUserId respondingTeamId receivingTeamId includeProposer =
     bindE (participant_list env st leagueId tradeId) (\<lambda>rows.
     if rows = [] then
       (if truthy_text respondingTeamId \<and> respondingTeamId \<noteq> Some receivingTeamId
        then Inl (TradeLifecycleFailure LifecycleRoleDenied)
        else Inr receivingTeamId)
     else
       let matches = concat (map (\<lambda>p. filter (\<lambda>t. t = tp_team_id p) (te_managed env leagueId actorUserId))
             (filter (\<lambda>p. includeProposer \<or> tp_sequence p \<noteq> 1) rows));
           selected = (if truthy_text respondingTeamId
             then filter (\<lambda>t. Some t = respondingTeamId) matches else matches)
       in case selected of
            [t] \<Rightarrow> Inr t
          | _ \<Rightarrow> Inl (TradeLifecycleFailure LifecycleRoleDenied))"

definition responseTeam ::
    "trade_env \<Rightarrow> trade_store \<Rightarrow> string \<Rightarrow> string \<Rightarrow> string \<Rightarrow> string \<Rightarrow> string option \<Rightarrow> string \<Rightarrow>
     trade_failure + string" where
  "responseTeam env st actorAuthority leagueId tradeId actorUserId respondingTeamId receivingTeamId =
     (if actorAuthority = ''manager''
      then actorTeam env st leagueId tradeId actorUserId respondingTeamId receivingTeamId False
      else Inr receivingTeamId)"

definition responds :: "string \<Rightarrow> string \<Rightarrow> string \<Rightarrow> string \<Rightarrow> participant_row \<Rightarrow> bool" where
  "responds leagueId tradeId teamId decision p \<longleftrightarrow>
     tp_league_id p = leagueId \<and> tp_trade_id p = tradeId \<and> tp_team_id p = teamId \<and>
     (tp_decision p = ''pending'' \<or> (decision = ''declined'' \<and> tp_decision p = ''accepted''))"

definition respond ::
    "trade_env \<Rightarrow> string \<Rightarrow> string \<Rightarrow> string \<Rightarrow> string \<Rightarrow> int \<Rightarrow> string \<Rightarrow> string \<Rightarrow> trade_store \<Rightarrow>
     trade_failure + trade_store" where
  "respond env leagueId tradeId actorUserId actorMembershipId occurredAtMs teamId decision st =
     bindE (update_one (TradeLifecycleFailure LifecycleNotPending)
       (responds leagueId tradeId teamId decision)
       (\<lambda>p. p\<lparr>tp_decision := decision, tp_responded_by_user_id := Some actorUserId,
              tp_responded_by_membership_id := Some actorMembershipId,
              tp_responded_at_ms := Some occurredAtMs,
              tp_acknowledged_at_ms :=
                (if decision = ''declined'' then Some occurredAtMs else tp_acknowledged_at_ms p)\<rparr>)
       (td_participants st)) (\<lambda>rows.
     written env (st\<lparr>td_participants := rows\<rparr>))"

definition acknowledge ::
    "trade_env \<Rightarrow> trade_store \<Rightarrow> string \<Rightarrow> string \<Rightarrow> string \<Rightarrow> string option \<Rightarrow> string \<Rightarrow> int \<Rightarrow>
     trade_failure + trade_store \<times> string" where
  "acknowledge env st leagueId tradeId actorUserId respondingTeamId receivingTeamId occurredAtMs =
     (case findTrade st leagueId tradeId of
        [] \<Rightarrow> Inl (TradeLifecycleFailure LifecycleNotFound)
      | t # _ \<Rightarrow>
          if tr_status t \<noteq> ''declined'' then Inl (TradeLifecycleFailure LifecycleNotPending)
          else
          bindE (participant_list env st leagueId tradeId) (\<lambda>rows.
          if length rows \<noteq> 3 then Inl (TradeLifecycleFailure LifecycleNotPending)
          else
          bindE (actorTeam env st leagueId tradeId actorUserId respondingTeamId receivingTeamId True)
            (\<lambda>teamId.
          let rows = update_rows (\<lambda>p. tp_league_id p = leagueId \<and> tp_trade_id p = tradeId \<and>
                  tp_team_id p = teamId \<and> tp_acknowledged_at_ms p = None)
                (\<lambda>p. p\<lparr>tp_acknowledged_at_ms := Some occurredAtMs\<rparr>) (td_participants st) in
          bindE (written env (st\<lparr>td_participants := rows\<rparr>)) (\<lambda>st'. Inr (st', teamId)))))"

text \<open>The proposer has accepted from the start.\<close>

definition new_participant :: "trade_env \<Rightarrow> creation_command \<Rightarrow> nat \<Rightarrow> string \<Rightarrow> participant_row" where
  "new_participant env c index teamId =
     (let f = cc_foundation c; proposer = (index = 0) in
      \<lparr>tp_id = te_fresh env index, tp_league_id = cf_leagueId f, tp_trade_id = cf_proposalId f,
       tp_team_id = teamId, tp_sequence = int index + 1,
       tp_decision = (if proposer then ''accepted'' else ''pending''),
       tp_responded_by_user_id = (if proposer then Some (cf_actorUserId f) else None),
       tp_responded_by_membership_id = (if proposer then Some (cf_actorMembershipId f) else None),
       tp_responded_at_ms = (if proposer then Some (cf_createdAtMs f) else None),
       tp_acknowledged_at_ms = None\<rparr>)"

definition create_participants :: "trade_env \<Rightarrow> creation_command \<Rightarrow> trade_store \<Rightarrow> trade_failure + trade_store" where
  "create_participants env c st =
     (case cc_participantTeamIds c of
        None \<Rightarrow> Inr st
      | Some teamIds \<Rightarrow>
          if te_user_version env < 64 then Inl (TradeLifecycleFailure LifecycleStateInvalid)
          else foldE (\<lambda>s (index, teamId).
            bindE (insert_row tp_id (new_participant env c index teamId) (td_participants s)) (\<lambda>rows.
            written env (s\<lparr>td_participants := rows\<rparr>))) st (enumerate 0 teamIds))"

text \<open>All teams of the trade are active.\<close>

definition assertActiveParticipants ::
    "trade_env \<Rightarrow> trade_store \<Rightarrow> string \<Rightarrow> string \<Rightarrow> string \<Rightarrow> string \<Rightarrow> trade_failure + unit" where
  "assertActiveParticipants env st leagueId tradeId proposingTeamId receivingTeamId =
     bindE (participant_team_ids env st leagueId tradeId proposingTeamId receivingTeamId) (\<lambda>ids.
     if length (filter (\<lambda>t. te_team_status env leagueId t = Some ''active'') (remdups ids)) \<noteq> length ids
     then Inl (TradeLifecycleFailure LifecycleStateInvalid)
     else Inr ())"

end
