(* ===== verification/TradeSnapshot.thy ===== *)
theory TradeSnapshot
  imports TradeStore
begin

text \<open>
  The snapshot part of \<^verbatim>\<open>SqliteTradeProposalRepository.js\<close>: what the database says of every
  asset of a trade at the moment it is proposed, previewed or executed, and the retention limits
  that the whole set of assets must keep (\<^verbatim>\<open>snapshotAssets\<close>). The keys
  \<^verbatim>\<open>`${teamId}:${contractId}`\<close> of its sets and maps are pairs.
\<close>

section \<open>One asset\<close>

definition findContract ::
    "trade_env \<Rightarrow> trade_store \<Rightarrow> string \<Rightarrow> string option \<Rightarrow>
     (contract_row \<times> string \<times> player_ownership_row option) list" where
  "findContract env st leagueId contractId =
     concat (map (\<lambda>c. concat (map (\<lambda>name. map (\<lambda>o'. (c, name, o'))
         (left_join (filter (\<lambda>q. po_league_id q = c_league_id c \<and> po_player_id q = c_player_id c)
            (td_ownerships st))))
       (option_rows (te_player_name env (c_player_id c)))))
     (filter (\<lambda>c. c_league_id c = leagueId \<and> Some (c_id c) = contractId) (td_contracts st)))"

definition listContractYears :: "trade_store \<Rightarrow> string \<Rightarrow> string \<Rightarrow> contract_year_row list" where
  "listContractYears st leagueId contractId =
     sort_key cy_year_number
       (filter (\<lambda>y. cy_league_id y = leagueId \<and> cy_contract_id y = contractId) (td_contract_years st))"

definition contract_year_view_of :: "contract_year_row \<Rightarrow> contract_year_view" where
  "contract_year_view_of y =
     \<lparr>yv_season_id = cy_season_id y, yv_year_number = cy_year_number y,
      yv_aav_cents = cy_aav_cents y, yv_status = cy_status y\<rparr>"

definition ownership_view_of :: "player_ownership_row \<Rightarrow> int option \<Rightarrow> ownership_view" where
  "ownership_view_of q slot =
     \<lparr>ov_id = po_id q, ov_teamId = po_team_id q, ov_rosterCategory = po_roster_category q,
      ov_positionGroup = po_position_group q, ov_slotNumber = slot, ov_version = po_version q\<rparr>"

definition contractSnapshot ::
    "trade_env \<Rightarrow> trade_store \<Rightarrow> string \<Rightarrow> string \<Rightarrow> asset_command \<Rightarrow> trade_failure + snapshot" where
  "contractSnapshot env st leagueId seasonId asset =
     bindE (unique_found (findContract env st leagueId (ta_contractId (ac_asset asset)))) (\<lambda>row.
     case row of
       None \<Rightarrow> Inl (TradeAssetFailure AssetStaleOwnership)
     | Some (c, name, None) \<Rightarrow> Inl (TradeAssetFailure AssetIneligible)
     | Some (c, name, Some q) \<Rightarrow>
         if c_status c \<noteq> ''active'' \<or> c_current_team_id c \<noteq> ac_sourceTeamId asset \<or>
            po_team_id q \<noteq> ac_sourceTeamId asset \<or> po_season_id q \<noteq> seasonId \<or>
            po_ownership_kind q \<noteq> ''Rostered'' \<or>
            po_roster_category q \<notin> {''Active'', ''Bench'', ''Injured Reserve''}
         then Inl (TradeAssetFailure AssetIneligible)
         else
         let years = listContractYears st leagueId (c_id c) in
         if years = [] \<or> list_ex (\<lambda>y. cy_status y \<notin> {''current'', ''future''}) years
         then Inl (TradeAssetFailure AssetIneligible)
         else Inr (ContractSnapshot
           \<lparr>pv_id = c_player_id c, pv_name = name\<rparr>
           \<lparr>kv_id = c_id c, kv_type = c_contract_type c,
            kv_originalTotalValueCents = c_original_total_value_cents c,
            kv_originalTermYears = c_original_term_years c, kv_aavCents = c_aav_cents c,
            kv_startSeasonId = c_start_season_id c,
            kv_auctionBuyoutLockExpiresAtMs = c_auction_buyout_lock_expires_at_ms c,
            kv_version = c_version c, kv_years = map contract_year_view_of years\<rparr>
           (ownership_view_of q (po_slot_number q))))"

definition findProspect ::
    "trade_env \<Rightarrow> trade_store \<Rightarrow> string \<Rightarrow> string option \<Rightarrow>
     (player_ownership_row \<times> string \<times> contract_row option) list" where
  "findProspect env st leagueId playerId =
     concat (map (\<lambda>q. concat (map (\<lambda>name. map (\<lambda>c. (q, name, c))
         (left_join (filter (\<lambda>c. c_league_id c = po_league_id q \<and> c_player_id c = po_player_id q \<and>
            c_status c = ''active'') (td_contracts st))))
       (option_rows (te_player_name env (po_player_id q)))))
     (filter (\<lambda>q. po_league_id q = leagueId \<and> Some (po_player_id q) = playerId) (td_ownerships st)))"

definition prospectSnapshot ::
    "trade_env \<Rightarrow> trade_store \<Rightarrow> string \<Rightarrow> string \<Rightarrow> asset_command \<Rightarrow> trade_failure + snapshot" where
  "prospectSnapshot env st leagueId seasonId asset =
     bindE (unique_found (findProspect env st leagueId (ta_playerId (ac_asset asset)))) (\<lambda>row.
     case row of
       None \<Rightarrow> Inl (TradeAssetFailure AssetStaleOwnership)
     | Some (q, name, c) \<Rightarrow>
         if po_team_id q \<noteq> ac_sourceTeamId asset \<or> po_season_id q \<noteq> seasonId \<or>
            po_ownership_kind q \<noteq> ''Prospect Right'' \<or> po_roster_category q \<noteq> ''Prospect'' \<or>
            (case c of None \<Rightarrow> False
             | Some k \<Rightarrow> c_contract_type k \<noteq> ''fantasy_elc'' \<or> c_status k \<noteq> ''active'' \<or>
                 c_current_team_id k \<noteq> ac_sourceTeamId asset)
         then Inl (TradeAssetFailure AssetIneligible)
         else Inr (ProspectSnapshot
           \<lparr>pv_id = po_player_id q, pv_name = name\<rparr>
           (ownership_view_of q None)
           (map_option (\<lambda>k. \<lparr>el_contractId = c_id k, el_aavCents = c_aav_cents k,
              el_version = c_version k\<rparr>) c)))"

definition findDraftPick ::
    "trade_env \<Rightarrow> trade_store \<Rightarrow> string \<Rightarrow> string option \<Rightarrow> (draft_pick_row \<times> string \<times> string) list" where
  "findDraftPick env st leagueId draftPickId =
     concat (map (\<lambda>p. concat (map (\<lambda>status. map (\<lambda>label. (p, status, label))
         (option_rows (te_season_label env leagueId (dp_target_season_id p))))
       (option_rows (te_draft_status env leagueId (dp_draft_id p)))))
     (filter (\<lambda>p. dp_league_id p = leagueId \<and> Some (dp_id p) = draftPickId) (td_picks st)))"

definition draftPickSnapshot ::
    "trade_env \<Rightarrow> trade_store \<Rightarrow> string \<Rightarrow> asset_command \<Rightarrow> trade_failure + snapshot" where
  "draftPickSnapshot env st leagueId asset =
     bindE (unique_found (findDraftPick env st leagueId (ta_draftPickId (ac_asset asset)))) (\<lambda>row.
     case row of
       None \<Rightarrow> Inl (TradeAssetFailure AssetStaleOwnership)
     | Some (p, draftStatus, label) \<Rightarrow>
         if dp_current_owner_team_id p \<noteq> ac_sourceTeamId asset \<or> dp_status p \<noteq> ''unused'' \<or>
            dp_selection_id p \<noteq> None \<or> draftStatus = ''cancelled''
         then Inl (TradeAssetFailure AssetIneligible)
         else Inr (PickSnapshot
           \<lparr>kp_id = dp_id p, kp_draftId = dp_draft_id p, kp_targetSeasonId = dp_target_season_id p,
            kp_targetSeasonLabel = label, kp_roundNumber = dp_round_number p,
            kp_positionNumber = dp_position_number p, kp_originalTeamId = dp_original_team_id p,
            kp_currentOwnerTeamId = dp_current_owner_team_id p, kp_version = dp_version p\<rparr>))"

definition findRetention ::
    "trade_env \<Rightarrow> trade_store \<Rightarrow> string \<Rightarrow> string option \<Rightarrow> (retention_row \<times> contract_row \<times> string) list" where
  "findRetention env st leagueId retentionObligationId =
     concat (map (\<lambda>r. concat (map (\<lambda>c. map (\<lambda>name. (r, c, name))
         (option_rows (te_player_name env (ro_player_id r))))
       (filter (\<lambda>c. c_league_id c = ro_league_id r \<and> c_id c = ro_contract_id r) (td_contracts st))))
     (filter (\<lambda>r. ro_league_id r = leagueId \<and> Some (ro_id r) = retentionObligationId)
       (td_retentions st)))"

definition listRetentionYears :: "trade_store \<Rightarrow> string \<Rightarrow> string \<Rightarrow> retention_year_row list" where
  "listRetentionYears st leagueId retentionObligationId =
     sort_key roy_season_id
       (filter (\<lambda>y. roy_league_id y = leagueId \<and>
                    roy_retention_obligation_id y = retentionObligationId) (td_retention_years st))"

definition retentionSnapshot ::
    "trade_env \<Rightarrow> trade_store \<Rightarrow> string \<Rightarrow> asset_command \<Rightarrow> trade_failure + snapshot" where
  "retentionSnapshot env st leagueId asset =
     bindE (unique_found (findRetention env st leagueId (ta_retentionObligationId (ac_asset asset)))) (\<lambda>row.
     case row of
       None \<Rightarrow> Inl (TradeAssetFailure AssetStaleOwnership)
     | Some (r, c, name) \<Rightarrow>
         let years = listRetentionYears st leagueId (ro_id r) in
         if ro_responsible_team_id r \<noteq> ac_sourceTeamId asset \<or> ro_status r \<noteq> ''active'' \<or>
            years = [] \<or> list_ex (\<lambda>y. roy_status y \<notin> {''current'', ''future''}) years
         then Inl (TradeAssetFailure AssetIneligible)
         else Inr (RetentionSnapshot
           \<lparr>rw_id = ro_id r, rw_contractId = ro_contract_id r,
            rw_player = \<lparr>pv_id = ro_player_id r, pv_name = name\<rparr>,
            rw_originatingTeamId = ro_originating_team_id r,
            rw_responsibleTeamId = ro_responsible_team_id r,
            rw_retainedAavCents = ro_retained_aav_cents r,
            rw_originalContractAavCents = c_aav_cents c,
            rw_creationTradeId = ro_creation_trade_id r, rw_version = ro_version r,
            rw_years = map (\<lambda>y. (roy_season_id y, roy_retained_aav_cents y, roy_status y)) years\<rparr>))"

definition findBuyout ::
    "trade_env \<Rightarrow> trade_store \<Rightarrow> string \<Rightarrow> string option \<Rightarrow> (buyout_obligation_row \<times> string) list" where
  "findBuyout env st leagueId buyoutObligationId =
     concat (map (\<lambda>b. map (\<lambda>name. (b, name)) (option_rows (te_player_name env (bob_player_id b))))
     (filter (\<lambda>b. bob_league_id b = leagueId \<and> Some (bob_id b) = buyoutObligationId) (td_buyouts st)))"

definition listBuyoutYears :: "trade_store \<Rightarrow> string \<Rightarrow> string \<Rightarrow> buyout_year_row list" where
  "listBuyoutYears st leagueId buyoutObligationId =
     sort_key byr_season_id
       (filter (\<lambda>y. byr_league_id y = leagueId \<and> byr_buyout_obligation_id y = buyoutObligationId)
         (td_buyout_years st))"

definition buyoutSnapshot ::
    "trade_env \<Rightarrow> trade_store \<Rightarrow> string \<Rightarrow> asset_command \<Rightarrow> trade_failure + snapshot" where
  "buyoutSnapshot env st leagueId asset =
     bindE (unique_found (findBuyout env st leagueId (ta_buyoutObligationId (ac_asset asset)))) (\<lambda>row.
     case row of
       None \<Rightarrow> Inl (TradeAssetFailure AssetStaleOwnership)
     | Some (b, name) \<Rightarrow>
         let years = listBuyoutYears st leagueId (bob_id b) in
         if bob_responsible_team_id b \<noteq> ac_sourceTeamId asset \<or> bob_status b \<noteq> ''active'' \<or>
            years = [] \<or> list_ex (\<lambda>y. byr_status y \<notin> {''current'', ''future''}) years
         then Inl (TradeAssetFailure AssetIneligible)
         else Inr (BuyoutSnapshot
           \<lparr>bw_id = bob_id b, bw_contractId = bob_contract_id b,
            bw_player = \<lparr>pv_id = bob_player_id b, pv_name = name\<rparr>,
            bw_originatingTeamId = bob_originating_team_id b,
            bw_responsibleTeamId = bob_responsible_team_id b,
            bw_annualPenaltyBasisCents = bob_annual_penalty_basis_cents b,
            bw_buyoutTransactionId = bob_buyout_transaction_id b, bw_version = bob_version b,
            bw_years = map (\<lambda>y. (byr_season_id y, byr_penalty_cents y, byr_status y)) years\<rparr>))"

definition findFutureConsideration ::
    "trade_store \<Rightarrow> string \<Rightarrow> string option \<Rightarrow> consideration_row list" where
  "findFutureConsideration st leagueId futureConsiderationId =
     filter (\<lambda>f. cr_league_id f = leagueId \<and> Some (cr_id f) = futureConsiderationId)
       (td_considerations st)"

definition futureConsiderationSnapshot ::
    "trade_store \<Rightarrow> string \<Rightarrow> asset_command \<Rightarrow> trade_failure + snapshot" where
  "futureConsiderationSnapshot st leagueId asset =
     (if ta_futureConsiderationDescription (ac_asset asset) \<noteq> None
      then Inr (InstructionSnapshot (ac_sourceTeamId asset) (ac_destinationTeamId asset)
             (ta_futureConsiderationDescription (ac_asset asset)))
      else
      bindE (unique_found (findFutureConsideration st leagueId
              (ta_futureConsiderationId (ac_asset asset)))) (\<lambda>row.
      case row of
        None \<Rightarrow> Inl (TradeAssetFailure AssetStaleOwnership)
      | Some f \<Rightarrow>
          if cr_receiving_team_id f \<noteq> ac_sourceTeamId asset \<or> cr_status f \<noteq> ''outstanding''
          then Inl (TradeAssetFailure AssetIneligible)
          else Inr (ConsiderationSnapshot
            \<lparr>vw_id = cr_id f, vw_originatingTradeId = cr_originating_trade_id f,
             vw_owingTeamId = cr_owing_team_id f, vw_entitledTeamId = cr_receiving_team_id f,
             vw_description = cr_description f, vw_version = cr_version f\<rparr>)))"

definition asset_snapshot ::
    "trade_env \<Rightarrow> trade_store \<Rightarrow> string \<Rightarrow> string \<Rightarrow> asset_command \<Rightarrow> trade_failure + snapshot option" where
  "asset_snapshot env st leagueId seasonId asset =
     (let t = ta_inputType (ac_asset asset); found = (\<lambda>m. bindE m (\<lambda>s. Inr (Some s))) in
      if t = ''contract'' then found (contractSnapshot env st leagueId seasonId asset)
      else if t = ''prospect_right'' then found (prospectSnapshot env st leagueId seasonId asset)
      else if t = ''draft_pick'' then found (draftPickSnapshot env st leagueId asset)
      else if t = ''retention_obligation'' then found (retentionSnapshot env st leagueId asset)
      else if t = ''buyout_obligation'' then found (buyoutSnapshot env st leagueId asset)
      else if t = ''future_consideration'' \<or> t = ''future_consideration_instruction''
      then found (futureConsiderationSnapshot st leagueId asset)
      else if t = ''requested_retention'' then Inr None
      else Inl (TradeAssetFailure AssetIneligible))"

section \<open>All assets of a trade\<close>

text \<open>
  The first loop: every snapshot in order, the contracts by source team, and no player twice.
\<close>

type_synonym snapshot_state =
  "snapshot option list \<times> (string \<times> string option \<Rightarrow> (player_view \<times> contract_view) option) \<times> string list"

definition snapshot_step ::
    "trade_env \<Rightarrow> trade_store \<Rightarrow> string \<Rightarrow> string \<Rightarrow> snapshot_state \<Rightarrow> asset_command \<Rightarrow>
     trade_failure + snapshot_state" where
  "snapshot_step env st leagueId seasonId state asset =
     (case state of (snapshots, contracts, selected) \<Rightarrow>
      bindE (asset_snapshot env st leagueId seasonId asset) (\<lambda>s.
      case s of
        Some (ContractSnapshot p k q) \<Rightarrow>
          if pv_id p \<in> set selected then Inl (TradeAssetFailure AssetConflict)
          else Inr (snapshots @ [s],
                 contracts((ac_sourceTeamId asset, ta_contractId (ac_asset asset)) \<mapsto> (p, k)),
                 pv_id p # selected)
      | Some (ProspectSnapshot p q e) \<Rightarrow>
          if pv_id p \<in> set selected then Inl (TradeAssetFailure AssetConflict)
          else Inr (snapshots @ [s], contracts, pv_id p # selected)
      | _ \<Rightarrow> Inr (snapshots @ [s], contracts, selected)))"

text \<open>The team that retains on a contract after the trade because of an asset.\<close>

definition retention_claim :: "asset_command \<times> snapshot option \<Rightarrow> (string \<times> string option) option" where
  "retention_claim entry =
     (case entry of (asset, s) \<Rightarrow>
      if ta_inputType (ac_asset asset) = ''retention_obligation''
      then Some (ac_destinationTeamId asset,
             case s of Some (RetentionSnapshot v) \<Rightarrow> Some (rw_contractId v) | _ \<Rightarrow> None)
      else if ta_inputType (ac_asset asset) = ''requested_retention''
      then Some (ac_sourceTeamId asset, ta_requestedRetentionContractId (ac_asset asset))
      else None)"

definition findTeamContractRetention ::
    "trade_store \<Rightarrow> string \<Rightarrow> string option \<Rightarrow> string \<Rightarrow> retention_row list" where
  "findTeamContractRetention st leagueId contractId teamId =
     filter (\<lambda>r. ro_league_id r = leagueId \<and> Some (ro_contract_id r) = contractId \<and>
                 ro_responsible_team_id r = teamId \<and> ro_status r = ''active'') (td_retentions st)"

definition outgoing_retentions :: "asset_command list \<Rightarrow> string option list" where
  "outgoing_retentions assets =
     map (\<lambda>a. ta_retentionObligationId (ac_asset a))
       (filter (\<lambda>a. ta_inputType (ac_asset a) = ''retention_obligation'') assets)"

definition check_claim ::
    "trade_store \<Rightarrow> string \<Rightarrow> string option list \<Rightarrow> (string \<times> string option) list \<Rightarrow>
     asset_command \<times> snapshot option \<Rightarrow> trade_failure + (string \<times> string option) list" where
  "check_claim st leagueId outgoing seen entry =
     (case retention_claim entry of
        None \<Rightarrow> Inr seen
      | Some (teamId, contractId) \<Rightarrow>
          if (teamId, contractId) \<in> set seen then Inl (TradeAssetFailure AssetRetentionInvalid)
          else
          bindE (unique_found (findTeamContractRetention st leagueId contractId teamId)) (\<lambda>current.
          if \<not> pred_option (\<lambda>r. Some (ro_id r) \<in> set outgoing) current
          then Inl (TradeAssetFailure AssetRetentionInvalid)
          else Inr ((teamId, contractId) # seen)))"

text \<open>\<^verbatim>\<open>retentionSlotDeltaByTeam\<close>: the slots each team gives up and takes.\<close>

definition slot_changes :: "asset_command \<Rightarrow> (string \<times> int) list" where
  "slot_changes asset =
     (if ta_inputType (ac_asset asset) = ''retention_obligation''
      then [(ac_sourceTeamId asset, -1), (ac_destinationTeamId asset, 1)]
      else if ta_inputType (ac_asset asset) = ''requested_retention''
      then [(ac_sourceTeamId asset, 1)]
      else [])"

definition slot_delta :: "asset_command list \<Rightarrow> string \<Rightarrow> int" where
  "slot_delta assets teamId =
     sum_list (map snd (filter (\<lambda>c. fst c = teamId) (concat (map slot_changes assets))))"

definition countTeamRetentionSlots :: "trade_store \<Rightarrow> string \<Rightarrow> string \<Rightarrow> int" where
  "countTeamRetentionSlots st leagueId teamId =
     int (length (filter (\<lambda>r. ro_league_id r = leagueId \<and> ro_responsible_team_id r = teamId \<and>
                              ro_status r = ''active'') (td_retentions st)))"

definition check_slots :: "trade_store \<Rightarrow> string \<Rightarrow> asset_command list \<Rightarrow> trade_failure + unit" where
  "check_slots st leagueId assets =
     (if list_ex (\<lambda>teamId.
           let n = countTeamRetentionSlots st leagueId teamId + slot_delta assets teamId
           in n < 0 \<or> 3 < n) (map fst (concat (map slot_changes assets)))
      then Inl (TradeAssetFailure AssetRetentionInvalid)
      else Inr ())"

definition summarizeContractRetention :: "trade_store \<Rightarrow> string \<Rightarrow> string option \<Rightarrow> int" where
  "summarizeContractRetention st leagueId contractId =
     sum_list (map ro_retained_aav_cents (filter (\<lambda>r. ro_league_id r = leagueId \<and>
       Some (ro_contract_id r) = contractId \<and> ro_status r = ''active'') (td_retentions st)))"

text \<open>The last loop: a requested retention goes with its contract and within its ceiling.\<close>

definition final_snapshot ::
    "trade_store \<Rightarrow> string \<Rightarrow> string option list \<Rightarrow>
     (string \<times> string option \<Rightarrow> (player_view \<times> contract_view) option) \<Rightarrow>
     asset_command \<times> snapshot option \<Rightarrow> trade_failure + asset_command \<times> snapshot" where
  "final_snapshot st leagueId outgoing contracts entry =
     (case entry of
        (asset, Some s) \<Rightarrow> Inr (asset, s)
      | (asset, None) \<Rightarrow>
          let a = ac_asset asset; contractId = ta_requestedRetentionContractId a in
          case contracts (ac_sourceTeamId asset, contractId) of
            None \<Rightarrow> Inl (TradeAssetFailure AssetRetentionInvalid)
          | Some (player, contract) \<Rightarrow>
              bindE (unique_found (findTeamContractRetention st leagueId contractId
                      (ac_sourceTeamId asset))) (\<lambda>existing.
              let cumulative = summarizeContractRetention st leagueId contractId;
                  ceiling = kv_aavCents contract div 2;
                  requested = (case ta_requestedRetentionCents a of Some n \<Rightarrow> n | None \<Rightarrow> 0)
              in
              if \<not> pred_option (\<lambda>r. Some (ro_id r) \<in> set outgoing) existing \<or>
                 cumulative + requested > ceiling
              then Inl (TradeAssetFailure AssetRetentionInvalid)
              else Inr (asset, RequestedSnapshot
                \<lparr>qw_contractId = the contractId, qw_playerId = pv_id player,
                 qw_retainingTeamId = ac_sourceTeamId asset, qw_retainedAavCents = requested,
                 qw_originalAavCents = kv_aavCents contract,
                 qw_cumulativeRetainedAavCents = cumulative,
                 qw_retentionCeilingCents = ceiling\<rparr>)))"

definition snapshotAssets ::
    "trade_env \<Rightarrow> trade_store \<Rightarrow> string \<Rightarrow> string \<Rightarrow> asset_command list \<Rightarrow>
     trade_failure + (asset_command \<times> snapshot) list" where
  "snapshotAssets env st leagueId seasonId assets =
     bindE (foldE (snapshot_step env st leagueId seasonId) ([], Map.empty, []) assets)
       (\<lambda>(snapshots, contracts, selected).
     let outgoing = outgoing_retentions assets; entries = zip assets snapshots in
     bindE (foldE (check_claim st leagueId outgoing) [] entries) (\<lambda>_.
     bindE (check_slots st leagueId assets) (\<lambda>_.
     mapE (final_snapshot st leagueId outgoing contracts) entries)))"

section \<open>Assets as the database keeps them\<close>

definition persistedAssetCommand :: "trade_asset_row \<Rightarrow> asset_command" where
  "persistedAssetCommand row =
     \<lparr>ac_id = tar_id row, ac_direction = tar_direction row,
      ac_sourceTeamId = tar_source_team_id row, ac_destinationTeamId = tar_destination_team_id row,
      ac_asset =
        \<lparr>ta_inputType =
           (if tar_asset_type row = ''future_consideration'' \<and>
               tar_future_consideration_description row \<noteq> None
            then ''future_consideration_instruction'' else tar_asset_type row),
         ta_assetType = tar_asset_type row, ta_contractId = tar_contract_id row,
         ta_playerId = tar_player_id row, ta_draftPickId = tar_draft_pick_id row,
         ta_retentionObligationId = tar_retention_obligation_id row,
         ta_buyoutObligationId = tar_buyout_obligation_id row,
         ta_futureConsiderationId = tar_future_consideration_id row,
         ta_requestedRetentionContractId = tar_requested_retention_contract_id row,
         ta_requestedRetentionCents = tar_requested_retention_cents row,
         ta_futureConsiderationDescription = tar_future_consideration_description row\<rparr>,
      ac_sequence = tar_sequence row, ac_createdAtMs = tar_created_at_ms row\<rparr>"

end
