(* ===== verification/TradePreview.thy ===== *)
theory TradePreview
  imports TradeSnapshot "HOL-Library.Product_Lexorder"
begin

text \<open>
  The preview part of \<^verbatim>\<open>SqliteTradeProposalRepository.js\<close>: where the traded players go on the
  rosters of their new teams, and what the rosters, retention slots and cap usage of every team
  look like before and after the trade (\<^verbatim>\<open>projectTeamAcceptancePreview\<close>,
  \<^verbatim>\<open>projectAcceptanceAssets\<close>, \<^verbatim>\<open>acceptancePreview\<close>). The keys of its sets of slots and
  counts are tuples of team, category, position group (empty off the active roster) and number.
\<close>

section \<open>The rows a preview works on\<close>

record roster_row =
  rr_ownership_id :: string
  rr_player_id :: string
  rr_team_id :: string
  rr_ownership_kind :: string
  rr_roster_category :: string
  rr_position_group :: string
  rr_slot_number :: "int option"
  rr_contract_id :: "string option"
  rr_contract_team_id :: "string option"
  rr_aav_cents :: "int option"
  rr_contract_status :: "string option"
  rr_retained_aav_cents :: int

record obligation_row =
  ob_id :: string
  ob_contract_id :: string
  ob_player_id :: string
  ob_responsible_team_id :: string
  ob_amount_cents :: int
  ob_requested :: bool

definition current_retained :: "trade_store \<Rightarrow> string \<Rightarrow> string \<Rightarrow> string option \<Rightarrow> int" where
  "current_retained st leagueId seasonId contractId =
     sum_list (concat (map (\<lambda>r. map roy_retained_aav_cents
         (filter (\<lambda>y. roy_league_id y = ro_league_id r \<and> roy_retention_obligation_id y = ro_id r \<and>
            roy_season_id y = seasonId \<and> roy_status y = ''current'') (td_retention_years st)))
       (filter (\<lambda>r. ro_league_id r = leagueId \<and> Some (ro_contract_id r) = contractId \<and>
          ro_status r = ''active'') (td_retentions st))))"

definition listAcceptanceRoster ::
    "trade_store \<Rightarrow> string \<Rightarrow> string \<Rightarrow> string list \<Rightarrow> roster_row list" where
  "listAcceptanceRoster st leagueId seasonId teamIds =
     sort_key (\<lambda>r. (rr_team_id r, rr_player_id r))
       (concat (map (\<lambda>q. map (\<lambda>c.
          \<lparr>rr_ownership_id = po_id q, rr_player_id = po_player_id q, rr_team_id = po_team_id q,
           rr_ownership_kind = po_ownership_kind q, rr_roster_category = po_roster_category q,
           rr_position_group = po_position_group q, rr_slot_number = po_slot_number q,
           rr_contract_id = map_option c_id c,
           rr_contract_team_id = map_option c_current_team_id c,
           rr_aav_cents = map_option c_aav_cents c,
           rr_contract_status = map_option c_status c,
           rr_retained_aav_cents = current_retained st (po_league_id q) seasonId (map_option c_id c)\<rparr>)
         (left_join (filter (\<lambda>c. c_league_id c = po_league_id q \<and> c_player_id c = po_player_id q \<and>
            c_status c = ''active'') (td_contracts st))))
       (filter (\<lambda>q. po_league_id q = leagueId \<and> po_season_id q = seasonId \<and>
          po_team_id q \<in> set teamIds) (td_ownerships st))))"

definition listAcceptanceRetentions ::
    "trade_store \<Rightarrow> string \<Rightarrow> string \<Rightarrow> string list \<Rightarrow> obligation_row list" where
  "listAcceptanceRetentions st leagueId seasonId teamIds =
     map (\<lambda>r. \<lparr>ob_id = ro_id r, ob_contract_id = ro_contract_id r, ob_player_id = ro_player_id r,
        ob_responsible_team_id = ro_responsible_team_id r,
        ob_amount_cents =
          (case filter (\<lambda>y. roy_league_id y = ro_league_id r \<and>
              roy_retention_obligation_id y = ro_id r \<and> roy_season_id y = seasonId \<and>
              roy_status y = ''current'') (td_retention_years st) of
             [] \<Rightarrow> 0 | y # _ \<Rightarrow> roy_retained_aav_cents y),
        ob_requested = False\<rparr>)
       (sort_key ro_id
         (filter (\<lambda>r. ro_league_id r = leagueId \<and> ro_responsible_team_id r \<in> set teamIds \<and>
            ro_status r = ''active'') (td_retentions st)))"

definition listAcceptanceBuyouts ::
    "trade_store \<Rightarrow> string \<Rightarrow> string \<Rightarrow> string list \<Rightarrow> obligation_row list" where
  "listAcceptanceBuyouts st leagueId seasonId teamIds =
     concat (map (\<lambda>b. map (\<lambda>y.
         \<lparr>ob_id = bob_id b, ob_contract_id = bob_contract_id b, ob_player_id = bob_player_id b,
          ob_responsible_team_id = bob_responsible_team_id b,
          ob_amount_cents = byr_penalty_cents y, ob_requested = False\<rparr>)
       (filter (\<lambda>y. byr_league_id y = bob_league_id b \<and> byr_buyout_obligation_id y = bob_id b \<and>
          byr_season_id y = seasonId \<and> byr_status y = ''current'') (td_buyout_years st)))
     (sort_key bob_id
       (filter (\<lambda>b. bob_league_id b = leagueId \<and> bob_responsible_team_id b \<in> set teamIds \<and>
          bob_status b = ''active'') (td_buyouts st))))"

section \<open>One team\<close>

definition in_category :: "string \<Rightarrow> roster_row \<Rightarrow> bool" where
  "in_category category r \<longleftrightarrow> rr_roster_category r = category"

definition count_rows :: "(roster_row \<Rightarrow> bool) \<Rightarrow> roster_row list \<Rightarrow> int" where
  "count_rows p rows = int (length (filter p rows))"

definition roster_counts_of :: "roster_row list \<Rightarrow> roster_counts" where
  "roster_counts_of rows =
     \<lparr>rk_activeForwards =
        count_rows (\<lambda>r. in_category ''Active'' r \<and> rr_position_group r = ''F'') rows,
      rk_activeDefence =
        count_rows (\<lambda>r. in_category ''Active'' r \<and> rr_position_group r = ''D'') rows,
      rk_bench = count_rows (in_category ''Bench'') rows,
      rk_injuredReserve = count_rows (in_category ''Injured Reserve'') rows,
      rk_prospects = count_rows (in_category ''Prospect'') rows\<rparr>"

definition limit_issues :: "league_settings \<Rightarrow> roster_counts \<Rightarrow> preview_issue list" where
  "limit_issues settings counts =
     concat (map (\<lambda>(count, limit, code). if limit < count then [LimitExceeded code count limit] else [])
       [(rk_activeForwards counts, ls_active_forward_slots settings, ''ACTIVE_FORWARD_LIMIT_EXCEEDED''),
        (rk_activeDefence counts, ls_active_defence_slots settings, ''ACTIVE_DEFENCE_LIMIT_EXCEEDED''),
        (rk_bench counts, ls_bench_slots settings, ''BENCH_LIMIT_EXCEEDED''),
        (rk_injuredReserve counts, ls_injured_reserve_slots settings,
          ''INJURED_RESERVE_LIMIT_EXCEEDED'')])"

definition team_slot_key :: "roster_row \<Rightarrow> int \<Rightarrow> string" where
  "team_slot_key r n =
     (if rr_roster_category r = ''Active''
      then rr_roster_category r @ '':'' @ rr_position_group r @ '':'' @ int_text n
      else rr_roster_category r @ '':'' @ int_text n)"

definition contract_valid :: "string \<Rightarrow> roster_row \<Rightarrow> bool" where
  "contract_valid teamId r \<longleftrightarrow>
     rr_contract_id r \<noteq> None \<and> rr_contract_status r = Some ''active'' \<and>
     rr_contract_team_id r = Some teamId"

definition number_or_zero :: "int option \<Rightarrow> int" where
  "number_or_zero n = (case n of Some k \<Rightarrow> k | None \<Rightarrow> 0)"

definition row_issues ::
    "string \<Rightarrow> league_settings \<Rightarrow> preview_issue list \<times> string list \<Rightarrow> roster_row \<Rightarrow>
     preview_issue list \<times> string list" where
  "row_issues teamId settings state r =
     (case state of (issues, occupied) \<Rightarrow>
      let rostered = (if rr_ownership_kind r \<noteq> ''Rostered'' then []
            else
              (if \<not> contract_valid teamId r
               then [RosteredContractInvalid (rr_ownership_id r) (rr_player_id r)] else []) @
              (if rr_slot_number r = None
               then [NormalRosterSlotUnplaced (rr_ownership_id r) (rr_player_id r)
                      (rr_roster_category r) (rr_position_group r)] else []) @
              (if in_category ''Bench'' r \<and>
                  ls_maximum_bench_aav_cents settings < number_or_zero (rr_aav_cents r)
               then [BenchAavLimitExceeded (rr_ownership_id r) (rr_player_id r)
                      (number_or_zero (rr_aav_cents r)) (ls_maximum_bench_aav_cents settings)]
               else []))
      in case rr_slot_number r of
           None \<Rightarrow> (issues @ rostered, occupied)
         | Some n \<Rightarrow>
             let key = team_slot_key r n in
             (issues @ rostered @
                (if key \<in> set occupied then [RosterSlotCollision (rr_ownership_id r) key] else []),
              key # occupied))"

definition requested_on :: "obligation_row list \<Rightarrow> string option \<Rightarrow> int" where
  "requested_on retentions contractId =
     sum_list (map ob_amount_cents
       (filter (\<lambda>o'. ob_requested o' \<and> Some (ob_contract_id o') = contractId) retentions))"

definition responsible :: "string \<Rightarrow> obligation_row list \<Rightarrow> obligation_row list" where
  "responsible teamId rows = filter (\<lambda>o'. ob_responsible_team_id o' = teamId) rows"

definition active_player_cap :: "string \<Rightarrow> roster_row list \<Rightarrow> obligation_row list \<Rightarrow> int" where
  "active_player_cap teamId rows retentions =
     sum_list (map (\<lambda>r. max 0 (number_or_zero (rr_aav_cents r) - rr_retained_aav_cents r -
         requested_on retentions (rr_contract_id r)))
       (filter (\<lambda>r. rr_ownership_kind r = ''Rostered'' \<and> in_category ''Active'' r \<and>
          contract_valid teamId r) rows))"

definition projectTeamAcceptancePreview ::
    "string \<Rightarrow> league_settings \<Rightarrow> roster_row list \<Rightarrow> obligation_row list \<Rightarrow> obligation_row list \<Rightarrow>
     team_preview" where
  "projectTeamAcceptancePreview teamId settings roster retentions buyouts =
     (let teamRoster = filter (\<lambda>r. rr_team_id r = teamId) roster;
          counts = roster_counts_of teamRoster;
          (issues, _) = foldl (row_issues teamId settings) (limit_issues settings counts, []) teamRoster;
          active = active_player_cap teamId teamRoster retentions;
          retained = sum_list (map ob_amount_cents (responsible teamId retentions));
          bought = sum_list (map ob_amount_cents (responsible teamId buyouts));
          usage = active + retained + bought;
          slots = int (length (responsible teamId retentions));
          all_issues = issues @
            (if ls_salary_cap_cents settings < usage
             then [SalaryCapExceeded usage (ls_salary_cap_cents settings)] else []) @
            (if 3 < slots then [RetentionSlotLimitExceeded slots 3] else [])
      in
        \<lparr>tw_teamId = teamId, tw_rosterCounts = counts,
         tw_cap = \<lparr>pk_salaryCapCents = ls_salary_cap_cents settings, pk_activePlayerCapCents = active,
           pk_retentionCapCents = retained, pk_buyoutCapCents = bought, pk_usageCents = usage,
           pk_spaceCents = ls_salary_cap_cents settings - usage\<rparr>,
         tw_retentionSlots = slots, tw_issues = all_issues,
         tw_generallyIllegal = (all_issues \<noteq> []), tw_before = None\<rparr>)"

section \<open>Planning the destinations\<close>

type_synonym category_key = "string \<times> string \<times> string"

record plan_state =
  ps_roster :: "roster_row list"
  ps_retentions :: "obligation_row list"
  ps_buyouts :: "obligation_row list"
  ps_counts :: "category_key \<Rightarrow> int"
  ps_occupied :: "(category_key \<times> int) list"
  ps_slots :: "string \<Rightarrow> int option"
  ps_categories :: "string \<Rightarrow> string option"

definition category_key :: "string \<Rightarrow> string \<Rightarrow> string \<Rightarrow> category_key" where
  "category_key teamId category position =
     (teamId, category, if category = ''Active'' then position else [])"

definition slot_limit_of :: "league_settings \<Rightarrow> string \<Rightarrow> string \<Rightarrow> int" where
  "slot_limit_of settings category position =
     (if category = ''Active'' then
        (if position = ''F'' then ls_active_forward_slots settings else ls_active_defence_slots settings)
      else if category = ''Bench'' then ls_bench_slots settings
      else ls_injured_reserve_slots settings)"

text \<open>The category a player gets, his slot if one is free, and the counts and slots after him.\<close>

definition assignDestinationSlot ::
    "league_settings \<Rightarrow> (category_key \<Rightarrow> int) \<Rightarrow> (category_key \<times> int) list \<Rightarrow> roster_row \<Rightarrow> string \<Rightarrow>
     string \<times> int option \<times> (category_key \<Rightarrow> int) \<times> (category_key \<times> int) list" where
  "assignDestinationSlot settings counts occupied row destinationTeamId =
     (if in_category ''Prospect'' row then (rr_roster_category row, None, counts, occupied)
      else
        let position = rr_position_group row;
            activeLimit = slot_limit_of settings ''Active'' position;
            activeCount = counts (destinationTeamId, ''Active'', position);
            category = (if activeCount < activeLimit then ''Active'' else ''Bench'');
            limit = slot_limit_of settings category position;
            key = category_key destinationTeamId category position;
            count = counts key;
            counts' = counts(key := count + 1)
        in
          if limit \<le> count then (category, None, counts', occupied)
          else case find (\<lambda>n. (key, n) \<notin> set occupied) [1..limit] of
                 None \<Rightarrow> (category, None, counts', occupied)
               | Some n \<Rightarrow> (category, Some n, counts', (key, n) # occupied))"

fun update_first :: "('r \<Rightarrow> bool) \<Rightarrow> ('r \<Rightarrow> 'r) \<Rightarrow> 'r list \<Rightarrow> 'r list option" where
  "update_first p f [] = None"
| "update_first p f (r # rs) =
     (if p r then Some (f r # rs) else map_option ((#) r) (update_first p f rs))"

definition required_update :: "('r \<Rightarrow> bool) \<Rightarrow> ('r \<Rightarrow> 'r) \<Rightarrow> 'r list \<Rightarrow> trade_failure + 'r list" where
  "required_update p f rows =
     (case update_first p f rows of None \<Rightarrow> Inl TradeTypeError | Some rows' \<Rightarrow> Inr rows')"

definition moving_ownership :: "asset_command \<times> snapshot \<Rightarrow> string list" where
  "moving_ownership entry =
     (case entry of (asset, s) \<Rightarrow>
      if ta_inputType (ac_asset asset) \<notin> {''contract'', ''prospect_right''} then []
      else case s of
        ContractSnapshot p k q \<Rightarrow> [ov_id q]
      | ProspectSnapshot p q e \<Rightarrow> [ov_id q]
      | _ \<Rightarrow> [])"

definition count_staying :: "string list \<Rightarrow> plan_state \<Rightarrow> roster_row \<Rightarrow> plan_state" where
  "count_staying moving s row =
     (if rr_ownership_id row \<in> set moving then s
      else
        let key = category_key (rr_team_id row) (rr_roster_category row) (rr_position_group row);
            s' = s\<lparr>ps_counts := (ps_counts s)(key := ps_counts s key + 1)\<rparr>
        in case rr_slot_number row of
             None \<Rightarrow> s'
           | Some n \<Rightarrow> s'\<lparr>ps_occupied := (key, n) # ps_occupied s\<rparr>)"

definition plan_contract :: "league_settings \<Rightarrow> asset_command \<Rightarrow> plan_state \<Rightarrow> trade_failure + plan_state" where
  "plan_contract settings asset s =
     (case find (\<lambda>r. rr_contract_id r = ta_contractId (ac_asset asset)) (ps_roster s) of
        None \<Rightarrow> Inl TradeTypeError
      | Some row \<Rightarrow>
          (case assignDestinationSlot settings (ps_counts s) (ps_occupied s) row
                  (ac_destinationTeamId asset) of
             (category, slot, counts, occupied) \<Rightarrow>
          bindE (required_update (\<lambda>r. rr_contract_id r = ta_contractId (ac_asset asset))
            (\<lambda>r. r\<lparr>rr_team_id := ac_destinationTeamId asset,
                   rr_contract_team_id := Some (ac_destinationTeamId asset),
                   rr_roster_category := category, rr_slot_number := slot\<rparr>) (ps_roster s)) (\<lambda>roster.
          Inr (s\<lparr>ps_roster := roster, ps_counts := counts, ps_occupied := occupied,
                 ps_slots := (ps_slots s)(ac_id asset := slot),
                 ps_categories := (ps_categories s)(ac_id asset := Some category)\<rparr>))))"

definition plan_prospect :: "asset_command \<Rightarrow> plan_state \<Rightarrow> trade_failure + plan_state" where
  "plan_prospect asset s =
     bindE (required_update (\<lambda>r. Some (rr_player_id r) = ta_playerId (ac_asset asset))
       (\<lambda>r. r\<lparr>rr_team_id := ac_destinationTeamId asset, rr_slot_number := None,
              rr_contract_team_id := (if rr_contract_id r \<noteq> None
                then Some (ac_destinationTeamId asset) else rr_contract_team_id r)\<rparr>)
       (ps_roster s)) (\<lambda>roster.
     Inr (s\<lparr>ps_roster := roster, ps_slots := (ps_slots s)(ac_id asset := None),
            ps_categories := (ps_categories s)(ac_id asset := Some ''Prospect'')\<rparr>))"

definition reassign :: "string option \<Rightarrow> string \<Rightarrow> obligation_row list \<Rightarrow> trade_failure + obligation_row list" where
  "reassign i teamId rows =
     required_update (\<lambda>o'. Some (ob_id o') = i) (\<lambda>o'. o'\<lparr>ob_responsible_team_id := teamId\<rparr>) rows"

definition requested_row :: "asset_command \<Rightarrow> snapshot \<Rightarrow> obligation_row" where
  "requested_row asset s =
     \<lparr>ob_id = ac_id asset,
      ob_contract_id = the (ta_requestedRetentionContractId (ac_asset asset)),
      ob_player_id = (case s of RequestedSnapshot v \<Rightarrow> qw_playerId v | _ \<Rightarrow> []),
      ob_responsible_team_id = ac_sourceTeamId asset,
      ob_amount_cents = the (ta_requestedRetentionCents (ac_asset asset)),
      ob_requested = True\<rparr>"

definition plan_asset ::
    "league_settings \<Rightarrow> plan_state \<Rightarrow> asset_command \<times> snapshot \<Rightarrow> trade_failure + plan_state" where
  "plan_asset settings s entry =
     (case entry of (asset, current) \<Rightarrow>
      let t = ta_inputType (ac_asset asset) in
      if t = ''contract'' then plan_contract settings asset s
      else if t = ''prospect_right'' then plan_prospect asset s
      else if t = ''retention_obligation'' then
        bindE (reassign (ta_retentionObligationId (ac_asset asset)) (ac_destinationTeamId asset)
          (ps_retentions s)) (\<lambda>rows. Inr (s\<lparr>ps_retentions := rows\<rparr>))
      else if t = ''buyout_obligation'' then
        bindE (reassign (ta_buyoutObligationId (ac_asset asset)) (ac_destinationTeamId asset)
          (ps_buyouts s)) (\<lambda>rows. Inr (s\<lparr>ps_buyouts := rows\<rparr>))
      else if t = ''requested_retention''
      then Inr (s\<lparr>ps_retentions := ps_retentions s @ [requested_row asset current]\<rparr>)
      else Inr s)"

definition preview_team :: "league_settings \<Rightarrow> plan_state \<Rightarrow> string \<Rightarrow> team_preview" where
  "preview_team settings s teamId =
     projectTeamAcceptancePreview teamId settings (ps_roster s) (ps_retentions s) (ps_buyouts s)"

definition start_plan :: "trade_store \<Rightarrow> string \<Rightarrow> string \<Rightarrow> string list \<Rightarrow> plan_state" where
  "start_plan st leagueId seasonId teamIds =
     \<lparr>ps_roster = listAcceptanceRoster st leagueId seasonId teamIds,
      ps_retentions = listAcceptanceRetentions st leagueId seasonId teamIds,
      ps_buyouts = listAcceptanceBuyouts st leagueId seasonId teamIds,
      ps_counts = (\<lambda>_. 0), ps_occupied = [], ps_slots = (\<lambda>_. None), ps_categories = (\<lambda>_. None)\<rparr>"

definition count_all :: "(asset_command \<times> snapshot) list \<Rightarrow> plan_state \<Rightarrow> plan_state" where
  "count_all entries s = foldl (count_staying (concat (map moving_ownership entries))) s (ps_roster s)"

definition with_before :: "league_settings \<Rightarrow> plan_state \<Rightarrow> team_preview \<Rightarrow> team_preview" where
  "with_before settings start t =
     (let b = preview_team settings start (tw_teamId t)
      in t\<lparr>tw_before := Some (tw_cap b, tw_rosterCounts b, tw_retentionSlots b)\<rparr>)"

definition projectAcceptanceAssets ::
    "trade_env \<Rightarrow> trade_store \<Rightarrow> string \<Rightarrow> string \<Rightarrow> string list \<Rightarrow> (asset_command \<times> snapshot) list \<Rightarrow>
     trade_failure + team_preview list \<times> plan_state" where
  "projectAcceptanceAssets env st leagueId seasonId teamIds entries =
     bindE (unique_found (te_settings env leagueId)) (\<lambda>found.
     case found of
       None \<Rightarrow> Inl (TradeRepoFailure RepoRecordNotFound)
     | Some settings \<Rightarrow>
         let start = start_plan st leagueId seasonId teamIds in
         bindE (foldE (plan_asset settings) (count_all entries start) entries) (\<lambda>final.
         Inr (map (\<lambda>t. with_before settings start (preview_team settings final t)) teamIds, final)))"

section \<open>Previews\<close>

text \<open>\<^verbatim>\<open>previewProposal\<close>: a proposal that has not been stored.\<close>

definition proposal_context ::
    "trade_env \<Rightarrow> creation_command \<Rightarrow> string \<Rightarrow> trade_failure + foundation_context option" where
  "proposal_context env c receivingTeamId =
     (let f = cc_foundation c in
      unique_found (te_foundation env (cf_leagueId f) (cf_proposingTeamId f) receivingTeamId
        (cf_actorUserId f) (cf_actorMembershipId f)))"

definition assert_proposal ::
    "trade_env \<Rightarrow> creation_command \<Rightarrow> string \<Rightarrow> trade_failure + foundation_context option" where
  "assert_proposal env c receivingTeamId =
     bindE (proposal_context env c receivingTeamId) (\<lambda>ctx.
     bindE (foundation_result (assertTradeProposalFoundationState
       ((cc_foundation c)\<lparr>cf_receivingTeamId := receivingTeamId\<rparr>) ctx)) (\<lambda>_. Inr ctx))"

record planned_asset =
  pa_row :: trade_asset_row
  pa_current :: snapshot
  pa_slot :: "int option"
  pa_category :: "string option"

record trade_preview =
  tq_context :: trade_context
  tq_assets :: "planned_asset list"
  tq_teams :: "team_preview list"
  tq_generallyIllegal :: bool

definition acceptancePreview ::
    "trade_env \<Rightarrow> trade_store \<Rightarrow> jsval \<Rightarrow> trade_failure + trade_preview" where
  "acceptancePreview env st rawCommand =
     bindE (lifecycle_result (validateTradeAcceptancePreviewCommand rawCommand)) (\<lambda>command.
     bindE (participant_team_ids env st (vc_leagueId command) (vc_tradeId command)
       (vc_proposingTeamId command) (vc_receivingTeamId command)) (\<lambda>teamIds.
     bindE (responseTeam env st (vc_actorAuthority command) (vc_leagueId command)
       (vc_tradeId command) (vc_actorUserId command) (vc_respondingTeamId command)
       (vc_receivingTeamId command)) (\<lambda>team.
     bindE (unique_found (loadLifecycleState env st (vc_leagueId command) (vc_tradeId command)
       (vc_actorUserId command) (vc_actorMembershipId command) team)) (\<lambda>found.
     bindE (participant_list env st (vc_leagueId command) (vc_tradeId command)) (\<lambda>participants.
     let ctx = (if participants \<noteq> []
           then map_option (\<lambda>c. c\<lparr>tx_multi_trade_actor_team_id := Some team\<rparr>) found else found) in
     bindE (lifecycle_result (assertTradeAcceptancePreviewState command ctx)) (\<lambda>_.
     bindE (assertActiveParticipants env st (vc_leagueId command) (vc_tradeId command)
       (vc_proposingTeamId command) (vc_receivingTeamId command)) (\<lambda>_.
     let rows = listTradeAssets st (vc_leagueId command) (vc_tradeId command) in
     if length rows < 2 then Inl (TradeRepoFailure RepoSchemaIncompatible)
     else
     bindE (snapshotAssets env st (vc_leagueId command) (vc_seasonId command)
       (map persistedAssetCommand rows)) (\<lambda>entries.
     bindE (projectAcceptanceAssets env st (vc_leagueId command) (vc_seasonId command) teamIds
       entries) (\<lambda>(teams, plan).
     Inr \<lparr>tq_context = the ctx,
          tq_assets = map (\<lambda>(row, entry).
            \<lparr>pa_row = row, pa_current = snd entry, pa_slot = ps_slots plan (tar_id row),
             pa_category = ps_categories plan (tar_id row)\<rparr>) (zip rows entries),
          tq_teams = teams,
          tq_generallyIllegal = list_ex tw_generallyIllegal teams\<rparr>)))))))))"

end
