(* ===== verification/TradeRepository.thy ===== *)
theory TradeRepository
  imports TradePreview
begin

text \<open>
  The transactions of \<^verbatim>\<open>SqliteTradeProposalRepository.js\<close> that create a proposal, counter one,
  reject or cancel one, and preview one. Each is the whole transaction: the idempotency request,
  the guards in the code's order, every statement that writes, the publication and notification
  hooks, and the aggregate read back. The acceptance and the approval are in \<open>TradeExecution\<close>.
\<close>

section \<open>Requests\<close>

text \<open>
  The object literals that the hashes are taken of. The values are identifiers and words, so the
  text of a request is determined by its fields.
\<close>

definition lifecycle_request_text :: "lifecycle_command \<Rightarrow> string" where
  "lifecycle_request_text c =
     json_object ([(''leagueId'', JStr (lc_leagueId c)), (''tradeId'', JStr (lc_tradeId c)),
        (''action'', JStr (lc_action c))] @
       (case lc_respondingTeamId c of None \<Rightarrow> [] | Some t \<Rightarrow> [(''respondingTeamId'', JStr t)]) @
       [(''actorUserId'', JStr (lc_actorUserId c)),
        (''actorMembershipId'', JStr (lc_actorMembershipId c)),
        (''actorAuthority'', JStr (lc_actorAuthority c))])"

definition createLifecycleRequestHash :: "trade_env \<Rightarrow> lifecycle_command \<Rightarrow> string" where
  "createLifecycleRequestHash env c = te_sha env (lifecycle_request_text c)"

definition asset_request_fields :: "asset_command \<Rightarrow> (string \<times> jsval) list" where
  "asset_request_fields a =
     filter (\<lambda>(k, _). k \<noteq> ''id'' \<and> k \<noteq> ''createdAtMs'') (asset_command_fields a)"

definition creation_request_text :: "creation_command \<Rightarrow> asset_command list \<Rightarrow> string" where
  "creation_request_text c assets =
     (let f = cc_foundation c in
      ''{'' @ join '','' (map (\<lambda>(k, v). json_string k @ '':'' @ v)
       ([(''leagueId'', json_string (cf_leagueId f)), (''seasonId'', json_string (cf_seasonId f)),
         (''proposingTeamId'', json_string (cf_proposingTeamId f)),
         (''receivingTeamId'', json_string (cf_receivingTeamId f)),
         (''actorUserId'', json_string (cf_actorUserId f)),
         (''actorMembershipId'', json_string (cf_actorMembershipId f)),
         (''actorAuthority'', json_string (cf_actorAuthority f))] @
        (case cc_participantTeamIds c of None \<Rightarrow> []
         | Some ids \<Rightarrow> [(''participantTeamIds'', ''['' @ join '','' (map json_string ids) @ '']'')]) @
        [(''assets'', ''['' @ join '','' (map (\<lambda>a. json_object (asset_request_fields a)) assets) @ '']'')]))
      @ ''}'')"

definition createRequestHash :: "trade_env \<Rightarrow> creation_command \<Rightarrow> asset_command list \<Rightarrow> string" where
  "createRequestHash env c assets = te_sha env (creation_request_text c assets)"

definition lifecycleStorageStatus :: "string \<Rightarrow> string" where
  "lifecycleStorageStatus action = (if action = ''reject'' then ''declined'' else ''cancelled'')"

definition lifecycleEventType :: "string \<Rightarrow> string" where
  "lifecycleEventType action =
     (if action = ''reject'' then ''proposal_rejected'' else ''proposal_cancelled'')"

section \<open>Statements on trades and events\<close>

text \<open>The condition of the updates that settle a trade: open, in the status seen, unchanged.\<close>

definition open_as :: "trade_store \<Rightarrow> string \<Rightarrow> string \<Rightarrow> string \<Rightarrow> int \<Rightarrow> trade_row \<Rightarrow> bool" where
  "open_as st leagueId tradeId currentStatus expectedVersion t \<longleftrightarrow>
     tr_league_id t = leagueId \<and> tr_id t = tradeId \<and> tr_status t = ''proposed'' \<and>
     ((currentStatus = ''proposed'' \<and> \<not> has_acceptance st leagueId tradeId) \<or>
      (currentStatus = ''awaiting_commissioner_approval'' \<and> has_acceptance st leagueId tradeId)) \<and>
     tr_version t = expectedVersion"

definition insertEvent :: "trade_env \<Rightarrow> trade_event_row \<Rightarrow> trade_store \<Rightarrow> trade_failure + trade_store" where
  "insertEvent env e st =
     bindE (insert_row tv_id e (td_events st)) (\<lambda>rows. written env (st\<lparr>td_events := rows\<rparr>))"

definition publish :: "trade_env \<Rightarrow> string \<Rightarrow> trade_store \<Rightarrow> trade_failure + trade_store" where
  "publish env eventId st = bindE (hook_result (te_publish env eventId)) (\<lambda>_. Inr st)"

section \<open>Reject and cancel\<close>

record trade_result =
  rs_replayed :: bool
  rs_trade :: trade_row
  rs_event :: trade_event_row

definition lifecycleAggregate ::
    "trade_store \<Rightarrow> lifecycle_command \<Rightarrow> bool \<Rightarrow> trade_failure + trade_result" where
  "lifecycleAggregate st command replayed =
     bindE (unique_found (findTrade st (lc_leagueId command) (lc_tradeId command))) (\<lambda>trade.
     bindE (unique_found (findTradeEvent st (lc_leagueId command) (lc_tradeId command)
       (lifecycleEventType (lc_action command)))) (\<lambda>event.
     case (trade, event) of
       (Some t, Some e) \<Rightarrow>
         if tr_status t \<noteq> lifecycleStorageStatus (lc_action command)
         then Inl (TradeRepoFailure RepoSchemaIncompatible)
         else Inr \<lparr>rs_replayed = replayed, rs_trade = projectEffectiveTrade st t, rs_event = e\<rparr>
     | _ \<Rightarrow> Inl (TradeRepoFailure RepoSchemaIncompatible)))"

definition settle_trade :: "string \<Rightarrow> int \<Rightarrow> trade_row \<Rightarrow> trade_row" where
  "settle_trade nextStatus occurredAtMs t =
     t\<lparr>tr_status := nextStatus, tr_responded_at_ms := Some occurredAtMs,
       tr_updated_at_ms := occurredAtMs, tr_version := tr_version t + 1\<rparr>"

text \<open>The writes of the transition, after its guards.\<close>

definition write_lifecycle ::
    "trade_env \<Rightarrow> lifecycle_command \<Rightarrow> string \<Rightarrow> string \<Rightarrow> bool \<Rightarrow> trade_store \<Rightarrow>
     trade_failure + trade_store" where
  "write_lifecycle env command currentStatus participantTeamId answers st =
     bindE (if answers
        then respond env (lc_leagueId command) (lc_tradeId command) (lc_actorUserId command)
               (lc_actorMembershipId command) (lc_occurredAtMs command) participantTeamId ''declined'' st
        else Inr st) (\<lambda>st.
     let nextStatus = lifecycleStorageStatus (lc_action command) in
     bindE (update_one (TradeLifecycleFailure LifecycleVersionConflict)
       (open_as st (lc_leagueId command) (lc_tradeId command) currentStatus (lc_expectedVersion command))
       (settle_trade nextStatus (lc_occurredAtMs command)) (td_trades st)) (\<lambda>rows.
     bindE (written env (st\<lparr>td_trades := rows\<rparr>)) (\<lambda>st.
     bindE (participant_list env st (lc_leagueId command) (lc_tradeId command)) (\<lambda>participants.
     bindE (insertEvent env
       \<lparr>tv_id = lc_eventId command, tv_league_id = lc_leagueId command,
        tv_season_id = lc_seasonId command, tv_trade_id = lc_tradeId command,
        tv_actor_user_id = Some (lc_actorUserId command),
        tv_event_type = lifecycleEventType (lc_action command), tv_reason = None,
        tv_metadata = LifecycleMetadata (lc_action command) (lc_actorAuthority command) currentStatus
          nextStatus (if participants \<noteq> [] then Some participantTeamId else None),
        tv_occurred_at_ms = lc_occurredAtMs command\<rparr> st) (\<lambda>st.
     bindE (publish env (lc_eventId command) st) (\<lambda>st.
     completeRequest env (TradeRepoFailure RepoVersionConflict) (lc_idempotencyRequestId command)
       (lc_leagueId command) (lc_tradeId command) (lc_occurredAtMs command) st))))))"

definition lifecycleTransaction ::
    "trade_env \<Rightarrow> trade_store \<Rightarrow> jsval \<Rightarrow> trade_failure + trade_store \<times> trade_result" where
  "lifecycleTransaction env st rawCommand =
     bindE (lifecycle_result (validateTradeLifecycleCommand rawCommand)) (\<lambda>command.
     let operation = ''trade.'' @ lc_action command;
         requestHash = createLifecycleRequestHash env command;
         leagueId = lc_leagueId command; tradeId = lc_tradeId command in
     bindE (unique_found (findRequest st leagueId (lc_actorUserId command) operation
       (lc_idempotencyKey command))) (\<lambda>existing.
     case existing of
       Some r \<Rightarrow>
         if \<not> request_replays r requestHash tradeId
         then Inl (TradeLifecycleFailure LifecycleIdempotencyConflict)
         else bindE (lifecycleAggregate st command True) (\<lambda>res. Inr (st, res))
     | None \<Rightarrow>
         bindE (insertRequest env (lc_idempotencyRequestId command) leagueId (lc_actorUserId command)
           operation (lc_idempotencyKey command) requestHash (lc_occurredAtMs command)
           (lc_idempotencyExpiresAtMs command) st) (\<lambda>st.
         bindE (if lc_action command = ''reject''
           then responseTeam env st (lc_actorAuthority command) leagueId tradeId
                  (lc_actorUserId command) (lc_respondingTeamId command) (lc_receivingTeamId command)
           else Inr (expectedManagerTeamId command)) (\<lambda>participantTeamId.
         bindE (unique_found (loadLifecycleState env st leagueId tradeId (lc_actorUserId command)
           (lc_actorMembershipId command) participantTeamId)) (\<lambda>found.
         bindE (if found \<noteq> None \<and> lc_action command = ''reject''
           then participant_list env st leagueId tradeId else Inr []) (\<lambda>participants.
         let ctx = (if participants \<noteq> []
               then map_option (\<lambda>c. c\<lparr>tx_multi_trade_actor_team_id := Some participantTeamId\<rparr>) found
               else found) in
         bindE (lifecycle_result (assertTradeLifecycleState command ctx)) (\<lambda>_.
         if map_option tx_trade_version ctx \<noteq> Some (lc_expectedVersion command)
         then Inl (TradeLifecycleFailure LifecycleVersionConflict)
         else
         bindE (write_lifecycle env command (tx_trade_status (the ctx)) participantTeamId
           (participants \<noteq> []) st) (\<lambda>st.
         bindE (lifecycleAggregate st command False) (\<lambda>res. Inr (st, res))))))))))"

section \<open>Create and counter\<close>

text \<open>
  The assets of a command as rows. A command that the service builds has the columns' types; with
  a value of another type the statements that bind it fail.
\<close>

fun text_field :: "jsval \<Rightarrow> string option" where
  "text_field (JStr s) = Some s"
| "text_field _ = None"

fun nullable_text :: "jsval \<Rightarrow> string option option" where
  "nullable_text JNull = Some None"
| "nullable_text (JStr s) = Some (Some s)"
| "nullable_text _ = None"

fun nullable_number :: "jsval \<Rightarrow> int option option" where
  "nullable_number JNull = Some None"
| "nullable_number (JInt n) = Some (Some n)"
| "nullable_number _ = None"

fun number_field :: "jsval \<Rightarrow> int option" where
  "number_field (JInt n) = Some n"
| "number_field _ = None"

definition typed_asset :: "jsval \<Rightarrow> asset_command option" where
  "typed_asset v =
     (case (map (\<lambda>k. text_field (fld v k))
              [''id'', ''direction'', ''sourceTeamId'', ''destinationTeamId'', ''inputType'', ''assetType''],
            map (\<lambda>k. nullable_text (fld v k))
              [''contractId'', ''playerId'', ''draftPickId'', ''retentionObligationId'',
               ''buyoutObligationId'', ''futureConsiderationId'', ''requestedRetentionContractId'',
               ''futureConsiderationDescription''],
            nullable_number (fld v ''requestedRetentionCents''),
            number_field (fld v ''sequence''), number_field (fld v ''createdAtMs'')) of
       ([Some i, Some direction, Some source, Some destination, Some inputType, Some assetType],
        [Some contract, Some player, Some pick, Some retention, Some buyout, Some consideration,
         Some requested, Some description], Some cents, Some sequence, Some created) \<Rightarrow>
         Some \<lparr>ac_id = i, ac_direction = direction, ac_sourceTeamId = source,
           ac_destinationTeamId = destination,
           ac_asset = \<lparr>ta_inputType = inputType, ta_assetType = assetType, ta_contractId = contract,
             ta_playerId = player, ta_draftPickId = pick, ta_retentionObligationId = retention,
             ta_buyoutObligationId = buyout, ta_futureConsiderationId = consideration,
             ta_requestedRetentionContractId = requested, ta_requestedRetentionCents = cents,
             ta_futureConsiderationDescription = description\<rparr>,
           ac_sequence = sequence, ac_createdAtMs = created\<rparr>
     | _ \<Rightarrow> None)"

definition typed_assets :: "jsval list \<Rightarrow> trade_failure + asset_command list" where
  "typed_assets vs =
     mapE (\<lambda>v. case typed_asset v of None \<Rightarrow> Inl TradeTypeError | Some a \<Rightarrow> Inr a) vs"

definition new_trade :: "creation_command \<Rightarrow> trade_row" where
  "new_trade c =
     (let f = cc_foundation c in
      \<lparr>tr_id = cf_proposalId f, tr_league_id = cf_leagueId f, tr_season_id = cf_seasonId f,
       tr_proposing_team_id = cf_proposingTeamId f, tr_receiving_team_id = cf_receivingTeamId f,
       tr_proposing_user_id = cf_actorUserId f,
       tr_creating_membership_id = Some (cf_actorMembershipId f),
       tr_creating_authority = Some (cf_actorAuthority f), tr_status = ''proposed'',
       tr_created_at_ms = cf_createdAtMs f, tr_expires_at_ms = cc_expiresAtMs c,
       tr_effective_deadline_at_ms = Some (cc_effectiveDeadlineAtMs c),
       tr_responded_at_ms = None, tr_completed_at_ms = None,
       tr_commissioner_completion_reference = None, tr_proposal_model_version = 2,
       tr_updated_at_ms = cf_createdAtMs f, tr_version = 1\<rparr>)"

definition new_asset_row :: "creation_command \<Rightarrow> asset_command \<times> snapshot \<Rightarrow> trade_asset_row" where
  "new_asset_row c entry =
     (case entry of (asset, s) \<Rightarrow>
      let a = ac_asset asset; f = cc_foundation c in
      \<lparr>tar_id = ac_id asset, tar_league_id = cf_leagueId f, tar_trade_id = cf_proposalId f,
       tar_direction = ac_direction asset, tar_source_team_id = ac_sourceTeamId asset,
       tar_destination_team_id = ac_destinationTeamId asset, tar_asset_type = ta_assetType a,
       tar_contract_id = ta_contractId a, tar_player_id = ta_playerId a,
       tar_draft_pick_id = ta_draftPickId a,
       tar_retention_obligation_id = ta_retentionObligationId a,
       tar_buyout_obligation_id = ta_buyoutObligationId a,
       tar_future_consideration_id = ta_futureConsiderationId a,
       tar_requested_retention_contract_id = ta_requestedRetentionContractId a,
       tar_requested_retention_cents = ta_requestedRetentionCents a,
       tar_future_consideration_description = ta_futureConsiderationDescription a,
       tar_proposal_snapshot = s, tar_asset_model_version = 2, tar_sequence = ac_sequence asset,
       tar_created_at_ms = ac_createdAtMs asset\<rparr>)"

definition creation_aggregate ::
    "trade_store \<Rightarrow> string \<Rightarrow> string \<Rightarrow> bool \<Rightarrow> trade_failure + trade_result" where
  "creation_aggregate st leagueId tradeId replayed =
     bindE (unique_found (findTrade st leagueId tradeId)) (\<lambda>trade.
     bindE (unique_found (findTradeEvent st leagueId tradeId ''proposal_created'')) (\<lambda>event.
     case (trade, event) of
       (Some t, Some e) \<Rightarrow>
         if length (listTradeAssets st leagueId tradeId) < 2
         then Inl (TradeRepoFailure RepoSchemaIncompatible)
         else Inr \<lparr>rs_replayed = replayed, rs_trade = projectEffectiveTrade st t, rs_event = e\<rparr>
     | _ \<Rightarrow> Inl (TradeRepoFailure RepoSchemaIncompatible)))"

text \<open>The trade that a counter-proposal answers, and whether it may.\<close>

definition check_counter ::
    "trade_env \<Rightarrow> trade_store \<Rightarrow> creation_command \<Rightarrow> string \<Rightarrow> trade_failure + trade_row" where
  "check_counter env st c counterTradeId =
     (let f = cc_foundation c in
      bindE (unique_found (findTrade st (cf_leagueId f) counterTradeId)) (\<lambda>found.
      case found of
        None \<Rightarrow> Inl (TradeLifecycleFailure LifecycleNotFound)
      | Some original \<Rightarrow>
          bindE (participant_team_ids env st (cf_leagueId f) counterTradeId
            (tr_proposing_team_id original) (tr_receiving_team_id original)) (\<lambda>originalIds.
          let multi = (length originalIds = 3); status = projected_status st original in
          if status \<notin> set (if multi then [''proposed'', ''declined''] else [''proposed''])
          then Inl (TradeLifecycleFailure LifecycleNotPending)
          else if tr_season_id original \<noteq> cf_seasonId f \<or>
             (if multi then
                (case cc_participantTeamIds c of
                   None \<Rightarrow> True
                 | Some ids \<Rightarrow> length ids \<noteq> 3 \<or> list_ex (\<lambda>i. i \<notin> set originalIds) ids \<or>
                     (status = ''proposed'' \<and>
                      cf_proposingTeamId f = tr_proposing_team_id original))
              else tr_receiving_team_id original \<noteq> cf_proposingTeamId f \<or>
                   tr_proposing_team_id original \<noteq> cf_receivingTeamId f)
          then Inl (TradeLifecycleFailure LifecycleRoleDenied)
          else Inr (original\<lparr>tr_status := status\<rparr>))))"

definition insert_assets ::
    "trade_env \<Rightarrow> trade_asset_row list \<Rightarrow> trade_store \<Rightarrow> trade_failure + trade_store" where
  "insert_assets env rows st =
     foldE (\<lambda>s row. bindE (insert_row tar_id row (td_assets s)) (\<lambda>rows'.
       written env (s\<lparr>td_assets := rows'\<rparr>))) st rows"

text \<open>The writes of a creation, after its guards.\<close>

definition write_creation ::
    "trade_env \<Rightarrow> creation_command \<Rightarrow> string option \<Rightarrow> (asset_command \<times> snapshot) list \<Rightarrow> trade_store \<Rightarrow>
     trade_failure + trade_store" where
  "write_creation env c counterTradeId entries st =
     (let f = cc_foundation c in
      bindE (insert_row tr_id (new_trade c) (td_trades st)) (\<lambda>rows.
      bindE (written env (st\<lparr>td_trades := rows\<rparr>)) (\<lambda>st.
      bindE (create_participants env c st) (\<lambda>st.
      bindE (insert_assets env (map (new_asset_row c) entries) st) (\<lambda>st.
      bindE (insertEvent env
        \<lparr>tv_id = cc_eventId c, tv_league_id = cf_leagueId f, tv_season_id = cf_seasonId f,
         tv_trade_id = cf_proposalId f, tv_actor_user_id = Some (cf_actorUserId f),
         tv_event_type = ''proposal_created'', tv_reason = None,
         tv_metadata = CreatedMetadata (cf_actorAuthority f) (map (\<lambda>e. ac_id (fst e)) entries)
           counterTradeId,
         tv_occurred_at_ms = cf_createdAtMs f\<rparr> st) (\<lambda>st.
      bindE (publish env (cc_eventId c) st) (\<lambda>st.
      bindE (hook_result (te_notify env (cc_eventId c))) (\<lambda>_.
      completeRequest env (TradeRepoFailure RepoVersionConflict) (cc_idempotencyRequestId c)
        (cf_leagueId f) (cf_proposalId f) (cf_createdAtMs f) st))))))))"

definition counter_decline_fields ::
    "trade_env \<Rightarrow> creation_command \<Rightarrow> trade_row \<Rightarrow> bool \<Rightarrow> (string \<times> jsval) list" where
  "counter_decline_fields env c original multi =
     (let f = cc_foundation c in
      (if multi then [(''respondingTeamId'', JStr (cf_proposingTeamId f))] else []) @
      [(''tradeId'', JStr (tr_id original)),
       (''eventId'', JStr (deterministicUuid env (''trade-counter-decline-event:'' @ cc_eventId c))),
       (''idempotencyRequestId'', JStr (deterministicUuid env
          (''trade-counter-decline-request:'' @ cc_idempotencyRequestId c))),
       (''leagueId'', JStr (cf_leagueId f)), (''seasonId'', JStr (cf_seasonId f)),
       (''proposingTeamId'', JStr (tr_proposing_team_id original)),
       (''receivingTeamId'', JStr (tr_receiving_team_id original)),
       (''expectedVersion'', JInt (tr_version original)), (''action'', JStr ''reject''),
       (''actorUserId'', JStr (cf_actorUserId f)),
       (''actorMembershipId'', JStr (cf_actorMembershipId f)),
       (''actorAuthority'', JStr (cf_actorAuthority f)),
       (''occurredAtMs'', JInt (cf_createdAtMs f)),
       (''effectiveDeadlineAtMs'', jint_or_null (tr_effective_deadline_at_ms original)),
       (''idempotencyKey'', JStr (''counter:'' @ cf_proposalId f)),
       (''idempotencyExpiresAtMs'', JInt (cc_idempotencyExpiresAtMs c))])"

text \<open>A counter-proposal rejects the pending trade, or acknowledges the declined one.\<close>

definition answer_original ::
    "trade_env \<Rightarrow> creation_command \<Rightarrow> trade_row option \<Rightarrow> trade_store \<Rightarrow> trade_failure + trade_store" where
  "answer_original env c original st =
     (let f = cc_foundation c in
      case original of
        None \<Rightarrow> Inr st
      | Some t \<Rightarrow>
          if tr_status t = ''proposed'' then
            bindE (participant_list env st (cf_leagueId f) (tr_id t)) (\<lambda>participants.
            bindE (lifecycleTransaction env st
              (JObj (counter_decline_fields env c t (participants \<noteq> [])))) (\<lambda>(st', _). Inr st'))
          else if tr_status t = ''declined'' then
            bindE (acknowledge env st (cf_leagueId f) (tr_id t) (cf_actorUserId f)
              (Some (cf_proposingTeamId f)) (cf_receivingTeamId f) (cf_createdAtMs f)) (\<lambda>(st', _). Inr st')
          else Inr st)"

definition counter_id :: "jsval option \<Rightarrow> trade_failure + string option" where
  "counter_id counterTradeId =
     (case counterTradeId of
        None \<Rightarrow> Inr None
      | Some v \<Rightarrow> bindE (stable_id (TradeRepoFailure RepoArgumentInvalid) v) (\<lambda>i. Inr (Some i)))"

definition createTransaction ::
    "trade_env \<Rightarrow> trade_store \<Rightarrow> jsval \<Rightarrow> jsval option \<Rightarrow> trade_failure + trade_store \<times> trade_result" where
  "createTransaction env st rawCommand counterTradeId =
     bindE (asset_result (validateTradeProposalCreationCommand rawCommand)) (\<lambda>c.
     bindE (counter_id counterTradeId) (\<lambda>counter.
     bindE (typed_assets (cc_assets c)) (\<lambda>assets.
     let f = cc_foundation c;
         operation = (case counter of None \<Rightarrow> ''trade.propose'' | Some i \<Rightarrow> ''trade.counter:'' @ i);
         requestHash = createRequestHash env c assets in
     bindE (unique_found (findRequest st (cf_leagueId f) (cf_actorUserId f) operation
       (cc_idempotencyKey c))) (\<lambda>existing.
     case existing of
       Some r \<Rightarrow>
         (case rq_result_id r of
            Some i \<Rightarrow>
              if request_replays r requestHash i \<and> i \<noteq> []
              then bindE (creation_aggregate st (cf_leagueId f) i True) (\<lambda>res. Inr (st, res))
              else Inl (TradeAssetFailure AssetIdempotencyConflict)
          | None \<Rightarrow> Inl (TradeAssetFailure AssetIdempotencyConflict))
     | None \<Rightarrow>
         bindE (case counter of None \<Rightarrow> Inr None
            | Some i \<Rightarrow> bindE (check_counter env st c i) (\<lambda>t. Inr (Some t))) (\<lambda>original.
         bindE (asset_result (assertNewTradeProposalAssetTypes (JArr (cc_assets c)))) (\<lambda>_.
         bindE (foundation_result (assertNewTradeProposalCreationAuthority (cf_actorAuthority f))) (\<lambda>_.
         bindE (insertRequest env (cc_idempotencyRequestId c) (cf_leagueId f) (cf_actorUserId f)
           operation (cc_idempotencyKey c) requestHash (cf_createdAtMs f)
           (cc_idempotencyExpiresAtMs c) st) (\<lambda>st.
         bindE (assert_proposal env c (cf_receivingTeamId f)) (\<lambda>ctx.
         bindE (mapE (assert_proposal env c)
           (case cc_participantTeamIds c of None \<Rightarrow> [] | Some ids \<Rightarrow> drop 2 ids)) (\<lambda>_.
         if Some (cc_effectiveDeadlineAtMs c) \<noteq>
            map_option (min (cc_expiresAtMs c)) (Option.bind ctx fc_trade_deadline_at_ms)
         then Inl (TradeAssetFailure AssetTimestampInvalid)
         else
         bindE (snapshotAssets env st (cf_leagueId f) (cf_seasonId f) assets) (\<lambda>entries.
         bindE (write_creation env c counter entries st) (\<lambda>st.
         bindE (answer_original env c original st) (\<lambda>st.
         bindE (creation_aggregate st (cf_leagueId f) (cf_proposalId f) False) (\<lambda>res.
         Inr (st, res)))))))))))))))"

section \<open>The repository's operations\<close>

text \<open>Errors that are neither the policies' nor the repository's become a failed operation.\<close>

fun mapped_failure :: "(trade_failure \<Rightarrow> bool) \<Rightarrow> trade_failure + 'a \<Rightarrow> trade_failure + 'a" where
  "mapped_failure kept (Inr x) = Inr x"
| "mapped_failure kept (Inl (TradeRepoFailure e)) = Inl (TradeRepoFailure e)"
| "mapped_failure kept (Inl e) = (if kept e then Inl e else Inl (TradeRepoFailure RepoOperationFailed))"

fun is_asset_failure :: "trade_failure \<Rightarrow> bool" where
  "is_asset_failure (TradeAssetFailure _) = True"
| "is_asset_failure _ = False"

fun is_foundation_failure :: "trade_failure \<Rightarrow> bool" where
  "is_foundation_failure (TradeFoundationFailure _) = True"
| "is_foundation_failure _ = False"

fun is_lifecycle_failure :: "trade_failure \<Rightarrow> bool" where
  "is_lifecycle_failure (TradeLifecycleFailure _) = True"
| "is_lifecycle_failure _ = False"

lemma mapped_failure_Inr [check_iffs]: "mapped_failure kept m = Inr x \<longleftrightarrow> m = Inr x"
  by (cases "(kept, m)" rule: mapped_failure.cases) auto

definition createProposal ::
    "trade_env \<Rightarrow> trade_store \<Rightarrow> jsval \<Rightarrow> trade_failure + trade_store \<times> trade_result" where
  "createProposal env st rawCommand =
     mapped_failure (\<lambda>e. is_asset_failure e \<or> is_foundation_failure e)
       (createTransaction env st rawCommand None)"

definition createCounterProposal ::
    "trade_env \<Rightarrow> trade_store \<Rightarrow> jsval \<Rightarrow> jsval \<Rightarrow> trade_failure + trade_store \<times> trade_result" where
  "createCounterProposal env st rawCommand originalTradeId =
     mapped_failure (\<lambda>e. is_asset_failure e \<or> is_foundation_failure e \<or> is_lifecycle_failure e)
       (createTransaction env st rawCommand (Some originalTradeId))"

definition transitionLifecycle ::
    "trade_env \<Rightarrow> trade_store \<Rightarrow> jsval \<Rightarrow> trade_failure + trade_store \<times> trade_result" where
  "transitionLifecycle env st rawCommand =
     mapped_failure is_lifecycle_failure (lifecycleTransaction env st rawCommand)"

definition previewAcceptance ::
    "trade_env \<Rightarrow> trade_store \<Rightarrow> jsval \<Rightarrow> trade_failure + trade_preview" where
  "previewAcceptance env st rawCommand =
     mapped_failure (\<lambda>e. is_asset_failure e \<or> is_lifecycle_failure e) (acceptancePreview env st rawCommand)"

text \<open>\<^verbatim>\<open>previewProposal\<close>: the teams after a proposal that is not stored.\<close>

definition draftPreview ::
    "trade_env \<Rightarrow> trade_store \<Rightarrow> jsval \<Rightarrow> trade_failure + team_preview list \<times> bool" where
  "draftPreview env st rawCommand =
     bindE (asset_result (validateTradeProposalCreationCommand rawCommand)) (\<lambda>c.
     let f = cc_foundation c;
         teamIds = (case cc_participantTeamIds c of
           Some ids \<Rightarrow> ids | None \<Rightarrow> [cf_proposingTeamId f, cf_receivingTeamId f]) in
     bindE (typed_assets (cc_assets c)) (\<lambda>assets.
     bindE (asset_result (assertNewTradeProposalAssetTypes (JArr (cc_assets c)))) (\<lambda>_.
     bindE (foundation_result (assertNewTradeProposalCreationAuthority (cf_actorAuthority f))) (\<lambda>_.
     bindE (mapE (assert_proposal env c) (drop 1 teamIds)) (\<lambda>_.
     bindE (snapshotAssets env st (cf_leagueId f) (cf_seasonId f) assets) (\<lambda>entries.
     bindE (projectAcceptanceAssets env st (cf_leagueId f) (cf_seasonId f) teamIds entries)
       (\<lambda>(teams, plan).
     Inr (teams, list_ex tw_generallyIllegal teams))))))))"

end
