(* ===== verification/TradeExecution.thy ===== *)
theory TradeExecution
  imports TradeRepository Ordering
begin

text \<open>
  The transaction of \<^verbatim>\<open>SqliteTradeProposalRepository.js\<close> that accepts or approves a trade: a
  participant's answer, the wait for the commissioner's approval, or the execution, which moves
  every asset, cancels the open proposals that name one of them
  (\<^verbatim>\<open>SqliteTradeProposalCancellationWriter.js\<close>), and reads its own receipt back. The display
  order of rosters and the teams of the receipt are left out.
\<close>

section \<open>Requests and answers\<close>

definition execution_request_text :: "execution_command \<Rightarrow> string" where
  "execution_request_text c =
     json_object ([(''leagueId'', JStr (ex_leagueId c)), (''tradeId'', JStr (ex_tradeId c))] @
       (case ex_respondingTeamId c of None \<Rightarrow> [] | Some t \<Rightarrow> [(''respondingTeamId'', JStr t)]) @
       [(''actorUserId'', JStr (ex_actorUserId c)),
        (''actorMembershipId'', JStr (ex_actorMembershipId c)),
        (''actorAuthority'', JStr (ex_actorAuthority c))])"

definition createExecutionRequestHash :: "trade_env \<Rightarrow> execution_command \<Rightarrow> string" where
  "createExecutionRequestHash env c = te_sha env (execution_request_text c)"

definition execution_team :: "trade_env \<Rightarrow> trade_store \<Rightarrow> execution_command \<Rightarrow> trade_failure + string" where
  "execution_team env st c =
     responseTeam env st (ex_actorAuthority c) (ex_leagueId c) (ex_tradeId c) (ex_actorUserId c)
       (ex_respondingTeamId c) (ex_receivingTeamId c)"

fun answered_by :: "string \<Rightarrow> trade_metadata \<Rightarrow> bool" where
  "answered_by teamId (ParticipantMetadata t _ _) \<longleftrightarrow> t = teamId"
| "answered_by teamId (LifecycleMetadata _ _ _ _ t) \<longleftrightarrow> t = Some teamId"
| "answered_by teamId _ \<longleftrightarrow> False"

definition findParticipantAcceptance ::
    "trade_env \<Rightarrow> trade_store \<Rightarrow> execution_command \<Rightarrow> trade_failure + trade_event_row option" where
  "findParticipantAcceptance env st c =
     bindE (execution_team env st c) (\<lambda>teamId.
     Inr (find (\<lambda>e. tv_actor_user_id e = Some (ex_actorUserId c) \<and> answered_by teamId (tv_metadata e))
       (findTradeEvent st (ex_leagueId c) (ex_tradeId c) ''participant_accepted'')))"

section \<open>Moving the assets\<close>

text \<open>The ownership that a traded player leaves and the one that he gets.\<close>

record tenure =
  tn_playerId :: string
  tn_sourceOwnershipId :: string
  tn_sourceOwnershipVersion :: int
  tn_destinationOwnershipId :: string
  tn_ownershipKind :: string
  tn_sourceCategory :: string
  tn_sourceSlot :: "int option"
  tn_rosterCategory :: string
  tn_positionGroup :: string
  tn_plannedRosterSlotNumber :: "int option"

definition destination_ownership :: "trade_env \<Rightarrow> string \<Rightarrow> string \<Rightarrow> string" where
  "destination_ownership env tradeId sourceOwnershipId =
     deterministicUuid env (tradeId @ '':ownership-tenure:'' @ sourceOwnershipId @ '':destination'')"

definition moves_player :: "trade_asset_row \<Rightarrow> bool" where
  "moves_player row \<longleftrightarrow> tar_asset_type row \<in> {''contract'', ''prospect_right''}"

definition new_tenure ::
    "trade_env \<Rightarrow> string \<Rightarrow> player_view \<Rightarrow> ownership_view \<Rightarrow> string \<Rightarrow> string \<Rightarrow> int option \<Rightarrow> tenure" where
  "new_tenure env tradeId player q kind category slot =
     \<lparr>tn_playerId = pv_id player, tn_sourceOwnershipId = ov_id q,
      tn_sourceOwnershipVersion = ov_version q,
      tn_destinationOwnershipId = destination_ownership env tradeId (ov_id q),
      tn_ownershipKind = kind, tn_sourceCategory = ov_rosterCategory q,
      tn_sourceSlot = ov_slotNumber q, tn_rosterCategory = category,
      tn_positionGroup = ov_positionGroup q, tn_plannedRosterSlotNumber = slot\<rparr>"

definition tenure_of :: "trade_env \<Rightarrow> string \<Rightarrow> planned_asset \<Rightarrow> trade_failure + tenure" where
  "tenure_of env tradeId p =
     (if tar_asset_type (pa_row p) = ''contract'' then
        (case (pa_current p, pa_category p) of
           (ContractSnapshot player k q, Some category) \<Rightarrow>
             Inr (new_tenure env tradeId player q ''Rostered'' category (pa_slot p))
         | (ContractSnapshot player k q, None) \<Rightarrow> Inl (TradeRepoFailure RepoConstraint)
         | _ \<Rightarrow> Inl TradeTypeError)
      else
        (case pa_current p of
           ProspectSnapshot player q e \<Rightarrow>
             Inr (new_tenure env tradeId player q ''Prospect Right'' ''Prospect'' None)
         | _ \<Rightarrow> Inl TradeTypeError))"

definition version_changed :: trade_failure where
  "version_changed = TradeExecutionFailure ExecutionVersionConflict"

definition close_tenure ::
    "trade_env \<Rightarrow> execution_command \<Rightarrow> trade_store \<Rightarrow> planned_asset \<Rightarrow> trade_failure + trade_store" where
  "close_tenure env c st p =
     bindE (tenure_of env (ex_tradeId c) p) (\<lambda>t.
     bindE (delete_one version_changed (\<lambda>q. po_league_id q = ex_leagueId c \<and>
         po_id q = tn_sourceOwnershipId t \<and> po_team_id q = tar_source_team_id (pa_row p) \<and>
         po_version q = tn_sourceOwnershipVersion t) (td_ownerships st)) (\<lambda>rows.
     written env (st\<lparr>td_ownerships := rows\<rparr>)))"

definition new_ownership :: "execution_command \<Rightarrow> string \<Rightarrow> tenure \<Rightarrow> player_ownership_row" where
  "new_ownership c destinationTeamId t =
     \<lparr>po_id = tn_destinationOwnershipId t, po_league_id = ex_leagueId c,
      po_season_id = ex_seasonId c, po_player_id = tn_playerId t, po_team_id = destinationTeamId,
      po_ownership_kind = tn_ownershipKind t, po_roster_category = tn_rosterCategory t,
      po_position_group = tn_positionGroup t, po_slot_number = tn_plannedRosterSlotNumber t,
      po_acquired_transaction_type = ''trade_execution'',
      po_acquired_transaction_id = Some (ex_tradeId c),
      po_created_at_ms = ex_occurredAtMs c, po_updated_at_ms = ex_occurredAtMs c, po_version = 1\<rparr>"

definition open_tenure ::
    "trade_env \<Rightarrow> execution_command \<Rightarrow> trade_store \<Rightarrow> planned_asset \<Rightarrow> trade_failure + trade_store" where
  "open_tenure env c st p =
     bindE (tenure_of env (ex_tradeId c) p) (\<lambda>t.
     bindE (insert_row po_id (new_ownership c (tar_destination_team_id (pa_row p)) t)
       (td_ownerships st)) (\<lambda>rows.
     written env (st\<lparr>td_ownerships := rows\<rparr>)))"

definition ownership_event ::
    "execution_command \<Rightarrow> string \<Rightarrow> string \<Rightarrow> string \<Rightarrow> string \<Rightarrow> string \<Rightarrow> ownership_metadata \<Rightarrow>
     ownership_metadata \<Rightarrow> ownership_event_row" where
  "ownership_event c i playerId teamId ownershipId eventType old new =
     \<lparr>oe_id = i, oe_league_id = ex_leagueId c, oe_season_id = ex_seasonId c,
      oe_player_id = playerId, oe_team_id = teamId, oe_ownership_id = ownershipId,
      oe_event_type = eventType, oe_actor_user_id = Some (ex_actorUserId c),
      oe_source_type = ''trade'', oe_source_id = ex_tradeId c, oe_before = old,
      oe_after = new, oe_reason = None, oe_occurred_at_ms = ex_occurredAtMs c\<rparr>"

definition state_before :: "execution_command \<Rightarrow> string \<Rightarrow> tenure \<Rightarrow> ownership_state" where
  "state_before c teamId t =
     \<lparr>os_id = tn_sourceOwnershipId t, os_leagueId = ex_leagueId c, os_seasonId = ex_seasonId c,
      os_playerId = tn_playerId t, os_teamId = teamId, os_ownershipKind = tn_ownershipKind t,
      os_rosterCategory = tn_sourceCategory t, os_positionGroup = tn_positionGroup t,
      os_slotNumber = tn_sourceSlot t, os_version = tn_sourceOwnershipVersion t\<rparr>"

definition state_after :: "execution_command \<Rightarrow> string \<Rightarrow> tenure \<Rightarrow> ownership_state" where
  "state_after c teamId t =
     \<lparr>os_id = tn_destinationOwnershipId t, os_leagueId = ex_leagueId c, os_seasonId = ex_seasonId c,
      os_playerId = tn_playerId t, os_teamId = teamId, os_ownershipKind = tn_ownershipKind t,
      os_rosterCategory = tn_rosterCategory t, os_positionGroup = tn_positionGroup t,
      os_slotNumber = tn_plannedRosterSlotNumber t, os_version = 1\<rparr>"

definition out_event_id :: "trade_env \<Rightarrow> string \<Rightarrow> string \<Rightarrow> string" where
  "out_event_id env tradeId ownershipId =
     deterministicUuid env (tradeId @ '':ownership:'' @ ownershipId @ '':out'')"

definition in_event_id :: "trade_env \<Rightarrow> string \<Rightarrow> string \<Rightarrow> string" where
  "in_event_id env tradeId ownershipId =
     deterministicUuid env (tradeId @ '':ownership:'' @ ownershipId @ '':in'')"

definition insertOwnershipTenureEvents ::
    "trade_env \<Rightarrow> execution_command \<Rightarrow> trade_store \<Rightarrow> planned_asset \<Rightarrow> tenure \<Rightarrow>
     trade_failure + trade_store" where
  "insertOwnershipTenureEvents env c st p t =
     (let source = tar_source_team_id (pa_row p); destination = tar_destination_team_id (pa_row p) in
      bindE (insert_row oe_id (ownership_event c
          (out_event_id env (ex_tradeId c) (tn_sourceOwnershipId t)) (tn_playerId t) source
          (tn_sourceOwnershipId t) ''trade_transfer_out'' (OwnershipExists (state_before c source t))
          (OwnershipClosedTo (tn_destinationOwnershipId t))) (td_ownership_events st)) (\<lambda>rows.
      bindE (written env (st\<lparr>td_ownership_events := rows\<rparr>)) (\<lambda>st.
      bindE (insert_row oe_id (ownership_event c
          (in_event_id env (ex_tradeId c) (tn_destinationOwnershipId t)) (tn_playerId t) destination
          (tn_destinationOwnershipId t) ''trade_transfer_in''
          (OwnershipOpenedFrom (tn_sourceOwnershipId t))
          (OwnershipExists (state_after c destination t))) (td_ownership_events st)) (\<lambda>rows.
      written env (st\<lparr>td_ownership_events := rows\<rparr>)))))"

definition move_contract ::
    "trade_env \<Rightarrow> execution_command \<Rightarrow> trade_asset_row \<Rightarrow> string \<Rightarrow> int \<Rightarrow> trade_store \<Rightarrow>
     trade_failure + trade_store" where
  "move_contract env c row contractId version st =
     bindE (update_one version_changed
       (\<lambda>k. c_league_id k = ex_leagueId c \<and> c_id k = contractId \<and>
            c_current_team_id k = tar_source_team_id row \<and> c_status k = ''active'' \<and>
            c_version k = version)
       (\<lambda>k. k\<lparr>c_current_team_id := tar_destination_team_id row,
              c_updated_at_ms := ex_occurredAtMs c, c_version := c_version k + 1\<rparr>)
       (td_contracts st)) (\<lambda>rows.
     written env (st\<lparr>td_contracts := rows\<rparr>))"

definition insert_contract_event ::
    "trade_env \<Rightarrow> execution_command \<Rightarrow> trade_asset_row \<Rightarrow> string \<Rightarrow> string \<Rightarrow> (string \<times> jsval) list \<Rightarrow>
     trade_store \<Rightarrow> trade_failure + trade_store" where
  "insert_contract_event env c row contractId playerId extra st =
     bindE (insert_row ce_id
       \<lparr>ce_id = deterministicUuid env (ex_tradeId c @ '':contract:'' @ contractId),
        ce_league_id = ex_leagueId c, ce_contract_id = contractId, ce_player_id = playerId,
        ce_team_id = tar_destination_team_id row, ce_actor_user_id = Some (ex_actorUserId c),
        ce_event_type = ''trade_transfer'', ce_source_type = ''trade'',
        ce_source_id = Some (ex_tradeId c),
        ce_metadata_json = json_object ([(''schemaVersion'', JInt 1),
          (''fromTeamId'', JStr (tar_source_team_id row)),
          (''toTeamId'', JStr (tar_destination_team_id row)), (''termsUnchanged'', JBool True)] @ extra),
        ce_reason = None, ce_occurred_at_ms = ex_occurredAtMs c\<rparr> (td_contract_events st)) (\<lambda>rows.
     written env (st\<lparr>td_contract_events := rows\<rparr>))"

definition move_pick ::
    "trade_env \<Rightarrow> execution_command \<Rightarrow> trade_asset_row \<Rightarrow> pick_view \<Rightarrow> trade_store \<Rightarrow>
     trade_failure + trade_store" where
  "move_pick env c row v st =
     bindE (update_one version_changed
       (\<lambda>k. dp_league_id k = ex_leagueId c \<and> dp_id k = kp_id v \<and>
            dp_current_owner_team_id k = tar_source_team_id row \<and> dp_status k = ''unused'' \<and>
            dp_version k = kp_version v)
       (\<lambda>k. k\<lparr>dp_current_owner_team_id := tar_destination_team_id row,
              dp_updated_at_ms := ex_occurredAtMs c, dp_version := dp_version k + 1\<rparr>)
       (td_picks st)) (\<lambda>rows.
     bindE (written env (st\<lparr>td_picks := rows\<rparr>)) (\<lambda>st.
     bindE (insert_row pe_id
       \<lparr>pe_id = deterministicUuid env (ex_tradeId c @ '':draft-pick:'' @ kp_id v),
        pe_league_id = ex_leagueId c, pe_draft_pick_id = kp_id v,
        pe_from_team_id = Some (tar_source_team_id row), pe_to_team_id = tar_destination_team_id row,
        pe_trade_id = Some (ex_tradeId c), pe_actor_user_id = Some (ex_actorUserId c),
        pe_event_type = ''trade_transfer'', pe_occurred_at_ms = ex_occurredAtMs c\<rparr>
       (td_pick_events st)) (\<lambda>rows.
     written env (st\<lparr>td_pick_events := rows\<rparr>))))"

definition move_retention ::
    "trade_env \<Rightarrow> execution_command \<Rightarrow> trade_asset_row \<Rightarrow> retention_view \<Rightarrow> trade_store \<Rightarrow>
     trade_failure + trade_store" where
  "move_retention env c row v st =
     bindE (update_one version_changed
       (\<lambda>r. ro_league_id r = ex_leagueId c \<and> ro_id r = rw_id v \<and>
            ro_responsible_team_id r = tar_source_team_id row \<and> ro_status r = ''active'' \<and>
            ro_version r = rw_version v)
       (\<lambda>r. r\<lparr>ro_responsible_team_id := tar_destination_team_id row,
              ro_updated_at_ms := ex_occurredAtMs c, ro_version := ro_version r + 1\<rparr>)
       (td_retentions st)) (\<lambda>rows.
     written env (st\<lparr>td_retentions := rows\<rparr>))"

definition move_buyout ::
    "trade_env \<Rightarrow> execution_command \<Rightarrow> trade_asset_row \<Rightarrow> buyout_view \<Rightarrow> trade_store \<Rightarrow>
     trade_failure + trade_store" where
  "move_buyout env c row v st =
     bindE (update_one version_changed
       (\<lambda>b. bob_league_id b = ex_leagueId c \<and> bob_id b = bw_id v \<and>
            bob_responsible_team_id b = tar_source_team_id row \<and> bob_status b = ''active'' \<and>
            bob_version b = bw_version v)
       (\<lambda>b. b\<lparr>bob_responsible_team_id := tar_destination_team_id row,
              bob_updated_at_ms := ex_occurredAtMs c, bob_version := bob_version b + 1\<rparr>)
       (td_buyouts st)) (\<lambda>rows.
     written env (st\<lparr>td_buyouts := rows\<rparr>))"

text \<open>A requested retention becomes an obligation with one year per remaining contract year.\<close>

definition create_retention ::
    "trade_env \<Rightarrow> execution_command \<Rightarrow> trade_asset_row \<Rightarrow> requested_view \<Rightarrow> trade_store \<Rightarrow>
     trade_failure + trade_store" where
  "create_retention env c row v st =
     bindE (insert_row ro_id
       \<lparr>ro_id = tar_id row, ro_league_id = ex_leagueId c, ro_contract_id = qw_contractId v,
        ro_player_id = qw_playerId v, ro_originating_team_id = tar_source_team_id row,
        ro_responsible_team_id = tar_source_team_id row,
        ro_retained_aav_cents = qw_retainedAavCents v, ro_creation_trade_id = ex_tradeId c,
        ro_status = ''active'', ro_created_at_ms = ex_occurredAtMs c,
        ro_updated_at_ms = ex_occurredAtMs c, ro_version = 1\<rparr> (td_retentions st)) (\<lambda>rows.
     bindE (written env (st\<lparr>td_retentions := rows\<rparr>)) (\<lambda>st.
     foldE (\<lambda>s y. bindE (insert_row roy_id
         \<lparr>roy_id = deterministicUuid env (ex_tradeId c @ '':retention-year:'' @ tar_id row @ '':'' @
            cy_season_id y),
          roy_league_id = ex_leagueId c, roy_retention_obligation_id = tar_id row,
          roy_season_id = cy_season_id y, roy_retained_aav_cents = qw_retainedAavCents v,
          roy_status = cy_status y, roy_created_at_ms = ex_occurredAtMs c\<rparr> (td_retention_years s))
       (\<lambda>rows. written env (s\<lparr>td_retention_years := rows\<rparr>))) st
       (filter (\<lambda>y. cy_status y \<in> {''current'', ''future''})
          (listContractYears st (ex_leagueId c) (qw_contractId v)))))"

definition create_consideration ::
    "trade_env \<Rightarrow> execution_command \<Rightarrow> trade_asset_row \<Rightarrow> string \<Rightarrow> trade_store \<Rightarrow>
     trade_failure + trade_store" where
  "create_consideration env c row description st =
     bindE (insert_row cr_id
       \<lparr>cr_id = tar_id row, cr_league_id = ex_leagueId c, cr_season_id = ex_seasonId c,
        cr_originating_trade_id = ex_tradeId c, cr_owing_team_id = tar_source_team_id row,
        cr_receiving_team_id = tar_destination_team_id row, cr_description = description,
        cr_status = ''outstanding'', cr_created_at_ms = ex_occurredAtMs c, cr_resolved_at_ms = None,
        cr_updated_at_ms = ex_occurredAtMs c, cr_version = 1\<rparr> (td_considerations st)) (\<lambda>rows.
     written env (st\<lparr>td_considerations := rows\<rparr>))"

text \<open>A consideration that returns to the team that owes it is cancelled, any other moves.\<close>

definition move_consideration ::
    "trade_env \<Rightarrow> execution_command \<Rightarrow> trade_asset_row \<Rightarrow> consideration_view \<Rightarrow> trade_store \<Rightarrow>
     trade_failure + trade_store" where
  "move_consideration env c row v st =
     (let source = tar_source_team_id row; destination = tar_destination_team_id row;
          same = (\<lambda>f. cr_league_id f = ex_leagueId c \<and> cr_id f = vw_id v \<and>
            cr_receiving_team_id f = source \<and> cr_status f = ''outstanding'' \<and>
            cr_version f = vw_version v) in
      bindE (if vw_owingTeamId v = destination
        then update_one version_changed (\<lambda>f. same f \<and> cr_owing_team_id f = destination)
          (\<lambda>f. f\<lparr>cr_status := ''cancelled'', cr_resolved_at_ms := Some (ex_occurredAtMs c),
                 cr_updated_at_ms := ex_occurredAtMs c, cr_version := cr_version f + 1\<rparr>)
          (td_considerations st)
        else update_one version_changed same
          (\<lambda>f. f\<lparr>cr_receiving_team_id := destination, cr_updated_at_ms := ex_occurredAtMs c,
                 cr_version := cr_version f + 1\<rparr>) (td_considerations st)) (\<lambda>rows.
      written env (st\<lparr>td_considerations := rows\<rparr>)))"

text \<open>The switch of the execution loop.\<close>

definition apply_asset ::
    "trade_env \<Rightarrow> execution_command \<Rightarrow> trade_store \<Rightarrow> planned_asset \<Rightarrow> trade_failure + trade_store" where
  "apply_asset env c st p =
     (let row = pa_row p; t = tar_asset_type row in
      if t = ''contract'' then
        bindE (tenure_of env (ex_tradeId c) p) (\<lambda>tenure.
        case pa_current p of
          ContractSnapshot player k q \<Rightarrow>
            bindE (move_contract env c row (kv_id k) (kv_version k) st) (\<lambda>st.
            bindE (insertOwnershipTenureEvents env c st p tenure) (\<lambda>st.
            insert_contract_event env c row (kv_id k) (pv_id player) [] st))
        | _ \<Rightarrow> Inl TradeTypeError)
      else if t = ''prospect_right'' then
        bindE (tenure_of env (ex_tradeId c) p) (\<lambda>tenure.
        bindE (insertOwnershipTenureEvents env c st p tenure) (\<lambda>st.
        case pa_current p of
          ProspectSnapshot player q (Some e) \<Rightarrow>
            bindE (move_contract env c row (el_contractId e) (el_version e) st) (\<lambda>st.
            insert_contract_event env c row (el_contractId e) (pv_id player)
              [(''prospectStatusPreserved'', JBool True)] st)
        | _ \<Rightarrow> Inr st))
      else if t = ''draft_pick'' then
        (case pa_current p of PickSnapshot v \<Rightarrow> move_pick env c row v st | _ \<Rightarrow> Inl TradeTypeError)
      else if t = ''retention_obligation'' then
        (case pa_current p of
           RetentionSnapshot v \<Rightarrow> move_retention env c row v st | _ \<Rightarrow> Inl TradeTypeError)
      else if t = ''buyout_obligation'' then
        (case pa_current p of BuyoutSnapshot v \<Rightarrow> move_buyout env c row v st | _ \<Rightarrow> Inl TradeTypeError)
      else if t = ''requested_retention'' then
        (case pa_current p of
           RequestedSnapshot v \<Rightarrow> create_retention env c row v st | _ \<Rightarrow> Inl TradeTypeError)
      else if t = ''future_consideration'' then
        (case tar_future_consideration_description row of
           Some d \<Rightarrow> create_consideration env c row d st
         | None \<Rightarrow>
             (case pa_current p of
                ConsiderationSnapshot v \<Rightarrow> move_consideration env c row v st
              | _ \<Rightarrow> Inl TradeTypeError))
      else Inl (TradeExecutionFailure ExecutionStateInvalid))"

definition move_assets ::
    "trade_env \<Rightarrow> execution_command \<Rightarrow> planned_asset list \<Rightarrow> trade_store \<Rightarrow> trade_failure + trade_store" where
  "move_assets env c assets st =
     (let players = filter (\<lambda>p. moves_player (pa_row p)) assets in
      bindE (foldE (close_tenure env c) st players) (\<lambda>st.
      bindE (foldE (open_tenure env c) st players) (\<lambda>st.
      foldE (apply_asset env c) st assets)))"

section \<open>Receipts\<close>

definition public_type :: "trade_asset_row \<Rightarrow> string" where
  "public_type row =
     (if tar_asset_type row = ''future_consideration'' \<and>
         tar_future_consideration_description row \<noteq> None
      then ''future_consideration_instruction'' else tar_asset_type row)"

definition public_transfer_of :: "planned_asset \<Rightarrow> public_transfer" where
  "public_transfer_of p =
     \<lparr>pt_assetId = tar_id (pa_row p), pt_assetType = public_type (pa_row p),
      pt_sourceTeamId = tar_source_team_id (pa_row p),
      pt_destinationTeamId = tar_destination_team_id (pa_row p),
      pt_plannedRosterSlotNumber = pa_slot p,
      pt_plannedRosterCategory =
        (if tar_asset_type (pa_row p) = ''contract'' then
           (case pa_current p of
              ContractSnapshot player k q \<Rightarrow>
                if pa_category p \<noteq> Some (ov_rosterCategory q) then pa_category p else None
            | _ \<Rightarrow> None)
         else None)\<rparr>"

definition transfer_receipt :: "trade_asset_row \<Rightarrow> tenure \<Rightarrow> ownership_transfer" where
  "transfer_receipt row t =
     \<lparr>ot_sourceTeamId = tar_source_team_id row, ot_destinationTeamId = tar_destination_team_id row,
      ot_sourceOwnershipId = tn_sourceOwnershipId t,
      ot_sourceOwnershipVersion = tn_sourceOwnershipVersion t,
      ot_destinationOwnershipId = tn_destinationOwnershipId t, ot_destinationOwnershipVersion = 1\<rparr>"

definition compare_receipts :: "trade_env \<Rightarrow> ownership_transfer \<Rightarrow> ownership_transfer \<Rightarrow> int" where
  "compare_receipts env l r =
     cmp_or (te_collate env (ot_sourceOwnershipId l) (ot_sourceOwnershipId r))
       (te_collate env (ot_destinationOwnershipId l) (ot_destinationOwnershipId r))"

definition ownership_receipts ::
    "trade_env \<Rightarrow> string \<Rightarrow> planned_asset list \<Rightarrow> trade_failure + ownership_transfer list" where
  "ownership_receipts env tradeId assets =
     bindE (mapE (\<lambda>p. bindE (tenure_of env tradeId p) (\<lambda>t. Inr (transfer_receipt (pa_row p) t)))
       (filter (\<lambda>p. moves_player (pa_row p)) assets)) (\<lambda>receipts.
     Inr (js_sort (compare_receipts env) receipts))"

section \<open>Conflicting proposals\<close>

definition same_asset :: "trade_asset_row \<Rightarrow> trade_asset_row \<Rightarrow> bool" where
  "same_asset e o' \<longleftrightarrow>
     (let contract = (case tar_contract_id e of
            Some i \<Rightarrow> Some i | None \<Rightarrow> tar_requested_retention_contract_id e) in
      (contract \<noteq> None \<and>
        (contract = tar_contract_id o' \<or> contract = tar_requested_retention_contract_id o')) \<or>
      (tar_player_id e \<noteq> None \<and> tar_player_id e = tar_player_id o') \<or>
      (tar_draft_pick_id e \<noteq> None \<and> tar_draft_pick_id e = tar_draft_pick_id o') \<or>
      (tar_retention_obligation_id e \<noteq> None \<and>
        tar_retention_obligation_id e = tar_retention_obligation_id o') \<or>
      (tar_buyout_obligation_id e \<noteq> None \<and>
        tar_buyout_obligation_id e = tar_buyout_obligation_id o') \<or>
      (tar_future_consideration_id e \<noteq> None \<and>
        tar_future_consideration_id e = tar_future_consideration_id o'))"

definition of_trade :: "string \<Rightarrow> string \<Rightarrow> trade_asset_row \<Rightarrow> bool" where
  "of_trade leagueId tradeId a \<longleftrightarrow> tar_league_id a = leagueId \<and> tar_trade_id a = tradeId"

definition listConflictingTrades :: "trade_store \<Rightarrow> string \<Rightarrow> string \<Rightarrow> trade_row list" where
  "listConflictingTrades st leagueId tradeId =
     sort_key tr_id (filter (\<lambda>t. tr_league_id t = leagueId \<and> tr_id t \<noteq> tradeId \<and>
       tr_status t = ''proposed'' \<and>
       list_ex (\<lambda>o'. of_trade leagueId (tr_id t) o' \<and>
         list_ex (\<lambda>e. of_trade leagueId tradeId e \<and> same_asset e o') (td_assets st)) (td_assets st))
       (td_trades st))"

text \<open>\<^verbatim>\<open>cancelPending\<close>: whether the trade was still open in the version read.\<close>

definition cancelPending ::
    "trade_env \<Rightarrow> string \<Rightarrow> string \<Rightarrow> trade_row \<Rightarrow> cancel_source \<Rightarrow> string \<Rightarrow> string \<Rightarrow> int \<Rightarrow> trade_store \<Rightarrow>
     trade_failure + trade_store \<times> bool" where
  "cancelPending env eventId leagueId conflict sourceMetadata fromStatus reasonCode occurredAtMs st =
     (let p = (\<lambda>t. tr_league_id t = leagueId \<and> tr_id t = tr_id conflict \<and>
            tr_status t = ''proposed'' \<and> tr_version t = tr_version conflict) in
      if length (filter p (td_trades st)) \<noteq> 1 then Inr (st, False)
      else
      bindE (written env (st\<lparr>td_trades :=
          update_rows p (settle_trade ''cancelled'' occurredAtMs) (td_trades st)\<rparr>)) (\<lambda>st.
      bindE (insertEvent env
        \<lparr>tv_id = eventId, tv_league_id = leagueId, tv_season_id = tr_season_id conflict,
         tv_trade_id = tr_id conflict, tv_actor_user_id = None,
         tv_event_type = ''proposal_auto_cancelled'', tv_reason = Some reasonCode,
         tv_metadata = CancelledMetadata sourceMetadata fromStatus reasonCode,
         tv_occurred_at_ms = occurredAtMs\<rparr> st) (\<lambda>st.
      bindE (publish env eventId st) (\<lambda>st. Inr (st, True)))))"

definition cancel_conflict ::
    "trade_env \<Rightarrow> execution_command \<Rightarrow> trade_store \<times> string list \<Rightarrow> trade_row \<times> string \<Rightarrow>
     trade_failure + trade_store \<times> string list" where
  "cancel_conflict env c state conflict =
     (case (state, conflict) of ((st, ids), (t, status)) \<Rightarrow>
      bindE (cancelPending env
        (deterministicUuid env (ex_tradeId c @ '':auto-cancel:'' @ tr_id t)) (ex_leagueId c) t
        (AcceptedTrade (ex_tradeId c)) status ''asset_transferred'' (ex_occurredAtMs c) st) (\<lambda>(st', cancelled).
      Inr (st', if cancelled then ids @ [tr_id t] else ids)))"

definition cancel_conflicts ::
    "trade_env \<Rightarrow> execution_command \<Rightarrow> trade_store \<Rightarrow> trade_failure + trade_store \<times> string list" where
  "cancel_conflicts env c st =
     foldE (cancel_conflict env c) (st, [])
       (map (\<lambda>t. (t, projected_status st t)) (listConflictingTrades st (ex_leagueId c) (ex_tradeId c)))"

section \<open>Reading the receipt back\<close>

definition demand :: "bool \<Rightarrow> trade_failure + unit" where
  "demand ok = (if ok then Inr () else Inl (TradeRepoFailure RepoSchemaIncompatible))"

lemma demand_Inr [check_iffs]: "demand ok = Inr u \<longleftrightarrow> ok"
  by (simp add: demand_def)

definition positive_version :: "int \<Rightarrow> bool" where
  "positive_version n \<longleftrightarrow> safe n \<and> 1 \<le> n"

record expected_transfer =
  xt_row :: trade_asset_row
  xt_playerId :: string
  xt_ownership :: ownership_view
  xt_public :: public_transfer
  xt_mapping :: ownership_transfer

text \<open>What the stored proposal says of one traded player, and its public receipt.\<close>

definition expected_record ::
    "trade_env \<Rightarrow> string \<Rightarrow> string list \<Rightarrow> public_transfer list \<Rightarrow> trade_asset_row \<Rightarrow>
     trade_failure + expected_transfer" where
  "expected_record env tradeId teamIds transfers row =
     (case (case tar_proposal_snapshot row of
          ContractSnapshot player k q \<Rightarrow>
            if tar_asset_type row = ''contract'' \<and> Some (kv_id k) = tar_contract_id row
            then Some (player, q) else None
        | ProspectSnapshot player q e \<Rightarrow>
            if tar_asset_type row = ''prospect_right'' \<and> Some (pv_id player) = tar_player_id row
            then Some (player, q) else None
        | _ \<Rightarrow> None) of
       None \<Rightarrow> Inl (TradeRepoFailure RepoSchemaIncompatible)
     | Some (player, q) \<Rightarrow>
         bindE (demand (is_uuid (pv_id player) \<and> is_uuid (ov_id q) \<and>
           positive_version (ov_version q) \<and> ov_teamId q = tar_source_team_id row \<and>
           tar_source_team_id row \<in> set teamIds \<and> tar_destination_team_id row \<in> set teamIds \<and>
           tar_source_team_id row \<noteq> tar_destination_team_id row)) (\<lambda>_.
         case find (\<lambda>t. pt_assetId t = tar_id row) transfers of
           None \<Rightarrow> Inl (TradeRepoFailure RepoSchemaIncompatible)
         | Some t \<Rightarrow>
             bindE (demand (pt_assetType t = tar_asset_type row \<and>
               pt_sourceTeamId t = tar_source_team_id row \<and>
               pt_destinationTeamId t = tar_destination_team_id row)) (\<lambda>_.
             Inr \<lparr>xt_row = row, xt_playerId = pv_id player, xt_ownership = q, xt_public = t,
               xt_mapping = \<lparr>ot_sourceTeamId = tar_source_team_id row,
                 ot_destinationTeamId = tar_destination_team_id row,
                 ot_sourceOwnershipId = ov_id q, ot_sourceOwnershipVersion = ov_version q,
                 ot_destinationOwnershipId = destination_ownership env tradeId (ov_id q),
                 ot_destinationOwnershipVersion = 1\<rparr>\<rparr>)))"

text \<open>The receipts of the event are the expected ones, and no ownership appears twice.\<close>

definition check_receipt ::
    "string list \<Rightarrow> ownership_transfer \<times> expected_transfer \<Rightarrow> trade_failure + string list" where
  "check_receipt seen entry =
     (case entry of (t, x) \<Rightarrow>
      bindE (demand (is_uuid (ot_sourceTeamId t) \<and> is_uuid (ot_destinationTeamId t) \<and>
        is_uuid (ot_sourceOwnershipId t) \<and> positive_version (ot_sourceOwnershipVersion t) \<and>
        is_uuid (ot_destinationOwnershipId t) \<and> positive_version (ot_destinationOwnershipVersion t) \<and>
        t = xt_mapping x \<and> ot_sourceOwnershipId t \<noteq> ot_destinationOwnershipId t \<and>
        ot_sourceOwnershipId t \<notin> set seen \<and> ot_destinationOwnershipId t \<notin> set seen)) (\<lambda>_.
      Inr (ot_sourceOwnershipId t # ot_destinationOwnershipId t # seen)))"

definition listOwnershipEvents :: "trade_store \<Rightarrow> string \<Rightarrow> string \<Rightarrow> string \<Rightarrow> ownership_event_row list" where
  "listOwnershipEvents st leagueId seasonId tradeId =
     filter (\<lambda>e. oe_league_id e = leagueId \<and> oe_season_id e = seasonId \<and>
       oe_source_type e = ''trade'' \<and> oe_source_id e = tradeId \<and>
       oe_event_type e \<in> {''trade_transfer_out'', ''trade_transfer_in''}) (td_ownership_events st)"

definition find_ownership :: "trade_store \<Rightarrow> string \<Rightarrow> string \<Rightarrow> player_ownership_row list" where
  "find_ownership st leagueId ownershipId =
     filter (\<lambda>q. po_league_id q = leagueId \<and> po_id q = ownershipId) (td_ownerships st)"

definition expected_tenure :: "expected_transfer \<Rightarrow> tenure" where
  "expected_tenure x =
     (let contract = (tar_asset_type (xt_row x) = ''contract''); q = xt_ownership x;
          source = (if contract then ov_rosterCategory q else ''Prospect'') in
      \<lparr>tn_playerId = xt_playerId x, tn_sourceOwnershipId = ot_sourceOwnershipId (xt_mapping x),
       tn_sourceOwnershipVersion = ot_sourceOwnershipVersion (xt_mapping x),
       tn_destinationOwnershipId = ot_destinationOwnershipId (xt_mapping x),
       tn_ownershipKind = (if contract then ''Rostered'' else ''Prospect Right''),
       tn_sourceCategory = source, tn_sourceSlot = ov_slotNumber q,
       tn_rosterCategory = (case pt_plannedRosterCategory (xt_public x) of
          Some k \<Rightarrow> k | None \<Rightarrow> source),
       tn_positionGroup = ov_positionGroup q,
       tn_plannedRosterSlotNumber =
         (if contract then pt_plannedRosterSlotNumber (xt_public x) else None)\<rparr>)"

text \<open>The rows and the history of one traded player.\<close>

definition check_history ::
    "trade_env \<Rightarrow> trade_store \<Rightarrow> execution_command \<Rightarrow> trade_event_row \<Rightarrow> bool \<Rightarrow>
     ownership_event_row list \<Rightarrow> expected_transfer \<Rightarrow> trade_failure + unit" where
  "check_history env st c event replayed events x =
     (let t = expected_tenure x; source = ot_sourceTeamId (xt_mapping x);
          destination = ot_destinationTeamId (xt_mapping x) in
      case (find (\<lambda>e. oe_event_type e = ''trade_transfer_out'' \<and>
              oe_ownership_id e = tn_sourceOwnershipId t) events,
            find (\<lambda>e. oe_event_type e = ''trade_transfer_in'' \<and>
              oe_ownership_id e = tn_destinationOwnershipId t) events) of
        (Some out, Some into) \<Rightarrow>
          bindE (if replayed then Inr () else
            bindE (unique_found (find_ownership st (ex_leagueId c) (tn_sourceOwnershipId t))) (\<lambda>old.
            bindE (unique_found (find_ownership st (ex_leagueId c) (tn_destinationOwnershipId t)))
              (\<lambda>new.
            demand (old = None \<and> (case new of None \<Rightarrow> False | Some q \<Rightarrow>
              po_season_id q = ex_seasonId c \<and> po_player_id q = tn_playerId t \<and>
              po_team_id q = destination \<and> po_ownership_kind q = tn_ownershipKind t \<and>
              po_roster_category q = tn_rosterCategory t \<and>
              po_position_group q = tn_positionGroup t \<and>
              po_slot_number q = tn_plannedRosterSlotNumber t \<and>
              po_acquired_transaction_type q = ''trade_execution'' \<and>
              po_acquired_transaction_id q = Some (ex_tradeId c) \<and>
              po_created_at_ms q = tv_occurred_at_ms event \<and>
              po_updated_at_ms q = tv_occurred_at_ms event \<and> po_version q = 1))))) (\<lambda>_.
          demand (oe_id out = out_event_id env (ex_tradeId c) (tn_sourceOwnershipId t) \<and>
            oe_player_id out = tn_playerId t \<and> oe_team_id out = source \<and>
            oe_actor_user_id out = tv_actor_user_id event \<and> oe_source_id out = ex_tradeId c \<and>
            oe_reason out = None \<and> oe_occurred_at_ms out = tv_occurred_at_ms event \<and>
            oe_id into = in_event_id env (ex_tradeId c) (tn_destinationOwnershipId t) \<and>
            oe_player_id into = tn_playerId t \<and> oe_team_id into = destination \<and>
            oe_actor_user_id into = tv_actor_user_id event \<and> oe_source_id into = ex_tradeId c \<and>
            oe_reason into = None \<and> oe_occurred_at_ms into = tv_occurred_at_ms event \<and>
            oe_before out = OwnershipExists (state_before c source t) \<and>
            oe_after out = OwnershipClosedTo (tn_destinationOwnershipId t) \<and>
            oe_before into = OwnershipOpenedFrom (tn_sourceOwnershipId t) \<and>
            oe_after into = OwnershipExists (state_after c destination t)))
      | _ \<Rightarrow> Inl (TradeRepoFailure RepoSchemaIncompatible))"

definition reconstructCommittedTeams ::
    "trade_env \<Rightarrow> trade_store \<Rightarrow> execution_command \<Rightarrow> trade_row \<Rightarrow> trade_event_row \<Rightarrow> bool \<Rightarrow>
     trade_failure + unit" where
  "reconstructCommittedTeams env st c trade event replayed =
     bindE (participant_team_ids env st (tr_league_id trade) (tr_id trade)
       (tr_proposing_team_id trade) (tr_receiving_team_id trade)) (\<lambda>teamIds.
     bindE (demand (tr_league_id trade = ex_leagueId c \<and> tr_season_id trade = ex_seasonId c \<and>
       tr_proposing_team_id trade = ex_proposingTeamId c \<and>
       tr_receiving_team_id trade = ex_receivingTeamId c \<and>
       tr_proposing_team_id trade \<noteq> tr_receiving_team_id trade \<and> list_all is_uuid teamIds)) (\<lambda>_.
     case tv_metadata event of
       ExecutedMetadata action authority fromStatus illegal teams transfers receipts cancelled \<Rightarrow>
         bindE (demand ((action = ''accept'' \<and> fromStatus = ''proposed'') \<or>
           (action = ''approve'' \<and> fromStatus = ''awaiting_commissioner_approval''))) (\<lambda>_.
         bindE (demand (list_all (\<lambda>t. is_uuid (pt_assetId t) \<and>
             pred_option (\<lambda>k. k \<in> {''Active'', ''Bench''}) (pt_plannedRosterCategory t)) transfers \<and>
           distinct (map pt_assetId transfers))) (\<lambda>_.
         bindE (mapE (expected_record env (ex_tradeId c) teamIds transfers)
           (filter moves_player (listTradeAssets st (ex_leagueId c) (ex_tradeId c)))) (\<lambda>found.
         let expected = js_sort (\<lambda>l r. compare_receipts env (xt_mapping l) (xt_mapping r)) found in
         bindE (demand (length receipts = length expected)) (\<lambda>_.
         bindE (foldE check_receipt [] (zip receipts expected)) (\<lambda>_.
         let events = listOwnershipEvents st (ex_leagueId c) (ex_seasonId c) (ex_tradeId c) in
         bindE (demand (length events = 2 * length expected \<and>
           distinct (map (\<lambda>e. (oe_event_type e, oe_ownership_id e)) events))) (\<lambda>_.
         bindE (mapE (check_history env st c event replayed events) expected) (\<lambda>_. Inr ())))))))
     | _ \<Rightarrow> Inl (TradeRepoFailure RepoSchemaIncompatible)))"

definition executionAggregate ::
    "trade_env \<Rightarrow> trade_store \<Rightarrow> execution_command \<Rightarrow> bool \<Rightarrow> trade_failure + trade_result" where
  "executionAggregate env st c replayed =
     bindE (unique_found (findTrade st (ex_leagueId c) (ex_tradeId c))) (\<lambda>trade.
     bindE (unique_found (findTradeEvent st (ex_leagueId c) (ex_tradeId c) ''proposal_accepted''))
       (\<lambda>event.
     case (trade, event) of
       (Some t, Some e) \<Rightarrow>
         if tr_status t \<noteq> ''completed'' then Inl (TradeRepoFailure RepoSchemaIncompatible)
         else bindE (reconstructCommittedTeams env st c t e replayed) (\<lambda>_.
           Inr \<lparr>rs_replayed = replayed, rs_trade = projectEffectiveTrade st t, rs_event = e\<rparr>)
     | _ \<Rightarrow> Inl (TradeRepoFailure RepoSchemaIncompatible)))"

definition findAcceptance :: "trade_store \<Rightarrow> string \<Rightarrow> string \<Rightarrow> acceptance_row list" where
  "findAcceptance st leagueId tradeId =
     filter (\<lambda>a. fa_league_id a = leagueId \<and> fa_trade_id a = tradeId) (td_acceptances st)"

definition awaitingApprovalAggregate ::
    "trade_env \<Rightarrow> trade_store \<Rightarrow> execution_command \<Rightarrow> bool \<Rightarrow> trade_failure + trade_result" where
  "awaitingApprovalAggregate env st c replayed =
     bindE (unique_found (findTrade st (ex_leagueId c) (ex_tradeId c))) (\<lambda>trade.
     bindE (unique_found (findTradeEvent st (ex_leagueId c) (ex_tradeId c)
       ''proposal_accepted_awaiting_commissioner_approval'')) (\<lambda>event.
     bindE (unique_found (findAcceptance st (ex_leagueId c) (ex_tradeId c))) (\<lambda>acceptance.
     case (trade, event, acceptance) of
       (Some t, Some e, Some a) \<Rightarrow>
         (case tv_metadata e of
            AwaitingMetadata authority illegal teams \<Rightarrow>
              bindE (participant_team_ids env st (ex_leagueId c) (ex_tradeId c)
                (ex_proposingTeamId c) (ex_receivingTeamId c)) (\<lambda>teamIds.
              bindE (demand (fa_id a = tv_id e \<and> fa_league_id a = tr_league_id t \<and>
                fa_season_id a = tr_season_id t \<and> fa_trade_id a = tr_id t \<and>
                Some (fa_accepted_by_user_id a) = tv_actor_user_id e \<and>
                fa_accepted_by_membership_id a = ex_actorMembershipId c \<and>
                fa_accepted_authority a = ex_actorAuthority c \<and>
                fa_accepted_at_ms a = tv_occurred_at_ms e \<and> safe (fa_trade_version_after a) \<and>
                2 \<le> fa_trade_version_after a \<and> fa_trade_version_after a \<le> tr_version t \<and>
                tv_league_id e = tr_league_id t \<and> tv_season_id e = tr_season_id t \<and>
                tv_trade_id e = tr_id t \<and> tv_reason e = None \<and>
                authority = fa_accepted_authority a \<and> length teams = length teamIds)) (\<lambda>_.
              Inr \<lparr>rs_replayed = replayed,
                   rs_trade = t\<lparr>tr_status := ''awaiting_commissioner_approval'',
                     tr_responded_at_ms := Some (fa_accepted_at_ms a), tr_completed_at_ms := None,
                     tr_commissioner_completion_reference := None,
                     tr_version := fa_trade_version_after a\<rparr>,
                   rs_event = e\<rparr>))
          | _ \<Rightarrow> Inl (TradeRepoFailure RepoSchemaIncompatible))
     | _ \<Rightarrow> Inl (TradeRepoFailure RepoSchemaIncompatible))))"

definition participantAcceptanceAggregate ::
    "trade_env \<Rightarrow> trade_store \<Rightarrow> execution_command \<Rightarrow> bool \<Rightarrow> trade_failure + trade_result" where
  "participantAcceptanceAggregate env st c replayed =
     bindE (findParticipantAcceptance env st c) (\<lambda>event.
     case (findTrade st (ex_leagueId c) (ex_tradeId c), event) of
       (t # _, Some e) \<Rightarrow>
         Inr \<lparr>rs_replayed = replayed, rs_trade = projectEffectiveTrade st t, rs_event = e\<rparr>
     | _ \<Rightarrow> Inl (TradeExecutionFailure ExecutionStateInvalid))"

definition executionOutcomeAggregate ::
    "trade_env \<Rightarrow> trade_store \<Rightarrow> execution_command \<Rightarrow> bool \<Rightarrow> bool \<Rightarrow> trade_failure + trade_result" where
  "executionOutcomeAggregate env st c approve replayed =
     (if approve then executionAggregate env st c replayed
      else
      bindE (findParticipantAcceptance env st c) (\<lambda>answer.
      if answer \<noteq> None then participantAcceptanceAggregate env st c replayed
      else
      bindE (unique_found (findAcceptance st (ex_leagueId c) (ex_tradeId c))) (\<lambda>acceptance.
      if acceptance \<noteq> None then awaitingApprovalAggregate env st c replayed
      else executionAggregate env st c replayed)))"

section \<open>The transaction\<close>

definition acceptance_preview_fields :: "execution_command \<Rightarrow> (string \<times> jsval) list" where
  "acceptance_preview_fields c =
     (case ex_respondingTeamId c of None \<Rightarrow> [] | Some t \<Rightarrow> [(''respondingTeamId'', JStr t)]) @
     [(''tradeId'', JStr (ex_tradeId c)), (''leagueId'', JStr (ex_leagueId c)),
      (''seasonId'', JStr (ex_seasonId c)), (''proposingTeamId'', JStr (ex_proposingTeamId c)),
      (''receivingTeamId'', JStr (ex_receivingTeamId c)),
      (''expectedVersion'', JInt (ex_expectedVersion c)),
      (''actorUserId'', JStr (ex_actorUserId c)),
      (''actorMembershipId'', JStr (ex_actorMembershipId c)),
      (''actorAuthority'', JStr (ex_actorAuthority c)), (''occurredAtMs'', JInt (ex_occurredAtMs c)),
      (''effectiveDeadlineAtMs'', JInt (ex_effectiveDeadlineAtMs c))]"

definition execution_event ::
    "execution_command \<Rightarrow> string \<Rightarrow> trade_metadata \<Rightarrow> trade_event_row" where
  "execution_event c eventType metadata =
     \<lparr>tv_id = ex_eventId c, tv_league_id = ex_leagueId c, tv_season_id = ex_seasonId c,
      tv_trade_id = ex_tradeId c, tv_actor_user_id = Some (ex_actorUserId c),
      tv_event_type = eventType, tv_reason = None, tv_metadata = metadata,
      tv_occurred_at_ms = ex_occurredAtMs c\<rparr>"

definition complete_execution ::
    "trade_env \<Rightarrow> trade_failure \<Rightarrow> execution_command \<Rightarrow> trade_store \<Rightarrow> trade_failure + trade_store" where
  "complete_execution env e c st =
     completeRequest env e (ex_idempotencyRequestId c) (ex_leagueId c) (ex_tradeId c)
       (ex_occurredAtMs c) st"

text \<open>A participant of a three-team trade accepts and another has still to answer.\<close>

definition record_answer ::
    "trade_env \<Rightarrow> execution_command \<Rightarrow> string \<Rightarrow> trade_preview \<Rightarrow> trade_store \<Rightarrow>
     trade_failure + trade_store" where
  "record_answer env c teamId preview st =
     bindE (update_one version_changed
       (\<lambda>t. tr_league_id t = ex_leagueId c \<and> tr_id t = ex_tradeId c \<and> tr_status t = ''proposed'' \<and>
            tr_version t = ex_expectedVersion c)
       (\<lambda>t. t\<lparr>tr_updated_at_ms := ex_occurredAtMs c, tr_version := tr_version t + 1\<rparr>)
       (td_trades st)) (\<lambda>rows.
     bindE (written env (st\<lparr>td_trades := rows\<rparr>)) (\<lambda>st.
     bindE (insertEvent env (execution_event c ''participant_accepted''
       (ParticipantMetadata teamId (tq_generallyIllegal preview) (tq_teams preview))) st) (\<lambda>st.
     bindE (publish env (ex_eventId c) st) (\<lambda>st.
     complete_execution env version_changed c st))))"

text \<open>A trade with Future Considerations waits for the commissioner.\<close>

definition await_approval ::
    "trade_env \<Rightarrow> execution_command \<Rightarrow> trade_preview \<Rightarrow> trade_store \<Rightarrow> trade_failure + trade_store" where
  "await_approval env c preview st =
     bindE (update_one version_changed
       (\<lambda>t. tr_league_id t = ex_leagueId c \<and> tr_id t = ex_tradeId c \<and> tr_status t = ''proposed'' \<and>
            tr_version t = ex_expectedVersion c \<and>
            has_future_considerations st (ex_leagueId c) (ex_tradeId c))
       (\<lambda>t. t\<lparr>tr_responded_at_ms := Some (ex_occurredAtMs c),
              tr_updated_at_ms := ex_occurredAtMs c, tr_version := tr_version t + 1\<rparr>)
       (td_trades st)) (\<lambda>rows.
     bindE (written env (st\<lparr>td_trades := rows\<rparr>)) (\<lambda>st.
     bindE (insert_row fa_id
       \<lparr>fa_id = ex_eventId c, fa_league_id = ex_leagueId c, fa_season_id = ex_seasonId c,
        fa_trade_id = ex_tradeId c, fa_accepted_by_user_id = ex_actorUserId c,
        fa_accepted_by_membership_id = ex_actorMembershipId c,
        fa_accepted_authority = ex_actorAuthority c, fa_accepted_at_ms = ex_occurredAtMs c,
        fa_trade_version_after = ex_expectedVersion c + 1\<rparr> (td_acceptances st)) (\<lambda>rows.
     bindE (written env (st\<lparr>td_acceptances := rows\<rparr>)) (\<lambda>st.
     bindE (insertEvent env (execution_event c
       ''proposal_accepted_awaiting_commissioner_approval''
       (AwaitingMetadata (ex_actorAuthority c) (tq_generallyIllegal preview) (tq_teams preview))) st)
       (\<lambda>st.
     bindE (publish env (ex_eventId c) st) (\<lambda>st.
     complete_execution env (TradeRepoFailure RepoVersionConflict) c st))))))"

definition complete_trade :: "execution_command \<Rightarrow> string \<Rightarrow> trade_row \<Rightarrow> trade_row" where
  "complete_trade c expectedStatus t =
     t\<lparr>tr_status := ''completed'',
       tr_responded_at_ms := (if expectedStatus = ''proposed'' then Some (ex_occurredAtMs c)
         else tr_responded_at_ms t),
       tr_completed_at_ms := Some (ex_occurredAtMs c),
       tr_commissioner_completion_reference :=
         (if ex_actorAuthority c \<in> {''commissioner'', ''platform_administrator''}
          then Some (ex_eventId c) else None),
       tr_updated_at_ms := ex_occurredAtMs c, tr_version := tr_version t + 1\<rparr>"

definition execute_trade ::
    "trade_env \<Rightarrow> execution_command \<Rightarrow> bool \<Rightarrow> trade_preview \<Rightarrow> trade_store \<Rightarrow>
     trade_failure + trade_store" where
  "execute_trade env c approve preview st =
     (let expectedStatus = (if approve then ''awaiting_commissioner_approval'' else ''proposed'') in
      bindE (update_one version_changed
        (open_as st (ex_leagueId c) (ex_tradeId c) expectedStatus (ex_expectedVersion c))
        (complete_trade c expectedStatus) (td_trades st)) (\<lambda>rows.
      bindE (written env (st\<lparr>td_trades := rows\<rparr>)) (\<lambda>st.
      bindE (move_assets env c (tq_assets preview) st) (\<lambda>st.
      bindE (ownership_receipts env (ex_tradeId c) (tq_assets preview)) (\<lambda>receipts.
      bindE (cancel_conflicts env c st) (\<lambda>(st, cancelled).
      bindE (insertEvent env (execution_event c ''proposal_accepted''
        (ExecutedMetadata (if approve then ''approve'' else ''accept'') (ex_actorAuthority c)
          expectedStatus (tq_generallyIllegal preview) (tq_teams preview)
          (map public_transfer_of (tq_assets preview)) receipts cancelled)) st) (\<lambda>st.
      bindE (publish env (ex_eventId c) st) (\<lambda>st.
      bindE (hook_result (te_synchronize env (ex_eventId c))) (\<lambda>_.
      complete_execution env (TradeRepoFailure RepoVersionConflict) c st)))))))))"

text \<open>The guards of an acceptance or an approval, up to the preview.\<close>

definition execution_guards ::
    "trade_env \<Rightarrow> execution_command \<Rightarrow> bool \<Rightarrow> trade_store \<Rightarrow> trade_failure + trade_preview" where
  "execution_guards env c approve st =
     bindE (execution_team env st c) (\<lambda>teamId.
     bindE (unique_found (loadLifecycleState env st (ex_leagueId c) (ex_tradeId c)
       (ex_actorUserId c) (ex_actorMembershipId c) teamId)) (\<lambda>found.
     bindE (if approve \<or> found \<noteq> None
       then participant_list env st (ex_leagueId c) (ex_tradeId c) else Inr []) (\<lambda>participants.
     bindE (if approve then
         (if list_ex (\<lambda>p. tp_decision p \<noteq> ''accepted'') participants
          then Inl (TradeExecutionFailure ExecutionNotPending)
          else execution_result (assertTradeApprovalState c found))
       else execution_result (assertTradeExecutionState c
         (if participants \<noteq> []
          then map_option (\<lambda>x. x\<lparr>tx_multi_trade_actor_team_id := Some teamId\<rparr>) found else found)))
       (\<lambda>_.
     acceptancePreview env st (JObj (acceptance_preview_fields c))))))"

text \<open>Answer, wait or execute, once the guards have passed.\<close>

definition execution_writes ::
    "trade_env \<Rightarrow> execution_command \<Rightarrow> bool \<Rightarrow> trade_preview \<Rightarrow> trade_store \<Rightarrow>
     trade_failure + trade_store \<times> trade_result" where
  "execution_writes env c approve preview st =
     bindE (participant_list env st (ex_leagueId c) (ex_tradeId c)) (\<lambda>participants.
     bindE (if \<not> approve \<and> participants \<noteq> [] then
         bindE (execution_team env st c) (\<lambda>teamId.
         bindE (respond env (ex_leagueId c) (ex_tradeId c) (ex_actorUserId c) (ex_actorMembershipId c)
           (ex_occurredAtMs c) teamId ''accepted'' st) (\<lambda>st.
         bindE (participant_list env st (ex_leagueId c) (ex_tradeId c)) (\<lambda>after.
         Inr (st, if list_ex (\<lambda>p. tp_decision p \<noteq> ''accepted'') after then Some teamId else None))))
       else Inr (st, None)) (\<lambda>(st, waiting).
     case waiting of
       Some teamId \<Rightarrow>
         bindE (record_answer env c teamId preview st) (\<lambda>st.
         bindE (participantAcceptanceAggregate env st c False) (\<lambda>res. Inr (st, res)))
     | None \<Rightarrow>
         if \<not> approve \<and>
            list_ex (\<lambda>p. tar_asset_type (pa_row p) = ''future_consideration'') (tq_assets preview)
         then
           bindE (await_approval env c preview st) (\<lambda>st.
           bindE (awaitingApprovalAggregate env st c False) (\<lambda>res. Inr (st, res)))
         else
           bindE (execute_trade env c approve preview st) (\<lambda>st.
           bindE (executionAggregate env st c False) (\<lambda>res. Inr (st, res)))))"

definition executionTransaction ::
    "trade_env \<Rightarrow> trade_store \<Rightarrow> bool \<Rightarrow> jsval \<Rightarrow> trade_failure + trade_store \<times> trade_result" where
  "executionTransaction env st approve rawCommand =
     bindE (execution_result (if approve then validateTradeApprovalCommand rawCommand
       else validateTradeExecutionCommand rawCommand)) (\<lambda>c.
     let operation = (if approve then ''trade.approve'' else ''trade.accept'');
         requestHash = createExecutionRequestHash env c in
     bindE (unique_found (findRequest st (ex_leagueId c) (ex_actorUserId c) operation
       (ex_idempotencyKey c))) (\<lambda>existing.
     case existing of
       Some r \<Rightarrow>
         if \<not> request_replays r requestHash (ex_tradeId c)
         then Inl (TradeExecutionFailure ExecutionIdempotencyConflict)
         else bindE (executionOutcomeAggregate env st c approve True) (\<lambda>res. Inr (st, res))
     | None \<Rightarrow>
         bindE (insertRequest env (ex_idempotencyRequestId c) (ex_leagueId c) (ex_actorUserId c)
           operation (ex_idempotencyKey c) requestHash (ex_occurredAtMs c)
           (ex_idempotencyExpiresAtMs c) st) (\<lambda>st.
         bindE (execution_guards env c approve st) (\<lambda>preview.
         execution_writes env c approve preview st))))"

fun is_execution_failure :: "trade_failure \<Rightarrow> bool" where
  "is_execution_failure (TradeExecutionFailure _) = True"
| "is_execution_failure _ = False"

definition executeAcceptance ::
    "trade_env \<Rightarrow> trade_store \<Rightarrow> jsval \<Rightarrow> trade_failure + trade_store \<times> trade_result" where
  "executeAcceptance env st rawCommand =
     mapped_failure (\<lambda>e. is_asset_failure e \<or> is_execution_failure e \<or> is_lifecycle_failure e)
       (executionTransaction env st False rawCommand)"

definition executeApproval ::
    "trade_env \<Rightarrow> trade_store \<Rightarrow> jsval \<Rightarrow> trade_failure + trade_store \<times> trade_result" where
  "executeApproval env st rawCommand =
     mapped_failure (\<lambda>e. is_asset_failure e \<or> is_execution_failure e \<or> is_lifecycle_failure e)
       (executionTransaction env st True rawCommand)"

end
