(* ===== verification/TradeExpiry.thy ===== *)
theory TradeExpiry
  imports TradeRepository
begin

text \<open>
  \<^verbatim>\<open>SqliteTradeExpiryRepository.js\<close>: the leases under which the expiry job works, one row of
  \<^verbatim>\<open>job_runs\<close> per occurrence, and the transaction that expires a trade under a lease. Which
  leagues are frozen is an argument; the activity and the outbox entry are the publication hook.
\<close>

section \<open>Runs\<close>

record run_row =
  jr_id :: string
  jr_league_id :: string
  jr_season_id :: string
  jr_job_type :: string
  jr_occurrence_key :: string
  jr_scheduled_for_ms :: int
  jr_status :: string
  jr_attempt_count :: int
  jr_lease_owner :: "string option"
  jr_lease_expires_at_ms :: "int option"
  jr_started_at_ms :: "int option"
  jr_completed_at_ms :: "int option"
  jr_result :: "(string \<times> string) option"
  jr_last_error_code :: "string option"
  jr_created_at_ms :: int
  jr_updated_at_ms :: int
  jr_version :: int

record expiry_store =
  xs_trades :: trade_store
  xs_runs :: "run_row list"

definition JOB_TYPE :: string where
  "JOB_TYPE = ''trades:expire:target''"

definition expiry_invalid :: trade_failure where
  "expiry_invalid = TradeRepoFailure RepoArgumentInvalid"

definition lease_stale :: trade_failure where
  "lease_stale = TradeRepoFailure RepoVersionConflict"

definition expiry_exactObject :: "string list \<Rightarrow> jsval \<Rightarrow> trade_failure + unit" where
  "expiry_exactObject = exact_object expiry_invalid"

definition expiry_stableId :: "jsval \<Rightarrow> trade_failure + string" where
  "expiry_stableId v =
     bindE (stable_id expiry_invalid v) (\<lambda>s. if s ! 14 \<noteq> CHR ''4'' then Inl expiry_invalid else Inr s)"

definition expiry_safeTimestamp :: "jsval \<Rightarrow> trade_failure + int" where
  "expiry_safeTimestamp = safe_from expiry_invalid 0"

definition expiry_positiveVersion :: "jsval \<Rightarrow> trade_failure + int" where
  "expiry_positiveVersion = safe_from expiry_invalid 1"

definition expiry_boundedText :: "nat \<Rightarrow> jsval \<Rightarrow> trade_failure + string" where
  "expiry_boundedText maximum v =
     (case v of
        JStr s \<Rightarrow> if s = [] \<or> maximum < length s \<or> trim s \<noteq> s then Inl expiry_invalid else Inr s
      | _ \<Rightarrow> Inl expiry_invalid)"

definition findRun :: "expiry_store \<Rightarrow> string \<Rightarrow> string \<Rightarrow> run_row list" where
  "findRun xs leagueId occurrenceKey =
     filter (\<lambda>r. jr_league_id r = leagueId \<and> jr_job_type r = JOB_TYPE \<and>
       jr_occurrence_key r = occurrenceKey) (xs_runs xs)"

section \<open>Claiming an occurrence\<close>

record claim_command =
  cl_jobRunId :: string
  cl_leagueId :: string
  cl_seasonId :: string
  cl_occurrenceKey :: string
  cl_scheduledForMs :: int
  cl_leaseOwner :: string
  cl_nowMs :: int
  cl_leaseExpiresAtMs :: int

definition claim_input :: "jsval \<Rightarrow> trade_failure + claim_command" where
  "claim_input input =
     bindE (expiry_exactObject [''jobRunId'', ''leagueId'', ''seasonId'', ''occurrenceKey'',
       ''scheduledForMs'', ''leaseOwner'', ''nowMs'', ''leaseExpiresAtMs''] input) (\<lambda>_.
     bindE (expiry_stableId (fld input ''jobRunId'')) (\<lambda>jobRunId.
     bindE (expiry_stableId (fld input ''leagueId'')) (\<lambda>leagueId.
     bindE (expiry_stableId (fld input ''seasonId'')) (\<lambda>seasonId.
     bindE (expiry_boundedText 200 (fld input ''occurrenceKey'')) (\<lambda>occurrenceKey.
     bindE (expiry_safeTimestamp (fld input ''scheduledForMs'')) (\<lambda>scheduledForMs.
     bindE (expiry_boundedText 128 (fld input ''leaseOwner'')) (\<lambda>leaseOwner.
     bindE (expiry_safeTimestamp (fld input ''nowMs'')) (\<lambda>nowMs.
     bindE (expiry_safeTimestamp (fld input ''leaseExpiresAtMs'')) (\<lambda>leaseExpiresAtMs.
     if leaseExpiresAtMs \<le> nowMs then Inl expiry_invalid
     else Inr \<lparr>cl_jobRunId = jobRunId, cl_leagueId = leagueId, cl_seasonId = seasonId,
       cl_occurrenceKey = occurrenceKey, cl_scheduledForMs = scheduledForMs,
       cl_leaseOwner = leaseOwner, cl_nowMs = nowMs, cl_leaseExpiresAtMs = leaseExpiresAtMs\<rparr>)))))))))"

record run_claim =
  rl_acquired :: bool
  rl_reason :: "string option"
  rl_runId :: string
  rl_version :: int
  rl_attemptCount :: int

definition new_run :: "claim_command \<Rightarrow> run_row" where
  "new_run c =
     \<lparr>jr_id = cl_jobRunId c, jr_league_id = cl_leagueId c, jr_season_id = cl_seasonId c,
      jr_job_type = JOB_TYPE, jr_occurrence_key = cl_occurrenceKey c,
      jr_scheduled_for_ms = cl_scheduledForMs c, jr_status = ''leased'', jr_attempt_count = 1,
      jr_lease_owner = Some (cl_leaseOwner c),
      jr_lease_expires_at_ms = Some (cl_leaseExpiresAtMs c),
      jr_started_at_ms = Some (cl_nowMs c), jr_completed_at_ms = None, jr_result = None,
      jr_last_error_code = None, jr_created_at_ms = cl_nowMs c, jr_updated_at_ms = cl_nowMs c,
      jr_version = 1\<rparr>"

definition retried_run :: "claim_command \<Rightarrow> run_row \<Rightarrow> run_row" where
  "retried_run c r =
     r\<lparr>jr_status := ''leased'', jr_attempt_count := jr_attempt_count r + 1,
       jr_lease_owner := Some (cl_leaseOwner c),
       jr_lease_expires_at_ms := Some (cl_leaseExpiresAtMs c),
       jr_started_at_ms := Some (cl_nowMs c), jr_completed_at_ms := None, jr_result := None,
       jr_last_error_code := None, jr_updated_at_ms := cl_nowMs c, jr_version := jr_version r + 1\<rparr>"

definition refused_claim :: "string \<Rightarrow> run_row \<Rightarrow> run_claim" where
  "refused_claim reason r =
     \<lparr>rl_acquired = False, rl_reason = Some reason, rl_runId = jr_id r, rl_version = jr_version r,
      rl_attemptCount = jr_attempt_count r\<rparr>"

definition lease_held :: "int \<Rightarrow> run_row \<Rightarrow> bool" where
  "lease_held nowMs r \<longleftrightarrow>
     jr_status r \<in> {''leased'', ''running''} \<and>
     (case jr_lease_expires_at_ms r of Some t \<Rightarrow> nowMs < t | None \<Rightarrow> False)"

definition claimTransaction ::
    "expiry_store \<Rightarrow> claim_command \<Rightarrow> trade_failure + expiry_store \<times> run_claim" where
  "claimTransaction xs c =
     bindE (unique_found (findRun xs (cl_leagueId c) (cl_occurrenceKey c))) (\<lambda>existing.
     case existing of
       None \<Rightarrow>
         bindE (insert_row jr_id (new_run c) (xs_runs xs)) (\<lambda>rows.
         Inr (xs\<lparr>xs_runs := rows\<rparr>,
           \<lparr>rl_acquired = True, rl_reason = None, rl_runId = cl_jobRunId c, rl_version = 1,
            rl_attemptCount = 1\<rparr>))
     | Some r \<Rightarrow>
         if jr_status r = ''succeeded'' then Inr (xs, refused_claim ''succeeded'' r)
         else if lease_held (cl_nowMs c) r then Inr (xs, refused_claim ''leased'' r)
         else
         bindE (update_one lease_stale
           (\<lambda>q. jr_id q = jr_id r \<and> jr_league_id q = cl_leagueId c \<and> jr_version q = jr_version r)
           (retried_run c) (xs_runs xs)) (\<lambda>rows.
         Inr (xs\<lparr>xs_runs := rows\<rparr>,
           \<lparr>rl_acquired = True, rl_reason = None, rl_runId = jr_id r,
            rl_version = jr_version r + 1, rl_attemptCount = jr_attempt_count r + 1\<rparr>)))"

definition claimRun :: "expiry_store \<Rightarrow> jsval \<Rightarrow> trade_failure + expiry_store \<times> run_claim" where
  "claimRun xs input =
     bindE (claim_input input) (\<lambda>c. mapped_failure (\<lambda>_. False) (claimTransaction xs c))"

section \<open>Expiring a trade under a lease\<close>

record expiry_lease =
  xl_runId :: string
  xl_leaseOwner :: string
  xl_expectedVersion :: int

definition expiry_lease_input :: "jsval \<Rightarrow> trade_failure + expiry_lease" where
  "expiry_lease_input v =
     bindE (expiry_exactObject [''runId'', ''leaseOwner'', ''expectedVersion''] v) (\<lambda>_.
     bindE (expiry_stableId (fld v ''runId'')) (\<lambda>runId.
     bindE (expiry_boundedText 128 (fld v ''leaseOwner'')) (\<lambda>leaseOwner.
     bindE (expiry_positiveVersion (fld v ''expectedVersion'')) (\<lambda>expectedVersion.
     Inr \<lparr>xl_runId = runId, xl_leaseOwner = leaseOwner, xl_expectedVersion = expectedVersion\<rparr>))))"

fun without_field :: "string \<Rightarrow> jsval \<Rightarrow> jsval" where
  "without_field k (JObj ps) = JObj (filter (\<lambda>(j, _). j \<noteq> k) ps)"
| "without_field k v = JObj []"

definition lease_valid :: "expiry_command \<Rightarrow> expiry_lease \<Rightarrow> run_row \<Rightarrow> bool" where
  "lease_valid c lease r \<longleftrightarrow>
     jr_id r = xl_runId lease \<and> jr_season_id r = xc_seasonId c \<and>
     jr_scheduled_for_ms r = xc_effectiveDeadlineAtMs c \<and> jr_status r = ''leased'' \<and>
     jr_lease_owner r = Some (xl_leaseOwner lease) \<and> jr_version r = xl_expectedVersion lease \<and>
     (case jr_lease_expires_at_ms r of
        Some t \<Rightarrow> safe t \<and> xc_occurredAtMs c < t | None \<Rightarrow> False) \<and>
     (case jr_started_at_ms r of
        Some t \<Rightarrow> safe t \<and> t \<le> xc_occurredAtMs c | None \<Rightarrow> False)"

text \<open>The columns that the expiry reads, as a context.\<close>

definition expiry_context :: "trade_store \<Rightarrow> trade_row \<Rightarrow> trade_context" where
  "expiry_context st t =
     \<lparr>tx_trade_id = tr_id t, tx_league_id = tr_league_id t, tx_season_id = tr_season_id t,
      tx_proposing_team_id = tr_proposing_team_id t, tx_receiving_team_id = tr_receiving_team_id t,
      tx_trade_status = projected_status st t,
      tx_effective_deadline_at_ms = tr_effective_deadline_at_ms t, tx_trade_version = tr_version t,
      tx_proposal_model_version = tr_proposal_model_version t, tx_league_status = [],
      tx_commissioner_membership_id = None, tx_season_status = [], tx_membership_user_id = None,
      tx_membership_permission = None, tx_membership_status = None, tx_assignment_team_id = None,
      tx_assignment_status = None, tx_assignment_accepted_at_ms = None,
      tx_assignment_ended_at_ms = None, tx_is_platform_administrator = 0,
      tx_has_future_considerations = 0, tx_multi_trade_actor_team_id = None\<rparr>"

datatype expiry_outcome =
    Expired string int string
  | Terminal string string int

definition write_expiry ::
    "trade_env \<Rightarrow> expiry_command \<Rightarrow> trade_row \<Rightarrow> trade_store \<Rightarrow> trade_failure + trade_store" where
  "write_expiry env c t st0 =
     (if tr_version t \<noteq> xc_expectedVersion c
      then Inl (TradeLifecycleFailure LifecycleVersionConflict)
      else
      bindE (update_one (TradeLifecycleFailure LifecycleVersionConflict)
        (\<lambda>q. tr_league_id q = xc_leagueId c \<and> tr_id q = xc_tradeId c \<and>
             tr_status q = ''proposed'' \<and> tr_version q = xc_expectedVersion c)
        (settle_trade ''expired'' (xc_occurredAtMs c)) (td_trades st0)) (\<lambda>rows.
      bindE (written env (st0\<lparr>td_trades := rows\<rparr>)) (\<lambda>st.
      bindE (insertEvent env
        \<lparr>tv_id = xc_eventId c, tv_league_id = xc_leagueId c, tv_season_id = xc_seasonId c,
         tv_trade_id = xc_tradeId c, tv_actor_user_id = None, tv_event_type = ''proposal_expired'',
         tv_reason = Some ''effective_deadline_elapsed'',
         tv_metadata = ExpiredMetadata (xc_occurrenceKey c) (xc_effectiveDeadlineAtMs c)
           (projected_status st0 t),
         tv_occurred_at_ms = xc_occurredAtMs c\<rparr> st) (\<lambda>st.
      publish env (xc_eventId c) st))))"

definition expireTransaction ::
    "trade_env \<Rightarrow> (string \<Rightarrow> bool) \<Rightarrow> expiry_store \<Rightarrow> jsval \<Rightarrow>
     trade_failure + expiry_store \<times> expiry_outcome" where
  "expireTransaction env frozen xs rawCommand =
     bindE (lifecycle_result (validateTradeExpiryCommand (without_field ''execution'' rawCommand))) (\<lambda>c.
     bindE (expiry_lease_input (fld rawCommand ''execution'')) (\<lambda>lease.
     bindE (unique_found (findRun xs (xc_leagueId c) (xc_occurrenceKey c))) (\<lambda>run.
     if \<not> (case run of Some r \<Rightarrow> lease_valid c lease r | None \<Rightarrow> False) then Inl lease_stale
     else
     bindE (unique_found (if frozen (xc_leagueId c) then []
       else findTrade (xs_trades xs) (xc_leagueId c) (xc_tradeId c))) (\<lambda>found.
     case found of
       None \<Rightarrow> Inl (TradeLifecycleFailure LifecycleNotFound)
     | Some t \<Rightarrow>
         let status = projected_status (xs_trades xs) t in
         if status \<notin> set OPEN_PROPOSAL_STATUSES
         then Inr (xs, Terminal (tr_id t) status (tr_version t))
         else
         bindE (lifecycle_result (assertTradeExpiryState c (Some (expiry_context (xs_trades xs) t)))) (\<lambda>_.
         bindE (write_expiry env c t (xs_trades xs)) (\<lambda>st.
         Inr (xs\<lparr>xs_trades := st\<rparr>,
           Expired (xc_tradeId c) (xc_expectedVersion c + 1) (xc_eventId c))))))))"

definition expireProposal ::
    "trade_env \<Rightarrow> (string \<Rightarrow> bool) \<Rightarrow> expiry_store \<Rightarrow> jsval \<Rightarrow>
     trade_failure + expiry_store \<times> expiry_outcome" where
  "expireProposal env frozen xs input =
     mapped_failure is_lifecycle_failure (expireTransaction env frozen xs input)"

text \<open>The proposals that are due, the earliest first.\<close>

definition listDue :: "(string \<Rightarrow> bool) \<Rightarrow> expiry_store \<Rightarrow> jsval \<Rightarrow> jsval \<Rightarrow> trade_failure + trade_row list" where
  "listDue frozen xs nowMs limit =
     bindE (expiry_safeTimestamp nowMs) (\<lambda>now.
     bindE (safe_between expiry_invalid 1 100 limit) (\<lambda>n.
     Inr (take (nat n)
       (sort_key (\<lambda>t. the (tr_effective_deadline_at_ms t)) (sort_key tr_league_id (sort_key tr_id
         (filter (\<lambda>t. \<not> frozen (tr_league_id t) \<and> tr_status t = ''proposed'' \<and>
            tr_proposal_model_version t = 2 \<and>
            (case tr_effective_deadline_at_ms t of Some d \<Rightarrow> d \<le> now | None \<Rightarrow> False))
          (td_trades (xs_trades xs)))))))))"

section \<open>Completing a run\<close>

definition holds_lease :: "string \<Rightarrow> string \<Rightarrow> string \<Rightarrow> int \<Rightarrow> run_row \<Rightarrow> bool" where
  "holds_lease leagueId runId leaseOwner expectedVersion r \<longleftrightarrow>
     jr_id r = runId \<and> jr_league_id r = leagueId \<and> jr_status r = ''leased'' \<and>
     jr_lease_owner r = Some leaseOwner \<and> jr_version r = expectedVersion"

definition finish_run :: "string \<Rightarrow> int \<Rightarrow> (string \<times> string) option \<Rightarrow> string option \<Rightarrow> run_row \<Rightarrow> run_row" where
  "finish_run status completedAtMs result errorCode r =
     r\<lparr>jr_status := status, jr_lease_owner := None, jr_lease_expires_at_ms := None,
       jr_completed_at_ms := Some completedAtMs, jr_result := result,
       jr_last_error_code := errorCode, jr_updated_at_ms := completedAtMs,
       jr_version := jr_version r + 1\<rparr>"

fun safe_code :: "string \<Rightarrow> bool" where
  "safe_code [] \<longleftrightarrow> False"
| "safe_code (c # cs) \<longleftrightarrow>
     CHR ''A'' \<le> c \<and> c \<le> CHR ''Z'' \<and> length cs \<le> 99 \<and>
     list_all (\<lambda>d. (CHR ''A'' \<le> d \<and> d \<le> CHR ''Z'') \<or> (CHR ''0'' \<le> d \<and> d \<le> CHR ''9'') \<or>
       d = CHR ''_'') cs"

definition failRun :: "expiry_store \<Rightarrow> jsval \<Rightarrow> trade_failure + expiry_store \<times> int" where
  "failRun xs input =
     bindE (expiry_exactObject [''leagueId'', ''runId'', ''leaseOwner'', ''expectedVersion'',
       ''completedAtMs'', ''errorCode''] input) (\<lambda>_.
     bindE (expiry_stableId (fld input ''leagueId'')) (\<lambda>leagueId.
     bindE (expiry_stableId (fld input ''runId'')) (\<lambda>runId.
     bindE (expiry_boundedText 128 (fld input ''leaseOwner'')) (\<lambda>leaseOwner.
     bindE (expiry_positiveVersion (fld input ''expectedVersion'')) (\<lambda>expectedVersion.
     bindE (expiry_safeTimestamp (fld input ''completedAtMs'')) (\<lambda>completedAtMs.
     bindE (expiry_boundedText 100 (fld input ''errorCode'')) (\<lambda>errorCode.
     if \<not> safe_code errorCode then Inl expiry_invalid
     else
     bindE (update_one lease_stale (holds_lease leagueId runId leaseOwner expectedVersion)
       (finish_run ''failed'' completedAtMs None (Some errorCode)) (xs_runs xs)) (\<lambda>rows.
     Inr (xs\<lparr>xs_runs := rows\<rparr>, expectedVersion + 1)))))))))"

definition succeedRun :: "expiry_store \<Rightarrow> jsval \<Rightarrow> trade_failure + expiry_store \<times> int" where
  "succeedRun xs input =
     bindE (expiry_exactObject [''leagueId'', ''runId'', ''leaseOwner'', ''expectedVersion'',
       ''completedAtMs'', ''tradeId'', ''outcome''] input) (\<lambda>_.
     bindE (one_of expiry_invalid [''expired'', ''terminal''] (fld input ''outcome'')) (\<lambda>outcome.
     bindE (expiry_stableId (fld input ''leagueId'')) (\<lambda>leagueId.
     bindE (expiry_stableId (fld input ''runId'')) (\<lambda>runId.
     bindE (expiry_boundedText 128 (fld input ''leaseOwner'')) (\<lambda>leaseOwner.
     bindE (expiry_positiveVersion (fld input ''expectedVersion'')) (\<lambda>expectedVersion.
     bindE (expiry_safeTimestamp (fld input ''completedAtMs'')) (\<lambda>completedAtMs.
     bindE (expiry_stableId (fld input ''tradeId'')) (\<lambda>tradeId.
     bindE (update_one lease_stale (holds_lease leagueId runId leaseOwner expectedVersion)
       (finish_run ''succeeded'' completedAtMs (Some (tradeId, outcome)) None) (xs_runs xs)) (\<lambda>rows.
     Inr (xs\<lparr>xs_runs := rows\<rparr>, expectedVersion + 1))))))))))"

end
