(* ===== verification/TradeSamples.thy ===== *)
theory TradeSamples
  imports TradeExecution TradeExpiry
begin

text \<open>
  A small league for the witnesses: a rostered player with his contract, retained by half at the
  proposing team's request, for the first pick of the receiving team. The identifiers are those
  of the request body of \<open>TradeProposal\<close>.
\<close>

definition sample_digit :: "nat \<Rightarrow> char" where
  "sample_digit n = ''0123456789abcdef'' ! (n mod 16)"

definition sample_uuid :: "string \<Rightarrow> string" where
  "sample_uuid cs = cs @ ''000000-0000-4000-8000-000000000000''"

definition sample_hash :: "string \<Rightarrow> string" where
  "sample_hash cs = cs @ replicate 30 CHR ''0''"

definition sample_sha :: "string \<Rightarrow> string" where
  "sample_sha s =
     (let n = length s in sample_hash [sample_digit (n div 16), sample_digit n])"

definition sample_actor :: "string \<Rightarrow> string \<Rightarrow> actor_row" where
  "sample_actor user team = \<lparr>ar_league_status = ''active'', ar_commissioner_membership_id = None,
     ar_season_status = ''active'', ar_membership_user_id = Some user,
     ar_membership_permission = Some ''manager'', ar_membership_status = Some ''active'',
     ar_assignment_team_id = Some team, ar_assignment_status = Some ''accepted'',
     ar_assignment_accepted_at_ms = Some 1, ar_assignment_ended_at_ms = None,
     ar_is_platform_administrator = 0\<rparr>"

definition sample_env :: trade_env where
  "sample_env =
     \<lparr>te_sha = sample_sha, te_collate = locale_compare, te_user_version = 75,
      te_foundation = (\<lambda>_ _ _ _ _. [the (sw_loadFoundationState sample_world [] [] [] (the (sw_requireManager sample_world [])))]),
      te_actor = (\<lambda>_ _ _ user team. [sample_actor user team]),
      te_managed = (\<lambda>_ _. []), te_team_status = (\<lambda>_ _. Some ''active''),
      te_player_name = (\<lambda>_. Some ''P''), te_season_label = (\<lambda>_ _. Some ''S''),
      te_draft_status = (\<lambda>_ _. Some ''scheduled''),
      te_settings = (\<lambda>_. [\<lparr>ls_salary_cap_cents = 10000, ls_active_forward_slots = 12,
        ls_active_defence_slots = 6, ls_bench_slots = 4, ls_maximum_bench_aav_cents = 400,
        ls_injured_reserve_slots = 4\<rparr>]),
      te_fresh = (\<lambda>n. sample_id CHR ''f''), te_publish = (\<lambda>_. None), te_notify = (\<lambda>_. None),
      te_synchronize = (\<lambda>_. None), te_accepts = (\<lambda>_. True)\<rparr>"

definition sample_contract :: contract_row where
  "sample_contract =
     \<lparr>c_id = sample_id CHR ''a'', c_league_id = sample_id CHR ''3'', c_player_id = sample_id CHR ''e'',
      c_current_team_id = sample_id CHR ''1'', c_contract_type = ''standard'',
      c_original_total_value_cents = 300, c_original_term_years = 1, c_aav_cents = 300,
      c_start_season_id = sample_id CHR ''6'', c_status = ''active'', c_acquisition_source_type = ''x'',
      c_acquisition_source_id = None, c_auction_buyout_lock_expires_at_ms = None,
      c_created_at_ms = 1, c_updated_at_ms = 1, c_version = 4\<rparr>"

definition sample_store :: trade_store where
  "sample_store =
     \<lparr>td_trades = [], td_assets = [], td_participants = [], td_acceptances = [], td_events = [],
      td_requests = [],
      td_ownerships = [\<lparr>po_id = sample_id CHR ''d'', po_league_id = sample_id CHR ''3'',
        po_season_id = sample_id CHR ''6'', po_player_id = sample_id CHR ''e'',
        po_team_id = sample_id CHR ''1'', po_ownership_kind = ''Rostered'',
        po_roster_category = ''Bench'', po_position_group = ''F'', po_slot_number = Some 2,
        po_acquired_transaction_type = ''x'', po_acquired_transaction_id = None,
        po_created_at_ms = 1, po_updated_at_ms = 1, po_version = 3\<rparr>],
      td_contracts = [sample_contract],
      td_contract_years = [\<lparr>cy_id = sample_id CHR ''0'', cy_league_id = sample_id CHR ''3'',
        cy_contract_id = sample_id CHR ''a'', cy_season_id = sample_id CHR ''6'',
        cy_year_number = 1, cy_aav_cents = 300, cy_status = ''current'', cy_rollover_at_ms = None,
        cy_created_at_ms = 1\<rparr>],
      td_picks = [\<lparr>dp_id = sample_id CHR ''b'', dp_league_id = sample_id CHR ''3'',
        dp_draft_id = sample_id CHR ''0'', dp_target_season_id = sample_id CHR ''6'',
        dp_round_number = 1, dp_position_number = 1, dp_original_team_id = sample_id CHR ''2'',
        dp_current_owner_team_id = sample_id CHR ''2'', dp_status = ''unused'',
        dp_selection_id = None, dp_created_at_ms = 1, dp_updated_at_ms = 1, dp_version = 1\<rparr>],
      td_retentions = [], td_retention_years = [], td_buyouts = [], td_buyout_years = [],
      td_considerations = [], td_ownership_events = [], td_contract_events = [],
      td_pick_events = []\<rparr>"

definition sample_accept :: "(string \<times> jsval) list" where
  "sample_accept =
     [(''tradeId'', JStr (sample_id CHR ''7'')), (''eventId'', JStr (sample_id CHR ''1'')),
      (''idempotencyRequestId'', JStr (sample_id CHR ''2'')),
      (''leagueId'', JStr (sample_id CHR ''3'')), (''seasonId'', JStr (sample_id CHR ''6'')),
      (''proposingTeamId'', JStr (sample_id CHR ''1'')), (''receivingTeamId'', JStr (sample_id CHR ''2'')),
      (''expectedVersion'', JInt 1), (''actorUserId'', JStr (sample_id CHR ''c'')),
      (''actorMembershipId'', JStr (sample_id CHR ''d'')), (''actorAuthority'', JStr ''manager''),
      (''occurredAtMs'', JInt 2000), (''effectiveDeadlineAtMs'', JInt 5000),
      (''idempotencyKey'', JStr ''k2''), (''idempotencyExpiresAtMs'', JInt 90000)]"

definition sample_request :: "(string \<times> jsval) list" where
  "sample_request =
     [(''tradeId'', JStr (sample_id CHR ''7'')), (''eventId'', JStr (sample_id CHR ''8'')),
     (''idempotencyRequestId'', JStr (sample_id CHR ''9'')), (''leagueId'', JStr (sample_id CHR
     ''3'')), (''seasonId'', JStr (sample_id CHR ''6'')), (''proposingTeamId'', JStr (sample_id
     CHR ''1'')), (''receivingTeamId'', JStr (sample_id CHR ''2'')), (''actorUserId'', JStr
     (sample_id CHR ''4'')), (''actorMembershipId'', JStr (sample_id CHR ''5'')),
     (''actorAuthority'', JStr ''manager''), (''createdAtMs'', JInt 1000), (''expiresAtMs'', JInt
     604801000), (''effectiveDeadlineAtMs'', JInt 5000), (''idempotencyKey'', JStr ''k''),
     (''idempotencyExpiresAtMs'', JInt 86401000), (''assets'', JArr [JObj [(''id'', JStr
     (sample_id CHR ''a'')), (''direction'', JStr ''proposing_to_receiving''), (''sourceTeamId'',
     JStr (sample_id CHR ''1'')), (''destinationTeamId'', JStr (sample_id CHR ''2'')),
     (''inputType'', JStr ''contract''), (''assetType'', JStr ''contract''), (''contractId'', JStr
     (sample_id CHR ''a'')), (''playerId'', JNull), (''draftPickId'', JNull),
     (''retentionObligationId'', JNull), (''buyoutObligationId'', JNull),
     (''futureConsiderationId'', JNull), (''requestedRetentionContractId'', JNull),
     (''requestedRetentionCents'', JNull), (''futureConsiderationDescription'', JNull),
     (''sequence'', JInt 1), (''createdAtMs'', JInt 1000)], JObj [(''id'', JStr (sample_id CHR
     ''b'')), (''direction'', JStr ''proposing_to_receiving''), (''sourceTeamId'', JStr (sample_id
     CHR ''1'')), (''destinationTeamId'', JStr (sample_id CHR ''2'')), (''inputType'', JStr
     ''requested_retention''), (''assetType'', JStr ''requested_retention''), (''contractId'',
     JNull), (''playerId'', JNull), (''draftPickId'', JNull), (''retentionObligationId'', JNull),
     (''buyoutObligationId'', JNull), (''futureConsiderationId'', JNull),
     (''requestedRetentionContractId'', JStr (sample_id CHR ''a'')), (''requestedRetentionCents'',
     JInt 100), (''futureConsiderationDescription'', JNull), (''sequence'', JInt 2),
     (''createdAtMs'', JInt 1000)], JObj [(''id'', JStr (sample_id CHR ''c'')), (''direction'',
     JStr ''receiving_to_proposing''), (''sourceTeamId'', JStr (sample_id CHR ''2'')),
     (''destinationTeamId'', JStr (sample_id CHR ''1'')), (''inputType'', JStr ''draft_pick''),
     (''assetType'', JStr ''draft_pick''), (''contractId'', JNull), (''playerId'', JNull),
     (''draftPickId'', JStr (sample_id CHR ''b'')), (''retentionObligationId'', JNull),
     (''buyoutObligationId'', JNull), (''futureConsiderationId'', JNull),
     (''requestedRetentionContractId'', JNull), (''requestedRetentionCents'', JNull),
     (''futureConsiderationDescription'', JNull), (''sequence'', JInt 3), (''createdAtMs'', JInt
     1000)]])]"

definition sample_trade :: "trade_row" where
  "sample_trade =
     \<lparr>tr_id = sample_id CHR ''7'', tr_league_id = sample_id CHR ''3'', tr_season_id =
     sample_id CHR ''6'', tr_proposing_team_id = sample_id CHR ''1'', tr_receiving_team_id =
     sample_id CHR ''2'', tr_proposing_user_id = sample_id CHR ''4'', tr_creating_membership_id =
     Some (sample_id CHR ''5''), tr_creating_authority = Some ''manager'', tr_status =
     ''proposed'', tr_created_at_ms = 1000, tr_expires_at_ms = 604801000,
     tr_effective_deadline_at_ms = Some 5000, tr_responded_at_ms = None, tr_completed_at_ms =
     None, tr_commissioner_completion_reference = None, tr_proposal_model_version = 2,
     tr_updated_at_ms = 1000, tr_version = 1\<rparr>"

definition sample_assets :: "trade_asset_row list" where
  "sample_assets =
     [\<lparr>tar_id = sample_id CHR ''a'', tar_league_id = sample_id CHR ''3'', tar_trade_id =
     sample_id CHR ''7'', tar_direction = ''proposing_to_receiving'', tar_source_team_id =
     sample_id CHR ''1'', tar_destination_team_id = sample_id CHR ''2'', tar_asset_type =
     ''contract'', tar_contract_id = Some (sample_id CHR ''a''), tar_player_id = None,
     tar_draft_pick_id = None, tar_retention_obligation_id = None, tar_buyout_obligation_id =
     None, tar_future_consideration_id = None, tar_requested_retention_contract_id = None,
     tar_requested_retention_cents = None, tar_future_consideration_description = None,
     tar_proposal_snapshot = ContractSnapshot \<lparr>pv_id = sample_id CHR ''e'', pv_name =
     ''P''\<rparr> \<lparr>kv_id = sample_id CHR ''a'', kv_type = ''standard'',
     kv_originalTotalValueCents = 300, kv_originalTermYears = 1, kv_aavCents = 300,
     kv_startSeasonId = sample_id CHR ''6'', kv_auctionBuyoutLockExpiresAtMs = None, kv_version =
     4, kv_years = [\<lparr>yv_season_id = sample_id CHR ''6'', yv_year_number = 1, yv_aav_cents =
     300, yv_status = ''current''\<rparr>]\<rparr> \<lparr>ov_id = sample_id CHR ''d'', ov_teamId
     = sample_id CHR ''1'', ov_rosterCategory = ''Bench'', ov_positionGroup = ''F'', ov_slotNumber
     = Some 2, ov_version = 3\<rparr>, tar_asset_model_version = 2, tar_sequence = 1,
     tar_created_at_ms = 1000\<rparr>, \<lparr>tar_id = sample_id CHR ''b'', tar_league_id =
     sample_id CHR ''3'', tar_trade_id = sample_id CHR ''7'', tar_direction =
     ''proposing_to_receiving'', tar_source_team_id = sample_id CHR ''1'', tar_destination_team_id
     = sample_id CHR ''2'', tar_asset_type = ''requested_retention'', tar_contract_id = None,
     tar_player_id = None, tar_draft_pick_id = None, tar_retention_obligation_id = None,
     tar_buyout_obligation_id = None, tar_future_consideration_id = None,
     tar_requested_retention_contract_id = Some (sample_id CHR ''a''),
     tar_requested_retention_cents = Some 100, tar_future_consideration_description = None,
     tar_proposal_snapshot = RequestedSnapshot \<lparr>qw_contractId = sample_id CHR ''a'',
     qw_playerId = sample_id CHR ''e'', qw_retainingTeamId = sample_id CHR ''1'',
     qw_retainedAavCents = 100, qw_originalAavCents = 300, qw_cumulativeRetainedAavCents = 0,
     qw_retentionCeilingCents = 150\<rparr>, tar_asset_model_version = 2, tar_sequence = 2,
     tar_created_at_ms = 1000\<rparr>, \<lparr>tar_id = sample_id CHR ''c'', tar_league_id =
     sample_id CHR ''3'', tar_trade_id = sample_id CHR ''7'', tar_direction =
     ''receiving_to_proposing'', tar_source_team_id = sample_id CHR ''2'', tar_destination_team_id
     = sample_id CHR ''1'', tar_asset_type = ''draft_pick'', tar_contract_id = None, tar_player_id
     = None, tar_draft_pick_id = Some (sample_id CHR ''b''), tar_retention_obligation_id = None,
     tar_buyout_obligation_id = None, tar_future_consideration_id = None,
     tar_requested_retention_contract_id = None, tar_requested_retention_cents = None,
     tar_future_consideration_description = None, tar_proposal_snapshot = PickSnapshot
     \<lparr>kp_id = sample_id CHR ''b'', kp_draftId = sample_id CHR ''0'', kp_targetSeasonId =
     sample_id CHR ''6'', kp_targetSeasonLabel = ''S'', kp_roundNumber = 1, kp_positionNumber = 1,
     kp_originalTeamId = sample_id CHR ''2'', kp_currentOwnerTeamId = sample_id CHR ''2'',
     kp_version = 1\<rparr>, tar_asset_model_version = 2, tar_sequence = 3, tar_created_at_ms =
     1000\<rparr>]"

definition sample_creation :: "trade_event_row" where
  "sample_creation =
     \<lparr>tv_id = sample_id CHR ''8'', tv_league_id = sample_id CHR ''3'', tv_season_id =
     sample_id CHR ''6'', tv_trade_id = sample_id CHR ''7'', tv_actor_user_id = Some (sample_id
     CHR ''4''), tv_event_type = ''proposal_created'', tv_reason = None, tv_metadata =
     CreatedMetadata ''manager'' [sample_id CHR ''a'', sample_id CHR ''b'', sample_id CHR ''c'']
     None, tv_occurred_at_ms = 1000\<rparr>"

definition sample_proposed :: trade_store where
  "sample_proposed = sample_store\<lparr>td_trades := [sample_trade], td_assets := sample_assets,
     td_events := [sample_creation],
     td_requests := [\<lparr>rq_id = sample_id CHR ''9'', rq_league_id = sample_id CHR ''3'',
     rq_actor_user_id = sample_id CHR ''4'', rq_operation = ''trade.propose'', rq_client_key =
     ''k'', rq_request_hash = sample_hash ''3b'', rq_status = ''completed'', rq_result_type = Some
     ''trade'', rq_result_id = Some (sample_id CHR ''7''), rq_created_at_ms = 1000,
     rq_completed_at_ms = Some 1000, rq_expires_at_ms = 86401000\<rparr>]\<rparr>"

definition sample_proposal :: trade_result where
  "sample_proposal =
     \<lparr>rs_replayed = False, rs_trade = sample_trade, rs_event = sample_creation\<rparr>"

lemma sample_builds:
  "buildCommand sample_world (JObj (body_fields sample_body)) (JStr ''k'') = Inr sample_request"
  by code_simp

lemma sample_proposes:
  "createProposal sample_env sample_store (JObj sample_request) = Inr (sample_proposed, sample_proposal)"
  by code_simp

text \<open>Another proposal for the same pick is open when the first is accepted.\<close>

definition sample_rival :: trade_row where
  "sample_rival = sample_trade\<lparr>tr_id := sample_id CHR ''f'', tr_version := 1\<rparr>"

definition sample_rivals :: trade_store where
  "sample_rivals = sample_proposed\<lparr>
     td_trades := [sample_trade, sample_rival],
     td_assets := sample_assets @ map (\<lambda>a. a\<lparr>tar_id := sample_id CHR ''9'',
       tar_trade_id := sample_id CHR ''f''\<rparr>) (drop 2 sample_assets),
     td_events := [sample_creation, sample_creation\<lparr>tv_id := sample_id CHR ''e'',
       tv_trade_id := sample_id CHR ''f''\<rparr>]\<rparr>"

text \<open>The store after the acceptance, and its answer.\<close>

definition sample_completed :: "trade_row" where
  "sample_completed =
     \<lparr>tr_id = sample_id CHR ''7'', tr_league_id = sample_id CHR ''3'', tr_season_id =
     sample_id CHR ''6'', tr_proposing_team_id = sample_id CHR ''1'', tr_receiving_team_id =
     sample_id CHR ''2'', tr_proposing_user_id = sample_id CHR ''4'', tr_creating_membership_id =
     Some (sample_id CHR ''5''), tr_creating_authority = Some ''manager'', tr_status =
     ''completed'', tr_created_at_ms = 1000, tr_expires_at_ms = 604801000,
     tr_effective_deadline_at_ms = Some 5000, tr_responded_at_ms = Some 2000, tr_completed_at_ms =
     Some 2000, tr_commissioner_completion_reference = None, tr_proposal_model_version = 2,
     tr_updated_at_ms = 2000, tr_version = 2\<rparr>"

definition sample_acceptance :: "trade_event_row" where
  "sample_acceptance =
     \<lparr>tv_id = sample_id CHR ''1'', tv_league_id = sample_id CHR ''3'', tv_season_id =
     sample_id CHR ''6'', tv_trade_id = sample_id CHR ''7'', tv_actor_user_id = Some (sample_id
     CHR ''c''), tv_event_type = ''proposal_accepted'', tv_reason = None, tv_metadata =
     ExecutedMetadata ''accept'' ''manager'' ''proposed'' False [\<lparr>tw_teamId = sample_id CHR
     ''1'', tw_rosterCounts = \<lparr>rk_activeForwards = 0, rk_activeDefence = 0, rk_bench = 0,
     rk_injuredReserve = 0, rk_prospects = 0\<rparr>, tw_cap = \<lparr>pk_salaryCapCents = 10000,
     pk_activePlayerCapCents = 0, pk_retentionCapCents = 100, pk_buyoutCapCents = 0, pk_usageCents
     = 100, pk_spaceCents = 9900\<rparr>, tw_retentionSlots = 1, tw_issues = [],
     tw_generallyIllegal = False, tw_before = Some (\<lparr>pk_salaryCapCents = 10000,
     pk_activePlayerCapCents = 0, pk_retentionCapCents = 0, pk_buyoutCapCents = 0, pk_usageCents =
     0, pk_spaceCents = 10000\<rparr>, \<lparr>rk_activeForwards = 0, rk_activeDefence = 0,
     rk_bench = 1, rk_injuredReserve = 0, rk_prospects = 0\<rparr>, 0)\<rparr>, \<lparr>tw_teamId
     = sample_id CHR ''2'', tw_rosterCounts = \<lparr>rk_activeForwards = 1, rk_activeDefence = 0,
     rk_bench = 0, rk_injuredReserve = 0, rk_prospects = 0\<rparr>, tw_cap =
     \<lparr>pk_salaryCapCents = 10000, pk_activePlayerCapCents = 200, pk_retentionCapCents = 0,
     pk_buyoutCapCents = 0, pk_usageCents = 200, pk_spaceCents = 9800\<rparr>, tw_retentionSlots =
     0, tw_issues = [], tw_generallyIllegal = False, tw_before = Some (\<lparr>pk_salaryCapCents =
     10000, pk_activePlayerCapCents = 0, pk_retentionCapCents = 0, pk_buyoutCapCents = 0,
     pk_usageCents = 0, pk_spaceCents = 10000\<rparr>, \<lparr>rk_activeForwards = 0,
     rk_activeDefence = 0, rk_bench = 0, rk_injuredReserve = 0, rk_prospects = 0\<rparr>,
     0)\<rparr>] [\<lparr>pt_assetId = sample_id CHR ''a'', pt_assetType = ''contract'',
     pt_sourceTeamId = sample_id CHR ''1'', pt_destinationTeamId = sample_id CHR ''2'',
     pt_plannedRosterSlotNumber = Some 1, pt_plannedRosterCategory = Some ''Active''\<rparr>,
     \<lparr>pt_assetId = sample_id CHR ''b'', pt_assetType = ''requested_retention'',
     pt_sourceTeamId = sample_id CHR ''1'', pt_destinationTeamId = sample_id CHR ''2'',
     pt_plannedRosterSlotNumber = None, pt_plannedRosterCategory = None\<rparr>,
     \<lparr>pt_assetId = sample_id CHR ''c'', pt_assetType = ''draft_pick'', pt_sourceTeamId =
     sample_id CHR ''2'', pt_destinationTeamId = sample_id CHR ''1'', pt_plannedRosterSlotNumber =
     None, pt_plannedRosterCategory = None\<rparr>] [\<lparr>ot_sourceTeamId = sample_id CHR
     ''1'', ot_destinationTeamId = sample_id CHR ''2'', ot_sourceOwnershipId = sample_id CHR
     ''d'', ot_sourceOwnershipVersion = 3, ot_destinationOwnershipId = sample_uuid ''66'',
     ot_destinationOwnershipVersion = 1\<rparr>] [sample_id CHR ''f''], tv_occurred_at_ms =
     2000\<rparr>"

definition sample_executed :: trade_store where
  "sample_executed = sample_rivals\<lparr>
     td_trades := [sample_completed, settle_trade ''cancelled'' 2000 sample_rival],
     td_events := td_events sample_rivals @ [\<lparr>tv_id = sample_uuid ''55'', tv_league_id =
     sample_id CHR ''3'', tv_season_id = sample_id CHR ''6'', tv_trade_id = sample_id CHR ''f'',
     tv_actor_user_id = None, tv_event_type = ''proposal_auto_cancelled'', tv_reason = Some
     ''asset_transferred'', tv_metadata = CancelledMetadata (AcceptedTrade (sample_id CHR ''7'')) ''proposed''
     ''asset_transferred'', tv_occurred_at_ms = 2000\<rparr>, sample_acceptance],
     td_requests := td_requests sample_proposed @ [\<lparr>rq_id = sample_id CHR ''2'',
     rq_league_id = sample_id CHR ''3'', rq_actor_user_id = sample_id CHR ''c'', rq_operation =
     ''trade.accept'', rq_client_key = ''k2'', rq_request_hash = sample_hash ''ef'', rq_status =
     ''completed'', rq_result_type = Some ''trade'', rq_result_id = Some (sample_id CHR ''7''),
     rq_created_at_ms = 2000, rq_completed_at_ms = Some 2000, rq_expires_at_ms = 90000\<rparr>],
     td_ownerships := [\<lparr>po_id = sample_uuid ''66'', po_league_id = sample_id CHR ''3'',
     po_season_id = sample_id CHR ''6'', po_player_id = sample_id CHR ''e'', po_team_id =
     sample_id CHR ''2'', po_ownership_kind = ''Rostered'', po_roster_category = ''Active'',
     po_position_group = ''F'', po_slot_number = Some 1, po_acquired_transaction_type =
     ''trade_execution'', po_acquired_transaction_id = Some (sample_id CHR ''7''),
     po_created_at_ms = 2000, po_updated_at_ms = 2000, po_version = 1\<rparr>],
     td_contracts := [\<lparr>c_id = sample_id CHR ''a'', c_league_id = sample_id CHR ''3'',
     c_player_id = sample_id CHR ''e'', c_current_team_id = sample_id CHR ''2'', c_contract_type =
     ''standard'', c_original_total_value_cents = 300, c_original_term_years = 1, c_aav_cents =
     300, c_start_season_id = sample_id CHR ''6'', c_status = ''active'',
     c_acquisition_source_type = ''x'', c_acquisition_source_id = None,
     c_auction_buyout_lock_expires_at_ms = None, c_created_at_ms = 1, c_updated_at_ms = 2000,
     c_version = 5\<rparr>],
     td_picks := [\<lparr>dp_id = sample_id CHR ''b'', dp_league_id = sample_id CHR ''3'',
     dp_draft_id = sample_id CHR ''0'', dp_target_season_id = sample_id CHR ''6'', dp_round_number
     = 1, dp_position_number = 1, dp_original_team_id = sample_id CHR ''2'',
     dp_current_owner_team_id = sample_id CHR ''1'', dp_status = ''unused'', dp_selection_id =
     None, dp_created_at_ms = 1, dp_updated_at_ms = 2000, dp_version = 2\<rparr>],
     td_retentions := [\<lparr>ro_id = sample_id CHR ''b'', ro_league_id = sample_id CHR ''3'',
     ro_contract_id = sample_id CHR ''a'', ro_player_id = sample_id CHR ''e'',
     ro_originating_team_id = sample_id CHR ''1'', ro_responsible_team_id = sample_id CHR ''1'',
     ro_retained_aav_cents = 100, ro_creation_trade_id = sample_id CHR ''7'', ro_status =
     ''active'', ro_created_at_ms = 2000, ro_updated_at_ms = 2000, ro_version = 1\<rparr>],
     td_retention_years := [\<lparr>roy_id = sample_uuid ''7d'', roy_league_id = sample_id CHR
     ''3'', roy_retention_obligation_id = sample_id CHR ''b'', roy_season_id = sample_id CHR
     ''6'', roy_retained_aav_cents = 100, roy_status = ''current'', roy_created_at_ms =
     2000\<rparr>],
     td_ownership_events := [\<lparr>oe_id = sample_uuid ''57'', oe_league_id = sample_id CHR
     ''3'', oe_season_id = sample_id CHR ''6'', oe_player_id = sample_id CHR ''e'', oe_team_id =
     sample_id CHR ''1'', oe_ownership_id = sample_id CHR ''d'', oe_event_type =
     ''trade_transfer_out'', oe_actor_user_id = Some (sample_id CHR ''c''), oe_source_type =
     ''trade'', oe_source_id = sample_id CHR ''7'', oe_before = OwnershipExists \<lparr>os_id =
     sample_id CHR ''d'', os_leagueId = sample_id CHR ''3'', os_seasonId = sample_id CHR ''6'',
     os_playerId = sample_id CHR ''e'', os_teamId = sample_id CHR ''1'', os_ownershipKind =
     ''Rostered'', os_rosterCategory = ''Bench'', os_positionGroup = ''F'', os_slotNumber = Some
     2, os_version = 3\<rparr>, oe_after = OwnershipClosedTo (sample_uuid ''66''), oe_reason =
     None, oe_occurred_at_ms = 2000\<rparr>, \<lparr>oe_id = sample_uuid ''56'', oe_league_id =
     sample_id CHR ''3'', oe_season_id = sample_id CHR ''6'', oe_player_id = sample_id CHR ''e'',
     oe_team_id = sample_id CHR ''2'', oe_ownership_id = sample_uuid ''66'', oe_event_type =
     ''trade_transfer_in'', oe_actor_user_id = Some (sample_id CHR ''c''), oe_source_type =
     ''trade'', oe_source_id = sample_id CHR ''7'', oe_before = OwnershipOpenedFrom (sample_id CHR
     ''d''), oe_after = OwnershipExists \<lparr>os_id = sample_uuid ''66'', os_leagueId =
     sample_id CHR ''3'', os_seasonId = sample_id CHR ''6'', os_playerId = sample_id CHR ''e'',
     os_teamId = sample_id CHR ''2'', os_ownershipKind = ''Rostered'', os_rosterCategory =
     ''Active'', os_positionGroup = ''F'', os_slotNumber = Some 1, os_version = 1\<rparr>,
     oe_reason = None, oe_occurred_at_ms = 2000\<rparr>],
     td_contract_events := [\<lparr>ce_id = sample_uuid ''52'', ce_league_id = sample_id CHR
     ''3'', ce_contract_id = sample_id CHR ''a'', ce_player_id = sample_id CHR ''e'', ce_team_id =
     sample_id CHR ''2'', ce_actor_user_id = Some (sample_id CHR ''c''), ce_event_type =
     ''trade_transfer'', ce_source_type = ''trade'', ce_source_id = Some (sample_id CHR ''7''),
     ce_metadata_json = json_object [(''schemaVersion'', JInt 1), (''fromTeamId'', JStr (sample_id
     CHR ''1'')), (''toTeamId'', JStr (sample_id CHR ''2'')), (''termsUnchanged'', JBool True)],
     ce_reason = None, ce_occurred_at_ms = 2000\<rparr>],
     td_pick_events := [\<lparr>pe_id = sample_uuid ''54'', pe_league_id = sample_id CHR ''3'',
     pe_draft_pick_id = sample_id CHR ''b'', pe_from_team_id = Some (sample_id CHR ''2''),
     pe_to_team_id = sample_id CHR ''1'', pe_trade_id = Some (sample_id CHR ''7''),
     pe_actor_user_id = Some (sample_id CHR ''c''), pe_event_type = ''trade_transfer'',
     pe_occurred_at_ms = 2000\<rparr>]\<rparr>"

definition sample_execution :: trade_result where
  "sample_execution =
     \<lparr>rs_replayed = False, rs_trade = sample_completed, rs_event = sample_acceptance\<rparr>"

lemma sample_executes:
  "executeAcceptance sample_env sample_rivals (JObj sample_accept) = Inr (sample_executed, sample_execution)"
  by code_simp

text \<open>The same acceptance after the player moved to another roster slot of his team.\<close>

definition sample_moved :: trade_store where
  "sample_moved = sample_rivals\<lparr>td_ownerships :=
     map (\<lambda>q. q\<lparr>po_slot_number := Some 3, po_version := 4\<rparr>) (td_ownerships sample_rivals)\<rparr>"

lemma sample_stuck:
  "executeAcceptance sample_env sample_moved (JObj sample_accept) = Inl (TradeRepoFailure RepoSchemaIncompatible)"
  by code_simp

end
