(* ===== verification/TradeLedger.thy ===== *)
theory TradeLedger
  imports TradeSamples
begin

text \<open>
  The history of trades: every operation of the repositories advances a trade by one version and
  one event at a time, and settles it at most once. The rows of trades and events form a ledger;
  \<open>ledger owed st\<close> says that it balances once the events \<open>owed\<close> are written, so that it can be
  followed through transactions that settle a trade first and record the event last.
\<close>

section \<open>The ledger\<close>

type_synonym trade_key = "string \<times> string"

definition trade_key :: "trade_row \<Rightarrow> trade_key" where
  "trade_key t = (tr_league_id t, tr_id t)"

definition event_key :: "trade_event_row \<Rightarrow> trade_key \<times> string" where
  "event_key e = ((tv_league_id e, tv_trade_id e), tv_event_type e)"

text \<open>The status that an event settles its trade with.\<close>

definition outcome_of :: "string \<Rightarrow> string option" where
  "outcome_of eventType =
     map_of [(''proposal_rejected'', ''declined''), (''proposal_cancelled'', ''cancelled''),
       (''proposal_auto_cancelled'', ''cancelled''), (''proposal_accepted'', ''completed''),
       (''proposal_expired'', ''expired'')] eventType"

definition types_of :: "(trade_key \<times> string) multiset \<Rightarrow> trade_key \<Rightarrow> string multiset" where
  "types_of E k = image_mset snd (filter_mset (\<lambda>e. fst e = k) E)"

definition outcomes :: "string multiset \<Rightarrow> string option multiset" where
  "outcomes M = filter_mset (\<lambda>x. x \<noteq> None) (image_mset outcome_of M)"

definition settled :: "trade_row \<Rightarrow> string option multiset" where
  "settled t = (if tr_status t = ''proposed'' then {#} else {#Some (tr_status t)#})"

definition accounted :: "(trade_key \<times> string) multiset \<Rightarrow> trade_row \<Rightarrow> bool" where
  "accounted E t \<longleftrightarrow>
     tr_version t = int (size (types_of E (trade_key t))) \<and>
     outcomes (types_of E (trade_key t)) = settled t"

definition balanced :: "trade_row list \<Rightarrow> (trade_key \<times> string) multiset \<Rightarrow> bool" where
  "balanced trades E \<longleftrightarrow>
     distinct (map tr_id trades) \<and> fst ` set_mset E \<subseteq> trade_key ` set trades \<and>
     (\<forall>t \<in> set trades. accounted E t)"

definition ledger :: "(trade_key \<times> string) multiset \<Rightarrow> trade_store \<Rightarrow> bool" where
  "ledger owed st \<longleftrightarrow> balanced (td_trades st) (mset (map event_key (td_events st)) + owed)"

lemma types_of_add [simp]:
  "types_of (add_mset (k, ty) E) k' = (if k = k' then add_mset ty (types_of E k') else types_of E k')"
  by (simp add: types_of_def)

lemma types_of_unknown: "k \<notin> fst ` set_mset E \<Longrightarrow> types_of E k = {#}"
  by (force simp: types_of_def image_iff)

lemma outcomes_add [simp]:
  "outcomes (add_mset ty M) = (if outcome_of ty = None then outcomes M else add_mset (outcome_of ty) (outcomes M))"
  by (simp add: outcomes_def)

lemma outcomes_empty [simp]: "outcomes {#} = {#}"
  by (simp add: outcomes_def)

text \<open>A new trade comes with its first event, and one event advances an open trade.\<close>

lemma balanced_open:
  assumes "balanced trades E" and "tr_id t \<notin> tr_id ` set trades"
    and "tr_status t = ''proposed''" and "tr_version t = 1" and "outcome_of ty = None"
  shows "balanced (trades @ [t]) (add_mset (trade_key t, ty) E)"
proof -
  have new: "trade_key t \<notin> trade_key ` set trades" using assms(2) by (auto simp: trade_key_def)
  then have "trade_key t \<notin> fst ` set_mset E" using assms(1) unfolding balanced_def by blast
  then have "accounted (add_mset (trade_key t, ty) E) t"
    using assms(3-5) by (simp add: accounted_def types_of_unknown settled_def)
  moreover have "accounted (add_mset (trade_key t, ty) E) s" if "s \<in> set trades" for s
  proof -
    have "trade_key t \<noteq> trade_key s" using new that by (metis image_eqI)
    then show ?thesis using assms(1) that by (auto simp: balanced_def accounted_def)
  qed
  ultimately show ?thesis using assms(1,2) by (auto simp: balanced_def)
qed

definition advances :: "(trade_row \<Rightarrow> trade_row) \<Rightarrow> string \<Rightarrow> trade_row \<Rightarrow> bool" where
  "advances f ty t \<longleftrightarrow>
     tr_id (f t) = tr_id t \<and> tr_league_id (f t) = tr_league_id t \<and>
     tr_version (f t) = tr_version t + 1 \<and>
     (case outcome_of ty of None \<Rightarrow> tr_status (f t) = ''proposed''
      | Some s \<Rightarrow> tr_status (f t) = s \<and> s \<noteq> ''proposed'')"

lemma balanced_advance:
  assumes bal: "balanced trades E" and one: "length (filter p trades) = 1"
    and p: "\<And>t. p t \<Longrightarrow> trade_key t = k \<and> tr_status t = ''proposed'' \<and> advances f ty t"
  shows "balanced (update_rows p f trades) (add_mset (k, ty) E)"
proof -
  obtain r where r: "filter p trades = [r]" using one by (auto simp: length_Suc_conv)
  have "r \<in> set (filter p trades)" unfolding r by simp
  then have rp: "r \<in> set trades" "p r" by simp_all
  have key: "trade_key (if p t then f t else t) = trade_key t" for t
    using p [of t] by (auto simp: advances_def trade_key_def)
  have ids: "map tr_id (update_rows p f trades) = map tr_id trades"
    using p by (auto simp: update_rows_def advances_def)
  have "accounted (add_mset (k, ty) E) (if p t then f t else t)" if t: "t \<in> set trades" for t
  proof (cases "p t")
    case True
    have "accounted E t" using bal t by (simp add: balanced_def)
    then show ?thesis using p [OF True] key [of t] True
      by (auto simp: accounted_def settled_def advances_def split: option.splits)
  next
    case False
    have "k \<noteq> trade_key t"
    proof
      assume "k = trade_key t"
      then have "tr_id t = tr_id r" using p [OF rp(2)] by (simp add: trade_key_def)
      then have "t = r" using bal t rp(1) unfolding balanced_def by (metis eq_key_imp_eq_value inj_on_eq_iff distinct_map)
      with False rp(2) show False by simp
    qed
    then show ?thesis using False bal t by (auto simp: balanced_def accounted_def)
  qed
  moreover have "trade_key ` set (update_rows p f trades) = trade_key ` set trades"
    unfolding update_rows_def set_map image_image key ..
  moreover have "k \<in> trade_key ` set trades" using p [OF rp(2)] rp(1) by (metis image_eqI)
  moreover have "set (update_rows p f trades) = (\<lambda>t. if p t then f t else t) ` set trades"
    by (simp add: update_rows_def)
  ultimately show ?thesis using bal ids unfolding balanced_def
    by (metis (no_types, lifting) fst_conv imageE image_insert insert_subset set_mset_add_mset_insert)
qed

section \<open>What the statements do to the ledger\<close>

lemma ledger_update:
  assumes "ledger owed st" and "length (filter p (td_trades st)) = 1"
    and "\<And>t. p t \<Longrightarrow> trade_key t = k \<and> tr_status t = ''proposed'' \<and> advances f ty t"
    and "td_trades st' = update_rows p f (td_trades st)" and "td_events st' = td_events st"
  shows "ledger (add_mset (k, ty) owed) st'"
  using balanced_advance [OF assms(1) [unfolded ledger_def] assms(2,3)] assms(4,5)
  by (simp add: ledger_def)

lemma ledger_event:
  assumes "insertEvent env e st = Inr st'" and "ledger (add_mset (event_key e) owed) st"
  shows "ledger owed st'"
  using assms by (auto simp: insertEvent_def ledger_def result_iffs check_iffs)

definition same_ledger :: "trade_store \<Rightarrow> trade_store \<Rightarrow> bool" where
  "same_ledger st st' \<longleftrightarrow>
     td_trades st' = td_trades st \<and> td_events st' = td_events st \<and> td_assets st' = td_assets st"

lemma same_ledger_refl [simp]: "same_ledger st st"
  by (simp add: same_ledger_def)

lemma same_ledger_trans: "same_ledger st st' \<Longrightarrow> same_ledger st' st'' \<Longrightarrow> same_ledger st st''"
  by (simp add: same_ledger_def)

lemma ledger_frame: "same_ledger st st' \<Longrightarrow> ledger owed st' \<longleftrightarrow> ledger owed st"
  by (simp add: same_ledger_def ledger_def)

named_theorems ledger_frames "operations that leave trades, their assets and events alone"

lemma insertRequest_frame [ledger_frames]:
  "insertRequest env i l a oper k h n x st = Inr st' \<Longrightarrow> same_ledger st st'"
  by (auto simp: insertRequest_def same_ledger_def result_iffs check_iffs)

lemma completeRequest_frame [ledger_frames]:
  "completeRequest env e i l t n st = Inr st' \<Longrightarrow> same_ledger st st'"
  by (auto simp: completeRequest_def same_ledger_def result_iffs check_iffs)

lemma complete_execution_frame [ledger_frames]:
  "complete_execution env e c st = Inr st' \<Longrightarrow> same_ledger st st'"
  unfolding complete_execution_def by (rule completeRequest_frame)

lemma respond_frame [ledger_frames]:
  "respond env l t a m n team d st = Inr st' \<Longrightarrow> same_ledger st st'"
  by (auto simp: respond_def same_ledger_def result_iffs check_iffs)

lemma acknowledge_frame [ledger_frames]:
  "acknowledge env st l t a r rt n = Inr (st', team) \<Longrightarrow> same_ledger st st'"
  by (auto simp: acknowledge_def same_ledger_def result_iffs check_iffs split: list.splits if_splits)

lemma publish_Inr [check_iffs]: "publish env i st = Inr st' \<longleftrightarrow> te_publish env i = None \<and> st' = st"
  by (cases "te_publish env i") (auto simp: publish_def)

lemma foldE_same_ledger:
  assumes "foldE f st xs = Inr st'" and "\<And>s x s'. f s x = Inr s' \<Longrightarrow> same_ledger s s'"
  shows "same_ledger st st'"
  using assms(1) by (rule foldE_invariant) (auto intro: same_ledger_trans assms(2))

lemma create_participants_frame [ledger_frames]:
  assumes "create_participants env c st = Inr st'"
  shows "same_ledger st st'"
proof (cases "cc_participantTeamIds c")
  case (Some ids)
  with assms have "foldE (\<lambda>s (index, teamId).
      bindE (insert_row tp_id (new_participant env c index teamId) (td_participants s)) (\<lambda>rows.
      written env (s\<lparr>td_participants := rows\<rparr>))) st (enumerate 0 ids) = Inr st'"
    by (simp add: create_participants_def split: if_splits)
  then show ?thesis
    by (rule foldE_same_ledger) (auto simp: result_iffs check_iffs same_ledger_def)
qed (use assms in \<open>simp add: create_participants_def\<close>)

lemma insert_assets_ledger:
  assumes "insert_assets env rows st = Inr st'"
  shows "ledger owed st' \<longleftrightarrow> ledger owed st"
  using assms unfolding insert_assets_def
  by (rule foldE_invariant) (auto simp: result_iffs check_iffs ledger_def)

lemma close_tenure_frame [ledger_frames]:
  "close_tenure env c st p = Inr st' \<Longrightarrow> same_ledger st st'"
  by (auto simp: close_tenure_def same_ledger_def result_iffs check_iffs)

lemma open_tenure_frame [ledger_frames]:
  "open_tenure env c st p = Inr st' \<Longrightarrow> same_ledger st st'"
  by (auto simp: open_tenure_def same_ledger_def result_iffs check_iffs)

lemma move_contract_frame [ledger_frames]:
  "move_contract env c row i v st = Inr st' \<Longrightarrow> same_ledger st st'"
  by (auto simp: move_contract_def same_ledger_def result_iffs check_iffs)

lemma insert_contract_event_frame [ledger_frames]:
  "insert_contract_event env c row i p extra st = Inr st' \<Longrightarrow> same_ledger st st'"
  by (auto simp: insert_contract_event_def same_ledger_def result_iffs check_iffs)

lemma insertOwnershipTenureEvents_frame [ledger_frames]:
  "insertOwnershipTenureEvents env c st p t = Inr st' \<Longrightarrow> same_ledger st st'"
  by (auto simp: insertOwnershipTenureEvents_def Let_def same_ledger_def result_iffs check_iffs)

lemma move_pick_frame [ledger_frames]:
  "move_pick env c row v st = Inr st' \<Longrightarrow> same_ledger st st'"
  by (auto simp: move_pick_def same_ledger_def result_iffs check_iffs)

lemma move_retention_frame [ledger_frames]:
  "move_retention env c row v st = Inr st' \<Longrightarrow> same_ledger st st'"
  by (auto simp: move_retention_def same_ledger_def result_iffs check_iffs)

lemma move_buyout_frame [ledger_frames]:
  "move_buyout env c row v st = Inr st' \<Longrightarrow> same_ledger st st'"
  by (auto simp: move_buyout_def same_ledger_def result_iffs check_iffs)

lemma create_retention_frame [ledger_frames]:
  assumes "create_retention env c row v st = Inr st'"
  shows "same_ledger st st'"
proof -
  obtain rows where "foldE (\<lambda>s y. bindE (insert_row roy_id
       \<lparr>roy_id = deterministicUuid env (ex_tradeId c @ '':retention-year:'' @ tar_id row @ '':'' @
          cy_season_id y),
        roy_league_id = ex_leagueId c, roy_retention_obligation_id = tar_id row,
        roy_season_id = cy_season_id y, roy_retained_aav_cents = qw_retainedAavCents v,
        roy_status = cy_status y, roy_created_at_ms = ex_occurredAtMs c\<rparr> (td_retention_years s))
     (\<lambda>rows. written env (s\<lparr>td_retention_years := rows\<rparr>))) (st\<lparr>td_retentions := rows\<rparr>)
     (filter (\<lambda>y. cy_status y \<in> {''current'', ''future''})
        (listContractYears (st\<lparr>td_retentions := rows\<rparr>) (ex_leagueId c) (qw_contractId v))) = Inr st'"
    using assms by (auto simp: create_retention_def result_iffs check_iffs)
  then have "same_ledger (st\<lparr>td_retentions := rows\<rparr>) st'"
    by (rule foldE_same_ledger) (auto simp: result_iffs check_iffs same_ledger_def)
  then show ?thesis by (simp add: same_ledger_def)
qed

lemma create_consideration_frame [ledger_frames]:
  "create_consideration env c row d st = Inr st' \<Longrightarrow> same_ledger st st'"
  by (auto simp: create_consideration_def same_ledger_def result_iffs check_iffs)

lemma move_consideration_frame [ledger_frames]:
  "move_consideration env c row v st = Inr st' \<Longrightarrow> same_ledger st st'"
  by (auto simp: move_consideration_def Let_def same_ledger_def result_iffs check_iffs)

text \<open>The branches of the execution loop that succeed.\<close>

lemma apply_asset_cases:
  assumes "apply_asset env c st p = Inr st'"
  obtains
    (contract) player k q t s1 s2 where "tar_asset_type (pa_row p) = ''contract''"
      "pa_current p = ContractSnapshot player k q" "tenure_of env (ex_tradeId c) p = Inr t"
      "move_contract env c (pa_row p) (kv_id k) (kv_version k) st = Inr s1"
      "insertOwnershipTenureEvents env c s1 p t = Inr s2"
      "insert_contract_event env c (pa_row p) (kv_id k) (pv_id player) [] s2 = Inr st'"
  | (prospect) t where "tar_asset_type (pa_row p) = ''prospect_right''"
      "tenure_of env (ex_tradeId c) p = Inr t" "insertOwnershipTenureEvents env c st p t = Inr st'"
  | (entry_level) player q e t s1 s2 where "tar_asset_type (pa_row p) = ''prospect_right''"
      "pa_current p = ProspectSnapshot player q (Some e)" "tenure_of env (ex_tradeId c) p = Inr t"
      "insertOwnershipTenureEvents env c st p t = Inr s1"
      "move_contract env c (pa_row p) (el_contractId e) (el_version e) s1 = Inr s2"
      "insert_contract_event env c (pa_row p) (el_contractId e) (pv_id player)
         [(''prospectStatusPreserved'', JBool True)] s2 = Inr st'"
  | (pick) v where "tar_asset_type (pa_row p) = ''draft_pick''" "pa_current p = PickSnapshot v"
      "move_pick env c (pa_row p) v st = Inr st'"
  | (retention) v where "tar_asset_type (pa_row p) = ''retention_obligation''"
      "pa_current p = RetentionSnapshot v" "move_retention env c (pa_row p) v st = Inr st'"
  | (buyout) v where "tar_asset_type (pa_row p) = ''buyout_obligation''"
      "pa_current p = BuyoutSnapshot v" "move_buyout env c (pa_row p) v st = Inr st'"
  | (requested) v where "tar_asset_type (pa_row p) = ''requested_retention''"
      "pa_current p = RequestedSnapshot v" "create_retention env c (pa_row p) v st = Inr st'"
  | (instruction) d where "tar_asset_type (pa_row p) = ''future_consideration''"
      "tar_future_consideration_description (pa_row p) = Some d"
      "create_consideration env c (pa_row p) d st = Inr st'"
  | (consideration) v where "tar_asset_type (pa_row p) = ''future_consideration''"
      "tar_future_consideration_description (pa_row p) = None"
      "pa_current p = ConsiderationSnapshot v" "move_consideration env c (pa_row p) v st = Inr st'"
proof -
  consider (contract) "tar_asset_type (pa_row p) = ''contract''"
    | (prospect) "tar_asset_type (pa_row p) = ''prospect_right''"
    | (pick) "tar_asset_type (pa_row p) = ''draft_pick''"
    | (retention) "tar_asset_type (pa_row p) = ''retention_obligation''"
    | (buyout) "tar_asset_type (pa_row p) = ''buyout_obligation''"
    | (requested) "tar_asset_type (pa_row p) = ''requested_retention''"
    | (consideration) "tar_asset_type (pa_row p) = ''future_consideration''"
    using assms by (auto simp: apply_asset_def Let_def split: if_splits)
  then show thesis
  proof cases
    case contract
    with assms show thesis
      by (cases "pa_current p") (auto simp: apply_asset_def Let_def result_iffs intro: that(1))
  next
    case prospect
    then obtain t s1 where t: "tenure_of env (ex_tradeId c) p = Inr t"
        "insertOwnershipTenureEvents env c st p t = Inr s1"
      and rest: "(case pa_current p of
          ProspectSnapshot player q (Some e) \<Rightarrow>
            bindE (move_contract env c (pa_row p) (el_contractId e) (el_version e) s1) (\<lambda>st.
            insert_contract_event env c (pa_row p) (el_contractId e) (pv_id player)
              [(''prospectStatusPreserved'', JBool True)] st)
        | _ \<Rightarrow> Inr s1) = Inr st'"
      using assms by (auto simp: apply_asset_def Let_def result_iffs)
    show thesis
    proof (cases "\<exists>player q e. pa_current p = ProspectSnapshot player q (Some e)")
      case True
      with rest t prospect show thesis by (auto simp: result_iffs intro: that(3))
    next
      case False
      then have "s1 = st'" using rest by (auto split: snapshot.splits option.splits)
      with t prospect show thesis by (auto intro: that(2))
    qed
  next
    case consideration
    with assms show thesis
      by (cases "tar_future_consideration_description (pa_row p)"; cases "pa_current p")
        (auto simp: apply_asset_def Let_def intro: that(8,9))
  next
    case pick
    with assms show thesis by (cases "pa_current p") (simp_all add: apply_asset_def Let_def that(4))
  next
    case retention
    with assms show thesis by (cases "pa_current p") (simp_all add: apply_asset_def Let_def that(5))
  next
    case buyout
    with assms show thesis by (cases "pa_current p") (simp_all add: apply_asset_def Let_def that(6))
  next
    case requested
    with assms show thesis by (cases "pa_current p") (simp_all add: apply_asset_def Let_def that(7))
  qed
qed

lemma apply_asset_frame [ledger_frames]:
  assumes "apply_asset env c st p = Inr st'"
  shows "same_ledger st st'"
  using assms by (cases rule: apply_asset_cases)
    (auto dest!: ledger_frames intro: same_ledger_trans)

lemma move_assets_frame [ledger_frames]:
  assumes "move_assets env c assets st = Inr st'"
  shows "same_ledger st st'"
proof -
  let ?players = "filter (\<lambda>p. moves_player (pa_row p)) assets"
  obtain s1 s2 where "foldE (close_tenure env c) st ?players = Inr s1"
    "foldE (open_tenure env c) s1 ?players = Inr s2" "foldE (apply_asset env c) s2 assets = Inr st'"
    using assms by (auto simp: move_assets_def Let_def result_iffs)
  then have "same_ledger st s1" "same_ledger s1 s2" "same_ledger s2 st'"
    by (auto elim!: foldE_same_ledger dest: ledger_frames)
  then show ?thesis by (metis same_ledger_trans)
qed

section \<open>What the operations do to the ledger\<close>

lemma cancelPending_ledger:
  assumes "cancelPending env i l conflict acc s reason n st = Inr (st', done)" and "ledger owed st"
  shows "ledger owed st'"
proof (cases "done")
  case False
  with assms show ?thesis
    by (auto simp: cancelPending_def Let_def result_iffs check_iffs split: if_splits)
next
  case True
  let ?p = "\<lambda>t. tr_league_id t = l \<and> tr_id t = tr_id conflict \<and> tr_status t = ''proposed'' \<and>
    tr_version t = tr_version conflict"
  let ?st = "st\<lparr>td_trades := update_rows ?p (settle_trade ''cancelled'' n) (td_trades st)\<rparr>"
  obtain e where one: "length (filter ?p (td_trades st)) = 1" and e: "insertEvent env e ?st = Inr st'"
      "event_key e = ((l, tr_id conflict), ''proposal_auto_cancelled'')"
    using assms(1) True
    by (auto simp: cancelPending_def Let_def result_iffs check_iffs event_key_def split: if_splits)
  have "ledger (add_mset ((l, tr_id conflict), ''proposal_auto_cancelled'') owed) ?st"
    by (rule ledger_update [OF assms(2) one, where f = "settle_trade ''cancelled'' n"])
      (auto simp: trade_key_def advances_def settle_trade_def outcome_of_def)
  then show ?thesis using ledger_event [OF e(1)] e(2) by simp
qed

lemma write_lifecycle_ledger:
  assumes "write_lifecycle env c status team answers st = Inr st'" and "ledger {#} st"
  shows "ledger {#} st'"
proof -
  let ?p = "open_as st (lc_leagueId c) (lc_tradeId c) status (lc_expectedVersion c)"
  let ?f = "settle_trade (lifecycleStorageStatus (lc_action c)) (lc_occurredAtMs c)"
  let ?k = "(lc_leagueId c, lc_tradeId c)"
  obtain s1 where s1: "(if answers
        then respond env (lc_leagueId c) (lc_tradeId c) (lc_actorUserId c) (lc_actorMembershipId c)
               (lc_occurredAtMs c) team ''declined'' st
        else Inr st) = Inr s1"
    using assms(1) by (auto simp: write_lifecycle_def Let_def result_iffs)
  then have f1: "same_ledger st s1" by (cases answers) (auto dest: ledger_frames)
  obtain e s2 s3 where s2: "length (filter (open_as s1 (lc_leagueId c) (lc_tradeId c) status (lc_expectedVersion c)) (td_trades s1)) = 1"
      "s2 = s1\<lparr>td_trades := update_rows (open_as s1 (lc_leagueId c) (lc_tradeId c) status (lc_expectedVersion c)) ?f (td_trades s1)\<rparr>"
    and s3: "insertEvent env e s2 = Inr s3" "event_key e = (?k, lifecycleEventType (lc_action c))"
      "same_ledger s3 st'"
    using assms(1) s1
    by (auto simp: write_lifecycle_def Let_def result_iffs check_iffs event_key_def dest!: completeRequest_frame)
  have "ledger (add_mset (?k, lifecycleEventType (lc_action c)) {#}) s2"
    unfolding s2(2)
    by (rule ledger_update [OF _ s2(1), where f = ?f])
      (use f1 assms(2) in \<open>auto simp: ledger_frame trade_key_def open_as_def advances_def settle_trade_def
         outcome_of_def lifecycleEventType_def lifecycleStorageStatus_def\<close>)
  then show ?thesis using ledger_event [OF s3(1)] s3(2,3) by (simp add: ledger_frame)
qed

lemma lifecycleTransaction_ledger:
  assumes "lifecycleTransaction env st raw = Inr (st', res)" and "ledger {#} st"
  shows "ledger {#} st'"
  using assms
  by (auto simp: lifecycleTransaction_def Let_def result_iffs check_iffs ledger_frame
      dest!: insertRequest_frame split: option.splits if_splits elim!: write_lifecycle_ledger)

lemma trade_key_new_trade [simp]:
  "trade_key (new_trade c) = (cf_leagueId (cc_foundation c), cf_proposalId (cc_foundation c))"
  by (simp add: trade_key_def new_trade_def Let_def)

lemma write_creation_ledger:
  assumes "write_creation env c counter entries st = Inr st'" and "ledger {#} st"
  shows "ledger {#} st'"
proof -
  let ?t = "new_trade c"
  obtain e s0 s1 s2 where fresh: "tr_id ?t \<notin> tr_id ` set (td_trades st)"
    and s0: "create_participants env c (st\<lparr>td_trades := td_trades st @ [?t]\<rparr>) = Inr s0"
      "insert_assets env (map (new_asset_row c) entries) s0 = Inr s1"
    and s2: "insertEvent env e s1 = Inr s2" "event_key e = (trade_key ?t, ''proposal_created'')"
      "same_ledger s2 st'"
    using assms(1)
    by (auto simp: write_creation_def Let_def result_iffs check_iffs event_key_def
        dest!: completeRequest_frame)

  have "ledger (add_mset (trade_key ?t, ''proposal_created'') {#}) (st\<lparr>td_trades := td_trades st @ [?t]\<rparr>)"
    using balanced_open [OF assms(2) [unfolded ledger_def] fresh, where ty = "''proposal_created''"]
    by (simp add: ledger_def new_trade_def Let_def outcome_of_def)
  then have "ledger (add_mset (event_key e) {#}) s1"
    using s0 s2(2) by (simp add: insert_assets_ledger ledger_frame [OF create_participants_frame])
  then show ?thesis using ledger_event [OF s2(1)] s2(3) by (simp add: ledger_frame)
qed

lemma answer_original_ledger:
  assumes "answer_original env c original st = Inr st'" and "ledger {#} st"
  shows "ledger {#} st'"
  using assms
  by (auto simp: answer_original_def Let_def result_iffs split: option.splits if_splits
      dest!: acknowledge_frame elim!: lifecycleTransaction_ledger simp: ledger_frame)

lemma createTransaction_ledger:
  assumes "createTransaction env st raw counter = Inr (st', res)" and "ledger {#} st"
  shows "ledger {#} st'"
  using assms
  by (auto simp: createTransaction_def Let_def result_iffs check_iffs ledger_frame
      dest!: insertRequest_frame split: option.splits if_splits
      elim!: answer_original_ledger write_creation_ledger)

lemma event_key_execution [simp]:
  "event_key (execution_event c ty m) = ((ex_leagueId c, ex_tradeId c), ty)"
  by (simp add: event_key_def execution_event_def)

lemma record_answer_ledger:
  assumes "record_answer env c team preview st = Inr st'" and "ledger {#} st"
  shows "ledger {#} st'"
proof -
  let ?k = "(ex_leagueId c, ex_tradeId c)"
  let ?p = "\<lambda>t. tr_league_id t = ex_leagueId c \<and> tr_id t = ex_tradeId c \<and>
    tr_status t = ''proposed'' \<and> tr_version t = ex_expectedVersion c"
  let ?f = "\<lambda>t. t\<lparr>tr_updated_at_ms := ex_occurredAtMs c, tr_version := tr_version t + 1\<rparr>"
  let ?st = "st\<lparr>td_trades := update_rows ?p ?f (td_trades st)\<rparr>"
  obtain m s2 where s: "length (filter ?p (td_trades st)) = 1"
      "insertEvent env (execution_event c ''participant_accepted'' m) ?st = Inr s2" "same_ledger s2 st'"
    using assms(1) by (auto simp: record_answer_def result_iffs check_iffs dest!: complete_execution_frame)
  have "ledger (add_mset (?k, ''participant_accepted'') {#}) ?st"
    by (rule ledger_update [OF assms(2) s(1), where f = ?f])
      (auto simp: trade_key_def advances_def outcome_of_def)
  then show ?thesis using ledger_event [OF s(2)] s(3) by (simp add: ledger_frame)
qed

lemma await_approval_ledger:
  assumes "await_approval env c preview st = Inr st'" and "ledger {#} st"
  shows "ledger {#} st'"
proof -
  let ?k = "(ex_leagueId c, ex_tradeId c)"
  let ?ty = "''proposal_accepted_awaiting_commissioner_approval''"
  let ?p = "\<lambda>t. tr_league_id t = ex_leagueId c \<and> tr_id t = ex_tradeId c \<and>
    tr_status t = ''proposed'' \<and> tr_version t = ex_expectedVersion c \<and>
    has_future_considerations st (ex_leagueId c) (ex_tradeId c)"
  let ?f = "\<lambda>t. t\<lparr>tr_responded_at_ms := Some (ex_occurredAtMs c),
    tr_updated_at_ms := ex_occurredAtMs c, tr_version := tr_version t + 1\<rparr>"
  obtain m rows s2 where s: "length (filter ?p (td_trades st)) = 1"
      "insertEvent env (execution_event c ?ty m)
        (st\<lparr>td_trades := update_rows ?p ?f (td_trades st), td_acceptances := rows\<rparr>) = Inr s2"
      "same_ledger s2 st'"
    using assms(1) by (auto simp: await_approval_def result_iffs check_iffs dest!: complete_execution_frame)
  have "ledger (add_mset (?k, ?ty) {#}) (st\<lparr>td_trades := update_rows ?p ?f (td_trades st), td_acceptances := rows\<rparr>)"
    by (rule ledger_update [OF assms(2) s(1), where f = ?f])
      (auto simp: trade_key_def advances_def outcome_of_def)
  then show ?thesis using ledger_event [OF s(2)] s(3) by (simp add: ledger_frame)
qed

lemma cancel_conflicts_ledger:
  assumes "cancel_conflicts env c st = Inr (st', ids)" and "ledger owed st"
  shows "ledger owed st'"
proof -
  have "ledger owed (fst (st', ids))"
    using assms(1) unfolding cancel_conflicts_def
    by (rule foldE_invariant)
      (use assms(2) in \<open>auto simp: cancel_conflict_def result_iffs elim!: cancelPending_ledger\<close>)
  then show ?thesis by simp
qed

lemma execute_trade_ledger:
  assumes "execute_trade env c approve preview st = Inr st'" and "ledger {#} st"
  shows "ledger {#} st'"
proof -
  let ?k = "(ex_leagueId c, ex_tradeId c)"
  let ?status = "if approve then ''awaiting_commissioner_approval'' else ''proposed''"
  let ?p = "open_as st (ex_leagueId c) (ex_tradeId c) ?status (ex_expectedVersion c)"
  let ?f = "complete_trade c ?status"
  let ?st = "st\<lparr>td_trades := update_rows ?p ?f (td_trades st)\<rparr>"
  obtain s1 receipts s2 ids m s3 where one: "length (filter ?p (td_trades st)) = 1"
    and s: "move_assets env c (tq_assets preview) ?st = Inr s1"
      "cancel_conflicts env c s1 = Inr (s2, ids)"
      "insertEvent env (execution_event c ''proposal_accepted'' m) s2 = Inr s3" "same_ledger s3 st'"
    using assms(1)
    by (auto simp: execute_trade_def Let_def result_iffs check_iffs dest!: complete_execution_frame)
  have "ledger (add_mset (?k, ''proposal_accepted'') {#}) ?st"
    by (rule ledger_update [OF assms(2) one, where f = ?f])
      (auto simp: trade_key_def open_as_def advances_def outcome_of_def complete_trade_def)
  then have "ledger (add_mset (?k, ''proposal_accepted'') {#}) s2"
    using cancel_conflicts_ledger [OF s(2)] move_assets_frame [OF s(1)] by (simp add: ledger_frame)
  then show ?thesis using ledger_event [OF s(3)] s(4) by (simp add: ledger_frame)
qed

lemma execution_writes_ledger:
  assumes "execution_writes env c approve preview st = Inr (st', res)" and "ledger {#} st"
  shows "ledger {#} st'"
  using assms
  by (auto simp: execution_writes_def result_iffs check_iffs ledger_frame
      dest!: respond_frame split: option.splits if_splits
      elim!: record_answer_ledger await_approval_ledger execute_trade_ledger)

lemma executionTransaction_ledger:
  assumes "executionTransaction env st approve raw = Inr (st', res)" and "ledger {#} st"
  shows "ledger {#} st'"
  using assms
  by (auto simp: executionTransaction_def Let_def result_iffs check_iffs ledger_frame
      dest!: insertRequest_frame split: option.splits if_splits elim!: execution_writes_ledger)

lemma write_expiry_ledger:
  assumes "write_expiry env c t st = Inr st'" and "ledger {#} st"
  shows "ledger {#} st'"
proof -
  let ?k = "(xc_leagueId c, xc_tradeId c)"
  let ?p = "\<lambda>q. tr_league_id q = xc_leagueId c \<and> tr_id q = xc_tradeId c \<and>
    tr_status q = ''proposed'' \<and> tr_version q = xc_expectedVersion c"
  let ?f = "settle_trade ''expired'' (xc_occurredAtMs c)"
  let ?st = "st\<lparr>td_trades := update_rows ?p ?f (td_trades st)\<rparr>"
  obtain e where s: "length (filter ?p (td_trades st)) = 1" "insertEvent env e ?st = Inr st'"
      "event_key e = (?k, ''proposal_expired'')"
    using assms(1) by (auto simp: write_expiry_def result_iffs check_iffs event_key_def)
  have "ledger (add_mset (?k, ''proposal_expired'') {#}) ?st"
    by (rule ledger_update [OF assms(2) s(1), where f = ?f])
      (auto simp: trade_key_def advances_def outcome_of_def settle_trade_def)
  then show ?thesis using ledger_event [OF s(2)] s(3) by simp
qed

lemma expireTransaction_ledger:
  assumes "expireTransaction env frozen xs raw = Inr (xs', out)" and "ledger {#} (xs_trades xs)"
  shows "ledger {#} (xs_trades xs')"
  using assms
  by (auto simp: expireTransaction_def Let_def result_iffs check_iffs
      split: option.splits if_splits elim!: write_expiry_ledger)

section \<open>Histories\<close>

text \<open>One call of an operation of the repositories that succeeds.\<close>

inductive trade_step :: "trade_env \<Rightarrow> trade_store \<Rightarrow> trade_store \<Rightarrow> bool" for env where
  created: "createProposal env st raw = Inr (st', res) \<Longrightarrow> trade_step env st st'"
| countered: "createCounterProposal env st raw original = Inr (st', res) \<Longrightarrow> trade_step env st st'"
| transitioned: "transitionLifecycle env st raw = Inr (st', res) \<Longrightarrow> trade_step env st st'"
| accepted: "executeAcceptance env st raw = Inr (st', res) \<Longrightarrow> trade_step env st st'"
| approved: "executeApproval env st raw = Inr (st', res) \<Longrightarrow> trade_step env st st'"
| expired: "expireProposal env frozen xs raw = Inr (xs', outcome) \<Longrightarrow>
    trade_step env (xs_trades xs) (xs_trades xs')"

text \<open>
  Stores reached from one without trades, whatever else it holds; what the transactions read
  (\<open>env\<close>) may change between calls.
\<close>

inductive trade_reachable :: "trade_store \<Rightarrow> bool" where
  start: "td_trades st = [] \<Longrightarrow> td_events st = [] \<Longrightarrow> trade_reachable st"
| step: "trade_reachable st \<Longrightarrow> trade_step env st st' \<Longrightarrow> trade_reachable st'"

lemma trade_step_ledger: "trade_step env st st' \<Longrightarrow> ledger {#} st \<Longrightarrow> ledger {#} st'"
  by (induction rule: trade_step.induct)
    (auto simp: createProposal_def createCounterProposal_def transitionLifecycle_def
      executeAcceptance_def executeApproval_def expireProposal_def check_iffs
      elim: createTransaction_ledger lifecycleTransaction_ledger executionTransaction_ledger
        expireTransaction_ledger)

lemma trade_reachable_ledger: "trade_reachable st \<Longrightarrow> ledger {#} st"
proof (induction rule: trade_reachable.induct)
  case (start st)
  then show ?case by (simp add: ledger_def balanced_def)
next
  case (step st env st')
  from trade_step_ledger [OF step.hyps(2) step.IH] show ?case .
qed

definition history :: "trade_store \<Rightarrow> trade_row \<Rightarrow> string list" where
  "history st t = map tv_event_type
     (filter (\<lambda>e. tv_league_id e = tr_league_id t \<and> tv_trade_id e = tr_id t) (td_events st))"

lemma types_of_history: "types_of (mset (map event_key (td_events st))) (trade_key t) = mset (history st t)"
  by (simp add: types_of_def history_def trade_key_def event_key_def filter_map comp_def
      flip: mset_filter mset_map)

lemma outcomes_mset: "outcomes (mset tys) = mset (map Some (List.map_filter outcome_of tys))"
  by (induction tys) (auto simp: outcomes_def List.map_filter_simps split: option.splits)

lemma ledger_history:
  assumes "ledger {#} st" and "t \<in> set (td_trades st)"
  shows "tr_version t = int (length (history st t))"
    and "List.map_filter outcome_of (history st t) =
      (if tr_status t = ''proposed'' then [] else [tr_status t])"
proof -
  have acc: "accounted (mset (map event_key (td_events st))) t"
    using assms by (simp add: ledger_def balanced_def)
  then show "tr_version t = int (length (history st t))"
    by (simp add: accounted_def types_of_history del: mset_map)
  have "mset (map Some (List.map_filter outcome_of (history st t))) = settled t"
    using acc by (simp add: accounted_def types_of_history outcomes_mset del: mset_map)
  then show "List.map_filter outcome_of (history st t) =
      (if tr_status t = ''proposed'' then [] else [tr_status t])"
    by (cases "List.map_filter outcome_of (history st t)") (auto simp: settled_def split: if_splits)
qed

text \<open>
  C2. (invariant) However the repositories are called, identifiers of trades stay unique, the
  version of every trade is the number of its events, and a trade is settled at most once: it is
  open exactly as long as none of its events settles it, and otherwise it has the status of the one
  that does (rejected, cancelled by hand or by another trade, completed or expired).
\<close>

theorem trade_history_invariant:
  assumes "trade_reachable st"
  shows "distinct (map tr_id (td_trades st)) \<and>
    list_all (\<lambda>t. tr_version t = int (length (history st t)) \<and>
      List.map_filter outcome_of (history st t) =
        (if tr_status t = ''proposed'' then [] else [tr_status t])) (td_trades st)"
  using trade_reachable_ledger [OF assms] ledger_history
  by (auto simp: list_all_iff ledger_def balanced_def)

lemma sample_proposed_reachable: "trade_reachable sample_proposed"
  by (rule trade_reachable.step [OF trade_reachable.start trade_step.created [OF sample_proposes]])
    (simp_all add: sample_store_def)

theorem trade_history_invariant_witness:
  "length (td_trades sample_proposed) = 1 \<and> history sample_proposed sample_trade = [''proposal_created''] \<and>
   distinct (map tr_id (td_trades sample_proposed)) \<and>
   list_all (\<lambda>t. tr_version t = int (length (history sample_proposed t)) \<and>
     List.map_filter outcome_of (history sample_proposed t) =
       (if tr_status t = ''proposed'' then [] else [tr_status t])) (td_trades sample_proposed)"
  using trade_history_invariant [OF sample_proposed_reachable]
  by (simp add: sample_proposed_def history_def sample_trade_def sample_creation_def)

end
