(* ===== verification/TradeMoves.thy ===== *)
theory TradeMoves
  imports TradeLedger
begin

text \<open>
  What an executed trade does: the ownerships of the traded players, the retention slots of the
  teams, the open proposals that name one of its assets; and why a trade whose player moved in the
  meantime cannot be executed.
\<close>

section \<open>The parts of an execution\<close>

lemma mapE_Inr_left: "mapE f xs = Inr ys \<Longrightarrow> x \<in> set xs \<Longrightarrow> \<exists>y \<in> set ys. f x = Inr y"
  by (induction xs arbitrary: ys) (auto simp: bindE_Inr_iff)

lemma mapE_Inr_right: "mapE f xs = Inr ys \<Longrightarrow> y \<in> set ys \<Longrightarrow> \<exists>x \<in> set xs. f x = Inr y"
  by (induction xs arbitrary: ys) (auto simp: bindE_Inr_iff)

definition execute :: "trade_env \<Rightarrow> trade_store \<Rightarrow> bool \<Rightarrow> jsval \<Rightarrow> trade_failure + trade_store \<times> trade_result" where
  "execute env st approve raw =
     (if approve then executeApproval env st raw else executeAcceptance env st raw)"

text \<open>A call that executed the trade, and did not only record an answer or replay a result.\<close>

definition executes ::
    "trade_env \<Rightarrow> trade_store \<Rightarrow> bool \<Rightarrow> jsval \<Rightarrow> trade_store \<Rightarrow> trade_result \<Rightarrow> bool" where
  "executes env st approve raw st' res \<longleftrightarrow>
     execute env st approve raw = Inr (st', res) \<and> \<not> rs_replayed res \<and>
     tv_event_type (rs_event res) = ''proposal_accepted''"

lemma participantAcceptanceAggregate_fields:
  assumes "participantAcceptanceAggregate env st c r = Inr res"
  shows "rs_replayed res = r" and "tv_event_type (rs_event res) = ''participant_accepted''"
proof -
  obtain found where f: "findParticipantAcceptance env st c = Inr found"
    and rest: "(case (findTrade st (ex_leagueId c) (ex_tradeId c), found) of
       (t # _, Some e) \<Rightarrow>
         Inr \<lparr>rs_replayed = r, rs_trade = projectEffectiveTrade st t, rs_event = e\<rparr>
     | _ \<Rightarrow> Inl (TradeExecutionFailure ExecutionStateInvalid)) = Inr res"
    using assms unfolding participantAcceptanceAggregate_def by (auto simp only: bindE_Inr_iff)
  obtain e where e: "found = Some e" "rs_event res = e" "rs_replayed res = r"
    using rest by (cases found; cases "findTrade st (ex_leagueId c) (ex_tradeId c)") auto
  then show "rs_replayed res = r" by simp
  have "e \<in> set (findTradeEvent st (ex_leagueId c) (ex_tradeId c) ''participant_accepted'')"
    using f e(1) by (auto simp: findParticipantAcceptance_def result_iffs find_Some_iff)
  then show "tv_event_type (rs_event res) = ''participant_accepted''"
    using e(2) by (simp add: findTradeEvent_def)
qed

lemma awaitingApprovalAggregate_fields:
  assumes "awaitingApprovalAggregate env st c r = Inr res"
  shows "rs_replayed res = r"
    and "tv_event_type (rs_event res) = ''proposal_accepted_awaiting_commissioner_approval''"
proof -
  let ?found = "findTradeEvent st (ex_leagueId c) (ex_tradeId c)
    ''proposal_accepted_awaiting_commissioner_approval''"
  let ?acceptance = "findAcceptance st (ex_leagueId c) (ex_tradeId c)"
  obtain trade where 1: "unique_found (findTrade st (ex_leagueId c) (ex_tradeId c)) = Inr trade"
    using assms unfolding awaitingApprovalAggregate_def bindE_Inr_iff by blast
  obtain event where 2: "unique_found ?found = Inr event"
    using assms unfolding awaitingApprovalAggregate_def bindE_Inr_iff by blast
  obtain acceptance where 3: "unique_found ?acceptance = Inr acceptance"
    using assms unfolding awaitingApprovalAggregate_def bindE_Inr_iff by blast
  note run = assms [unfolded awaitingApprovalAggregate_def 1 2 3 bindE_simps]
  obtain t x a where some: "trade = Some t" "event = Some x" "acceptance = Some a"
    using run by (cases trade; cases event; cases acceptance) simp_all
  note run' = run [unfolded some prod.case option.case]
  have x: "rs_event res = x" "rs_replayed res = r"
    by (cases "tv_metadata x"; use run' in \<open>auto simp: bindE_Inr_iff\<close>)+
  then show "rs_replayed res = r" by simp
  have "?found = [x]" using 2 some by (auto simp: check_iffs)
  then have "x \<in> set ?found" by simp
  then show "tv_event_type (rs_event res) = ''proposal_accepted_awaiting_commissioner_approval''"
    using x(1) by (simp add: findTradeEvent_def)
qed

lemma executionAggregate_fields:
  assumes "executionAggregate env st c r = Inr res"
  obtains t e where "findTrade st (ex_leagueId c) (ex_tradeId c) = [t]"
    "findTradeEvent st (ex_leagueId c) (ex_tradeId c) ''proposal_accepted'' = [e]"
    "reconstructCommittedTeams env st c t e r = Inr ()"
    "res = \<lparr>rs_replayed = r, rs_trade = projectEffectiveTrade st t, rs_event = e\<rparr>"
    "tr_status t = ''completed''"
  using assms unfolding executionAggregate_def
  by (auto simp: result_iffs check_iffs split: option.splits if_splits intro: that)

lemma executionOutcomeAggregate_replayed:
  assumes "executionOutcomeAggregate env st c approve r = Inr res"
  shows "rs_replayed res = r"
  using assms unfolding executionOutcomeAggregate_def
  by (auto simp: bindE_Inr_iff participantAcceptanceAggregate_fields(1)
      awaitingApprovalAggregate_fields(1) split: if_splits elim!: executionAggregate_fields)

lemma executesE:
  assumes "executes env st approve raw st' res"
  obtains c preview s0 s1 where "s0 = st\<lparr>td_requests := td_requests s0\<rparr>"
    "s1 = s0\<lparr>td_participants := td_participants s1\<rparr>"
    "execution_guards env c approve s0 = Inr preview"
    "execute_trade env c approve preview s1 = Inr st'"
    "executionAggregate env st' c False = Inr res"
proof -
  have run: "executionTransaction env st approve raw = Inr (st', res)"
    using assms by (auto simp: executes_def execute_def executeAcceptance_def executeApproval_def
        check_iffs split: if_splits)
  obtain c s0 preview where s0: "s0 = st\<lparr>td_requests := td_requests s0\<rparr>" "execution_guards env c approve s0 = Inr preview"
      "execution_writes env c approve preview s0 = Inr (st', res)"
  proof -
    obtain c found where c: "unique_found (findRequest st (ex_leagueId c) (ex_actorUserId c)
        (if approve then ''trade.approve'' else ''trade.accept'') (ex_idempotencyKey c)) = Inr found"
      and rest: "(case found of
       Some r \<Rightarrow>
         if \<not> request_replays r (createExecutionRequestHash env c) (ex_tradeId c)
         then Inl (TradeExecutionFailure ExecutionIdempotencyConflict)
         else bindE (executionOutcomeAggregate env st c approve True) (\<lambda>res. Inr (st, res))
     | None \<Rightarrow>
         bindE (insertRequest env (ex_idempotencyRequestId c) (ex_leagueId c) (ex_actorUserId c)
           (if approve then ''trade.approve'' else ''trade.accept'') (ex_idempotencyKey c)
           (createExecutionRequestHash env c) (ex_occurredAtMs c)
           (ex_idempotencyExpiresAtMs c) st) (\<lambda>st.
         bindE (execution_guards env c approve st) (\<lambda>preview.
         execution_writes env c approve preview st))) = Inr (st', res)"
      using run unfolding executionTransaction_def Let_def by (auto simp: bindE_Inr_iff)
    show thesis
    proof (cases found)
      case None
      with rest obtain s0 preview where s: "insertRequest env (ex_idempotencyRequestId c) (ex_leagueId c)
           (ex_actorUserId c) (if approve then ''trade.approve'' else ''trade.accept'')
           (ex_idempotencyKey c) (createExecutionRequestHash env c) (ex_occurredAtMs c)
           (ex_idempotencyExpiresAtMs c) st = Inr s0"
        "execution_guards env c approve s0 = Inr preview"
        "execution_writes env c approve preview s0 = Inr (st', res)"
        by (auto simp: bindE_Inr_iff)
      have "s0 = st\<lparr>td_requests := td_requests s0\<rparr>"
        using s(1) by (auto simp: insertRequest_def result_iffs check_iffs)
      with s(2,3) show thesis by (auto intro: that)
    next
      case (Some r)
      with rest have "rs_replayed res"
        by (auto simp: bindE_Inr_iff executionOutcomeAggregate_replayed split: if_splits)
      then show thesis using assms by (simp add: executes_def)
    qed
  qed
  have type: "tv_event_type (rs_event res) = ''proposal_accepted''"
    using assms by (simp add: executes_def)
  obtain s1 where "s1 = s0\<lparr>td_participants := td_participants s1\<rparr>" "execute_trade env c approve preview s1 = Inr st'"
      "executionAggregate env st' c False = Inr res"
  proof -
    have type': "\<not> participantAcceptanceAggregate env st' c False = Inr res"
      "\<not> awaitingApprovalAggregate env st' c False = Inr res"
      using type participantAcceptanceAggregate_fields(2) awaitingApprovalAggregate_fields(2) by force+
    have frame: "s = s0\<lparr>td_participants := td_participants s\<rparr>"
      if "respond env l t u m n team d s0 = Inr s" for l t u m n team d s
      using that by (auto simp: respond_def result_iffs check_iffs)
    have "\<exists>s1. s1 = s0\<lparr>td_participants := td_participants s1\<rparr> \<and> execute_trade env c approve preview s1 = Inr st' \<and>
      executionAggregate env st' c False = Inr res"
    proof (cases approve)
      case True
      then show ?thesis using s0(3) type' unfolding execution_writes_def
        by (intro exI [of _ s0]) (auto simp: result_iffs split: option.splits)
    next
      case False
      obtain ps where ps: "participant_list env s0 (ex_leagueId c) (ex_tradeId c) = Inr ps"
        using s0(3) unfolding execution_writes_def bindE_Inr_iff by blast
      show ?thesis
      proof (cases "ps = []")
        case True
        with False ps show ?thesis using s0(3) type' unfolding execution_writes_def
          by (intro exI [of _ s0]) (auto simp: result_iffs split: if_splits)
      next
        case answered: False
        with False ps show ?thesis using s0(3) type' unfolding execution_writes_def
          by (auto simp: result_iffs split: option.splits if_splits dest: frame)
      qed
    qed
    then show thesis by (auto intro: that)
  qed
  with s0 show thesis by (auto intro: that)
qed

lemma execute_tradeE:
  assumes "execute_trade env c approve preview st = Inr st'"
  obtains s2 s3 receipts s4 ids s5 status where
    "status = (if approve then ''awaiting_commissioner_approval'' else ''proposed'')"
    "length (filter (open_as st (ex_leagueId c) (ex_tradeId c) status (ex_expectedVersion c)) (td_trades st)) = 1"
    "s2 = st\<lparr>td_trades := update_rows (open_as st (ex_leagueId c) (ex_tradeId c) status (ex_expectedVersion c))
       (complete_trade c status) (td_trades st)\<rparr>"
    "move_assets env c (tq_assets preview) s2 = Inr s3"
    "ownership_receipts env (ex_tradeId c) (tq_assets preview) = Inr receipts"
    "cancel_conflicts env c s3 = Inr (s4, ids)"
    "insertEvent env (execution_event c ''proposal_accepted'' (ExecutedMetadata (if approve then ''approve'' else ''accept'')
       (ex_actorAuthority c) status (tq_generallyIllegal preview) (tq_teams preview) (map public_transfer_of (tq_assets preview)) receipts ids))
       s4 = Inr s5"
    "complete_execution env (TradeRepoFailure RepoVersionConflict) c s5 = Inr st'"
proof -
  define status where "status = (if approve then ''awaiting_commissioner_approval'' else ''proposed'')"
  from assms obtain s3 receipts s4 ids s5 where
    "length (filter (open_as st (ex_leagueId c) (ex_tradeId c) status (ex_expectedVersion c)) (td_trades st)) = 1"
    "move_assets env c (tq_assets preview) (st\<lparr>td_trades := update_rows (open_as st (ex_leagueId c)
       (ex_tradeId c) status (ex_expectedVersion c)) (complete_trade c status) (td_trades st)\<rparr>) = Inr s3"
    "ownership_receipts env (ex_tradeId c) (tq_assets preview) = Inr receipts"
    "cancel_conflicts env c s3 = Inr (s4, ids)"
    "insertEvent env (execution_event c ''proposal_accepted'' (ExecutedMetadata (if approve then ''approve'' else ''accept'')
       (ex_actorAuthority c) status (tq_generallyIllegal preview) (tq_teams preview)
       (map public_transfer_of (tq_assets preview)) receipts ids)) s4 = Inr s5"
    "complete_execution env (TradeRepoFailure RepoVersionConflict) c s5 = Inr st'"
    unfolding execute_trade_def Let_def status_def [symmetric] by (auto simp: result_iffs check_iffs)
  from that [OF status_def this(1) refl this(2-6)] show thesis .
qed

text \<open>Cancelling writes trades and events only.\<close>

lemma cancelPending_keeps:
  "cancelPending env i l conflict acc s reason n st = Inr (st', done) \<Longrightarrow>
     td_assets st' = td_assets st \<and> td_ownerships st' = td_ownerships st \<and>
     td_retentions st' = td_retentions st"
  by (auto simp: cancelPending_def Let_def insertEvent_def result_iffs check_iffs split: if_splits)

lemma cancel_conflicts_keeps:
  assumes "cancel_conflicts env c st = Inr (st', ids)"
  shows "td_assets st' = td_assets st \<and> td_ownerships st' = td_ownerships st \<and>
    td_retentions st' = td_retentions st"
proof -
  let ?keeps = "\<lambda>s. td_assets (fst s) = td_assets st \<and> td_ownerships (fst s) = td_ownerships st \<and>
    td_retentions (fst s) = td_retentions st"
  have "?keeps (st', ids)"
    using assms unfolding cancel_conflicts_def
    by (rule foldE_invariant)
      (auto simp: cancel_conflict_def result_iffs split: prod.splits dest!: cancelPending_keeps)
  then show ?thesis by simp
qed

lemma complete_execution_keeps:
  "complete_execution env e c st = Inr st' \<Longrightarrow> st' = st\<lparr>td_requests := td_requests st'\<rparr>"
  by (auto simp: complete_execution_def completeRequest_def result_iffs check_iffs)

lemma insertEvent_keeps:
  "insertEvent env e st = Inr st' \<Longrightarrow> st' = st\<lparr>td_events := td_events st @ [e]\<rparr>"
  by (auto simp: insertEvent_def result_iffs check_iffs)

section \<open>Traded players\<close>

text \<open>Every traded player is taken from the ownership row that the plan has seen.\<close>

lemma close_tenures:
  assumes "foldE (close_tenure env c) st ps = Inr st'" and "p \<in> set ps"
  shows "\<exists>t q. tenure_of env (ex_tradeId c) p = Inr t \<and> q \<in> set (td_ownerships st) \<and>
    po_league_id q = ex_leagueId c \<and> po_id q = tn_sourceOwnershipId t \<and>
    po_team_id q = tar_source_team_id (pa_row p) \<and> po_version q = tn_sourceOwnershipVersion t"
  using assms
proof (induction ps arbitrary: st)
  case (Cons r ps)
  then obtain s where s: "close_tenure env c st r = Inr s" "foldE (close_tenure env c) s ps = Inr st'"
    by (auto simp: bindE_Inr_iff)
  obtain t where t: "tenure_of env (ex_tradeId c) r = Inr t"
      "length (filter (\<lambda>q. po_league_id q = ex_leagueId c \<and> po_id q = tn_sourceOwnershipId t \<and>
         po_team_id q = tar_source_team_id (pa_row r) \<and> po_version q = tn_sourceOwnershipVersion t)
         (td_ownerships st)) = 1"
    and sub: "set (td_ownerships s) \<subseteq> set (td_ownerships st)"
    using s(1) by (auto simp: close_tenure_def result_iffs check_iffs)
  show ?case
  proof (cases "p = r")
    case True
    obtain q where "filter (\<lambda>q. po_league_id q = ex_leagueId c \<and> po_id q = tn_sourceOwnershipId t \<and>
         po_team_id q = tar_source_team_id (pa_row r) \<and> po_version q = tn_sourceOwnershipVersion t)
         (td_ownerships st) = [q]"
      using t(2) by (auto simp: length_Suc_conv)
    then have "q \<in> set (filter (\<lambda>q. po_league_id q = ex_leagueId c \<and> po_id q = tn_sourceOwnershipId t \<and>
         po_team_id q = tar_source_team_id (pa_row r) \<and> po_version q = tn_sourceOwnershipVersion t)
         (td_ownerships st))" by simp
    with True t(1) show ?thesis by auto
  next
    case False
    with Cons.prems(2) Cons.IH [OF s(2)] sub show ?thesis by auto
  qed
qed simp

lemma check_receipts:
  assumes "foldE check_receipt seen (zip rs xs) = Inr seen'" and "length rs = length xs"
  shows "rs = map xt_mapping xs"
  using assms(2,1)
proof (induction rs xs arbitrary: seen rule: list_induct2)
  case (Cons r rs x xs)
  then show ?case by (auto simp: check_receipt_def result_iffs check_iffs)
qed simp

text \<open>The ownership that the proposal recorded for a traded player.\<close>

definition proposed_ownership :: "trade_asset_row \<Rightarrow> ownership_view option" where
  "proposed_ownership row =
     (case tar_proposal_snapshot row of
        ContractSnapshot player k q \<Rightarrow> Some q
      | ProspectSnapshot player q e \<Rightarrow> Some q
      | _ \<Rightarrow> None)"

lemma expected_record_fields:
  assumes "expected_record env tradeId teamIds transfers row = Inr x"
  obtains q where "proposed_ownership row = Some q" "xt_row x = row" "xt_ownership x = q"
    "xt_mapping x = \<lparr>ot_sourceTeamId = tar_source_team_id row,
       ot_destinationTeamId = tar_destination_team_id row, ot_sourceOwnershipId = ov_id q,
       ot_sourceOwnershipVersion = ov_version q,
       ot_destinationOwnershipId = destination_ownership env tradeId (ov_id q),
       ot_destinationOwnershipVersion = 1\<rparr>"
  using assms unfolding expected_record_def proposed_ownership_def
  by (cases "tar_proposal_snapshot row")
    (auto simp: result_iffs check_iffs split: if_splits intro: that)

lemma reconstructE:
  assumes "reconstructCommittedTeams env st c trade event replayed = Inr u"
    and "tv_metadata event = ExecutedMetadata action authority fromStatus illegal teams transfers receipts cancelled"
  obtains teamIds found expected where
    "mapE (expected_record env (ex_tradeId c) teamIds transfers)
       (filter moves_player (listTradeAssets st (ex_leagueId c) (ex_tradeId c))) = Inr found"
    "expected = js_sort (\<lambda>l r. compare_receipts env (xt_mapping l) (xt_mapping r)) found"
    "receipts = map xt_mapping expected"
    "\<forall>x \<in> set expected. \<exists>events. check_history env st c event replayed events x = Inr ()"
proof -
  obtain teamIds found where found: "mapE (expected_record env (ex_tradeId c) teamIds transfers)
       (filter moves_player (listTradeAssets st (ex_leagueId c) (ex_tradeId c))) = Inr found"
    and rest: "(let expected = js_sort (\<lambda>l r. compare_receipts env (xt_mapping l) (xt_mapping r)) found in
         bindE (demand (length receipts = length expected)) (\<lambda>_.
         bindE (foldE check_receipt [] (zip receipts expected)) (\<lambda>_.
         let events = listOwnershipEvents st (ex_leagueId c) (ex_seasonId c) (ex_tradeId c) in
         bindE (demand (length events = 2 * length expected \<and>
           distinct (map (\<lambda>e. (oe_event_type e, oe_ownership_id e)) events))) (\<lambda>_.
         bindE (mapE (check_history env st c event replayed events) expected) (\<lambda>_. Inr ()))))) = Inr u"
    using assms(1) unfolding reconstructCommittedTeams_def assms(2) trade_metadata.case bindE_Inr_iff
    by blast
  define expected where "expected = js_sort (\<lambda>l r. compare_receipts env (xt_mapping l) (xt_mapping r)) found"
  obtain seen us where "length receipts = length expected"
      "foldE check_receipt [] (zip receipts expected) = Inr seen"
    and us: "mapE (check_history env st c event replayed
        (listOwnershipEvents st (ex_leagueId c) (ex_seasonId c) (ex_tradeId c))) expected = Inr us"
    using rest unfolding Let_def expected_def [symmetric] by (auto simp: bindE_Inr_iff demand_Inr)
  then have "receipts = map xt_mapping expected" by (auto dest: check_receipts)
  moreover have "\<exists>events. check_history env st c event replayed events x = Inr ()" if "x \<in> set expected" for x
    using mapE_Inr_left [OF us that] by auto
  ultimately show thesis using that [OF found expected_def] by blast
qed

text \<open>What is known of each traded player once an execution has succeeded.\<close>

definition unmoved :: "trade_store \<Rightarrow> string \<Rightarrow> trade_asset_row \<Rightarrow> ownership_view \<Rightarrow> bool" where
  "unmoved st leagueId a q \<longleftrightarrow>
     list_ex (\<lambda>o'. po_league_id o' = leagueId \<and> po_id o' = ov_id q \<and>
       po_version o' = ov_version q \<and> po_team_id o' = tar_source_team_id a) (td_ownerships st)"

definition delivered ::
    "trade_env \<Rightarrow> trade_store \<Rightarrow> string \<Rightarrow> string \<Rightarrow> trade_asset_row \<Rightarrow> ownership_view \<Rightarrow> bool" where
  "delivered env st leagueId tradeId a q \<longleftrightarrow>
     find_ownership st leagueId (ov_id q) = [] \<and>
     (case find_ownership st leagueId (destination_ownership env tradeId (ov_id q)) of
        [o'] \<Rightarrow> po_team_id o' = tar_destination_team_id a \<and> po_version o' = 1 \<and>
          po_acquired_transaction_id o' = Some tradeId \<and>
          po_ownership_kind o' =
            (if tar_asset_type a = ''contract'' then ''Rostered'' else ''Prospect Right'') \<and>
          po_position_group o' = ov_positionGroup q
      | _ \<Rightarrow> False)"

lemma check_history_delivered:
  assumes "check_history env st c event False events x = Inr u"
    and "xt_mapping x = \<lparr>ot_sourceTeamId = tar_source_team_id a,
       ot_destinationTeamId = tar_destination_team_id a, ot_sourceOwnershipId = ov_id q,
       ot_sourceOwnershipVersion = ov_version q,
       ot_destinationOwnershipId = destination_ownership env (ex_tradeId c) (ov_id q),
       ot_destinationOwnershipVersion = 1\<rparr>"
    and "xt_row x = a" and "xt_ownership x = q"
  shows "delivered env st (ex_leagueId c) (ex_tradeId c) a q"
  using assms unfolding check_history_def delivered_def expected_tenure_def Let_def
  by (auto simp: result_iffs check_iffs split: option.splits)

lemma executed_players:
  assumes "executes env st approve raw st' res"
    and "a \<in> set (listTradeAssets st (tr_league_id (rs_trade res)) (tr_id (rs_trade res)))"
    and "moves_player a"
  obtains q where "proposed_ownership a = Some q"
    "unmoved st (tr_league_id (rs_trade res)) a q"
    "delivered env st' (tr_league_id (rs_trade res)) (tr_id (rs_trade res)) a q"
proof -
  from assms(1) obtain c preview s0 s1 where s: "s0 = st\<lparr>td_requests := td_requests s0\<rparr>"
      "s1 = s0\<lparr>td_participants := td_participants s1\<rparr>" "execute_trade env c approve preview s1 = Inr st'"
      "executionAggregate env st' c False = Inr res"
    by (rule executesE)
  have same: "td_assets s1 = td_assets st" "td_ownerships s1 = td_ownerships st"
    by (subst s(2), simp, subst s(1), simp)+
  from s(3) obtain s2 s3 receipts s4 ids s5 status where
    x: "s2 = s1\<lparr>td_trades := update_rows (open_as s1 (ex_leagueId c) (ex_tradeId c) status (ex_expectedVersion c))
       (complete_trade c status) (td_trades s1)\<rparr>"
    "move_assets env c (tq_assets preview) s2 = Inr s3"
    "ownership_receipts env (ex_tradeId c) (tq_assets preview) = Inr receipts"
    "cancel_conflicts env c s3 = Inr (s4, ids)"
    "insertEvent env (execution_event c ''proposal_accepted'' (ExecutedMetadata (if approve then ''approve'' else ''accept'')
       (ex_actorAuthority c) status (tq_generallyIllegal preview) (tq_teams preview)
       (map public_transfer_of (tq_assets preview)) receipts ids)) s4 = Inr s5"
    "complete_execution env (TradeRepoFailure RepoVersionConflict) c s5 = Inr st'"
    by (rule execute_tradeE)
  have assets: "td_assets st' = td_assets st"
    using same(1) x(1) move_assets_frame [OF x(2)] cancel_conflicts_keeps [OF x(4)]
      insertEvent_keeps [OF x(5)] complete_execution_frame [OF x(6)]
    by (simp add: same_ledger_def)
  let ?e = "execution_event c ''proposal_accepted'' (ExecutedMetadata (if approve then ''approve'' else ''accept'')
       (ex_actorAuthority c) status (tq_generallyIllegal preview) (tq_teams preview)
       (map public_transfer_of (tq_assets preview)) receipts ids)"
  have "td_events st' = td_events s4 @ [?e]"
    using insertEvent_keeps [OF x(5)] complete_execution_frame [OF x(6)] by (simp add: same_ledger_def)
  then have e: "?e \<in> set (findTradeEvent st' (ex_leagueId c) (ex_tradeId c) ''proposal_accepted'')"
    by (simp add: findTradeEvent_def execution_event_def)
  from s(4) obtain t ev where agg: "findTrade st' (ex_leagueId c) (ex_tradeId c) = [t]"
      "findTradeEvent st' (ex_leagueId c) (ex_tradeId c) ''proposal_accepted'' = [ev]"
      "reconstructCommittedTeams env st' c t ev False = Inr ()"
      "res = \<lparr>rs_replayed = False, rs_trade = projectEffectiveTrade st' t, rs_event = ev\<rparr>"
    by (rule executionAggregate_fields)
  have "t \<in> set (findTrade st' (ex_leagueId c) (ex_tradeId c))" unfolding agg(1) by simp
  then have ids: "tr_league_id (rs_trade res) = ex_leagueId c" "tr_id (rs_trade res) = ex_tradeId c"
    by (simp_all add: agg(4) projectEffectiveTrade_def findTrade_def)
  have "tv_metadata ev = ExecutedMetadata (if approve then ''approve'' else ''accept'')
       (ex_actorAuthority c) status (tq_generallyIllegal preview) (tq_teams preview)
       (map public_transfer_of (tq_assets preview)) receipts ids"
    using e unfolding agg(2) by (auto simp: execution_event_def)
  from agg(3) this obtain teamIds found expected where f:
    "mapE (expected_record env (ex_tradeId c) teamIds (map public_transfer_of (tq_assets preview)))
       (filter moves_player (listTradeAssets st' (ex_leagueId c) (ex_tradeId c))) = Inr found"
    "expected = js_sort (\<lambda>l r. compare_receipts env (xt_mapping l) (xt_mapping r)) found"
    "receipts = map xt_mapping expected"
    "\<forall>x \<in> set expected. \<exists>events. check_history env st' c ev False events x = Inr ()"
    by (rule reconstructE)
  have "a \<in> set (filter moves_player (listTradeAssets st' (ex_leagueId c) (ex_tradeId c)))"
    using assms(2,3) ids assets by (simp add: listTradeAssets_def)
  from mapE_Inr_left [OF f(1) this] obtain y where y: "y \<in> set expected"
      "expected_record env (ex_tradeId c) teamIds (map public_transfer_of (tq_assets preview)) a = Inr y"
    unfolding f(2) by auto
  from y(2) obtain q where q: "proposed_ownership a = Some q" "xt_row y = a" "xt_ownership y = q"
    "xt_mapping y = \<lparr>ot_sourceTeamId = tar_source_team_id a,
       ot_destinationTeamId = tar_destination_team_id a, ot_sourceOwnershipId = ov_id q,
       ot_sourceOwnershipVersion = ov_version q,
       ot_destinationOwnershipId = destination_ownership env (ex_tradeId c) (ov_id q),
       ot_destinationOwnershipVersion = 1\<rparr>"
    by (rule expected_record_fields)
  have "delivered env st' (ex_leagueId c) (ex_tradeId c) a q"
    using f(4) y(1) check_history_delivered [OF _ q(4,2,3)] by blast
  moreover have "unmoved st (ex_leagueId c) a q"
  proof -
    have "xt_mapping y \<in> set receipts" using y(1) f(3) by simp
    then obtain p v where p: "p \<in> set (tq_assets preview)" "moves_player (pa_row p)"
        "tenure_of env (ex_tradeId c) p = Inr v" "xt_mapping y = transfer_receipt (pa_row p) v"
      using x(3) by (auto simp: ownership_receipts_def bindE_Inr_iff dest!: mapE_Inr_right)
    obtain s6 where "foldE (close_tenure env c) s2 (filter (\<lambda>p. moves_player (pa_row p)) (tq_assets preview)) = Inr s6"
      using x(2) by (auto simp: move_assets_def Let_def bindE_Inr_iff)
    from close_tenures [OF this, of p] p obtain o' where
      "o' \<in> set (td_ownerships s2)" "po_league_id o' = ex_leagueId c"
      "po_id o' = tn_sourceOwnershipId v" "po_team_id o' = tar_source_team_id (pa_row p)"
      "po_version o' = tn_sourceOwnershipVersion v"
      by auto
    then show ?thesis using p(4) q(4) same(2) x(1)
      by (auto simp: unmoved_def list_ex_iff transfer_receipt_def)
  qed
  ultimately show thesis using that q(1) unfolding ids by blast
qed

text \<open>
  C8. (safety) A trade is executed only if every traded player is still held under the very
  ownership, in the version, that the proposal recorded: the receipt is rebuilt from the proposal,
  so an acceptance or approval after any other write to that ownership, such as a move to another
  roster slot of the same team, never succeeds.
\<close>

theorem executed_players_unmoved:
  assumes "executes env st approve raw st' res"
  shows "list_all (\<lambda>a. case proposed_ownership a of
      None \<Rightarrow> False | Some q \<Rightarrow> unmoved st (tr_league_id (rs_trade res)) a q)
    (filter moves_player (listTradeAssets st (tr_league_id (rs_trade res)) (tr_id (rs_trade res))))"
  using assms by (auto simp: list_all_iff elim!: executed_players)

lemma sample_executed_run: "executes sample_env sample_rivals False (JObj sample_accept) sample_executed sample_execution"
  unfolding executes_def execute_def sample_executes by (simp add: sample_execution_def sample_acceptance_def)

lemma sample_execution_ids:
  "tr_league_id (rs_trade sample_execution) = sample_id CHR ''3''"
  "tr_id (rs_trade sample_execution) = sample_id CHR ''7''"
  by (simp_all add: sample_execution_def sample_completed_def)

theorem executed_players_unmoved_witness:
  "length (filter moves_player (listTradeAssets sample_rivals (sample_id CHR ''3'') (sample_id CHR ''7''))) = 1 \<and>
   list_all (\<lambda>a. case proposed_ownership a of
      None \<Rightarrow> False | Some q \<Rightarrow> unmoved sample_rivals (sample_id CHR ''3'') a q)
    (filter moves_player (listTradeAssets sample_rivals (sample_id CHR ''3'') (sample_id CHR ''7''))) \<and>
   executeAcceptance sample_env sample_moved (JObj sample_accept) =
     Inl (TradeRepoFailure RepoSchemaIncompatible)"
proof (intro conjI)
  show "length (filter moves_player (listTradeAssets sample_rivals (sample_id CHR ''3'') (sample_id CHR ''7''))) = 1"
    by code_simp
  show "list_all (\<lambda>a. case proposed_ownership a of
      None \<Rightarrow> False | Some q \<Rightarrow> unmoved sample_rivals (sample_id CHR ''3'') a q)
    (filter moves_player (listTradeAssets sample_rivals (sample_id CHR ''3'') (sample_id CHR ''7'')))"
    using executed_players_unmoved [OF sample_executed_run] unfolding sample_execution_ids .
qed (rule sample_stuck)



section \<open>Conflicting proposals\<close>

text \<open>A trade names an asset of another one.\<close>

definition shares_asset :: "trade_asset_row list \<Rightarrow> string \<Rightarrow> string \<Rightarrow> trade_row \<Rightarrow> bool" where
  "shares_asset assets leagueId tradeId t \<longleftrightarrow>
     tr_league_id t = leagueId \<and> tr_id t \<noteq> tradeId \<and>
     list_ex (\<lambda>b. of_trade leagueId (tr_id t) b \<and>
       list_ex (\<lambda>a. of_trade leagueId tradeId a \<and> same_asset a b) assets) assets"

lemma set_listConflictingTrades:
  "set (listConflictingTrades st leagueId tradeId) =
     {t \<in> set (td_trades st). tr_status t = ''proposed'' \<and> shares_asset (td_assets st) leagueId tradeId t}"
  by (auto simp: listConflictingTrades_def shares_asset_def)

lemma distinct_ids:
  "distinct (map tr_id rows) \<Longrightarrow> a \<in> set rows \<Longrightarrow> b \<in> set rows \<Longrightarrow> tr_id a = tr_id b \<Longrightarrow> a = b"
  by (auto simp: distinct_map dest: inj_onD)

lemma filter_one:
  assumes "distinct (map tr_id rows)" and "t \<in> set rows" and "p t" and "\<And>r. p r \<Longrightarrow> tr_id r = tr_id t"
  shows "length (filter p rows) = 1"
proof -
  have "r = t" if "r \<in> set rows" "p r" for r
    by (rule distinct_ids [OF assms(1) that(1) assms(2) assms(4) [OF that(2)]])
  then have "set (filter p rows) = {t}" unfolding set_filter using assms(2,3) by blast
  moreover have "distinct (filter p rows)" using assms(1) by (simp add: distinct_map)
  ultimately show ?thesis using distinct_card [of "filter p rows"] by simp
qed

text \<open>Cancelling one open conflict.\<close>

lemma cancelPending_open:
  assumes "cancelPending env i l t acc s reason n st = Inr (st', done)"
    and "distinct (map tr_id (td_trades st))" and "t \<in> set (td_trades st)"
    and "tr_league_id t = l" and "tr_status t = ''proposed''"
  shows "td_trades st' = map (\<lambda>r. if tr_id r = tr_id t then settle_trade ''cancelled'' n r else r) (td_trades st)"
proof -
  let ?p = "\<lambda>r. tr_league_id r = l \<and> tr_id r = tr_id t \<and> tr_status r = ''proposed'' \<and> tr_version r = tr_version t"
  have one: "length (filter ?p (td_trades st)) = 1"
    by (rule filter_one [OF assms(2,3)]) (use assms(4,5) in auto)
  have "?p r \<longleftrightarrow> tr_id r = tr_id t" if "r \<in> set (td_trades st)" for r
    using distinct_ids [OF assms(2) that assms(3)] assms(4,5) by auto
  then have "update_rows ?p (settle_trade ''cancelled'' n) (td_trades st) =
      map (\<lambda>r. if tr_id r = tr_id t then settle_trade ''cancelled'' n r else r) (td_trades st)"
    by (auto simp: update_rows_def)
  with assms(1) one show ?thesis
    by (auto simp: cancelPending_def Let_def insertEvent_def result_iffs check_iffs)
qed

text \<open>The loops that cancel the proposals of a list, each still open when its turn comes.\<close>

locale cancellation_loop =
  fixes step :: "trade_store \<times> string list \<Rightarrow> trade_row \<times> string \<Rightarrow> trade_failure + trade_store \<times> string list"
    and env :: trade_env and leagueId :: string and nowMs :: int
  assumes step_cancels: "step (st, ids) (t, status) = Inr (st', ids') \<Longrightarrow>
    \<exists>i source reason found. cancelPending env i leagueId t source status reason nowMs st = Inr (st', found)"
begin

lemma loop:
  assumes "foldE step (st, ids) (map (\<lambda>t. (t, f t)) ts) = Inr (st', ids')"
    and "distinct (map tr_id (td_trades st))" and "distinct (map tr_id ts)"
    and "set ts \<subseteq> set (td_trades st)"
    and "\<forall>t \<in> set ts. tr_league_id t = leagueId \<and> tr_status t = ''proposed''"
  shows "td_trades st' = map (\<lambda>r. if tr_id r \<in> tr_id ` set ts
    then settle_trade ''cancelled'' nowMs r else r) (td_trades st)"
  using assms
proof (induction ts arbitrary: st ids)
  case (Cons t ts)
  let ?s = "\<lambda>r. if tr_id r = tr_id t then settle_trade ''cancelled'' nowMs r else r"
  obtain s ids1 where s: "step (st, ids) (t, f t) = Inr (s, ids1)"
      "foldE step (s, ids1) (map (\<lambda>t. (t, f t)) ts) = Inr (st', ids')"
    using Cons.prems(1) by (auto simp: bindE_Inr_iff)
  from step_cancels [OF s(1)] obtain i source reason found where
    one: "cancelPending env i leagueId t source (f t) reason nowMs st = Inr (s, found)" by blast
  have trades: "td_trades s = map ?s (td_trades st)"
    by (rule cancelPending_open [OF one Cons.prems(2)]) (use Cons.prems(4,5) in auto)
  have ids: "map tr_id (td_trades s) = map tr_id (td_trades st)"
    by (auto simp: trades settle_trade_def)
  have "set ts \<subseteq> set (td_trades s)"
  proof
    fix u assume u: "u \<in> set ts"
    then have "tr_id u \<in> tr_id ` set ts" by simp
    then have "tr_id u \<noteq> tr_id t" using Cons.prems(3) by auto
    moreover have "u \<in> set (td_trades st)" using u Cons.prems(4) by auto
    ultimately show "u \<in> set (td_trades s)" unfolding trades by (auto intro: rev_image_eqI)
  qed
  with Cons.IH [OF s(2)] Cons.prems(2,3,5) ids
  have "td_trades st' = map (\<lambda>r. if tr_id r \<in> tr_id ` set ts
      then settle_trade ''cancelled'' nowMs r else r) (td_trades s)"
    by simp
  then show ?case using Cons.prems(3) by (auto simp: trades settle_trade_def)
qed auto

text \<open>The list is the open proposals that a test on the store names.\<close>

lemma cancels:
  assumes "foldE step (st, ids) (map (\<lambda>t. (t, f t)) ts) = Inr (st', ids')"
    and ids: "distinct (map tr_id (td_trades st))" and rows: "distinct ts"
    and ts: "set ts = {t \<in> set (td_trades st). tr_status t = ''proposed'' \<and> named t}"
    and league: "\<And>t. named t \<Longrightarrow> tr_league_id t = leagueId"
  shows "td_trades st' = map (\<lambda>r. if tr_status r = ''proposed'' \<and> named r
    then settle_trade ''cancelled'' nowMs r else r) (td_trades st)"
proof -
  have "inj_on tr_id (set ts)" using ids unfolding ts by (auto simp: distinct_map inj_on_def)
  then have "distinct (map tr_id ts)" using rows by (simp add: distinct_map)
  then have "td_trades st' = map (\<lambda>r. if tr_id r \<in> tr_id ` set ts
      then settle_trade ''cancelled'' nowMs r else r) (td_trades st)"
    by (rule loop [OF assms(1) ids]) (use league in \<open>auto simp: ts\<close>)
  moreover have "tr_id r \<in> tr_id ` set ts \<longleftrightarrow> tr_status r = ''proposed'' \<and> named r"
    if "r \<in> set (td_trades st)" for r
    unfolding ts using distinct_ids [OF ids that] that by auto
  ultimately show ?thesis by (auto cong: if_cong)
qed

end

interpretation conflicts: cancellation_loop "cancel_conflict env c" env "ex_leagueId c" "ex_occurredAtMs c"
  by unfold_locales (auto simp: cancel_conflict_def bindE_Inr_iff split: prod.splits)

lemma cancel_conflicts_trades:
  assumes "cancel_conflicts env c st = Inr (st', ids)" and "distinct (map tr_id (td_trades st))"
  shows "td_trades st' = map (\<lambda>r. if tr_status r = ''proposed'' \<and>
      shares_asset (td_assets st) (ex_leagueId c) (ex_tradeId c) r
    then settle_trade ''cancelled'' (ex_occurredAtMs c) r else r) (td_trades st)"
  using assms(1) unfolding cancel_conflicts_def
proof (rule conflicts.cancels)
  show "distinct (map tr_id (td_trades st))" by (fact assms(2))
  show "distinct (listConflictingTrades st (ex_leagueId c) (ex_tradeId c))"
    using assms(2) by (simp add: listConflictingTrades_def distinct_map)
  show "tr_league_id t = ex_leagueId c" if "shares_asset (td_assets st) (ex_leagueId c) (ex_tradeId c) t" for t
    using that by (simp add: shares_asset_def)
qed (rule set_listConflictingTrades)

text \<open>
  C7. (safety) When a trade is executed, no other trade of the league that names one of its assets
  (a contract also through a requested retention) is open any more: each one that was has been
  cancelled at that moment with its version advanced, and every other trade is left as it was.
\<close>

theorem conflicting_proposals_cancelled:
  assumes "executes env st approve raw st' res" and "distinct (map tr_id (td_trades st))"
  shows "list_all2 (\<lambda>old new. tr_id new = tr_id old \<and> (tr_id old = tr_id (rs_trade res) \<or>
      (if tr_status old = ''proposed'' \<and>
          shares_asset (td_assets st) (tr_league_id (rs_trade res)) (tr_id (rs_trade res)) old
       then new = settle_trade ''cancelled'' (tv_occurred_at_ms (rs_event res)) old
       else new = old))) (td_trades st) (td_trades st')"
proof -
  from assms(1) obtain c preview s0 s1 where s: "s0 = st\<lparr>td_requests := td_requests s0\<rparr>"
      "s1 = s0\<lparr>td_participants := td_participants s1\<rparr>" "execute_trade env c approve preview s1 = Inr st'" "executionAggregate env st' c False = Inr res"
    by (rule executesE)
  from s(3) obtain s2 s3 receipts s4 ids s5 status where
    x: "length (filter (open_as s1 (ex_leagueId c) (ex_tradeId c) status (ex_expectedVersion c)) (td_trades s1)) = 1"
    "s2 = s1\<lparr>td_trades := update_rows (open_as s1 (ex_leagueId c) (ex_tradeId c) status (ex_expectedVersion c))
       (complete_trade c status) (td_trades s1)\<rparr>"
    "move_assets env c (tq_assets preview) s2 = Inr s3"
    "cancel_conflicts env c s3 = Inr (s4, ids)"
    "insertEvent env (execution_event c ''proposal_accepted'' (ExecutedMetadata (if approve then ''approve'' else ''accept'')
       (ex_actorAuthority c) status (tq_generallyIllegal preview) (tq_teams preview)
       (map public_transfer_of (tq_assets preview)) receipts ids)) s4 = Inr s5"
    "complete_execution env (TradeRepoFailure RepoVersionConflict) c s5 = Inr st'"
    by (rule execute_tradeE)
  let ?e = "execution_event c ''proposal_accepted'' (ExecutedMetadata (if approve then ''approve'' else ''accept'')
       (ex_actorAuthority c) status (tq_generallyIllegal preview) (tq_teams preview)
       (map public_transfer_of (tq_assets preview)) receipts ids)"
  have st: "td_trades s1 = td_trades st" "td_assets s1 = td_assets st"
    by (subst s(2), simp, subst s(1), simp)+
  have out: "td_trades st' = td_trades s4" "td_events st' = td_events s4 @ [?e]"
    using insertEvent_keeps [OF x(5)] complete_execution_frame [OF x(6)] by (simp_all add: same_ledger_def)
  have s3: "td_trades s3 = td_trades s2" "td_assets s3 = td_assets st"
    using move_assets_frame [OF x(3)] x(2) st(2) by (simp_all add: same_ledger_def)
  from s(4) obtain t ev where agg: "findTrade st' (ex_leagueId c) (ex_tradeId c) = [t]"
      "findTradeEvent st' (ex_leagueId c) (ex_tradeId c) ''proposal_accepted'' = [ev]"
      "res = \<lparr>rs_replayed = False, rs_trade = projectEffectiveTrade st' t, rs_event = ev\<rparr>"
    by (rule executionAggregate_fields)
  have "t \<in> set (findTrade st' (ex_leagueId c) (ex_tradeId c))" unfolding agg(1) by simp
  then have ids: "tr_league_id (rs_trade res) = ex_leagueId c" "tr_id (rs_trade res) = ex_tradeId c"
    by (simp_all add: agg(3) projectEffectiveTrade_def findTrade_def)
  have "?e \<in> set (findTradeEvent st' (ex_leagueId c) (ex_tradeId c) ''proposal_accepted'')"
    by (simp add: out(2) findTradeEvent_def execution_event_def)
  then have at: "tv_occurred_at_ms (rs_event res) = ex_occurredAtMs c"
    unfolding agg(2) by (auto simp: agg(3) execution_event_def)
  define f where "f r = (if open_as s1 (ex_leagueId c) (ex_tradeId c) status (ex_expectedVersion c) r
    then complete_trade c status r else r)" for r
  have f: "tr_id (f r) = tr_id r" "tr_id r \<noteq> ex_tradeId c \<Longrightarrow> f r = r" for r
    by (simp_all add: f_def open_as_def complete_trade_def)
  have s2: "td_trades s2 = map f (td_trades st)" by (simp add: x(2) update_rows_def st(1) f_def cong: map_cong)
  have "map tr_id (td_trades s2) = map tr_id (td_trades st)" by (simp add: s2 f(1) comp_def)
  then have "td_trades st' = map (\<lambda>r. if tr_status r = ''proposed'' \<and>
      shares_asset (td_assets st) (ex_leagueId c) (ex_tradeId c) r
    then settle_trade ''cancelled'' (ex_occurredAtMs c) r else r) (td_trades s2)"
    unfolding out(1) using cancel_conflicts_trades [OF x(4)] assms(2) by (simp add: s3)
  then have new: "td_trades st' = map (\<lambda>r. if tr_status (f r) = ''proposed'' \<and>
      shares_asset (td_assets st) (ex_leagueId c) (ex_tradeId c) (f r)
    then settle_trade ''cancelled'' (ex_occurredAtMs c) (f r) else f r) (td_trades st)"
    unfolding s2 map_map comp_def .
  have "tr_id (settle_trade s n r) = tr_id r" for s n r by (simp add: settle_trade_def)
  then show ?thesis unfolding ids at new list.rel_map
    apply (intro list.rel_refl)
    subgoal for r by (cases "tr_id r = ex_tradeId c") (simp_all add: f)
    done
qed

theorem conflicting_proposals_cancelled_witness:
  "map tr_status (td_trades sample_rivals) = [''proposed'', ''proposed''] \<and>
   map tr_status (td_trades sample_executed) = [''completed'', ''cancelled''] \<and>
   list_all2 (\<lambda>old new. tr_id new = tr_id old \<and> (tr_id old = tr_id (rs_trade sample_execution) \<or>
      (if tr_status old = ''proposed'' \<and>
          shares_asset (td_assets sample_rivals) (tr_league_id (rs_trade sample_execution))
            (tr_id (rs_trade sample_execution)) old
       then new = settle_trade ''cancelled'' (tv_occurred_at_ms (rs_event sample_execution)) old
       else new = old))) (td_trades sample_rivals) (td_trades sample_executed)"
proof (intro conjI)
  show "map tr_status (td_trades sample_rivals) = [''proposed'', ''proposed'']" by code_simp
  show "map tr_status (td_trades sample_executed) = [''completed'', ''cancelled'']" by code_simp
  have "distinct (map tr_id (td_trades sample_rivals))" by code_simp
  then show "list_all2 (\<lambda>old new. tr_id new = tr_id old \<and> (tr_id old = tr_id (rs_trade sample_execution) \<or>
      (if tr_status old = ''proposed'' \<and>
          shares_asset (td_assets sample_rivals) (tr_league_id (rs_trade sample_execution))
            (tr_id (rs_trade sample_execution)) old
       then new = settle_trade ''cancelled'' (tv_occurred_at_ms (rs_event sample_execution)) old
       else new = old))) (td_trades sample_rivals) (td_trades sample_executed)"
    by (rule conflicting_proposals_cancelled [OF sample_executed_run])
qed

end
