(* ===== verification/TradeLimits.thy ===== *)
theory TradeLimits
  imports TradeMoves
begin

text \<open>
  The retention limits under the execution of trades: what the preview checks of all assets
  together is exactly what the moves, one after the other, do to the retention table.
\<close>

section \<open>The preview of an execution\<close>

lemma preview_command_fields:
  assumes "validateTradeAcceptancePreviewCommand (JObj (acceptance_preview_fields c)) = Inr v"
  shows "vc_leagueId v = ex_leagueId c" and "vc_tradeId v = ex_tradeId c"
  using assms
  by (auto simp: validateTradeAcceptancePreviewCommand_def result_iffs check_iffs
      lifecycle_stableId_def acceptance_preview_fields_def split: option.splits)

lemma snapshot_step_Inr:
  assumes "snapshot_step env st l s (snaps, m, sel) a = Inr (snaps', m', sel')"
  obtains found where "asset_snapshot env st l s a = Inr found" "snaps' = snaps @ [found]"
    "m' = m \<or> (\<exists>p k q. found = Some (ContractSnapshot p k q) \<and>
       m' = m((ac_sourceTeamId a, ta_contractId (ac_asset a)) \<mapsto> (p, k)))"
proof -
  obtain found where found: "asset_snapshot env st l s a = Inr found"
    using assms by (auto simp: snapshot_step_def bindE_Inr_iff)
  show thesis
  proof (cases found)
    case None
    with assms found show thesis by (intro that [of found]) (simp_all add: snapshot_step_def)
  next
    case (Some x)
    with assms found show thesis
      by (cases x) (auto simp: snapshot_step_def split: if_splits intro: that [of found])
  qed
qed

lemma snapshot_step_length:
  "snapshot_step env st l s (snaps, m, sel) a = Inr (snaps', m', sel') \<Longrightarrow> length snaps' = Suc (length snaps)"
  by (auto elim: snapshot_step_Inr)

lemma snapshot_loop_length:
  "foldE (snapshot_step env st l s) (snaps, m, sel) assets = Inr (snaps', m', sel') \<Longrightarrow>
     length snaps' = length snaps + length assets"
proof (induction assets arbitrary: snaps m sel)
  case (Cons a assets)
  then obtain t where t: "snapshot_step env st l s (snaps, m, sel) a = Inr t"
      "foldE (snapshot_step env st l s) t assets = Inr (snaps', m', sel')"
    by (auto simp: bindE_Inr_iff)
  obtain snaps1 m1 sel1 where "t = (snaps1, m1, sel1)" by (cases t)
  with t Cons.IH snapshot_step_length show ?case by fastforce
qed simp

lemma final_snapshot_asset: "final_snapshot st l outgoing m (a, s) = Inr e \<Longrightarrow> fst e = a"
  by (cases s) (auto simp: final_snapshot_def Let_def result_iffs)

lemma snapshotAssets_commands:
  assumes "snapshotAssets env st l s assets = Inr entries"
  shows "map fst entries = assets"
proof -
  obtain snaps m sel where loop: "foldE (snapshot_step env st l s) ([], Map.empty, []) assets = Inr (snaps, m, sel)"
    and final: "mapE (final_snapshot st l (outgoing_retentions assets) m) (zip assets snaps) = Inr entries"
    using assms by (auto simp: snapshotAssets_def Let_def result_iffs)
  have len: "length snaps = length assets" using snapshot_loop_length [OF loop] by simp
  have "list_all2 (\<lambda>x y. final_snapshot st l (outgoing_retentions assets) m x = Inr y) (zip assets snaps) entries"
    using final by (simp add: mapE_Inr_iff)
  then have "list_all2 (\<lambda>x y. fst x = fst y) (zip assets snaps) entries"
    by (rule list_all2_mono) (auto dest: final_snapshot_asset)
  then have "map fst (zip assets snaps) = map fst entries"
    by (simp flip: list.rel_eq add: list.rel_map)
  with len show ?thesis by simp
qed

lemma acceptancePreviewE:
  assumes "acceptancePreview env st (JObj (acceptance_preview_fields c)) = Inr preview"
  obtains s entries where
    "snapshotAssets env st (ex_leagueId c) s
       (map persistedAssetCommand (listTradeAssets st (ex_leagueId c) (ex_tradeId c))) = Inr entries"
    "map pa_row (tq_assets preview) = listTradeAssets st (ex_leagueId c) (ex_tradeId c)"
    "map pa_current (tq_assets preview) = map snd entries"
proof -
  obtain v where v: "validateTradeAcceptancePreviewCommand (JObj (acceptance_preview_fields c)) = Inr v"
    using assms by (auto simp: acceptancePreview_def result_iffs check_iffs)
  note ids = preview_command_fields [OF v]
  let ?rows = "listTradeAssets st (ex_leagueId c) (ex_tradeId c)"
  obtain entries where e: "snapshotAssets env st (ex_leagueId c) (vc_seasonId v) (map persistedAssetCommand ?rows) = Inr entries"
    and p: "map pa_row (tq_assets preview) = map fst (zip ?rows entries)"
      "map pa_current (tq_assets preview) = map (\<lambda>x. snd (snd x)) (zip ?rows entries)"
    using assms unfolding acceptancePreview_def v lifecycle_result.simps bindE_simps ids Let_def
    by (auto simp: result_iffs comp_def case_prod_unfold)
  have "length entries = length ?rows" using snapshotAssets_commands [OF e] by (metis length_map)
  then have "map pa_row (tq_assets preview) = ?rows" "map pa_current (tq_assets preview) = map snd entries"
    unfolding p by (simp_all flip: map_map [unfolded comp_def])
  with e show thesis by (rule that)
qed

section \<open>Retention slots\<close>

text \<open>One row replaced: how a count of rows changes.\<close>

lemma count_update_one:
  assumes "length (filter p rows) = 1"
  obtains r where "r \<in> set rows" "p r"
    "int (length (filter q (update_rows p f rows))) =
       int (length (filter q rows)) - of_bool (q r) + of_bool (q (f r))"
proof -
  obtain r where "filter p rows = [r]" using assms by (auto simp: length_Suc_conv)
  then obtain us vs where rows: "rows = us @ r # vs" "\<forall>u \<in> set us. \<not> p u" "p r" "filter p vs = []"
    by (auto simp: filter_eq_Cons_iff)
  then have "update_rows p f rows = us @ f r # vs"
    by (auto simp: update_rows_def filter_empty_conv map_idI)
  with rows show thesis by (auto intro!: that [of r])
qed

lemma slot_delta_one:
  "slot_delta [persistedAssetCommand row] team =
     (if tar_asset_type row = ''retention_obligation''
      then of_bool (tar_destination_team_id row = team) - of_bool (tar_source_team_id row = team)
      else if tar_asset_type row = ''requested_retention'' then of_bool (tar_source_team_id row = team)
      else 0)"
  by (auto simp: slot_delta_def slot_changes_def persistedAssetCommand_def)

lemma slot_delta_Cons: "slot_delta (a # as) team = slot_delta [a] team + slot_delta as team"
  by (simp add: slot_delta_def)

lemma move_retention_slots:
  assumes "move_retention env c row v st = Inr st'"
  shows "countTeamRetentionSlots st' (ex_leagueId c) team = countTeamRetentionSlots st (ex_leagueId c) team
    + (of_bool (tar_destination_team_id row = team) - of_bool (tar_source_team_id row = team))"
proof -
  let ?p = "\<lambda>r. ro_league_id r = ex_leagueId c \<and> ro_id r = rw_id v \<and>
    ro_responsible_team_id r = tar_source_team_id row \<and> ro_status r = ''active'' \<and> ro_version r = rw_version v"
  let ?f = "\<lambda>r. r\<lparr>ro_responsible_team_id := tar_destination_team_id row,
    ro_updated_at_ms := ex_occurredAtMs c, ro_version := ro_version r + 1\<rparr>"
  let ?q = "\<lambda>r. ro_league_id r = ex_leagueId c \<and> ro_responsible_team_id r = team \<and> ro_status r = ''active''"
  have one: "length (filter ?p (td_retentions st)) = 1"
    and st': "td_retentions st' = update_rows ?p ?f (td_retentions st)"
    using assms by (auto simp: move_retention_def result_iffs check_iffs)
  obtain r where "r \<in> set (td_retentions st)" "?p r" "int (length (filter ?q (update_rows ?p ?f (td_retentions st)))) =
      int (length (filter ?q (td_retentions st))) - of_bool (?q r) + of_bool (?q (?f r))"
    by (rule count_update_one [OF one, of ?q ?f])
  then show ?thesis by (simp add: countTeamRetentionSlots_def st')
qed

lemma create_retention_retentions:
  assumes "create_retention env c row v st = Inr st'"
  obtains r where "td_retentions st' = td_retentions st @ [r]" "ro_id r = tar_id row"
    "ro_league_id r = ex_leagueId c" "ro_contract_id r = qw_contractId v"
    "ro_responsible_team_id r = tar_source_team_id row" "ro_status r = ''active''"
    "ro_retained_aav_cents r = qw_retainedAavCents v" "td_contracts st' = td_contracts st"
proof -
  define r where "r = \<lparr>ro_id = tar_id row, ro_league_id = ex_leagueId c,
    ro_contract_id = qw_contractId v, ro_player_id = qw_playerId v,
    ro_originating_team_id = tar_source_team_id row, ro_responsible_team_id = tar_source_team_id row,
    ro_retained_aav_cents = qw_retainedAavCents v, ro_creation_trade_id = ex_tradeId c,
    ro_status = ''active'', ro_created_at_ms = ex_occurredAtMs c,
    ro_updated_at_ms = ex_occurredAtMs c, ro_version = 1\<rparr>"
  define s where "s = st\<lparr>td_retentions := td_retentions st @ [r]\<rparr>"
  have years: "foldE (\<lambda>s y. bindE (insert_row roy_id
       \<lparr>roy_id = deterministicUuid env (ex_tradeId c @ '':retention-year:'' @ tar_id row @ '':'' @
          cy_season_id y),
        roy_league_id = ex_leagueId c, roy_retention_obligation_id = tar_id row,
        roy_season_id = cy_season_id y, roy_retained_aav_cents = qw_retainedAavCents v,
        roy_status = cy_status y, roy_created_at_ms = ex_occurredAtMs c\<rparr> (td_retention_years s))
     (\<lambda>rows. written env (s\<lparr>td_retention_years := rows\<rparr>))) s
     (filter (\<lambda>y. cy_status y \<in> {''current'', ''future''})
        (listContractYears s (ex_leagueId c) (qw_contractId v))) = Inr st'"
    using assms unfolding create_retention_def r_def [symmetric] by (auto simp: s_def result_iffs check_iffs)
  have "td_retentions st' = td_retentions s \<and> td_contracts st' = td_contracts s"
    using years by (rule foldE_invariant) (auto simp: result_iffs check_iffs)
  then show thesis by (intro that [of r]) (simp_all add: s_def r_def)
qed

text \<open>Operations of the execution that write neither retentions nor the amounts of contracts.\<close>

definition terms :: "trade_store \<Rightarrow> (string \<times> string \<times> int) list" where
  "terms st = map (\<lambda>k. (c_league_id k, c_id k, c_aav_cents k)) (td_contracts st)"

definition same_terms :: "trade_store \<Rightarrow> trade_store \<Rightarrow> bool" where
  "same_terms st st' \<longleftrightarrow> td_retentions st' = td_retentions st \<and> terms st' = terms st"

lemma move_contract_terms: "move_contract env c row i v st = Inr st' \<Longrightarrow> same_terms st st'"
  by (auto simp: move_contract_def same_terms_def terms_def update_rows_def result_iffs check_iffs)

lemma tenure_events_terms: "insertOwnershipTenureEvents env c st p t = Inr st' \<Longrightarrow> same_terms st st'"
  by (auto simp: insertOwnershipTenureEvents_def Let_def same_terms_def terms_def result_iffs check_iffs)

lemma contract_event_terms: "insert_contract_event env c row i p extra st = Inr st' \<Longrightarrow> same_terms st st'"
  by (auto simp: insert_contract_event_def same_terms_def terms_def result_iffs check_iffs)

lemma move_pick_terms: "move_pick env c row v st = Inr st' \<Longrightarrow> same_terms st st'"
  by (auto simp: move_pick_def same_terms_def terms_def result_iffs check_iffs)

lemma move_buyout_terms: "move_buyout env c row v st = Inr st' \<Longrightarrow> same_terms st st'"
  by (auto simp: move_buyout_def same_terms_def terms_def result_iffs check_iffs)

lemma create_consideration_terms: "create_consideration env c row d st = Inr st' \<Longrightarrow> same_terms st st'"
  by (auto simp: create_consideration_def same_terms_def terms_def result_iffs check_iffs)

lemma move_consideration_terms: "move_consideration env c row v st = Inr st' \<Longrightarrow> same_terms st st'"
  by (auto simp: move_consideration_def Let_def same_terms_def terms_def result_iffs check_iffs)

lemma close_tenure_terms: "close_tenure env c st p = Inr st' \<Longrightarrow> same_terms st st'"
  by (auto simp: close_tenure_def same_terms_def terms_def result_iffs check_iffs)

lemma open_tenure_terms: "open_tenure env c st p = Inr st' \<Longrightarrow> same_terms st st'"
  by (auto simp: open_tenure_def same_terms_def terms_def result_iffs check_iffs)

lemma same_terms_trans: "same_terms st st' \<Longrightarrow> same_terms st' st'' \<Longrightarrow> same_terms st st''"
  by (simp add: same_terms_def)

lemma foldE_same_terms:
  assumes "foldE f st xs = Inr st'" and "\<And>s x s'. f s x = Inr s' \<Longrightarrow> same_terms s s'"
  shows "same_terms st st'"
  using assms(1) by (rule foldE_invariant) (auto simp: same_terms_def intro: same_terms_trans dest: assms(2))

text \<open>Each step of the loop moves a retention, creates one, or leaves them alone.\<close>

lemma apply_asset_retentions:
  assumes "apply_asset env c st p = Inr st'"
  obtains
    (moved) v where "tar_asset_type (pa_row p) = ''retention_obligation''"
      "move_retention env c (pa_row p) v st = Inr st'" "terms st' = terms st"
  | (created) v where "tar_asset_type (pa_row p) = ''requested_retention''"
      "pa_current p = RequestedSnapshot v" "create_retention env c (pa_row p) v st = Inr st'"
      "terms st' = terms st"
  | (other) "tar_asset_type (pa_row p) \<noteq> ''retention_obligation''"
      "tar_asset_type (pa_row p) \<noteq> ''requested_retention''" "same_terms st st'"
  using assms
proof (cases rule: apply_asset_cases)
  case (retention v)
  then have "terms st' = terms st"
    by (auto simp: move_retention_def terms_def result_iffs check_iffs)
  with retention show thesis by (intro moved)
next
  case (requested v)
  then have "terms st' = terms st" by (auto simp: terms_def elim: create_retention_retentions)
  with requested show thesis by (intro created)
next
  case contract
  then show thesis
    by (intro other) (auto dest!: move_contract_terms tenure_events_terms contract_event_terms
        intro: same_terms_trans)
next
  case entry_level
  then show thesis
    by (intro other) (auto dest!: move_contract_terms tenure_events_terms contract_event_terms
        intro: same_terms_trans)
qed (intro other; auto dest: tenure_events_terms move_pick_terms move_buyout_terms
      create_consideration_terms move_consideration_terms)+

lemma apply_asset_slots:
  assumes "apply_asset env c st p = Inr st'"
  shows "countTeamRetentionSlots st' (ex_leagueId c) team = countTeamRetentionSlots st (ex_leagueId c) team
    + slot_delta [persistedAssetCommand (pa_row p)] team"
  using assms
proof (cases rule: apply_asset_retentions)
  case (moved v)
  then show ?thesis using move_retention_slots [OF moved(2)] by (simp add: slot_delta_one)
next
  case (created v)
  from created(3) obtain r where "td_retentions st' = td_retentions st @ [r]"
    "ro_league_id r = ex_leagueId c" "ro_responsible_team_id r = tar_source_team_id (pa_row p)"
    "ro_status r = ''active''" by (rule create_retention_retentions)
  with created(1) show ?thesis by (simp add: slot_delta_one countTeamRetentionSlots_def)
next
  case other
  then show ?thesis by (simp add: slot_delta_one same_terms_def countTeamRetentionSlots_def)
qed

lemma apply_assets_slots:
  assumes "foldE (apply_asset env c) st ps = Inr st'"
  shows "countTeamRetentionSlots st' (ex_leagueId c) team = countTeamRetentionSlots st (ex_leagueId c) team
    + slot_delta (map persistedAssetCommand (map pa_row ps)) team"
  using assms
proof (induction ps arbitrary: st)
  case Nil
  then show ?case by (simp add: slot_delta_def)
next
  case (Cons p ps)
  then obtain s where "apply_asset env c st p = Inr s" "foldE (apply_asset env c) s ps = Inr st'"
    by (auto simp: bindE_Inr_iff)
  with Cons.IH apply_asset_slots
    slot_delta_Cons [of "persistedAssetCommand (pa_row p)" "map persistedAssetCommand (map pa_row ps)" team]
  show ?case by simp
qed

section \<open>Retained amounts\<close>

text \<open>What the requested retentions of a trade add to a contract.\<close>

definition requested_cents :: "string \<Rightarrow> asset_command \<times> snapshot \<Rightarrow> int" where
  "requested_cents contractId entry =
     (case entry of (a, s) \<Rightarrow>
      if ta_inputType (ac_asset a) \<noteq> ''requested_retention'' then 0
      else case s of
        RequestedSnapshot v \<Rightarrow> if qw_contractId v = contractId then qw_retainedAavCents v else 0
      | _ \<Rightarrow> 0)"

lemma persisted_requested:
  "ta_inputType (ac_asset (persistedAssetCommand row)) = ''requested_retention'' \<longleftrightarrow>
     tar_asset_type row = ''requested_retention''"
  by (simp add: persistedAssetCommand_def)

lemma move_retention_sum:
  assumes "move_retention env c row v st = Inr st'"
  shows "summarizeContractRetention st' l k = summarizeContractRetention st l k"
  using assms
  by (auto simp: move_retention_def summarizeContractRetention_def update_rows_def result_iffs
      check_iffs filter_map comp_def if_distrib intro!: arg_cong [of _ _ sum_list] map_cong filter_cong)

lemma apply_asset_sum:
  assumes "apply_asset env c st p = Inr st'"
  shows "summarizeContractRetention st' (ex_leagueId c) (Some i) =
    summarizeContractRetention st (ex_leagueId c) (Some i)
    + requested_cents i (persistedAssetCommand (pa_row p), pa_current p)"
  using assms
proof (cases rule: apply_asset_retentions)
  case (moved v)
  then show ?thesis using move_retention_sum [OF moved(2)] by (simp add: requested_cents_def persisted_requested)
next
  case (created v)
  from created(3) obtain r where "td_retentions st' = td_retentions st @ [r]"
    "ro_league_id r = ex_leagueId c" "ro_contract_id r = qw_contractId v" "ro_status r = ''active''"
    "ro_retained_aav_cents r = qw_retainedAavCents v" by (rule create_retention_retentions)
  with created(1,2) show ?thesis
    by (simp add: requested_cents_def persisted_requested summarizeContractRetention_def)
next
  case other
  then show ?thesis
    by (simp add: requested_cents_def persisted_requested same_terms_def summarizeContractRetention_def)
qed

lemma apply_assets_sum:
  assumes "foldE (apply_asset env c) st ps = Inr st'"
  shows "summarizeContractRetention st' (ex_leagueId c) (Some i) =
    summarizeContractRetention st (ex_leagueId c) (Some i)
    + sum_list (map (\<lambda>p. requested_cents i (persistedAssetCommand (pa_row p), pa_current p)) ps)"
  using assms
proof (induction ps arbitrary: st)
  case (Cons p ps)
  then obtain s where "apply_asset env c st p = Inr s" "foldE (apply_asset env c) s ps = Inr st'"
    by (auto simp: bindE_Inr_iff)
  with Cons.IH apply_asset_sum show ?case by simp
qed simp

text \<open>The contracts that the first loop of the snapshot collects.\<close>

definition collected ::
    "trade_store \<Rightarrow> string \<Rightarrow> (string \<times> string option \<Rightarrow> (player_view \<times> contract_view) option) \<Rightarrow> bool" where
  "collected st l m \<longleftrightarrow> (\<forall>team k p v. m (team, k) = Some (p, v) \<longrightarrow>
     (\<exists>c \<in> set (td_contracts st). c_league_id c = l \<and> k = Some (c_id c) \<and>
        c_current_team_id c = team \<and> kv_aavCents v = c_aav_cents c))"

lemma collectedD:
  assumes "collected st l m" and "m (team, k) = Some (p, v)"
  shows "\<exists>c \<in> set (td_contracts st). c_league_id c = l \<and> k = Some (c_id c) \<and>
    c_current_team_id c = team \<and> kv_aavCents v = c_aav_cents c"
  using assms unfolding collected_def by blast

lemma contractSnapshot_row:
  assumes "contractSnapshot env st l s a = Inr (ContractSnapshot p v q)"
  obtains c where "c \<in> set (td_contracts st)" "c_league_id c = l"
    "ta_contractId (ac_asset a) = Some (c_id c)" "c_current_team_id c = ac_sourceTeamId a"
    "kv_aavCents v = c_aav_cents c"
proof -
  obtain c name o' where found: "findContract env st l (ta_contractId (ac_asset a)) = [(c, name, Some o')]"
    and rest: "c_current_team_id c = ac_sourceTeamId a" "kv_aavCents v = c_aav_cents c"
    using assms by (auto simp: contractSnapshot_def Let_def result_iffs check_iffs
        split: option.splits prod.splits if_splits)
  have "(c, name, Some o') \<in> set (findContract env st l (ta_contractId (ac_asset a)))"
    unfolding found by simp
  then have "c \<in> set (td_contracts st)" "c_league_id c = l" "ta_contractId (ac_asset a) = Some (c_id c)"
    by (auto simp: findContract_def)
  with rest show thesis by (intro that)
qed

lemma asset_snapshot_contract:
  assumes "asset_snapshot env st l s a = Inr (Some (ContractSnapshot p v q))"
  shows "contractSnapshot env st l s a = Inr (ContractSnapshot p v q)"
  using assms
  by (auto simp: asset_snapshot_def Let_def result_iffs prospectSnapshot_def draftPickSnapshot_def
      retentionSnapshot_def buyoutSnapshot_def futureConsiderationSnapshot_def
      split: if_splits option.splits prod.splits)

lemma snapshot_loop:
  assumes "foldE (snapshot_step env st l s) (snaps, m, sel) assets = Inr (snaps', m', sel')"
    and "collected st l m"
  shows "collected st l m' \<and> (\<exists>found. snaps' = snaps @ found \<and>
    list_all2 (\<lambda>a o'. asset_snapshot env st l s a = Inr o') assets found)"
  using assms
proof (induction assets arbitrary: snaps m sel)
  case (Cons a assets)
  then obtain t where t: "snapshot_step env st l s (snaps, m, sel) a = Inr t"
      "foldE (snapshot_step env st l s) t assets = Inr (snaps', m', sel')"
    by (auto simp: bindE_Inr_iff)
  obtain snaps1 m1 sel1 where eq: "t = (snaps1, m1, sel1)" by (cases t)
  from t(1) eq obtain found where f: "asset_snapshot env st l s a = Inr found" "snaps1 = snaps @ [found]"
    "m1 = m \<or> (\<exists>p k q. found = Some (ContractSnapshot p k q) \<and>
       m1 = m((ac_sourceTeamId a, ta_contractId (ac_asset a)) \<mapsto> (p, k)))"
    by (auto elim: snapshot_step_Inr)
  have "collected st l m1"
  proof (cases "m1 = m")
    case False
    then obtain p k q where "found = Some (ContractSnapshot p k q)"
        "m1 = m((ac_sourceTeamId a, ta_contractId (ac_asset a)) \<mapsto> (p, k))"
      using f(3) by auto
    with f(1) Cons.prems(2) show ?thesis unfolding collected_def
      by (auto elim!: contractSnapshot_row dest!: asset_snapshot_contract)
  qed (use Cons.prems(2) in simp)
  from Cons.IH [OF t(2) [unfolded eq] this] f(1,2) show ?case by auto
qed simp

text \<open>No team retains twice on a contract, and so one contract has one request at most.\<close>

lemma check_claims_distinct:
  assumes "foldE (check_claim st l outgoing) seen entries = Inr seen'"
  shows "distinct (List.map_filter retention_claim entries) \<and>
    set (List.map_filter retention_claim entries) \<inter> set seen = {}"
  using assms
proof (induction entries arbitrary: seen)
  case Nil
  then show ?case by (simp add: List.map_filter_simps)
next
  case (Cons e entries)
  then obtain s where s: "check_claim st l outgoing seen e = Inr s"
      "foldE (check_claim st l outgoing) s entries = Inr seen'"
    by (auto simp: bindE_Inr_iff)
  note IH = Cons.IH [OF s(2)]
  show ?case
  proof (cases "retention_claim e")
    case None
    with s(1) IH show ?thesis by (simp add: check_claim_def List.map_filter_simps)
  next
    case (Some claim)
    obtain team k where claim: "claim = (team, k)" by (cases claim)
    with s(1) Some have "claim \<notin> set seen" "s = claim # seen"
      by (auto simp: check_claim_def bindE_Inr_iff split: if_splits)
    with IH Some show ?thesis by (auto simp: List.map_filter_simps)
  qed
qed

definition requests :: "string \<Rightarrow> asset_command \<times> snapshot option \<Rightarrow> bool" where
  "requests i e \<longleftrightarrow> ta_inputType (ac_asset (fst e)) = ''requested_retention'' \<and>
     ta_requestedRetentionContractId (ac_asset (fst e)) = Some i"

lemma distinct_replicate_le: "distinct (replicate n x) \<Longrightarrow> n \<le> 1"
proof (cases n)
  case (Suc m)
  then show "distinct (replicate n x) \<Longrightarrow> n \<le> 1" by (cases m) auto
qed simp

lemma requests_once:
  assumes "distinct (List.map_filter retention_claim entries)"
    and "\<And>e. e \<in> set entries \<Longrightarrow> requests i e \<Longrightarrow> ac_sourceTeamId (fst e) = team"
  shows "length (filter (requests i) entries) \<le> 1"
proof -
  let ?P = "\<lambda>e. retention_claim e \<noteq> None" and ?g = "\<lambda>e. the (retention_claim e)"
  have claim: "retention_claim e = Some (team, Some i)" if "e \<in> set entries" "requests i e" for e
  proof -
    obtain a o' where "e = (a, o')" by (metis surj_pair)
    with that(2) assms(2) [OF that] show ?thesis by (simp add: requests_def retention_claim_def)
  qed
  have "distinct (map ?g (filter ?P entries))"
    using assms(1) by (simp add: List.map_filter_def comp_def)
  then have "distinct (map ?g (filter (requests i) (filter ?P entries)))" by (rule distinct_map_filter)
  moreover have "filter (requests i) (filter ?P entries) = filter (requests i) entries"
    using claim by (auto intro!: filter_cong)
  ultimately have "distinct (map ?g (filter (requests i) entries))" by simp
  moreover have "map ?g (filter (requests i) entries) =
      replicate (length (filter (requests i) entries)) (team, Some i)"
    using claim by (simp add: map_replicate_const [symmetric])
  ultimately show ?thesis using distinct_replicate_le by metis
qed

lemma final_requested:
  assumes "final_snapshot st l outgoing m (a, None) = Inr (b, x)"
  obtains p v w where "m (ac_sourceTeamId a, ta_requestedRetentionContractId (ac_asset a)) = Some (p, v)"
    "b = a" "x = RequestedSnapshot w" "qw_contractId w = the (ta_requestedRetentionContractId (ac_asset a))"
    "summarizeContractRetention st l (ta_requestedRetentionContractId (ac_asset a)) + qw_retainedAavCents w
       \<le> kv_aavCents v div 2"
  using assms by (auto simp: final_snapshot_def Let_def result_iffs split: option.splits if_splits)

lemma snapshotAssets_sum:
  assumes "snapshotAssets env st l s assets = Inr entries" and "distinct (map c_id (td_contracts st))"
    and "k \<in> set (td_contracts st)" and "c_league_id k = l"
    and "summarizeContractRetention st l (Some (c_id k)) \<le> c_aav_cents k div 2"
  shows "summarizeContractRetention st l (Some (c_id k)) + sum_list (map (requested_cents (c_id k)) entries)
    \<le> c_aav_cents k div 2"
proof -
  obtain snaps m sel seen where loop: "foldE (snapshot_step env st l s) ([], Map.empty, []) assets = Inr (snaps, m, sel)"
    and claims: "foldE (check_claim st l (outgoing_retentions assets)) [] (zip assets snaps) = Inr seen"
    and final: "mapE (final_snapshot st l (outgoing_retentions assets) m) (zip assets snaps) = Inr entries"
    using assms(1) by (auto simp: snapshotAssets_def Let_def result_iffs)
  have coll: "collected st l m"
    and snaps: "list_all2 (\<lambda>a o'. asset_snapshot env st l s a = Inr o') assets snaps"
    using snapshot_loop [OF loop] by (auto simp: collected_def)
  let ?E = "zip assets snaps" and ?i = "c_id k"
  have none: "snd e = None" if "e \<in> set ?E" "ta_inputType (ac_asset (fst e)) = ''requested_retention''" for e
  proof -
    obtain a o' where e: "e = (a, o')" by (cases e)
    then have "asset_snapshot env st l s a = Inr o'" using snaps that(1) by (auto simp: list_all2_iff)
    with that(2) e show ?thesis by (simp add: asset_snapshot_def)
  qed
  have results: "\<exists>x. final_snapshot st l (outgoing_retentions assets) m e = Inr x" if "e \<in> set ?E" for e
    using mapE_Inr_left [OF final that] by blast
  have contract: "ac_sourceTeamId (fst e) = c_current_team_id k \<and> (\<exists>w. \<forall>x.
      final_snapshot st l (outgoing_retentions assets) m e = Inr x \<longrightarrow> requested_cents ?i x = w \<and>
      summarizeContractRetention st l (Some ?i) + w \<le> c_aav_cents k div 2)"
    if e: "e \<in> set ?E" "requests ?i e" for e
  proof -
    obtain a where a: "e = (a, None)" using none [OF e(1)] e(2) by (cases e) (auto simp: requests_def)
    obtain b x where x: "final_snapshot st l (outgoing_retentions assets) m (a, None) = Inr (b, x)"
      using results [OF e(1)] a by auto
    from x obtain p v w where w: "m (ac_sourceTeamId a, ta_requestedRetentionContractId (ac_asset a)) = Some (p, v)"
      "b = a" "x = RequestedSnapshot w" "qw_contractId w = the (ta_requestedRetentionContractId (ac_asset a))"
      "summarizeContractRetention st l (ta_requestedRetentionContractId (ac_asset a)) + qw_retainedAavCents w
         \<le> kv_aavCents v div 2"
      by (rule final_requested)
    from e(2) a have req: "ta_requestedRetentionContractId (ac_asset a) = Some ?i"
      "ta_inputType (ac_asset a) = ''requested_retention''" by (simp_all add: requests_def)
    obtain c where c: "c \<in> set (td_contracts st)" "c_id c = ?i" "c_current_team_id c = ac_sourceTeamId a"
        "kv_aavCents v = c_aav_cents c"
      using collectedD [OF coll w(1)] req(1) by auto
    have "c = k" using assms(2,3) c(1,2) by (auto simp: distinct_map dest: inj_onD)
    with c w req x a show ?thesis by (auto simp: requested_cents_def)
  qed
  have once: "length (filter (requests ?i) ?E) \<le> 1"
    by (rule requests_once [where team = "c_current_team_id k"])
      (use check_claims_distinct [OF claims] contract in auto)
  have zero: "requested_cents ?i x = 0"
    if e: "e \<in> set ?E" "final_snapshot st l (outgoing_retentions assets) m e = Inr x" "\<not> requests ?i e" for e x
  proof (cases "ta_inputType (ac_asset (fst e)) = ''requested_retention''")
    case True
    then obtain a where a: "e = (a, None)" using none [OF e(1)] by (cases e) auto
    obtain b y where "x = (b, y)" by (cases x)
    with e(2) a obtain p v w where w: "m (ac_sourceTeamId a, ta_requestedRetentionContractId (ac_asset a)) = Some (p, v)"
      "b = a" "y = RequestedSnapshot w" "qw_contractId w = the (ta_requestedRetentionContractId (ac_asset a))"
      by (auto elim: final_requested)
    obtain j where "ta_requestedRetentionContractId (ac_asset a) = Some j"
      using collectedD [OF coll w(1)] by auto
    with w e(3) True a \<open>x = (b, y)\<close> show ?thesis by (simp add: requested_cents_def requests_def)
  next
    case False
    have "fst x = fst e" using e(2) by (cases e) (auto dest: final_snapshot_asset)
    with False show ?thesis by (cases x) (simp add: requested_cents_def)
  qed
  let ?w = "\<lambda>e. if requests ?i e
    then (case final_snapshot st l (outgoing_retentions assets) m e of Inr x \<Rightarrow> requested_cents ?i x | Inl _ \<Rightarrow> 0) else 0"
  have "list_all2 (\<lambda>e x. final_snapshot st l (outgoing_retentions assets) m e = Inr x) ?E entries"
    using final by (simp add: mapE_Inr_iff)
  then have "list_all2 (\<lambda>e x. ?w e = requested_cents ?i x) ?E entries"
    by (rule list.rel_mono_strong) (use zero in auto)
  then have "list_all2 (=) (map ?w ?E) (map (requested_cents ?i) entries)"
    unfolding list.rel_map .
  then have eq: "map (requested_cents ?i) entries = map ?w ?E" by (simp add: list.rel_eq)
  have "sum_list (map ?w ?E) = sum_list (map ?w (filter (requests ?i) ?E))"
    by (rule sum_list_map_filter [symmetric]) simp
  also have "summarizeContractRetention st l (Some ?i) + \<dots> \<le> c_aav_cents k div 2"
  proof (cases "filter (requests ?i) ?E")
    case Nil
    with assms(5) show ?thesis by simp
  next
    case (Cons e es)
    with once have one: "filter (requests ?i) ?E = [e]" by simp
    then have e: "e \<in> set ?E" "requests ?i e" by (auto simp: filter_eq_Cons_iff)
    with contract [OF e] results [OF e(1)] show ?thesis unfolding one by auto
  qed
  finally show ?thesis unfolding eq .
qed

section \<open>The limits\<close>

text \<open>
  The limits of a league: contracts have unique identifiers, no team holds more than three active
  retentions, and those on a contract keep within half of its average annual value.
\<close>

definition retention_limits :: "trade_store \<Rightarrow> string \<Rightarrow> bool" where
  "retention_limits st leagueId \<longleftrightarrow>
     distinct (map c_id (td_contracts st)) \<and>
     list_all (\<lambda>r. countTeamRetentionSlots st leagueId (ro_responsible_team_id r) \<le> 3) (td_retentions st) \<and>
     list_all (\<lambda>k. c_league_id k \<noteq> leagueId \<or>
       summarizeContractRetention st leagueId (Some (c_id k)) \<le> c_aav_cents k div 2) (td_contracts st)"

lemma slots_everywhere:
  "list_all (\<lambda>r. countTeamRetentionSlots st l (ro_responsible_team_id r) \<le> 3) (td_retentions st) \<longleftrightarrow>
     (\<forall>team. countTeamRetentionSlots st l team \<le> 3)"
proof
  assume all: "list_all (\<lambda>r. countTeamRetentionSlots st l (ro_responsible_team_id r) \<le> 3) (td_retentions st)"
  show "\<forall>team. countTeamRetentionSlots st l team \<le> 3"
  proof
    fix team
    show "countTeamRetentionSlots st l team \<le> 3"
    proof (cases "\<exists>r \<in> set (td_retentions st). ro_responsible_team_id r = team")
      case True
      with all show ?thesis by (auto simp: list_all_iff)
    next
      case False
      then have "countTeamRetentionSlots st l team = 0"
        by (auto simp: countTeamRetentionSlots_def filter_empty_conv)
      then show ?thesis by simp
    qed
  qed
qed (simp add: list_all_iff)

lemma check_slots_bound:
  assumes "check_slots st l assets = Inr u" and "\<forall>team. countTeamRetentionSlots st l team \<le> 3"
  shows "countTeamRetentionSlots st l team + slot_delta assets team \<le> 3"
proof (cases "team \<in> set (map fst (concat (map slot_changes assets)))")
  case True
  with assms(1) show ?thesis by (fastforce simp: check_slots_def Let_def list_ex_iff split: if_splits)
next
  case False
  then have "slot_delta assets team = 0"
    unfolding slot_delta_def by (intro arg_cong [of _ "[]" "\<lambda>xs. sum_list (map snd xs)", simplified])
      (auto simp: filter_empty_conv)
  with assms(2) show ?thesis by simp
qed

lemma move_assets_loop:
  assumes "move_assets env c ps st = Inr st'"
  obtains s where "same_terms st s" "foldE (apply_asset env c) s ps = Inr st'"
proof -
  let ?players = "filter (\<lambda>p. moves_player (pa_row p)) ps"
  obtain s1 s2 where s: "foldE (close_tenure env c) st ?players = Inr s1"
    "foldE (open_tenure env c) s1 ?players = Inr s2" "foldE (apply_asset env c) s2 ps = Inr st'"
    using assms by (auto simp: move_assets_def Let_def result_iffs)
  have "same_terms st s2"
    using foldE_same_terms [OF s(1) close_tenure_terms] foldE_same_terms [OF s(2) open_tenure_terms]
    by (rule same_terms_trans)
  from this s(3) show thesis by (rule that)
qed

lemma apply_assets_terms:
  assumes "foldE (apply_asset env c) st ps = Inr st'"
  shows "terms st' = terms st"
  using assms
  by (rule foldE_invariant) (auto simp: same_terms_def elim!: apply_asset_retentions)

lemma limits_over_terms:
  "retention_limits st l \<longleftrightarrow> distinct (map (fst \<circ> snd) (terms st)) \<and>
     (\<forall>team. countTeamRetentionSlots st l team \<le> 3) \<and>
     list_all (\<lambda>(l', i, aav). l' \<noteq> l \<or> summarizeContractRetention st l (Some i) \<le> aav div 2) (terms st)"
  by (simp add: retention_limits_def slots_everywhere terms_def comp_def list.pred_map)

lemma move_assets_limits:
  assumes "snapshotAssets env st0 (ex_leagueId c) s (map persistedAssetCommand (map pa_row ps)) = Inr entries"
    and "map pa_current ps = map snd entries" and "move_assets env c ps st = Inr st'"
    and "td_retentions st = td_retentions st0" and "td_contracts st = td_contracts st0"
    and "retention_limits st0 (ex_leagueId c)"
  shows "retention_limits st' (ex_leagueId c)"
proof -
  let ?l = "ex_leagueId c"
  obtain s' where s': "same_terms st s'" "foldE (apply_asset env c) s' ps = Inr st'"
    using assms(3) by (rule move_assets_loop)
  have ret: "td_retentions s' = td_retentions st0" and terms: "terms s' = terms st0"
    using s'(1) assms(4,5) by (simp_all add: same_terms_def terms_def)
  have terms': "terms st' = terms st0" using apply_assets_terms [OF s'(2)] terms by simp
  have old: "distinct (map c_id (td_contracts st0))" "\<forall>team. countTeamRetentionSlots st0 ?l team \<le> 3"
    "list_all (\<lambda>k. c_league_id k \<noteq> ?l \<or>
       summarizeContractRetention st0 ?l (Some (c_id k)) \<le> c_aav_cents k div 2) (td_contracts st0)"
    using assms(6) by (simp_all add: retention_limits_def slots_everywhere)
  have "countTeamRetentionSlots st' ?l team \<le> 3" for team
  proof -
    obtain u where "check_slots st0 ?l (map persistedAssetCommand (map pa_row ps)) = Inr u"
      using assms(1) by (auto simp: snapshotAssets_def Let_def result_iffs)
    from check_slots_bound [OF this old(2)] show ?thesis
      using apply_assets_slots [OF s'(2)] ret by (simp add: countTeamRetentionSlots_def)
  qed
  moreover have "summarizeContractRetention st' ?l (Some (c_id k)) \<le> c_aav_cents k div 2"
    if k: "k \<in> set (td_contracts st0)" "c_league_id k = ?l" for k
  proof -
    have fst: "map fst entries = map persistedAssetCommand (map pa_row ps)"
      by (rule snapshotAssets_commands [OF assms(1)])
    have "entries = zip (map fst entries) (map snd entries)" by (simp add: zip_map_fst_snd)
    also have "\<dots> = map (\<lambda>p. (persistedAssetCommand (pa_row p), pa_current p)) ps"
      unfolding fst assms(2) [symmetric] by (simp add: zip_map_map zip_same_conv_map comp_def)
    finally have entries: "entries = map (\<lambda>p. (persistedAssetCommand (pa_row p), pa_current p)) ps" .
    have "summarizeContractRetention st0 ?l (Some (c_id k)) \<le> c_aav_cents k div 2"
      using old(3) k by (auto simp: list_all_iff)
    from snapshotAssets_sum [OF assms(1) old(1) k this]
    show ?thesis using apply_assets_sum [OF s'(2), of "c_id k"] ret
      by (simp add: entries summarizeContractRetention_def comp_def)
  qed
  ultimately show ?thesis using old(1) unfolding limits_over_terms terms'
    by (auto simp: terms_def comp_def list_all_iff)
qed

lemma cancel_conflicts_terms:
  assumes "cancel_conflicts env c st = Inr (st', ids)"
  shows "same_terms st st'"
proof -
  have "same_terms st (fst (st', ids))"
    using assms unfolding cancel_conflicts_def
    by (rule foldE_invariant)
      (auto simp: cancel_conflict_def cancelPending_def Let_def insertEvent_def same_terms_def terms_def
        result_iffs check_iffs split: prod.splits if_splits)
  then show ?thesis by simp
qed

text \<open>
  C6. (invariant) The execution of a trade keeps the league's retention limits, whatever it moves
  and creates at once: no team comes to hold more than three active retentions, and the amounts
  retained on a contract, those that the trade requests included, stay within half of its average.
\<close>

theorem executed_trade_retention_limits:
  assumes "executes env st approve raw st' res" and "retention_limits st (tr_league_id (rs_trade res))"
  shows "retention_limits st' (tr_league_id (rs_trade res))"
proof -
  from assms(1) obtain c preview s0 s1 where s: "s0 = st\<lparr>td_requests := td_requests s0\<rparr>"
      "s1 = s0\<lparr>td_participants := td_participants s1\<rparr>" "execution_guards env c approve s0 = Inr preview"
      "execute_trade env c approve preview s1 = Inr st'" "executionAggregate env st' c False = Inr res"
    by (rule executesE)
  obtain t where "findTrade st' (ex_leagueId c) (ex_tradeId c) = [t]" "rs_trade res = projectEffectiveTrade st' t"
    using s(5) by (auto elim: executionAggregate_fields)
  then have "t \<in> set (findTrade st' (ex_leagueId c) (ex_tradeId c))" by simp
  then have league: "tr_league_id (rs_trade res) = ex_leagueId c"
    using \<open>rs_trade res = projectEffectiveTrade st' t\<close> by (simp add: projectEffectiveTrade_def findTrade_def)
  have "td_contracts s0 = td_contracts st" "td_retentions s0 = td_retentions st" by (subst s(1), simp)+
  then have old: "retention_limits s0 (ex_leagueId c)"
    using assms(2) unfolding league limits_over_terms
    by (simp add: terms_def countTeamRetentionSlots_def summarizeContractRetention_def)
  have "acceptancePreview env s0 (JObj (acceptance_preview_fields c)) = Inr preview"
    using s(3) by (auto simp: execution_guards_def bindE_Inr_iff)
  then obtain sn entries where e: "snapshotAssets env s0 (ex_leagueId c) sn
      (map persistedAssetCommand (map pa_row (tq_assets preview))) = Inr entries"
    "map pa_current (tq_assets preview) = map snd entries"
    by (metis acceptancePreviewE)
  from s(4) obtain s2 s3 s4 ids ev s5 trades where x: "s2 = s1\<lparr>td_trades := trades\<rparr>"
    "move_assets env c (tq_assets preview) s2 = Inr s3" "cancel_conflicts env c s3 = Inr (s4, ids)"
    "insertEvent env ev s4 = Inr s5" "complete_execution env (TradeRepoFailure RepoVersionConflict) c s5 = Inr st'"
    by (rule execute_tradeE) (rule that)
  have "td_retentions s1 = td_retentions s0" "td_contracts s1 = td_contracts s0" by (subst s(2), simp)+
  with x(1) have "retention_limits s3 (ex_leagueId c)" by (intro move_assets_limits [OF e x(2) _ _ old]) simp_all
  moreover have "td_retentions s5 = td_retentions s3 \<and> terms s5 = terms s3"
    using cancel_conflicts_terms [OF x(3)] by (subst (1 2) insertEvent_keeps [OF x(4)]) (simp add: same_terms_def terms_def)
  moreover have "td_retentions st' = td_retentions s5 \<and> terms st' = terms s5"
    by (subst (1 2) complete_execution_keeps [OF x(5)]) (simp add: terms_def)
  ultimately show ?thesis unfolding league limits_over_terms
    by (simp add: countTeamRetentionSlots_def summarizeContractRetention_def)
qed

theorem executed_trade_retention_limits_witness:
  "td_retentions sample_rivals = [] \<and>
   summarizeContractRetention sample_executed (sample_id CHR ''3'') (Some (sample_id CHR ''a'')) = 100 \<and>
   retention_limits sample_executed (tr_league_id (rs_trade sample_execution))"
proof (intro conjI)
  show "td_retentions sample_rivals = []" by code_simp
  show "summarizeContractRetention sample_executed (sample_id CHR ''3'') (Some (sample_id CHR ''a'')) = 100"
    by code_simp
  have "retention_limits sample_rivals (tr_league_id (rs_trade sample_execution))" by code_simp
  then show "retention_limits sample_executed (tr_league_id (rs_trade sample_execution))"
    by (rule executed_trade_retention_limits [OF sample_executed_run])
qed

end
