(* ===== verification/TradeLease.thy ===== *)
theory TradeLease
  imports TradeLedger
begin

text \<open>
  The leases of the expiry job. Versions of runs only grow, so the version of a lease fences it:
  once a later lease of the occurrence is granted, nothing can be done under an earlier one; and a
  run that has succeeded stays so.
\<close>

section \<open>Steps of the job\<close>

inductive expiry_step :: "expiry_store \<Rightarrow> expiry_store \<Rightarrow> bool" where
  claimed: "claimRun xs input = Inr (xs', claim) \<Longrightarrow> expiry_step xs xs'"
| expired: "expireProposal env frozen xs input = Inr (xs', outcome) \<Longrightarrow> expiry_step xs xs'"
| failed: "failRun xs input = Inr (xs', version) \<Longrightarrow> expiry_step xs xs'"
| succeeded: "succeedRun xs input = Inr (xs', version) \<Longrightarrow> expiry_step xs xs'"
| traded: "xs_runs xs' = xs_runs xs \<Longrightarrow> expiry_step xs xs'"

inductive expiry_steps :: "expiry_store \<Rightarrow> expiry_store \<Rightarrow> bool" where
  none: "expiry_steps xs xs"
| more: "expiry_steps xs ys \<Longrightarrow> expiry_step ys zs \<Longrightarrow> expiry_steps xs zs"

text \<open>What no step undoes: the occurrence of a run, its version and its success.\<close>

definition run_key :: "run_row \<Rightarrow> string \<times> string \<times> string" where
  "run_key r = (jr_league_id r, jr_job_type r, jr_occurrence_key r)"

definition run_grows :: "run_row \<Rightarrow> run_row \<Rightarrow> bool" where
  "run_grows r r' \<longleftrightarrow> run_key r' = run_key r \<and> jr_id r' = jr_id r \<and> jr_version r \<le> jr_version r' \<and>
     (jr_status r = ''succeeded'' \<longrightarrow> r' = r)"

definition runs_grow :: "run_row list \<Rightarrow> run_row list \<Rightarrow> bool" where
  "runs_grow rows rows' \<longleftrightarrow> (\<forall>r \<in> set rows. \<exists>r' \<in> set rows'. run_grows r r')"

lemma run_grows_refl [simp]: "run_grows r r"
  by (simp add: run_grows_def)

lemma run_grows_trans: "run_grows r s \<Longrightarrow> run_grows s t \<Longrightarrow> run_grows r t"
  unfolding run_grows_def by auto

lemma runs_grow_refl [simp]: "runs_grow rows rows"
  unfolding runs_grow_def by (auto intro: run_grows_refl)

lemma runs_grow_trans: "runs_grow rows rows' \<Longrightarrow> runs_grow rows' rows'' \<Longrightarrow> runs_grow rows rows''"
  unfolding runs_grow_def by (meson run_grows_trans)

lemma update_rows_grow:
  assumes "\<And>r. r \<in> set rows \<Longrightarrow> p r \<Longrightarrow> run_grows r (f r)"
  shows "runs_grow rows (update_rows p f rows)"
  unfolding runs_grow_def
proof
  fix r assume r: "r \<in> set rows"
  then have "(if p r then f r else r) \<in> set (update_rows p f rows)" by (auto simp: update_rows_def)
  moreover have "run_grows r (if p r then f r else r)" using assms [OF r] by simp
  ultimately show "\<exists>r' \<in> set (update_rows p f rows). run_grows r r'" by blast
qed

lemma findRun_one: "findRun xs l k = [r] \<Longrightarrow> r \<in> set (xs_runs xs) \<and> run_key r = (l, JOB_TYPE, k)"
proof -
  assume "findRun xs l k = [r]"
  then have "r \<in> set (findRun xs l k)" by simp
  then show ?thesis by (simp add: findRun_def run_key_def)
qed

text \<open>Claiming an occurrence that has a run.\<close>

lemma retried_runs:
  assumes one: "findRun xs (cl_leagueId c) (cl_occurrenceKey c) = [r]"
    and upd: "length (filter (\<lambda>q. jr_id q = jr_id r \<and> jr_league_id q = cl_leagueId c \<and>
        jr_version q = jr_version r) (xs_runs xs)) = 1"
    and open': "jr_status r \<noteq> ''succeeded''"
  shows "runs_grow (xs_runs xs) (update_rows (\<lambda>q. jr_id q = jr_id r \<and> jr_league_id q = cl_leagueId c \<and>
        jr_version q = jr_version r) (retried_run c) (xs_runs xs))"
    and "retried_run c r \<in> set (update_rows (\<lambda>q. jr_id q = jr_id r \<and> jr_league_id q = cl_leagueId c \<and>
        jr_version q = jr_version r) (retried_run c) (xs_runs xs))"
proof -
  let ?p = "\<lambda>q. jr_id q = jr_id r \<and> jr_league_id q = cl_leagueId c \<and> jr_version q = jr_version r"
  have r: "r \<in> set (xs_runs xs)" "?p r" using findRun_one [OF one] by (auto simp: run_key_def)
  obtain s where s: "filter ?p (xs_runs xs) = [s]" using upd by (auto simp: length_Suc_conv)
  have only: "q = r" if "q \<in> set (xs_runs xs)" "?p q" for q
  proof -
    have "q \<in> set (filter ?p (xs_runs xs))" "r \<in> set (filter ?p (xs_runs xs))" using that r by simp_all
    then show ?thesis unfolding s by simp
  qed
  show "runs_grow (xs_runs xs) (update_rows ?p (retried_run c) (xs_runs xs))"
  proof (rule update_rows_grow)
    fix q assume "q \<in> set (xs_runs xs)" "?p q"
    then have "q = r" by (rule only)
    then show "run_grows q (retried_run c q)"
      using open' by (simp add: run_grows_def run_key_def retried_run_def)
  qed
  show "retried_run c r \<in> set (update_rows ?p (retried_run c) (xs_runs xs))"
    using r by (force simp: update_rows_def)
qed

lemma claimTransactionE:
  assumes "claimTransaction xs c = Inr (xs', cl)"
  obtains
    (first) "findRun xs (cl_leagueId c) (cl_occurrenceKey c) = []" "rl_acquired cl"
      "xs_runs xs' = xs_runs xs @ [new_run c]" "rl_version cl = 1"
  | (refused) r where "findRun xs (cl_leagueId c) (cl_occurrenceKey c) = [r]" "\<not> rl_acquired cl"
      "xs' = xs" "jr_status r = ''succeeded'' \<or> lease_held (cl_nowMs c) r"
      "rl_reason cl = Some (if jr_status r = ''succeeded'' then ''succeeded'' else ''leased'')"
  | (again) r where "findRun xs (cl_leagueId c) (cl_occurrenceKey c) = [r]" "rl_acquired cl"
      "jr_status r \<noteq> ''succeeded''" "\<not> lease_held (cl_nowMs c) r"
      "runs_grow (xs_runs xs) (xs_runs xs')" "retried_run c r \<in> set (xs_runs xs')"
      "rl_version cl = jr_version r + 1"
proof -
  obtain found where found: "unique_found (findRun xs (cl_leagueId c) (cl_occurrenceKey c)) = Inr found"
    using assms by (auto simp: claimTransaction_def bindE_Inr_iff)
  show thesis
  proof (cases found)
    case None
    with assms found show thesis
      by (intro first) (auto simp: claimTransaction_def result_iffs check_iffs)
  next
    case (Some r)
    with found have one: "findRun xs (cl_leagueId c) (cl_occurrenceKey c) = [r]" by (auto simp: check_iffs)
    show thesis
    proof (cases "jr_status r = ''succeeded'' \<or> lease_held (cl_nowMs c) r")
      case True
      with assms found Some one show thesis
        by (intro refused [OF one]) (auto simp: claimTransaction_def refused_claim_def split: if_splits)
    next
      case False
      with assms found Some have "length (filter (\<lambda>q. jr_id q = jr_id r \<and> jr_league_id q = cl_leagueId c \<and>
          jr_version q = jr_version r) (xs_runs xs)) = 1"
        and out: "rl_acquired cl" "rl_version cl = jr_version r + 1"
          "xs_runs xs' = update_rows (\<lambda>q. jr_id q = jr_id r \<and> jr_league_id q = cl_leagueId c \<and>
             jr_version q = jr_version r) (retried_run c) (xs_runs xs)"
        by (auto simp: claimTransaction_def result_iffs check_iffs)
      note grow = retried_runs [OF one this(1)]
      show thesis using False out grow by (intro again [OF one]) auto
    qed
  qed
qed

lemma expiry_step_grows: "expiry_step xs xs' \<Longrightarrow> runs_grow (xs_runs xs) (xs_runs xs')"
proof (induction rule: expiry_step.induct)
  case (claimed xs input xs' claim)
  then obtain c where "claimTransaction xs c = Inr (xs', claim)"
    by (auto simp: claimRun_def result_iffs check_iffs)
  then show ?case
    by (cases rule: claimTransactionE) (auto simp: runs_grow_def intro: run_grows_refl)
next
  case (expired env frozen xs input xs' outcome)
  then show ?case
    by (auto simp: expireProposal_def expireTransaction_def Let_def result_iffs check_iffs
        split: option.splits if_splits)
next
  case (failed xs input xs' version)
  then show ?case
    by (auto simp: failRun_def result_iffs check_iffs holds_lease_def finish_run_def run_grows_def
        run_key_def intro!: update_rows_grow)
next
  case (succeeded xs input xs' version)
  then show ?case
    by (auto simp: succeedRun_def result_iffs check_iffs holds_lease_def finish_run_def run_grows_def
        run_key_def intro!: update_rows_grow)
next
  case (traded xs' xs)
  then show ?case by simp
qed

lemma expiry_steps_grow: "expiry_steps xs xs' \<Longrightarrow> runs_grow (xs_runs xs) (xs_runs xs')"
  by (induction rule: expiry_steps.induct) (auto intro: runs_grow_trans expiry_step_grows)

section \<open>Fencing\<close>

lemma fld_without: "k \<noteq> j \<Longrightarrow> fld (without_field j v) k = fld v k"
proof (cases v)
  case (JObj ps)
  assume "k \<noteq> j"
  then have "fld (JObj (filter (\<lambda>(i, _). i \<noteq> j) ps)) k = fld (JObj ps) k" by (induction ps) auto
  then show ?thesis unfolding JObj without_field.simps .
qed (simp_all add: fld_def)

text \<open>What a successful expiry command says of itself and of the run it works under.\<close>

lemma expireTransactionE:
  assumes "expireTransaction env frozen xs raw = Inr (xs', outcome)"
  obtains c lease r t where "validateTradeExpiryCommand (without_field ''execution'' raw) = Inr c"
    "expiry_lease_input (fld raw ''execution'') = Inr lease"
    "findRun xs (xc_leagueId c) (xc_occurrenceKey c) = [r]" "lease_valid c lease r"
    "findTrade (xs_trades xs) (xc_leagueId c) (xc_tradeId c) = [t]"
    "projected_status (xs_trades xs) t \<notin> set OPEN_PROPOSAL_STATUSES \<and> xs' = xs \<and>
       outcome = Terminal (tr_id t) (projected_status (xs_trades xs) t) (tr_version t) \<or>
     projected_status (xs_trades xs) t \<in> set OPEN_PROPOSAL_STATUSES \<and>
       assertTradeExpiryState c (Some (expiry_context (xs_trades xs) t)) = Inr () \<and>
       (\<exists>st. write_expiry env c t (xs_trades xs) = Inr st \<and> xs' = xs\<lparr>xs_trades := st\<rparr>) \<and>
       outcome = Expired (xc_tradeId c) (xc_expectedVersion c + 1) (xc_eventId c)"
  using assms
  by (auto simp: expireTransaction_def Let_def result_iffs check_iffs split: option.splits if_splits
      intro: that)

lemma expiry_command_fields:
  assumes "validateTradeExpiryCommand (without_field ''execution'' raw) = Inr c"
  shows "fld raw ''leagueId'' = JStr (xc_leagueId c)" and "fld raw ''occurrenceKey'' = JStr (xc_occurrenceKey c)"
    and "fld raw ''occurredAtMs'' = JInt (xc_occurredAtMs c)" and "fld raw ''tradeId'' = JStr (xc_tradeId c)"
  using assms
  by (auto simp: validateTradeExpiryCommand_def lifecycle_stableId_def lifecycle_safeTimestamp_def
      result_iffs check_iffs fld_without)

lemma claim_leaves_run:
  assumes "claimTransaction xs k = Inr (xs', claim)" and "rl_acquired claim"
  shows "\<exists>r \<in> set (xs_runs xs'). run_key r = (cl_leagueId k, JOB_TYPE, cl_occurrenceKey k) \<and>
    jr_version r = rl_version claim"
  using assms
proof (cases rule: claimTransactionE)
  case first
  then show ?thesis by (simp add: new_run_def run_key_def)
next
  case (again r)
  then show ?thesis using findRun_one [OF again(1)]
    by (intro bexI [of _ "retried_run k r"]) (auto simp: retried_run_def run_key_def)
qed simp

text \<open>
  C12. (safety) Leases exclude each other. A claim of an occurrence is granted exactly when it has no
  run yet, or one that has not succeeded and whose lease is over; and once it is granted, whatever
  calls follow, no expiry command of that occurrence succeeds under an earlier version of the run.
\<close>

theorem expiry_lease_fencing:
  assumes "claim_input input = Inr k" and "claimRun xs input = Inr (xs1, claim)"
    and "expiry_steps xs1 xs2" and "expireProposal env frozen xs2 raw = Inr (xs3, outcome)"
    and "fld raw ''leagueId'' = JStr (cl_leagueId k)" and "fld raw ''occurrenceKey'' = JStr (cl_occurrenceKey k)"
  shows "rl_acquired claim = (case findRun xs (cl_leagueId k) (cl_occurrenceKey k) of
      [] \<Rightarrow> True | r # _ \<Rightarrow> jr_status r \<noteq> ''succeeded'' \<and> \<not> lease_held (cl_nowMs k) r) \<and>
    (rl_acquired claim \<longrightarrow> (case fld (fld raw ''execution'') ''expectedVersion'' of
      JInt v \<Rightarrow> rl_version claim \<le> v | _ \<Rightarrow> False))"
proof (intro conjI impI)
  have run: "claimTransaction xs k = Inr (xs1, claim)"
    using assms(1,2) by (auto simp: claimRun_def check_iffs)
  then show "rl_acquired claim = (case findRun xs (cl_leagueId k) (cl_occurrenceKey k) of
      [] \<Rightarrow> True | r # _ \<Rightarrow> jr_status r \<noteq> ''succeeded'' \<and> \<not> lease_held (cl_nowMs k) r)"
    by (cases rule: claimTransactionE) auto
  assume "rl_acquired claim"
  then obtain p where "p \<in> set (xs_runs xs1)" "run_key p = (cl_leagueId k, JOB_TYPE, cl_occurrenceKey k)"
      "jr_version p = rl_version claim"
    using claim_leaves_run [OF run] by blast
  then obtain q where q: "q \<in> set (xs_runs xs2)" "run_key q = (cl_leagueId k, JOB_TYPE, cl_occurrenceKey k)"
      "rl_version claim \<le> jr_version q"
    using expiry_steps_grow [OF assms(3)] unfolding runs_grow_def run_grows_def by fastforce
  from assms(4) have "expireTransaction env frozen xs2 raw = Inr (xs3, outcome)"
    by (simp add: expireProposal_def check_iffs)
  then obtain c lease r where c: "validateTradeExpiryCommand (without_field ''execution'' raw) = Inr c"
    "expiry_lease_input (fld raw ''execution'') = Inr lease"
    "findRun xs2 (xc_leagueId c) (xc_occurrenceKey c) = [r]" "lease_valid c lease r"
    by (auto elim: expireTransactionE)
  have "q \<in> set (findRun xs2 (xc_leagueId c) (xc_occurrenceKey c))"
    using q(1,2) expiry_command_fields(1,2) [OF c(1)] assms(5,6) by (simp add: findRun_def run_key_def)
  then have "q = r" unfolding c(3) by simp
  then have "rl_version claim \<le> xl_expectedVersion lease" using q(3) c(4) by (simp add: lease_valid_def)
  moreover have "fld (fld raw ''execution'') ''expectedVersion'' = JInt (xl_expectedVersion lease)"
    using c(2) by (auto simp: expiry_lease_input_def expiry_positiveVersion_def result_iffs check_iffs)
  ultimately show "case fld (fld raw ''execution'') ''expectedVersion'' of
      JInt v \<Rightarrow> rl_version claim \<le> v | _ \<Rightarrow> False" by simp
qed

section \<open>Expiry\<close>

lemma filter_updated:
  assumes "\<And>r. P (f r) = P r"
  shows "filter P (update_rows p f rows) = map (\<lambda>r. if p r then f r else r) (filter P rows)"
  by (induction rows) (auto simp: update_rows_def assms)


section \<open>A lease in the sample league\<close>

text \<open>
  The occurrence of the deadline of the sample trade is claimed at 5000; the lease runs out, it is
  claimed again at 6000, and the trade is expired under the second lease.
\<close>

definition sample_occurrence :: string where
  "sample_occurrence = ''trade-expiry:'' @ sample_id CHR ''7'' @ '':5000''"

definition sample_claim :: "int \<Rightarrow> jsval" where
  "sample_claim nowMs =
     JObj [(''jobRunId'', JStr (sample_id CHR ''d'')), (''leagueId'', JStr (sample_id CHR ''3'')),
       (''seasonId'', JStr (sample_id CHR ''6'')), (''occurrenceKey'', JStr sample_occurrence),
       (''scheduledForMs'', JInt 5000), (''leaseOwner'', JStr ''w''), (''nowMs'', JInt nowMs),
       (''leaseExpiresAtMs'', JInt (nowMs + 1000))]"

definition sample_claimed :: claim_command where
  "sample_claimed =
     \<lparr>cl_jobRunId = sample_id CHR ''d'', cl_leagueId = sample_id CHR ''3'',
      cl_seasonId = sample_id CHR ''6'', cl_occurrenceKey = sample_occurrence,
      cl_scheduledForMs = 5000, cl_leaseOwner = ''w'', cl_nowMs = 5000, cl_leaseExpiresAtMs = 6000\<rparr>"

definition sample_due :: expiry_store where
  "sample_due = \<lparr>xs_trades = sample_proposed, xs_runs = []\<rparr>"

definition sample_leased :: expiry_store where
  "sample_leased = sample_due\<lparr>xs_runs := [new_run sample_claimed]\<rparr>"

definition sample_granted :: "int \<Rightarrow> run_claim" where
  "sample_granted n =
     \<lparr>rl_acquired = True, rl_reason = None, rl_runId = sample_id CHR ''d'', rl_version = n,
      rl_attemptCount = n\<rparr>"

definition sample_released :: expiry_store where
  "sample_released = sample_due\<lparr>xs_runs :=
     [retried_run (sample_claimed\<lparr>cl_nowMs := 6000, cl_leaseExpiresAtMs := 7000\<rparr>) (new_run sample_claimed)]\<rparr>"

definition sample_expiry :: jsval where
  "sample_expiry =
     JObj [(''tradeId'', JStr (sample_id CHR ''7'')), (''eventId'', JStr (sample_id CHR ''e'')),
       (''leagueId'', JStr (sample_id CHR ''3'')), (''seasonId'', JStr (sample_id CHR ''6'')),
       (''expectedVersion'', JInt 1), (''effectiveDeadlineAtMs'', JInt 5000),
       (''occurredAtMs'', JInt 6000), (''occurrenceKey'', JStr sample_occurrence),
       (''execution'', JObj [(''runId'', JStr (sample_id CHR ''d'')), (''leaseOwner'', JStr ''w''),
          (''expectedVersion'', JInt 2)])]"

definition sample_expired :: expiry_store where
  "sample_expired =
     \<lparr>xs_trades = sample_proposed
        \<lparr>td_trades := [settle_trade ''expired'' 6000 sample_trade],
         td_events := [sample_creation,
           \<lparr>tv_id = sample_id CHR ''e'', tv_league_id = sample_id CHR ''3'',
            tv_season_id = sample_id CHR ''6'', tv_trade_id = sample_id CHR ''7'',
            tv_actor_user_id = None, tv_event_type = ''proposal_expired'',
            tv_reason = Some ''effective_deadline_elapsed'',
            tv_metadata = ExpiredMetadata sample_occurrence 5000 ''proposed'', tv_occurred_at_ms = 6000\<rparr>]\<rparr>,
      xs_runs = xs_runs sample_released\<rparr>"

lemma sample_claims:
  "claim_input (sample_claim 5000) = Inr sample_claimed"
  "claimRun sample_due (sample_claim 5000) = Inr (sample_leased, sample_granted 1)"
  "claimRun sample_leased (sample_claim 6000) = Inr (sample_released, sample_granted 2)"
  by code_simp+

definition sample_expiry_command :: expiry_command where
  "sample_expiry_command =
     \<lparr>xc_tradeId = sample_id CHR ''7'', xc_eventId = sample_id CHR ''e'',
      xc_leagueId = sample_id CHR ''3'', xc_seasonId = sample_id CHR ''6'', xc_expectedVersion = 1,
      xc_effectiveDeadlineAtMs = 5000, xc_occurredAtMs = 6000, xc_occurrenceKey = sample_occurrence\<rparr>"

lemma sample_expiry_builds:
  "validateTradeExpiryCommand (without_field ''execution'' sample_expiry) = Inr sample_expiry_command"
proof -
  have ids: "lifecycle_stableId (JStr (sample_id x)) = Inr (sample_id x)" if "x \<in> {CHR ''3'', CHR ''6'', CHR ''7'', CHR ''e''}" for x
    using that by (elim insertE emptyE; hypsubst) code_simp+
  have key: "bounded_text LifecycleInputInvalid 200 (JStr sample_occurrence) = Inr sample_occurrence"
    and exact: "lifecycle_exactObject expiry_keys (without_field ''execution'' sample_expiry) = Inr ()"
    and times: "lifecycle_positiveVersion (JInt 1) = Inr 1" "lifecycle_safeTimestamp (JInt 5000) = Inr 5000"
      "lifecycle_safeTimestamp (JInt 6000) = Inr 6000"
    by code_simp+
  have digits: "char_of (53 :: nat) = CHR ''5''" "char_of (48 :: nat) = CHR ''0''" by code_simp+
  have occurrence: "buildTradeExpiryOccurrenceKey (JStr (sample_id CHR ''7'')) (JInt 5000) = Inr sample_occurrence"
    by (simp add: buildTradeExpiryOccurrenceKey_def ids times int_text_def nat_text.simps sample_occurrence_def digits)
  show ?thesis
    unfolding validateTradeExpiryCommand_def exact
    by (simp add: sample_expiry_def ids key times occurrence sample_expiry_command_def)
qed

lemma sample_expires:
  "expireProposal sample_env (\<lambda>_. False) sample_released sample_expiry =
     Inr (sample_expired, Expired (sample_id CHR ''7'') 2 (sample_id CHR ''e''))"
  unfolding expireProposal_def expireTransaction_def sample_expiry_builds by code_simp

lemma sample_expiry_fields:
  "fld sample_expiry ''leagueId'' = JStr (cl_leagueId sample_claimed)"
  "fld sample_expiry ''occurrenceKey'' = JStr (cl_occurrenceKey sample_claimed)"
  by (simp_all add: sample_expiry_def sample_claimed_def)

lemma sample_reclaims: "expiry_steps sample_leased sample_released"
  by (rule expiry_steps.more [OF expiry_steps.none expiry_step.claimed [OF sample_claims(3)]])

theorem expiry_lease_fencing_witness:
  "rl_acquired (sample_granted 1) \<and> rl_version (sample_granted 1) \<le> 2"
  using expiry_lease_fencing [OF sample_claims(1,2) sample_reclaims sample_expires sample_expiry_fields]
  by (simp add: sample_granted_def sample_expiry_def)


end
