(* ===== verification/RosterPolicy.thy ===== *)
theory RosterPolicy
  imports BuyoutPolicy Ordering
begin

text \<open>
  \<^verbatim>\<open>src/src/domain/rosters/rosterMovementPolicy.js\<close>: the command that moves a player between the
  categories of a team's roster, the ownership it must find, and the structural legality of a
  roster. \<^verbatim>\<open>src/src/domain/rosters/rosterAssignmentPolicy.js\<close>: new ownership records and the
  projection of a roster onto its slots; \<open>collate\<close> is the runtime's \<^verbatim>\<open>localeCompare\<close>.
\<close>

section \<open>Moves\<close>

datatype roster_code =
    RosterInputInvalid
  | RosterStableIdInvalid
  | RosterCategoryInvalid
  | RosterTransitionInvalid
  | RosterPositionInvalid
  | RosterSlotInvalid
  | RosterAuthorityInvalid
  | RosterReasonInvalid
  | RosterTimestampInvalid
  | RosterVersionInvalid
  | RosterScopeMismatch
  | RosterSourceChanged
  | RosterVersionConflict
  | RosterOwnershipInvalid
  | RosterPlayerDuplicate

definition NORMAL_CATEGORIES :: "string list" where
  "NORMAL_CATEGORIES = [''Active'', ''Bench'', ''Injured Reserve'']"

definition MOVE_AUTHORITIES :: "string list" where
  "MOVE_AUTHORITIES = [''manager'', ''commissioner'']"

definition roster_exactObject :: "string list \<Rightarrow> jsval \<Rightarrow> roster_code + unit" where
  "roster_exactObject = exact_object RosterInputInvalid"

definition roster_stableId :: "jsval \<Rightarrow> roster_code + string" where
  "roster_stableId = stable_id RosterStableIdInvalid"

definition roster_safeTimestamp :: "jsval \<Rightarrow> roster_code + int" where
  "roster_safeTimestamp = safe_from RosterTimestampInvalid 0"

definition roster_positiveVersion :: "jsval \<Rightarrow> roster_code + int" where
  "roster_positiveVersion = safe_from RosterVersionInvalid 1"

definition roster_optionalReason :: "jsval \<Rightarrow> roster_code + string option" where
  "roster_optionalReason = nullable (bounded_text RosterReasonInvalid 500)"

definition slot_maximum :: "string \<Rightarrow> string \<Rightarrow> int" where
  "slot_maximum category positionGroup =
     (if category = ''Active'' then if positionGroup = ''F'' then 12 else 6 else 4)"

definition destinationSlot :: "string \<Rightarrow> string \<Rightarrow> jsval \<Rightarrow> roster_code + int option" where
  "destinationSlot category positionGroup =
     nullable (safe_between RosterSlotInvalid 1 (slot_maximum category positionGroup))"

lemmas roster_field_defs =
  roster_exactObject_def roster_stableId_def roster_safeTimestamp_def roster_positiveVersion_def
  roster_optionalReason_def destinationSlot_def

record roster_move =
  mv_leagueId :: string
  mv_seasonId :: string
  mv_teamId :: string
  mv_playerId :: string
  mv_expectedVersion :: int
  mv_expectedSourceCategory :: string
  mv_destinationCategory :: string
  mv_destinationPositionGroup :: string
  mv_destinationSlotNumber :: "int option"
  mv_actorUserId :: string
  mv_actorAuthority :: string
  mv_ownershipEventId :: string
  mv_activityId :: string
  mv_reason :: "string option"
  mv_occurredAtMs :: int

definition roster_move_keys :: "string list" where
  "roster_move_keys =
     [''leagueId'', ''seasonId'', ''teamId'', ''playerId'', ''expectedVersion'',
      ''expectedSourceCategory'', ''destinationCategory'', ''destinationPositionGroup'',
      ''destinationSlotNumber'', ''actorUserId'', ''actorAuthority'', ''ownershipEventId'',
      ''activityId'', ''reason'', ''occurredAtMs'']"

definition move_allowed :: "string \<Rightarrow> string \<Rightarrow> bool" where
  "move_allowed source destination \<longleftrightarrow>
     source \<noteq> destination \<and>
     (source = ''Prospect'' \<or> source = ''Active'' \<or> destination = ''Active'')"

definition validateRosterMove :: "jsval \<Rightarrow> roster_code + roster_move" where
  "validateRosterMove input =
     bindE (roster_exactObject roster_move_keys input) (\<lambda>_.
     bindE (one_of RosterCategoryInvalid (NORMAL_CATEGORIES @ [''Prospect''])
       (fld input ''expectedSourceCategory'')) (\<lambda>source.
     bindE (one_of RosterCategoryInvalid NORMAL_CATEGORIES (fld input ''destinationCategory'')) (\<lambda>destination.
     if \<not> move_allowed source destination then Inl RosterTransitionInvalid
     else
     bindE (one_of RosterPositionInvalid [''F'', ''D''] (fld input ''destinationPositionGroup'')) (\<lambda>positionGroup.
     bindE (roster_stableId (fld input ''leagueId'')) (\<lambda>leagueId.
     bindE (roster_stableId (fld input ''seasonId'')) (\<lambda>seasonId.
     bindE (roster_stableId (fld input ''teamId'')) (\<lambda>teamId.
     bindE (roster_stableId (fld input ''playerId'')) (\<lambda>playerId.
     bindE (roster_positiveVersion (fld input ''expectedVersion'')) (\<lambda>expectedVersion.
     bindE (destinationSlot destination positionGroup (fld input ''destinationSlotNumber'')) (\<lambda>slot.
     bindE (roster_stableId (fld input ''actorUserId'')) (\<lambda>actorUserId.
     bindE (one_of RosterAuthorityInvalid MOVE_AUTHORITIES (fld input ''actorAuthority'')) (\<lambda>actorAuthority.
     bindE (roster_stableId (fld input ''ownershipEventId'')) (\<lambda>ownershipEventId.
     bindE (roster_stableId (fld input ''activityId'')) (\<lambda>activityId.
     bindE (roster_optionalReason (fld input ''reason'')) (\<lambda>reason.
     bindE (roster_safeTimestamp (fld input ''occurredAtMs'')) (\<lambda>occurredAtMs.
     Inr \<lparr>mv_leagueId = leagueId, mv_seasonId = seasonId, mv_teamId = teamId,
          mv_playerId = playerId, mv_expectedVersion = expectedVersion,
          mv_expectedSourceCategory = source, mv_destinationCategory = destination,
          mv_destinationPositionGroup = positionGroup, mv_destinationSlotNumber = slot,
          mv_actorUserId = actorUserId, mv_actorAuthority = actorAuthority,
          mv_ownershipEventId = ownershipEventId, mv_activityId = activityId,
          mv_reason = reason, mv_occurredAtMs = occurredAtMs\<rparr>))))))))))))))))"

definition assertCurrentOwnershipForMove :: "player_ownership_row \<Rightarrow> roster_move \<Rightarrow> roster_code + unit" where
  "assertCurrentOwnershipForMove current move =
     (if po_league_id current \<noteq> mv_leagueId move \<or> po_season_id current \<noteq> mv_seasonId move \<or>
         po_team_id current \<noteq> mv_teamId move \<or> po_player_id current \<noteq> mv_playerId move
      then Inl RosterScopeMismatch
      else if po_ownership_kind current \<noteq>
          (if mv_expectedSourceCategory move = ''Prospect'' then ''Prospect Right'' else ''Rostered'')
      then Inl RosterOwnershipInvalid
      else if po_roster_category current \<noteq> mv_expectedSourceCategory move then Inl RosterSourceChanged
      else if po_version current \<noteq> mv_expectedVersion move then Inl RosterVersionConflict
      else Inr ())"

section \<open>Structural legality\<close>

record structural_assignment =
  sg_leagueId :: string
  sg_seasonId :: string
  sg_teamId :: string
  sg_playerId :: string
  sg_rosterCategory :: string
  sg_assignedPositionGroup :: string

definition structural_keys :: "string list" where
  "structural_keys =
     [''leagueId'', ''seasonId'', ''teamId'', ''playerId'', ''rosterCategory'', ''assignedPositionGroup'']"

definition structuralAssignment :: "jsval \<Rightarrow> roster_code + structural_assignment" where
  "structuralAssignment input =
     bindE (roster_exactObject structural_keys input) (\<lambda>_.
     bindE (roster_stableId (fld input ''leagueId'')) (\<lambda>leagueId.
     bindE (roster_stableId (fld input ''seasonId'')) (\<lambda>seasonId.
     bindE (roster_stableId (fld input ''teamId'')) (\<lambda>teamId.
     bindE (roster_stableId (fld input ''playerId'')) (\<lambda>playerId.
     bindE (one_of RosterCategoryInvalid (NORMAL_CATEGORIES @ [''Prospect''])
       (fld input ''rosterCategory'')) (\<lambda>category.
     bindE (one_of RosterPositionInvalid [''F'', ''D''] (fld input ''assignedPositionGroup'')) (\<lambda>positionGroup.
     Inr \<lparr>sg_leagueId = leagueId, sg_seasonId = seasonId, sg_teamId = teamId,
          sg_playerId = playerId, sg_rosterCategory = category,
          sg_assignedPositionGroup = positionGroup\<rparr>)))))))"

definition text_or_null_position :: "jsval \<Rightarrow> roster_code + string option" where
  "text_or_null_position v =
     (case v of JNull \<Rightarrow> Inr None | JStr s \<Rightarrow> Inr (Some s) | _ \<Rightarrow> Inl RosterPositionInvalid)"

definition effectivePosition :: "jsval \<Rightarrow> roster_code + string \<times> string option" where
  "effectivePosition input =
     bindE (roster_exactObject [''playerId'', ''positionGroup''] input) (\<lambda>_.
     bindE (roster_stableId (fld input ''playerId'')) (\<lambda>playerId.
     bindE (text_or_null_position (fld input ''positionGroup'')) (\<lambda>positionGroup.
     Inr (playerId, positionGroup))))"

record structural_counts =
  sc_activeForwards :: nat
  sc_activeDefence :: nat
  sc_activeUnsupported :: nat
  sc_active :: nat
  sc_bench :: nat
  sc_injuredReserve :: nat
  sc_prospects :: nat
  sc_total :: nat

datatype roster_reason =
    PlayerPositionMissing string
  | PlayerPositionUnsupported string
  | PlayerPositionAssignmentMismatch string
  | ActiveForwardLimitExceeded
  | ActiveDefenceLimitExceeded
  | ActiveTotalLimitExceeded
  | BenchLimitExceeded
  | InjuredReserveLimitExceeded

text \<open>The effective position of a player: none when it is null or not listed.\<close>

definition current_position :: "(string \<times> string option) list \<Rightarrow> string \<Rightarrow> string option" where
  "current_position effective playerId =
     (case map_of effective playerId of None \<Rightarrow> None | Some g \<Rightarrow> g)"

definition position_reasons :: "(string \<times> string option) list \<Rightarrow> structural_assignment \<Rightarrow> roster_reason list" where
  "position_reasons effective a =
     (case current_position effective (sg_playerId a) of
        None \<Rightarrow> [PlayerPositionMissing (sg_playerId a)]
      | Some g \<Rightarrow>
          if g \<notin> {''F'', ''D''} then [PlayerPositionUnsupported (sg_playerId a)]
          else if sg_rosterCategory a \<in> {''Active'', ''Bench''} \<and> g \<noteq> sg_assignedPositionGroup a
          then [PlayerPositionAssignmentMismatch (sg_playerId a)]
          else [])"

definition count_assignment ::
    "(string \<times> string option) list \<Rightarrow> structural_assignment \<Rightarrow> structural_counts \<Rightarrow> structural_counts" where
  "count_assignment effective a counts =
     (if sg_rosterCategory a = ''Active'' then
        let counts = counts\<lparr>sc_active := sc_active counts + 1\<rparr> in
        if current_position effective (sg_playerId a) = Some ''F''
        then counts\<lparr>sc_activeForwards := sc_activeForwards counts + 1\<rparr>
        else if current_position effective (sg_playerId a) = Some ''D''
        then counts\<lparr>sc_activeDefence := sc_activeDefence counts + 1\<rparr>
        else counts\<lparr>sc_activeUnsupported := sc_activeUnsupported counts + 1\<rparr>
      else if sg_rosterCategory a = ''Bench'' then counts\<lparr>sc_bench := sc_bench counts + 1\<rparr>
      else if sg_rosterCategory a = ''Injured Reserve''
      then counts\<lparr>sc_injuredReserve := sc_injuredReserve counts + 1\<rparr>
      else counts\<lparr>sc_prospects := sc_prospects counts + 1\<rparr>)"

type_synonym legality_state = "string list \<times> structural_counts \<times> roster_reason list"

definition assess_assignment ::
    "string \<times> string \<times> string \<Rightarrow> (string \<times> string option) list \<Rightarrow> legality_state \<Rightarrow> structural_assignment \<Rightarrow>
     roster_code + legality_state" where
  "assess_assignment scope effective state a =
     (case state of (players, counts, reasons) \<Rightarrow>
      if (sg_leagueId a, sg_seasonId a, sg_teamId a) \<noteq> scope then Inl RosterScopeMismatch
      else if sg_playerId a \<in> set players then Inl RosterPlayerDuplicate
      else Inr (players @ [sg_playerId a], count_assignment effective a counts,
        reasons @ position_reasons effective a))"

definition limit_reasons :: "structural_counts \<Rightarrow> roster_reason list" where
  "limit_reasons counts =
     (if 12 < sc_activeForwards counts then [ActiveForwardLimitExceeded] else []) @
     (if 6 < sc_activeDefence counts then [ActiveDefenceLimitExceeded] else []) @
     (if 18 < sc_active counts then [ActiveTotalLimitExceeded] else []) @
     (if 4 < sc_bench counts then [BenchLimitExceeded] else []) @
     (if 4 < sc_injuredReserve counts then [InjuredReserveLimitExceeded] else [])"

record structural_legality =
  sl_legal :: bool
  sl_counts :: structural_counts
  sl_reasons :: "roster_reason list"

definition no_counts :: "nat \<Rightarrow> structural_counts" where
  "no_counts n =
     \<lparr>sc_activeForwards = 0, sc_activeDefence = 0, sc_activeUnsupported = 0, sc_active = 0,
      sc_bench = 0, sc_injuredReserve = 0, sc_prospects = 0, sc_total = n\<rparr>"

definition assess_roster ::
    "string \<times> string \<times> string \<Rightarrow> (string \<times> string option) list \<Rightarrow> structural_assignment list \<Rightarrow>
     roster_code + structural_legality" where
  "assess_roster scope effective assignments =
     (if \<not> distinct (map fst effective) then Inl RosterPlayerDuplicate
      else
      bindE (foldE (assess_assignment scope effective) ([], no_counts (length assignments), []) assignments)
        (\<lambda>(players, counts, reasons).
      let reasons = reasons @ limit_reasons counts in
      Inr \<lparr>sl_legal = (reasons = []), sl_counts = counts, sl_reasons = reasons\<rparr>))"

definition evaluateStructuralRosterLegality :: "jsval \<Rightarrow> roster_code + structural_legality" where
  "evaluateStructuralRosterLegality input =
     bindE (roster_exactObject [''leagueId'', ''seasonId'', ''teamId'', ''assignments'', ''effectivePositions'']
       input) (\<lambda>_.
     bindE (roster_stableId (fld input ''leagueId'')) (\<lambda>leagueId.
     bindE (roster_stableId (fld input ''seasonId'')) (\<lambda>seasonId.
     bindE (roster_stableId (fld input ''teamId'')) (\<lambda>teamId.
     case items (fld input ''assignments'') of None \<Rightarrow> Inl RosterInputInvalid | Some as \<Rightarrow>
     (case items (fld input ''effectivePositions'') of None \<Rightarrow> Inl RosterInputInvalid | Some es \<Rightarrow>
     bindE (mapE structuralAssignment as) (\<lambda>assignments.
     bindE (mapE effectivePosition es) (\<lambda>effective.
     assess_roster (leagueId, seasonId, teamId) effective assignments)))))))"

section \<open>Ownership records\<close>

datatype assignment_code =
    AssignmentInputInvalid
  | AssignmentStableIdInvalid
  | AssignmentOwnershipKindInvalid
  | AssignmentCategoryInvalid
  | AssignmentPositionInvalid
  | AssignmentSlotInvalid
  | AssignmentAcquisitionInvalid
  | AssignmentTimestampInvalid
  | AssignmentScopeMismatch
  | AssignmentPlayerDuplicate
  | AssignmentSlotDuplicate

definition OWNERSHIP_KINDS :: "string list" where
  "OWNERSHIP_KINDS = [''Rostered'', ''Prospect Right'']"

definition ROSTER_CATEGORIES :: "string list" where
  "ROSTER_CATEGORIES = [''Active'', ''Bench'', ''Injured Reserve'', ''Prospect'']"

definition POSITION_GROUPS :: "string list" where
  "POSITION_GROUPS = [''F'', ''D'']"

definition SOURCE_POSITION_GROUPS :: "(string \<times> string) list" where
  "SOURCE_POSITION_GROUPS =
     [(''C'', ''F''), (''LW'', ''F''), (''RW'', ''F''), (''F'', ''F''), (''LD'', ''D''),
      (''RD'', ''D''), (''D'', ''D'')]"

definition normalizeSourcePosition :: "jsval \<Rightarrow> assignment_code + string" where
  "normalizeSourcePosition v =
     (case v of
        JStr s \<Rightarrow> (case map_of SOURCE_POSITION_GROUPS s of
            None \<Rightarrow> Inl AssignmentPositionInvalid | Some g \<Rightarrow> Inr g)
      | _ \<Rightarrow> Inl AssignmentPositionInvalid)"

definition assignment_exactObject :: "string list \<Rightarrow> jsval \<Rightarrow> assignment_code + unit" where
  "assignment_exactObject = exact_object AssignmentInputInvalid"

definition assignment_stableId :: "jsval \<Rightarrow> assignment_code + string" where
  "assignment_stableId = stable_id AssignmentStableIdInvalid"

definition assignment_timestamp :: "jsval \<Rightarrow> assignment_code + int" where
  "assignment_timestamp = safe_from AssignmentTimestampInvalid 0"

definition assignment_optionalStableId :: "jsval \<Rightarrow> assignment_code + string option" where
  "assignment_optionalStableId = nullable assignment_stableId"

definition acquisitionType :: "jsval \<Rightarrow> assignment_code + string" where
  "acquisitionType = bounded_text AssignmentAcquisitionInvalid 100"

definition assertSlot :: "string \<Rightarrow> string \<Rightarrow> jsval \<Rightarrow> string \<Rightarrow> assignment_code + int option" where
  "assertSlot category positionGroup slotNumber acquiredTransactionType =
     (if category = ''Prospect''
      then if slotNumber \<noteq> JNull then Inl AssignmentSlotInvalid else Inr None
      else if category = ''Active'' \<and> slotNumber = JNull \<and> acquiredTransactionType = ''auction_resolution''
      then Inr None
      else
      bindE (safe_between AssignmentSlotInvalid 1 (slot_maximum category positionGroup) slotNumber) (\<lambda>n.
      Inr (Some n)))"

definition assignment_keys :: "string list" where
  "assignment_keys =
     [''id'', ''leagueId'', ''seasonId'', ''playerId'', ''teamId'', ''ownershipKind'',
      ''rosterCategory'', ''positionGroup'', ''slotNumber'', ''acquiredTransactionType'',
      ''acquiredTransactionId'', ''createdAtMs'', ''updatedAtMs'']"

definition createRosterAssignmentRecord :: "jsval \<Rightarrow> assignment_code + player_ownership_row" where
  "createRosterAssignmentRecord input =
     bindE (assignment_exactObject assignment_keys input) (\<lambda>_.
     bindE (one_of AssignmentOwnershipKindInvalid OWNERSHIP_KINDS (fld input ''ownershipKind'')) (\<lambda>kind.
     bindE (one_of AssignmentCategoryInvalid ROSTER_CATEGORIES (fld input ''rosterCategory'')) (\<lambda>category.
     bindE (one_of AssignmentPositionInvalid POSITION_GROUPS (fld input ''positionGroup'')) (\<lambda>positionGroup.
     if category \<noteq> ''Prospect'' \<and> kind \<noteq> ''Rostered'' then Inl AssignmentOwnershipKindInvalid
     else
     bindE (assignment_timestamp (fld input ''createdAtMs'')) (\<lambda>createdAtMs.
     bindE (assignment_timestamp (fld input ''updatedAtMs'')) (\<lambda>updatedAtMs.
     bindE (acquisitionType (fld input ''acquiredTransactionType'')) (\<lambda>acquired.
     if updatedAtMs < createdAtMs then Inl AssignmentTimestampInvalid
     else
     bindE (assignment_stableId (fld input ''id'')) (\<lambda>i.
     bindE (assignment_stableId (fld input ''leagueId'')) (\<lambda>leagueId.
     bindE (assignment_stableId (fld input ''seasonId'')) (\<lambda>seasonId.
     bindE (assignment_stableId (fld input ''playerId'')) (\<lambda>playerId.
     bindE (assignment_stableId (fld input ''teamId'')) (\<lambda>teamId.
     bindE (assertSlot category positionGroup (fld input ''slotNumber'') acquired) (\<lambda>slot.
     bindE (assignment_optionalStableId (fld input ''acquiredTransactionId'')) (\<lambda>transactionId.
     Inr \<lparr>po_id = i, po_league_id = leagueId, po_season_id = seasonId, po_player_id = playerId,
          po_team_id = teamId, po_ownership_kind = kind, po_roster_category = category,
          po_position_group = positionGroup, po_slot_number = slot,
          po_acquired_transaction_type = acquired, po_acquired_transaction_id = transactionId,
          po_created_at_ms = createdAtMs, po_updated_at_ms = updatedAtMs,
          po_version = 1\<rparr>))))))))))))))"

section \<open>The projection of a roster\<close>

text \<open>A stored record is validated again with its own version.\<close>

definition record_fields :: "player_ownership_row \<Rightarrow> (string \<times> jsval) list" where
  "record_fields r =
     [(''id'', JStr (po_id r)), (''leagueId'', JStr (po_league_id r)),
      (''seasonId'', JStr (po_season_id r)), (''playerId'', JStr (po_player_id r)),
      (''teamId'', JStr (po_team_id r)), (''ownershipKind'', JStr (po_ownership_kind r)),
      (''rosterCategory'', JStr (po_roster_category r)),
      (''positionGroup'', JStr (po_position_group r)),
      (''slotNumber'', jint_or_null (po_slot_number r)),
      (''acquiredTransactionType'', JStr (po_acquired_transaction_type r)),
      (''acquiredTransactionId'', jstr_or_null (po_acquired_transaction_id r)),
      (''createdAtMs'', JInt (po_created_at_ms r)), (''updatedAtMs'', JInt (po_updated_at_ms r))]"

definition revalidateRecord :: "player_ownership_row \<Rightarrow> assignment_code + player_ownership_row" where
  "revalidateRecord r =
     (if po_version r \<noteq> 1 \<and> (\<not> safe (po_version r) \<or> po_version r < 1) then Inl AssignmentInputInvalid
      else
      bindE (createRosterAssignmentRecord (JObj (record_fields r))) (\<lambda>q.
      Inr (q\<lparr>po_version := po_version r\<rparr>)))"

text \<open>The slot of a record, the position only for the active roster.\<close>

type_synonym roster_slot = "string \<times> string option \<times> int"

definition slotKey :: "player_ownership_row \<Rightarrow> roster_slot option" where
  "slotKey r =
     (if po_roster_category r = ''Prospect'' then None
      else case po_slot_number r of None \<Rightarrow> None | Some n \<Rightarrow>
        Some (po_roster_category r,
          if po_roster_category r = ''Active'' then Some (po_position_group r) else None, n))"

definition project_assignment ::
    "string \<times> string \<times> string \<Rightarrow> string list \<times> roster_slot list \<Rightarrow> player_ownership_row \<Rightarrow>
     assignment_code + string list \<times> roster_slot list" where
  "project_assignment scope state r =
     (case state of (players, slots) \<Rightarrow>
      if (po_league_id r, po_season_id r, po_team_id r) \<noteq> scope then Inl AssignmentScopeMismatch
      else if po_player_id r \<in> set players then Inl AssignmentPlayerDuplicate
      else (case slotKey r of
          None \<Rightarrow> Inr (po_player_id r # players, slots)
        | Some k \<Rightarrow>
            if k \<in> set slots then Inl AssignmentSlotDuplicate
            else Inr (po_player_id r # players, k # slots)))"

text \<open>\<^verbatim>\<open>buildSlots\<close>: of two records in one slot the \<^verbatim>\<open>Map\<close> keeps the last.\<close>

definition buildSlots :: "nat \<Rightarrow> player_ownership_row list \<Rightarrow> player_ownership_row option list" where
  "buildSlots maximum records =
     map (\<lambda>i. find (\<lambda>r. po_slot_number r = Some (int i + 1)) (rev records)) [0..<maximum]"

record projection_counts =
  jc_activeForwards :: nat
  jc_activeDefence :: nat
  jc_active :: nat
  jc_bench :: nat
  jc_injuredReserve :: nat
  jc_prospects :: nat
  jc_total :: nat

record roster_projection =
  rj_leagueId :: string
  rj_seasonId :: string
  rj_teamId :: string
  rj_forwards :: "player_ownership_row option list"
  rj_defence :: "player_ownership_row option list"
  rj_unplaced :: "player_ownership_row list"
  rj_bench :: "player_ownership_row option list"
  rj_injuredReserve :: "player_ownership_row option list"
  rj_prospects :: "player_ownership_row list"
  rj_counts :: projection_counts

definition active_group :: "string \<Rightarrow> player_ownership_row list \<Rightarrow> player_ownership_row list" where
  "active_group positionGroup =
     filter (\<lambda>r. po_roster_category r = ''Active'' \<and> po_position_group r = positionGroup)"

definition category_group :: "string \<Rightarrow> player_ownership_row list \<Rightarrow> player_ownership_row list" where
  "category_group category = filter (\<lambda>r. po_roster_category r = category)"

definition by_player :: "(string \<Rightarrow> string \<Rightarrow> int) \<Rightarrow> player_ownership_row list \<Rightarrow> player_ownership_row list" where
  "by_player collate = js_sort (\<lambda>left right. collate (po_player_id left) (po_player_id right))"

definition project_roster ::
    "(string \<Rightarrow> string \<Rightarrow> int) \<Rightarrow> string \<times> string \<times> string \<Rightarrow> player_ownership_row list \<Rightarrow> roster_projection" where
  "project_roster collate scope rows =
     (let forwards = active_group ''F'' rows; defence = active_group ''D'' rows;
          bench = category_group ''Bench'' rows; injured = category_group ''Injured Reserve'' rows;
          prospects = category_group ''Prospect'' rows in
      case scope of (l, s, t) \<Rightarrow>
      \<lparr>rj_leagueId = l, rj_seasonId = s, rj_teamId = t,
       rj_forwards = buildSlots 12 forwards, rj_defence = buildSlots 6 defence,
       rj_unplaced = by_player collate
         (filter (\<lambda>r. po_roster_category r = ''Active'' \<and> po_slot_number r = None) rows),
       rj_bench = buildSlots 4 bench, rj_injuredReserve = buildSlots 4 injured,
       rj_prospects = by_player collate prospects,
       rj_counts =
         \<lparr>jc_activeForwards = length forwards, jc_activeDefence = length defence,
          jc_active = length forwards + length defence, jc_bench = length bench,
          jc_injuredReserve = length injured, jc_prospects = length prospects,
          jc_total = length rows\<rparr>\<rparr>)"

definition buildRosterCategoryProjection ::
    "(string \<Rightarrow> string \<Rightarrow> int) \<Rightarrow> jsval \<Rightarrow> jsval \<Rightarrow> jsval \<Rightarrow> player_ownership_row list \<Rightarrow>
     assignment_code + roster_projection" where
  "buildRosterCategoryProjection collate leagueId seasonId teamId assignments =
     bindE (assignment_stableId leagueId) (\<lambda>l.
     bindE (assignment_stableId seasonId) (\<lambda>s.
     bindE (assignment_stableId teamId) (\<lambda>t.
     bindE (mapE revalidateRecord assignments) (\<lambda>rows.
     bindE (foldE (project_assignment (l, s, t)) ([], []) rows) (\<lambda>_.
     Inr (project_roster collate (l, s, t) rows))))))"

section \<open>What legality means\<close>

text \<open>
  The reference: every player has a supported position that fits the place, and the four groups
  fit their limits. The test of the active total adds nothing to it.
\<close>

definition position_fits :: "(string \<times> string option) list \<Rightarrow> structural_assignment \<Rightarrow> bool" where
  "position_fits effective a \<longleftrightarrow>
     (case current_position effective (sg_playerId a) of
        None \<Rightarrow> False
      | Some g \<Rightarrow> g \<in> {''F'', ''D''} \<and>
          (sg_rosterCategory a \<in> {''Active'', ''Bench''} \<longrightarrow> g = sg_assignedPositionGroup a))"

definition active_at :: "(string \<times> string option) list \<Rightarrow> string \<Rightarrow> structural_assignment list \<Rightarrow> structural_assignment list" where
  "active_at effective g =
     filter (\<lambda>a. sg_rosterCategory a = ''Active'' \<and> current_position effective (sg_playerId a) = Some g)"

definition in_roster_category :: "string \<Rightarrow> structural_assignment list \<Rightarrow> structural_assignment list" where
  "in_roster_category k = filter (\<lambda>a. sg_rosterCategory a = k)"

definition roster_fits :: "(string \<times> string option) list \<Rightarrow> structural_assignment list \<Rightarrow> bool" where
  "roster_fits effective rows \<longleftrightarrow>
     list_all (position_fits effective) rows \<and>
     length (active_at effective ''F'' rows) \<le> 12 \<and> length (active_at effective ''D'' rows) \<le> 6 \<and>
     length (in_roster_category ''Bench'' rows) \<le> 4 \<and>
     length (in_roster_category ''Injured Reserve'' rows) \<le> 4"

lemma position_reasons_Nil: "position_reasons effective a = [] \<longleftrightarrow> position_fits effective a"
  by (simp add: position_reasons_def position_fits_def split: option.splits)

text \<open>The loop over the assignments.\<close>

lemma assess_assignment_Inr [check_iffs]:
  "assess_assignment scope effective (players, counts, reasons) a = Inr x \<longleftrightarrow>
     (sg_leagueId a, sg_seasonId a, sg_teamId a) = scope \<and> sg_playerId a \<notin> set players \<and>
     x = (players @ [sg_playerId a], count_assignment effective a counts,
       reasons @ position_reasons effective a)"
  by (auto simp: assess_assignment_def)

lemma assess_loop:
  "foldE (assess_assignment scope effective) (players, counts, reasons) rows = Inr (players', counts', reasons') \<Longrightarrow>
     players' = players @ map sg_playerId rows \<and> (distinct players \<longrightarrow> distinct players') \<and>
     reasons' = reasons @ concat (map (position_reasons effective) rows) \<and>
     counts' = foldl (\<lambda>k a. count_assignment effective a k) counts rows \<and>
     (\<forall>a \<in> set rows. (sg_leagueId a, sg_seasonId a, sg_teamId a) = scope)"
proof (induction rows arbitrary: players counts reasons)
  case (Cons a rows)
  have a: "(sg_leagueId a, sg_seasonId a, sg_teamId a) = scope" "sg_playerId a \<notin> set players"
    and rest: "foldE (assess_assignment scope effective) (players @ [sg_playerId a],
      count_assignment effective a counts, reasons @ position_reasons effective a) rows =
      Inr (players', counts', reasons')"
    using Cons.prems by (simp_all only: foldE.simps bindE_Inr_iff assess_assignment_Inr) blast+
  show ?case using Cons.IH [OF rest] a by (auto simp: image_iff disjoint_iff; blast)
qed simp

lemma counted:
  "foldl (\<lambda>k a. count_assignment effective a k) counts rows =
     \<lparr>sc_activeForwards = sc_activeForwards counts + length (active_at effective ''F'' rows),
      sc_activeDefence = sc_activeDefence counts + length (active_at effective ''D'' rows),
      sc_activeUnsupported = sc_activeUnsupported counts + length (filter (\<lambda>a. sg_rosterCategory a = ''Active'' \<and>
        current_position effective (sg_playerId a) \<notin> {Some ''F'', Some ''D''}) rows),
      sc_active = sc_active counts + length (in_roster_category ''Active'' rows),
      sc_bench = sc_bench counts + length (in_roster_category ''Bench'' rows),
      sc_injuredReserve = sc_injuredReserve counts + length (in_roster_category ''Injured Reserve'' rows),
      sc_prospects = sc_prospects counts + length (filter (\<lambda>a. sg_rosterCategory a \<notin> set NORMAL_CATEGORIES) rows),
      sc_total = sc_total counts\<rparr>"
  by (induction rows arbitrary: counts)
    (auto simp: count_assignment_def active_at_def in_roster_category_def NORMAL_CATEGORIES_def Let_def)

lemma active_split:
  "list_all (position_fits effective) rows \<Longrightarrow>
     length (in_roster_category ''Active'' rows) =
       length (active_at effective ''F'' rows) + length (active_at effective ''D'' rows)"
  by (induction rows)
    (auto simp: in_roster_category_def active_at_def position_fits_def split: option.splits)

lemma assess_roster_Inr:
  assumes "assess_roster scope effective rows = Inr v"
  shows "distinct (map sg_playerId rows)" and "\<forall>a \<in> set rows. (sg_leagueId a, sg_seasonId a, sg_teamId a) = scope"
    and "sl_legal v \<longleftrightarrow> roster_fits effective rows"
    and "sc_total (sl_counts v) = length rows"
    and "sc_active (sl_counts v) + sc_bench (sl_counts v) + sc_injuredReserve (sl_counts v) +
      sc_prospects (sl_counts v) = sc_total (sl_counts v)"
proof -
  obtain players counts reasons where loop: "foldE (assess_assignment scope effective)
      ([], no_counts (length rows), []) rows = Inr (players, counts, reasons)"
    and v: "v = \<lparr>sl_legal = (reasons @ limit_reasons counts = []), sl_counts = counts,
      sl_reasons = reasons @ limit_reasons counts\<rparr>"
    using assms by (auto simp: assess_roster_def Let_def result_iffs)
  note parts = assess_loop [OF loop]
  show "distinct (map sg_playerId rows)" using parts by auto
  show "\<forall>a \<in> set rows. (sg_leagueId a, sg_seasonId a, sg_teamId a) = scope" using parts by blast
  have counts: "counts = foldl (\<lambda>k a. count_assignment effective a k) (no_counts (length rows)) rows"
    and reasons: "reasons = concat (map (position_reasons effective) rows)"
    using parts by simp_all
  note counts = counts [unfolded counted]
  have "reasons = [] \<longleftrightarrow> list_all (position_fits effective) rows"
    by (simp add: reasons position_reasons_Nil list_all_iff)
  then show "sl_legal v \<longleftrightarrow> roster_fits effective rows"
    using active_split [of effective rows]
    by (auto simp: v counts roster_fits_def limit_reasons_def no_counts_def split: if_splits)
  show "sc_total (sl_counts v) = length rows" by (simp add: v counts no_counts_def)
  have "length (in_roster_category ''Active'' rows) + length (in_roster_category ''Bench'' rows) +
      length (in_roster_category ''Injured Reserve'' rows) +
      length (filter (\<lambda>a. sg_rosterCategory a \<notin> set NORMAL_CATEGORIES) rows) = length rows" for rows
    by (induction rows) (auto simp: in_roster_category_def NORMAL_CATEGORIES_def)
  then show "sc_active (sl_counts v) + sc_bench (sl_counts v) + sc_injuredReserve (sl_counts v) +
      sc_prospects (sl_counts v) = sc_total (sl_counts v)"
    by (simp add: v counts no_counts_def)
qed

text \<open>
  C17. (equivalence) A roster that is assessed has each player once and only rows of the team asked
  for, every row is counted in exactly one category, and it is legal exactly when every player has a
  supported position that fits the place and forwards, defence, bench and injured reserve are
  within 12, 6, 4 and 4: the code's further test of the active total never decides.
\<close>

theorem structural_legality:
  assumes "evaluateStructuralRosterLegality input = Inr v"
  shows "\<exists>rows effective. mapE structuralAssignment (the (items (fld input ''assignments''))) = Inr rows \<and>
    mapE effectivePosition (the (items (fld input ''effectivePositions''))) = Inr effective \<and>
    distinct (map sg_playerId rows) \<and>
    list_all (\<lambda>a. fld input ''teamId'' = JStr (sg_teamId a) \<and> fld input ''leagueId'' = JStr (sg_leagueId a)) rows \<and>
    sc_active (sl_counts v) + sc_bench (sl_counts v) + sc_injuredReserve (sl_counts v) +
      sc_prospects (sl_counts v) = length rows \<and>
    sl_legal v = roster_fits effective rows"
proof -
  obtain l s t as es rows effective where i: "fld input ''leagueId'' = JStr l" "fld input ''teamId'' = JStr t"
    "fld input ''assignments'' = JArr as" "fld input ''effectivePositions'' = JArr es"
    "mapE structuralAssignment as = Inr rows" "mapE effectivePosition es = Inr effective"
    and v: "assess_roster (l, s, t) effective rows = Inr v"
    using assms by (auto simp only: evaluateStructuralRosterLegality_def roster_field_defs bindE_Inr_iff
        case_items_Inr stable_id_iff)
  note parts = assess_roster_Inr [OF v]
  have "list_all (\<lambda>a. fld input ''teamId'' = JStr (sg_teamId a) \<and> fld input ''leagueId'' = JStr (sg_leagueId a)) rows"
    using parts(2) i(1,2) by (auto simp: list_all_iff)
  then show ?thesis using parts i by (intro exI [of _ rows] exI [of _ effective]) simp
qed

section \<open>The projection shows every player once\<close>

lemma or_null_iffs:
  "jint_or_null m = JNull \<longleftrightarrow> m = None" "jint_or_null m = JInt n \<longleftrightarrow> m = Some n"
  "jstr_or_null s = jstr_or_null t \<longleftrightarrow> s = t" "jstr_or_null s = JNull \<longleftrightarrow> s = None"
  by (cases m; cases s; cases t; simp)+

lemmas revalidate_facts =
  revalidateRecord_def createRosterAssignmentRecord_def record_fields_def assignment_exactObject_def
  assignment_stableId_def assignment_timestamp_def acquisitionType_def assignment_optionalStableId_def
  assertSlot_def or_null_iffs

text \<open>A stored record that is accepted again is the record itself.\<close>

lemma revalidate_same: "revalidateRecord r = Inr q \<Longrightarrow> q = r"
  by (cases r) (auto simp: revalidate_facts result_iffs check_iffs split: if_splits)

lemma revalidate_slot:
  assumes "revalidateRecord r = Inr q"
  shows "po_roster_category r \<in> set ROSTER_CATEGORIES" and "po_position_group r \<in> {''F'', ''D''}"
    and "po_slot_number r = None \<Longrightarrow> po_roster_category r \<in> {''Active'', ''Prospect''}"
    and "po_slot_number r = Some n \<Longrightarrow> po_roster_category r \<noteq> ''Prospect'' \<and> 1 \<le> n \<and>
      n \<le> slot_maximum (po_roster_category r) (po_position_group r)"
  using assms
  by (auto simp: revalidate_facts result_iffs check_iffs POSITION_GROUPS_def split: if_splits)

definition occupants :: "player_ownership_row option list \<Rightarrow> player_ownership_row list" where
  "occupants = List.map_filter (\<lambda>s. s)"

text \<open>A list of \<open>m\<close> slots that holds only records of its category and group, each in its own slot.\<close>

definition slots_show :: "string \<Rightarrow> string option \<Rightarrow> nat \<Rightarrow> player_ownership_row option list \<Rightarrow> bool" where
  "slots_show category positionGroup m slots \<longleftrightarrow> length slots = m \<and>
     list_all (\<lambda>(i, slot). case slot of None \<Rightarrow> True | Some r \<Rightarrow> po_roster_category r = category \<and>
       (positionGroup = None \<or> positionGroup = Some (po_position_group r)) \<and>
       po_slot_number r = Some (int i + 1)) (enumerate 0 slots)"

lemma distinct_map_filter:
  "distinct xs \<Longrightarrow> (\<And>i j r. f i = Some r \<Longrightarrow> f j = Some r \<Longrightarrow> i = j) \<Longrightarrow> distinct (List.map_filter f xs)"
proof (induction xs)
  case (Cons x xs)
  have "r \<notin> set (List.map_filter f xs)" if "f x = Some r" for r
  proof
    assume "r \<in> set (List.map_filter f xs)"
    then obtain y where "y \<in> set xs" "f y = Some r" by (auto simp: map_filter_def)
    with Cons.prems(2) [OF that] Cons.prems(1) show False by auto
  qed
  with Cons show ?case by (auto simp: map_filter_simps split: option.splits)
qed (simp add: map_filter_simps)

lemma find_last: "find P (rev xs) = Some r \<Longrightarrow> r \<in> set xs \<and> P r"
  by (auto simp: find_Some_iff) (metis nth_mem set_rev length_rev)

lemma occupants_buildSlots:
  assumes rows: "distinct rows" and range: "\<And>r n. r \<in> set rows \<Longrightarrow> po_slot_number r = Some n \<Longrightarrow> 1 \<le> n \<and> n \<le> int m"
    and one: "\<And>r q n. r \<in> set rows \<Longrightarrow> q \<in> set rows \<Longrightarrow> po_slot_number r = Some n \<Longrightarrow>
      po_slot_number q = Some n \<Longrightarrow> r = q"
  shows "mset (occupants (buildSlots m rows)) = mset (filter (\<lambda>r. po_slot_number r \<noteq> None) rows)"
proof -
  let ?f = "\<lambda>i. find (\<lambda>r. po_slot_number r = Some (int i + 1)) (rev rows)"
  have f: "?f i = Some r \<longleftrightarrow> r \<in> set rows \<and> po_slot_number r = Some (int i + 1)" for i r
  proof
    assume "?f i = Some r"
    then show "r \<in> set rows \<and> po_slot_number r = Some (int i + 1)" by (rule find_last)
  next
    assume r: "r \<in> set rows \<and> po_slot_number r = Some (int i + 1)"
    then have "?f i \<noteq> None" by (auto simp: find_None_iff)
    then obtain q where q: "?f i = Some q" by auto
    then have "q \<in> set rows \<and> po_slot_number q = Some (int i + 1)" by (rule find_last)
    with r one q show "?f i = Some r" by blast
  qed
  have slots: "occupants (buildSlots m rows) = List.map_filter ?f [0..<m]"
    by (simp add: occupants_def buildSlots_def map_filter_def comp_def filter_map)
  have "distinct (List.map_filter ?f [0..<m])" by (rule distinct_map_filter) (auto simp: f)
  moreover have "set (List.map_filter ?f [0..<m]) = set (filter (\<lambda>r. po_slot_number r \<noteq> None) rows)"
  proof (intro set_eqI iffI)
    fix r assume "r \<in> set (List.map_filter ?f [0..<m])"
    then obtain i where "?f i = Some r" by (auto simp: map_filter_def)
    then show "r \<in> set (filter (\<lambda>r. po_slot_number r \<noteq> None) rows)" by (simp add: f)
  next
    fix r assume "r \<in> set (filter (\<lambda>r. po_slot_number r \<noteq> None) rows)"
    then obtain n where r: "r \<in> set rows" "po_slot_number r = Some n" by auto
    with range have n: "1 \<le> n" "n \<le> int m" by auto
    with r have "?f (nat (n - 1)) = Some r" unfolding f by simp
    moreover have "nat (n - 1) \<in> set [0..<m]" using n by auto
    ultimately show "r \<in> set (List.map_filter ?f [0..<m])" by (force simp: map_filter_def)
  qed
  ultimately show ?thesis unfolding slots using rows by (intro set_eq_iff_mset_eq_distinct [THEN iffD1]) auto
qed

lemma slots_show_buildSlots:
  assumes "\<And>r. r \<in> set rows \<Longrightarrow> po_roster_category r = category \<and>
    (positionGroup = None \<or> positionGroup = Some (po_position_group r))"
  shows "slots_show category positionGroup m (buildSlots m rows)"
proof -
  have each: "case find (\<lambda>r. po_slot_number r = Some (int i + 1)) (rev rows) of None \<Rightarrow> True
    | Some r \<Rightarrow> po_roster_category r = category \<and>
       (positionGroup = None \<or> positionGroup = Some (po_position_group r)) \<and>
       po_slot_number r = Some (int i + 1)" for i
  proof (cases "find (\<lambda>r. po_slot_number r = Some (int i + 1)) (rev rows)")
    case (Some r)
    from find_last [OF Some] assms [of r] show ?thesis unfolding Some option.case by blast
  qed simp
  have "list_all (\<lambda>(i, slot). case slot of None \<Rightarrow> True | Some r \<Rightarrow> po_roster_category r = category \<and>
      (positionGroup = None \<or> positionGroup = Some (po_position_group r)) \<and>
      po_slot_number r = Some (int i + 1)) (enumerate 0 (buildSlots m rows))"
    unfolding list_all_iff
  proof
    fix x assume "x \<in> set (enumerate 0 (buildSlots m rows))"
    then have x: "snd x = find (\<lambda>r. po_slot_number r = Some (int (fst x) + 1)) (rev rows)"
      by (auto simp: in_set_enumerate_eq buildSlots_def)
    show "case x of (i, slot) \<Rightarrow> case slot of None \<Rightarrow> True | Some r \<Rightarrow> po_roster_category r = category \<and>
        (positionGroup = None \<or> positionGroup = Some (po_position_group r)) \<and>
        po_slot_number r = Some (int i + 1)"
      unfolding split_beta x by (rule each)
  qed
  then show ?thesis by (simp add: slots_show_def buildSlots_def)
qed

lemma project_assignment_Inr [check_iffs]:
  "project_assignment scope (players, slots) r = Inr x \<longleftrightarrow>
     (po_league_id r, po_season_id r, po_team_id r) = scope \<and> po_player_id r \<notin> set players \<and>
     (case slotKey r of None \<Rightarrow> x = (po_player_id r # players, slots)
      | Some k \<Rightarrow> k \<notin> set slots \<and> x = (po_player_id r # players, k # slots))"
  by (auto simp: project_assignment_def split: option.splits)

text \<open>The loop that looks for repeated players and slots.\<close>

lemma project_loop:
  "foldE (project_assignment scope) (players, slots) rows = Inr state \<Longrightarrow>
     distinct (map po_player_id rows) \<and> distinct (List.map_filter slotKey rows) \<and>
     (\<forall>r \<in> set rows. po_player_id r \<notin> set players) \<and>
     (\<forall>k \<in> set (List.map_filter slotKey rows). k \<notin> set slots)"
proof (induction rows arbitrary: players slots)
  case (Cons r rows)
  from Cons.prems obtain x where x: "project_assignment scope (players, slots) r = Inr x"
    and rest: "foldE (project_assignment scope) x rows = Inr state"
    by (simp only: foldE.simps bindE_Inr_iff) blast
  show ?case
  proof (cases "slotKey r")
    case None
    with x have "x = (po_player_id r # players, slots)" "po_player_id r \<notin> set players"
      by (simp_all add: project_assignment_Inr)
    with Cons.IH [of "po_player_id r # players" slots] rest None show ?thesis
      by (auto simp: map_filter_simps)
  next
    case (Some k)
    with x have "x = (po_player_id r # players, k # slots)" "po_player_id r \<notin> set players" "k \<notin> set slots"
      by (simp_all add: project_assignment_Inr)
    with Cons.IH [of "po_player_id r # players" "k # slots"] rest Some show ?thesis
      by (auto simp: map_filter_simps)
  qed
qed (simp add: map_filter_simps)

lemma map_filter_inj:
  "distinct (List.map_filter f xs) \<Longrightarrow> x \<in> set xs \<Longrightarrow> y \<in> set xs \<Longrightarrow> f x = Some k \<Longrightarrow> f y = Some k \<Longrightarrow> x = y"
  by (induction xs) (auto simp: map_filter_simps map_filter_def image_iff split: option.splits if_splits; force)+

lemma accepted_roster:
  assumes "buildRosterCategoryProjection collate l s t rows = Inr p"
  obtains scope where "p = project_roster collate scope rows" "distinct (map po_player_id rows)"
    "distinct (List.map_filter slotKey rows)" "\<forall>r \<in> set rows. revalidateRecord r = Inr r"
proof -
  obtain qs state scope where "mapE revalidateRecord rows = Inr qs"
    and loop: "foldE (project_assignment scope) ([], []) qs = Inr state" and p: "p = project_roster collate scope qs"
    using assms by (auto simp: buildRosterCategoryProjection_def bindE_Inr_iff)
  then have all: "list_all2 (\<lambda>r q. revalidateRecord r = Inr q) rows qs" by (simp add: mapE_Inr_iff)
  then have "list_all2 (=) rows qs" by (rule list_all2_mono) (auto dest: revalidate_same)
  then have "rows = qs" by (simp add: list_all2_eq)
  with all loop p project_loop [OF loop] show thesis
    by (intro that [of scope]) (auto simp: list_all2_same)
qed

text \<open>A group of the roster whose slots are of one kind.\<close>

lemma group_slots:
  assumes "distinct (map po_player_id rows)" and "distinct (List.map_filter slotKey rows)"
    and ok: "\<forall>r \<in> set rows. revalidateRecord r = Inr r"
    and kind: "\<And>r. P r \<Longrightarrow> po_roster_category r = k \<and> (k = ''Active'' \<longrightarrow> po_position_group r = g)"
    and k: "k \<noteq> ''Prospect''" and m: "slot_maximum k g = int m"
  shows "mset (occupants (buildSlots m (filter P rows))) = mset (filter (\<lambda>r. po_slot_number r \<noteq> None) (filter P rows))"
proof (rule occupants_buildSlots)
  show "distinct (filter P rows)" using assms(1) by (simp add: distinct_map)
  fix r n assume r: "r \<in> set (filter P rows)" "po_slot_number r = Some n"
  then show "1 \<le> n \<and> n \<le> int m"
    using revalidate_slot(4) [of r r n] ok kind [of r] m by (auto simp: slot_maximum_def split: if_splits)
  fix q assume q: "q \<in> set (filter P rows)" "po_slot_number q = Some n"
  have "slotKey r = slotKey q" "slotKey r \<noteq> None"
    using r q kind [of r] kind [of q] k by (auto simp: slotKey_def)
  then show "r = q" using map_filter_inj [OF assms(2), of r q] r q by auto
qed


text \<open>A roster with one player of each kind.\<close>

definition sample_owned :: "char \<Rightarrow> string \<Rightarrow> string \<Rightarrow> int option \<Rightarrow> player_ownership_row" where
  "sample_owned c category positionGroup slot =
     \<lparr>po_id = sample_id c, po_league_id = sample_id CHR ''1'', po_season_id = sample_id CHR ''2'',
      po_player_id = sample_id c, po_team_id = sample_id CHR ''3'',
      po_ownership_kind = (if category = ''Prospect'' then ''Prospect Right'' else ''Rostered''),
      po_roster_category = category, po_position_group = positionGroup, po_slot_number = slot,
      po_acquired_transaction_type = ''auction_resolution'', po_acquired_transaction_id = None,
      po_created_at_ms = 1, po_updated_at_ms = 2, po_version = 3\<rparr>"

definition sample_roster :: "player_ownership_row list" where
  "sample_roster =
     [sample_owned CHR ''a'' ''Active'' ''F'' (Some 12), sample_owned CHR ''b'' ''Active'' ''F'' None,
      sample_owned CHR ''c'' ''Bench'' ''D'' (Some 2), sample_owned CHR ''d'' ''Prospect'' ''D'' None]"

lemma sample_projects:
  "\<exists>p. buildRosterCategoryProjection locale_compare (JStr (sample_id CHR ''1'')) (JStr (sample_id CHR ''2''))
     (JStr (sample_id CHR ''3'')) sample_roster = Inr p"
proof -
  have "(case buildRosterCategoryProjection locale_compare (JStr (sample_id CHR ''1'')) (JStr (sample_id CHR ''2''))
     (JStr (sample_id CHR ''3'')) sample_roster of Inr p \<Rightarrow> True | Inl e \<Rightarrow> False)"
    by code_simp
  then show ?thesis by (auto split: sum.splits)
qed


definition sample_structure :: jsval where
  "sample_structure =
     JObj [(''leagueId'', JStr (sample_id CHR ''1'')), (''seasonId'', JStr (sample_id CHR ''2'')),
       (''teamId'', JStr (sample_id CHR ''3'')),
       (''assignments'', JArr [JObj [(''leagueId'', JStr (sample_id CHR ''1'')),
          (''seasonId'', JStr (sample_id CHR ''2'')), (''teamId'', JStr (sample_id CHR ''3'')),
          (''playerId'', JStr (sample_id CHR ''a'')), (''rosterCategory'', JStr ''Bench''),
          (''assignedPositionGroup'', JStr ''D'')]]),
       (''effectivePositions'', JArr [JObj [(''playerId'', JStr (sample_id CHR ''a'')),
          (''positionGroup'', JStr ''F'')]])]"

definition sample_verdict :: structural_legality where
  "sample_verdict =
     \<lparr>sl_legal = False, sl_counts = (no_counts 1)\<lparr>sc_bench := 1\<rparr>,
      sl_reasons = [PlayerPositionAssignmentMismatch (sample_id CHR ''a'')]\<rparr>"

lemma sample_assessed: "evaluateStructuralRosterLegality sample_structure = Inr sample_verdict"
  by code_simp

theorem structural_legality_witness:
  "\<exists>rows effective. mapE structuralAssignment (the (items (fld sample_structure ''assignments''))) = Inr rows \<and>
    mapE effectivePosition (the (items (fld sample_structure ''effectivePositions''))) = Inr effective \<and>
    \<not> roster_fits effective rows"
  using structural_legality [OF sample_assessed] by (auto simp: sample_verdict_def)

end
