(* ===== verification/RosterMovement.thy ===== *)
theory RosterMovement
  imports RosterPolicy TradeMoves
begin

text \<open>
  \<^verbatim>\<open>src/src/infrastructure/persistence/sqlite/SqliteRosterMovementRepository.js\<close>: the transaction
  that moves a player on the roster, over the tables of the trade store, whose ownerships it
  changes and whose proposals for a prospect it cancels; and what a move does to open trades.
  The tables \<^verbatim>\<open>player_ownerships\<close>, \<^verbatim>\<open>ownership_events\<close> and \<^verbatim>\<open>league_activity\<close> are reached
  through the record repository; the synchroniser and the outbox are hooks of \<open>trade_env\<close>.
\<close>

section \<open>Tables\<close>

record roster_store =
  ms_trades :: trade_store
  ms_activity :: "activity_row list"

datatype roster_failure =
    RosterPolicyFailure roster_code
  | RosterRepoFailure repo_error

fun roster_policyE :: "roster_code + 'a \<Rightarrow> roster_failure + 'a" where
  "roster_policyE (Inl e) = Inl (RosterPolicyFailure e)"
| "roster_policyE (Inr x) = Inr x"

fun roster_repoE :: "repo_error + 'a \<Rightarrow> roster_failure + 'a" where
  "roster_repoE (Inl e) = Inl (RosterRepoFailure e)"
| "roster_repoE (Inr x) = Inr x"

text \<open>An error of the shared writers: \<^verbatim>\<open>mapRepositoryError\<close> keeps a repository error.\<close>

fun roster_tradeE :: "trade_failure + 'a \<Rightarrow> roster_failure + 'a" where
  "roster_tradeE (Inl (TradeRepoFailure e)) = Inl (RosterRepoFailure e)"
| "roster_tradeE (Inl _) = Inl (RosterRepoFailure RepoOperationFailed)"
| "roster_tradeE (Inr x) = Inr x"

lemma roster_result_iffs [result_iffs]:
  "roster_policyE c = Inr x \<longleftrightarrow> c = Inr x"
  "roster_repoE r = Inr x \<longleftrightarrow> r = Inr x"
  by (cases c; simp) (cases r; simp)

lemma roster_tradeE_Inr [result_iffs]: "roster_tradeE t = Inr x \<longleftrightarrow> t = Inr x"
proof (cases t)
  case (Inl e)
  then show ?thesis by (cases e) simp_all
qed simp

definition player_ownerships_table :: "(player_ownership_row list \<Rightarrow> bool) \<Rightarrow> player_ownership_row repo_def" where
  "player_ownerships_table accepts =
     \<lparr>rd_scope = RequiredLeague, rd_key = po_id, rd_keyed_by_league = False,
      rd_league = (\<lambda>r. Some (po_league_id r)), rd_version = po_version,
      rd_set_version = (\<lambda>r n. r\<lparr>po_version := n\<rparr>),
      rd_safe = (\<lambda>r. pred_option safe (po_slot_number r) \<and> safe (po_created_at_ms r) \<and>
        safe (po_updated_at_ms r) \<and> safe (po_version r)),
      rd_accepts = accepts\<rparr>"

definition ownership_events_table :: "(ownership_event_row list \<Rightarrow> bool) \<Rightarrow> ownership_event_row repo_def" where
  "ownership_events_table accepts =
     \<lparr>rd_scope = RequiredLeague, rd_key = oe_id, rd_keyed_by_league = False,
      rd_league = (\<lambda>r. Some (oe_league_id r)), rd_version = (\<lambda>_. 1),
      rd_set_version = (\<lambda>r _. r), rd_safe = (\<lambda>r. safe (oe_occurred_at_ms r)),
      rd_accepts = accepts\<rparr>"

interpretation ownerships: versioned_table "player_ownerships_table accepts"
  by unfold_locales (simp_all add: player_ownerships_table_def)

section \<open>The transaction\<close>

definition findOwnership :: "trade_store \<Rightarrow> roster_move \<Rightarrow> player_ownership_row list" where
  "findOwnership st move =
     filter (\<lambda>r. po_league_id r = mv_leagueId move \<and> po_player_id r = mv_playerId move) (td_ownerships st)"

definition moved_to :: "roster_move \<Rightarrow> bool \<Rightarrow> player_ownership_row \<Rightarrow> player_ownership_row" where
  "moved_to move activatingProspect r =
     r\<lparr>po_ownership_kind := (if activatingProspect then ''Rostered'' else po_ownership_kind r),
       po_roster_category := mv_destinationCategory move,
       po_position_group := mv_destinationPositionGroup move,
       po_slot_number := mv_destinationSlotNumber move,
       po_updated_at_ms := mv_occurredAtMs move\<rparr>"

text \<open>The rows of the team that wait for a slot like the vacated one, the longest waiting first.\<close>

definition findUnplacedSource ::
    "roster_move \<Rightarrow> player_ownership_row \<Rightarrow> player_ownership_row list \<Rightarrow> player_ownership_row list" where
  "findUnplacedSource move current rows =
     sort_key po_updated_at_ms (sort_key po_id
       (filter (\<lambda>r. po_league_id r = mv_leagueId move \<and> po_season_id r = mv_seasonId move \<and>
          po_team_id r = mv_teamId move \<and> po_roster_category r = po_roster_category current \<and>
          po_slot_number r = None \<and>
          (po_roster_category current \<noteq> ''Active'' \<or> po_position_group r = po_position_group current))
        rows))"

definition place_in :: "roster_move \<Rightarrow> int option \<Rightarrow> player_ownership_row \<Rightarrow> player_ownership_row" where
  "place_in move slotNumber r =
     r\<lparr>po_slot_number := slotNumber, po_updated_at_ms := mv_occurredAtMs move,
       po_version := po_version r + 1\<rparr>"

definition placeSource ::
    "trade_env \<Rightarrow> roster_move \<Rightarrow> player_ownership_row \<Rightarrow> trade_store \<Rightarrow>
     roster_failure + trade_store \<times> player_ownership_row option" where
  "placeSource env move current st =
     (if po_slot_number current = None then Inr (st, None)
      else
      (case findUnplacedSource move current (td_ownerships st) of
         [] \<Rightarrow> Inr (st, None)
       | r # _ \<Rightarrow>
           bindE (roster_tradeE (update_one (TradeRepoFailure RepoVersionConflict)
             (\<lambda>q. po_id q = po_id r \<and> po_league_id q = mv_leagueId move \<and>
                po_version q = po_version r \<and> po_slot_number q = None)
             (place_in move (po_slot_number current)) (td_ownerships st))) (\<lambda>rows.
           bindE (roster_tradeE (written env (st\<lparr>td_ownerships := rows\<rparr>))) (\<lambda>st.
           Inr (st, Some (place_in move (po_slot_number current) r))))))"

definition placement :: "bool \<Rightarrow> player_ownership_row \<Rightarrow> ownership_metadata" where
  "placement activatingProspect r =
     OwnershipPlaced (if activatingProspect then Some (po_ownership_kind r) else None)
       (po_roster_category r) (po_position_group r) (po_slot_number r) (po_version r)"

fun placement_text :: "ownership_metadata \<Rightarrow> string" where
  "placement_text (OwnershipPlaced kind category positionGroup slot version) =
     json_object ((case kind of None \<Rightarrow> [] | Some k \<Rightarrow> [(''ownershipKind'', JStr k)]) @
       [(''rosterCategory'', JStr category), (''positionGroup'', JStr positionGroup),
        (''slotNumber'', jint_or_null slot), (''version'', JInt version)])"
| "placement_text _ = ''null''"

definition move_event :: "roster_move \<Rightarrow> player_ownership_row \<Rightarrow> player_ownership_row \<Rightarrow> ownership_event_row" where
  "move_event move current updated =
     (let activating = (po_roster_category current = ''Prospect'') in
      \<lparr>oe_id = mv_ownershipEventId move, oe_league_id = mv_leagueId move,
       oe_season_id = mv_seasonId move, oe_player_id = mv_playerId move, oe_team_id = mv_teamId move,
       oe_ownership_id = po_id current, oe_event_type = ''roster_category_moved'',
       oe_actor_user_id = Some (mv_actorUserId move), oe_source_type = ''roster_move'',
       oe_source_id = mv_activityId move, oe_before = placement activating current,
       oe_after = placement activating updated, oe_reason = mv_reason move,
       oe_occurred_at_ms = mv_occurredAtMs move\<rparr>)"

definition move_activity :: "roster_move \<Rightarrow> player_ownership_row \<Rightarrow> ownership_event_row \<Rightarrow> activity_row" where
  "move_activity move current event =
     \<lparr>act_id = mv_activityId move, act_league_id = mv_leagueId move,
      act_season_id = mv_seasonId move, act_event_type = ''roster_moved'',
      act_actor_user_id = mv_actorUserId move, act_actor_authority = mv_actorAuthority move,
      act_team_id = mv_teamId move, act_player_id = mv_playerId move,
      act_related_type = ''player_ownership'', act_related_id = po_id current,
      act_display_summary = ''Roster assignment moved.'', act_reason = mv_reason move,
      act_metadata_json =
        ''{'' @ join '','' [json_string ''ownershipId'' @ '':'' @ json_string (po_id current),
          json_string ''before'' @ '':'' @ placement_text (oe_before event),
          json_string ''after'' @ '':'' @ placement_text (oe_after event)] @ ''}'',
      act_occurred_at_ms = mv_occurredAtMs move\<rparr>"

section \<open>Proposals for a prospect\<close>

definition names_prospect :: "trade_store \<Rightarrow> string \<Rightarrow> string \<Rightarrow> trade_row \<Rightarrow> bool" where
  "names_prospect st leagueId playerId t \<longleftrightarrow>
     tr_league_id t = leagueId \<and>
     list_ex (\<lambda>a. tar_league_id a = leagueId \<and> tar_trade_id a = tr_id t \<and>
       tar_asset_type a = ''prospect_right'' \<and> tar_player_id a = Some playerId) (td_assets st)"

definition listPendingProspectTrades :: "trade_store \<Rightarrow> roster_move \<Rightarrow> trade_row list" where
  "listPendingProspectTrades st move =
     sort_key tr_id (filter (\<lambda>t. tr_status t = ''proposed'' \<and>
       names_prospect st (mv_leagueId move) (mv_playerId move) t) (td_trades st))"

definition cancel_prospect_trade ::
    "trade_env \<Rightarrow> roster_move \<Rightarrow> trade_store \<times> string list \<Rightarrow> trade_row \<times> string \<Rightarrow>
     trade_failure + trade_store \<times> string list" where
  "cancel_prospect_trade env move state trade =
     (case (state, trade) of ((st, ids), (t, status)) \<Rightarrow>
      bindE (cancelPending env
        (deterministicUuid env (mv_ownershipEventId move @ '':auto-cancel:'' @ tr_id t))
        (mv_leagueId move) t (RosterMoved (mv_ownershipEventId move) (mv_playerId move)) status
        ''prospect_right_converted'' (mv_occurredAtMs move) st) (\<lambda>(st', cancelled).
      Inr (st', if cancelled then ids @ [tr_id t] else ids)))"

definition cancelPendingProspectTrades ::
    "trade_env \<Rightarrow> roster_move \<Rightarrow> trade_store \<Rightarrow> trade_failure + trade_store \<times> string list" where
  "cancelPendingProspectTrades env move st =
     foldE (cancel_prospect_trade env move) (st, [])
       (map (\<lambda>t. (t, projected_status st t)) (listPendingProspectTrades st move))"

interpretation prospects: cancellation_loop "cancel_prospect_trade env move" env "mv_leagueId move" "mv_occurredAtMs move"
  by unfold_locales (auto simp: cancel_prospect_trade_def bindE_Inr_iff split: prod.splits)

section \<open>Moving\<close>

record roster_moved =
  ro_ownership :: player_ownership_row
  ro_affectedOwnerships :: "player_ownership_row list"
  ro_ownershipEvent :: ownership_event_row
  ro_activity :: activity_row
  ro_automaticallyCancelledTradeIds :: "string list"

definition move_ownership ::
    "trade_env \<Rightarrow> roster_move \<Rightarrow> player_ownership_row \<Rightarrow> trade_store \<Rightarrow>
     roster_failure + trade_store \<times> player_ownership_row" where
  "move_ownership env move current st =
     bindE (roster_repoE (repo_updateVersioned
       (player_ownerships_table (\<lambda>rows. te_accepts env (st\<lparr>td_ownerships := rows\<rparr>)))
       (td_ownerships st) (po_id current) (League (mv_leagueId move)) (mv_expectedVersion move)
       (safe (mv_occurredAtMs move) \<and> pred_option safe (mv_destinationSlotNumber move))
       (moved_to move (po_roster_category current = ''Prospect'')))) (\<lambda>(rows, updated).
     Inr (st\<lparr>td_ownerships := rows\<rparr>, updated))"

definition moveTransaction ::
    "trade_env \<Rightarrow> (activity_row list \<Rightarrow> bool) \<Rightarrow> roster_store \<Rightarrow> roster_move \<Rightarrow>
     roster_failure + roster_store \<times> roster_moved" where
  "moveTransaction env accepts ms move =
     (let rows = findOwnership (ms_trades ms) move in
      if 1 < length rows then Inl (RosterRepoFailure RepoSchemaIncompatible)
      else case rows of
        [] \<Rightarrow> Inl (RosterRepoFailure RepoRecordNotFound)
      | current # _ \<Rightarrow>
        bindE (roster_policyE (assertCurrentOwnershipForMove current move)) (\<lambda>_.
        bindE (move_ownership env move current (ms_trades ms)) (\<lambda>(st, updated).
        bindE (placeSource env move current st) (\<lambda>(st, placed).
        let event = move_event move current updated in
        bindE (roster_repoE (repo_insert
          (ownership_events_table (\<lambda>rows. te_accepts env (st\<lparr>td_ownership_events := rows\<rparr>)))
          (td_ownership_events st) event)) (\<lambda>(events, _).
        let activity = move_activity move current event in
        bindE (roster_repoE (repo_insert (league_activity_table accepts) (ms_activity ms) activity)) (\<lambda>(acts, _).
        bindE (roster_tradeE (if po_roster_category current = ''Prospect''
          then cancelPendingProspectTrades env move (st\<lparr>td_ownership_events := events\<rparr>)
          else Inr (st\<lparr>td_ownership_events := events\<rparr>, []))) (\<lambda>(st, cancelled).
        bindE (roster_tradeE (hook_result (te_synchronize env (mv_ownershipEventId move)))) (\<lambda>_.
        bindE (roster_tradeE (hook_result (te_publish env (deterministicUuid env
          (''outbox:'' @ mv_ownershipEventId move @ '':roster.changed''))))) (\<lambda>_.
        Inr (\<lparr>ms_trades = st, ms_activity = acts\<rparr>,
          \<lparr>ro_ownership = updated,
           ro_affectedOwnerships = js_sort (\<lambda>left right. te_collate env (po_id left) (po_id right))
             (updated # option_rows placed),
           ro_ownershipEvent = event, ro_activity = activity,
           ro_automaticallyCancelledTradeIds = cancelled\<rparr>))))))))))"

definition move_roster ::
    "trade_env \<Rightarrow> (activity_row list \<Rightarrow> bool) \<Rightarrow> roster_store \<Rightarrow> jsval \<Rightarrow>
     roster_failure + roster_store \<times> roster_moved" where
  "move_roster env accepts ms input =
     bindE (roster_policyE (validateRosterMove input)) (\<lambda>move. moveTransaction env accepts ms move)"

section \<open>What a move changes\<close>

definition waits_for :: "roster_move \<Rightarrow> player_ownership_row \<Rightarrow> player_ownership_row \<Rightarrow> bool" where
  "waits_for move current r \<longleftrightarrow>
     po_league_id r = mv_leagueId move \<and> po_season_id r = mv_seasonId move \<and> po_team_id r = mv_teamId move \<and>
     po_roster_category r = po_roster_category current \<and> po_slot_number r = None \<and>
     (po_roster_category current \<noteq> ''Active'' \<or> po_position_group r = po_position_group current)"

lemma set_findUnplacedSource: "set (findUnplacedSource move current rows) = {r \<in> set rows. waits_for move current r}"
  by (auto simp: findUnplacedSource_def waits_for_def)

definition moved_row :: "roster_move \<Rightarrow> player_ownership_row \<Rightarrow> player_ownership_row" where
  "moved_row move current =
     (moved_to move (po_roster_category current = ''Prospect'') current)\<lparr>po_version := po_version current + 1\<rparr>"

lemma move_ownershipE:
  assumes "move_ownership env move current st = Inr (st', updated)"
    and "distinct (map po_id (td_ownerships st))" and "current \<in> set (td_ownerships st)"
  obtains xs ys where "td_ownerships st = xs @ current # ys" "updated = moved_row move current"
    "st' = st\<lparr>td_ownerships := xs @ updated # ys\<rparr>" "po_version current = mv_expectedVersion move"
proof -
  let ?d = "player_ownerships_table (\<lambda>rows. te_accepts env (st\<lparr>td_ownerships := rows\<rparr>))"
  obtain rows where upd: "repo_updateVersioned ?d (td_ownerships st) (po_id current) (League (mv_leagueId move))
      (mv_expectedVersion move) (safe (mv_occurredAtMs move) \<and> pred_option safe (mv_destinationSlotNumber move))
      (moved_to move (po_roster_category current = ''Prospect'')) = Inr (rows, updated)"
    and st': "st' = st\<lparr>td_ownerships := rows\<rparr>"
    using assms(1) by (auto simp: move_ownership_def result_iffs)
  have "keys_unique ?d (td_ownerships st)" using assms(2) by (simp add: keys_unique_def player_ownerships_table_def)
  from ownerships.update_row [OF upd this] obtain xs r ys where
    x: "td_ownerships st = xs @ r # ys" "po_id r = po_id current" "po_version r = mv_expectedVersion move"
      "updated = (moved_to move (po_roster_category current = ''Prospect'') r)\<lparr>po_version := mv_expectedVersion move + 1\<rparr>"
      "rows = xs @ updated # ys"
    by (auto simp: player_ownerships_table_def moved_to_def)
  have "r = current" using assms(2,3) x(1,2) by (auto simp: image_iff)
  with x st' show thesis by (intro that [of xs ys]) (simp_all add: moved_row_def)
qed

lemma placeSourceE:
  assumes "placeSource env move current st = Inr (st', placed)" and "distinct (map po_id (td_ownerships st))"
  obtains (none) "st' = st" "placed = None"
      "po_slot_number current = None \<or> (\<forall>r \<in> set (td_ownerships st). \<not> waits_for move current r)"
  | (some) r where "r \<in> set (td_ownerships st)" "waits_for move current r" "po_slot_number current \<noteq> None"
      "st' = st\<lparr>td_ownerships := map (\<lambda>q. if q = r then place_in move (po_slot_number current) q else q)
        (td_ownerships st)\<rparr>"
      "placed = Some (place_in move (po_slot_number current) r)"
proof (cases "po_slot_number current = None \<or> findUnplacedSource move current (td_ownerships st) = []")
  case True
  with assms(1) have "st' = st" "placed = None" by (auto simp: placeSource_def split: if_splits)
  moreover have "findUnplacedSource move current (td_ownerships st) = [] \<Longrightarrow>
      \<forall>r \<in> set (td_ownerships st). \<not> waits_for move current r"
    using set_findUnplacedSource [of move current "td_ownerships st"] by auto
  ultimately show thesis using True none by blast
next
  case False
  then obtain r rs where l: "findUnplacedSource move current (td_ownerships st) = r # rs" by (auto simp: neq_Nil_conv)
  then have r: "r \<in> set (td_ownerships st)" "waits_for move current r"
    using set_findUnplacedSource [of move current "td_ownerships st"] by auto
  let ?p = "\<lambda>q. po_id q = po_id r \<and> po_league_id q = mv_leagueId move \<and> po_version q = po_version r \<and> po_slot_number q = None"
  have "?p q \<longleftrightarrow> q = r" if "q \<in> set (td_ownerships st)" for q
    using that r assms(2) by (auto simp: waits_for_def distinct_map dest: inj_onD)
  then have "update_rows ?p (place_in move (po_slot_number current)) (td_ownerships st) =
      map (\<lambda>q. if q = r then place_in move (po_slot_number current) q else q) (td_ownerships st)"
    by (auto simp: update_rows_def)
  with assms(1) False l show thesis
    by (intro some [OF r]) (auto simp: placeSource_def result_iffs check_iffs)
qed

text \<open>The transaction after the ownerships: nothing but trades, their events and logs change.\<close>

lemma cancel_prospects_keep:
  assumes "cancelPendingProspectTrades env move st = Inr (st', ids)"
  shows "td_assets st' = td_assets st \<and> td_ownerships st' = td_ownerships st"
proof -
  have "(case (st', ids) of (s, _) \<Rightarrow> td_assets s = td_assets st \<and> td_ownerships s = td_ownerships st)"
    using assms unfolding cancelPendingProspectTrades_def
    by (rule foldE_invariant)
      (auto simp: cancel_prospect_trade_def result_iffs split: prod.splits dest!: cancelPending_keeps)
  then show ?thesis by simp
qed

lemma moveTransactionE:
  assumes "moveTransaction env accepts ms move = Inr (ms', m)"
  obtains current st1 st2 placed events where "findOwnership (ms_trades ms) move = [current]"
    "assertCurrentOwnershipForMove current move = Inr ()"
    "move_ownership env move current (ms_trades ms) = Inr (st1, ro_ownership m)"
    "placeSource env move current st1 = Inr (st2, placed)"
    "if po_roster_category current = ''Prospect''
     then cancelPendingProspectTrades env move (st2\<lparr>td_ownership_events := events\<rparr>) =
       Inr (ms_trades ms', ro_automaticallyCancelledTradeIds m)
     else ms_trades ms' = st2\<lparr>td_ownership_events := events\<rparr>"
proof -
  obtain current rest where found: "findOwnership (ms_trades ms) move = current # rest"
    and one: "\<not> 1 < length (findOwnership (ms_trades ms) move)"
    using assms by (cases "findOwnership (ms_trades ms) move") (auto simp: moveTransaction_def Let_def split: if_splits)
  from assms found one obtain st1 updated st2 placed events x acts where
    "assertCurrentOwnershipForMove current move = Inr ()"
    "move_ownership env move current (ms_trades ms) = Inr (st1, updated)"
    "placeSource env move current st1 = Inr (st2, placed)"
    and st: "(if po_roster_category current = ''Prospect''
     then cancelPendingProspectTrades env move (st2\<lparr>td_ownership_events := events\<rparr>)
     else Inr (st2\<lparr>td_ownership_events := events\<rparr>, [])) = Inr (ms_trades ms', ro_automaticallyCancelledTradeIds m)"
    and "updated = ro_ownership m"
    by (auto simp: moveTransaction_def Let_def result_iffs)
  with found one show thesis by (intro that [of current st1 st2 placed events]) (auto split: if_splits)
qed

lemma moved_ownerships:
  assumes "moveTransaction env accepts ms move = Inr (ms', m)" and "distinct (map po_id (td_ownerships (ms_trades ms)))"
  obtains current xs ys placing where "findOwnership (ms_trades ms) move = [current]"
    "assertCurrentOwnershipForMove current move = Inr ()"
    "td_ownerships (ms_trades ms) = xs @ current # ys" "ro_ownership m = moved_row move current"
    "td_ownerships (ms_trades ms') = map placing (xs @ moved_row move current # ys)"
    "td_assets (ms_trades ms') = td_assets (ms_trades ms)"
    "placing = id \<and> (po_slot_number current = None \<or>
        (\<forall>r \<in> set (xs @ moved_row move current # ys). \<not> waits_for move current r)) \<or>
      (\<exists>r \<in> set (xs @ moved_row move current # ys). waits_for move current r \<and> po_slot_number current \<noteq> None \<and>
        placing = (\<lambda>q. if q = r then place_in move (po_slot_number current) q else q))"
proof -
  from assms(1) obtain current st1 st2 placed events where
    t: "findOwnership (ms_trades ms) move = [current]" "assertCurrentOwnershipForMove current move = Inr ()"
      "move_ownership env move current (ms_trades ms) = Inr (st1, ro_ownership m)"
      "placeSource env move current st1 = Inr (st2, placed)"
      "if po_roster_category current = ''Prospect''
       then cancelPendingProspectTrades env move (st2\<lparr>td_ownership_events := events\<rparr>) =
         Inr (ms_trades ms', ro_automaticallyCancelledTradeIds m)
       else ms_trades ms' = st2\<lparr>td_ownership_events := events\<rparr>"
    by (rule moveTransactionE)
  have "current \<in> set (findOwnership (ms_trades ms) move)" unfolding t(1) by simp
  then have "current \<in> set (td_ownerships (ms_trades ms))" by (simp add: findOwnership_def)
  with t(3) assms(2) obtain xs ys where x: "td_ownerships (ms_trades ms) = xs @ current # ys"
    "ro_ownership m = moved_row move current"
    "st1 = (ms_trades ms)\<lparr>td_ownerships := xs @ ro_ownership m # ys\<rparr>" "po_version current = mv_expectedVersion move"
    by (rule move_ownershipE)
  have rest: "td_ownerships (ms_trades ms') = td_ownerships st2" "td_assets (ms_trades ms') = td_assets st2"
    using t(5) cancel_prospects_keep by (auto split: if_splits)
  have ids: "distinct (map po_id (td_ownerships st1))"
    using assms(2) unfolding x(1,3) by (simp add: x(2) moved_row_def moved_to_def)
  from t(4) ids show thesis
  proof (cases rule: placeSourceE)
    case none
    with t x rest show thesis by (intro that [of current xs ys id]) simp_all
  next
    case (some r)
    with t x rest show thesis
      by (intro that [of current xs ys "\<lambda>q. if q = r then place_in move (po_slot_number current) q else q"]) auto
  qed
qed

lemma validated_move:
  assumes "validateRosterMove input = Inr move"
  shows "move_allowed (mv_expectedSourceCategory move) (mv_destinationCategory move)"
    and "mv_destinationCategory move \<in> set NORMAL_CATEGORIES"
  using assms by (clarsimp simp: validateRosterMove_def bindE_Inr_iff if_Inl_eq_Inr one_of_iff)+

lemma place_in_changes: "place_in move slot r \<noteq> r"
proof
  assume "place_in move slot r = r"
  then have "po_version (place_in move slot r) = po_version r" by simp
  then show False by (simp add: place_in_def)
qed

lemma moved_row_waits:
  assumes "validateRosterMove input = Inr move" and "assertCurrentOwnershipForMove current move = Inr ()"
  shows "\<not> waits_for move current (moved_row move current)"
  using validated_move(1) [OF assms(1)] assms(2)
  by (auto simp: move_allowed_def assertCurrentOwnershipForMove_def waits_for_def moved_row_def moved_to_def split: if_splits)

lemma filter_eq_one: "distinct xs \<Longrightarrow> r \<in> set xs \<Longrightarrow> length (filter (\<lambda>q. q = r) xs) = 1"
proof (induction xs)
  case (Cons x xs)
  then show ?case by (cases "x = r") (auto simp: filter_empty_conv)
qed simp

text \<open>The rows before and after, when \<open>placing\<close> gives the vacated slot to at most one of them.\<close>

definition move_of_row :: "roster_move \<Rightarrow> player_ownership_row \<Rightarrow> player_ownership_row \<Rightarrow> player_ownership_row \<Rightarrow> bool" where
  "move_of_row move current old new \<longleftrightarrow>
     (if old = current then new = moved_row move current
      else new = old \<or> waits_for move current old \<and> new = place_in move (po_slot_number current) old)"

lemma placed_rows:
  assumes "current \<notin> set (xs @ ys)" and "\<And>q. placing q = q \<or> waits_for move current q \<and> placing q = place_in move (po_slot_number current) q"
  shows "list_all2 (move_of_row move current) (xs @ current # ys) (map placing xs @ moved_row move current # map placing ys)"
    and "length (filter (\<lambda>(old, new). old \<noteq> current \<and> new \<noteq> old)
      (zip (xs @ current # ys) (map placing xs @ moved_row move current # map placing ys))) =
      length (filter (\<lambda>q. placing q \<noteq> q) (xs @ ys))"
proof -
  have part: "list_all2 (move_of_row move current) qs (map placing qs)" if "current \<notin> set qs" for qs
    using that assms(2) by (induction qs) (auto simp: move_of_row_def)
  show "list_all2 (move_of_row move current) (xs @ current # ys) (map placing xs @ moved_row move current # map placing ys)"
    using part [of xs] part [of ys] assms(1) by (auto simp: move_of_row_def intro!: list_all2_appendI)
  have "length (filter (\<lambda>(old, new). old \<noteq> current \<and> new \<noteq> old) (zip qs (map placing qs))) =
      length (filter (\<lambda>q. placing q \<noteq> q) qs)" if "current \<notin> set qs" for qs
    using that by (induction qs) auto
  then show "length (filter (\<lambda>(old, new). old \<noteq> current \<and> new \<noteq> old)
      (zip (xs @ current # ys) (map placing xs @ moved_row move current # map placing ys))) =
      length (filter (\<lambda>q. placing q \<noteq> q) (xs @ ys))"
    using assms(1) by simp
qed

lemma placed_count:
  assumes "distinct (xs @ ys)" and new: "\<not> waits_for move current (moved_row move current)"
    and "placing = id \<and> (po_slot_number current = None \<or>
        (\<forall>r \<in> set (xs @ moved_row move current # ys). \<not> waits_for move current r)) \<or>
      (\<exists>r \<in> set (xs @ moved_row move current # ys). waits_for move current r \<and> po_slot_number current \<noteq> None \<and>
        placing = (\<lambda>q. if q = r then place_in move (po_slot_number current) q else q))"
  shows "length (filter (\<lambda>q. placing q \<noteq> q) (xs @ ys)) =
    (if po_slot_number current \<noteq> None \<and> list_ex (waits_for move current) (xs @ current # ys) then 1 else 0)"
  using assms(3)
proof (elim disjE conjE bexE)
  assume "placing = id" "po_slot_number current = None"
  then show ?thesis by simp
next
  assume "placing = id" "\<forall>r \<in> set (xs @ moved_row move current # ys). \<not> waits_for move current r"
  then show ?thesis by (cases "po_slot_number current") (auto simp: list_ex_iff waits_for_def)
next
  fix r assume r: "r \<in> set (xs @ moved_row move current # ys)" "waits_for move current r"
    "po_slot_number current \<noteq> None" "placing = (\<lambda>q. if q = r then place_in move (po_slot_number current) q else q)"
  then have "r \<in> set (xs @ ys)" using new by auto
  moreover have "placing q \<noteq> q \<longleftrightarrow> q = r" for q by (simp add: r(4) place_in_changes)
  ultimately show ?thesis using r(2,3) filter_eq_one [OF assms(1)] by (auto simp: list_ex_iff)
qed


text \<open>The move of a prospect also ends every proposal that offers the right to the player.\<close>

lemma cancel_prospects_trades:
  assumes "cancelPendingProspectTrades env move st = Inr (st', ids)" and "distinct (map tr_id (td_trades st))"
  shows "td_trades st' = map (\<lambda>t. if tr_status t = ''proposed'' \<and>
      names_prospect st (mv_leagueId move) (mv_playerId move) t
    then settle_trade ''cancelled'' (mv_occurredAtMs move) t else t) (td_trades st)"
  using assms(1) unfolding cancelPendingProspectTrades_def
proof (rule prospects.cancels)
  show "distinct (map tr_id (td_trades st))" by (fact assms(2))
  show "distinct (listPendingProspectTrades st move)"
    using assms(2) by (simp add: listPendingProspectTrades_def distinct_map)
  show "tr_league_id t = mv_leagueId move" if "names_prospect st (mv_leagueId move) (mv_playerId move) t" for t
    using that by (simp add: names_prospect_def)
  show "set (listPendingProspectTrades st move) = {t \<in> set (td_trades st). tr_status t = ''proposed'' \<and>
      names_prospect st (mv_leagueId move) (mv_playerId move) t}"
    by (auto simp: listPendingProspectTrades_def)
qed

text \<open>The ownership that an execution needs is gone: its identifier has a later version.\<close>

lemma executed_after_move:
  assumes move: "validateRosterMove input = Inr move" "moveTransaction env accepts ms move = Inr (ms', m)"
    and ids: "distinct (map po_id (td_ownerships (ms_trades ms)))"
    and exec: "executes env' (ms_trades ms') approve raw st' res"
  shows "\<not> list_ex (\<lambda>a. moves_player a \<and> (case proposed_ownership a of None \<Rightarrow> False
        | Some q \<Rightarrow> ov_id q = po_id (ro_ownership m) \<and> ov_version q < po_version (ro_ownership m)))
        (listTradeAssets (ms_trades ms) (tr_league_id (rs_trade res)) (tr_id (rs_trade res)))"
proof
  from move(2) ids obtain current xs ys placing where c: "findOwnership (ms_trades ms) move = [current]"
    "assertCurrentOwnershipForMove current move = Inr ()" "td_ownerships (ms_trades ms) = xs @ current # ys"
    "ro_ownership m = moved_row move current"
    "td_ownerships (ms_trades ms') = map placing (xs @ moved_row move current # ys)"
    "td_assets (ms_trades ms') = td_assets (ms_trades ms)"
    and placing: "placing = id \<and> (po_slot_number current = None \<or>
        (\<forall>r \<in> set (xs @ moved_row move current # ys). \<not> waits_for move current r)) \<or>
      (\<exists>r \<in> set (xs @ moved_row move current # ys). waits_for move current r \<and> po_slot_number current \<noteq> None \<and>
        placing = (\<lambda>q. if q = r then place_in move (po_slot_number current) q else q))"
    by (rule moved_ownerships)
  have keeps: "po_id (placing q) = po_id q" for q using placing by (auto simp: place_in_def)
  have same: "placing (moved_row move current) = moved_row move current"
    using placing moved_row_waits [OF move(1) c(2)] by auto
  have new_id: "po_id (moved_row move current) = po_id current" by (simp add: moved_row_def moved_to_def)
  assume "list_ex (\<lambda>a. moves_player a \<and> (case proposed_ownership a of None \<Rightarrow> False
        | Some q \<Rightarrow> ov_id q = po_id (ro_ownership m) \<and> ov_version q < po_version (ro_ownership m)))
        (listTradeAssets (ms_trades ms) (tr_league_id (rs_trade res)) (tr_id (rs_trade res)))"
  then obtain a q where a: "a \<in> set (listTradeAssets (ms_trades ms') (tr_league_id (rs_trade res)) (tr_id (rs_trade res)))"
      "moves_player a" "proposed_ownership a = Some q" "ov_id q = po_id (ro_ownership m)"
      "ov_version q < po_version (ro_ownership m)"
    by (auto simp: list_ex_iff listTradeAssets_def c(6) split: option.splits)
  obtain q' where "proposed_ownership a = Some q'" "unmoved (ms_trades ms') (tr_league_id (rs_trade res)) a q'"
    by (rule executed_players [OF exec a(1,2)])
  with a(3) obtain p where p: "p \<in> set (td_ownerships (ms_trades ms'))" "po_id p = ov_id q" "po_version p = ov_version q"
    by (auto simp: unmoved_def list_ex_iff)
  then obtain p0 where p0: "p0 \<in> set (xs @ moved_row move current # ys)" "p = placing p0" unfolding c(5) by auto
  with p a(4) keeps new_id have "po_id p0 = po_id current" by (simp add: c(4))
  with p0(1) ids have "p0 = moved_row move current" unfolding c(3) by (auto simp: image_iff)
  with p0 same p(3) a(5) show False by (simp add: c(4))
qed


section \<open>A move in the sample league\<close>

text \<open>The player of the sample proposal moves from the bench to the active roster.\<close>

definition sample_move :: jsval where
  "sample_move =
     JObj [(''leagueId'', JStr (sample_id CHR ''3'')), (''seasonId'', JStr (sample_id CHR ''6'')),
       (''teamId'', JStr (sample_id CHR ''1'')), (''playerId'', JStr (sample_id CHR ''e'')),
       (''expectedVersion'', JInt 3), (''expectedSourceCategory'', JStr ''Bench''),
       (''destinationCategory'', JStr ''Active''), (''destinationPositionGroup'', JStr ''F''),
       (''destinationSlotNumber'', JInt 1), (''actorUserId'', JStr (sample_id CHR ''4'')),
       (''actorAuthority'', JStr ''manager''), (''ownershipEventId'', JStr (sample_id CHR ''5'')),
       (''activityId'', JStr (sample_id CHR ''8'')), (''reason'', JNull), (''occurredAtMs'', JInt 7)]"

definition sample_rosters :: roster_store where
  "sample_rosters = \<lparr>ms_trades = sample_rivals, ms_activity = []\<rparr>"

lemma sample_moves:
  "\<exists>ms' m. move_roster sample_env (\<lambda>_. True) sample_rosters sample_move = Inr (ms', m) \<and>
     po_version (ro_ownership m) = 4 \<and> po_id (ro_ownership m) = sample_id CHR ''d''"
proof -
  have "(case move_roster sample_env (\<lambda>_. True) sample_rosters sample_move of
      Inr (ms', m) \<Rightarrow> po_version (ro_ownership m) = 4 \<and> po_id (ro_ownership m) = sample_id CHR ''d''
    | Inl e \<Rightarrow> False)"
    by code_simp
  then show ?thesis by (auto split: sum.splits)
qed

lemma sample_rosters_ids:
  "distinct (map po_id (td_ownerships (ms_trades sample_rosters)))"
  "distinct (map tr_id (td_trades (ms_trades sample_rosters)))"
  by code_simp+



end
