(* ===== verification/Spec2Isabelle.thy ===== *)
theory Spec2Isabelle
  imports RetentionRepository BuyoutPolicy SeasonPlanner CapPolicy CandidateAllocation AuctionBidReplay AuctionResolution
    RoundRobin MatchupScoring MatchupWeek MatchupResult TradeLimits TradeLease RosterMovement
begin

text \<open>
  Hundo Leago backend, a fantasy hockey league server in JavaScript on Node and SQLite. Its core
  logic lives in pure policy modules under \<^verbatim>\<open>src/src/domain\<close>, which validate a command and
  decide, and in repositories under \<^verbatim>\<open>src/src/infrastructure/persistence/sqlite\<close>, which run a
  policy inside a transaction and store its aggregate; application services compose the two with
  clocks and identifiers injected. This library models the parts that move money, players and
  results, translated from the source one function at a time.

  Conventions (theory \<open>Prelude\<close>). A JavaScript value that a validator receives is a \<open>jsval\<close>; a
  thrown error is the left side of a sum, with one datatype of codes per module, so every early
  return is a branch of the model; rows that come out of a STRICT table are records. Loops over
  arrays that may throw are \<open>mapE\<close> and \<open>foldE\<close>; loops that fill a \<^verbatim>\<open>Map\<close> with unique keys
  are interpretations of the locale \<open>unique_loader\<close>. \<open>Ordering\<close> has the stable array sort
  and the contract of comparison functions (\<open>comparator\<close>, \<open>keyed_comparator\<close>, \<open>collation\<close>),
  \<open>Validation\<close> the contract of an exact-object validator (\<open>validator\<close>), numerals and JSON text,
  \<open>JsNumber\<close> sums of doubles that the code does not test.

  Contracts. \<open>ContractPolicy\<close> (\<^verbatim>\<open>contracts/contractPolicy.js\<close>) builds contract aggregates;
  \<open>SeasonPlanner\<close> (\<^verbatim>\<open>contractSeasonPlanner.js\<close>) names the seasons of a term;
  \<open>RetentionPolicy\<close> and \<open>RetentionRepository\<close> (\<^verbatim>\<open>retentionPolicy.js\<close>,
  \<^verbatim>\<open>SqliteRetentionRepository.js\<close> on the record repository of \<open>RecordRepository\<close>) keep
  retained salary within its limits in every reachable ledger; \<open>BuyoutPolicy\<close>
  (\<^verbatim>\<open>buyoutPolicy.js\<close>, \<^verbatim>\<open>rapidAuctionBuyoutLockPolicy.js\<close>) and \<open>CapPolicy\<close>
  (\<^verbatim>\<open>capPolicy.js\<close>) compute penalties and cap usage.

  Auctions and the draft. \<open>AuctionBid\<close> (\<^verbatim>\<open>auctions/auctionBidPolicy.js\<close>) is the bid state
  machine, \<open>AuctionBidRepository\<close> its transaction with idempotency records
  (\<^verbatim>\<open>SqliteAuctionBidRepository.js\<close>), \<open>AuctionBidReplay\<close> the invariant of its stores and the
  replay of accepted commands; \<open>AuctionResolution\<close> (\<^verbatim>\<open>auctionResolutionPolicy.js\<close>,
  \<^verbatim>\<open>actualWinningOfferPolicy.js\<close>) ranks, decides and prices. \<open>CandidateAllocation\<close>
  (\<^verbatim>\<open>freeAgentDraft/candidateAllocationPolicy.js\<close>) decides between draft offers.

  Matchups. \<open>RoundRobin\<close> is the pairing of \<^verbatim>\<open>matchups/matchupSchedulePolicy.js\<close>;
  \<open>MatchupWeek\<close> the life of a week over its policy, repository and service
  (\<^verbatim>\<open>matchupWeekPolicy.js\<close>, \<^verbatim>\<open>SqliteMatchupWeekRepository.js\<close>,
  \<^verbatim>\<open>createMatchupWeekService.js\<close>); \<open>MatchupLock\<close> the legality and the lock of a lineup
  (\<^verbatim>\<open>matchupLegalityPolicy.js\<close>, \<^verbatim>\<open>matchupLockPolicy.js\<close>); \<open>MatchupScoring\<close> the live
  score against the lock's baselines (\<^verbatim>\<open>matchupScoringPolicy.js\<close>); \<open>MatchupResult\<close> outcomes and
  final sources (\<^verbatim>\<open>matchupResultPolicy.js\<close>); \<open>MatchupStandings\<close> the table
  (\<^verbatim>\<open>matchupStandingsPolicy.js\<close>).

  Trades. \<open>TradeAsset\<close> (\<^verbatim>\<open>trades/tradeAssetPolicy.js\<close>) validates the assets and bodies of
  two- and three-team proposals, its duplicate checks one interpretation each of the locale
  \<open>identity_loop\<close>; \<open>TradeProposal\<close> (\<^verbatim>\<open>trades/tradeProposalPolicy.js\<close>,
  \<^verbatim>\<open>createTradeProposalService.js\<close>) the trading window, the deadline and the command the
  service builds; \<open>TradeLifecycle\<close> (\<^verbatim>\<open>trades/tradeLifecyclePolicy.js\<close>,
  \<^verbatim>\<open>tradeExecutionPolicy.js\<close>, \<^verbatim>\<open>tradeReversalPolicy.js\<close>) who may reject, cancel,
  accept, approve, expire or reverse it, and when.

  The trade repository (\<^verbatim>\<open>SqliteTradeProposalRepository.js\<close>, \<^verbatim>\<open>SqliteTradeParticipants.js\<close>,
  \<^verbatim>\<open>SqliteTradeProposalCancellationWriter.js\<close>) is five theories over one record of tables:
  \<open>TradeStore\<close> has the rows, the queries, the idempotency records and the answers of a three-team
  trade; \<open>TradeSnapshot\<close> reads the current state of the assets and applies the retention rules to all
  of them; \<open>TradePreview\<close> projects rosters, caps and slots after the trade; \<open>TradeRepository\<close>
  creates, counters, rejects and cancels; \<open>TradeExecution\<close> accepts and approves, moves every kind of
  asset, cancels the proposals in conflict and rebuilds the receipt. \<open>TradeExpiry\<close>
  (\<^verbatim>\<open>SqliteTradeExpiryRepository.js\<close>) expires trades under leases. A stored snapshot is a value
  of the datatype \<open>snapshot\<close>, not its JSON text. What other components supply is in the
  record \<open>trade_env\<close>: their rows, SHA-256, fresh identifiers, what SQLite enforces, and the hooks
  that publish, notify and synchronise, which may fail and so abort the transaction. Of these
  repositories the read projections, the roster display order and the contents of publications
  and notifications are left out. \<open>TradeSamples\<close> runs the transactions on a small league;
  \<open>TradeLedger\<close> shows how every operation keeps trades, versions and events in step,
  \<open>TradeMoves\<close> what an execution does to ownerships and to proposals in conflict, \<open>TradeLimits\<close>
  that it keeps the retention limits, and \<open>TradeLease\<close> how leases exclude each other.

  Rosters. \<open>RosterPolicy\<close> (\<^verbatim>\<open>rosters/rosterMovementPolicy.js\<close>,
  \<^verbatim>\<open>rosterAssignmentPolicy.js\<close>) checks moves, judges the structural legality of a roster and
  projects it onto its slots; \<open>RosterMovement\<close> (\<^verbatim>\<open>SqliteRosterMovementRepository.js\<close>) is the
  transaction of a move over the same tables as the trades. It shows what a move does to open
  proposals: those for a promoted prospect are cancelled, in the same way as those in conflict with an
  executed trade (the locale \<open>cancellation_loop\<close> of \<open>TradeMoves\<close>, once for each of the two loops),
  while a proposal for another moved player stays open but can no longer be executed.

  Each theory has the code's definitions first and then the lemmas: what acceptance means, what an
  accepted result looks like, and for the stateful parts an invariant of every reachable store by
  rule induction. Equations declared for evaluation let the kernel run the definitions on the
  samples. No definition needs fuel: the loops are structural, and the one search that is
  not (\<open>first_free\<close>) has its termination proof.

  Parameters, arguments of the definitions that use them: SHA-256 of a request, what SQLite
  enforces beyond the statements (\<open>accepts\<close>), guards and hooks that other components supply,
  fresh identifiers, and the runtime's collation of names, of which the laws of the locale
  \<open>collation\<close> are assumed where a theorem needs them.

  Not modelled: transport, jobs, operations tooling, SQL migrations and statistics clients (input
  and output), the retired JSON store, and for now the remaining policies and repositories listed
  in the manifest (leagues, buyout storage, trade reversal, the rest of the draft and of the schedule).
\<close>

end
